(* ===== verification/Prelude.thy ===== *)
theory Prelude
  imports Main "HOL-Library.Word" "HOL-Library.Signed_Division" "HOL-Library.Multiset"
begin

text \<open>
  Shared vocabulary of the development: the machine integer types of the firmware
  (\<open>stdint.h\<close> on the 32-bit Cortex-M4 target), C's integer rules where HOL differs from
  them, the loop combinator for the counted loops over device lists, and the generic
  lemmas on lists and folds that the component theories share.
\<close>

section \<open>Machine integers\<close>

type_synonym u8 = "8 word"
type_synonym u16 = "16 word"
type_synonym u32 = "32 word"
type_synonym s16 = "16 word" \<comment> \<open>\<open>int16_t\<close>: the same bits, read with \<open>sint\<close>\<close>
type_synonym s32 = "32 word" \<comment> \<open>\<open>int32_t\<close>: the same bits, read with \<open>sint\<close>\<close>

text \<open>
  Arithmetic on operands narrower than \<open>int\<close> is done by C in \<open>int\<close> after promotion.
  Where the result fits it is written with HOL integers (\<open>uint\<close>, \<open>sint\<close>); where it may
  leave the range of \<open>int\<close>, \<open>c_int\<close> is the two's complement value the target computes
  (the C standard leaves signed overflow undefined).
\<close>

definition c_int :: "int \<Rightarrow> int" where
  "c_int x = sint (word_of_int x :: s32)"

text \<open>
  Unsigned division: the standard leaves a zero divisor undefined; the Cortex-M4 \<open>UDIV\<close>
  instruction returns 0 when \<open>DIV_0_TRP\<close> is clear, as it is here (no code of the
  repository sets it).
\<close>

definition udiv32 :: "u32 \<Rightarrow> u32 \<Rightarrow> u32" where
  "udiv32 a b = (if b = 0 then 0 else a div b)"

lemma udiv32_zero [simp]: "udiv32 a 0 = 0"
  by (simp add: udiv32_def)

lemma unat_udiv32: "unat (udiv32 a b) = unat a div unat b"
  by (simp add: udiv32_def unat_div)

section \<open>Counted loops\<close>

text \<open>
  \<open>for(n = 0; n < N; n++) body\<close>, with no exit from the body, is \<open>for_loop N body\<close>.
\<close>

definition for_loop :: "nat \<Rightarrow> (nat \<Rightarrow> 's \<Rightarrow> 's) \<Rightarrow> 's \<Rightarrow> 's" where
  "for_loop N body s = fold body [0..<N] s"

lemma for_loop_0 [simp]: "for_loop 0 body s = s"
  by (simp add: for_loop_def)

lemma for_loop_Suc: "for_loop (Suc N) body s = body N (for_loop N body s)"
  by (simp add: for_loop_def)

text \<open>The simplifier unrolls a loop with a numeral bound.\<close>

lemma for_loop_1 [simp]: "for_loop (Suc 0) body s = body 0 s"
  by (simp add: for_loop_Suc)

lemma for_loop_numeral [simp]:
  "for_loop (numeral k) body s = body (pred_numeral k) (for_loop (pred_numeral k) body s)"
  by (simp add: numeral_eq_Suc for_loop_Suc)

lemma for_loop_invariant:
  assumes "I s" and "\<And>n t. n < N \<Longrightarrow> I t \<Longrightarrow> I (body n t)"
  shows "I (for_loop N body s)"
  using assms(2)
proof (induction N)
  case 0
  show ?case by (simp add: assms(1))
next
  case (Suc N)
  then show ?case by (simp add: for_loop_Suc)
qed

text \<open>A field that no iteration writes is unchanged by the loop.\<close>

lemma for_loop_frame:
  assumes "\<And>n t. sel (body n t) = sel t"
  shows "sel (for_loop N body s) = sel s"
  by (induction N) (simp_all add: for_loop_Suc assms)

lemma for_loop_induct:
  assumes "I 0 s" and "\<And>n t. n < N \<Longrightarrow> I n t \<Longrightarrow> I (Suc n) (body n t)"
  shows "I N (for_loop N body s)"
  using assms(2)
proof (induction N)
  case 0
  show ?case using assms(1) by simp
next
  case (Suc N)
  then show ?case by (simp add: for_loop_Suc)
qed

section \<open>Lists updated by index\<close>

lemma append_last:
  "length l = n \<Longrightarrow> (l @ [x])[n := v] = l @ [v]" "length l = n \<Longrightarrow> (l @ [x]) ! n = x"
  by auto

lemma list_update_Ball: "(\<forall>x \<in> set l. P x) \<Longrightarrow> (i < length l \<Longrightarrow> P v) \<Longrightarrow> \<forall>x \<in> set (l[i := v]). P x"
  by (cases "i < length l") (auto simp: list_update_beyond dest!: set_update_subset_insert[THEN subsetD])

lemma list_all_update:
  "(\<forall>x \<in> set l. P x) \<Longrightarrow> (\<And>x. P x \<Longrightarrow> P (g x)) \<Longrightarrow> \<forall>x \<in> set (l[i := g (l ! i)]). P x"
  by (rule list_update_Ball) auto

lemma nth_list_update_if:
  "i < length xs \<Longrightarrow> xs[i := v] ! j = (if j = i then v else xs ! j)"
  by simp

lemma length_filter_upt_le: "length (filter P [0..<n]) \<le> n"
  using length_filter_le[of P "[0..<n]"] by simp

lemma set_filter_upt: "set (filter P [0..<n]) = {i. i < n \<and> P i}"
  by auto

lemma length_filter_all:
  "length (filter P xs) = length xs \<longleftrightarrow> (\<forall>x\<in>set xs. P x)"
proof (induction xs)
  case (Cons a xs)
  have "length (filter P xs) \<le> length xs" by (rule length_filter_le)
  then have "length (filter P xs) \<noteq> Suc (length xs)" by linarith
  with Cons show ?case by simp
qed simp

lemma length_filter_upt_all:
  "length (filter P [0..<n]) = n \<longleftrightarrow> (\<forall>i<n. P i)"
  using length_filter_all[of P "[0..<n]"] by (simp add: Ball_def)

lemma length_filter_upt_none:
  "length (filter P [0..<n]) = 0 \<longleftrightarrow> (\<forall>i<n. \<not> P i)"
  by (auto simp: filter_empty_conv)

text \<open>
  The facts that say which part of the state an operation leaves alone are collected as
  \<open>frame\<close>; the ones that say what it establishes as \<open>effect\<close>.
\<close>

named_theorems frame \<open>fields an operation does not write\<close>
named_theorems effect \<open>what an operation establishes\<close>


section \<open>Devices that can be switched\<close>

text \<open>
  The interface \<open>IDevSwitch\<close>: what the system relies on when it starts and stops the devices of
  a list. \<open>commanded\<close> is the command the device holds, \<open>ready\<close> the condition under which a
  start is obeyed, \<open>stoppable\<close> the one under which a stop is.
\<close>

locale dev_switch =
  fixes open_dev :: "nat \<Rightarrow> 's \<Rightarrow> 's"
    and close_dev :: "nat \<Rightarrow> 's \<Rightarrow> 's"
    and commanded :: "nat \<Rightarrow> 's \<Rightarrow> bool"
    and ready :: "nat \<Rightarrow> 's \<Rightarrow> bool"
    and stoppable :: "nat \<Rightarrow> 's \<Rightarrow> bool"
    and present :: "nat \<Rightarrow> 's \<Rightarrow> bool"
  assumes open_present: "present i s \<Longrightarrow> present j (open_dev i s) = present j s"
    and close_present: "present i s \<Longrightarrow> present j (close_dev i s) = present j s"
    and open_ready: "present i s \<Longrightarrow> ready j (open_dev i s) = ready j s"
    and close_ready: "present i s \<Longrightarrow> ready j (close_dev i s) = ready j s"
    and close_stoppable: "present i s \<Longrightarrow> stoppable j (close_dev i s) = stoppable j s"
    and open_commanded: "present i s \<Longrightarrow>
      commanded j (open_dev i s) \<longleftrightarrow> commanded j s \<or> (j = i \<and> ready i s)"
    and close_commanded: "present i s \<Longrightarrow>
      commanded j (close_dev i s) \<longleftrightarrow> commanded j s \<and> \<not> (j = i \<and> stoppable i s)"
begin

lemma fold_open:
  "(\<And>i. i \<in> set is \<Longrightarrow> present i s) \<Longrightarrow>
    (\<forall>j. present j (fold open_dev is s) = present j s) \<and>
    (\<forall>j. ready j (fold open_dev is s) = ready j s) \<and>
    (\<forall>j. commanded j (fold open_dev is s) \<longleftrightarrow> commanded j s \<or> (j \<in> set is \<and> ready j s))"
  by (induction "is" arbitrary: s) (auto simp: open_present open_ready open_commanded)

lemma fold_close:
  "(\<And>i. i \<in> set is \<Longrightarrow> present i s) \<Longrightarrow>
    (\<forall>j. present j (fold close_dev is s) = present j s) \<and>
    (\<forall>j. ready j (fold close_dev is s) = ready j s) \<and>
    (\<forall>j. stoppable j (fold close_dev is s) = stoppable j s) \<and>
    (\<forall>j. commanded j (fold close_dev is s) \<longleftrightarrow> commanded j s \<and> \<not> (j \<in> set is \<and> stoppable j s))"
  by (induction "is" arbitrary: s)
    (auto simp: close_present close_ready close_stoppable close_commanded)

text \<open>Loops over all \<open>n\<close> devices.\<close>

lemma open_all:
  assumes "\<And>i. i < n \<Longrightarrow> present i s"
  shows "commanded j (for_loop n open_dev s) \<longleftrightarrow> commanded j s \<or> (j < n \<and> ready j s)"
  using fold_open[of "[0..<n]" s] assms by (auto simp: for_loop_def)

lemma close_all:
  assumes "\<And>i. i < n \<Longrightarrow> present i s"
  shows "commanded j (for_loop n close_dev s) \<longleftrightarrow> commanded j s \<and> \<not> (j < n \<and> stoppable j s)"
  using fold_close[of "[0..<n]" s] assms by (auto simp: for_loop_def)

text \<open>Stopping every commanded and stoppable device leaves none commanded, in any order.\<close>

lemma close_perm:
  assumes "\<And>i. i \<in> set is \<Longrightarrow> present i s"
    and "\<And>j. commanded j s \<Longrightarrow> j \<in> set is \<and> stoppable j s"
  shows "\<not> commanded j (fold close_dev is s)"
  using fold_close[of "is" s] assms by auto

end

end
