(* ===== verification/Timers.thy ===== *)
theory Timers
  imports Prelude
begin

text \<open>
  The software timers: the part of the uC/OS-III timer manager the firmware uses
  (\<open>uCOS/uCOS_III/Source/os_tmr.c\<close>, configured by \<open>uC_CFG/os_cfg.h\<close> with argument and object
  type checks on) and the wrapper \<open>Module/md_timer.c\<close> that every component calls.
  The kernel is running and no call comes from an interrupt, so the \<open>OSRunning\<close> and
  \<open>OSIntNestingCtr\<close> checks pass; \<open>OS_TmrLock\<close> and \<open>OS_TmrUnlock\<close> only serialise the calls.
  Timers are named by the structure field that holds them.
\<close>

section \<open>State\<close>

datatype tmr_id =
    sSysPollTmr | sExAirFanCtrlTmr | sExAirFanRequestTimeTmr
  | sModeChangeTmr nat | sModeChangePeriodTmr nat
  | sExAirFanTmr nat | sModularRoofTmr nat
  | sCO2SensorTmr nat | sTempHumiOutTmr nat | sTempHumiInTmr nat

text \<open>Function pointers are the names of the callbacks the firmware registers.\<close>

datatype tmr_cb =
    SysPollCB | ExAirFanCtrlCB | ExAirFanRequestTimeCB
  | ModeChangeTimeCB | ModeChangePeriodTimeCB
  | ExAirFanTimeoutCB | ModularRoofTimeoutCB
  | CO2SensorTimeoutCB | TempHumiSensorTimeoutCB

datatype tmr_state = OS_TMR_STATE_UNUSED | OS_TMR_STATE_STOPPED
  | OS_TMR_STATE_RUNNING | OS_TMR_STATE_COMPLETED

datatype tmr_opt = OS_OPT_TMR_NONE | OS_OPT_TMR_ONE_SHOT | OS_OPT_TMR_PERIODIC

datatype os_err = OS_ERR_NONE | OS_ERR_OBJ_TYPE | OS_ERR_OPT_INVALID
  | OS_ERR_TMR_INACTIVE | OS_ERR_TMR_STOPPED
  | OS_ERR_TMR_INVALID_DLY | OS_ERR_TMR_INVALID_PERIOD | OS_ERR_TMR_INVALID_CALLBACK

record os_tmr =
  TypeIsTmr :: bool      \<comment> \<open>\<open>Type == OS_OBJ_TYPE_TMR\<close>\<close>
  State :: tmr_state
  Dly :: u32
  Remain :: u32
  Period :: u32
  Opt :: tmr_opt
  CallbackPtr :: "tmr_cb option"

text \<open>
  The doubly linked list from \<open>OSTmrListPtr\<close> through \<open>NextPtr\<close>/\<open>PrevPtr\<close> is the list of the
  timers on it, head first.
\<close>

record os =
  os_tmrs :: "tmr_id \<Rightarrow> os_tmr"
  OSTmrList :: "tmr_id list"
  OSTmrTickCtr :: u32

text \<open>A timer object of zero-initialised memory, and one \<open>OS_TmrClr\<close> has cleared.\<close>

definition tmr_zero :: os_tmr where
  "tmr_zero = \<lparr>TypeIsTmr = False, State = OS_TMR_STATE_UNUSED, Dly = 0, Remain = 0,
               Period = 0, Opt = OS_OPT_TMR_NONE, CallbackPtr = None\<rparr>"

definition upd_tmr :: "tmr_id \<Rightarrow> (os_tmr \<Rightarrow> os_tmr) \<Rightarrow> 'z os_scheme \<Rightarrow> 'z os_scheme" where
  "upd_tmr k f s = s\<lparr>os_tmrs := (os_tmrs s)(k := f (os_tmrs s k))\<rparr>"

section \<open>The kernel's operations\<close>

definition OSTmrStateGet :: "tmr_id \<Rightarrow> 'z os_scheme \<Rightarrow> tmr_state \<times> os_err" where
  "OSTmrStateGet k s =
     (if \<not> TypeIsTmr (os_tmrs s k) then (OS_TMR_STATE_UNUSED, OS_ERR_OBJ_TYPE)
      else (State (os_tmrs s k), OS_ERR_NONE))"

text \<open>
  \<open>OSTmrCreate\<close> clears \<open>NextPtr\<close>: a timer created again while it is on the list would cut the
  list behind itself. \<open>cut_after\<close> says so; \<open>xTimerRegist\<close> below never lets it happen.
\<close>

definition cut_after :: "tmr_id \<Rightarrow> tmr_id list \<Rightarrow> tmr_id list" where
  "cut_after k l = (if k \<in> set l then takeWhile (\<lambda>x. x \<noteq> k) l @ [k] else l)"

definition OSTmrCreate ::
  "tmr_id \<Rightarrow> u32 \<Rightarrow> u32 \<Rightarrow> tmr_opt \<Rightarrow> tmr_cb option \<Rightarrow> 'z os_scheme \<Rightarrow> os_err \<times> 'z os_scheme" where
  "OSTmrCreate k dly period opt cb s =
     (if opt = OS_OPT_TMR_PERIODIC \<and> period = 0 then (OS_ERR_TMR_INVALID_PERIOD, s)
      else if opt = OS_OPT_TMR_PERIODIC \<and> cb = None then (OS_ERR_TMR_INVALID_CALLBACK, s)
      else if opt = OS_OPT_TMR_ONE_SHOT \<and> dly = 0 then (OS_ERR_TMR_INVALID_DLY, s)
      else if opt = OS_OPT_TMR_NONE then (OS_ERR_OPT_INVALID, s)
      else (OS_ERR_NONE,
            (upd_tmr k (\<lambda>_. \<lparr>TypeIsTmr = True, State = OS_TMR_STATE_STOPPED, Dly = dly,
                             Remain = 0, Period = period, Opt = opt, CallbackPtr = cb\<rparr>) s)
              \<lparr>OSTmrList := cut_after k (OSTmrList s)\<rparr>))"

definition OS_TmrUnlink :: "tmr_id \<Rightarrow> 'z os_scheme \<Rightarrow> 'z os_scheme" where
  "OS_TmrUnlink k s =
     (upd_tmr k (\<lambda>t. t\<lparr>State := OS_TMR_STATE_STOPPED\<rparr>) s)
       \<lparr>OSTmrList := remove1 k (OSTmrList s)\<rparr>"

definition OS_TmrClr :: "tmr_id \<Rightarrow> 'z os_scheme \<Rightarrow> 'z os_scheme" where
  "OS_TmrClr k s = upd_tmr k (\<lambda>_. tmr_zero) s"

definition OSTmrDel :: "tmr_id \<Rightarrow> 'z os_scheme \<Rightarrow> os_err \<times> 'z os_scheme" where
  "OSTmrDel k s =
     (if \<not> TypeIsTmr (os_tmrs s k) then (OS_ERR_OBJ_TYPE, s)
      else case State (os_tmrs s k) of
        OS_TMR_STATE_RUNNING \<Rightarrow> (OS_ERR_NONE, OS_TmrClr k (OS_TmrUnlink k s))
      | OS_TMR_STATE_STOPPED \<Rightarrow> (OS_ERR_NONE, OS_TmrClr k s)
      | OS_TMR_STATE_COMPLETED \<Rightarrow> (OS_ERR_NONE, OS_TmrClr k s)
      | OS_TMR_STATE_UNUSED \<Rightarrow> (OS_ERR_TMR_INACTIVE, s))"

definition OSTmrStart :: "tmr_id \<Rightarrow> 'z os_scheme \<Rightarrow> os_err \<times> 'z os_scheme" where
  "OSTmrStart k s =
     (if \<not> TypeIsTmr (os_tmrs s k) then (OS_ERR_OBJ_TYPE, s)
      else case State (os_tmrs s k) of
        OS_TMR_STATE_RUNNING \<Rightarrow> (OS_ERR_NONE, upd_tmr k (\<lambda>t. t\<lparr>Remain := Dly t\<rparr>) s)
      | OS_TMR_STATE_UNUSED \<Rightarrow> (OS_ERR_TMR_INACTIVE, s)
      | _ \<Rightarrow> (OS_ERR_NONE,
              (upd_tmr k (\<lambda>t. t\<lparr>State := OS_TMR_STATE_RUNNING,
                              Remain := (if Dly t = 0 then Period t else Dly t)\<rparr>) s)
                \<lparr>OSTmrList := k # OSTmrList s\<rparr>))"

text \<open>Stopping with \<open>OS_OPT_TMR_NONE\<close>, the only option the firmware uses.\<close>

definition OSTmrStop :: "tmr_id \<Rightarrow> 'z os_scheme \<Rightarrow> os_err \<times> 'z os_scheme" where
  "OSTmrStop k s =
     (if \<not> TypeIsTmr (os_tmrs s k) then (OS_ERR_OBJ_TYPE, s)
      else case State (os_tmrs s k) of
        OS_TMR_STATE_RUNNING \<Rightarrow> (OS_ERR_NONE, OS_TmrUnlink k s)
      | OS_TMR_STATE_UNUSED \<Rightarrow> (OS_ERR_TMR_INACTIVE, s)
      | _ \<Rightarrow> (OS_ERR_TMR_STOPPED, s))"

definition OSTmrRemainGet :: "tmr_id \<Rightarrow> 'z os_scheme \<Rightarrow> u32 \<times> os_err" where
  "OSTmrRemainGet k s =
     (if \<not> TypeIsTmr (os_tmrs s k) then (0, OS_ERR_OBJ_TYPE)
      else case State (os_tmrs s k) of
        OS_TMR_STATE_RUNNING \<Rightarrow> (Remain (os_tmrs s k), OS_ERR_NONE)
      | OS_TMR_STATE_STOPPED \<Rightarrow>
          ((if Opt (os_tmrs s k) = OS_OPT_TMR_PERIODIC \<and> Dly (os_tmrs s k) = 0
            then Period (os_tmrs s k) else Dly (os_tmrs s k)), OS_ERR_NONE)
      | OS_TMR_STATE_COMPLETED \<Rightarrow> (0, OS_ERR_NONE)
      | OS_TMR_STATE_UNUSED \<Rightarrow> (0, OS_ERR_TMR_INACTIVE))"

section \<open>The timer task\<close>

text \<open>
  One pass of \<open>OS_TmrTask\<close> (every 1/1000 s, \<open>OS_CFG_TMR_TASK_RATE_HZ\<close>). The successor is read
  before the callback runs; a callback may unlink it, and then its own \<open>NextPtr\<close> is null, which
  \<open>next_ptr\<close> gives for a timer that is not on the list. \<open>run\<close> executes a callback.
  The fuel bounds the timers visited; \<open>tmr_loop_quiet\<close> shows the length of the list is enough
  when callbacks do not touch the list.
\<close>

fun next_ptr :: "tmr_id \<Rightarrow> tmr_id list \<Rightarrow> tmr_id option" where
  "next_ptr k [] = None"
| "next_ptr k (x # xs) =
     (if x = k then (case xs of [] \<Rightarrow> None | y # _ \<Rightarrow> Some y) else next_ptr k xs)"

definition OS_TmrTask_one ::
  "(tmr_cb \<Rightarrow> tmr_id \<Rightarrow> 'z os_scheme \<Rightarrow> 'z os_scheme) \<Rightarrow> tmr_id \<Rightarrow> 'z os_scheme \<Rightarrow> 'z os_scheme"
where
  "OS_TmrTask_one run k s =
     (let s1 = upd_tmr k (\<lambda>t. t\<lparr>Remain := Remain t - 1\<rparr>) s in
      if Remain (os_tmrs s1 k) = 0 then
        let s2 = (if Opt (os_tmrs s1 k) = OS_OPT_TMR_PERIODIC
                  then upd_tmr k (\<lambda>t. t\<lparr>Remain := Period t\<rparr>) s1
                  else upd_tmr k (\<lambda>t. t\<lparr>State := OS_TMR_STATE_COMPLETED\<rparr>) (OS_TmrUnlink k s1))
        in (case CallbackPtr (os_tmrs s2 k) of None \<Rightarrow> s2 | Some cb \<Rightarrow> run cb k s2)
      else s1)"

fun tmr_loop ::
  "nat \<Rightarrow> (tmr_cb \<Rightarrow> tmr_id \<Rightarrow> 'z os_scheme \<Rightarrow> 'z os_scheme) \<Rightarrow> tmr_id option \<Rightarrow> 'z os_scheme
    \<Rightarrow> 'z os_scheme option"
where
  "tmr_loop fuel run None s = Some s"
| "tmr_loop 0 run (Some k) s = None"
| "tmr_loop (Suc fuel) run (Some k) s =
     tmr_loop fuel run (next_ptr k (OSTmrList s)) (OS_TmrTask_one run k s)"

definition OS_TmrTask_pass ::
  "(tmr_cb \<Rightarrow> tmr_id \<Rightarrow> 'z os_scheme \<Rightarrow> 'z os_scheme) \<Rightarrow> 'z os_scheme \<Rightarrow> 'z os_scheme option"
where
  "OS_TmrTask_pass run s =
     (let s1 = s\<lparr>OSTmrTickCtr := OSTmrTickCtr s + 1\<rparr> in
      tmr_loop (length (OSTmrList s)) run
        (case OSTmrList s of [] \<Rightarrow> None | k # _ \<Rightarrow> Some k) s1)"

section \<open>The wrapper \<open>md_timer.c\<close>\<close>

definition TMR_TICK_PER_SECOND :: u32 where
  "TMR_TICK_PER_SECOND = 1000"

text \<open>
  The first half of \<open>xTimerRegist\<close>: create the timer if it is unused, stop it if it runs, and
  create it afresh if its delay or period changed.
\<close>

definition xTimerRegist_prepare ::
  "tmr_id \<Rightarrow> u32 \<Rightarrow> u32 \<Rightarrow> tmr_opt \<Rightarrow> tmr_cb \<Rightarrow> 'z os_scheme \<Rightarrow> os_err \<times> 'z os_scheme"
where
  "xTimerRegist_prepare k dly period opt p_callback s =
     (let (sTmrState, err0) = OSTmrStateGet k s;
          (err1, s1) = (if sTmrState = OS_TMR_STATE_UNUSED
                        then OSTmrCreate k dly period opt (Some p_callback) s
                        else if sTmrState = OS_TMR_STATE_RUNNING then OSTmrStop k s
                        else (err0, s))
      in if Dly (os_tmrs s1 k) \<noteq> dly \<or> Period (os_tmrs s1 k) \<noteq> period
         then OSTmrCreate k dly period opt (Some p_callback) (snd (OSTmrDel k s1))
         else (err1, s1))"

text \<open>
  The callback is given by its name, which the timer stores, and by its behaviour, which is run
  at once when \<open>xExcuteCallback\<close> is set. The result is the C return value and the new state.
\<close>

definition xTimerRegist ::
  "tmr_id \<Rightarrow> u32 \<Rightarrow> u32 \<Rightarrow> tmr_opt \<Rightarrow> tmr_cb \<Rightarrow> ('z os_scheme \<Rightarrow> 'z os_scheme) \<Rightarrow> bool
    \<Rightarrow> 'z os_scheme \<Rightarrow> bool \<times> 'z os_scheme"
where
  "xTimerRegist k ulDlyTime_s ulPeriod_s opt p_callback callback xExcuteCallback s =
     (let (err, s2) = xTimerRegist_prepare k (ulDlyTime_s * TMR_TICK_PER_SECOND)
                        (ulPeriod_s * TMR_TICK_PER_SECOND) opt p_callback s
      in if err = OS_ERR_NONE then
           let s3 = (if xExcuteCallback then callback s2 else s2);
               (err4, s4) = OSTmrStart k s3
           in (err4 = OS_ERR_NONE, s4)
         else (False, s2))"

definition ulGetTmrElapsedTime :: "tmr_id \<Rightarrow> 'z os_scheme \<Rightarrow> u32" where
  "ulGetTmrElapsedTime k s = udiv32 (fst (OSTmrRemainGet k s)) TMR_TICK_PER_SECOND"

definition usGetTmrState :: "tmr_id \<Rightarrow> 'z os_scheme \<Rightarrow> tmr_state" where
  "usGetTmrState k s = fst (OSTmrStateGet k s)"

definition xTmrStop :: "tmr_id \<Rightarrow> 'z os_scheme \<Rightarrow> bool \<times> 'z os_scheme" where
  "xTmrStop k s = (let (err, s1) = OSTmrStop k s in (err = OS_ERR_NONE, s1))"

section \<open>Well-formedness\<close>

text \<open>
  The list holds each running timer once and no other timer, and a timer has the object type
  of timers exactly when it has been created and not deleted.
\<close>

definition tmr_wf :: "'z os_scheme \<Rightarrow> bool" where
  "tmr_wf s \<longleftrightarrow> distinct (OSTmrList s) \<and>
     (\<forall>k. k \<in> set (OSTmrList s) \<longleftrightarrow> State (os_tmrs s k) = OS_TMR_STATE_RUNNING) \<and>
     (\<forall>k. TypeIsTmr (os_tmrs s k) \<longleftrightarrow> State (os_tmrs s k) \<noteq> OS_TMR_STATE_UNUSED)"

abbreviation tmr_running :: "tmr_id \<Rightarrow> 'z os_scheme \<Rightarrow> bool" where
  "tmr_running k s \<equiv> usGetTmrState k s = OS_TMR_STATE_RUNNING"

lemma os_tmrs_upd_tmr [simp]:
  "os_tmrs (upd_tmr k f s) j = (if j = k then f (os_tmrs s k) else os_tmrs s j)"
  by (simp add: upd_tmr_def)

lemma OSTmrList_upd_tmr [simp]: "OSTmrList (upd_tmr k f s) = OSTmrList s"
  by (simp add: upd_tmr_def)

lemma tmr_wfD:
  assumes "tmr_wf s"
  shows "distinct (OSTmrList s)"
    and "k \<in> set (OSTmrList s) \<longleftrightarrow> State (os_tmrs s k) = OS_TMR_STATE_RUNNING"
    and "TypeIsTmr (os_tmrs s k) \<longleftrightarrow> State (os_tmrs s k) \<noteq> OS_TMR_STATE_UNUSED"
  using assms by (auto simp: tmr_wf_def)

lemma usGetTmrState_wf: "tmr_wf s \<Longrightarrow> usGetTmrState k s = State (os_tmrs s k)"
  by (auto simp: usGetTmrState_def OSTmrStateGet_def tmr_wf_def)

lemma tmr_running_State: "tmr_running k s \<Longrightarrow> State (os_tmrs s k) = OS_TMR_STATE_RUNNING"
  by (simp add: usGetTmrState_def OSTmrStateGet_def split: if_splits)

lemma tmr_wf_create:
  assumes "tmr_wf s" and "State (os_tmrs s k) \<noteq> OS_TMR_STATE_RUNNING"
  shows "tmr_wf (snd (OSTmrCreate k dly period opt cb s))"
  using assms by (auto simp: OSTmrCreate_def tmr_wf_def cut_after_def)

lemma tmr_wf_unlink_state:
  "tmr_wf s \<Longrightarrow> State (os_tmrs s k) = OS_TMR_STATE_RUNNING \<Longrightarrow> tmr_wf (OS_TmrUnlink k s)"
  by (auto simp: OS_TmrUnlink_def tmr_wf_def)

lemma tmr_wf_stop: "tmr_wf s \<Longrightarrow> tmr_wf (snd (OSTmrStop k s))"
  by (auto simp: OSTmrStop_def tmr_wf_unlink_state split: tmr_state.split)

lemma tmr_wf_clr:
  "tmr_wf s \<Longrightarrow> State (os_tmrs s k) \<noteq> OS_TMR_STATE_RUNNING \<Longrightarrow> tmr_wf (OS_TmrClr k s)"
  by (auto simp: OS_TmrClr_def tmr_wf_def tmr_zero_def)

lemma State_unlink [simp]:
  "State (os_tmrs (OS_TmrUnlink k s) j) = (if j = k then OS_TMR_STATE_STOPPED else State (os_tmrs s j))"
  by (simp add: OS_TmrUnlink_def)

lemma tmr_wf_del: "tmr_wf s \<Longrightarrow> tmr_wf (snd (OSTmrDel k s))"
  by (auto simp: OSTmrDel_def tmr_wf_unlink_state tmr_wf_clr split: tmr_state.split)

lemma tmr_wf_start: "tmr_wf s \<Longrightarrow> tmr_wf (snd (OSTmrStart k s))"
  by (auto simp: OSTmrStart_def tmr_wf_def split: tmr_state.split)


section \<open>Arming and stopping a timer\<close>

text \<open>The arguments \<open>OSTmrCreate\<close> accepts.\<close>

definition tmr_args_ok :: "tmr_opt \<Rightarrow> u32 \<Rightarrow> u32 \<Rightarrow> bool" where
  "tmr_args_ok opt dly period \<longleftrightarrow>
     (opt = OS_OPT_TMR_ONE_SHOT \<and> dly \<noteq> 0) \<or> (opt = OS_OPT_TMR_PERIODIC \<and> period \<noteq> 0)"

lemma OSTmrCreate_ok:
  "tmr_args_ok opt dly period \<Longrightarrow> OSTmrCreate k dly period opt (Some cb) s =
     (OS_ERR_NONE,
      (upd_tmr k (\<lambda>_. \<lparr>TypeIsTmr = True, State = OS_TMR_STATE_STOPPED, Dly = dly,
                       Remain = 0, Period = period, Opt = opt, CallbackPtr = Some cb\<rparr>) s)
        \<lparr>OSTmrList := cut_after k (OSTmrList s)\<rparr>)"
  by (auto simp: tmr_args_ok_def OSTmrCreate_def)

lemma OSTmrCreate_err:
  "\<not> tmr_args_ok opt dly period \<Longrightarrow>
     fst (OSTmrCreate k dly period opt (Some cb) s) \<noteq> OS_ERR_NONE \<and>
     snd (OSTmrCreate k dly period opt (Some cb) s) = s"
  by (cases opt) (auto simp: tmr_args_ok_def OSTmrCreate_def)

lemma OSTmrCreate_other [simp]:
  "j \<noteq> k \<Longrightarrow> os_tmrs (snd (OSTmrCreate k dly period opt cb s)) j = os_tmrs s j"
  by (simp add: OSTmrCreate_def)

lemma OSTmrCreate_State:
  "State (os_tmrs s k) \<noteq> OS_TMR_STATE_RUNNING \<Longrightarrow>
    State (os_tmrs (snd (OSTmrCreate k dly period opt cb s)) k) \<noteq> OS_TMR_STATE_RUNNING"
  by (simp add: OSTmrCreate_def)

lemma OSTmrDel_other [simp]: "j \<noteq> k \<Longrightarrow> os_tmrs (snd (OSTmrDel k s)) j = os_tmrs s j"
  by (auto simp: OSTmrDel_def OS_TmrClr_def OS_TmrUnlink_def split: tmr_state.split)

lemma OSTmrDel_State:
  "tmr_wf s \<Longrightarrow> State (os_tmrs (snd (OSTmrDel k s)) k) = OS_TMR_STATE_UNUSED"
  by (auto simp: OSTmrDel_def OS_TmrClr_def tmr_zero_def tmr_wf_def split: tmr_state.split)

lemma OSTmrStop_other [simp]: "j \<noteq> k \<Longrightarrow> os_tmrs (snd (OSTmrStop k s)) j = os_tmrs s j"
  by (auto simp: OSTmrStop_def OS_TmrUnlink_def split: tmr_state.split)

lemma OSTmrStart_other [simp]: "j \<noteq> k \<Longrightarrow> os_tmrs (snd (OSTmrStart k s)) j = os_tmrs s j"
  by (auto simp: OSTmrStart_def split: tmr_state.split)

text \<open>The first half of the registration, state by state.\<close>

lemma prepare_split:
  assumes wf: "tmr_wf s"
    and create: "\<And>s1. tmr_wf s1 \<Longrightarrow> State (os_tmrs s1 k) \<noteq> OS_TMR_STATE_RUNNING \<Longrightarrow>
        (\<forall>j. j \<noteq> k \<longrightarrow> os_tmrs s1 j = os_tmrs s j) \<Longrightarrow>
        P (OSTmrCreate k dly period opt (Some cb) s1)"
    and same: "\<And>s1. tmr_wf s1 \<Longrightarrow>
        State (os_tmrs s1 k) \<in> {OS_TMR_STATE_STOPPED, OS_TMR_STATE_COMPLETED} \<Longrightarrow>
        (\<forall>j. j \<noteq> k \<longrightarrow> os_tmrs s1 j = os_tmrs s j) \<Longrightarrow>
        Dly (os_tmrs s1 k) = dly \<Longrightarrow> Period (os_tmrs s1 k) = period \<Longrightarrow> P (OS_ERR_NONE, s1)"
  shows "P (xTimerRegist_prepare k dly period opt cb s)"
proof -
  let ?again = "\<lambda>s1. OSTmrCreate k dly period opt (Some cb) (snd (OSTmrDel k s1))"
  have again: "P (?again s1)"
    if "tmr_wf s1" "\<forall>j. j \<noteq> k \<longrightarrow> os_tmrs s1 j = os_tmrs s j" for s1
    by (rule create) (use that in \<open>auto simp: tmr_wf_del OSTmrDel_State\<close>)
  note type = tmr_wfD(3)[OF wf, of k]
  show ?thesis
  proof (cases "State (os_tmrs s k)")
    case OS_TMR_STATE_UNUSED
    then have nr: "State (os_tmrs s k) \<noteq> OS_TMR_STATE_RUNNING" by simp
    let ?c = "OSTmrCreate k dly period opt (Some cb) s"
    have c: "P ?c" by (rule create) (use wf nr in auto)
    have "P (?again (snd ?c))" by (rule again) (use tmr_wf_create[OF wf nr] in auto)
    with c OS_TMR_STATE_UNUSED type show ?thesis
      by (auto simp: xTimerRegist_prepare_def OSTmrStateGet_def Let_def split: prod.split)
  next
    case OS_TMR_STATE_RUNNING
    let ?s1 = "OS_TmrUnlink k s"
    have s1: "tmr_wf ?s1" by (rule tmr_wf_unlink_state[OF wf OS_TMR_STATE_RUNNING])
    have other: "\<forall>j. j \<noteq> k \<longrightarrow> os_tmrs ?s1 j = os_tmrs s j" by (simp add: OS_TmrUnlink_def)
    show ?thesis
      using OS_TMR_STATE_RUNNING type again[OF s1 other] same[OF s1 _ other]
      by (simp add: xTimerRegist_prepare_def OSTmrStateGet_def OSTmrStop_def)
  next
    case OS_TMR_STATE_STOPPED
    then show ?thesis using type again[OF wf] same[OF wf]
      by (simp add: xTimerRegist_prepare_def OSTmrStateGet_def)
  next
    case OS_TMR_STATE_COMPLETED
    then show ?thesis using type again[OF wf] same[OF wf]
      by (simp add: xTimerRegist_prepare_def OSTmrStateGet_def)
  qed
qed

lemma prepare_result:
  assumes "tmr_wf s"
  shows "tmr_wf (snd (xTimerRegist_prepare k dly period opt cb s)) \<and>
    State (os_tmrs (snd (xTimerRegist_prepare k dly period opt cb s)) k) \<noteq> OS_TMR_STATE_RUNNING \<and>
    (\<forall>j. j \<noteq> k \<longrightarrow> os_tmrs (snd (xTimerRegist_prepare k dly period opt cb s)) j = os_tmrs s j)"
  by (rule prepare_split[OF assms])
    (auto simp: tmr_wf_create OSTmrCreate_State)

lemma prepare_ok:
  assumes "tmr_wf s" and "tmr_args_ok opt dly period"
  shows "fst (xTimerRegist_prepare k dly period opt cb s) = OS_ERR_NONE \<and>
    State (os_tmrs (snd (xTimerRegist_prepare k dly period opt cb s)) k)
      \<in> {OS_TMR_STATE_STOPPED, OS_TMR_STATE_COMPLETED} \<and>
    Dly (os_tmrs (snd (xTimerRegist_prepare k dly period opt cb s)) k) = dly \<and>
    Period (os_tmrs (snd (xTimerRegist_prepare k dly period opt cb s)) k) = period"
  by (rule prepare_split[OF assms(1)]) (auto simp: OSTmrCreate_ok[OF assms(2)])

lemma OSTmrStart_arms:
  assumes "State (os_tmrs s k) \<in> {OS_TMR_STATE_STOPPED, OS_TMR_STATE_COMPLETED}" and "tmr_wf s"
  shows "OSTmrStart k s = (OS_ERR_NONE,
    (upd_tmr k (\<lambda>t. t\<lparr>State := OS_TMR_STATE_RUNNING,
                    Remain := (if Dly t = 0 then Period t else Dly t)\<rparr>) s)
      \<lparr>OSTmrList := k # OSTmrList s\<rparr>)"
  using assms tmr_wfD(3)[OF assms(2), of k] by (auto simp: OSTmrStart_def)


definition keeps_timer :: "tmr_id \<Rightarrow> ('z os_scheme \<Rightarrow> 'z os_scheme) \<Rightarrow> bool" where
  "keeps_timer k f \<longleftrightarrow> (\<forall>s. tmr_wf s \<longrightarrow> os_tmrs (f s) k = os_tmrs s k)"

definition keeps_tmr_wf :: "('z os_scheme \<Rightarrow> 'z os_scheme) \<Rightarrow> bool" where
  "keeps_tmr_wf f \<longleftrightarrow> (\<forall>s. tmr_wf s \<longrightarrow> tmr_wf (f s))"

lemma xTimerRegist_wf:
  assumes "tmr_wf s" and "xExec \<Longrightarrow> keeps_tmr_wf f"
  shows "tmr_wf (snd (xTimerRegist k d p opt cb f xExec s))"
proof -
  let ?r = "xTimerRegist_prepare k (d * TMR_TICK_PER_SECOND) (p * TMR_TICK_PER_SECOND) opt cb s"
  have "tmr_wf (snd ?r)" using prepare_result[OF assms(1)] by blast
  moreover have "tmr_wf (if xExec then f (snd ?r) else snd ?r)"
    using \<open>tmr_wf (snd ?r)\<close> assms(2) by (simp add: keeps_tmr_wf_def)
  ultimately show ?thesis
    by (cases ?r) (auto simp: xTimerRegist_def Let_def tmr_wf_start split: prod.split
        dest: tmr_wf_start[of _ k])
qed

lemma xTimerRegist_other:
  assumes "tmr_wf s" and "xExec \<Longrightarrow> keeps_timer j f" and "j \<noteq> k"
  shows "os_tmrs (snd (xTimerRegist k d p opt cb f xExec s)) j = os_tmrs s j"
proof -
  let ?r = "xTimerRegist_prepare k (d * TMR_TICK_PER_SECOND) (p * TMR_TICK_PER_SECOND) opt cb s"
  have "os_tmrs (snd ?r) j = os_tmrs s j" using prepare_result[OF assms(1)] assms(3) by blast
  moreover have "os_tmrs (if xExec then f (snd ?r) else snd ?r) j = os_tmrs (snd ?r) j"
    using assms(2) prepare_result[OF assms(1)] by (simp add: keeps_timer_def)
  ultimately show ?thesis
    using OSTmrStart_other[OF assms(3), of "if xExec then f (snd ?r) else snd ?r"]
    by (cases ?r) (auto simp: xTimerRegist_def Let_def split: prod.split)
qed

lemma xTimerRegist_eq:
  assumes "fst (xTimerRegist_prepare k (d * TMR_TICK_PER_SECOND) (p * TMR_TICK_PER_SECOND) opt cb s)
      = OS_ERR_NONE"
    and "s3 = (let s2 = snd (xTimerRegist_prepare k (d * TMR_TICK_PER_SECOND)
               (p * TMR_TICK_PER_SECOND) opt cb s) in if xExec then f s2 else s2)"
  shows "xTimerRegist k d p opt cb f xExec s =
    (fst (OSTmrStart k s3) = OS_ERR_NONE, snd (OSTmrStart k s3))"
  using assms by (simp add: xTimerRegist_def Let_def split_beta)

text \<open>With acceptable arguments the timer runs afterwards, with its full delay to go.\<close>

lemma xTimerRegist_arms:
  assumes wf: "tmr_wf s"
    and ok: "tmr_args_ok opt (d * TMR_TICK_PER_SECOND) (p * TMR_TICK_PER_SECOND)"
    and cb: "xExec \<Longrightarrow> keeps_timer k f \<and> keeps_tmr_wf f"
  shows "fst (xTimerRegist k d p opt cb f xExec s) \<and>
    tmr_running k (snd (xTimerRegist k d p opt cb f xExec s)) \<and>
    Remain (os_tmrs (snd (xTimerRegist k d p opt cb f xExec s)) k) =
      (if d * TMR_TICK_PER_SECOND = 0 then p * TMR_TICK_PER_SECOND else d * TMR_TICK_PER_SECOND)"
proof -
  define s2 where "s2 = snd (xTimerRegist_prepare k (d * TMR_TICK_PER_SECOND)
    (p * TMR_TICK_PER_SECOND) opt cb s)"
  define s3 where "s3 = (if xExec then f s2 else s2)"
  note r = prepare_ok[OF wf ok, of k cb, folded s2_def]
  have wf2: "tmr_wf s2" using prepare_result[OF wf] unfolding s2_def by blast
  have k3: "os_tmrs s3 k = os_tmrs s2 k" using cb wf2 by (simp add: s3_def keeps_timer_def)
  have wf3: "tmr_wf s3" using cb wf2 by (simp add: s3_def keeps_tmr_wf_def)
  have st3: "State (os_tmrs s3 k) \<in> {OS_TMR_STATE_STOPPED, OS_TMR_STATE_COMPLETED}"
    using r k3 by simp
  note start = OSTmrStart_arms[OF st3 wf3]
  have reg: "xTimerRegist k d p opt cb f xExec s = (True, snd (OSTmrStart k s3))"
    using xTimerRegist_eq[of k d p opt cb s s3 xExec f] r start
    by (simp add: s2_def s3_def Let_def)
  have wf4: "tmr_wf (snd (OSTmrStart k s3))" by (rule tmr_wf_start[OF wf3])
  show ?thesis
    using usGetTmrState_wf[OF wf4, of k] r k3 unfolding reg by (simp add: start)
qed

lemma xTmrStop_effect:
  assumes "tmr_wf s"
  shows "tmr_wf (snd (xTmrStop k s))" "\<not> tmr_running k (snd (xTmrStop k s))"
    and "j \<noteq> k \<Longrightarrow> os_tmrs (snd (xTmrStop k s)) j = os_tmrs s j"
proof -
  show wf: "tmr_wf (snd (xTmrStop k s))"
    using tmr_wf_stop[OF assms] by (simp add: xTmrStop_def split: prod.split) (metis snd_conv)
  show "\<not> tmr_running k (snd (xTmrStop k s))"
    using tmr_wfD(3)[OF assms, of k] unfolding usGetTmrState_wf[OF wf]
    by (auto simp: xTmrStop_def OSTmrStop_def split: prod.split tmr_state.split)
  show "j \<noteq> k \<Longrightarrow> os_tmrs (snd (xTmrStop k s)) j = os_tmrs s j"
    using OSTmrStop_other[of j k s] by (cases "OSTmrStop k s") (simp add: xTmrStop_def)
qed

lemma tmr_running_cong:
  "os_tmrs s' k = os_tmrs s k \<Longrightarrow> tmr_running k s' = tmr_running k s"
  by (simp add: usGetTmrState_def OSTmrStateGet_def)


section \<open>Time passes\<close>

text \<open>
  Callbacks that do not touch the timers. Under them one pass of the timer task acts on each
  listed timer separately, as \<open>tick1\<close> says.
\<close>

definition quiet :: "(tmr_cb \<Rightarrow> tmr_id \<Rightarrow> 'z os_scheme \<Rightarrow> 'z os_scheme) \<Rightarrow> bool" where
  "quiet run \<longleftrightarrow> (\<forall>cb k s. os_tmrs (run cb k s) = os_tmrs s \<and> OSTmrList (run cb k s) = OSTmrList s)"

definition tick1 :: "os_tmr \<Rightarrow> os_tmr" where
  "tick1 t = (if Remain t = 1
     then (if Opt t = OS_OPT_TMR_PERIODIC then t\<lparr>Remain := Period t\<rparr>
           else t\<lparr>Remain := 0, State := OS_TMR_STATE_COMPLETED\<rparr>)
     else t\<lparr>Remain := Remain t - 1\<rparr>)"

definition expires :: "os_tmr \<Rightarrow> bool" where
  "expires t \<longleftrightarrow> Remain t = 1 \<and> Opt t \<noteq> OS_OPT_TMR_PERIODIC"

lemma next_ptr_mid: "k \<notin> set xs \<Longrightarrow> next_ptr k (xs @ k # ys) = (case ys of [] \<Rightarrow> None | y # _ \<Rightarrow> Some y)"
  by (induction xs) auto

lemma OS_TmrTask_one_quiet:
  assumes "quiet run"
  shows "os_tmrs (OS_TmrTask_one run k s) = (os_tmrs s)(k := tick1 (os_tmrs s k))"
    and "OSTmrList (OS_TmrTask_one run k s) =
      (if expires (os_tmrs s k) then remove1 k (OSTmrList s) else OSTmrList s)"
  using assms
  by (auto simp: OS_TmrTask_one_def quiet_def tick1_def expires_def Let_def OS_TmrUnlink_def
      upd_tmr_def fun_eq_iff split: option.split)

lemma tmr_loop_quiet:
  assumes q: "quiet run"
  shows "OSTmrList s = xs @ ys \<Longrightarrow> distinct (xs @ ys) \<Longrightarrow> length ys \<le> fuel \<Longrightarrow>
    \<exists>s'. tmr_loop fuel run (case ys of [] \<Rightarrow> None | y # _ \<Rightarrow> Some y) s = Some s' \<and>
      os_tmrs s' = (\<lambda>k. if k \<in> set ys then tick1 (os_tmrs s k) else os_tmrs s k) \<and>
      OSTmrList s' = xs @ filter (\<lambda>k. \<not> expires (os_tmrs s k)) ys"
proof (induction ys arbitrary: xs s fuel)
  case Nil
  then show ?case by simp
next
  case (Cons y ys)
  then obtain f where fuel: "fuel = Suc f" by (cases fuel) auto
  let ?s1 = "OS_TmrTask_one run y s"
  note one = OS_TmrTask_one_quiet[OF q, of y s]
  let ?xs = "if expires (os_tmrs s y) then xs else xs @ [y]"
  have l1: "OSTmrList ?s1 = ?xs @ ys" and d1: "distinct (?xs @ ys)"
    using Cons.prems(1,2) by (auto simp: one remove1_append)
  have y: "y \<notin> set ys" "y \<notin> set xs" using Cons.prems(2) by auto
  obtain s' where s': "tmr_loop f run (case ys of [] \<Rightarrow> None | y # _ \<Rightarrow> Some y) ?s1 = Some s'"
    "os_tmrs s' = (\<lambda>k. if k \<in> set ys then tick1 (os_tmrs ?s1 k) else os_tmrs ?s1 k)"
    "OSTmrList s' = ?xs @ filter (\<lambda>k. \<not> expires (os_tmrs ?s1 k)) ys"
    using Cons.IH[OF l1 d1, of f] Cons.prems(3) fuel by auto
  have "filter (\<lambda>k. \<not> expires (os_tmrs ?s1 k)) ys = filter (\<lambda>k. \<not> expires (os_tmrs s k)) ys"
    using y by (intro filter_cong) (auto simp: one)
  then show ?case
    using s' y Cons.prems(1) by (auto simp: fuel next_ptr_mid one fun_eq_iff)
qed

lemma OS_TmrTask_pass_quiet:
  assumes "quiet run" and "tmr_wf s"
  shows "\<exists>s'. OS_TmrTask_pass run s = Some s' \<and>
    os_tmrs s' = (\<lambda>k. if State (os_tmrs s k) = OS_TMR_STATE_RUNNING
                      then tick1 (os_tmrs s k) else os_tmrs s k) \<and>
    OSTmrList s' = filter (\<lambda>k. \<not> expires (os_tmrs s k)) (OSTmrList s)"
proof -
  let ?s1 = "s\<lparr>OSTmrTickCtr := OSTmrTickCtr s + 1\<rparr>"
  have "OSTmrList ?s1 = [] @ OSTmrList s" and "distinct ([] @ OSTmrList s)"
    using tmr_wfD(1)[OF assms(2)] by simp_all
  from tmr_loop_quiet[OF assms(1) this order_refl]
  show ?thesis using tmr_wfD(2)[OF assms(2)]
    by (auto simp: OS_TmrTask_pass_def Let_def fun_eq_iff)
qed

text \<open>\<open>n\<close> passes in a row.\<close>

fun passes ::
  "(tmr_cb \<Rightarrow> tmr_id \<Rightarrow> 'z os_scheme \<Rightarrow> 'z os_scheme) \<Rightarrow> nat \<Rightarrow> 'z os_scheme \<Rightarrow> 'z os_scheme option"
where
  "passes run 0 s = Some s"
| "passes run (Suc n) s =
     (case OS_TmrTask_pass run s of None \<Rightarrow> None | Some s' \<Rightarrow> passes run n s')"

lemma tmr_wf_pass:
  assumes "quiet run" and "tmr_wf s" and "OS_TmrTask_pass run s = Some s'"
  shows "tmr_wf s'"
  using OS_TmrTask_pass_quiet[OF assms(1,2)] assms(2,3)
  by (auto simp: tmr_wf_def tick1_def expires_def)

text \<open>A running one-shot timer with \<open>r\<close> ticks to go.\<close>

definition one_shot_at :: "tmr_id \<Rightarrow> nat \<Rightarrow> 'z os_scheme \<Rightarrow> bool" where
  "one_shot_at k r s \<longleftrightarrow> State (os_tmrs s k) = OS_TMR_STATE_RUNNING \<and>
     Opt (os_tmrs s k) = OS_OPT_TMR_ONE_SHOT \<and> unat (Remain (os_tmrs s k)) = r \<and> 0 < r"

lemma one_shot_pass:
  assumes q: "quiet run" and wf: "tmr_wf s" and at: "one_shot_at k (Suc r) s"
    and p: "OS_TmrTask_pass run s = Some s'"
  shows "if r = 0 then State (os_tmrs s' k) = OS_TMR_STATE_COMPLETED else one_shot_at k r s'"
proof -
  have t: "os_tmrs s' k = tick1 (os_tmrs s k)"
    using OS_TmrTask_pass_quiet[OF q wf] p at by (auto simp: one_shot_at_def)
  have R: "unat (Remain (os_tmrs s k)) = Suc r" using at by (simp add: one_shot_at_def)
  have one: "Remain (os_tmrs s k) = 1 \<longleftrightarrow> r = 0"
    using R by (simp add: word_unat_eq_iff)
  have "Remain (os_tmrs s k) \<noteq> 0" using R by auto
  then have "unat (Remain (os_tmrs s k) - 1) = r" using R by (simp add: unat_minus_one)
  with t one at show ?thesis by (auto simp: tick1_def one_shot_at_def)
qed

lemma one_shot_passes:
  assumes q: "quiet run"
  shows "tmr_wf s \<Longrightarrow> one_shot_at k (r + n) s \<Longrightarrow>
    \<exists>s'. passes run n s = Some s' \<and> tmr_wf s' \<and>
      (if r = 0 \<and> 0 < n then State (os_tmrs s' k) = OS_TMR_STATE_COMPLETED
       else one_shot_at k r s')"
proof (induction n arbitrary: s)
  case 0
  then show ?case by simp
next
  case (Suc n)
  obtain s1 where s1: "OS_TmrTask_pass run s = Some s1"
    using OS_TmrTask_pass_quiet[OF q Suc.prems(1)] by blast
  have wf1: "tmr_wf s1" by (rule tmr_wf_pass[OF q Suc.prems(1) s1])
  have at: "one_shot_at k (Suc (r + n)) s" using Suc.prems(2) by simp
  note st = one_shot_pass[OF q Suc.prems(1) at s1]
  show ?case
  proof (cases "r + n = 0")
    case True
    then show ?thesis using st s1 wf1 by simp
  next
    case False
    then have at1: "one_shot_at k (r + n) s1" using st by simp
    show ?thesis using Suc.IH[OF wf1 at1] s1 False by auto
  qed
qed


section \<open>What the wrapper touches\<close>

text \<open>
  Registering without running the callback and stopping write the timer objects and the timer
  list only; as with the output operations the result is given as an update of those fields.
\<close>

definition reg_tmrs :: "tmr_id \<Rightarrow> u32 \<Rightarrow> u32 \<Rightarrow> tmr_opt \<Rightarrow> tmr_cb \<Rightarrow> 'z os_scheme \<Rightarrow> tmr_id \<Rightarrow> os_tmr" where
  "reg_tmrs k d p opt cb s = os_tmrs (snd (xTimerRegist k d p opt cb id False s))"

definition reg_list :: "tmr_id \<Rightarrow> u32 \<Rightarrow> u32 \<Rightarrow> tmr_opt \<Rightarrow> tmr_cb \<Rightarrow> 'z os_scheme \<Rightarrow> tmr_id list" where
  "reg_list k d p opt cb s = OSTmrList (snd (xTimerRegist k d p opt cb id False s))"

definition stop_tmrs :: "tmr_id \<Rightarrow> 'z os_scheme \<Rightarrow> tmr_id \<Rightarrow> os_tmr" where
  "stop_tmrs k s = os_tmrs (snd (xTmrStop k s))"

definition stop_list :: "tmr_id \<Rightarrow> 'z os_scheme \<Rightarrow> tmr_id list" where
  "stop_list k s = OSTmrList (snd (xTmrStop k s))"

definition tmr_only :: "('z os_scheme \<Rightarrow> 'z os_scheme) \<Rightarrow> bool" where
  "tmr_only f \<longleftrightarrow> (\<forall>s. f s = s\<lparr>os_tmrs := os_tmrs (f s), OSTmrList := OSTmrList (f s)\<rparr>)"

lemma tmr_only_comp:
  assumes "tmr_only f" and "tmr_only g"
  shows "tmr_only (\<lambda>s. f (g s))"
  unfolding tmr_only_def
proof
  fix s
  have g: "g s = s\<lparr>os_tmrs := os_tmrs (g s), OSTmrList := OSTmrList (g s)\<rparr>"
    using assms(2) unfolding tmr_only_def by blast
  have "f (g s) = (g s)\<lparr>os_tmrs := os_tmrs (f (g s)), OSTmrList := OSTmrList (f (g s))\<rparr>"
    using assms(1) unfolding tmr_only_def by blast
  also have "\<dots> = s\<lparr>os_tmrs := os_tmrs (f (g s)), OSTmrList := OSTmrList (f (g s))\<rparr>"
    by (subst g) simp
  finally show "f (g s) = s\<lparr>os_tmrs := os_tmrs (f (g s)), OSTmrList := OSTmrList (f (g s))\<rparr>" .
qed

lemma tmr_only_id: "tmr_only (\<lambda>s. s)"
  by (simp add: tmr_only_def)

lemma tmr_only_ops:
  "tmr_only (\<lambda>s. snd (OSTmrCreate k d p opt cb s))" "tmr_only (\<lambda>s. snd (OSTmrDel k s))"
  "tmr_only (\<lambda>s. snd (OSTmrStart k s))" "tmr_only (\<lambda>s. snd (OSTmrStop k s))"
  by (auto simp: tmr_only_def OSTmrCreate_def OSTmrDel_def OSTmrStart_def OSTmrStop_def
      OS_TmrClr_def OS_TmrUnlink_def upd_tmr_def split: tmr_state.split)

lemma tmr_only_eq: "tmr_only f \<Longrightarrow> f s = s\<lparr>os_tmrs := os_tmrs (f s), OSTmrList := OSTmrList (f s)\<rparr>"
  unfolding tmr_only_def by blast

lemma tmr_only_If:
  "tmr_only f \<Longrightarrow> tmr_only g \<Longrightarrow> tmr_only (\<lambda>s. if P s then f s else g s)"
  by (simp add: tmr_only_def)

lemma tmr_only_prepare: "tmr_only (\<lambda>s. snd (xTimerRegist_prepare k d p opt cb s))"
proof -
  let ?one = "\<lambda>s. if fst (OSTmrStateGet k s) = OS_TMR_STATE_UNUSED
      then snd (OSTmrCreate k d p opt (Some cb) s)
      else (if fst (OSTmrStateGet k s) = OS_TMR_STATE_RUNNING then snd (OSTmrStop k s) else s)"
  let ?two = "\<lambda>s. if Dly (os_tmrs s k) \<noteq> d \<or> Period (os_tmrs s k) \<noteq> p
      then snd (OSTmrCreate k d p opt (Some cb) (snd (OSTmrDel k s))) else s"
  have "tmr_only (\<lambda>s. ?two (?one s))"
    by (intro tmr_only_comp[of ?two ?one] tmr_only_If tmr_only_ops tmr_only_id
        tmr_only_comp[of "\<lambda>s. snd (OSTmrCreate k d p opt (Some cb) s)"])
  moreover have "(\<lambda>s. snd (xTimerRegist_prepare k d p opt cb s)) = (\<lambda>s. ?two (?one s))"
    by (rule ext) (simp add: xTimerRegist_prepare_def Let_def split_beta)
  ultimately show ?thesis by (rule forw_subst[rotated])
qed

lemma xTimerRegist_noexec:
  "xTimerRegist k d p opt cb f False = xTimerRegist k d p opt cb id False"
  by (rule ext) (simp add: xTimerRegist_def Let_def split_beta)

lemma xTimerRegist_footprint [frame]:
  "snd (xTimerRegist k d p opt cb f False s) =
     s\<lparr>os_tmrs := reg_tmrs k d p opt cb s, OSTmrList := reg_list k d p opt cb s\<rparr>"
proof -
  let ?prep = "\<lambda>s. xTimerRegist_prepare k (d * TMR_TICK_PER_SECOND) (p * TMR_TICK_PER_SECOND) opt cb s"
  let ?prep' = "\<lambda>s. snd (?prep s)"
  let ?reg = "\<lambda>s. if fst (?prep s) = OS_ERR_NONE then snd (OSTmrStart k (snd (?prep s)))
      else snd (?prep s)"
  have eq: "snd (xTimerRegist k d p opt cb id False s) = ?reg s" for s
    by (simp add: xTimerRegist_def Let_def split_beta)
  have "tmr_only ?reg"
    by (intro tmr_only_If tmr_only_prepare tmr_only_ops
        tmr_only_comp[of "\<lambda>s. snd (OSTmrStart k s)" ?prep'])
  from tmr_only_eq[OF this, of s] show ?thesis
    unfolding xTimerRegist_noexec[of k d p opt cb f] reg_tmrs_def reg_list_def eq .
qed

lemma xTmrStop_footprint [frame]:
  "snd (xTmrStop k s) = s\<lparr>os_tmrs := stop_tmrs k s, OSTmrList := stop_list k s\<rparr>"
proof -
  have "snd (xTmrStop k s) = snd (OSTmrStop k s)" for s :: "'z os_scheme"
    by (simp add: xTmrStop_def split_beta)
  then show ?thesis
    unfolding stop_tmrs_def stop_list_def using tmr_only_eq[OF tmr_only_ops(4)] by metis
qed

section \<open>The contract of the wrapper\<close>

text \<open>
  What the mode control relies on: arming starts one timer and no other, stopping stops one
  and no other. \<open>ok\<close> are the arguments the kernel accepts.
\<close>

locale timer_service =
  fixes running :: "tmr_id \<Rightarrow> 's \<Rightarrow> bool"
    and arm :: "'d \<Rightarrow> tmr_id \<Rightarrow> 's \<Rightarrow> 's"
    and stop :: "tmr_id \<Rightarrow> 's \<Rightarrow> 's"
    and ok :: "'d \<Rightarrow> bool"
    and wf :: "'s \<Rightarrow> bool"
  assumes arm_wf: "wf s \<Longrightarrow> wf (arm d k s)"
    and stop_wf: "wf s \<Longrightarrow> wf (stop k s)"
    and arm_running: "wf s \<Longrightarrow> ok d \<Longrightarrow> running k (arm d k s)"
    and arm_other: "wf s \<Longrightarrow> j \<noteq> k \<Longrightarrow> running j (arm d k s) = running j s"
    and stop_stops: "wf s \<Longrightarrow> \<not> running k (stop k s)"
    and stop_other: "wf s \<Longrightarrow> j \<noteq> k \<Longrightarrow> running j (stop k s) = running j s"
begin

lemma running_arm:
  "wf s \<Longrightarrow> ok d \<Longrightarrow> running j (arm d k s) \<longleftrightarrow> j = k \<or> running j s"
  using arm_running arm_other by metis

lemma running_stop: "wf s \<Longrightarrow> running j (stop k s) \<longleftrightarrow> j \<noteq> k \<and> running j s"
  using stop_stops stop_other by metis

text \<open>Arming only when not running never stops a running timer and always leaves it running.\<close>

lemma running_arm_guarded:
  "wf s \<Longrightarrow> ok d \<Longrightarrow>
    running j (if running k s then s else arm d k s) \<longleftrightarrow> j = k \<or> running j s"
  by (auto simp: running_arm)

lemma stop_all:
  "wf s \<Longrightarrow> wf (fold stop ks s) \<and> (running j (fold stop ks s) \<longleftrightarrow> j \<notin> set ks \<and> running j s)"
  by (induction ks arbitrary: s) (auto simp: stop_wf running_stop)

lemma arm_all:
  "wf s \<Longrightarrow> ok d \<Longrightarrow>
    wf (fold (arm d) ks s) \<and> (running j (fold (arm d) ks s) \<longleftrightarrow> j \<in> set ks \<or> running j s)"
  by (induction ks arbitrary: s) (auto simp: arm_wf running_arm)

end

text \<open>A timer request of the firmware: delay and period in seconds, option and callback.\<close>

record tmr_req =
  req_dly :: u32
  req_period :: u32
  req_opt :: tmr_opt
  req_cb :: tmr_cb

definition arm_req :: "tmr_req \<Rightarrow> tmr_id \<Rightarrow> 'z os_scheme \<Rightarrow> 'z os_scheme" where
  "arm_req r k s =
     snd (xTimerRegist k (req_dly r) (req_period r) (req_opt r) (req_cb r) id False s)"

definition stop_tmr :: "tmr_id \<Rightarrow> 'z os_scheme \<Rightarrow> 'z os_scheme" where
  "stop_tmr k s = snd (xTmrStop k s)"

definition req_ok :: "tmr_req \<Rightarrow> bool" where
  "req_ok r \<longleftrightarrow> tmr_args_ok (req_opt r) (req_dly r * TMR_TICK_PER_SECOND)
      (req_period r * TMR_TICK_PER_SECOND)"

interpretation md_timer: timer_service tmr_running arm_req stop_tmr req_ok tmr_wf
proof (unfold_locales, goal_cases)
  case (1 s d k)
  then show ?case unfolding arm_req_def by (rule xTimerRegist_wf) simp
next
  case (2 s k)
  then show ?case unfolding stop_tmr_def by (rule xTmrStop_effect)
next
  case (3 s d k)
  then show ?case
    unfolding arm_req_def req_ok_def
    using xTimerRegist_arms[OF 3(1), of "req_opt d" "req_dly d" "req_period d" False k id "req_cb d"]
    by simp
next
  case (4 s j k d)
  then show ?case
    unfolding arm_req_def by (intro tmr_running_cong xTimerRegist_other) simp_all
next
  case (5 s k)
  then show ?case unfolding stop_tmr_def by (rule xTmrStop_effect)
next
  case (6 s j k)
  then show ?case unfolding stop_tmr_def by (intro tmr_running_cong xTmrStop_effect(3))
qed

text \<open>A delay of a 16-bit register in minutes never wraps: it is accepted exactly if not zero.\<close>

definition one_shot_minutes :: "u16 \<Rightarrow> tmr_cb \<Rightarrow> tmr_req" where
  "one_shot_minutes m cb = \<lparr>req_dly = ucast m * 60, req_period = 0,
     req_opt = OS_OPT_TMR_ONE_SHOT, req_cb = cb\<rparr>"

lemma one_shot_minutes_ok: "req_ok (one_shot_minutes m cb) \<longleftrightarrow> m \<noteq> 0"
proof -
  have lt: "unat m < 65536" using unsigned_less[of m] by simp
  have "unat ((ucast m :: u32) * 60000) = unat m * 60000"
    using unat_mult_lem[of "ucast m :: u32" 60000, THEN iffD1] lt by (simp add: unsigned_ucast_eq take_bit_nat_eq_self)
  then have "(ucast m :: u32) * 60000 = 0 \<longleftrightarrow> m = 0" by (auto simp: word_unat_eq_iff)
  then show ?thesis
    by (simp add: req_ok_def one_shot_minutes_def tmr_args_ok_def TMR_TICK_PER_SECOND_def mult.assoc)
qed

end
