(* ===== verification/IO.thy ===== *)
theory IO
  imports Timers
begin

unbundle bit_operations_syntax

text \<open>
  The outputs of the controller: \<open>Module/md_io.c\<close> (the pin table), \<open>Module/md_output.c\<close> (relays,
  PWM and DAC7760 current outputs) and the registration half of \<open>Module/md_input.c\<close>.
  The GPIO, PWM and SSP registers the chip driver writes are part of the state. The
  conversions and the receive loop of \<open>md_input.c\<close> are in theory \<open>Inputs\<close>.
\<close>

section \<open>Data\<close>

datatype eCtrlEn = OFF | ON

record IODef =
  Port :: nat
  Pin :: nat

record sAOData =
  ao_lMin :: s32
  ao_lMax :: s32

text \<open>The variables whose addresses are registered with the input module.\<close>

datatype di_var = Fan_eRunningState nat | Fan_xExAirFanErr nat | Fan_xExAirFanRemote nat
datatype ai_var = Fan_usRunningFreq nat

record sAIData =
  ai_lMin :: s32
  ai_lMax :: s32
  pvAIVal :: "ai_var option"

text \<open>
  \<open>gpio\<close> is the \<open>PIN\<close> register of each port, \<open>pwm_match\<close> the match registers and \<open>pwm_ena\<close> the
  enable bits of PWM1, \<open>ssp1_sent\<close> the bytes written to SSP1, newest first.
\<close>

record io = os +
  gpio :: "nat \<Rightarrow> u32"
  pwm_match :: "nat \<Rightarrow> u32"
  pwm_ena :: "nat \<Rightarrow> bool"
  ssp1_sent :: "u8 list"
  AnalogOutputData :: "sAOData list"
  AnalogInputData :: "sAIData list"
  DigitalInputData :: "di_var option list"
  AnalogInputuA :: "s16 list"
  SaInput :: u8
  LogicInput1 :: u8
  LogicInput2 :: u8
  ControllerID :: u8

text \<open>
  Memory after reset: timers unused, no input registered. \<open>m\<close> is the rest of the state.
\<close>

definition io_zero :: "'z \<Rightarrow> 'z io_scheme" where
  "io_zero m = \<lparr>os_tmrs = (\<lambda>_. tmr_zero), OSTmrList = [], OSTmrTickCtr = 0,
     gpio = (\<lambda>_. 0), pwm_match = (\<lambda>_. 0), pwm_ena = (\<lambda>_. False), ssp1_sent = [],
     AnalogOutputData = replicate 8 \<lparr>ao_lMin = 0, ao_lMax = 0\<rparr>,
     AnalogInputData = replicate 8 \<lparr>ai_lMin = 0, ai_lMax = 0, pvAIVal = None\<rparr>,
     DigitalInputData = replicate 15 None, AnalogInputuA = replicate 8 0,
     SaInput = 0, LogicInput1 = 0, LogicInput2 = 0, ControllerID = 1, \<dots> = m\<rparr>"

abbreviation AO_NUM :: nat where "AO_NUM \<equiv> 8"
abbreviation DO_NUM :: nat where "DO_NUM \<equiv> 13"
abbreviation PWM_NUM :: nat where "PWM_NUM \<equiv> 6"
abbreviation AI_NUM :: nat where "AI_NUM \<equiv> 8"
abbreviation DI_NUM :: nat where "DI_NUM \<equiv> 15"

definition io_pin :: "nat \<Rightarrow> nat \<Rightarrow> IODef" where
  "io_pin port pin = \<lparr>Port = port, Pin = pin\<rparr>"

lemma io_pin_simps [simp]: "Port (io_pin p q) = p" "Pin (io_pin p q) = q"
  by (simp_all add: io_pin_def)

definition DO_IOList :: "IODef list" where
  "DO_IOList = [io_pin 0 0, io_pin 0 1, io_pin 0 10, io_pin 0 11, io_pin 2 13, io_pin 2 12,
     io_pin 0 19, io_pin 0 16, io_pin 2 9, io_pin 2 8, io_pin 2 7, io_pin 2 6, io_pin 2 11]"

definition DAC1LATCH :: IODef where "DAC1LATCH = io_pin 0 5"
definition DAC1CLR :: IODef where "DAC1CLR = io_pin 0 4"
definition DAC2LATCH :: IODef where "DAC2LATCH = io_pin 2 5"
definition DAC2CLR :: IODef where "DAC2CLR = io_pin 2 4"

section \<open>The chip registers\<close>

definition GPIO_ReadValue :: "nat \<Rightarrow> 'z io_scheme \<Rightarrow> u32" where
  "GPIO_ReadValue port s = gpio s port"

definition GPIO_SetValue :: "nat \<Rightarrow> u32 \<Rightarrow> 'z io_scheme \<Rightarrow> 'z io_scheme" where
  "GPIO_SetValue port m s = s\<lparr>gpio := (gpio s)(port := gpio s port OR m)\<rparr>"

definition GPIO_ClearValue :: "nat \<Rightarrow> u32 \<Rightarrow> 'z io_scheme \<Rightarrow> 'z io_scheme" where
  "GPIO_ClearValue port m s = s\<lparr>gpio := (gpio s)(port := gpio s port AND NOT m)\<rparr>"

definition PWM_MatchUpdate :: "nat \<Rightarrow> u32 \<Rightarrow> 'z io_scheme \<Rightarrow> 'z io_scheme" where
  "PWM_MatchUpdate ch v s = s\<lparr>pwm_match := (pwm_match s)(ch := v)\<rparr>"

definition PWM_ChannelCmd :: "nat \<Rightarrow> bool \<Rightarrow> 'z io_scheme \<Rightarrow> 'z io_scheme" where
  "PWM_ChannelCmd ch en s = s\<lparr>pwm_ena := (pwm_ena s)(ch := en)\<rparr>"

definition SSP_SendData :: "u8 \<Rightarrow> 'z io_scheme \<Rightarrow> 'z io_scheme" where
  "SSP_SendData b s = s\<lparr>ssp1_sent := b # ssp1_sent s\<rparr>"

section \<open>Relay outputs\<close>

definition vDigitalOutputInit :: "'z io_scheme \<Rightarrow> 'z io_scheme" where
  "vDigitalOutputInit = for_loop DO_NUM
     (\<lambda>i s. GPIO_ClearValue (Port (DO_IOList ! i)) (push_bit (Pin (DO_IOList ! i)) 1) s)"

definition vDigitalOutputCtrl :: "u8 \<Rightarrow> eCtrlEn \<Rightarrow> 'z io_scheme \<Rightarrow> 'z io_scheme" where
  "vDigitalOutputCtrl ucChannel eCtrl s =
     (if 0 < ucChannel \<and> ucChannel \<le> 13 then
        let psIO = DO_IOList ! (unat ucChannel - 1);
            ulPortVal = GPIO_ReadValue (Port psIO) s
        in (if eCtrl = ON then
              (if drop_bit (Pin psIO) ulPortVal AND 1 = 0
               then GPIO_SetValue (Port psIO) (push_bit (Pin psIO) 1) s else s)
            else
              (if drop_bit (Pin psIO) ulPortVal AND 1 = 1
               then GPIO_ClearValue (Port psIO) (push_bit (Pin psIO) 1) s else s))
      else s)"

definition vDigitalOutputToggle :: "u8 \<Rightarrow> 'z io_scheme \<Rightarrow> 'z io_scheme" where
  "vDigitalOutputToggle ucChannel s =
     (if 0 < ucChannel \<and> ucChannel \<le> 13 then
        let psIO = DO_IOList ! (unat ucChannel - 1);
            ulMask = push_bit (Pin psIO) 1;
            eCtrl = drop_bit (Pin psIO) (GPIO_ReadValue (Port psIO) s AND ulMask) AND 1
        in (if eCtrl \<noteq> 0 then vDigitalOutputCtrl ucChannel OFF s
            else vDigitalOutputCtrl ucChannel ON s)
      else s)"

section \<open>Current outputs\<close>

definition vAnalogOutputSetRange :: "u8 \<Rightarrow> s32 \<Rightarrow> s32 \<Rightarrow> 'z io_scheme \<Rightarrow> 'z io_scheme" where
  "vAnalogOutputSetRange ucChannel lMin lMax s =
     (if 0 < ucChannel \<and> ucChannel \<le> 8
      then s\<lparr>AnalogOutputData := (AnalogOutputData s)
              [unat ucChannel - 1 := \<lparr>ao_lMin = lMin, ao_lMax = lMax\<rparr>]\<rparr>
      else s)"

definition vAnalogOutputRegist :: "u8 \<Rightarrow> s32 \<Rightarrow> s32 \<Rightarrow> 'z io_scheme \<Rightarrow> 'z io_scheme" where
  "vAnalogOutputRegist ucChannel lMin lMax s =
     (if 0 < ucChannel \<and> ucChannel \<le> 8
      then s\<lparr>AnalogOutputData := (AnalogOutputData s)
              [unat ucChannel - 1 := \<lparr>ao_lMin = lMin, ao_lMax = lMax\<rparr>]\<rparr>
      else s)"

definition DAC7760_REG_DATA :: u32 where "DAC7760_REG_DATA = 0x010000"

definition vSetDAC7760IO :: "IODef \<Rightarrow> 'z io_scheme \<Rightarrow> 'z io_scheme" where
  "vSetDAC7760IO psIO = GPIO_SetValue (Port psIO) (push_bit (Pin psIO) 1)"

definition vClrDAC7760IO :: "IODef \<Rightarrow> 'z io_scheme \<Rightarrow> 'z io_scheme" where
  "vClrDAC7760IO psIO = GPIO_ClearValue (Port psIO) (push_bit (Pin psIO) 1)"

text \<open>
  The delays and the wait for the transmit FIFO to empty have no effect on the registers.
  Bytes go out most significant first.
\<close>

definition vSendDataToDAC7760 :: "u8 \<Rightarrow> u32 \<Rightarrow> 'z io_scheme \<Rightarrow> 'z io_scheme" where
  "vSendDataToDAC7760 ucSuperIO ulData s =
     (let ucSpidata = [ucast (drop_bit 16 ulData AND 0xFF), ucast (drop_bit 8 ulData AND 0xFF),
                       ucast (ulData AND 0xFF)];
          send = for_loop 3 (\<lambda>i. SSP_SendData (ucSpidata ! i))
      in if ucSuperIO = 1 then
           vSetDAC7760IO DAC1LATCH (vClrDAC7760IO DAC1LATCH (send (vClrDAC7760IO DAC1CLR
             (vSetDAC7760IO DAC1LATCH (vSetDAC7760IO DAC1CLR s)))))
         else if ucSuperIO = 2 then
           vSetDAC7760IO DAC2LATCH (vClrDAC7760IO DAC2LATCH (send (vClrDAC7760IO DAC2CLR
             (vSetDAC7760IO DAC2LATCH (vSetDAC7760IO DAC2CLR s)))))
         else s)"

text \<open>The code sent for a current of \<open>uA\<close> microampere.\<close>

definition DAC7760_code :: "u16 \<Rightarrow> u16" where
  "DAC7760_code uA =
     (let ulDataToSet = word_of_int (((uint uA - 4000) * 4096) sdiv 16000) :: u16
      in if ulDataToSet \<ge> 4096 then 4095 else ulDataToSet)"

definition vSetDAC7760OutputuA :: "u8 \<Rightarrow> u16 \<Rightarrow> 'z io_scheme \<Rightarrow> 'z io_scheme" where
  "vSetDAC7760OutputuA ucSuperIO uA s =
     vSendDataToDAC7760 ucSuperIO (DAC7760_REG_DATA OR push_bit 4 (ucast (DAC7760_code uA))) s"

definition vSetDAC7760RealVal :: "u8 \<Rightarrow> s32 \<Rightarrow> s32 \<Rightarrow> u32 \<Rightarrow> 'z io_scheme \<Rightarrow> 'z io_scheme" where
  "vSetDAC7760RealVal ucSuperIO lMin lMax ulRealData s =
     (let uA = ucast (udiv32 (16000 * (ulRealData - lMin)) (lMax - lMin) + 4000)
      in vSetDAC7760OutputuA ucSuperIO uA s)"

definition PWM_data :: "s32 \<Rightarrow> s32 \<Rightarrow> u32 \<Rightarrow> u32" where
  "PWM_data lMin lMax ulRealData = udiv32 (160 * (ulRealData - lMin)) (lMax - lMin) + 40"

definition vSetPWMRealVal :: "u8 \<Rightarrow> s32 \<Rightarrow> s32 \<Rightarrow> u32 \<Rightarrow> 'z io_scheme \<Rightarrow> 'z io_scheme" where
  "vSetPWMRealVal pwmChannel lMin lMax ulRealData s =
     PWM_MatchUpdate (unat pwmChannel) (PWM_data lMin lMax ulRealData)
       (PWM_ChannelCmd (unat pwmChannel) True s)"

definition vAnalogOutputSetRealVal :: "u8 \<Rightarrow> u32 \<Rightarrow> 'z io_scheme \<Rightarrow> 'z io_scheme" where
  "vAnalogOutputSetRealVal ucChannel ulRealData s =
     (if 0 < ucChannel \<and> ucChannel \<le> 8 then
        let d = AnalogOutputData s ! (unat ucChannel - 1) in
        if ucChannel \<le> 6 then vSetPWMRealVal ucChannel (ao_lMin d) (ao_lMax d) ulRealData s
        else vSetDAC7760RealVal (ucChannel - 6) (ao_lMin d) (ao_lMax d) ulRealData s
      else s)"

definition vAnalogOutputDisable :: "u8 \<Rightarrow> 'z io_scheme \<Rightarrow> 'z io_scheme" where
  "vAnalogOutputDisable ucChannel s =
     (if 0 < ucChannel \<and> ucChannel \<le> 8 then
        if ucChannel \<le> 6 then PWM_ChannelCmd (unat ucChannel) False s
        else vSendDataToDAC7760 (ucChannel - 6) DAC7760_REG_DATA s
      else s)"

section \<open>Registration of inputs\<close>

definition vDigitalInputRegist :: "u8 \<Rightarrow> di_var \<Rightarrow> 'z io_scheme \<Rightarrow> 'z io_scheme" where
  "vDigitalInputRegist ucChannel pvVal s =
     (if 0 < ucChannel \<and> ucChannel \<le> 15
      then s\<lparr>DigitalInputData := (DigitalInputData s)[unat ucChannel - 1 := Some pvVal]\<rparr>
      else s)"

definition vAnalogInputRegist :: "u8 \<Rightarrow> s32 \<Rightarrow> s32 \<Rightarrow> ai_var \<Rightarrow> 'z io_scheme \<Rightarrow> 'z io_scheme" where
  "vAnalogInputRegist ucChannel lMin lMax pvVal s =
     (if 0 < ucChannel \<and> ucChannel \<le> 8
      then s\<lparr>AnalogInputData := (AnalogInputData s)[unat ucChannel - 1 :=
               \<lparr>ai_lMin = lMin, ai_lMax = lMax, pvAIVal = Some pvVal\<rparr>]\<rparr>
      else s)"

definition vAnalogInputSetRange :: "u8 \<Rightarrow> s32 \<Rightarrow> s32 \<Rightarrow> 'z io_scheme \<Rightarrow> 'z io_scheme" where
  "vAnalogInputSetRange ucChannel lMin lMax s =
     (if 0 < ucChannel \<and> ucChannel \<le> 8
      then s\<lparr>AnalogInputData := (AnalogInputData s)[unat ucChannel - 1 :=
               (AnalogInputData s ! (unat ucChannel - 1))\<lparr>ai_lMax := lMax, ai_lMin := lMin\<rparr>]\<rparr>
      else s)"

section \<open>What the outputs touch\<close>

text \<open>
  An output operation writes chip registers only. Each footprint lemma says so by giving the
  result as an update of those fields, so that the simplifier sees that every other field,
  those of the extensions of the state included, is unchanged.
\<close>

definition out_gpio :: "u8 \<Rightarrow> eCtrlEn \<Rightarrow> (nat \<Rightarrow> u32) \<Rightarrow> nat \<Rightarrow> u32" where
  "out_gpio ucChannel eCtrl g =
     (if 0 < ucChannel \<and> ucChannel \<le> 13 then
        let p = DO_IOList ! (unat ucChannel - 1) in
        if (eCtrl = ON) = (drop_bit (Pin p) (g (Port p)) AND 1 = 0)
        then g(Port p := if eCtrl = ON then g (Port p) OR push_bit (Pin p) 1
                         else g (Port p) AND NOT (push_bit (Pin p) 1))
        else g
      else g)"

lemma and_one_cases: "(w :: u32) AND 1 = 0 \<or> w AND 1 = 1"
  using odd_iff_mod_2_eq_one[of w] by (auto simp: and_one_eq even_iff_mod_2_eq_zero)

lemma vDigitalOutputCtrl_footprint [frame]:
  "vDigitalOutputCtrl ch e s = s\<lparr>gpio := out_gpio ch e (gpio s)\<rparr>"
  using and_one_cases[of "drop_bit (Pin (DO_IOList ! (unat ch - 1)))
      (gpio s (Port (DO_IOList ! (unat ch - 1))))"]
  by (cases e) (auto simp: vDigitalOutputCtrl_def out_gpio_def GPIO_ReadValue_def
      GPIO_SetValue_def GPIO_ClearValue_def Let_def)

definition ao_gpio :: "u8 \<Rightarrow> u32 \<Rightarrow> 'z io_scheme \<Rightarrow> nat \<Rightarrow> u32" where
  "ao_gpio ch v s = gpio (vAnalogOutputSetRealVal ch v s)"

definition ao_match :: "u8 \<Rightarrow> u32 \<Rightarrow> 'z io_scheme \<Rightarrow> nat \<Rightarrow> u32" where
  "ao_match ch v s = pwm_match (vAnalogOutputSetRealVal ch v s)"

definition ao_ena :: "u8 \<Rightarrow> u32 \<Rightarrow> 'z io_scheme \<Rightarrow> nat \<Rightarrow> bool" where
  "ao_ena ch v s = pwm_ena (vAnalogOutputSetRealVal ch v s)"

definition ao_sent :: "u8 \<Rightarrow> u32 \<Rightarrow> 'z io_scheme \<Rightarrow> u8 list" where
  "ao_sent ch v s = ssp1_sent (vAnalogOutputSetRealVal ch v s)"

lemmas chip_defs = vSetPWMRealVal_def vSetDAC7760RealVal_def vSetDAC7760OutputuA_def
  vSendDataToDAC7760_def vSetDAC7760IO_def vClrDAC7760IO_def GPIO_SetValue_def
  GPIO_ClearValue_def SSP_SendData_def PWM_MatchUpdate_def PWM_ChannelCmd_def

lemma vAnalogOutputSetRealVal_footprint [frame]:
  "vAnalogOutputSetRealVal ch v s = s\<lparr>gpio := ao_gpio ch v s, pwm_match := ao_match ch v s,
     pwm_ena := ao_ena ch v s, ssp1_sent := ao_sent ch v s\<rparr>"
  by (simp add: ao_gpio_def ao_match_def ao_ena_def ao_sent_def vAnalogOutputSetRealVal_def
      chip_defs Let_def)

section \<open>Relays are independent\<close>

text \<open>The relay of a channel is energised when its pin is high.\<close>

definition DO_on :: "u8 \<Rightarrow> 'z io_scheme \<Rightarrow> bool" where
  "DO_on ch s \<longleftrightarrow> bit (gpio s (Port (DO_IOList ! (unat ch - 1)))) (Pin (DO_IOList ! (unat ch - 1)))"

abbreviation DO_channel :: "u8 \<Rightarrow> bool" where
  "DO_channel ch \<equiv> 0 < ch \<and> ch \<le> 13"

lemma DO_channel_index: "DO_channel ch \<Longrightarrow> unat ch - 1 < DO_NUM"
  by (auto simp: word_le_nat_alt word_less_nat_alt)

lemma DO_channel_inj: "DO_channel a \<Longrightarrow> DO_channel b \<Longrightarrow> unat a - 1 = unat b - 1 \<longleftrightarrow> a = b"
  by (auto simp: word_le_nat_alt word_less_nat_alt word_unat_eq_iff)

lemma DO_pins_distinct: "distinct (map (\<lambda>p. (Port p, Pin p)) DO_IOList)"
  by (simp add: DO_IOList_def)

lemma length_DO_IOList [simp]: "length DO_IOList = DO_NUM"
  by (simp add: DO_IOList_def)

lemma DO_pins_inj:
  assumes "i < DO_NUM" and "j < DO_NUM"
  shows "Port (DO_IOList ! i) = Port (DO_IOList ! j) \<and> Pin (DO_IOList ! i) = Pin (DO_IOList ! j)
    \<longleftrightarrow> i = j"
  using nth_eq_iff_index_eq[OF DO_pins_distinct, of i j] assms by auto

lemma DO_pins_range: "p \<in> set DO_IOList \<Longrightarrow> Pin p < 32"
  by (auto simp: DO_IOList_def)

lemma DO_pin_range: "i < DO_NUM \<Longrightarrow> Pin (DO_IOList ! i) < 32"
  by (simp add: DO_pins_range)

text \<open>The simplifier writes \<open>push_bit p 1\<close> as \<open>2 ^ p\<close>.\<close>

lemma bit_set_pin: "p < 32 \<Longrightarrow> bit (w OR 2 ^ p :: u32) q \<longleftrightarrow> bit w q \<or> q = p"
  by (auto simp: bit_simps)

lemma bit_clear_pin: "bit (w AND NOT (2 ^ p) :: u32) q \<longleftrightarrow> bit w q \<and> q \<noteq> p"
  by (auto simp: bit_simps dest: bit_imp_le_length)

lemma drop_bit_and_1: "(drop_bit p w AND 1 :: u32) = 0 \<longleftrightarrow> \<not> bit w p"
  by (simp add: and_one_eq bit_iff_odd_drop_bit odd_iff_mod_2_eq_one)

text \<open>Writing one relay sets that relay and leaves the twelve others as they were.\<close>

lemma vDigitalOutputCtrl_effect:
  assumes ch: "DO_channel ch" and ch': "DO_channel ch'"
  shows "DO_on ch' (vDigitalOutputCtrl ch e s) = (if ch' = ch then e = ON else DO_on ch' s)"
proof -
  let ?i = "unat ch - 1" and ?j = "unat ch' - 1"
  let ?p = "DO_IOList ! ?i" and ?q = "DO_IOList ! ?j"
  note range = DO_channel_index[OF ch] DO_channel_index[OF ch']
  have same: "Port ?q = Port ?p \<and> Pin ?q = Pin ?p \<longleftrightarrow> ch' = ch"
    using DO_pins_inj[OF range(2,1)] DO_channel_inj[OF ch' ch] by simp
  show ?thesis
    using same ch DO_pin_range[OF range(1)]
    by (cases e; cases "Port ?q = Port ?p")
      (auto simp: vDigitalOutputCtrl_footprint out_gpio_def Let_def DO_on_def bit_set_pin
        bit_clear_pin drop_bit_and_1)
qed

lemma vDigitalOutputCtrl_invalid: "\<not> DO_channel ch \<Longrightarrow> vDigitalOutputCtrl ch e s = s"
  by (auto simp: vDigitalOutputCtrl_def)

lemma vDigitalOutputToggle_effect:
  assumes "DO_channel ch" and "DO_channel ch'"
  shows "DO_on ch' (vDigitalOutputToggle ch s) = (if ch' = ch then \<not> DO_on ch' s else DO_on ch' s)"
proof -
  let ?p = "DO_IOList ! (unat ch - 1)"
  have pin: "Pin ?p < 32" using DO_pin_range[OF DO_channel_index[OF assms(1)]] .
  have "drop_bit (Pin ?p) (gpio s (Port ?p) AND push_bit (Pin ?p) 1) AND 1 = 0 \<longleftrightarrow> \<not> DO_on ch s"
    unfolding drop_bit_and_1 DO_on_def using pin by (simp add: bit_and_iff bit_exp_iff)
  then show ?thesis
    using assms by (simp add: vDigitalOutputToggle_def Let_def GPIO_ReadValue_def
        vDigitalOutputCtrl_effect del: not_gr_zero)
qed

text \<open>The DAC control pins are no relay pins: setting a current does not move a relay.\<close>

lemma DAC_pins_no_DO:
  "d \<in> {DAC1LATCH, DAC1CLR, DAC2LATCH, DAC2CLR} \<Longrightarrow> p \<in> set DO_IOList \<Longrightarrow>
   \<not> (Port d = Port p \<and> Pin d = Pin p)"
  by (auto simp: DO_IOList_def DAC1LATCH_def DAC1CLR_def DAC2LATCH_def DAC2CLR_def)

lemma DAC_pin_range: "d \<in> {DAC1LATCH, DAC1CLR, DAC2LATCH, DAC2CLR} \<Longrightarrow> Pin d < 32"
  by (auto simp: DAC1LATCH_def DAC1CLR_def DAC2LATCH_def DAC2CLR_def)

lemma DO_on_DAC_pin:
  assumes "DO_channel ch" and d: "d \<in> {DAC1LATCH, DAC1CLR, DAC2LATCH, DAC2CLR}"
  shows "DO_on ch (vSetDAC7760IO d s) = DO_on ch s" "DO_on ch (vClrDAC7760IO d s) = DO_on ch s"
proof -
  have "DO_IOList ! (unat ch - 1) \<in> set DO_IOList"
    using DO_channel_index[OF assms(1)] by simp
  from DAC_pins_no_DO[OF d this] DAC_pin_range[OF d]
  show "DO_on ch (vSetDAC7760IO d s) = DO_on ch s" "DO_on ch (vClrDAC7760IO d s) = DO_on ch s"
    by (auto simp: DO_on_def vSetDAC7760IO_def vClrDAC7760IO_def GPIO_SetValue_def
        GPIO_ClearValue_def bit_set_pin bit_clear_pin)
qed

lemma DO_on_SSP [simp]: "DO_on ch (SSP_SendData b s) = DO_on ch s"
  by (simp add: DO_on_def SSP_SendData_def)

lemma DO_on_PWM [simp]:
  "DO_on ch (PWM_MatchUpdate n v s) = DO_on ch s" "DO_on ch (PWM_ChannelCmd n b s) = DO_on ch s"
  by (simp_all add: DO_on_def PWM_MatchUpdate_def PWM_ChannelCmd_def)

lemma DO_on_vSendDataToDAC7760:
  "DO_channel ch \<Longrightarrow> DO_on ch (vSendDataToDAC7760 n v s) = DO_on ch s"
  by (simp add: vSendDataToDAC7760_def Let_def DO_on_DAC_pin)

lemma DO_on_vAnalogOutputSetRealVal [effect]:
  "DO_channel ch \<Longrightarrow> DO_on ch (vAnalogOutputSetRealVal n v s) = DO_on ch s"
  by (simp add: vAnalogOutputSetRealVal_def Let_def vSetPWMRealVal_def vSetDAC7760RealVal_def
      vSetDAC7760OutputuA_def DO_on_vSendDataToDAC7760 DO_on_PWM)

section \<open>Output ranges\<close>

text \<open>
  4 to 20 mA is a duty of 40 to 200 parts of 200: a value inside its range never leaves them.
\<close>

lemma PWM_data_eq:
  assumes "unat lMin \<le> unat v" and "unat v \<le> unat lMax" and "unat lMin < unat lMax"
    and "unat lMax - unat lMin < 2 ^ 24"
  shows "unat (PWM_data lMin lMax v) = 160 * (unat v - unat lMin) div (unat lMax - unat lMin) + 40"
proof -
  have d: "unat (v - lMin) = unat v - unat lMin" "unat (lMax - lMin) = unat lMax - unat lMin"
    using assms by (simp_all add: unat_sub word_le_nat_alt)
  let ?w = "unat v - unat lMin" and ?r = "unat lMax - unat lMin"
  have le: "160 * ?w \<le> 160 * ?r" and pos: "0 < ?r" using assms by auto
  have lt: "160 * ?r < 2 ^ 32" using assms(4) by simp
  have m: "unat (160 * (v - lMin)) = 160 * ?w"
    using unat_mult_lem[of 160 "v - lMin", THEN iffD1] le lt d(1) by simp
  have q: "160 * ?w div ?r \<le> 160"
    using div_le_mono[OF le, of ?r] pos by simp
  have u: "unat (udiv32 (160 * (v - lMin)) (lMax - lMin)) = 160 * ?w div ?r"
    by (simp only: unat_udiv32 m d)
  show ?thesis
    using unat_add_lem[of "udiv32 (160 * (v - lMin)) (lMax - lMin)" 40, THEN iffD1] q
    unfolding PWM_data_def u by simp
qed

lemma DAC7760_code_bound: "DAC7760_code uA \<le> 4095"
  by (simp add: DAC7760_code_def Let_def not_le word_le_nat_alt word_less_nat_alt)

end
