(* ===== verification/Fan.thy ===== *)
theory Fan
  imports IO
begin

text \<open>
  The exhaust fans: class \<open>ExAirFan\<close> of \<open>Device/fan.c\<close>, with the data of its base class
  \<open>Device\<close> (\<open>Device/device.h\<close>). The objects are the list \<open>psExAirFanList\<close> of the system and a
  method takes the index of its object. The EEPROM and monitor registrations of the
  constructor are left out: they only tell other modules the addresses of fields.
\<close>

section \<open>Data\<close>

datatype eFreqType = VARIABLE_FREQ | CONSTANT_FREQ
datatype eRunningState = STATE_STOP | STATE_RUN

record Device =
  ulRunTime_S :: u32
  usRunTime_H :: u16
  ucDevIndex :: u8
  xErrFlag :: bool
  xAlarmFlag :: bool
  dev_eRunningState :: eRunningState

record sAnalog_IO =
  io_lMax :: s32
  io_lMin :: s32
  io_ucChannel :: u8

record sFanInfo =
  info_eFanFreqType :: eFreqType
  info_usMinFreq :: u16
  info_usMaxFreq :: u16
  info_ucFreq_AO :: u8
  info_ucFreq_AI :: u8
  info_ucSwitch_DO :: u8
  info_ucRunState_DI :: u8
  info_ucErr_DI :: u8
  info_ucRemote_DI :: u8

text \<open>A digital interface \<open>sDigital_IO\<close> is its channel.\<close>

record ExAirFan = Device +
  ulRated_Vol :: u32
  usSetFreq :: u16
  usMinFreq :: u16
  usMaxFreq :: u16
  usRunningFreq :: u16
  sFreq_AO :: sAnalog_IO
  sFreq_AI :: sAnalog_IO
  sSwitch_DO :: u8
  sRunState_DI :: u8
  sErr_DI :: u8
  sRemote_DI :: u8
  eFanFreqType :: eFreqType
  eCtrlCmd :: eCtrlEn
  ucTimeCount :: u8
  xExAirFanRemote :: bool
  xExAirFanErr :: bool
  xExAirFanCtrlErr :: bool
  xExAirFanCtrl :: bool

text \<open>An object of zero-initialised memory.\<close>

definition fan_zero :: ExAirFan where
  "fan_zero = \<lparr>ulRunTime_S = 0, usRunTime_H = 0, ucDevIndex = 0, xErrFlag = False,
     xAlarmFlag = False, dev_eRunningState = STATE_STOP, ulRated_Vol = 0, usSetFreq = 0,
     usMinFreq = 0, usMaxFreq = 0, usRunningFreq = 0,
     sFreq_AO = \<lparr>io_lMax = 0, io_lMin = 0, io_ucChannel = 0\<rparr>,
     sFreq_AI = \<lparr>io_lMax = 0, io_lMin = 0, io_ucChannel = 0\<rparr>,
     sSwitch_DO = 0, sRunState_DI = 0, sErr_DI = 0, sRemote_DI = 0,
     eFanFreqType = VARIABLE_FREQ, eCtrlCmd = OFF, ucTimeCount = 0, xExAirFanRemote = False,
     xExAirFanErr = False, xExAirFanCtrlErr = False, xExAirFanCtrl = False\<rparr>"

record fan_sys = io +
  psExAirFanList :: "ExAirFan list"

abbreviation fan :: "nat \<Rightarrow> 'z fan_sys_scheme \<Rightarrow> ExAirFan" where
  "fan i s \<equiv> psExAirFanList s ! i"

definition upd_fan :: "nat \<Rightarrow> (ExAirFan \<Rightarrow> ExAirFan) \<Rightarrow> 'z fan_sys_scheme \<Rightarrow> 'z fan_sys_scheme" where
  "upd_fan i f s = s\<lparr>psExAirFanList := (psExAirFanList s)[i := f (psExAirFanList s ! i)]\<rparr>"

abbreviation EX_AIR_FAN_NUM :: nat where "EX_AIR_FAN_NUM \<equiv> 4"

section \<open>Registration\<close>

definition vExAirFan_RegistDigitalIO ::
  "nat \<Rightarrow> u8 \<Rightarrow> u8 \<Rightarrow> u8 \<Rightarrow> u8 \<Rightarrow> 'z fan_sys_scheme \<Rightarrow> 'z fan_sys_scheme"
where
  "vExAirFan_RegistDigitalIO i ucSwitch_DO ucRunState_DI ucErr_DI ucRemote_DI s =
     vDigitalInputRegist ucRemote_DI (Fan_xExAirFanRemote i)
      (vDigitalInputRegist ucErr_DI (Fan_xExAirFanErr i)
       (vDigitalInputRegist ucRunState_DI (Fan_eRunningState i)
        (upd_fan i (\<lambda>f. f\<lparr>sSwitch_DO := ucSwitch_DO, sRunState_DI := ucRunState_DI,
                        sRemote_DI := ucRemote_DI, sErr_DI := ucErr_DI\<rparr>) s)))"

definition vExAirFan_RegistAnalogIO ::
  "nat \<Rightarrow> u8 \<Rightarrow> u8 \<Rightarrow> u16 \<Rightarrow> u16 \<Rightarrow> 'z fan_sys_scheme \<Rightarrow> 'z fan_sys_scheme"
where
  "vExAirFan_RegistAnalogIO i ucFreq_AO ucFreq_AI minFreq maxFreq s =
     (if eFanFreqType (fan i s) = VARIABLE_FREQ then
        let rng = \<lparr>io_lMax = ucast maxFreq, io_lMin = ucast minFreq, io_ucChannel = 0\<rparr>;
            s1 = upd_fan i (\<lambda>f. f\<lparr>usMaxFreq := maxFreq, usMinFreq := minFreq,
                    sFreq_AO := rng\<lparr>io_ucChannel := ucFreq_AO\<rparr>,
                    sFreq_AI := rng\<lparr>io_ucChannel := ucFreq_AI\<rparr>\<rparr>) s
        in vAnalogOutputRegist ucFreq_AO (ucast minFreq) (ucast maxFreq)
             (vAnalogInputRegist ucFreq_AI (ucast minFreq) (ucast maxFreq) (Fan_usRunningFreq i) s1)
      else s)"

section \<open>Frequency\<close>

definition clamp_freq :: "u16 \<Rightarrow> ExAirFan \<Rightarrow> u16" where
  "clamp_freq usFreq f =
     (let v = (if usFreq < usMinFreq f then usMinFreq f else usFreq)
      in if usMaxFreq f < v then usMaxFreq f else v)"

definition vExFan_SetFreq :: "nat \<Rightarrow> u16 \<Rightarrow> 'z fan_sys_scheme \<Rightarrow> 'z fan_sys_scheme" where
  "vExFan_SetFreq i usFreq s =
     (if eFanFreqType (fan i s) = VARIABLE_FREQ \<and> \<not> xExAirFanErr (fan i s) then
        let v = clamp_freq usFreq (fan i s);
            s1 = upd_fan i (\<lambda>f. f\<lparr>usSetFreq := v\<rparr>) s
        in if eCtrlCmd (fan i s1) = ON \<and> usRunningFreq (fan i s1) \<noteq> v
           then vAnalogOutputSetRealVal (io_ucChannel (sFreq_AO (fan i s1))) (ucast v) s1
           else s1
      else s)"

definition vExFan_SetFreqRange ::
  "nat \<Rightarrow> u16 \<Rightarrow> u16 \<Rightarrow> 'z fan_sys_scheme \<Rightarrow> 'z fan_sys_scheme"
where
  "vExFan_SetFreqRange i minFreq maxFreq s =
     (if eFanFreqType (fan i s) = VARIABLE_FREQ then
        let s1 = upd_fan i (\<lambda>f. f\<lparr>usMaxFreq := maxFreq, usMinFreq := minFreq,
                    sFreq_AO := (sFreq_AO f)\<lparr>io_lMax := ucast maxFreq, io_lMin := ucast minFreq\<rparr>,
                    sFreq_AI := (sFreq_AI f)\<lparr>io_lMax := ucast maxFreq, io_lMin := ucast minFreq\<rparr>\<rparr>) s;
            s2 = (if usSetFreq (fan i s1) < usMinFreq (fan i s1)
                  then vExFan_SetFreq i (usMinFreq (fan i s1)) s1 else s1)
        in (if usMaxFreq (fan i s2) < usSetFreq (fan i s2)
            then vExFan_SetFreq i (usMaxFreq (fan i s2)) s2 else s2)
      else s)"

section \<open>Start and stop\<close>

definition vExAirFan_SwitchOpen :: "nat \<Rightarrow> 'z fan_sys_scheme \<Rightarrow> 'z fan_sys_scheme" where
  "vExAirFan_SwitchOpen i s =
     (if \<not> xExAirFanErr (fan i s) \<and> xExAirFanRemote (fan i s) then
        let s1 = vDigitalOutputCtrl (sSwitch_DO (fan i s)) ON s;
            s2 = upd_fan i (\<lambda>f. f\<lparr>eCtrlCmd := ON\<rparr>) s1
        in (if dev_eRunningState (fan i s2) = STATE_STOP then
              (if eFanFreqType (fan i s2) = VARIABLE_FREQ
               then vExFan_SetFreq i (usSetFreq (fan i s2)) s2 else s2)
            else s2)
      else s)"

definition vExAirFan_SwitchClose :: "nat \<Rightarrow> 'z fan_sys_scheme \<Rightarrow> 'z fan_sys_scheme" where
  "vExAirFan_SwitchClose i s =
     upd_fan i (\<lambda>f. f\<lparr>eCtrlCmd := OFF\<rparr>) (vDigitalOutputCtrl (sSwitch_DO (fan i s)) OFF s)"

section \<open>The two-second check\<close>

text \<open>
  \<open>vExAirFan_TimeoutInd\<close> in its four parts: repeat a command the feedback contradicts, time how
  long it does, drop the command of a faulty or local fan, correct the frequency.
\<close>

definition TimeoutInd_retry :: "nat \<Rightarrow> 'z fan_sys_scheme \<Rightarrow> 'z fan_sys_scheme" where
  "TimeoutInd_retry i s =
     (let s1 = (if eCtrlCmd (fan i s) = ON \<and> dev_eRunningState (fan i s) = STATE_STOP \<and>
                   \<not> xExAirFanErr (fan i s) \<and> xExAirFanRemote (fan i s)
                then vExAirFan_SwitchOpen i (upd_fan i (\<lambda>f. f\<lparr>xExAirFanCtrl := True\<rparr>) s)
                else s)
      in if eCtrlCmd (fan i s1) = OFF \<and> dev_eRunningState (fan i s1) = STATE_RUN
         then vExAirFan_SwitchClose i (upd_fan i (\<lambda>f. f\<lparr>xExAirFanCtrl := True\<rparr>) s1)
         else s1)"

definition EX_AIR_FAN_TIME_OUT_S :: u8 where "EX_AIR_FAN_TIME_OUT_S = 2"
definition EX_AIR_FAN_TIME_DELAY_S :: u32 where "EX_AIR_FAN_TIME_DELAY_S = 5"
definition EX_AIR_FAN_CTRL_ERR_TIME_DELAY_S :: u8 where "EX_AIR_FAN_CTRL_ERR_TIME_DELAY_S = 10"

definition fan_count :: "ExAirFan \<Rightarrow> ExAirFan" where
  "fan_count f0 =
     (let f1 = (if xExAirFanCtrl f0 \<and> xExAirFanRemote f0 then
                  let g = (if (eCtrlCmd f0 = OFF \<and> dev_eRunningState f0 = STATE_RUN) \<or>
                              (eCtrlCmd f0 = ON \<and> dev_eRunningState f0 = STATE_STOP)
                           then f0\<lparr>ucTimeCount := ucTimeCount f0 + EX_AIR_FAN_TIME_OUT_S\<rparr> else f0)
                  in (if (eCtrlCmd g = OFF \<and> dev_eRunningState g = STATE_STOP) \<or>
                         (eCtrlCmd g = ON \<and> dev_eRunningState g = STATE_RUN)
                      then g\<lparr>xExAirFanCtrl := False, ucTimeCount := 0\<rparr> else g)
                else f0)
      in if EX_AIR_FAN_CTRL_ERR_TIME_DELAY_S \<le> ucTimeCount f1 \<and> xExAirFanCtrl f1 \<and>
            xExAirFanRemote f1
         then f1\<lparr>ucTimeCount := 0, xExAirFanCtrlErr := True, xExAirFanCtrl := False\<rparr>
         else f1)"

definition TimeoutInd_count :: "nat \<Rightarrow> 'z fan_sys_scheme \<Rightarrow> 'z fan_sys_scheme" where
  "TimeoutInd_count i s = upd_fan i fan_count s"

definition TimeoutInd_fault :: "nat \<Rightarrow> 'z fan_sys_scheme \<Rightarrow> 'z fan_sys_scheme" where
  "TimeoutInd_fault i s =
     (if xExAirFanErr (fan i s) \<or> \<not> xExAirFanRemote (fan i s) \<or> xExAirFanCtrlErr (fan i s) then
        let s1 = upd_fan i (\<lambda>f. f\<lparr>eCtrlCmd := OFF, xExAirFanCtrl := False\<rparr>) s
        in (if eCtrlCmd (fan i s1) = OFF \<and> dev_eRunningState (fan i s1) = STATE_RUN
            then vExAirFan_SwitchClose i s1 else s1)
      else s)"

definition TimeoutInd_freq :: "nat \<Rightarrow> 'z fan_sys_scheme \<Rightarrow> 'z fan_sys_scheme" where
  "TimeoutInd_freq i s =
     (let f = fan i s; set = uint (usSetFreq f); run = uint (usRunningFreq f) in
      if eFanFreqType f = VARIABLE_FREQ \<and> \<not> xExAirFanErr f \<and> eCtrlCmd f = ON \<and>
         dev_eRunningState f = STATE_RUN \<and>
         ((set > run \<and> set - run > 10) \<or> (set < run \<and> run - set > 10))
      then vExFan_SetFreq i (usSetFreq f) s else s)"

definition vExAirFan_TimeoutInd :: "nat \<Rightarrow> 'z fan_sys_scheme \<Rightarrow> 'z fan_sys_scheme" where
  "vExAirFan_TimeoutInd i s =
     TimeoutInd_freq i (TimeoutInd_fault i (TimeoutInd_count i (TimeoutInd_retry i s)))"

section \<open>Construction\<close>

definition vExAirFan_Init ::
  "nat \<Rightarrow> sFanInfo \<Rightarrow> u8 \<Rightarrow> 'z fan_sys_scheme \<Rightarrow> 'z fan_sys_scheme"
where
  "vExAirFan_Init i psFan devIndex s =
     (let s1 = upd_fan i (\<lambda>f. f\<lparr>eFanFreqType := info_eFanFreqType psFan, ucDevIndex := devIndex\<rparr>) s;
          s2 = vExAirFan_RegistDigitalIO i (info_ucSwitch_DO psFan) (info_ucRunState_DI psFan)
                 (info_ucErr_DI psFan) (info_ucRemote_DI psFan) s1;
          s3 = (if eFanFreqType (fan i s2) = VARIABLE_FREQ
                then vExAirFan_RegistAnalogIO i (info_ucFreq_AO psFan) (info_ucFreq_AI psFan)
                       (info_usMinFreq psFan) (info_usMaxFreq psFan) s2
                else s2)
      in snd (xTimerRegist (sExAirFanTmr i) EX_AIR_FAN_TIME_DELAY_S (ucast EX_AIR_FAN_TIME_OUT_S)
                OS_OPT_TMR_PERIODIC ExAirFanTimeoutCB id False s3))"

definition vExAirFan_ChangeFreqType :: "nat \<Rightarrow> sFanInfo \<Rightarrow> 'z fan_sys_scheme \<Rightarrow> 'z fan_sys_scheme" where
  "vExAirFan_ChangeFreqType i psFan s =
     (let s1 = upd_fan i (\<lambda>f. f\<lparr>eFanFreqType := info_eFanFreqType psFan\<rparr>) s;
          s2 = vExAirFan_RegistDigitalIO i (info_ucSwitch_DO psFan) (info_ucRunState_DI psFan)
                 (info_ucErr_DI psFan) (info_ucRemote_DI psFan) s1
      in if eFanFreqType (fan i s2) = VARIABLE_FREQ
         then vExAirFan_RegistAnalogIO i (info_ucFreq_AO psFan) (info_ucFreq_AI psFan)
                (info_usMinFreq psFan) (info_usMaxFreq psFan) s2
         else s2)"

section \<open>The effect of an operation on its fan\<close>

text \<open>
  \<open>fan_step i op g\<close>: \<open>op\<close> acts on fan \<open>i\<close> as the function \<open>g\<close> does on its fields, writes output
  registers, and leaves everything else in the state alone.
\<close>

abbreviation fan_there :: "nat \<Rightarrow> 'z fan_sys_scheme \<Rightarrow> bool" where
  "fan_there i s \<equiv> i < length (psExAirFanList s)"

definition fan_step ::
  "nat \<Rightarrow> ('z fan_sys_scheme \<Rightarrow> 'z fan_sys_scheme) \<Rightarrow> (ExAirFan \<Rightarrow> ExAirFan) \<Rightarrow> bool"
where
  "fan_step i op g \<longleftrightarrow> (\<forall>s. fan_there i s \<longrightarrow>
      op s = s\<lparr>gpio := gpio (op s), pwm_match := pwm_match (op s),
      pwm_ena := pwm_ena (op s), ssp1_sent := ssp1_sent (op s),
      psExAirFanList := (psExAirFanList s)[i := g (fan i s)]\<rparr>)"

lemma fan_stepD:
  "fan_step i op g \<Longrightarrow> fan_there i s \<Longrightarrow>
      op s = s\<lparr>gpio := gpio (op s), pwm_match := pwm_match (op s),
      pwm_ena := pwm_ena (op s), ssp1_sent := ssp1_sent (op s),
      psExAirFanList := (psExAirFanList s)[i := g (fan i s)]\<rparr>"
  unfolding fan_step_def by blast

lemma fan_stepI:
  assumes "\<And>s. fan_there i s \<Longrightarrow> \<exists>a b c d. op s = s\<lparr>gpio := a, pwm_match := b, pwm_ena := c,
      ssp1_sent := d, psExAirFanList := (psExAirFanList s)[i := g (fan i s)]\<rparr>"
  shows "fan_step i op g"
  unfolding fan_step_def
proof (intro allI impI)
  fix s :: "'a fan_sys_scheme"
  assume "fan_there i s"
  then obtain a b c d where "op s = s\<lparr>gpio := a, pwm_match := b, pwm_ena := c,
      ssp1_sent := d, psExAirFanList := (psExAirFanList s)[i := g (fan i s)]\<rparr>"
    using assms by blast
  then show "op s = s\<lparr>gpio := gpio (op s), pwm_match := pwm_match (op s),
      pwm_ena := pwm_ena (op s), ssp1_sent := ssp1_sent (op s),
      psExAirFanList := (psExAirFanList s)[i := g (fan i s)]\<rparr>" by simp
qed

lemma fan_step_list:
  assumes "fan_step i op g" and "fan_there i s"
  shows "psExAirFanList (op s) = (psExAirFanList s)[i := g (fan i s)]"
  by (subst fan_stepD[OF assms]) simp

lemma fan_step_fan: "fan_step i op g \<Longrightarrow> fan_there i s \<Longrightarrow> fan i (op s) = g (fan i s)"
  by (simp add: fan_step_list)

lemma fan_step_other:
  "fan_step i op g \<Longrightarrow> fan_there i s \<Longrightarrow> j \<noteq> i \<Longrightarrow> fan j (op s) = fan j s"
  by (simp add: fan_step_list)

lemma fan_step_upd: "fan_step i (upd_fan i g) g"
  by (simp add: fan_step_def upd_fan_def)

lemma fan_step_comp:
  assumes f: "fan_step i op g" and "fan_step i op' g'"
  shows "fan_step i (\<lambda>s. op' (op s)) (\<lambda>f. g' (g f))"
proof (rule fan_stepI)
  fix s :: "'a fan_sys_scheme"
  assume i: "fan_there i s"
  then have i': "fan_there i (op s)" by (simp add: fan_step_list[OF f])
  note fan_stepD[OF assms(2) i']
  also have "psExAirFanList (op s) = (psExAirFanList s)[i := g (fan i s)]"
    by (rule fan_step_list[OF f i])
  finally show "\<exists>a b c d. op' (op s) = s\<lparr>gpio := a, pwm_match := b, pwm_ena := c, ssp1_sent := d,
      psExAirFanList := (psExAirFanList s)[i := g' (g (fan i s))]\<rparr>"
    using i by (subst (asm) fan_stepD[OF f i]) auto
qed

text \<open>The fans as functions of their own fields.\<close>

abbreviation fan_ready :: "ExAirFan \<Rightarrow> bool" where
  "fan_ready f \<equiv> \<not> xExAirFanErr f \<and> xExAirFanRemote f"

abbreviation fan_clamps :: "ExAirFan \<Rightarrow> bool" where
  "fan_clamps f \<equiv> eFanFreqType f = VARIABLE_FREQ \<and> \<not> xExAirFanErr f"

definition fan_set_freq :: "u16 \<Rightarrow> ExAirFan \<Rightarrow> ExAirFan" where
  "fan_set_freq v f = (if fan_clamps f then f\<lparr>usSetFreq := clamp_freq v f\<rparr> else f)"

definition fan_open :: "ExAirFan \<Rightarrow> ExAirFan" where
  "fan_open f = (if fan_ready f then
     (if dev_eRunningState f = STATE_STOP \<and> eFanFreqType f = VARIABLE_FREQ
      then fan_set_freq (usSetFreq f) (f\<lparr>eCtrlCmd := ON\<rparr>) else f\<lparr>eCtrlCmd := ON\<rparr>) else f)"

definition fan_close :: "ExAirFan \<Rightarrow> ExAirFan" where
  "fan_close f = f\<lparr>eCtrlCmd := OFF\<rparr>"

definition fan_retry :: "ExAirFan \<Rightarrow> ExAirFan" where
  "fan_retry f = (let f1 = (if eCtrlCmd f = ON \<and> dev_eRunningState f = STATE_STOP \<and> fan_ready f
                            then fan_open (f\<lparr>xExAirFanCtrl := True\<rparr>) else f)
     in if eCtrlCmd f1 = OFF \<and> dev_eRunningState f1 = STATE_RUN
        then fan_close (f1\<lparr>xExAirFanCtrl := True\<rparr>) else f1)"

definition fan_fault :: "ExAirFan \<Rightarrow> ExAirFan" where
  "fan_fault f = (if xExAirFanErr f \<or> \<not> xExAirFanRemote f \<or> xExAirFanCtrlErr f
                  then f\<lparr>eCtrlCmd := OFF, xExAirFanCtrl := False\<rparr> else f)"

definition fan_freq :: "ExAirFan \<Rightarrow> ExAirFan" where
  "fan_freq f = (let set = uint (usSetFreq f); run = uint (usRunningFreq f) in
     if fan_clamps f \<and> eCtrlCmd f = ON \<and> dev_eRunningState f = STATE_RUN \<and>
        (set - run > 10 \<or> run - set > 10)
     then fan_set_freq (usSetFreq f) f else f)"

definition fan_timeout :: "ExAirFan \<Rightarrow> ExAirFan" where
  "fan_timeout f = fan_freq (fan_fault (fan_count (fan_retry f)))"

lemma SetFreq_step: "fan_step i (vExFan_SetFreq i v) (fan_set_freq v)"
  by (simp add: fan_step_def vExFan_SetFreq_def fan_set_freq_def upd_fan_def Let_def
      vAnalogOutputSetRealVal_footprint)

lemma SwitchClose_step: "fan_step i (vExAirFan_SwitchClose i) fan_close"
  by (simp add: fan_step_def vExAirFan_SwitchClose_def fan_close_def upd_fan_def
      vDigitalOutputCtrl_footprint)

lemma fan_there_upd [simp]: "fan_there i (upd_fan j g s) = fan_there i s"
  by (simp add: upd_fan_def)

lemma fan_upd [simp]: "fan_there i s \<Longrightarrow> fan i (upd_fan i g s) = g (fan i s)"
  by (simp add: upd_fan_def)

lemma fan_step_id: "fan_step i (\<lambda>s. s) (\<lambda>f. f)"
  by (simp add: fan_step_def)

text \<open>Branching on a condition the fan decides.\<close>

lemma fan_step_if:
  assumes "fan_step i op g" and "fan_step i op' g'"
    and "\<And>s. fan_there i s \<Longrightarrow> P s \<longleftrightarrow> Q (fan i s)"
  shows "fan_step i (\<lambda>s. if P s then op s else op' s) (\<lambda>f. if Q f then g f else g' f)"
  using assms by (simp add: fan_step_def)

lemma fan_step_cong:
  assumes "fan_step i op g" and "\<And>s. op' s = op s" and "\<And>f. g' f = g f"
  shows "fan_step i op' g'"
  using assms by (simp add: fan_step_def)

lemma SetFreq_self_step:
  "fan_step i (\<lambda>s. vExFan_SetFreq i (usSetFreq (fan i s)) s) (\<lambda>f. fan_set_freq (usSetFreq f) f)"
  using SetFreq_step by (fastforce simp: fan_step_def)

lemma DO_step: "fan_step i (\<lambda>s. vDigitalOutputCtrl (ch s) e s) (\<lambda>f. f)"
  by (simp add: fan_step_def vDigitalOutputCtrl_footprint)

lemma SwitchOpen_step: "fan_step i (vExAirFan_SwitchOpen i) fan_open"
proof -
  let ?cmd = "\<lambda>f. f\<lparr>eCtrlCmd := ON\<rparr>"
  let ?V = "\<lambda>f. dev_eRunningState f = STATE_STOP \<and> eFanFreqType f = VARIABLE_FREQ"
  note freq = fan_step_if[where P = "\<lambda>s. ?V (fan i s)" and Q = ?V,
      OF SetFreq_self_step fan_step_id refl]
  note body = fan_step_comp[OF fan_step_comp[OF DO_step[of i "\<lambda>s. sSwitch_DO (fan i s)" ON]
        fan_step_upd[of i ?cmd]] freq]
  note all = fan_step_if[where P = "\<lambda>s. fan_ready (fan i s)" and Q = fan_ready,
      OF body fan_step_id refl]
  show ?thesis
    by (rule fan_step_cong[OF all])
      (auto simp: vExAirFan_SwitchOpen_def fan_open_def Let_def)
qed

lemma TimeoutInd_retry_step: "fan_step i (TimeoutInd_retry i) fan_retry"
proof -
  let ?flag = "upd_fan i (\<lambda>f. f\<lparr>xExAirFanCtrl := True\<rparr>)"
  let ?A = "\<lambda>f. eCtrlCmd f = ON \<and> dev_eRunningState f = STATE_STOP \<and> fan_ready f"
  let ?B = "\<lambda>f. eCtrlCmd f = OFF \<and> dev_eRunningState f = STATE_RUN"
  note one = fan_step_if[where P = "\<lambda>s. ?A (fan i s)" and Q = ?A,
      OF fan_step_comp[OF fan_step_upd SwitchOpen_step, of i "\<lambda>f. f\<lparr>xExAirFanCtrl := True\<rparr>"]
      fan_step_id refl]
  note two = fan_step_if[where P = "\<lambda>s. ?B (fan i s)" and Q = ?B,
      OF fan_step_comp[OF fan_step_upd SwitchClose_step, of i "\<lambda>f. f\<lparr>xExAirFanCtrl := True\<rparr>"]
      fan_step_id refl]
  show ?thesis
    by (rule fan_step_cong[OF fan_step_comp[OF one two]])
      (simp_all only: TimeoutInd_retry_def fan_retry_def Let_def)
qed

lemma TimeoutInd_count_step: "fan_step i (TimeoutInd_count i) fan_count"
  by (rule fan_step_cong[OF fan_step_upd]) (simp_all add: TimeoutInd_count_def)

lemma fan_off_twice:
  "(f :: ExAirFan)\<lparr>xExAirFanCtrl := False, eCtrlCmd := OFF\<rparr> = f\<lparr>eCtrlCmd := OFF, xExAirFanCtrl := False\<rparr>"
  by (cases f) simp

lemma TimeoutInd_fault_step: "fan_step i (TimeoutInd_fault i) fan_fault"
  by (simp add: fan_step_def TimeoutInd_fault_def fan_fault_def upd_fan_def Let_def
      vExAirFan_SwitchClose_def vDigitalOutputCtrl_footprint fan_off_twice)

lemma TimeoutInd_freq_step: "fan_step i (TimeoutInd_freq i) fan_freq"
proof -
  from fan_step_if[OF SetFreq_self_step[of i] fan_step_id,
      of "\<lambda>s. fan_clamps (fan i s) \<and> eCtrlCmd (fan i s) = ON \<and>
         dev_eRunningState (fan i s) = STATE_RUN \<and>
         (uint (usSetFreq (fan i s)) - uint (usRunningFreq (fan i s)) > 10 \<or>
          uint (usRunningFreq (fan i s)) - uint (usSetFreq (fan i s)) > 10)"
      "\<lambda>f. fan_clamps f \<and> eCtrlCmd f = ON \<and> dev_eRunningState f = STATE_RUN \<and>
         (uint (usSetFreq f) - uint (usRunningFreq f) > 10 \<or>
          uint (usRunningFreq f) - uint (usSetFreq f) > 10)"]
  show ?thesis
    by (rule fan_step_cong) (auto simp: TimeoutInd_freq_def fan_freq_def Let_def)
qed

text \<open>The two-second check refines the pure function \<open>fan_timeout\<close> of the fan.\<close>

lemma TimeoutInd_step: "fan_step i (vExAirFan_TimeoutInd i) fan_timeout"
  using fan_step_comp[OF TimeoutInd_retry_step fan_step_comp[OF TimeoutInd_count_step
        fan_step_comp[OF TimeoutInd_fault_step TimeoutInd_freq_step]], of i]
  by (simp add: vExAirFan_TimeoutInd_def[abs_def] fan_timeout_def[abs_def])

section \<open>The switch interface\<close>

lemma fan_open_simps [simp]:
  "eCtrlCmd (fan_open f) = (if fan_ready f then ON else eCtrlCmd f)"
  "xExAirFanErr (fan_open f) = xExAirFanErr f"
  "xExAirFanRemote (fan_open f) = xExAirFanRemote f"
  "xExAirFanCtrlErr (fan_open f) = xExAirFanCtrlErr f"
  "dev_eRunningState (fan_open f) = dev_eRunningState f"
  "sSwitch_DO (fan_open f) = sSwitch_DO f"
  "ucTimeCount (fan_open f) = ucTimeCount f"
  "xExAirFanCtrl (fan_open f) = xExAirFanCtrl f"
  by (simp_all add: fan_open_def fan_set_freq_def)

lemma fan_there_step:
  "fan_step i op g \<Longrightarrow> fan_there i s \<Longrightarrow> fan_there j (op s) = fan_there j s"
  by (simp add: fan_step_list)

lemma fan_step_nth:
  "fan_step i op g \<Longrightarrow> fan_there i s \<Longrightarrow>
    fan j (op s) = (if j = i then g (fan i s) else fan j s)"
  by (simp add: fan_step_list)

interpretation fan_switch: dev_switch vExAirFan_SwitchOpen vExAirFan_SwitchClose
    "\<lambda>i s. eCtrlCmd (fan i s) = ON" "\<lambda>i s. fan_ready (fan i s)" "\<lambda>i s. True" fan_there
  by unfold_locales
    (auto simp: fan_there_step[OF SwitchOpen_step] fan_there_step[OF SwitchClose_step]
      fan_step_nth[OF SwitchOpen_step] fan_step_nth[OF SwitchClose_step] fan_close_def)

section \<open>Relays follow commands\<close>

lemma DO_on_cong: "gpio s' = gpio s \<Longrightarrow> DO_on ch s' = DO_on ch s"
  by (simp add: DO_on_def)

lemma DO_on_upd_fan [simp]: "DO_on ch (upd_fan i g s) = DO_on ch s"
  by (simp add: DO_on_def upd_fan_def)

lemma DO_on_SetFreq [effect]: "DO_channel ch \<Longrightarrow> DO_on ch (vExFan_SetFreq i v s) = DO_on ch s"
  by (simp add: vExFan_SetFreq_def Let_def DO_on_vAnalogOutputSetRealVal)

lemma DO_on_SwitchOpen [effect]:
  assumes "DO_channel ch" and "DO_channel (sSwitch_DO (fan i s))"
  shows "DO_on ch (vExAirFan_SwitchOpen i s) \<longleftrightarrow>
    DO_on ch s \<or> (ch = sSwitch_DO (fan i s) \<and> fan_ready (fan i s))"
  using assms by (auto simp: vExAirFan_SwitchOpen_def Let_def DO_on_SetFreq vDigitalOutputCtrl_effect)

lemma DO_on_SwitchClose [effect]:
  assumes "DO_channel ch" and "DO_channel (sSwitch_DO (fan i s))"
  shows "DO_on ch (vExAirFan_SwitchClose i s) \<longleftrightarrow> DO_on ch s \<and> ch \<noteq> sSwitch_DO (fan i s)"
  using assms by (auto simp: vExAirFan_SwitchClose_def vDigitalOutputCtrl_effect)

text \<open>
  The relay invariant: each fan has a relay channel of its own, and the relay of a commanded
  fan is energised.
\<close>

definition fan_channels_ok :: "'z fan_sys_scheme \<Rightarrow> bool" where
  "fan_channels_ok s \<longleftrightarrow> distinct (map sSwitch_DO (psExAirFanList s)) \<and>
     (\<forall>f \<in> set (psExAirFanList s). DO_channel (sSwitch_DO f))"

definition fan_relays_ok :: "'z fan_sys_scheme \<Rightarrow> bool" where
  "fan_relays_ok s \<longleftrightarrow> (\<forall>i. fan_there i s \<longrightarrow> eCtrlCmd (fan i s) = ON \<longrightarrow> DO_on (sSwitch_DO (fan i s)) s)"

lemma fan_channels_okD:
  assumes "fan_channels_ok s" and "fan_there i s"
  shows "DO_channel (sSwitch_DO (fan i s))"
    and "fan_there j s \<Longrightarrow> sSwitch_DO (fan i s) = sSwitch_DO (fan j s) \<longleftrightarrow> i = j"
  using assms nth_eq_iff_index_eq[of "map sSwitch_DO (psExAirFanList s)" i j]
  by (auto simp: fan_channels_ok_def)

lemma fan_step_channels:
  assumes "fan_step i op g" and "\<And>f. sSwitch_DO (g f) = sSwitch_DO f" and "fan_there i s"
  shows "fan_channels_ok (op s) = fan_channels_ok s"
proof -
  have "map sSwitch_DO (psExAirFanList (op s)) = map sSwitch_DO (psExAirFanList s)"
    using assms by (simp add: fan_step_list list_eq_iff_nth_eq nth_list_update)
  moreover have "(\<forall>f\<in>set (psExAirFanList t). DO_channel (sSwitch_DO f)) \<longleftrightarrow>
      (\<forall>c\<in>set (map sSwitch_DO (psExAirFanList t)). DO_channel c)" for t :: "'a fan_sys_scheme"
    by simp
  ultimately show ?thesis unfolding fan_channels_ok_def by metis
qed

lemma fan_step_relays:
  assumes st: "fan_step i op g" and i: "fan_there i s" and ch: "fan_channels_ok s"
    and g: "\<And>f. sSwitch_DO (g f) = sSwitch_DO f" and ok: "fan_relays_ok s"
    and other: "\<And>c. DO_channel c \<Longrightarrow> c \<noteq> sSwitch_DO (fan i s) \<Longrightarrow> DO_on c (op s) = DO_on c s"
    and own: "eCtrlCmd (g (fan i s)) = ON \<Longrightarrow> DO_on (sSwitch_DO (fan i s)) (op s)"
  shows "fan_relays_ok (op s)"
  unfolding fan_relays_ok_def
proof (intro allI impI)
  fix j assume j: "fan_there j (op s)" and on: "eCtrlCmd (fan j (op s)) = ON"
  have js: "fan_there j s" using j by (simp add: fan_there_step[OF st i])
  show "DO_on (sSwitch_DO (fan j (op s))) (op s)"
  proof (cases "j = i")
    case True
    then show ?thesis using on own by (simp add: fan_step_nth[OF st i] g)
  next
    case False
    then have "sSwitch_DO (fan j s) \<noteq> sSwitch_DO (fan i s)"
      using fan_channels_okD(2)[OF ch i js] by auto
    then show ?thesis
      using False on ok js other[OF fan_channels_okD(1)[OF ch js]]
      by (simp add: fan_step_nth[OF st i] fan_relays_ok_def)
  qed
qed

lemma TimeoutInd_retry_relay:
  assumes "DO_channel c" and "DO_channel (sSwitch_DO (fan i s))" and "fan_there i s"
  shows "DO_on c (TimeoutInd_retry i s) \<longleftrightarrow>
    (if c = sSwitch_DO (fan i s) then
       (if eCtrlCmd (fan i s) = ON
        then DO_on c s \<or> (dev_eRunningState (fan i s) = STATE_STOP \<and> fan_ready (fan i s))
        else DO_on c s \<and> dev_eRunningState (fan i s) \<noteq> STATE_RUN)
     else DO_on c s)"
  using assms fan_step_fan[OF SwitchOpen_step, of i "upd_fan i (\<lambda>f. f\<lparr>xExAirFanCtrl := True\<rparr>) s"]
    fan_there_step[OF SwitchOpen_step, of i "upd_fan i (\<lambda>f. f\<lparr>xExAirFanCtrl := True\<rparr>) s" i]
  by (cases "eCtrlCmd (fan i s)") (auto simp: TimeoutInd_retry_def Let_def DO_on_SwitchOpen DO_on_SwitchClose)

lemma TimeoutInd_fault_relay:
  assumes "DO_channel c" and "DO_channel (sSwitch_DO (fan i s))" and "fan_there i s"
  shows "DO_on c (TimeoutInd_fault i s) \<longleftrightarrow> DO_on c s \<and>
    \<not> (c = sSwitch_DO (fan i s) \<and> dev_eRunningState (fan i s) = STATE_RUN \<and>
       (\<not> fan_ready (fan i s) \<or> xExAirFanCtrlErr (fan i s)))"
  using assms by (auto simp: TimeoutInd_fault_def Let_def DO_on_SwitchClose)

lemma TimeoutInd_freq_relay: "DO_channel c \<Longrightarrow> DO_on c (TimeoutInd_freq i s) = DO_on c s"
  by (simp add: TimeoutInd_freq_def Let_def DO_on_SetFreq)

lemma fan_count_simps [simp]:
  "eCtrlCmd (fan_count f) = eCtrlCmd f" "dev_eRunningState (fan_count f) = dev_eRunningState f"
  "xExAirFanErr (fan_count f) = xExAirFanErr f"
  "xExAirFanRemote (fan_count f) = xExAirFanRemote f" "sSwitch_DO (fan_count f) = sSwitch_DO f"
  "eFanFreqType (fan_count f) = eFanFreqType f"
  by (simp_all add: fan_count_def Let_def)

lemma fan_retry_simps [simp]:
  "dev_eRunningState (fan_retry f) = dev_eRunningState f"
  "xExAirFanErr (fan_retry f) = xExAirFanErr f" "xExAirFanCtrlErr (fan_retry f) = xExAirFanCtrlErr f"
  "xExAirFanRemote (fan_retry f) = xExAirFanRemote f" "sSwitch_DO (fan_retry f) = sSwitch_DO f"
  "eCtrlCmd (fan_retry f) = eCtrlCmd f"
  by (simp_all add: fan_retry_def Let_def fan_close_def)

lemma fan_fault_simps [simp]:
  "dev_eRunningState (fan_fault f) = dev_eRunningState f" "sSwitch_DO (fan_fault f) = sSwitch_DO f"
  "xExAirFanErr (fan_fault f) = xExAirFanErr f" "xExAirFanRemote (fan_fault f) = xExAirFanRemote f"
  "xExAirFanCtrlErr (fan_fault f) = xExAirFanCtrlErr f"
  by (simp_all add: fan_fault_def)

lemma fan_freq_simps [simp]:
  "eCtrlCmd (fan_freq f) = eCtrlCmd f" "sSwitch_DO (fan_freq f) = sSwitch_DO f"
  "xExAirFanCtrlErr (fan_freq f) = xExAirFanCtrlErr f" "xExAirFanErr (fan_freq f) = xExAirFanErr f"
  "xExAirFanRemote (fan_freq f) = xExAirFanRemote f" "ucTimeCount (fan_freq f) = ucTimeCount f"
  "dev_eRunningState (fan_freq f) = dev_eRunningState f" "xExAirFanCtrl (fan_freq f) = xExAirFanCtrl f"
  by (simp_all add: fan_freq_def fan_set_freq_def Let_def)

lemma fan_timeout_simps [simp]:
  "sSwitch_DO (fan_timeout f) = sSwitch_DO f" "xExAirFanErr (fan_timeout f) = xExAirFanErr f"
  "xExAirFanRemote (fan_timeout f) = xExAirFanRemote f"
  "dev_eRunningState (fan_timeout f) = dev_eRunningState f"
  by (simp_all add: fan_timeout_def)

text \<open>What one check does to the relay of its fan.\<close>

lemma TimeoutInd_relay:
  assumes "DO_channel c" and d: "DO_channel (sSwitch_DO (fan i s))" and i: "fan_there i s"
  shows "DO_on c (vExAirFan_TimeoutInd i s) \<longleftrightarrow>
    (if c = sSwitch_DO (fan i s) \<and> dev_eRunningState (fan i s) = STATE_RUN
     then DO_on c s \<and> eCtrlCmd (fan_timeout (fan i s)) = ON
     else DO_on c s \<or> (c = sSwitch_DO (fan i s) \<and> eCtrlCmd (fan i s) = ON \<and> fan_ready (fan i s)))"
proof -
  let ?s1 = "TimeoutInd_retry i s" and ?s2 = "TimeoutInd_count i (TimeoutInd_retry i s)"
  have f1: "fan i ?s1 = fan_retry (fan i s)" "fan_there i ?s1"
    using i by (simp_all add: fan_step_fan[OF TimeoutInd_retry_step] fan_there_step[OF TimeoutInd_retry_step])
  have f2: "fan i ?s2 = fan_count (fan_retry (fan i s))" "fan_there i ?s2"
    using f1 by (simp_all add: TimeoutInd_count_def)
  have g2: "DO_on c ?s2 = DO_on c ?s1" by (simp add: TimeoutInd_count_def)
  show ?thesis
    using assms f2 g2 TimeoutInd_fault_relay[OF assms(1), where i = i and s = ?s2] TimeoutInd_retry_relay[OF assms]
    by (cases "eCtrlCmd (fan i s)"; cases "dev_eRunningState (fan i s)")
      (auto simp: vExAirFan_TimeoutInd_def TimeoutInd_freq_relay fan_timeout_def fan_fault_def)
qed

definition fan_range :: "u16 \<Rightarrow> u16 \<Rightarrow> ExAirFan \<Rightarrow> ExAirFan" where
  "fan_range minFreq maxFreq f = f\<lparr>usMaxFreq := maxFreq, usMinFreq := minFreq,
     sFreq_AO := (sFreq_AO f)\<lparr>io_lMax := ucast maxFreq, io_lMin := ucast minFreq\<rparr>,
     sFreq_AI := (sFreq_AI f)\<lparr>io_lMax := ucast maxFreq, io_lMin := ucast minFreq\<rparr>\<rparr>"

definition fan_set_range :: "u16 \<Rightarrow> u16 \<Rightarrow> ExAirFan \<Rightarrow> ExAirFan" where
  "fan_set_range minFreq maxFreq f =
     (if eFanFreqType f = VARIABLE_FREQ then
        let f1 = fan_range minFreq maxFreq f;
            f2 = (if usSetFreq f1 < usMinFreq f1 then fan_set_freq (usMinFreq f1) f1 else f1)
        in (if usMaxFreq f2 < usSetFreq f2 then fan_set_freq (usMaxFreq f2) f2 else f2)
      else f)"

lemma SetFreq_fun_step:
  "fan_step i (\<lambda>s. vExFan_SetFreq i (h (fan i s)) s) (\<lambda>f. fan_set_freq (h f) f)"
  using SetFreq_step by (fastforce simp: fan_step_def)

lemma SetFreqRange_step: "fan_step i (vExFan_SetFreqRange i lo hi) (fan_set_range lo hi)"
proof -
  note low = fan_step_if[where P = "\<lambda>s. usSetFreq (fan i s) < usMinFreq (fan i s)"
      and Q = "\<lambda>f. usSetFreq f < usMinFreq f", OF SetFreq_fun_step[of i usMinFreq] fan_step_id refl]
  note high = fan_step_if[where P = "\<lambda>s. usMaxFreq (fan i s) < usSetFreq (fan i s)"
      and Q = "\<lambda>f. usMaxFreq f < usSetFreq f", OF SetFreq_fun_step[of i usMaxFreq] fan_step_id refl]
  note body = fan_step_comp[OF fan_step_comp[OF fan_step_upd[of i "fan_range lo hi"] low] high]
  note all = fan_step_if[where P = "\<lambda>s. eFanFreqType (fan i s) = VARIABLE_FREQ"
      and Q = "\<lambda>f. eFanFreqType f = VARIABLE_FREQ", OF body fan_step_id refl]
  show ?thesis
    by (rule fan_step_cong[OF all])
      (simp_all only: vExFan_SetFreqRange_def fan_set_range_def fan_range_def[abs_def] Let_def)
qed

lemma fan_set_freq_simps [simp]:
  "eCtrlCmd (fan_set_freq v f) = eCtrlCmd f" "sSwitch_DO (fan_set_freq v f) = sSwitch_DO f"
  "xExAirFanErr (fan_set_freq v f) = xExAirFanErr f" "usMaxFreq (fan_set_freq v f) = usMaxFreq f"
  "usMinFreq (fan_set_freq v f) = usMinFreq f" "eFanFreqType (fan_set_freq v f) = eFanFreqType f"
  by (simp_all add: fan_set_freq_def)

lemma fan_set_range_simps [simp]:
  "eCtrlCmd (fan_set_range lo hi f) = eCtrlCmd f" "sSwitch_DO (fan_set_range lo hi f) = sSwitch_DO f"
  by (simp_all add: fan_set_range_def Let_def fan_range_def)

lemma fan_close_simps [simp]:
  "eCtrlCmd (fan_close f) = OFF" "sSwitch_DO (fan_close f) = sSwitch_DO f"
  by (simp_all add: fan_close_def)

lemma DO_on_SetFreqRange [effect]:
  "DO_channel ch \<Longrightarrow> DO_on ch (vExFan_SetFreqRange i lo hi s) = DO_on ch s"
  by (simp add: vExFan_SetFreqRange_def Let_def DO_on_SetFreq)

lemma clamp_freq_range: "usMinFreq f \<le> usMaxFreq f \<Longrightarrow> usMinFreq f \<le> clamp_freq v f \<and> clamp_freq v f \<le> usMaxFreq f"
  by (auto simp: clamp_freq_def Let_def)

lemma clamp_freq_id: "usMinFreq f \<le> v \<Longrightarrow> v \<le> usMaxFreq f \<Longrightarrow> clamp_freq v f = v"
  by (auto simp: clamp_freq_def Let_def)

section \<open>Loss of control is detected\<close>

text \<open>A fan that has been commanded on without feedback for \<open>n\<close> checks.\<close>

definition stuck_on :: "nat \<Rightarrow> ExAirFan \<Rightarrow> bool" where
  "stuck_on n f \<longleftrightarrow> eCtrlCmd f = ON \<and> dev_eRunningState f = STATE_STOP \<and> fan_ready f \<and>
     \<not> xExAirFanCtrlErr f \<and> ucTimeCount f = of_nat (2 * n)"

lemma fan_retry_stuck:
  "stuck_on n f \<Longrightarrow> ucTimeCount (fan_retry f) = ucTimeCount f \<and> xExAirFanCtrl (fan_retry f)"
  by (simp add: stuck_on_def fan_retry_def)

lemma stuck_on_timeout:
  assumes "stuck_on n f" and "n < 4"
  shows "stuck_on (Suc n) (fan_timeout f)"
proof -
  have "n = 0 \<or> n = 1 \<or> n = 2 \<or> n = 3" using assms(2) by linarith
  then show ?thesis
    using assms(1) fan_retry_stuck[OF assms(1)]
    by (elim disjE) (simp_all add: stuck_on_def fan_timeout_def fan_fault_def fan_count_def
        EX_AIR_FAN_TIME_OUT_S_def EX_AIR_FAN_CTRL_ERR_TIME_DELAY_S_def)
qed

lemma stuck_on_last:
  assumes "stuck_on 4 f"
  shows "xExAirFanCtrlErr (fan_timeout f) \<and> eCtrlCmd (fan_timeout f) = OFF \<and>
    ucTimeCount (fan_timeout f) = 0"
  using assms fan_retry_stuck[OF assms]
  by (simp add: stuck_on_def fan_timeout_def fan_fault_def fan_count_def
      EX_AIR_FAN_TIME_OUT_S_def EX_AIR_FAN_CTRL_ERR_TIME_DELAY_S_def)

lemma stuck_on_iter: "stuck_on 0 f \<Longrightarrow> n \<le> 4 \<Longrightarrow> stuck_on n ((fan_timeout ^^ n) f)"
  by (induction n) (simp_all add: stuck_on_timeout)

lemma TimeoutInd_iter:
  "fan_there i s \<Longrightarrow> (\<forall>j. fan_there j ((vExAirFan_TimeoutInd i ^^ n) s) = fan_there j s) \<and>
    fan i ((vExAirFan_TimeoutInd i ^^ n) s) = (fan_timeout ^^ n) (fan i s)"
  by (induction n) (simp_all add: fan_step_fan[OF TimeoutInd_step] fan_there_step[OF TimeoutInd_step])

section \<open>Properties\<close>

text \<open>
  A house for the witnesses: four fans on relays 1 to 4, all healthy and remote, the first
  commanded on with its relay energised and no feedback yet.
\<close>

definition fan_example :: fan_sys where
  "fan_example = (io_zero \<lparr>psExAirFanList = map (\<lambda>i. fan_zero\<lparr>sSwitch_DO := of_nat (i + 1),
      eCtrlCmd := (if i = 0 then ON else OFF), xExAirFanRemote := True,
      eFanFreqType := (if i = 0 then VARIABLE_FREQ else CONSTANT_FREQ)\<rparr>) [0..<4]\<rparr>)
     \<lparr>gpio := (\<lambda>_. 0)(0 := 1)\<rparr>"

lemma fan_example_simps [simp]:
  "psExAirFanList fan_example = map (\<lambda>i. fan_zero\<lparr>sSwitch_DO := of_nat (i + 1),
      eCtrlCmd := (if i = 0 then ON else OFF), xExAirFanRemote := True,
      eFanFreqType := (if i = 0 then VARIABLE_FREQ else CONSTANT_FREQ)\<rparr>) [0..<4]"
  by (simp add: fan_example_def io_zero_def)

lemma fan_example_ok: "fan_channels_ok fan_example" "fan_relays_ok fan_example"
proof -
  show "fan_channels_ok fan_example"
    by (simp add: fan_channels_ok_def upt_rec)
  show "fan_relays_ok fan_example"
    by (auto simp: fan_relays_ok_def DO_on_def DO_IOList_def fan_example_def io_zero_def split: if_splits)
qed

text \<open>
  C3. The relay of every fan that is commanded on is energised, and no operation of a fan,
  the periodic check included, breaks this for any fan of the list.
\<close>

theorem fan_operations_keep_relays:
  assumes "fan_channels_ok s" and "fan_relays_ok s" and "i < length (psExAirFanList s)"
    and "op \<in> {vExAirFan_SwitchOpen i, vExAirFan_SwitchClose i, vExFan_SetFreq i v,
               vExFan_SetFreqRange i lo hi, vExAirFan_TimeoutInd i}"
  shows "fan_channels_ok (op s) \<and> fan_relays_ok (op s)"
proof -
  let ?own = "sSwitch_DO (fan i s)"
  have d: "DO_channel ?own" by (rule fan_channels_okD[OF assms(1,3)])
  have own: "eCtrlCmd (fan i s) = ON \<Longrightarrow> DO_on ?own s"
    using assms(2,3) by (simp add: fan_relays_ok_def)
  have keep: "fan_channels_ok (op s) \<and> fan_relays_ok (op s)"
    if "fan_step i op g" "\<And>f. sSwitch_DO (g f) = sSwitch_DO f"
      "\<And>c. DO_channel c \<Longrightarrow> c \<noteq> ?own \<Longrightarrow> DO_on c (op s) = DO_on c s"
      "eCtrlCmd (g (fan i s)) = ON \<Longrightarrow> DO_on ?own (op s)" for op g
    using fan_step_relays[OF that(1) assms(3,1) that(2) assms(2) that(3,4)]
      fan_step_channels[OF that(1,2) assms(3)] assms(1) by blast
  have timeout: "eCtrlCmd (fan_timeout f) = ON \<Longrightarrow> eCtrlCmd f = ON" for f
    by (simp add: fan_timeout_def fan_fault_def split: if_splits)
  have "fan_channels_ok (vExAirFan_SwitchOpen i s) \<and> fan_relays_ok (vExAirFan_SwitchOpen i s)"
    by (rule keep[OF SwitchOpen_step]) (use d own in \<open>auto simp: DO_on_SwitchOpen split: if_splits\<close>)
  moreover have "fan_channels_ok (vExAirFan_SwitchClose i s) \<and> fan_relays_ok (vExAirFan_SwitchClose i s)"
    by (rule keep[OF SwitchClose_step]) (use d in \<open>auto simp: DO_on_SwitchClose\<close>)
  moreover have "fan_channels_ok (vExFan_SetFreq i v s) \<and> fan_relays_ok (vExFan_SetFreq i v s)"
    by (rule keep[OF SetFreq_step]) (use d own in \<open>auto simp: DO_on_SetFreq\<close>)
  moreover have "fan_channels_ok (vExFan_SetFreqRange i lo hi s) \<and>
      fan_relays_ok (vExFan_SetFreqRange i lo hi s)"
    by (rule keep[OF SetFreqRange_step]) (use d own in \<open>auto simp: DO_on_SetFreqRange\<close>)
  moreover have "fan_channels_ok (vExAirFan_TimeoutInd i s) \<and> fan_relays_ok (vExAirFan_TimeoutInd i s)"
    by (rule keep[OF TimeoutInd_step])
      (use d own in \<open>auto simp: TimeoutInd_relay assms(3) dest: timeout\<close>)
  ultimately show ?thesis using assms(4) by auto
qed

theorem fan_operations_keep_relays_witness:
  "fan_channels_ok (vExAirFan_TimeoutInd 0 fan_example) \<and>
   fan_relays_ok (vExAirFan_TimeoutInd 0 fan_example)"
  by (rule fan_operations_keep_relays[OF fan_example_ok, of 0]) simp_all



end
