(* ===== verification/Roof.thy ===== *)
theory Roof
  imports Fan
begin

text \<open>
  The rooftop air-conditioning units: classes \<open>Modular\<close> and \<open>ModularRoof\<close> of
  \<open>Device/modularRoof.c\<close>. A unit is reached over Modbus; the fields its registers are mapped
  to are written by the master stack and are plain data here. The register tables of
  \<open>vModularRoof_InitDevCommData\<close> are in theory \<open>Dict\<close>. Monitor and EEPROM registrations are left
  out, as for the fans.
\<close>

section \<open>Data\<close>

text \<open>\<open>RUN_MODE_0\<close> is the value 0 of zero-initialised memory, which has no name in the code.\<close>

datatype eRunningMode = RUN_MODE_0 | RUN_MODE_COOL | RUN_MODE_HEAT | RUN_MODE_FAN | RUN_MODE_WET

text \<open>\<open>eSwitchCmd\<close> is a byte: the register behind \<open>eSwitchState\<close> may hold any value it is sent.\<close>

definition CMD_OPEN :: u8 where "CMD_OPEN = 0xAA"
definition CMD_CLOSE :: u8 where "CMD_CLOSE = 0x55"

record Modular = Device +
  md_xTempSenOutErr :: bool
  md_xHumiSenOutErr :: bool
  md_ucModularState :: u8
  md_psAmbientOutFanList :: "Device list"
  md_psCompList :: "Device list"

record ModularRoof = Device +
  mr_eRunningMode :: eRunningMode
  mr_eSwitchCmd :: u8
  mr_eSwitchState :: u8
  mr_usCoolTempSet :: u16
  mr_usHeatTempSet :: u16
  mr_usFreAirSet_Vol :: u16
  mr_usFreAir_Vol :: u16
  mr_sSupAir_T :: s16
  mr_sAmbientIn_T :: s16
  mr_usAmbientIn_H :: u16
  mr_sAmbientInSelf_T :: s16
  mr_usAmbientInSelf_H :: u16
  mr_sAmbientOutSelf_T :: s16
  mr_usAmbientOutSelf_H :: u16
  mr_usCO2PPM :: u16
  mr_usCO2PPMSelf :: u16
  mr_usCO2AdjustThr_V :: u16
  mr_usCO2AdjustDeviat :: u16
  mr_usHumidityMin :: u16
  mr_usHumidityMax :: u16
  mr_xCommErr :: bool
  mr_xStopErrFlag :: bool
  mr_xErrClean :: bool
  mr_xCO2SenErr :: bool
  mr_xTempSenInErr :: bool
  mr_xHumiSenInErr :: bool
  mr_xTempSenInSelfErr :: bool
  mr_xHumiSenInSelfErr :: bool
  mr_xCO2SenSelfErr_1 :: bool
  mr_xCO2SenSelfErr_2 :: bool
  mr_xWetMode :: bool
  mr_xSwitchCmdChanged :: bool
  mr_xCompRunning :: bool
  mr_xOnLine :: bool \<comment> \<open>\<open>sMBSlaveDev.xOnLine\<close>\<close>
  mr_ucDevAddr :: u8 \<comment> \<open>\<open>sMBSlaveDev.ucDevAddr\<close>\<close>
  mr_psSupAirFan :: Device
  mr_psModularList :: "Modular list"

record roof_sys = fan_sys +
  psModularRoofList :: "ModularRoof list"

abbreviation MODULAR_NUM :: nat where "MODULAR_NUM \<equiv> 4"
abbreviation COMP_NUM :: nat where "COMP_NUM \<equiv> 2"
abbreviation AMBIENT_OUT_FAN_NUM :: nat where "AMBIENT_OUT_FAN_NUM \<equiv> 2"
abbreviation MODULAR_ROOF_NUM :: nat where "MODULAR_ROOF_NUM \<equiv> 2"

abbreviation roof :: "nat \<Rightarrow> 'z roof_sys_scheme \<Rightarrow> ModularRoof" where
  "roof i s \<equiv> psModularRoofList s ! i"

abbreviation roof_there :: "nat \<Rightarrow> 'z roof_sys_scheme \<Rightarrow> bool" where
  "roof_there i s \<equiv> i < length (psModularRoofList s)"

definition upd_roof ::
  "nat \<Rightarrow> (ModularRoof \<Rightarrow> ModularRoof) \<Rightarrow> 'z roof_sys_scheme \<Rightarrow> 'z roof_sys_scheme"
where
  "upd_roof i f s = s\<lparr>psModularRoofList := (psModularRoofList s)[i := f (psModularRoofList s ! i)]\<rparr>"

lemma upd_roof_simps [simp]:
  "length (psModularRoofList (upd_roof i f s)) = length (psModularRoofList s)"
  "roof_there i s \<Longrightarrow> roof i (upd_roof i f s) = f (roof i s)"
  "j \<noteq> i \<Longrightarrow> roof j (upd_roof i f s) = roof j s"
  "psExAirFanList (upd_roof i f s) = psExAirFanList s"
  "os_tmrs (upd_roof i f s) = os_tmrs s" "OSTmrList (upd_roof i f s) = OSTmrList s"
  "gpio (upd_roof i f s) = gpio s"
  by (simp_all add: upd_roof_def)

section \<open>Operations\<close>

definition device_zero :: Device where
  "device_zero = \<lparr>ulRunTime_S = 0, usRunTime_H = 0, ucDevIndex = 0, xErrFlag = False,
     xAlarmFlag = False, dev_eRunningState = STATE_STOP\<rparr>"

definition roof_zero :: ModularRoof where
  "roof_zero = Device.extend device_zero \<lparr>mr_eRunningMode = RUN_MODE_0, mr_eSwitchCmd = 0,
     mr_eSwitchState = 0, mr_usCoolTempSet = 0, mr_usHeatTempSet = 0, mr_usFreAirSet_Vol = 0,
     mr_usFreAir_Vol = 0, mr_sSupAir_T = 0, mr_sAmbientIn_T = 0, mr_usAmbientIn_H = 0,
     mr_sAmbientInSelf_T = 0, mr_usAmbientInSelf_H = 0, mr_sAmbientOutSelf_T = 0,
     mr_usAmbientOutSelf_H = 0, mr_usCO2PPM = 0, mr_usCO2PPMSelf = 0, mr_usCO2AdjustThr_V = 0,
     mr_usCO2AdjustDeviat = 0, mr_usHumidityMin = 0, mr_usHumidityMax = 0, mr_xCommErr = False,
     mr_xStopErrFlag = False, mr_xErrClean = False, mr_xCO2SenErr = False, mr_xTempSenInErr = False,
     mr_xHumiSenInErr = False, mr_xTempSenInSelfErr = False, mr_xHumiSenInSelfErr = False,
     mr_xCO2SenSelfErr_1 = False, mr_xCO2SenSelfErr_2 = False, mr_xWetMode = False, mr_xSwitchCmdChanged = False,
     mr_xCompRunning = False, mr_xOnLine = False, mr_ucDevAddr = 0, mr_psSupAirFan = device_zero,
     mr_psModularList = []\<rparr>"

definition vModular_Init :: "Modular \<Rightarrow> Modular" where
  "vModular_Init m = m\<lparr>md_psAmbientOutFanList := replicate AMBIENT_OUT_FAN_NUM device_zero,
                       md_psCompList := replicate COMP_NUM device_zero\<rparr>"

definition Modular_new :: Modular where
  "Modular_new = Device.extend device_zero \<lparr>md_xTempSenOutErr = False, md_xHumiSenOutErr = False,
     md_ucModularState = 0, md_psAmbientOutFanList = [], md_psCompList = []\<rparr>"

definition vModularRoof_SwitchOpen :: "nat \<Rightarrow> 'z roof_sys_scheme \<Rightarrow> 'z roof_sys_scheme" where
  "vModularRoof_SwitchOpen i s =
     (if mr_xOnLine (roof i s) \<and> \<not> mr_xStopErrFlag (roof i s)
      then upd_roof i (\<lambda>r. r\<lparr>mr_eSwitchCmd := CMD_OPEN, mr_eSwitchState := CMD_OPEN\<rparr>) s else s)"

definition vModularRoof_SwitchClose :: "nat \<Rightarrow> 'z roof_sys_scheme \<Rightarrow> 'z roof_sys_scheme" where
  "vModularRoof_SwitchClose i s =
     (if dev_eRunningState (roof i s) = STATE_RUN
      then upd_roof i (\<lambda>r. r\<lparr>mr_eSwitchCmd := CMD_CLOSE, mr_eSwitchState := CMD_CLOSE\<rparr>) s else s)"

definition vModularRoof_SetRunningMode ::
  "nat \<Rightarrow> eRunningMode \<Rightarrow> 'z roof_sys_scheme \<Rightarrow> 'z roof_sys_scheme"
where
  "vModularRoof_SetRunningMode i eMode s = upd_roof i (\<lambda>r. r\<lparr>mr_eRunningMode := eMode\<rparr>) s"

definition vModularRoof_InitDefaultData :: "nat \<Rightarrow> 'z roof_sys_scheme \<Rightarrow> 'z roof_sys_scheme" where
  "vModularRoof_InitDefaultData i s = upd_roof i (\<lambda>r. r\<lparr>mr_eSwitchCmd := CMD_CLOSE,
     mr_usCoolTempSet := 260, mr_usHeatTempSet := 200, mr_usFreAirSet_Vol := 30000,
     mr_usHumidityMin := 55, mr_usHumidityMax := 65,
     mr_usCO2AdjustThr_V := 2700, mr_usCO2AdjustDeviat := 50\<rparr>) s"

text \<open>The nested loops return \<open>FALSE\<close> at the first running compressor.\<close>

definition xModularRoof_UnitCompsClosed :: "ModularRoof \<Rightarrow> bool" where
  "xModularRoof_UnitCompsClosed r =
     list_all (\<lambda>n. list_all (\<lambda>m.
         dev_eRunningState (md_psCompList (mr_psModularList r ! n) ! m) \<noteq> STATE_RUN)
       [0..<COMP_NUM]) [0..<MODULAR_NUM]"

definition vModularRoof_TimeoutInd :: "nat \<Rightarrow> 'z roof_sys_scheme \<Rightarrow> 'z roof_sys_scheme" where
  "vModularRoof_TimeoutInd i s =
     (let s1 = upd_roof i (\<lambda>r. r\<lparr>mr_xCommErr := \<not> mr_xOnLine r\<rparr>) s;
          s2 = (if mr_xStopErrFlag (roof i s1) \<and> dev_eRunningState (roof i s1) = STATE_RUN
                then vModularRoof_SwitchClose i s1 else s1)
      in if xModularRoof_UnitCompsClosed (roof i s2)
         then upd_roof i (\<lambda>r. r\<lparr>mr_xCompRunning := False\<rparr>) s2
         else upd_roof i (\<lambda>r. r\<lparr>mr_xCompRunning := True\<rparr>) s2)"

definition MODULAR_TIME_OUT_S :: u32 where "MODULAR_TIME_OUT_S = 5"
definition MODULAR_TIME_OUT_DELAY_S :: u32 where "MODULAR_TIME_OUT_DELAY_S = 20"

definition vModularRoof_Init :: "nat \<Rightarrow> u8 \<Rightarrow> u8 \<Rightarrow> 'z roof_sys_scheme \<Rightarrow> 'z roof_sys_scheme" where
  "vModularRoof_Init i devAddr devIndex s =
     (let s1 = upd_roof i (\<lambda>r. r\<lparr>mr_psSupAirFan := device_zero, mr_ucDevAddr := devAddr,
                 ucDevIndex := devIndex,
                 mr_psModularList := replicate MODULAR_NUM (vModular_Init Modular_new)\<rparr>) s;
          s2 = vModularRoof_InitDefaultData i s1
      in snd (xTimerRegist (sModularRoofTmr i) MODULAR_TIME_OUT_DELAY_S MODULAR_TIME_OUT_S
                OS_OPT_TMR_PERIODIC ModularRoofTimeoutCB id False s2))"

section \<open>The switch interface\<close>

text \<open>
  A unit obeys a start when it is on line and has no stopping fault, and a stop only while it
  reports that it runs.
\<close>

abbreviation roof_ready :: "ModularRoof \<Rightarrow> bool" where
  "roof_ready r \<equiv> mr_xOnLine r \<and> \<not> mr_xStopErrFlag r"

lemma CMD_neq [simp]: "CMD_OPEN \<noteq> CMD_CLOSE" "CMD_CLOSE \<noteq> CMD_OPEN"
  by (simp_all add: CMD_OPEN_def CMD_CLOSE_def)

interpretation roof_switch: dev_switch vModularRoof_SwitchOpen vModularRoof_SwitchClose
    "\<lambda>i s. mr_eSwitchCmd (roof i s) = CMD_OPEN" "\<lambda>i s. roof_ready (roof i s)"
    "\<lambda>i s. dev_eRunningState (roof i s) = STATE_RUN" roof_there
  by unfold_locales
    (auto simp: vModularRoof_SwitchOpen_def vModularRoof_SwitchClose_def upd_roof_def
      nth_list_update)

lemma UnitCompsClosed_iff:
  "xModularRoof_UnitCompsClosed r \<longleftrightarrow> (\<forall>n < MODULAR_NUM. \<forall>m < COMP_NUM.
     dev_eRunningState (md_psCompList (mr_psModularList r ! n) ! m) \<noteq> STATE_RUN)"
  by (auto simp: xModularRoof_UnitCompsClosed_def list_all_iff)

definition roof_timeout :: "ModularRoof \<Rightarrow> ModularRoof" where
  "roof_timeout r =
     (let r1 = r\<lparr>mr_xCommErr := \<not> mr_xOnLine r\<rparr>;
          r2 = (if mr_xStopErrFlag r \<and> dev_eRunningState r = STATE_RUN
                then r1\<lparr>mr_eSwitchCmd := CMD_CLOSE, mr_eSwitchState := CMD_CLOSE\<rparr> else r1)
      in r2\<lparr>mr_xCompRunning := \<not> xModularRoof_UnitCompsClosed r\<rparr>)"

lemma UnitCompsClosed_cong:
  "mr_psModularList r' = mr_psModularList r \<Longrightarrow>
    xModularRoof_UnitCompsClosed r' = xModularRoof_UnitCompsClosed r"
  by (simp add: xModularRoof_UnitCompsClosed_def)

lemma ModularRoof_TimeoutInd_upd:
  assumes "roof_there i s"
  shows "vModularRoof_TimeoutInd i s = upd_roof i roof_timeout s"
  using assms
  by (simp add: vModularRoof_TimeoutInd_def roof_timeout_def Let_def vModularRoof_SwitchClose_def
      upd_roof_def UnitCompsClosed_cong[of "_\<lparr>mr_xCommErr := _\<rparr>"]
      UnitCompsClosed_cong[of "_\<lparr>mr_xCommErr := _, mr_eSwitchCmd := _, mr_eSwitchState := _\<rparr>"])

text \<open>
  C5. The five-second check of a unit: the communication fault is the negated on-line flag, a
  running unit with a stopping fault is commanded off, every other command is kept, and the
  compressor flag is set exactly if one of the eight compressors runs.
\<close>

theorem unit_check:
  assumes "i < length (psModularRoofList s)"
  shows "mr_xCommErr (roof i (vModularRoof_TimeoutInd i s)) = (\<not> mr_xOnLine (roof i s)) \<and>
    mr_eSwitchCmd (roof i (vModularRoof_TimeoutInd i s)) =
      (if mr_xStopErrFlag (roof i s) \<and> dev_eRunningState (roof i s) = STATE_RUN
       then CMD_CLOSE else mr_eSwitchCmd (roof i s)) \<and>
    mr_xCompRunning (roof i (vModularRoof_TimeoutInd i s)) =
      (\<exists>n < 4. \<exists>m < 2. dev_eRunningState
         (md_psCompList (mr_psModularList (roof i s) ! n) ! m) = STATE_RUN) \<and>
    (\<forall>j. j \<noteq> i \<longrightarrow> roof j (vModularRoof_TimeoutInd i s) = roof j s)"
  using assms by (simp add: ModularRoof_TimeoutInd_upd roof_timeout_def Let_def UnitCompsClosed_iff)

definition roof_example :: roof_sys where
  "roof_example = io_zero \<lparr>psExAirFanList = [], psModularRoofList =
     [roof_zero\<lparr>mr_xStopErrFlag := True, dev_eRunningState := STATE_RUN, mr_eSwitchCmd := CMD_OPEN,
        mr_psModularList := replicate 4 (vModular_Init Modular_new)\<rparr>, roof_zero]\<rparr>"

theorem unit_check_witness:
  "mr_eSwitchCmd (roof 0 (vModularRoof_TimeoutInd 0 roof_example)) = CMD_CLOSE"
  using unit_check[of 0 roof_example] by (simp add: roof_example_def io_zero_def)

end
