(* ===== verification/SampleFilter.thy ===== *)
theory SampleFilter
  imports Prelude
begin

text \<open>
  The five-sample filter that the CO2, temperature and humidity readings all go through, as
  an interface: a buffer, the index of the next sample, a running total and an average that
  is renewed from the total once the buffer has gone round.
\<close>

text \<open>C division truncates towards zero; it is monotone for a positive divisor.\<close>

lemma sdiv_mono:
  assumes "(a :: int) \<le> b" and "0 < d"
  shows "a sdiv d \<le> b sdiv d"
proof -
  have pos: "x sdiv d = (if 0 \<le> x then x div d else - ((- x) div d))" for x :: int
    using assms(2) by (auto simp: signed_divide_int_def sgn_if)
  show ?thesis
  proof (cases "0 \<le> a")
    case True
    then show ?thesis using assms by (simp add: pos zdiv_mono1)
  next
    case False
    show ?thesis
    proof (cases "0 \<le> b")
      case True
      then have "0 \<le> b div d" "0 \<le> (- a) div d"
        using False assms(2) by (simp_all add: pos_imp_zdiv_nonneg_iff)
      then show ?thesis using False True by (simp add: pos)
    next
      case b: False
      then show ?thesis using False assms zdiv_mono1[of "- b" "- a" d] by (simp add: pos)
    qed
  qed
qed

lemma sdiv_mult_self: "0 < d \<Longrightarrow> (x * d :: int) sdiv d = x"
  using nonzero_mult_div_cancel_right[of d "- x"]
  by (cases "0 \<le> x") (auto simp: signed_divide_int_def sgn_if abs_mult zero_less_mult_iff)

lemma sum_list_update_int:
  "i < length xs \<Longrightarrow> sum_list (xs[i := v]) = sum_list xs - xs ! i + (v :: int)"
  by (induction xs arbitrary: i) (auto split: nat.split)

lemma sum_list_bounds:
  "(\<And>x. x \<in> set xs \<Longrightarrow> lo \<le> x \<and> x \<le> (hi :: int)) \<Longrightarrow>
    lo * int (length xs) \<le> sum_list xs \<and> sum_list xs \<le> hi * int (length xs)"
proof (induction xs)
  case (Cons a xs)
  then have "lo * int (length xs) \<le> sum_list xs \<and> sum_list xs \<le> hi * int (length xs)"
    and "lo \<le> a \<and> a \<le> hi" by auto
  then show ?case by (simp add: distrib_left)
qed simp

text \<open>
  \<open>inp f\<close> is the sample the next check takes, if it takes one; \<open>healthy f\<close> says that the
  reading is accepted as it stands, and stays so while the average is not renewed;
  \<open>configured f\<close> that the limits of the sensor are \<open>lo\<close> and \<open>hi\<close>.
\<close>

locale sample_filter =
  fixes idx :: "'f \<Rightarrow> nat"
    and buf :: "'f \<Rightarrow> int list"
    and total :: "'f \<Rightarrow> int"
    and avg :: "'f \<Rightarrow> int"
    and inp :: "'f \<Rightarrow> int option"
    and healthy :: "'f \<Rightarrow> bool"
    and check :: "'f \<Rightarrow> 'f"
    and configured :: "'f \<Rightarrow> bool"
    and lo hi :: int
  assumes configured_check: "configured f \<Longrightarrow> configured (check f)"
    and inp_range: "configured f \<Longrightarrow> inp f = Some v \<Longrightarrow> lo \<le> v \<and> v \<le> hi"
    and take_sample: "configured f \<Longrightarrow> length (buf f) = 5 \<Longrightarrow> (\<forall>x \<in> set (buf f). lo \<le> x \<and> x \<le> hi) \<Longrightarrow>
      total f = sum_list (buf f) \<Longrightarrow> idx f < 5 \<Longrightarrow> inp f = Some v \<Longrightarrow>
      idx (check f) = idx f + 1 \<and> buf (check f) = (buf f)[idx f := v] \<and>
      total (check f) = total f - buf f ! idx f + v"
    and no_sample: "configured f \<Longrightarrow> idx f < 5 \<Longrightarrow> inp f = None \<Longrightarrow>
      idx (check f) = idx f \<and> buf (check f) = buf f \<and> total (check f) = total f"
    and renew: "configured f \<Longrightarrow> length (buf f) = 5 \<Longrightarrow> (\<forall>x \<in> set (buf f). lo \<le> x \<and> x \<le> hi) \<Longrightarrow>
      total f = sum_list (buf f) \<Longrightarrow> idx f = 5 \<Longrightarrow>
      idx (check f) = 0 \<and> buf (check f) = buf f \<and> total (check f) = total f \<and>
      avg (check f) = total f sdiv 5"
    and stays_healthy: "configured f \<Longrightarrow> healthy f \<Longrightarrow> idx f < 5 \<Longrightarrow>
      inp f \<noteq> None \<and> inp (check f) = inp f \<and> healthy (check f)"
begin

lemma filter_wf_check:
  assumes cfg: "configured f" and len: "length (buf f) = 5" and rng: "\<forall>x \<in> set (buf f). lo \<le> x \<and> x \<le> hi"
    and tot: "total f = sum_list (buf f)" and i: "idx f \<le> 5"
  shows "length (buf (check f)) = 5 \<and> (\<forall>x \<in> set (buf (check f)). lo \<le> x \<and> x \<le> hi) \<and>
    total (check f) = sum_list (buf (check f)) \<and> idx (check f) \<le> 5"
proof (cases "idx f = 5")
  case True
  then show ?thesis using renew[OF cfg len rng tot] assms by simp
next
  case False
  then have lt: "idx f < 5" using i by simp
  show ?thesis
  proof (cases "inp f")
    case None
    then show ?thesis using no_sample[OF cfg lt] assms by simp
  next
    case (Some v)
    have "set ((buf f)[idx f := v]) \<subseteq> insert v (set (buf f))" by (rule set_update_subset_insert)
    then show ?thesis
      using take_sample[OF cfg len rng tot lt Some] inp_range[OF cfg Some] rng len lt tot
      by (auto simp: sum_list_update_int)
  qed
qed

text \<open>The average that a check publishes lies in the range of the accepted readings.\<close>

lemma avg_range:
  assumes cfg: "configured f" and len: "length (buf f) = 5" and rng: "\<forall>x \<in> set (buf f). lo \<le> x \<and> x \<le> hi"
    and tot: "total f = sum_list (buf f)" and full: "idx f = 5"
  shows "lo \<le> avg (check f) \<and> avg (check f) \<le> hi"
proof -
  have "lo * 5 \<le> total f" "total f \<le> hi * 5"
    using sum_list_bounds[of "buf f" lo hi] rng len tot by auto
  then show ?thesis
    using renew[OF cfg len rng tot full] sdiv_mono[of "lo * 5" "total f" 5]
      sdiv_mono[of "total f" "hi * 5" 5] by (simp add: sdiv_mult_self)
qed

text \<open>A steady reading fills the buffer in five checks and is the average after the sixth.\<close>

lemma steady_fill:
  assumes "configured f" and "length (buf f) = 5" and "\<forall>x \<in> set (buf f). lo \<le> x \<and> x \<le> hi"
    and "total f = sum_list (buf f)" and "idx f = 0" and "healthy f" and "inp f = Some v"
  shows "k \<le> 5 \<Longrightarrow> configured ((check ^^ k) f) \<and> length (buf ((check ^^ k) f)) = 5 \<and>
      (\<forall>x \<in> set (buf ((check ^^ k) f)). lo \<le> x \<and> x \<le> hi) \<and>
      total ((check ^^ k) f) = sum_list (buf ((check ^^ k) f)) \<and>
      idx ((check ^^ k) f) = k \<and> healthy ((check ^^ k) f) \<and> inp ((check ^^ k) f) = Some v \<and>
      (\<forall>j < k. buf ((check ^^ k) f) ! j = v)"
proof (induction k)
  case 0
  then show ?case using assms by simp
next
  case (Suc k)
    let ?g = "(check ^^ k) f"
    have ih: "configured ?g" "length (buf ?g) = 5" "\<forall>x \<in> set (buf ?g). lo \<le> x \<and> x \<le> hi"
      "total ?g = sum_list (buf ?g)" "idx ?g = k" "healthy ?g" "inp ?g = Some v"
      "\<forall>j < k. buf ?g ! j = v" using Suc by auto
    have lt: "idx ?g < 5" using ih(5) Suc.prems by simp
    note st = take_sample[OF ih(1-4) lt ih(7)]
    show ?case
      using filter_wf_check[OF ih(1-4)] lt st ih stays_healthy[OF ih(1,6) lt] configured_check[OF ih(1)]
      by (auto simp: nth_list_update less_Suc_eq)
qed

lemma steady_average:
  assumes "configured f" and "length (buf f) = 5" and "\<forall>x \<in> set (buf f). lo \<le> x \<and> x \<le> hi"
    and "total f = sum_list (buf f)" and "idx f = 0" and "healthy f" and "inp f = Some v"
  shows "avg ((check ^^ 6) f) = v"
proof -
  let ?g = "(check ^^ 5) f"
  note g = steady_fill[OF assms order_refl]
  have "buf ?g = replicate 5 v"
    using g by (intro nth_equalityI) auto
  then have "total ?g = v * 5" using g by (simp add: numeral_eq_Suc)
  moreover have "(check ^^ 6) f = check ?g" by (simp add: numeral_eq_Suc)
  ultimately show ?thesis using g renew[of ?g] by (simp add: sdiv_mult_self)
qed

end

end
