(* ===== verification/Sensor.thy ===== *)
theory Sensor
  imports Roof SampleFilter
begin

text \<open>
  The Modbus sensors of \<open>Device/sensor.c\<close>: the abstract class \<open>Sensor\<close> and the CO2 and
  temperature-humidity sensors, whose two-second check filters the readings through a buffer
  of five samples. The readings themselves (\<open>usCO2PPM\<close>, \<open>sTemp\<close>, \<open>usHumi\<close>) and \<open>xOnLine\<close> are
  written by the Modbus master.
\<close>

section \<open>Data\<close>

datatype eSensorType = TYPE_CO2 | TYPE_TEMP_HUMI_IN | TYPE_TEMP_HUMI_OUT

record Sensor = Device +
  ucSampleIndex :: u8
  ucSampleIndex_2 :: u8
  eSensorType :: eSensorType
  sen_ucDevAddr :: u8
  sen_xOnLine :: bool

record CO2Sensor = Sensor +
  usMaxPPM :: u16
  usMinPPM :: u16
  sen_usCO2PPM :: u16
  usAvgCO2PPM :: u16
  ulTotalCO2PPM :: u32
  sen_xCO2SenErr :: bool
  usSampleCO2PPM :: "u16 list"

record TempHumiSensor = Sensor +
  sMaxTemp :: s16
  sMinTemp :: s16
  sTemp :: s16
  sAvgTemp :: s16
  lTotalTemp :: s32
  sen_xTempSenErr :: bool
  usMaxHumi :: u16
  usMinHumi :: u16
  usHumi :: u16
  usAvgHumi :: u16
  ulTotalHumi :: u32
  sen_xHumiSenErr :: bool
  sSampleTemp :: "s16 list"
  usSampleHumi :: "u16 list"

record sensor_sys = roof_sys +
  psCO2SenList :: "CO2Sensor list"
  psTempHumiSenOutList :: "TempHumiSensor list"
  psTempHumiSenInList :: "TempHumiSensor list"

abbreviation SENSOR_SAMPLE_NUM :: nat where "SENSOR_SAMPLE_NUM \<equiv> 5"
abbreviation CO2_SEN_NUM :: nat where "CO2_SEN_NUM \<equiv> 3"
abbreviation TEMP_HUMI_SEN_OUT_NUM :: nat where "TEMP_HUMI_SEN_OUT_NUM \<equiv> 1"
abbreviation TEMP_HUMI_SEN_IN_NUM :: nat where "TEMP_HUMI_SEN_IN_NUM \<equiv> 12"

section \<open>The CO2 sensor\<close>

text \<open>The ranges \<open>vCO2Sensor_InitDevCommData\<close> sets; the register table is in theory \<open>Dict\<close>.\<close>

definition vCO2Sensor_InitRange :: "CO2Sensor \<Rightarrow> CO2Sensor" where
  "vCO2Sensor_InitRange c = c\<lparr>usMaxPPM := 5000, usMinPPM := 0\<rparr>"

definition CO2Sensor_check :: "CO2Sensor \<Rightarrow> CO2Sensor" where
  "CO2Sensor_check c =
     (if usAvgCO2PPM c < usMinPPM c \<or> usMaxPPM c < usAvgCO2PPM c \<or> \<not> sen_xOnLine c
      then c\<lparr>sen_xCO2SenErr := True, sen_usCO2PPM := 0, usAvgCO2PPM := 0\<rparr>
      else c\<lparr>sen_xCO2SenErr := False\<rparr>)"

definition CO2Sensor_sample :: "CO2Sensor \<Rightarrow> CO2Sensor" where
  "CO2Sensor_sample c =
     (let i = unat (ucSampleIndex c) in
      if ucSampleIndex c < 5 \<and> usMinPPM c < sen_usCO2PPM c \<and> sen_usCO2PPM c < usMaxPPM c then
        let c1 = c\<lparr>ulTotalCO2PPM := ulTotalCO2PPM c - ucast (usSampleCO2PPM c ! i)\<rparr>;
            c2 = c1\<lparr>usSampleCO2PPM := (usSampleCO2PPM c1)[i := sen_usCO2PPM c1]\<rparr>;
            c3 = c2\<lparr>ulTotalCO2PPM := ulTotalCO2PPM c2 + ucast (sen_usCO2PPM c2)\<rparr>
        in c3\<lparr>ucSampleIndex := ucSampleIndex c3 + 1\<rparr>
      else if ucSampleIndex c = 5 then
        c\<lparr>usAvgCO2PPM := ucast (ulTotalCO2PPM c div 5), ucSampleIndex := 0\<rparr>
      else c)"

definition vCO2Sensor_TimeoutInd :: "CO2Sensor \<Rightarrow> CO2Sensor" where
  "vCO2Sensor_TimeoutInd c = CO2Sensor_sample (CO2Sensor_check c)"

section \<open>The temperature-humidity sensor\<close>

definition vTempHumiSensor_InitRange :: "TempHumiSensor \<Rightarrow> TempHumiSensor" where
  "vTempHumiSensor_InitRange t =
     (let t1 = (if eSensorType t = TYPE_TEMP_HUMI_IN
                then t\<lparr>sMaxTemp := 600, sMinTemp := 0\<rparr> else t);
          t2 = (if eSensorType t1 = TYPE_TEMP_HUMI_OUT
                then t1\<lparr>sMaxTemp := 600, sMinTemp := - 200\<rparr> else t1)
      in t2\<lparr>usMaxHumi := 100, usMinHumi := 0\<rparr>)"

definition TempSensor_check :: "TempHumiSensor \<Rightarrow> TempHumiSensor" where
  "TempSensor_check t =
     (if sAvgTemp t <s sMinTemp t \<or> sMaxTemp t <s sAvgTemp t \<or> \<not> sen_xOnLine t
      then t\<lparr>sen_xTempSenErr := True, sTemp := 0, sAvgTemp := 0\<rparr>
      else t\<lparr>sen_xTempSenErr := False\<rparr>)"

definition HumiSensor_check :: "TempHumiSensor \<Rightarrow> TempHumiSensor" where
  "HumiSensor_check t =
     (if usAvgHumi t < usMinHumi t \<or> usMaxHumi t < usAvgHumi t \<or> \<not> sen_xOnLine t
      then t\<lparr>sen_xHumiSenErr := True, usHumi := 0, usAvgHumi := 0\<rparr>
      else t\<lparr>sen_xHumiSenErr := False\<rparr>)"

definition TempSensor_sample :: "TempHumiSensor \<Rightarrow> TempHumiSensor" where
  "TempSensor_sample t =
     (let i = unat (ucSampleIndex t) in
      if ucSampleIndex t < 5 \<and> sTemp t <s sMaxTemp t \<and> sMinTemp t <s sTemp t then
        let t1 = t\<lparr>lTotalTemp := lTotalTemp t - scast (sSampleTemp t ! i)\<rparr>;
            t2 = t1\<lparr>sSampleTemp := (sSampleTemp t1)[i := sTemp t1]\<rparr>;
            t3 = t2\<lparr>lTotalTemp := lTotalTemp t2 + scast (sTemp t2)\<rparr>
        in t3\<lparr>ucSampleIndex := ucSampleIndex t3 + 1\<rparr>
      else if ucSampleIndex t = 5 then
        t\<lparr>sAvgTemp := word_of_int (sint (lTotalTemp t) sdiv 5), ucSampleIndex := 0\<rparr>
      else t)"

definition HumiSensor_sample :: "TempHumiSensor \<Rightarrow> TempHumiSensor" where
  "HumiSensor_sample t =
     (let i = unat (ucSampleIndex_2 t) in
      if ucSampleIndex_2 t < 5 then
        let t1 = t\<lparr>ulTotalHumi := ulTotalHumi t - ucast (usSampleHumi t ! i)\<rparr>;
            t2 = t1\<lparr>usSampleHumi := (usSampleHumi t1)[i := usHumi t1]\<rparr>;
            t3 = t2\<lparr>ulTotalHumi := ulTotalHumi t2 + ucast (usHumi t2)\<rparr>
        in t3\<lparr>ucSampleIndex_2 := ucSampleIndex_2 t3 + 1\<rparr>
      else if ucSampleIndex_2 t = 5 then
        t\<lparr>usAvgHumi := ucast (ulTotalHumi t div 5), ucSampleIndex_2 := 0\<rparr>
      else t)"

definition vTempHumiSensor_TimeoutInd :: "TempHumiSensor \<Rightarrow> TempHumiSensor" where
  "vTempHumiSensor_TimeoutInd t =
     HumiSensor_sample (TempSensor_sample (HumiSensor_check (TempSensor_check t)))"

section \<open>Construction\<close>

definition SENSOR_TIME_OUT_S :: u32 where "SENSOR_TIME_OUT_S = 2"
definition SENSOR_TIME_OUT_DELAY_S :: u32 where "SENSOR_TIME_OUT_DELAY_S = 60"

text \<open>
  \<open>vSensor_Init\<close> of a CO2 sensor and of a temperature-humidity sensor of either list: the fields,
  the ranges, and the timer of the two-second check.
\<close>

definition vSensor_Init_CO2 :: "nat \<Rightarrow> u8 \<Rightarrow> u8 \<Rightarrow> 'z sensor_sys_scheme \<Rightarrow> 'z sensor_sys_scheme" where
  "vSensor_Init_CO2 i devAddr devIndex s =
     snd (xTimerRegist (sCO2SensorTmr i) SENSOR_TIME_OUT_DELAY_S SENSOR_TIME_OUT_S
       OS_OPT_TMR_PERIODIC CO2SensorTimeoutCB id False
       (s\<lparr>psCO2SenList := (psCO2SenList s)[i := vCO2Sensor_InitRange ((psCO2SenList s ! i)
            \<lparr>sen_ucDevAddr := devAddr, eSensorType := TYPE_CO2, ucDevIndex := devIndex\<rparr>)]\<rparr>))"

definition vSensor_Init_Out :: "nat \<Rightarrow> u8 \<Rightarrow> u8 \<Rightarrow> 'z sensor_sys_scheme \<Rightarrow> 'z sensor_sys_scheme" where
  "vSensor_Init_Out i devAddr devIndex s =
     snd (xTimerRegist (sTempHumiOutTmr i) SENSOR_TIME_OUT_DELAY_S SENSOR_TIME_OUT_S
       OS_OPT_TMR_PERIODIC TempHumiSensorTimeoutCB id False
       (s\<lparr>psTempHumiSenOutList := (psTempHumiSenOutList s)[i := vTempHumiSensor_InitRange
            ((psTempHumiSenOutList s ! i)\<lparr>sen_ucDevAddr := devAddr,
               eSensorType := TYPE_TEMP_HUMI_OUT, ucDevIndex := devIndex\<rparr>)]\<rparr>))"

definition vSensor_Init_In :: "nat \<Rightarrow> u8 \<Rightarrow> u8 \<Rightarrow> 'z sensor_sys_scheme \<Rightarrow> 'z sensor_sys_scheme" where
  "vSensor_Init_In i devAddr devIndex s =
     snd (xTimerRegist (sTempHumiInTmr i) SENSOR_TIME_OUT_DELAY_S SENSOR_TIME_OUT_S
       OS_OPT_TMR_PERIODIC TempHumiSensorTimeoutCB id False
       (s\<lparr>psTempHumiSenInList := (psTempHumiSenInList s)[i := vTempHumiSensor_InitRange
            ((psTempHumiSenInList s ! i)\<lparr>sen_ucDevAddr := devAddr,
               eSensorType := TYPE_TEMP_HUMI_IN, ucDevIndex := devIndex\<rparr>)]\<rparr>))"

text \<open>The timer callbacks on the sensor lists.\<close>

definition CO2Sensor_timeout :: "nat \<Rightarrow> 'z sensor_sys_scheme \<Rightarrow> 'z sensor_sys_scheme" where
  "CO2Sensor_timeout i s =
     s\<lparr>psCO2SenList := (psCO2SenList s)[i := vCO2Sensor_TimeoutInd (psCO2SenList s ! i)]\<rparr>"

definition TempHumiOut_timeout :: "nat \<Rightarrow> 'z sensor_sys_scheme \<Rightarrow> 'z sensor_sys_scheme" where
  "TempHumiOut_timeout i s = s\<lparr>psTempHumiSenOutList := (psTempHumiSenOutList s)
     [i := vTempHumiSensor_TimeoutInd (psTempHumiSenOutList s ! i)]\<rparr>"

definition TempHumiIn_timeout :: "nat \<Rightarrow> 'z sensor_sys_scheme \<Rightarrow> 'z sensor_sys_scheme" where
  "TempHumiIn_timeout i s = s\<lparr>psTempHumiSenInList := (psTempHumiSenInList s)
     [i := vTempHumiSensor_TimeoutInd (psTempHumiSenInList s ! i)]\<rparr>"

section \<open>The filters\<close>

lemma sum_list_u16:
  "0 \<le> sum_list (map uint (xs :: u16 list)) \<and> sum_list (map uint xs) \<le> 65535 * int (length xs)"
proof -
  have "uint x \<le> 65535" for x :: u16 using uint_bounded[of x] by simp
  then show ?thesis using sum_list_bounds[of "map uint xs" 0 65535] by auto
qed

lemma sum_list_s16:
  "- 32768 * int (length xs) \<le> sum_list (map sint (xs :: s16 list)) \<and>
   sum_list (map sint xs) \<le> 32767 * int (length xs)"
proof -
  have "- 32768 \<le> sint x \<and> sint x \<le> 32767" for x :: s16
    using sint_greater_eq[of x] sint_less[of x] by simp
  then show ?thesis using sum_list_bounds[of "map sint xs" "- 32768" 32767] by auto
qed

lemma uint_of_int_u32: "0 \<le> n \<Longrightarrow> n < 4294967296 \<Longrightarrow> uint (word_of_int n :: u32) = n"
  by (simp add: unsigned_of_int take_bit_int_eq_self)

lemma sint_of_int_s32: "- 2147483648 \<le> n \<Longrightarrow> n < 2147483648 \<Longrightarrow> sint (word_of_int n :: s32) = n"
  by (simp add: signed_of_int signed_take_bit_int_eq_self)

lemma u32_running_total:
  assumes "uint (t :: u32) = sum_list (map uint (xs :: u16 list))" and "length xs = 5" and "i < 5"
  shows "uint (t - ucast (xs ! i) + ucast v) = uint t - uint (xs ! i) + uint (v :: u16)"
proof -
  have len: "int (length xs) = 5" using assms(2) by simp
  have eq: "sum_list (map uint (xs[i := v])) = uint t - uint (xs ! i) + uint v"
    using assms by (simp add: map_update sum_list_update_int)
  have r: "0 \<le> uint t - uint (xs ! i) + uint v" "uint t - uint (xs ! i) + uint v < 4294967296"
    using sum_list_u16[of "xs[i := v]"] len unfolding eq length_list_update by linarith+
  have w: "t - ucast (xs ! i) + ucast v = (word_of_int (uint t - uint (xs ! i) + uint v) :: u32)"
    by simp
  show ?thesis by (subst w) (rule uint_of_int_u32[OF r])
qed

lemma s32_running_total:
  assumes "sint (t :: s32) = sum_list (map sint (xs :: s16 list))" and "length xs = 5" and "i < 5"
  shows "sint (t - scast (xs ! i) + scast v) = sint t - sint (xs ! i) + sint (v :: s16)"
proof -
  have len: "int (length xs) = 5" using assms(2) by simp
  have eq: "sum_list (map sint (xs[i := v])) = sint t - sint (xs ! i) + sint v"
    using assms by (simp add: map_update sum_list_update_int)
  have r: "- 2147483648 \<le> sint t - sint (xs ! i) + sint v"
      "sint t - sint (xs ! i) + sint v < 2147483648"
    using sum_list_s16[of "xs[i := v]"] len unfolding eq length_list_update by linarith+
  have w: "t - scast (xs ! i) + scast v = (word_of_int (sint t - sint (xs ! i) + sint v) :: s32)"
    by simp
  show ?thesis by (subst w) (rule sint_of_int_s32[OF r])
qed

text \<open>The CO2 filter.\<close>

abbreviation co2_ok :: "CO2Sensor \<Rightarrow> bool" where
  "co2_ok c \<equiv> \<not> (usAvgCO2PPM c < usMinPPM c \<or> usMaxPPM c < usAvgCO2PPM c \<or> \<not> sen_xOnLine c)"

definition co2_inp :: "CO2Sensor \<Rightarrow> int option" where
  "co2_inp c = (if co2_ok c \<and> usMinPPM c < sen_usCO2PPM c \<and> sen_usCO2PPM c < usMaxPPM c
                then Some (uint (sen_usCO2PPM c)) else None)"

definition co2_configured :: "CO2Sensor \<Rightarrow> bool" where
  "co2_configured c \<longleftrightarrow> usMinPPM c = 0 \<and> usMaxPPM c = 5000"

lemma u8_lt_5: "unat (i :: u8) < 5 \<longleftrightarrow> i < 5" "unat i = 5 \<longleftrightarrow> i = 5"
  by (simp_all add: word_less_nat_alt word_unat_eq_iff)

lemma unat_u8_Suc: "(i :: u8) < 5 \<Longrightarrow> unat (i + 1) = unat i + 1"
  by (simp add: unat_word_ariths word_less_nat_alt)

lemma co2_timeout_take:
  assumes "ucSampleIndex c < 5" and "co2_inp c \<noteq> None"
  shows "vCO2Sensor_TimeoutInd c = c\<lparr>sen_xCO2SenErr := False,
    ulTotalCO2PPM := ulTotalCO2PPM c - ucast (usSampleCO2PPM c ! unat (ucSampleIndex c))
      + ucast (sen_usCO2PPM c),
    usSampleCO2PPM := (usSampleCO2PPM c)[unat (ucSampleIndex c) := sen_usCO2PPM c],
    ucSampleIndex := ucSampleIndex c + 1\<rparr>"
proof -
  have ok: "co2_ok c" "usMinPPM c < sen_usCO2PPM c" "sen_usCO2PPM c < usMaxPPM c"
    using assms(2) by (auto simp: co2_inp_def split: if_splits)
  have "CO2Sensor_check c = c\<lparr>sen_xCO2SenErr := False\<rparr>" using ok(1) by (simp add: CO2Sensor_check_def)
  then show ?thesis
    using assms(1) ok(2,3)
    by (simp add: vCO2Sensor_TimeoutInd_def CO2Sensor_sample_def Let_def)
qed

lemma co2_timeout_skip:
  assumes "ucSampleIndex c < 5" and "co2_inp c = None"
  shows "vCO2Sensor_TimeoutInd c = CO2Sensor_check c"
proof -
  have "\<not> (usMinPPM (CO2Sensor_check c) < sen_usCO2PPM (CO2Sensor_check c) \<and>
      sen_usCO2PPM (CO2Sensor_check c) < usMaxPPM (CO2Sensor_check c))"
    using assms(2) by (cases "co2_ok c") (auto simp: CO2Sensor_check_def co2_inp_def)
  moreover have "ucSampleIndex (CO2Sensor_check c) < 5"
    using assms(1) by (simp add: CO2Sensor_check_def)
  ultimately show ?thesis
    unfolding vCO2Sensor_TimeoutInd_def CO2Sensor_sample_def Let_def
    by (metis order_less_irrefl)
qed

lemma co2_timeout_renew:
  assumes "ucSampleIndex c = 5"
  shows "vCO2Sensor_TimeoutInd c =
    (CO2Sensor_check c)\<lparr>usAvgCO2PPM := ucast (ulTotalCO2PPM c div 5), ucSampleIndex := 0\<rparr>"
  using assms by (auto simp: vCO2Sensor_TimeoutInd_def CO2Sensor_check_def CO2Sensor_sample_def Let_def)

lemma CO2Sensor_check_simps [simp]:
  "ucSampleIndex (CO2Sensor_check c) = ucSampleIndex c"
  "usSampleCO2PPM (CO2Sensor_check c) = usSampleCO2PPM c"
  "ulTotalCO2PPM (CO2Sensor_check c) = ulTotalCO2PPM c"
  "usMinPPM (CO2Sensor_check c) = usMinPPM c" "usMaxPPM (CO2Sensor_check c) = usMaxPPM c"
  by (simp_all add: CO2Sensor_check_def)

lemma avg_u16:
  assumes "uint (t :: u32) = sum_list (map uint (xs :: u16 list))" and "length xs = 5"
  shows "uint (ucast (t div 5) :: u16) = uint t sdiv 5"
proof -
  have "0 \<le> uint t" "uint t \<le> 65535 * 5" using sum_list_u16[of xs] assms by auto
  then have "uint t div 5 < 65536" by linarith
  then show ?thesis
    by (simp add: unsigned_ucast_eq uint_div take_bit_int_eq_self signed_divide_int_def sgn_if)
qed

interpretation co2_filter: sample_filter "\<lambda>c. unat (ucSampleIndex c)" "\<lambda>c. map uint (usSampleCO2PPM c)"
    "\<lambda>c. uint (ulTotalCO2PPM c)" "\<lambda>c. uint (usAvgCO2PPM c)" co2_inp "\<lambda>c. co2_inp c \<noteq> None"
    vCO2Sensor_TimeoutInd co2_configured 0 5000
proof (unfold_locales, goal_cases)
  case (1 f)
  then show ?case
    by (auto simp: co2_configured_def vCO2Sensor_TimeoutInd_def CO2Sensor_check_def
        CO2Sensor_sample_def Let_def)
next
  case (2 f v)
  then show ?case by (auto simp: co2_configured_def co2_inp_def word_less_def split: if_splits)
next
  case (3 f v)
  then show ?case
    by (simp add: u8_lt_5 co2_timeout_take unat_u8_Suc map_update u32_running_total)
      (auto simp: co2_inp_def split: if_splits)
next
  case (4 f)
  then show ?case by (simp add: u8_lt_5 co2_timeout_skip)
next
  case (5 f)
  then show ?case
    by (simp add: u8_lt_5 co2_timeout_renew avg_u16)
next
  case (6 f)
  then show ?case by (simp add: u8_lt_5 co2_timeout_take) (auto simp: co2_inp_def split: if_splits)
qed

text \<open>The temperature filter, with the limits of an indoor and of an outdoor sensor.\<close>

abbreviation temp_ok :: "TempHumiSensor \<Rightarrow> bool" where
  "temp_ok t \<equiv> \<not> (sAvgTemp t <s sMinTemp t \<or> sMaxTemp t <s sAvgTemp t \<or> \<not> sen_xOnLine t)"

abbreviation humi_ok :: "TempHumiSensor \<Rightarrow> bool" where
  "humi_ok t \<equiv> \<not> (usAvgHumi t < usMinHumi t \<or> usMaxHumi t < usAvgHumi t \<or> \<not> sen_xOnLine t)"

text \<open>After an error the sample is 0, which is within the limits of an outdoor sensor.\<close>

definition temp_reading :: "TempHumiSensor \<Rightarrow> s16" where
  "temp_reading t = (if temp_ok t then sTemp t else 0)"

definition temp_inp :: "TempHumiSensor \<Rightarrow> int option" where
  "temp_inp t = (if temp_reading t <s sMaxTemp t \<and> sMinTemp t <s temp_reading t
                 then Some (sint (temp_reading t)) else None)"

definition humi_reading :: "TempHumiSensor \<Rightarrow> u16" where
  "humi_reading t = (if humi_ok t then usHumi t else 0)"

definition temp_configured :: "int \<Rightarrow> int \<Rightarrow> TempHumiSensor \<Rightarrow> bool" where
  "temp_configured lo hi t \<longleftrightarrow> sint (sMinTemp t) = lo \<and> sint (sMaxTemp t) = hi"

lemma TempSensor_check_simps [simp]:
  "sTemp (TempSensor_check t) = temp_reading t"
  "ucSampleIndex (TempSensor_check t) = ucSampleIndex t"
  "ucSampleIndex_2 (TempSensor_check t) = ucSampleIndex_2 t"
  "sSampleTemp (TempSensor_check t) = sSampleTemp t" "lTotalTemp (TempSensor_check t) = lTotalTemp t"
  "sMinTemp (TempSensor_check t) = sMinTemp t" "sMaxTemp (TempSensor_check t) = sMaxTemp t"
  "usMinHumi (TempSensor_check t) = usMinHumi t" "usMaxHumi (TempSensor_check t) = usMaxHumi t"
  "usHumi (TempSensor_check t) = usHumi t" "usAvgHumi (TempSensor_check t) = usAvgHumi t"
  "usSampleHumi (TempSensor_check t) = usSampleHumi t" "ulTotalHumi (TempSensor_check t) = ulTotalHumi t"
  "sen_xOnLine (TempSensor_check t) = sen_xOnLine t"
  "sAvgTemp (TempSensor_check t) = (if temp_ok t then sAvgTemp t else 0)"
  by (simp_all add: TempSensor_check_def temp_reading_def)

lemma HumiSensor_check_simps [simp]:
  "sTemp (HumiSensor_check t) = sTemp t" "sAvgTemp (HumiSensor_check t) = sAvgTemp t"
  "ucSampleIndex (HumiSensor_check t) = ucSampleIndex t"
  "ucSampleIndex_2 (HumiSensor_check t) = ucSampleIndex_2 t"
  "sSampleTemp (HumiSensor_check t) = sSampleTemp t" "lTotalTemp (HumiSensor_check t) = lTotalTemp t"
  "sMinTemp (HumiSensor_check t) = sMinTemp t" "sMaxTemp (HumiSensor_check t) = sMaxTemp t"
  "usMinHumi (HumiSensor_check t) = usMinHumi t" "usMaxHumi (HumiSensor_check t) = usMaxHumi t"
  "usHumi (HumiSensor_check t) = humi_reading t"
  "usSampleHumi (HumiSensor_check t) = usSampleHumi t" "ulTotalHumi (HumiSensor_check t) = ulTotalHumi t"
  "sen_xOnLine (HumiSensor_check t) = sen_xOnLine t"
  "usAvgHumi (HumiSensor_check t) = (if humi_ok t then usAvgHumi t else 0)"
  by (simp_all add: HumiSensor_check_def humi_reading_def)

lemma TempSensor_sample_simps [simp]:
  "ucSampleIndex_2 (TempSensor_sample t) = ucSampleIndex_2 t"
  "usSampleHumi (TempSensor_sample t) = usSampleHumi t" "ulTotalHumi (TempSensor_sample t) = ulTotalHumi t"
  "usMinHumi (TempSensor_sample t) = usMinHumi t" "usMaxHumi (TempSensor_sample t) = usMaxHumi t"
  "usHumi (TempSensor_sample t) = usHumi t" "usAvgHumi (TempSensor_sample t) = usAvgHumi t"
  "sMinTemp (TempSensor_sample t) = sMinTemp t" "sMaxTemp (TempSensor_sample t) = sMaxTemp t"
  "sen_xOnLine (TempSensor_sample t) = sen_xOnLine t" "sTemp (TempSensor_sample t) = sTemp t"
  by (simp_all add: TempSensor_sample_def Let_def)

lemma HumiSensor_sample_simps [simp]:
  "ucSampleIndex (HumiSensor_sample t) = ucSampleIndex t"
  "sSampleTemp (HumiSensor_sample t) = sSampleTemp t" "lTotalTemp (HumiSensor_sample t) = lTotalTemp t"
  "sMinTemp (HumiSensor_sample t) = sMinTemp t" "sMaxTemp (HumiSensor_sample t) = sMaxTemp t"
  "sTemp (HumiSensor_sample t) = sTemp t" "sAvgTemp (HumiSensor_sample t) = sAvgTemp t"
  "sen_xOnLine (HumiSensor_sample t) = sen_xOnLine t" "usHumi (HumiSensor_sample t) = usHumi t"
  "usMinHumi (HumiSensor_sample t) = usMinHumi t" "usMaxHumi (HumiSensor_sample t) = usMaxHumi t"
  by (simp_all add: HumiSensor_sample_def Let_def)

text \<open>The temperature part of one check, case by case.\<close>

lemma temp_part_take:
  assumes "ucSampleIndex t < 5" and "temp_inp t = Some v"
  shows "ucSampleIndex (vTempHumiSensor_TimeoutInd t) = ucSampleIndex t + 1 \<and>
    sSampleTemp (vTempHumiSensor_TimeoutInd t) =
      (sSampleTemp t)[unat (ucSampleIndex t) := temp_reading t] \<and>
    lTotalTemp (vTempHumiSensor_TimeoutInd t) =
      lTotalTemp t - scast (sSampleTemp t ! unat (ucSampleIndex t)) + scast (temp_reading t) \<and>
    sAvgTemp (vTempHumiSensor_TimeoutInd t) = (if temp_ok t then sAvgTemp t else 0)"
  using assms
  by (simp add: vTempHumiSensor_TimeoutInd_def TempSensor_sample_def Let_def temp_inp_def
      split: if_splits)

lemma temp_part_skip:
  assumes "ucSampleIndex t < 5" and "temp_inp t = None"
  shows "ucSampleIndex (vTempHumiSensor_TimeoutInd t) = ucSampleIndex t \<and>
    sSampleTemp (vTempHumiSensor_TimeoutInd t) = sSampleTemp t \<and>
    lTotalTemp (vTempHumiSensor_TimeoutInd t) = lTotalTemp t"
proof -
  have "ucSampleIndex t \<noteq> 5" using assms(1) by auto
  then show ?thesis using assms
    by (simp add: vTempHumiSensor_TimeoutInd_def TempSensor_sample_def Let_def temp_inp_def
        split: if_splits)
qed

lemma temp_part_renew:
  assumes "ucSampleIndex t = 5"
  shows "ucSampleIndex (vTempHumiSensor_TimeoutInd t) = 0 \<and>
    sSampleTemp (vTempHumiSensor_TimeoutInd t) = sSampleTemp t \<and>
    lTotalTemp (vTempHumiSensor_TimeoutInd t) = lTotalTemp t \<and>
    sAvgTemp (vTempHumiSensor_TimeoutInd t) = word_of_int (sint (lTotalTemp t) sdiv 5)"
  using assms by (simp add: vTempHumiSensor_TimeoutInd_def TempSensor_sample_def Let_def)

lemma TempHumi_unchanged [simp]:
  "sMinTemp (vTempHumiSensor_TimeoutInd t) = sMinTemp t"
  "sMaxTemp (vTempHumiSensor_TimeoutInd t) = sMaxTemp t"
  "usMinHumi (vTempHumiSensor_TimeoutInd t) = usMinHumi t"
  "usMaxHumi (vTempHumiSensor_TimeoutInd t) = usMaxHumi t"
  "sen_xOnLine (vTempHumiSensor_TimeoutInd t) = sen_xOnLine t"
  "sTemp (vTempHumiSensor_TimeoutInd t) = temp_reading t"
  by (simp_all add: vTempHumiSensor_TimeoutInd_def)

lemma avg_s16:
  assumes "sint (t :: s32) = sum_list (map sint (xs :: s16 list))" and "length xs = 5"
  shows "sint (word_of_int (sint t sdiv 5) :: s16) = sint t sdiv 5"
proof -
  have len: "int (length xs) = 5" using assms(2) by simp
  have "- 32768 * 5 \<le> sint t \<and> sint t \<le> 32767 * 5"
    using sum_list_s16[of xs] unfolding assms(1) len .
  then have h: "- 163840 \<le> sint t" "sint t \<le> 163835" by simp_all
  have e: "(- 163840 :: int) sdiv 5 = - 32768" "(163835 :: int) sdiv 5 = 32767"
    by (simp_all add: signed_divide_int_def)
  have "- 32768 \<le> sint t sdiv 5" "sint t sdiv 5 \<le> 32767"
    using sdiv_mono[OF h(1), of 5] sdiv_mono[OF h(2), of 5] unfolding e by simp_all
  then show ?thesis by (simp add: signed_of_int signed_take_bit_int_eq_self)
qed

lemma temp_filter_laws:
  "sample_filter (\<lambda>t. unat (ucSampleIndex t)) (\<lambda>t. map sint (sSampleTemp t))
    (\<lambda>t. sint (lTotalTemp t)) (\<lambda>t. sint (sAvgTemp t)) temp_inp (\<lambda>t. temp_ok t \<and> temp_inp t \<noteq> None)
    vTempHumiSensor_TimeoutInd (temp_configured lo hi) lo hi"
proof (unfold_locales, goal_cases)
  case (1 f)
  then show ?case by (simp add: temp_configured_def)
next
  case (2 f v)
  then show ?case by (auto simp: temp_configured_def temp_inp_def word_sless_alt split: if_splits)
next
  case (3 f v)
  have "v = sint (temp_reading f)" using 3(6) by (simp add: temp_inp_def split: if_splits)
  then show ?case
    using 3 temp_part_take[of f v] by (simp add: u8_lt_5 unat_u8_Suc map_update s32_running_total)
next
  case (4 f)
  then show ?case using temp_part_skip[of f] by (simp add: u8_lt_5)
next
  case (5 f)
  then show ?case using temp_part_renew[of f] avg_s16 by (simp add: u8_lt_5)
next
  case (6 f)
  then obtain v where v: "temp_inp f = Some v" by blast
  have "temp_reading f = sTemp f" using 6 by (simp add: temp_reading_def)
  moreover have "sAvgTemp (vTempHumiSensor_TimeoutInd f) = sAvgTemp f"
    using 6 temp_part_take[OF _ v] by (simp add: u8_lt_5)
  ultimately have "temp_ok (vTempHumiSensor_TimeoutInd f)"
    "temp_reading (vTempHumiSensor_TimeoutInd f) = temp_reading f"
    using 6 by (simp_all add: temp_reading_def)
  then show ?case using 6 unfolding temp_inp_def by (simp split: if_splits)
qed

interpretation temp_in_filter: sample_filter "\<lambda>t. unat (ucSampleIndex t)"
    "\<lambda>t. map sint (sSampleTemp t)" "\<lambda>t. sint (lTotalTemp t)" "\<lambda>t. sint (sAvgTemp t)" temp_inp
    "\<lambda>t. temp_ok t \<and> temp_inp t \<noteq> None" vTempHumiSensor_TimeoutInd "temp_configured 0 600" 0 600
  by (rule temp_filter_laws)

interpretation temp_out_filter: sample_filter "\<lambda>t. unat (ucSampleIndex t)"
    "\<lambda>t. map sint (sSampleTemp t)" "\<lambda>t. sint (lTotalTemp t)" "\<lambda>t. sint (sAvgTemp t)" temp_inp
    "\<lambda>t. temp_ok t \<and> temp_inp t \<noteq> None" vTempHumiSensor_TimeoutInd "temp_configured (- 200) 600"
    "- 200" 600
  by (rule temp_filter_laws)

text \<open>The humidity filter takes every reading, 0 after an error included.\<close>

lemma humi_part_take:
  assumes "ucSampleIndex_2 t < 5"
  shows "ucSampleIndex_2 (vTempHumiSensor_TimeoutInd t) = ucSampleIndex_2 t + 1 \<and>
    usSampleHumi (vTempHumiSensor_TimeoutInd t) =
      (usSampleHumi t)[unat (ucSampleIndex_2 t) := humi_reading t] \<and>
    ulTotalHumi (vTempHumiSensor_TimeoutInd t) =
      ulTotalHumi t - ucast (usSampleHumi t ! unat (ucSampleIndex_2 t)) + ucast (humi_reading t) \<and>
    usAvgHumi (vTempHumiSensor_TimeoutInd t) = (if humi_ok t then usAvgHumi t else 0) \<and>
    usHumi (vTempHumiSensor_TimeoutInd t) = humi_reading t"
proof -
  have "humi_reading (TempSensor_check t) = humi_reading t" by (simp add: humi_reading_def)
  then show ?thesis using assms
    by (simp add: vTempHumiSensor_TimeoutInd_def HumiSensor_sample_def Let_def)
qed

lemma humi_part_renew:
  assumes "ucSampleIndex_2 t = 5"
  shows "ucSampleIndex_2 (vTempHumiSensor_TimeoutInd t) = 0 \<and>
    usSampleHumi (vTempHumiSensor_TimeoutInd t) = usSampleHumi t \<and>
    ulTotalHumi (vTempHumiSensor_TimeoutInd t) = ulTotalHumi t \<and>
    usAvgHumi (vTempHumiSensor_TimeoutInd t) = ucast (ulTotalHumi t div 5)"
  using assms by (simp add: vTempHumiSensor_TimeoutInd_def HumiSensor_sample_def Let_def)

interpretation humi_filter: sample_filter "\<lambda>t. unat (ucSampleIndex_2 t)"
    "\<lambda>t. map uint (usSampleHumi t)" "\<lambda>t. uint (ulTotalHumi t)" "\<lambda>t. uint (usAvgHumi t)"
    "\<lambda>t. Some (uint (humi_reading t))" humi_ok vTempHumiSensor_TimeoutInd "\<lambda>t. True" 0 65535
proof (unfold_locales, goal_cases)
  case (2 f v)
  then show ?case using uint_bounded[of "humi_reading f"] by auto
next
  case (3 f v)
  then show ?case
    using humi_part_take[of f] by (simp add: u8_lt_5 unat_u8_Suc map_update u32_running_total)
next
  case (5 f)
  then show ?case using humi_part_renew[of f] avg_u16 by (simp add: u8_lt_5)
next
  case (6 f)
  then show ?case using humi_part_take[of f] by (simp add: u8_lt_5 humi_reading_def)
qed simp_all

section \<open>Properties\<close>

text \<open>Zero-initialised sensors, and the ones the witnesses use.\<close>

definition co2_zero :: CO2Sensor where
  "co2_zero = Device.extend device_zero \<lparr>ucSampleIndex = 0, ucSampleIndex_2 = 0,
     eSensorType = TYPE_CO2, sen_ucDevAddr = 0, sen_xOnLine = False, usMaxPPM = 0, usMinPPM = 0,
     sen_usCO2PPM = 0, usAvgCO2PPM = 0, ulTotalCO2PPM = 0, sen_xCO2SenErr = False,
     usSampleCO2PPM = replicate 5 0\<rparr>"

definition temp_zero :: TempHumiSensor where
  "temp_zero = Device.extend device_zero \<lparr>ucSampleIndex = 0, ucSampleIndex_2 = 0,
     eSensorType = TYPE_CO2, sen_ucDevAddr = 0, sen_xOnLine = False, sMaxTemp = 0, sMinTemp = 0,
     sTemp = 0, sAvgTemp = 0, lTotalTemp = 0, sen_xTempSenErr = False, usMaxHumi = 0, usMinHumi = 0,
     usHumi = 0, usAvgHumi = 0, ulTotalHumi = 0, sen_xHumiSenErr = False,
     sSampleTemp = replicate 5 0, usSampleHumi = replicate 5 0\<rparr>"

definition co2_example :: CO2Sensor where
  "co2_example = (vCO2Sensor_InitRange co2_zero)\<lparr>sen_xOnLine := True, sen_usCO2PPM := 1234\<rparr>"

definition temp_example :: TempHumiSensor where
  "temp_example = (vTempHumiSensor_InitRange (temp_zero\<lparr>eSensorType := TYPE_TEMP_HUMI_OUT\<rparr>))
     \<lparr>sen_xOnLine := True, sTemp := - 50\<rparr>"

text \<open>The invariant of a CO2 sensor with the limits its constructor sets.\<close>

definition co2_wf :: "CO2Sensor \<Rightarrow> bool" where
  "co2_wf c \<longleftrightarrow> usMinPPM c = 0 \<and> usMaxPPM c = 5000 \<and> length (usSampleCO2PPM c) = 5 \<and>
     (\<forall>x \<in> set (usSampleCO2PPM c). x \<le> 5000) \<and>
     uint (ulTotalCO2PPM c) = sum_list (map uint (usSampleCO2PPM c)) \<and> ucSampleIndex c \<le> 5 \<and>
     usAvgCO2PPM c \<le> 5000"

lemma u16_le_5000: "(x :: u16) \<le> 5000 \<longleftrightarrow> uint x \<le> 5000"
  by (simp add: word_le_def)

lemma u8_le_5: "(i :: u8) \<le> 5 \<longleftrightarrow> unat i \<le> 5"
  by (simp add: word_le_nat_alt)

lemma co2_wf_filter:
  "co2_wf c \<longleftrightarrow> co2_configured c \<and> length (map uint (usSampleCO2PPM c)) = 5 \<and>
     (\<forall>x \<in> set (map uint (usSampleCO2PPM c)). 0 \<le> x \<and> x \<le> 5000) \<and>
     uint (ulTotalCO2PPM c) = sum_list (map uint (usSampleCO2PPM c)) \<and>
     unat (ucSampleIndex c) \<le> 5 \<and> uint (usAvgCO2PPM c) \<le> 5000"
  by (auto simp: co2_wf_def co2_configured_def u16_le_5000 u8_le_5)

lemma co2_avg_keeps:
  assumes "ucSampleIndex c \<noteq> 5"
  shows "usAvgCO2PPM (vCO2Sensor_TimeoutInd c) \<in> {usAvgCO2PPM c, 0}"
  using assms by (simp add: vCO2Sensor_TimeoutInd_def CO2Sensor_sample_def Let_def
      CO2Sensor_check_def)

lemma co2_wf_timeout:
  assumes "co2_wf c"
  shows "co2_wf (vCO2Sensor_TimeoutInd c)"
proof -
  note wf = assms[unfolded co2_wf_filter]
  note step = co2_filter.filter_wf_check[of c] co2_filter.configured_check[of c]
  have "uint (usAvgCO2PPM (vCO2Sensor_TimeoutInd c)) \<le> 5000"
  proof (cases "ucSampleIndex c = 5")
    case True
    then show ?thesis using co2_filter.avg_range[of c] wf by simp
  next
    case False
    then show ?thesis using co2_avg_keeps[OF False] wf by auto
  qed
  then show ?thesis using step wf unfolding co2_wf_filter by blast
qed

text \<open>The bus writes a reading and the on-line flag, then the check runs.\<close>

lemma co2_wf_input: "co2_wf (c\<lparr>sen_usCO2PPM := v, sen_xOnLine := on\<rparr>) = co2_wf c"
  by (simp add: co2_wf_def)

definition co2_cycle :: "u16 \<times> bool \<Rightarrow> CO2Sensor \<Rightarrow> CO2Sensor" where
  "co2_cycle inp c =
     vCO2Sensor_TimeoutInd (c\<lparr>sen_usCO2PPM := fst inp, sen_xOnLine := snd inp\<rparr>)"

text \<open>
  C6. Whatever readings arrive and however often the sensor drops off the bus, after every check
  the running total of a CO2 sensor is the sum of its five samples, the sample index is within
  the buffer and the published average is between 0 and 5000 ppm.
\<close>

theorem co2_filter_invariant:
  assumes "co2_wf c"
  shows "co2_wf (fold co2_cycle inputs c)"
  using assms by (induction inputs arbitrary: c) (simp_all add: co2_cycle_def co2_wf_timeout co2_wf_input)

lemma co2_example_wf: "co2_wf co2_example"
  by (simp add: co2_wf_def co2_example_def vCO2Sensor_InitRange_def co2_zero_def Device.defs
      sum_list_replicate)

theorem co2_filter_invariant_witness:
  "co2_wf (fold co2_cycle [(400, True), (9000, True), (450, False)] co2_example)"
  by (rule co2_filter_invariant[OF co2_example_wf])

text \<open>
  A CO2 sensor that is on line and reads a steady value inside its limits publishes exactly
  that value after the six checks of a buffer cycle.
\<close>

theorem co2_steady_reading:
  assumes "co2_wf c" and "ucSampleIndex c = 0" and "sen_xOnLine c"
    and "0 < sen_usCO2PPM c" and "sen_usCO2PPM c < 5000"
  shows "usAvgCO2PPM ((vCO2Sensor_TimeoutInd ^^ 6) c) = sen_usCO2PPM c"
proof -
  have inp: "co2_inp c = Some (uint (sen_usCO2PPM c))"
    using assms by (auto simp: co2_inp_def co2_wf_def)
  have "uint (usAvgCO2PPM ((vCO2Sensor_TimeoutInd ^^ 6) c)) = uint (sen_usCO2PPM c)"
    using co2_filter.steady_average[of c] assms(1)[unfolded co2_wf_filter] assms(2) inp by simp
  then show ?thesis unfolding word_uint_eq_iff .
qed

theorem co2_steady_reading_witness:
  "usAvgCO2PPM ((vCO2Sensor_TimeoutInd ^^ 6) co2_example) = 1234"
  using co2_steady_reading[OF co2_example_wf]
  by (simp add: co2_example_def vCO2Sensor_InitRange_def co2_zero_def Device.defs)

text \<open>The invariant of a temperature sensor with limits \<open>lo\<close> and \<open>hi\<close>.\<close>

definition temp_wf :: "int \<Rightarrow> int \<Rightarrow> TempHumiSensor \<Rightarrow> bool" where
  "temp_wf lo hi t \<longleftrightarrow> temp_configured lo hi t \<and> length (sSampleTemp t) = 5 \<and>
     (\<forall>x \<in> set (sSampleTemp t). lo \<le> sint x \<and> sint x \<le> hi) \<and>
     sint (lTotalTemp t) = sum_list (map sint (sSampleTemp t)) \<and> ucSampleIndex t \<le> 5 \<and>
     ((lo \<le> sint (sAvgTemp t) \<and> sint (sAvgTemp t) \<le> hi) \<or> sAvgTemp t = 0)"

lemma temp_avg_keeps:
  assumes "ucSampleIndex t \<noteq> 5"
  shows "sAvgTemp (vTempHumiSensor_TimeoutInd t) = (if temp_ok t then sAvgTemp t else 0)"
  using assms by (simp add: vTempHumiSensor_TimeoutInd_def TempSensor_sample_def Let_def)

lemma temp_wf_timeout:
  assumes "temp_wf lo hi t"
  shows "temp_wf lo hi (vTempHumiSensor_TimeoutInd t)"
proof -
  note wf = assms[unfolded temp_wf_def u8_le_5]
  have len: "length (map sint (sSampleTemp t)) = 5"
    and rng: "\<forall>x \<in> set (map sint (sSampleTemp t)). lo \<le> x \<and> x \<le> hi"
    and cfg: "temp_configured lo hi t"
    and tot: "sint (lTotalTemp t) = sum_list (map sint (sSampleTemp t))"
    and idx: "unat (ucSampleIndex t) \<le> 5" using wf by auto
  note step = sample_filter.filter_wf_check[OF temp_filter_laws cfg len rng tot idx]
  have "(lo \<le> sint (sAvgTemp (vTempHumiSensor_TimeoutInd t)) \<and>
      sint (sAvgTemp (vTempHumiSensor_TimeoutInd t)) \<le> hi) \<or> sAvgTemp (vTempHumiSensor_TimeoutInd t) = 0"
  proof (cases "ucSampleIndex t = 5")
    case True
    then show ?thesis using sample_filter.avg_range[OF temp_filter_laws cfg len rng tot] by simp
  next
    case False
    then show ?thesis using temp_avg_keeps[OF False] wf by auto
  qed
  then show ?thesis
    using step cfg unfolding temp_wf_def u8_le_5 by (simp add: temp_configured_def)
qed

text \<open>
  A humidity reading beyond its limits does not disturb the temperature filter, and the bus may
  write anything.
\<close>

definition temp_cycle :: "s16 \<times> u16 \<times> bool \<Rightarrow> TempHumiSensor \<Rightarrow> TempHumiSensor" where
  "temp_cycle inp t = vTempHumiSensor_TimeoutInd
     (t\<lparr>sTemp := fst inp, usHumi := fst (snd inp), sen_xOnLine := snd (snd inp)\<rparr>)"

lemma temp_wf_input:
  "temp_wf lo hi (t\<lparr>sTemp := v, usHumi := h, sen_xOnLine := on\<rparr>) = temp_wf lo hi t"
  by (simp add: temp_wf_def temp_configured_def)

text \<open>
  Whatever readings arrive, after every check the running total of a temperature sensor is the
  sum of its five samples, all within the limits of the sensor, and the published average is
  within them too (or the 0 that stands for a fault). Any limits are covered, among them 0 to
  600 indoors and -200 to 600 outdoors, in tenths of a degree.
\<close>

theorem temp_filter_invariant:
  assumes "temp_wf lo hi t"
  shows "temp_wf lo hi (fold temp_cycle inputs t)"
  using assms by (induction inputs arbitrary: t) (simp_all add: temp_cycle_def temp_wf_timeout temp_wf_input)

theorem temp_filter_invariant_witness:
  "temp_wf (- 200) 600 (fold temp_cycle [(- 50, 40, True), (900, 40, True), (0, 0, False)] temp_example)"
  by (rule temp_filter_invariant)
    (simp add: temp_wf_def temp_configured_def temp_example_def vTempHumiSensor_InitRange_def
      temp_zero_def Device.defs sum_list_replicate)

end
