(* ===== verification/SysState.thy ===== *)
theory SysState
  imports Sensor
begin

text \<open>
  The state of the controller: the single object of class \<open>System\<close> (\<open>system/system.h\<close>), the
  register image \<open>BMS\<close> through which the supervisor reads and writes it (\<open>Device/bms.h\<close>), and
  the file variables of \<open>system.c\<close> and \<open>fanctrl.c\<close>. Also the default data and the alarm of
  \<open>system.c\<close> and \<open>systemctrl.c\<close>.
\<close>

section \<open>Data\<close>

datatype eSystemMode = MODE_CLOSE | MODE_MANUAL | MODE_AUTO | MODE_EMERGENCY

datatype eSystemState = STATE_CLOSED | STATE_COOL | STATE_HEAT | STATE_FAN | STATE_WET
  | STATE_EX_FAN

datatype eExAirFanType = TYPE_CONSTANT | TYPE_CONSTANT_VARIABLE

record BMS =
  bms_eSystemMode :: eSystemMode
  bms_eRunningMode :: eRunningMode
  bms_usTempSet :: u16
  bms_usHumidityMax :: u16
  bms_usHumidityMin :: u16
  bms_usFreAirSet_Vol_H :: u16
  bms_usFreAirSet_Vol_L :: u16
  bms_usCO2AdjustThr_V :: u16
  bms_usCO2AdjustDeviat :: u16
  bms_ucExAirCoolRatio :: u8
  bms_ucExAirHeatRatio :: u8
  bms_eExAirFanType :: eExAirFanType
  bms_usExAirFanFreq :: u16
  bms_usExAirFanMinFreq :: u16
  bms_usExAirFanMaxFreq :: u16
  bms_usExAirFanCtrlPeriod :: u16
  bms_usExAirFanRated_Vol_H :: u16
  bms_usExAirFanRated_Vol_L :: u16
  bms_usTotalFreAir_Vol_H :: u16
  bms_usTotalFreAir_Vol_L :: u16
  bms_xAlarmClean :: bool
  bms_xAlarmEnable :: bool
  bms_xExAirFanErrClean :: bool

text \<open>
  The numbered fields \<open>usModeChangeTime_1\<close> to \<open>_8\<close>, \<open>usModeChangePeriod_1\<close> to \<open>_6\<close> and
  \<open>usModeAdjustTemp_0\<close> to \<open>_6\<close> are functions of their number. \<open>pExAirFanVariate\<close> points at an
  object of \<open>psExAirFanList\<close>: its index, or nothing for \<open>NULL\<close>. \<open>g_\<close> marks the file variables
  of \<open>fanctrl.c\<close>, whose names are those of fields.
\<close>

record sys = sensor_sys +
  eSystemMode :: eSystemMode
  eSystemState :: eSystemState
  eRunningMode :: eRunningMode
  usModeChangeTime :: "nat \<Rightarrow> u16"
  usModeChangePeriod :: "nat \<Rightarrow> u16"
  usModeAdjustTemp :: "nat \<Rightarrow> u16"
  usTempSet :: u16
  usEnergyTemp :: u16
  usTempDeviat :: u16
  usSupAirMax_T :: u16
  usCO2PPM :: u16
  usCO2AdjustThr_V :: u16
  usCO2AdjustDeviat :: u16
  usCO2PPMAlarm :: u16
  ulExAirRequest_Vol :: u32
  ulFreAirSet_Vol :: u32
  ulTotalFreAir_Vol :: u32
  ulExAirFanRated_Vol :: u32
  usHumidityMax :: u16
  usHumidityMin :: u16
  sAmbientIn_T :: s16
  sAmbientOut_T :: s16
  usAmbientIn_H :: u16
  usAmbientOut_H :: u16
  usExAirFanRunTimeLeast :: u16
  usExAirFanFreq :: u16
  usExAirFanMinFreq :: u16
  usExAirFanMaxFreq :: u16
  ulExAirFanRequestTime :: u32
  usExAirFanCtrlPeriod :: u16
  ucExAirCoolRatio :: u8
  ucExAirHeatRatio :: u8
  ucConstantFanRequestNum :: u8
  ucConstantFanOpenNum :: u8
  xVariableFanRequest :: bool
  eExAirFanType :: eExAirFanType
  xCompFirstRun :: bool
  xUnitErrFlag :: bool
  xExFanErrFlag :: bool
  xAlarmEnable :: bool
  xCO2SenErr :: bool
  xTempHumiSenOutErr :: bool
  xTempHumiSenInErr :: bool
  xTempSenOutErr :: bool
  xTempSenInErr :: bool
  xHumiSenOutErr :: bool
  xHumiSenInErr :: bool
  sAlarm_DO :: u8
  pExAirFanVariate :: "nat option"
  psBMS :: BMS
  g_ulExAirFanRequestTime :: u32
  g_ucConstantFanRequestNum :: u8
  LastAmbientIn_T :: s16

definition upd_bms :: "(BMS \<Rightarrow> BMS) \<Rightarrow> 'z sys_scheme \<Rightarrow> 'z sys_scheme" where
  "upd_bms f s = s\<lparr>psBMS := f (psBMS s)\<rparr>"

text \<open>\<open>for(n=0; n < MODULAR_ROOF_NUM; n++)\<close> with a body that updates unit \<open>n\<close> only.\<close>

definition upd_roofs :: "(ModularRoof \<Rightarrow> ModularRoof) \<Rightarrow> 'z roof_sys_scheme \<Rightarrow> 'z roof_sys_scheme" where
  "upd_roofs f = for_loop MODULAR_ROOF_NUM (\<lambda>n. upd_roof n f)"

section \<open>Default data\<close>

definition vSystem_InitDefaultData :: "'z sys_scheme \<Rightarrow> 'z sys_scheme" where
  "vSystem_InitDefaultData s = s\<lparr>
     eSystemMode := MODE_CLOSE,
     usEnergyTemp := 250, usTempDeviat := 5, usSupAirMax_T := 450, usTempSet := 260,
     usHumidityMin := 55, usHumidityMax := 65,
     usCO2AdjustThr_V := 2700, usCO2AdjustDeviat := 270, usCO2PPMAlarm := 3000,
     ulFreAirSet_Vol := 60000,
     eExAirFanType := TYPE_CONSTANT_VARIABLE, usExAirFanFreq := 0, usExAirFanMinFreq := 0,
     usExAirFanMaxFreq := 500, ucExAirCoolRatio := 90, ucExAirHeatRatio := 90,
     usExAirFanRunTimeLeast := 300, usExAirFanCtrlPeriod := 1800, ulExAirFanRated_Vol := 36000,
     usModeChangeTime := (\<lambda>_. 1), usModeChangePeriod := (\<lambda>_. 3), usModeAdjustTemp := (\<lambda>_. 15)\<rparr>"

text \<open>
  Volumes go through two 16-bit registers in radix 65535 (not 65536).
\<close>

definition vol_H :: "u32 \<Rightarrow> u16" where "vol_H v = ucast (v div 65535)"
definition vol_L :: "u32 \<Rightarrow> u16" where "vol_L v = ucast (v mod 65535)"
definition vol_of :: "u16 \<Rightarrow> u16 \<Rightarrow> u32" where "vol_of h l = ucast h * 65535 + ucast l"

definition vBMS_InitDefaultData :: "'z sys_scheme \<Rightarrow> 'z sys_scheme" where
  "vBMS_InitDefaultData s = upd_bms (\<lambda>b. b\<lparr>
     bms_eSystemMode := eSystemMode s, bms_eRunningMode := eRunningMode s,
     bms_usHumidityMin := usHumidityMin s, bms_usHumidityMax := usHumidityMax s,
     bms_usCO2AdjustThr_V := usCO2AdjustThr_V s, bms_usCO2AdjustDeviat := usCO2AdjustDeviat s,
     bms_usTempSet := usTempSet s,
     bms_usFreAirSet_Vol_H := vol_H (ulFreAirSet_Vol s),
     bms_usFreAirSet_Vol_L := vol_L (ulFreAirSet_Vol s),
     bms_usExAirFanRated_Vol_H := vol_H (ulExAirFanRated_Vol s),
     bms_usExAirFanRated_Vol_L := vol_L (ulExAirFanRated_Vol s),
     bms_usExAirFanFreq := usExAirFanFreq s, bms_usExAirFanMinFreq := usExAirFanMinFreq s,
     bms_usExAirFanMaxFreq := usExAirFanMaxFreq s, bms_eExAirFanType := eExAirFanType s,
     bms_usExAirFanCtrlPeriod := usExAirFanCtrlPeriod s,
     bms_ucExAirCoolRatio := ucExAirCoolRatio s, bms_ucExAirHeatRatio := ucExAirHeatRatio s,
     bms_xAlarmEnable := xAlarmEnable s\<rparr>) s"

section \<open>The alarm\<close>

definition vSystem_RegistAlarmIO :: "u8 \<Rightarrow> 'z sys_scheme \<Rightarrow> 'z sys_scheme" where
  "vSystem_RegistAlarmIO ucSwitch_DO s = s\<lparr>sAlarm_DO := ucSwitch_DO\<rparr>"

definition vSystem_SetAlarm :: "'z sys_scheme \<Rightarrow> 'z sys_scheme" where
  "vSystem_SetAlarm s = (if xAlarmEnable s then vDigitalOutputCtrl (sAlarm_DO s) ON s else s)"

definition vSystem_DelAlarm :: "'z sys_scheme \<Rightarrow> 'z sys_scheme" where
  "vSystem_DelAlarm s = vDigitalOutputCtrl (sAlarm_DO s) OFF s"

text \<open>
  The two loops and the two tests that both \<open>vSystem_DelAlarmRequst\<close> and \<open>vSystem_AlarmEnable\<close>
  contain: whether they leave early.
\<close>

definition unit_alarm :: "nat \<Rightarrow> 'z sys_scheme \<Rightarrow> bool" where
  "unit_alarm n s \<longleftrightarrow> \<not> mr_xOnLine (roof n s) \<or> mr_xStopErrFlag (roof n s) \<or>
     sint (mr_sSupAir_T (roof n s)) > uint (usSupAirMax_T s)"

definition alarm_pending :: "'z sys_scheme \<Rightarrow> bool" where
  "alarm_pending s \<longleftrightarrow>
     list_ex (\<lambda>n. unit_alarm n s) [0..<MODULAR_ROOF_NUM] \<or>
     list_ex (\<lambda>n. xExAirFanErr (fan n s)) [0..<EX_AIR_FAN_NUM] \<or>
     usCO2PPMAlarm s \<le> usCO2PPM s \<or>
     xCO2SenErr s \<or> xTempHumiSenOutErr s \<or> xTempHumiSenInErr s"

definition vSystem_DelAlarmRequst :: "'z sys_scheme \<Rightarrow> 'z sys_scheme" where
  "vSystem_DelAlarmRequst s =
     (let s1 = (if \<not> xAlarmEnable s then vSystem_DelAlarm s else s)
      in if alarm_pending s1 then s1 else vSystem_DelAlarm s1)"

text \<open>\<open>pxAlarmClean\<close> is always the field of the BMS.\<close>

definition vSystem_CleanAlarm :: "'z sys_scheme \<Rightarrow> 'z sys_scheme" where
  "vSystem_CleanAlarm s =
     (if bms_xAlarmClean (psBMS s)
      then upd_bms (\<lambda>b. b\<lparr>bms_xAlarmClean := False\<rparr>) (vDigitalOutputCtrl (sAlarm_DO s) OFF s)
      else s)"

definition vSystem_AlarmEnable :: "bool \<Rightarrow> 'z sys_scheme \<Rightarrow> 'z sys_scheme" where
  "vSystem_AlarmEnable en s =
     (let s1 = s\<lparr>xAlarmEnable := en\<rparr>
      in if en then (if alarm_pending s1 then vSystem_SetAlarm s1 else s1)
         else vSystem_DelAlarm s1)"

end
