(* ===== verification/Frames.thy ===== *)
theory Frames
  imports SysState
begin

text \<open>
  Projections of the state that most operations leave alone, and the simplification rules that
  show it: a rule for each field update, for the loops, and for each operation of the fans, the
  units, the timers and the alarm. The theories of the control functions add theirs.
\<close>

section \<open>The projections\<close>

text \<open>What only construction and a change of the exhaust fan type alter.\<close>

definition config where
  "config s = (map (\<lambda>f. (eFanFreqType f, sSwitch_DO f)) (psExAirFanList s),
     length (psModularRoofList s), psCO2SenList s, psTempHumiSenOutList s, psTempHumiSenInList s,
     eExAirFanType s, pExAirFanVariate s, sAlarm_DO s)"

text \<open>The system mode, the two "all have failed" flags that bar the automatic modes, and the mode
  the register image shows.\<close>

definition modes where
  "modes s = (eSystemMode s, xUnitErrFlag s, xExFanErrFlag s, bms_eSystemMode (psBMS s))"

text \<open>The units and what the control functions compare.\<close>

definition unit_part where
  "unit_part s = (psModularRoofList s, eRunningMode s, eSystemState s, xCompFirstRun s,
     (usModeChangeTime s, usModeChangePeriod s, usModeAdjustTemp s),
     usTempSet s, usEnergyTemp s, usTempDeviat s, sAmbientIn_T s,
     usCO2PPM s, usCO2AdjustThr_V s, usCO2AdjustDeviat s)"

section \<open>Field updates\<close>

lemma config_update [simp]:
  "config (os_tmrs_update u0 s) = config s"
  "config (OSTmrList_update u1 s) = config s"
  "config (OSTmrTickCtr_update u2 s) = config s"
  "config (gpio_update u3 s) = config s"
  "config (pwm_match_update u4 s) = config s"
  "config (pwm_ena_update u5 s) = config s"
  "config (ssp1_sent_update u6 s) = config s"
  "config (AnalogOutputData_update u7 s) = config s"
  "config (AnalogInputData_update u8 s) = config s"
  "config (DigitalInputData_update u9 s) = config s"
  "config (AnalogInputuA_update u10 s) = config s"
  "config (SaInput_update u11 s) = config s"
  "config (LogicInput1_update u12 s) = config s"
  "config (LogicInput2_update u13 s) = config s"
  "config (ControllerID_update u14 s) = config s"
  "config (eSystemMode_update u20 s) = config s"
  "config (eSystemState_update u21 s) = config s"
  "config (eRunningMode_update u22 s) = config s"
  "config (usModeChangeTime_update u23 s) = config s"
  "config (usModeChangePeriod_update u24 s) = config s"
  "config (usModeAdjustTemp_update u25 s) = config s"
  "config (usTempSet_update u26 s) = config s"
  "config (usEnergyTemp_update u27 s) = config s"
  "config (usTempDeviat_update u28 s) = config s"
  "config (usSupAirMax_T_update u29 s) = config s"
  "config (usCO2PPM_update u30 s) = config s"
  "config (usCO2AdjustThr_V_update u31 s) = config s"
  "config (usCO2AdjustDeviat_update u32 s) = config s"
  "config (usCO2PPMAlarm_update u33 s) = config s"
  "config (ulExAirRequest_Vol_update u34 s) = config s"
  "config (ulFreAirSet_Vol_update u35 s) = config s"
  "config (ulTotalFreAir_Vol_update u36 s) = config s"
  "config (ulExAirFanRated_Vol_update u37 s) = config s"
  "config (usHumidityMax_update u38 s) = config s"
  "config (usHumidityMin_update u39 s) = config s"
  "config (sAmbientIn_T_update u40 s) = config s"
  "config (sAmbientOut_T_update u41 s) = config s"
  "config (usAmbientIn_H_update u42 s) = config s"
  "config (usAmbientOut_H_update u43 s) = config s"
  "config (usExAirFanRunTimeLeast_update u44 s) = config s"
  "config (usExAirFanFreq_update u45 s) = config s"
  "config (usExAirFanMinFreq_update u46 s) = config s"
  "config (usExAirFanMaxFreq_update u47 s) = config s"
  "config (ulExAirFanRequestTime_update u48 s) = config s"
  "config (usExAirFanCtrlPeriod_update u49 s) = config s"
  "config (ucExAirCoolRatio_update u50 s) = config s"
  "config (ucExAirHeatRatio_update u51 s) = config s"
  "config (ucConstantFanRequestNum_update u52 s) = config s"
  "config (ucConstantFanOpenNum_update u53 s) = config s"
  "config (xVariableFanRequest_update u54 s) = config s"
  "config (xCompFirstRun_update u56 s) = config s"
  "config (xUnitErrFlag_update u57 s) = config s"
  "config (xExFanErrFlag_update u58 s) = config s"
  "config (xAlarmEnable_update u59 s) = config s"
  "config (xCO2SenErr_update u60 s) = config s"
  "config (xTempHumiSenOutErr_update u61 s) = config s"
  "config (xTempHumiSenInErr_update u62 s) = config s"
  "config (xTempSenOutErr_update u63 s) = config s"
  "config (xTempSenInErr_update u64 s) = config s"
  "config (xHumiSenOutErr_update u65 s) = config s"
  "config (xHumiSenInErr_update u66 s) = config s"
  "config (psBMS_update u69 s) = config s"
  "config (g_ulExAirFanRequestTime_update u70 s) = config s"
  "config (g_ucConstantFanRequestNum_update u71 s) = config s"
  "config (LastAmbientIn_T_update u72 s) = config s"
  by (simp_all add: config_def)

lemma modes_update [simp]:
  "modes (os_tmrs_update u0 s) = modes s"
  "modes (OSTmrList_update u1 s) = modes s"
  "modes (OSTmrTickCtr_update u2 s) = modes s"
  "modes (gpio_update u3 s) = modes s"
  "modes (pwm_match_update u4 s) = modes s"
  "modes (pwm_ena_update u5 s) = modes s"
  "modes (ssp1_sent_update u6 s) = modes s"
  "modes (AnalogOutputData_update u7 s) = modes s"
  "modes (AnalogInputData_update u8 s) = modes s"
  "modes (DigitalInputData_update u9 s) = modes s"
  "modes (AnalogInputuA_update u10 s) = modes s"
  "modes (SaInput_update u11 s) = modes s"
  "modes (LogicInput1_update u12 s) = modes s"
  "modes (LogicInput2_update u13 s) = modes s"
  "modes (ControllerID_update u14 s) = modes s"
  "modes (psExAirFanList_update u15 s) = modes s"
  "modes (psModularRoofList_update u16 s) = modes s"
  "modes (psCO2SenList_update u17 s) = modes s"
  "modes (psTempHumiSenOutList_update u18 s) = modes s"
  "modes (psTempHumiSenInList_update u19 s) = modes s"
  "modes (eSystemState_update u21 s) = modes s"
  "modes (eRunningMode_update u22 s) = modes s"
  "modes (usModeChangeTime_update u23 s) = modes s"
  "modes (usModeChangePeriod_update u24 s) = modes s"
  "modes (usModeAdjustTemp_update u25 s) = modes s"
  "modes (usTempSet_update u26 s) = modes s"
  "modes (usEnergyTemp_update u27 s) = modes s"
  "modes (usTempDeviat_update u28 s) = modes s"
  "modes (usSupAirMax_T_update u29 s) = modes s"
  "modes (usCO2PPM_update u30 s) = modes s"
  "modes (usCO2AdjustThr_V_update u31 s) = modes s"
  "modes (usCO2AdjustDeviat_update u32 s) = modes s"
  "modes (usCO2PPMAlarm_update u33 s) = modes s"
  "modes (ulExAirRequest_Vol_update u34 s) = modes s"
  "modes (ulFreAirSet_Vol_update u35 s) = modes s"
  "modes (ulTotalFreAir_Vol_update u36 s) = modes s"
  "modes (ulExAirFanRated_Vol_update u37 s) = modes s"
  "modes (usHumidityMax_update u38 s) = modes s"
  "modes (usHumidityMin_update u39 s) = modes s"
  "modes (sAmbientIn_T_update u40 s) = modes s"
  "modes (sAmbientOut_T_update u41 s) = modes s"
  "modes (usAmbientIn_H_update u42 s) = modes s"
  "modes (usAmbientOut_H_update u43 s) = modes s"
  "modes (usExAirFanRunTimeLeast_update u44 s) = modes s"
  "modes (usExAirFanFreq_update u45 s) = modes s"
  "modes (usExAirFanMinFreq_update u46 s) = modes s"
  "modes (usExAirFanMaxFreq_update u47 s) = modes s"
  "modes (ulExAirFanRequestTime_update u48 s) = modes s"
  "modes (usExAirFanCtrlPeriod_update u49 s) = modes s"
  "modes (ucExAirCoolRatio_update u50 s) = modes s"
  "modes (ucExAirHeatRatio_update u51 s) = modes s"
  "modes (ucConstantFanRequestNum_update u52 s) = modes s"
  "modes (ucConstantFanOpenNum_update u53 s) = modes s"
  "modes (xVariableFanRequest_update u54 s) = modes s"
  "modes (eExAirFanType_update u55 s) = modes s"
  "modes (xCompFirstRun_update u56 s) = modes s"
  "modes (xAlarmEnable_update u59 s) = modes s"
  "modes (xCO2SenErr_update u60 s) = modes s"
  "modes (xTempHumiSenOutErr_update u61 s) = modes s"
  "modes (xTempHumiSenInErr_update u62 s) = modes s"
  "modes (xTempSenOutErr_update u63 s) = modes s"
  "modes (xTempSenInErr_update u64 s) = modes s"
  "modes (xHumiSenOutErr_update u65 s) = modes s"
  "modes (xHumiSenInErr_update u66 s) = modes s"
  "modes (sAlarm_DO_update u67 s) = modes s"
  "modes (pExAirFanVariate_update u68 s) = modes s"
  "modes (g_ulExAirFanRequestTime_update u70 s) = modes s"
  "modes (g_ucConstantFanRequestNum_update u71 s) = modes s"
  "modes (LastAmbientIn_T_update u72 s) = modes s"
  by (simp_all add: modes_def)

lemma unit_part_update [simp]:
  "unit_part (os_tmrs_update u0 s) = unit_part s"
  "unit_part (OSTmrList_update u1 s) = unit_part s"
  "unit_part (OSTmrTickCtr_update u2 s) = unit_part s"
  "unit_part (gpio_update u3 s) = unit_part s"
  "unit_part (pwm_match_update u4 s) = unit_part s"
  "unit_part (pwm_ena_update u5 s) = unit_part s"
  "unit_part (ssp1_sent_update u6 s) = unit_part s"
  "unit_part (AnalogOutputData_update u7 s) = unit_part s"
  "unit_part (AnalogInputData_update u8 s) = unit_part s"
  "unit_part (DigitalInputData_update u9 s) = unit_part s"
  "unit_part (AnalogInputuA_update u10 s) = unit_part s"
  "unit_part (SaInput_update u11 s) = unit_part s"
  "unit_part (LogicInput1_update u12 s) = unit_part s"
  "unit_part (LogicInput2_update u13 s) = unit_part s"
  "unit_part (ControllerID_update u14 s) = unit_part s"
  "unit_part (psExAirFanList_update u15 s) = unit_part s"
  "unit_part (psCO2SenList_update u17 s) = unit_part s"
  "unit_part (psTempHumiSenOutList_update u18 s) = unit_part s"
  "unit_part (psTempHumiSenInList_update u19 s) = unit_part s"
  "unit_part (eSystemMode_update u20 s) = unit_part s"
  "unit_part (usSupAirMax_T_update u29 s) = unit_part s"
  "unit_part (usCO2PPMAlarm_update u33 s) = unit_part s"
  "unit_part (ulExAirRequest_Vol_update u34 s) = unit_part s"
  "unit_part (ulFreAirSet_Vol_update u35 s) = unit_part s"
  "unit_part (ulTotalFreAir_Vol_update u36 s) = unit_part s"
  "unit_part (ulExAirFanRated_Vol_update u37 s) = unit_part s"
  "unit_part (usHumidityMax_update u38 s) = unit_part s"
  "unit_part (usHumidityMin_update u39 s) = unit_part s"
  "unit_part (sAmbientOut_T_update u41 s) = unit_part s"
  "unit_part (usAmbientIn_H_update u42 s) = unit_part s"
  "unit_part (usAmbientOut_H_update u43 s) = unit_part s"
  "unit_part (usExAirFanRunTimeLeast_update u44 s) = unit_part s"
  "unit_part (usExAirFanFreq_update u45 s) = unit_part s"
  "unit_part (usExAirFanMinFreq_update u46 s) = unit_part s"
  "unit_part (usExAirFanMaxFreq_update u47 s) = unit_part s"
  "unit_part (ulExAirFanRequestTime_update u48 s) = unit_part s"
  "unit_part (usExAirFanCtrlPeriod_update u49 s) = unit_part s"
  "unit_part (ucExAirCoolRatio_update u50 s) = unit_part s"
  "unit_part (ucExAirHeatRatio_update u51 s) = unit_part s"
  "unit_part (ucConstantFanRequestNum_update u52 s) = unit_part s"
  "unit_part (ucConstantFanOpenNum_update u53 s) = unit_part s"
  "unit_part (xVariableFanRequest_update u54 s) = unit_part s"
  "unit_part (eExAirFanType_update u55 s) = unit_part s"
  "unit_part (xUnitErrFlag_update u57 s) = unit_part s"
  "unit_part (xExFanErrFlag_update u58 s) = unit_part s"
  "unit_part (xAlarmEnable_update u59 s) = unit_part s"
  "unit_part (xCO2SenErr_update u60 s) = unit_part s"
  "unit_part (xTempHumiSenOutErr_update u61 s) = unit_part s"
  "unit_part (xTempHumiSenInErr_update u62 s) = unit_part s"
  "unit_part (xTempSenOutErr_update u63 s) = unit_part s"
  "unit_part (xTempSenInErr_update u64 s) = unit_part s"
  "unit_part (xHumiSenOutErr_update u65 s) = unit_part s"
  "unit_part (xHumiSenInErr_update u66 s) = unit_part s"
  "unit_part (sAlarm_DO_update u67 s) = unit_part s"
  "unit_part (pExAirFanVariate_update u68 s) = unit_part s"
  "unit_part (psBMS_update u69 s) = unit_part s"
  "unit_part (g_ulExAirFanRequestTime_update u70 s) = unit_part s"
  "unit_part (g_ucConstantFanRequestNum_update u71 s) = unit_part s"
  "unit_part (LastAmbientIn_T_update u72 s) = unit_part s"
  by (simp_all add: unit_part_def)

lemma tmr_wf_update [simp]:
  "tmr_wf (OSTmrTickCtr_update u2 s2) = tmr_wf s2"
  "tmr_wf (gpio_update u3 s3) = tmr_wf s3"
  "tmr_wf (pwm_match_update u4 s4) = tmr_wf s4"
  "tmr_wf (pwm_ena_update u5 s5) = tmr_wf s5"
  "tmr_wf (ssp1_sent_update u6 s6) = tmr_wf s6"
  "tmr_wf (AnalogOutputData_update u7 s7) = tmr_wf s7"
  "tmr_wf (AnalogInputData_update u8 s8) = tmr_wf s8"
  "tmr_wf (DigitalInputData_update u9 s9) = tmr_wf s9"
  "tmr_wf (AnalogInputuA_update u10 s10) = tmr_wf s10"
  "tmr_wf (SaInput_update u11 s11) = tmr_wf s11"
  "tmr_wf (LogicInput1_update u12 s12) = tmr_wf s12"
  "tmr_wf (LogicInput2_update u13 s13) = tmr_wf s13"
  "tmr_wf (ControllerID_update u14 s14) = tmr_wf s14"
  "tmr_wf (psExAirFanList_update u15 s15) = tmr_wf s15"
  "tmr_wf (psModularRoofList_update u16 s16) = tmr_wf s16"
  "tmr_wf (psCO2SenList_update u17 s17) = tmr_wf s17"
  "tmr_wf (psTempHumiSenOutList_update u18 s18) = tmr_wf s18"
  "tmr_wf (psTempHumiSenInList_update u19 s19) = tmr_wf s19"
  "tmr_wf (eSystemMode_update u20 s20) = tmr_wf s20"
  "tmr_wf (eSystemState_update u21 s21) = tmr_wf s21"
  "tmr_wf (eRunningMode_update u22 s22) = tmr_wf s22"
  "tmr_wf (usModeChangeTime_update u23 s23) = tmr_wf s23"
  "tmr_wf (usModeChangePeriod_update u24 s24) = tmr_wf s24"
  "tmr_wf (usModeAdjustTemp_update u25 s25) = tmr_wf s25"
  "tmr_wf (usTempSet_update u26 s26) = tmr_wf s26"
  "tmr_wf (usEnergyTemp_update u27 s27) = tmr_wf s27"
  "tmr_wf (usTempDeviat_update u28 s28) = tmr_wf s28"
  "tmr_wf (usSupAirMax_T_update u29 s29) = tmr_wf s29"
  "tmr_wf (usCO2PPM_update u30 s30) = tmr_wf s30"
  "tmr_wf (usCO2AdjustThr_V_update u31 s31) = tmr_wf s31"
  "tmr_wf (usCO2AdjustDeviat_update u32 s32) = tmr_wf s32"
  "tmr_wf (usCO2PPMAlarm_update u33 s33) = tmr_wf s33"
  "tmr_wf (ulExAirRequest_Vol_update u34 s34) = tmr_wf s34"
  "tmr_wf (ulFreAirSet_Vol_update u35 s35) = tmr_wf s35"
  "tmr_wf (ulTotalFreAir_Vol_update u36 s36) = tmr_wf s36"
  "tmr_wf (ulExAirFanRated_Vol_update u37 s37) = tmr_wf s37"
  "tmr_wf (usHumidityMax_update u38 s38) = tmr_wf s38"
  "tmr_wf (usHumidityMin_update u39 s39) = tmr_wf s39"
  "tmr_wf (sAmbientIn_T_update u40 s40) = tmr_wf s40"
  "tmr_wf (sAmbientOut_T_update u41 s41) = tmr_wf s41"
  "tmr_wf (usAmbientIn_H_update u42 s42) = tmr_wf s42"
  "tmr_wf (usAmbientOut_H_update u43 s43) = tmr_wf s43"
  "tmr_wf (usExAirFanRunTimeLeast_update u44 s44) = tmr_wf s44"
  "tmr_wf (usExAirFanFreq_update u45 s45) = tmr_wf s45"
  "tmr_wf (usExAirFanMinFreq_update u46 s46) = tmr_wf s46"
  "tmr_wf (usExAirFanMaxFreq_update u47 s47) = tmr_wf s47"
  "tmr_wf (ulExAirFanRequestTime_update u48 s48) = tmr_wf s48"
  "tmr_wf (usExAirFanCtrlPeriod_update u49 s49) = tmr_wf s49"
  "tmr_wf (ucExAirCoolRatio_update u50 s50) = tmr_wf s50"
  "tmr_wf (ucExAirHeatRatio_update u51 s51) = tmr_wf s51"
  "tmr_wf (ucConstantFanRequestNum_update u52 s52) = tmr_wf s52"
  "tmr_wf (ucConstantFanOpenNum_update u53 s53) = tmr_wf s53"
  "tmr_wf (xVariableFanRequest_update u54 s54) = tmr_wf s54"
  "tmr_wf (eExAirFanType_update u55 s55) = tmr_wf s55"
  "tmr_wf (xCompFirstRun_update u56 s56) = tmr_wf s56"
  "tmr_wf (xUnitErrFlag_update u57 s57) = tmr_wf s57"
  "tmr_wf (xExFanErrFlag_update u58 s58) = tmr_wf s58"
  "tmr_wf (xAlarmEnable_update u59 s59) = tmr_wf s59"
  "tmr_wf (xCO2SenErr_update u60 s60) = tmr_wf s60"
  "tmr_wf (xTempHumiSenOutErr_update u61 s61) = tmr_wf s61"
  "tmr_wf (xTempHumiSenInErr_update u62 s62) = tmr_wf s62"
  "tmr_wf (xTempSenOutErr_update u63 s63) = tmr_wf s63"
  "tmr_wf (xTempSenInErr_update u64 s64) = tmr_wf s64"
  "tmr_wf (xHumiSenOutErr_update u65 s65) = tmr_wf s65"
  "tmr_wf (xHumiSenInErr_update u66 s66) = tmr_wf s66"
  "tmr_wf (sAlarm_DO_update u67 s67) = tmr_wf s67"
  "tmr_wf (pExAirFanVariate_update u68 s68) = tmr_wf s68"
  "tmr_wf (psBMS_update u69 s69) = tmr_wf s69"
  "tmr_wf (g_ulExAirFanRequestTime_update u70 s70) = tmr_wf s70"
  "tmr_wf (g_ucConstantFanRequestNum_update u71 s71) = tmr_wf s71"
  "tmr_wf (LastAmbientIn_T_update u72 s72) = tmr_wf s72"
  by (simp_all add: tmr_wf_def)

section \<open>Loops, devices and timers\<close>

lemma config_for_loop [simp]:
  "(\<And>n t. config (body n t) = config t) \<Longrightarrow> config (for_loop N body s) = config s"
  by (rule for_loop_frame)

lemma modes_for_loop [simp]:
  "(\<And>n t. modes (body n t) = modes t) \<Longrightarrow> modes (for_loop N body s) = modes s"
  by (rule for_loop_frame)

lemma unit_part_for_loop [simp]:
  "(\<And>n t. unit_part (body n t) = unit_part t) \<Longrightarrow> unit_part (for_loop N body s) = unit_part s"
  by (rule for_loop_frame)

lemma map_list_update_same: "g v = g (xs ! i) \<Longrightarrow> map g (xs[i := v]) = map g xs"
  by (cases "i < length xs") (auto simp: map_update list_update_same_conv list_update_beyond)

lemma config_upd_fan [simp]:
  "(\<And>f. eFanFreqType (g f) = eFanFreqType f) \<Longrightarrow> (\<And>f. sSwitch_DO (g f) = sSwitch_DO f) \<Longrightarrow>
    config (upd_fan i g s) = config s"
  by (simp add: config_def upd_fan_def map_list_update_same)

lemma modes_upd_fan [simp]: "modes (upd_fan i g s) = modes s" by (simp add: upd_fan_def)
lemma unit_part_upd_fan [simp]: "unit_part (upd_fan i g s) = unit_part s" by (simp add: upd_fan_def)

lemma config_upd_roof [simp]: "config (upd_roof i g s) = config s"
  by (simp add: config_def upd_roof_def)
lemma modes_upd_roof [simp]: "modes (upd_roof i g s) = modes s" by (simp add: upd_roof_def)

lemma upd_bms_keeps [simp]: "config (upd_bms g s) = config s" "unit_part (upd_bms g s) = unit_part s"
  "(\<And>b. bms_eSystemMode (g b) = bms_eSystemMode b) \<Longrightarrow> modes (upd_bms g s) = modes s"
  by (simp_all add: upd_bms_def modes_def)

lemmas out_frame = vDigitalOutputCtrl_footprint vAnalogOutputSetRealVal_footprint

lemma tmr_wf_for_loop [simp]:
  "tmr_wf s \<Longrightarrow> (\<And>n t. tmr_wf t \<Longrightarrow> tmr_wf (body n t)) \<Longrightarrow> tmr_wf (for_loop N body s)"
  by (rule for_loop_invariant)

lemma tmr_wf_upd [simp]: "tmr_wf (upd_fan i g s) = tmr_wf s" "tmr_wf (upd_roof i h r) = tmr_wf r"
  "tmr_wf (upd_bms b q) = tmr_wf q"
  by (simp_all add: upd_fan_def upd_roof_def upd_bms_def)

lemma upd_roofs_keeps [simp]: "config (upd_roofs g s) = config s" "modes (upd_roofs g s) = modes s"
  "tmr_wf (upd_roofs g r) = tmr_wf r"
  unfolding upd_roofs_def
  by (simp_all add: for_loop_frame[of tmr_wf])

lemma tmr_wf_timer_ops [simp]:
  "tmr_wf s \<Longrightarrow> tmr_wf (snd (xTmrStop k s))"
  "tmr_wf s \<Longrightarrow> (\<And>t. tmr_wf t \<Longrightarrow> tmr_wf (f t)) \<Longrightarrow> tmr_wf (snd (xTimerRegist k d p opt cb f x s))"
  by (simp_all add: xTmrStop_effect xTimerRegist_wf keeps_tmr_wf_def)

lemma tmr_only_keeps:
  "tmr_only f \<Longrightarrow> config (f s) = config s" "tmr_only f \<Longrightarrow> modes (f s) = modes s"
  "tmr_only f \<Longrightarrow> unit_part (f s) = unit_part s"
  by ((subst tmr_only_eq, assumption, simp)+)

lemma xTimerRegist_exec:
  "snd (xTimerRegist k d p opt cb f True s) =
    (let r = xTimerRegist_prepare k (d * TMR_TICK_PER_SECOND) (p * TMR_TICK_PER_SECOND) opt cb s
     in if fst r = OS_ERR_NONE then snd (OSTmrStart k (f (snd r))) else snd r)"
  by (simp add: xTimerRegist_def Let_def split_beta)

lemma xTimerRegist_exec_keeps [simp]:
  "(\<And>t. config (f t) = config t) \<Longrightarrow> config (snd (xTimerRegist k d p opt cb f True s)) = config s"
  "(\<And>t. modes (f t) = modes t) \<Longrightarrow> modes (snd (xTimerRegist k d p opt cb f True s)) = modes s"
  "(\<And>t. unit_part (f t) = unit_part t) \<Longrightarrow>
    unit_part (snd (xTimerRegist k d p opt cb f True s)) = unit_part s"
  by (simp_all add: xTimerRegist_exec Let_def tmr_only_keeps[OF tmr_only_ops(3)]
      tmr_only_keeps[OF tmr_only_prepare])

declare for_loop_numeral [simp del] for_loop_1 [simp del]
section \<open>Fans and alarm\<close>

lemma vExFan_SetFreq_keeps [simp]:
  "config (vExFan_SetFreq i v s) = config s" "modes (vExFan_SetFreq i v s) = modes s" "unit_part (vExFan_SetFreq i v s) = unit_part s"
  by (simp_all add: vExFan_SetFreq_def Let_def split_beta  frame)

lemma vExFan_SetFreq_wf [simp]: "tmr_wf s \<Longrightarrow> tmr_wf (vExFan_SetFreq i v s)"
  by (simp add: vExFan_SetFreq_def Let_def split_beta  out_frame)

lemma vExAirFan_SwitchOpen_keeps [simp]:
  "config (vExAirFan_SwitchOpen i s) = config s" "modes (vExAirFan_SwitchOpen i s) = modes s" "unit_part (vExAirFan_SwitchOpen i s) = unit_part s"
  by (simp_all add: vExAirFan_SwitchOpen_def Let_def split_beta  frame)

lemma vExAirFan_SwitchOpen_wf [simp]: "tmr_wf s \<Longrightarrow> tmr_wf (vExAirFan_SwitchOpen i s)"
  by (simp add: vExAirFan_SwitchOpen_def Let_def split_beta  out_frame)

lemma vExAirFan_SwitchClose_keeps [simp]:
  "config (vExAirFan_SwitchClose i s) = config s" "modes (vExAirFan_SwitchClose i s) = modes s" "unit_part (vExAirFan_SwitchClose i s) = unit_part s"
  by (simp_all add: vExAirFan_SwitchClose_def Let_def split_beta  frame)

lemma vExAirFan_SwitchClose_wf [simp]: "tmr_wf s \<Longrightarrow> tmr_wf (vExAirFan_SwitchClose i s)"
  by (simp add: vExAirFan_SwitchClose_def Let_def split_beta  out_frame)

lemma vExFan_SetFreqRange_keeps [simp]:
  "config (vExFan_SetFreqRange i a b s) = config s" "modes (vExFan_SetFreqRange i a b s) = modes s" "unit_part (vExFan_SetFreqRange i a b s) = unit_part s"
  by (simp_all add: vExFan_SetFreqRange_def Let_def split_beta  frame)

lemma vExFan_SetFreqRange_wf [simp]: "tmr_wf s \<Longrightarrow> tmr_wf (vExFan_SetFreqRange i a b s)"
  by (simp add: vExFan_SetFreqRange_def Let_def split_beta  out_frame)

lemma TimeoutInd_retry_keeps [simp]:
  "config (TimeoutInd_retry i s) = config s" "modes (TimeoutInd_retry i s) = modes s" "unit_part (TimeoutInd_retry i s) = unit_part s"
  by (simp_all add: TimeoutInd_retry_def Let_def split_beta  frame)

lemma TimeoutInd_retry_wf [simp]: "tmr_wf s \<Longrightarrow> tmr_wf (TimeoutInd_retry i s)"
  by (simp add: TimeoutInd_retry_def Let_def split_beta  out_frame)

lemma TimeoutInd_count_keeps [simp]:
  "config (TimeoutInd_count i s) = config s" "modes (TimeoutInd_count i s) = modes s" "unit_part (TimeoutInd_count i s) = unit_part s"
  by (simp_all add: TimeoutInd_count_def Let_def split_beta fan_count_def frame)

lemma TimeoutInd_count_wf [simp]: "tmr_wf s \<Longrightarrow> tmr_wf (TimeoutInd_count i s)"
  by (simp add: TimeoutInd_count_def Let_def split_beta fan_count_def out_frame)

lemma TimeoutInd_fault_keeps [simp]:
  "config (TimeoutInd_fault i s) = config s" "modes (TimeoutInd_fault i s) = modes s" "unit_part (TimeoutInd_fault i s) = unit_part s"
  by (simp_all add: TimeoutInd_fault_def Let_def split_beta  frame)

lemma TimeoutInd_fault_wf [simp]: "tmr_wf s \<Longrightarrow> tmr_wf (TimeoutInd_fault i s)"
  by (simp add: TimeoutInd_fault_def Let_def split_beta  out_frame)

lemma TimeoutInd_freq_keeps [simp]:
  "config (TimeoutInd_freq i s) = config s" "modes (TimeoutInd_freq i s) = modes s" "unit_part (TimeoutInd_freq i s) = unit_part s"
  by (simp_all add: TimeoutInd_freq_def Let_def split_beta  frame)

lemma TimeoutInd_freq_wf [simp]: "tmr_wf s \<Longrightarrow> tmr_wf (TimeoutInd_freq i s)"
  by (simp add: TimeoutInd_freq_def Let_def split_beta  out_frame)

lemma vExAirFan_TimeoutInd_keeps [simp]:
  "config (vExAirFan_TimeoutInd i s) = config s" "modes (vExAirFan_TimeoutInd i s) = modes s" "unit_part (vExAirFan_TimeoutInd i s) = unit_part s"
  by (simp_all add: vExAirFan_TimeoutInd_def Let_def split_beta  frame)

lemma vExAirFan_TimeoutInd_wf [simp]: "tmr_wf s \<Longrightarrow> tmr_wf (vExAirFan_TimeoutInd i s)"
  by (simp add: vExAirFan_TimeoutInd_def Let_def split_beta  out_frame)

lemma vSystem_SetAlarm_keeps [simp]:
  "config (vSystem_SetAlarm  s) = config s" "modes (vSystem_SetAlarm  s) = modes s" "unit_part (vSystem_SetAlarm  s) = unit_part s"
  by (simp_all add: vSystem_SetAlarm_def Let_def split_beta  frame)

lemma vSystem_SetAlarm_wf [simp]: "tmr_wf s \<Longrightarrow> tmr_wf (vSystem_SetAlarm  s)"
  by (simp add: vSystem_SetAlarm_def Let_def split_beta  out_frame)

lemma vSystem_DelAlarm_keeps [simp]:
  "config (vSystem_DelAlarm  s) = config s" "modes (vSystem_DelAlarm  s) = modes s" "unit_part (vSystem_DelAlarm  s) = unit_part s"
  by (simp_all add: vSystem_DelAlarm_def Let_def split_beta  frame)

lemma vSystem_DelAlarm_wf [simp]: "tmr_wf s \<Longrightarrow> tmr_wf (vSystem_DelAlarm  s)"
  by (simp add: vSystem_DelAlarm_def Let_def split_beta  out_frame)

lemma vSystem_DelAlarmRequst_keeps [simp]:
  "config (vSystem_DelAlarmRequst  s) = config s" "modes (vSystem_DelAlarmRequst  s) = modes s" "unit_part (vSystem_DelAlarmRequst  s) = unit_part s"
  by (simp_all add: vSystem_DelAlarmRequst_def Let_def split_beta  frame)

lemma vSystem_DelAlarmRequst_wf [simp]: "tmr_wf s \<Longrightarrow> tmr_wf (vSystem_DelAlarmRequst  s)"
  by (simp add: vSystem_DelAlarmRequst_def Let_def split_beta  out_frame)

lemma vSystem_CleanAlarm_keeps [simp]:
  "config (vSystem_CleanAlarm  s) = config s" "modes (vSystem_CleanAlarm  s) = modes s" "unit_part (vSystem_CleanAlarm  s) = unit_part s"
  by (simp_all add: vSystem_CleanAlarm_def Let_def split_beta  frame)

lemma vSystem_CleanAlarm_wf [simp]: "tmr_wf s \<Longrightarrow> tmr_wf (vSystem_CleanAlarm  s)"
  by (simp add: vSystem_CleanAlarm_def Let_def split_beta  out_frame)

lemma vSystem_AlarmEnable_keeps [simp]:
  "config (vSystem_AlarmEnable e s) = config s" "modes (vSystem_AlarmEnable e s) = modes s" "unit_part (vSystem_AlarmEnable e s) = unit_part s"
  by (simp_all add: vSystem_AlarmEnable_def Let_def split_beta  frame)

lemma vSystem_AlarmEnable_wf [simp]: "tmr_wf s \<Longrightarrow> tmr_wf (vSystem_AlarmEnable e s)"
  by (simp add: vSystem_AlarmEnable_def Let_def split_beta  out_frame)

section \<open>Reading the projections\<close>

lemma mode_sel:
  "eSystemMode s = fst (modes s)" "xUnitErrFlag s = fst (snd (modes s))"
  "xExFanErrFlag s = fst (snd (snd (modes s)))"
  "bms_eSystemMode (psBMS s) = snd (snd (snd (modes s)))"
  by (simp_all add: modes_def)

lemma modes_set [simp]:
  "modes (s\<lparr>eSystemMode := m\<rparr>) = (m, xUnitErrFlag s, xExFanErrFlag s, bms_eSystemMode (psBMS s))"
  "modes (s\<lparr>xUnitErrFlag := u\<rparr>) = (eSystemMode s, u, xExFanErrFlag s, bms_eSystemMode (psBMS s))"
  "modes (s\<lparr>xExFanErrFlag := f\<rparr>) = (eSystemMode s, xUnitErrFlag s, f, bms_eSystemMode (psBMS s))"
  "modes (upd_bms (\<lambda>b. b\<lparr>bms_eSystemMode := n\<rparr>) s) = (eSystemMode s, xUnitErrFlag s, xExFanErrFlag s, n)"
  by (simp_all add: modes_def upd_bms_def)

lemma configD:
  "config t = config s \<Longrightarrow> pExAirFanVariate t = pExAirFanVariate s"
  "config t = config s \<Longrightarrow> eExAirFanType t = eExAirFanType s"
  "config t = config s \<Longrightarrow> length (psExAirFanList t) = length (psExAirFanList s)"
  "config t = config s \<Longrightarrow> length (psModularRoofList t) = length (psModularRoofList s)"
  by (auto simp: config_def dest: map_eq_imp_length_eq)

section \<open>What the registrations touch\<close>

definition reg_di :: "u8 \<Rightarrow> di_var \<Rightarrow> di_var option list \<Rightarrow> di_var option list" where
  "reg_di ch v l = (if 0 < ch \<and> ch \<le> 15 then l[unat ch - 1 := Some v] else l)"

definition reg_ai :: "u8 \<Rightarrow> sAIData \<Rightarrow> sAIData list \<Rightarrow> sAIData list" where
  "reg_ai ch d l = (if 0 < ch \<and> ch \<le> 8 then l[unat ch - 1 := d] else l)"

definition reg_ao :: "u8 \<Rightarrow> sAOData \<Rightarrow> sAOData list \<Rightarrow> sAOData list" where
  "reg_ao ch d l = (if 0 < ch \<and> ch \<le> 8 then l[unat ch - 1 := d] else l)"

lemma regist_footprints:
  "vDigitalInputRegist ch v s = s\<lparr>DigitalInputData := reg_di ch v (DigitalInputData s)\<rparr>"
  "vAnalogInputRegist ch lo hi w s = s\<lparr>AnalogInputData :=
     reg_ai ch \<lparr>ai_lMin = lo, ai_lMax = hi, pvAIVal = Some w\<rparr> (AnalogInputData s)\<rparr>"
  "vAnalogOutputRegist ch lo hi s = s\<lparr>AnalogOutputData :=
     reg_ao ch \<lparr>ao_lMin = lo, ao_lMax = hi\<rparr> (AnalogOutputData s)\<rparr>"
  by (simp_all add: vDigitalInputRegist_def vAnalogInputRegist_def vAnalogOutputRegist_def
      reg_di_def reg_ai_def reg_ao_def)

end
