(* ===== verification/FanSort.thy ===== *)
theory FanSort
  imports Frames
begin

text \<open>
  The in-place bubble sort of \<open>vSystem_ExAirFanConstantAlwaysOpen\<close> and
  \<open>vSystem_ExAirFanConstantSwitch\<close> (\<open>system/fanctrl.c\<close>), and its correctness: it computes the
  library's stable sort.
\<close>

section \<open>The sort\<close>

text \<open>The bubble sort on running time, in place as in the code.\<close>

definition bubble_pass :: "('a \<Rightarrow> 'k::linorder) \<Rightarrow> nat \<Rightarrow> 'a list \<Rightarrow> 'a list" where
  "bubble_pass key m = for_loop m (\<lambda>i l.
     if key (l ! (i + 1)) < key (l ! i) then l[i := l ! (i + 1), i + 1 := l ! i] else l)"

definition bubble_sort :: "('a \<Rightarrow> 'k::linorder) \<Rightarrow> 'a list \<Rightarrow> 'a list" where
  "bubble_sort key l =
     (if 1 \<le> length l
      then for_loop (length l - 1) (\<lambda>n. bubble_pass key (length l - n - 1)) l else l)"

section \<open>One exchange\<close>

lemma split_at: "m + 1 < length l \<Longrightarrow> l = take m l @ l ! m # l ! (m + 1) # drop (m + 2) l"
  by (metis Cons_nth_drop_Suc Suc_eq_plus1 add_2_eq_Suc' append_take_drop_id Suc_lessD)

lemma swap_at:
  "m + 1 < length l \<Longrightarrow> l[m := l ! (m + 1), m + 1 := l ! m] = take m l @ l ! (m + 1) # l ! m # drop (m + 2) l"
  by (subst split_at[of m l], assumption) (simp add: list_update_append nth_append min_def)

definition swap_step :: "('a \<Rightarrow> 'k::linorder) \<Rightarrow> nat \<Rightarrow> 'a list \<Rightarrow> 'a list" where
  "swap_step key m l = (if key (l ! (m + 1)) < key (l ! m) then l[m := l ! (m + 1), m + 1 := l ! m] else l)"

lemma swap_step_props:
  assumes "m + 1 < length l"
  shows "length (swap_step key m l) = length l"
    and "filter (\<lambda>x. key k = key x) (swap_step key m l) = filter (\<lambda>x. key k = key x) l"
    and "set (take (m + 2) (swap_step key m l)) = set (take (m + 2) l)"
    and "drop (m + 2) (swap_step key m l) = drop (m + 2) l"
    and "take m (swap_step key m l) = take m l"
    and "mset (swap_step key m l) = mset l"
    and "key (swap_step key m l ! m) \<le> key (swap_step key m l ! (m + 1))"
    and "key (l ! m) \<le> key (swap_step key m l ! (m + 1))"
proof -
  define xs a b ys where "xs = take m l" and "a = l ! m" and "b = l ! (m + 1)" and "ys = drop (m + 2) l"
  have l: "l = xs @ a # b # ys" unfolding xs_def a_def b_def ys_def by (rule split_at[OF assms])
  have s: "swap_step key m l = (if key b < key a then xs @ b # a # ys else xs @ a # b # ys)"
    unfolding swap_step_def swap_at[OF assms] using split_at[OF assms] by (simp add: xs_def a_def b_def ys_def)
  have m: "length xs = m" using assms by (simp add: xs_def)
  show "length (swap_step key m l) = length l"
    "filter (\<lambda>x. key k = key x) (swap_step key m l) = filter (\<lambda>x. key k = key x) l"
    "set (take (m + 2) (swap_step key m l)) = set (take (m + 2) l)"
    "drop (m + 2) (swap_step key m l) = drop (m + 2) l"
    "take m (swap_step key m l) = take m l"
    "mset (swap_step key m l) = mset l"
    "key (swap_step key m l ! m) \<le> key (swap_step key m l ! (m + 1))"
    "key (l ! m) \<le> key (swap_step key m l ! (m + 1))"
    unfolding s using m by (auto simp: l nth_append)
qed

section \<open>One pass\<close>

lemma bubble_pass_Suc: "bubble_pass key (Suc m) l = swap_step key m (bubble_pass key m l)"
  by (simp add: bubble_pass_def for_loop_Suc swap_step_def)

lemma bubble_pass_props:
  "m < length l \<Longrightarrow> length (bubble_pass key m l) = length l \<and>
    mset (bubble_pass key m l) = mset l \<and>
    filter (\<lambda>x. key k = key x) (bubble_pass key m l) = filter (\<lambda>x. key k = key x) l \<and>
    set (take (m + 1) (bubble_pass key m l)) = set (take (m + 1) l) \<and>
    drop (m + 1) (bubble_pass key m l) = drop (m + 1) l \<and>
    (\<forall>x \<in> set (take (m + 1) l). key x \<le> key (bubble_pass key m l ! m))"
proof (induction m)
  case 0
  then show ?case by (cases l) (simp_all add: bubble_pass_def)
next
  case (Suc m)
  let ?l = "bubble_pass key m l"
  have IH: "length ?l = length l" "mset ?l = mset l"
    "filter (\<lambda>x. key k = key x) ?l = filter (\<lambda>x. key k = key x) l"
    "set (take (m + 1) ?l) = set (take (m + 1) l)" "drop (m + 1) ?l = drop (m + 1) l"
    "\<forall>x \<in> set (take (m + 1) l). key x \<le> key (?l ! m)"
    using Suc by auto
  have m: "m + 1 < length ?l" using Suc.prems IH(1) by simp
  note p = swap_step_props[OF m, of key]
  have nxt: "?l ! (m + 1) = l ! (m + 1)"
    using IH(5) m IH(1) by (metis Cons_nth_drop_Suc list.inject)
  have take2: "set (take (m + 2) xs) = insert (xs ! (m + 1)) (set (take (m + 1) xs))"
    if "m + 1 < length xs" for xs :: "'a list"
    using that by (auto simp: take_Suc_conv_app_nth)
  have top: "key x \<le> key (swap_step key m ?l ! (m + 1))" if "x \<in> set (take (m + 2) l)" for x
  proof -
    have "set (take (m + 2) l) = insert (?l ! (m + 1)) (set (take (m + 1) l))"
      using take2[of l] m IH(1) nxt by simp
    with that have "x = ?l ! (m + 1) \<or> x \<in> set (take (m + 1) l)" by simp
    moreover have "key (?l ! (m + 1)) \<le> key (swap_step key m ?l ! (m + 1))"
      using m by (auto simp: swap_step_def)
    ultimately show ?thesis using IH(6) p(8) by force
  qed
  have "set (take (m + 2) ?l) = set (take (m + 2) l)"
    using take2[of ?l] take2[of l] m IH(1,4) nxt by simp
  moreover have "drop (m + 2) ?l = drop (m + 2) l"
    using IH(5) by (metis add.commute add_2_eq_Suc' add_Suc_right drop_Suc drop_tl plus_1_eq_Suc)
  ultimately show ?case using p(1-6) IH top unfolding bubble_pass_Suc by simp
qed

text \<open>After \<open>n\<close> passes the last \<open>n\<close> elements are in place.\<close>

definition sorted_from :: "('a \<Rightarrow> 'k::linorder) \<Rightarrow> nat \<Rightarrow> 'a list \<Rightarrow> bool" where
  "sorted_from key p l \<longleftrightarrow> sorted (map key (drop p l)) \<and>
     (\<forall>x \<in> set (take p l). \<forall>y \<in> set (drop p l). key x \<le> key y)"

lemma sorted_from_pass:
  assumes "m < length l" and "sorted_from key (m + 1) l"
  shows "sorted_from key m (bubble_pass key m l)"
proof -
  let ?l = "bubble_pass key m l"
  note p = bubble_pass_props[OF assms(1), of key]
  have d: "drop m ?l = ?l ! m # drop (m + 1) l"
    using p assms(1) by (metis Cons_nth_drop_Suc Suc_eq_plus1)
  have t: "set (take m ?l) \<subseteq> set (take (m + 1) l)" "?l ! m \<in> set (take (m + 1) l)"
  proof -
    have eq: "set (take (m + 1) ?l) = set (take (m + 1) l)" and len: "m < length ?l"
      using p assms(1) by auto
    have "take (m + 1) ?l = take m ?l @ [?l ! m]"
      using take_Suc_conv_app_nth[OF len] by simp
    then show "set (take m ?l) \<subseteq> set (take (m + 1) l)" "?l ! m \<in> set (take (m + 1) l)"
      unfolding eq[symmetric] by auto
  qed
  have bound: "\<forall>x \<in> set (take (m + 1) l). key x \<le> key (?l ! m)" and rest: "drop (m + 1) ?l = drop (m + 1) l"
    using p by auto
  have sf: "sorted (map key (drop (m + 1) l))"
    "\<forall>x \<in> set (take (m + 1) l). \<forall>y \<in> set (drop (m + 1) l). key x \<le> key y"
    using assms(2) by (simp_all add: sorted_from_def)
  show ?thesis
    using sf t bound unfolding sorted_from_def d by auto
qed

lemma bubble_sort_loop:
  assumes "n < length l"
  shows "length (for_loop n (\<lambda>n. bubble_pass key (length l - n - 1)) l) = length l \<and>
    mset (for_loop n (\<lambda>n. bubble_pass key (length l - n - 1)) l) = mset l \<and>
    (\<forall>k. filter (\<lambda>x. key k = key x) (for_loop n (\<lambda>n. bubble_pass key (length l - n - 1)) l) =
      filter (\<lambda>x. key k = key x) l) \<and>
    sorted_from key (length l - n) (for_loop n (\<lambda>n. bubble_pass key (length l - n - 1)) l)"
  using assms
proof (induction n)
  case 0
  then show ?case by (simp add: sorted_from_def)
next
  case (Suc n)
  let ?t = "for_loop n (\<lambda>n. bubble_pass key (length l - n - 1)) l"
  have IH: "length ?t = length l" "mset ?t = mset l" "sorted_from key (length l - n) ?t"
    "\<And>k. filter (\<lambda>x. key k = key x) ?t = filter (\<lambda>x. key k = key x) l"
    using Suc by auto
  have m: "length l - n - 1 < length ?t" and e: "length l - n - 1 + 1 = length l - n"
    using Suc.prems IH(1) by auto
  show ?case
    using bubble_pass_props[OF m, of key] sorted_from_pass[OF m, of key] IH e
    by (simp add: for_loop_Suc)
qed

lemma bubble_sort_sort_key: "bubble_sort key l = sort_key key l"
proof (cases l)
  case Nil
  then show ?thesis by (simp add: bubble_sort_def)
next
  case (Cons a as)
  let ?t = "for_loop (length l - 1) (\<lambda>n. bubble_pass key (length l - n - 1)) l"
  have n: "length l - 1 < length l" using Cons by simp
  note t = bubble_sort_loop[OF n, of key]
  have "length l - (length l - 1) = 1" using Cons by simp
  then have "sorted_from key 1 ?t" using t by simp
  moreover obtain b bs where "?t = b # bs" using t Cons by (cases ?t) auto
  ultimately have "sorted (map key ?t)" by (auto simp: sorted_from_def)
  then have "sort_key key l = ?t"
    using t by (intro properties_for_sort_key) auto
  then show ?thesis using Cons by (simp add: bubble_sort_def)
qed

end
