(* ===== verification/FanCtrl.thy ===== *)
theory FanCtrl
  imports FanSort
begin

text \<open>
  Exhaust air control, \<open>system/fanctrl.c\<close>: how many constant-speed fans the exhaust demand
  needs, which ones to start and stop by running time, the variable-speed fan, and the control
  and request-time timers. The functions are in call order; a local variable of the code is a
  \<open>let\<close> of the same name where it matters.
\<close>

section \<open>Conditions that recur in the file\<close>

text \<open>
  The variable-speed fan is usable: the type is constant plus variable, the pointer is set,
  and the fan has no fault and is remote.
\<close>

definition variate_usable :: "'z sys_scheme \<Rightarrow> bool" where
  "variate_usable s \<longleftrightarrow> eExAirFanType s = TYPE_CONSTANT_VARIABLE \<and>
     (case pExAirFanVariate s of None \<Rightarrow> False
      | Some v \<Rightarrow> \<not> xExAirFanErr (fan v s) \<and> xExAirFanRemote (fan v s))"

text \<open>All fans are driven as constant-speed ones: by type, or because the variable one cannot be used.\<close>

definition constant_only :: "'z sys_scheme \<Rightarrow> bool" where
  "constant_only s \<longleftrightarrow> eExAirFanType s = TYPE_CONSTANT \<or>
     (eExAirFanType s = TYPE_CONSTANT_VARIABLE \<and>
     (case pExAirFanVariate s of None \<Rightarrow> False
      | Some v \<Rightarrow> xExAirFanErr (fan v s) \<or> \<not> xExAirFanRemote (fan v s)))"

definition manual_or_closed :: "'z sys_scheme \<Rightarrow> bool" where
  "manual_or_closed s \<longleftrightarrow> eSystemMode s = MODE_MANUAL \<or> eSystemMode s = MODE_CLOSE"

definition auto_or_emergency :: "'z sys_scheme \<Rightarrow> bool" where
  "auto_or_emergency s \<longleftrightarrow> eSystemMode s = MODE_AUTO \<or> eSystemMode s = MODE_EMERGENCY"

section \<open>Closing all fans\<close>

definition vSystem_CloseExAirFans :: "'z sys_scheme \<Rightarrow> 'z sys_scheme" where
  "vSystem_CloseExAirFans s =
     snd (xTmrStop sExAirFanCtrlTmr (snd (xTmrStop sExAirFanRequestTimeTmr
       (for_loop EX_AIR_FAN_NUM vExAirFan_SwitchClose s))))"

section \<open>The fans by running time\<close>

definition run_hours :: "'z sys_scheme \<Rightarrow> nat \<Rightarrow> u16" where
  "run_hours s i = usRunTime_H (fan i s)"

definition psSystem_LongestExAirFan :: "'z sys_scheme \<Rightarrow> nat option" where
  "psSystem_LongestExAirFan s =
     (let pFanByRunTimeList = filter (\<lambda>n. eFanFreqType (fan n s) = CONSTANT_FREQ \<and>
             dev_eRunningState (fan n s) = STATE_RUN) [0..<EX_AIR_FAN_NUM]
      in if 1 \<le> length pFanByRunTimeList then
           Some (for_loop (length pFanByRunTimeList)
             (\<lambda>n p. if run_hours s p < run_hours s (pFanByRunTimeList ! n)
                    then pFanByRunTimeList ! n else p) (pFanByRunTimeList ! 0))
         else None)"

definition psSystem_ShortestExAirFan :: "'z sys_scheme \<Rightarrow> nat option" where
  "psSystem_ShortestExAirFan s =
     (let pFanByRunTimeList = filter (\<lambda>n. eFanFreqType (fan n s) = CONSTANT_FREQ \<and>
             dev_eRunningState (fan n s) = STATE_STOP \<and> \<not> xExAirFanErr (fan n s) \<and>
             xExAirFanRemote (fan n s)) [0..<EX_AIR_FAN_NUM]
      in if 1 \<le> length pFanByRunTimeList then
           Some (for_loop (length pFanByRunTimeList)
             (\<lambda>n p. if run_hours s (pFanByRunTimeList ! n) < run_hours s p
                    then pFanByRunTimeList ! n else p) (pFanByRunTimeList ! 0))
         else None)"

text \<open>The healthy remote constant-speed fans, as the two switching functions collect and sort them.\<close>

definition constant_fans :: "'z sys_scheme \<Rightarrow> nat list" where
  "constant_fans s = filter (\<lambda>n. eFanFreqType (fan n s) = CONSTANT_FREQ \<and>
     \<not> xExAirFanErr (fan n s) \<and> xExAirFanRemote (fan n s)) [0..<EX_AIR_FAN_NUM]"

definition running_count :: "'z sys_scheme \<Rightarrow> nat list \<Rightarrow> nat" where
  "running_count s l = length (filter (\<lambda>n. dev_eRunningState (fan n s) = STATE_RUN) l)"

text \<open>
  The closing loop walks the sorted list from its end, the opening loop from its start; both
  stop when the byte counter \<open>n\<close> has come down to the threshold.
\<close>

fun close_loop :: "int \<Rightarrow> u8 \<Rightarrow> nat list \<Rightarrow> 'z fan_sys_scheme \<Rightarrow> 'z fan_sys_scheme" where
  "close_loop thr n [] s = s"
| "close_loop thr n (f # fs) s =
     (if uint n > thr then
        (if dev_eRunningState (fan f s) = STATE_RUN
         then close_loop thr (n - 1) fs (vExAirFan_SwitchClose f s)
         else close_loop thr n fs s)
      else s)"

fun open_loop :: "u8 \<Rightarrow> nat list \<Rightarrow> 'z fan_sys_scheme \<Rightarrow> 'z fan_sys_scheme" where
  "open_loop n [] s = s"
| "open_loop n (f # fs) s =
     (if n > 0 then
        (if dev_eRunningState (fan f s) = STATE_STOP \<and> \<not> xExAirFanErr (fan f s)
         then open_loop (n - 1) fs (vExAirFan_SwitchOpen f s)
         else open_loop n fs s)
      else s)"

section \<open>The variable-speed fan\<close>

definition vSystem_AdjustExAirFanFreq :: "u16 \<Rightarrow> 'z sys_scheme \<Rightarrow> 'z sys_scheme" where
  "vSystem_AdjustExAirFanFreq usFreq s =
     (if eExAirFanType s \<noteq> TYPE_CONSTANT_VARIABLE then s
      else
        let f1 = (if usFreq < usExAirFanMinFreq s then usExAirFanMinFreq s else usFreq);
            f2 = (if usExAirFanMaxFreq s < f1 then usExAirFanMaxFreq s else f1);
            s1 = vExFan_SetFreq 0 f2 s
        in upd_bms (\<lambda>b. b\<lparr>bms_usExAirFanFreq := f2\<rparr>) (s1\<lparr>usExAirFanFreq := f2\<rparr>))"

text \<open>
  Too few constant-speed fans for the number wanted: the variable-speed one helps at full
  frequency; enough of them and no request of its own: it is stopped.
\<close>

definition variate_helps :: "u8 \<Rightarrow> nat \<Rightarrow> 'z sys_scheme \<Rightarrow> 'z sys_scheme" where
  "variate_helps wanted ucConstantNum s =
     (let s1 = (case pExAirFanVariate s of
                  Some v \<Rightarrow> (if unat wanted > ucConstantNum \<and> variate_usable s
                           then vSystem_AdjustExAirFanFreq (usExAirFanMaxFreq s)
                                  (vExAirFan_SwitchOpen v s) else s)
                | None \<Rightarrow> s)
      in (case pExAirFanVariate s1 of
            Some v \<Rightarrow> (if unat wanted \<le> ucConstantNum \<and> \<not> xVariableFanRequest s1 \<and>
                         eExAirFanType s1 = TYPE_CONSTANT_VARIABLE \<and>
                         dev_eRunningState (fan v s1) = STATE_RUN
                      then vExAirFan_SwitchClose v s1 else s1)
          | None \<Rightarrow> s1))"

section \<open>Switching the constant-speed fans\<close>

definition vSystem_ExAirFanConstantAlwaysOpen :: "'z sys_scheme \<Rightarrow> 'z sys_scheme" where
  "vSystem_ExAirFanConstantAlwaysOpen s =
     (if manual_or_closed s then s
      else
        let l = bubble_sort (run_hours s) (constant_fans s);
            ucRunningNum = running_count s l;
            open = ucConstantFanOpenNum s;
            s1 = variate_helps open (length l) s;
            s2 = (if unat open < ucRunningNum
                  then close_loop (uint (ucConstantFanRequestNum s1) - uint open)
                         (of_nat (ucRunningNum - unat open)) (rev l) s1
                  else s1)
        in (if unat open > ucRunningNum
            then open_loop (of_nat (unat open - ucRunningNum)) l s2 else s2))"

definition vSystem_ExAirFanConstantSwitch :: "'z sys_scheme \<Rightarrow> 'z sys_scheme" where
  "vSystem_ExAirFanConstantSwitch s =
     (if manual_or_closed s then s
      else
        let l = bubble_sort (run_hours s) (constant_fans s);
            ucRunningNum = running_count s l;
            req = ucConstantFanRequestNum s;
            s1 = variate_helps req (length l) s;
            s2 = (if unat req < ucRunningNum
                  then close_loop 0 (of_nat (ucRunningNum - unat req)) (rev l) s1 else s1);
            s3 = (if unat req > ucRunningNum
                  then open_loop (of_nat (unat req - ucRunningNum)) l s2 else s2)
        in s3\<lparr>g_ucConstantFanRequestNum := ucConstantFanRequestNum s3\<rparr>)"

section \<open>Exhaust demand\<close>

definition ExAirRequest :: "'z sys_scheme \<Rightarrow> u32" where
  "ExAirRequest s =
     (if eRunningMode s = RUN_MODE_HEAT
      then ulFreAirSet_Vol s * ucast (ucExAirHeatRatio s) div 100
      else ulFreAirSet_Vol s * ucast (ucExAirCoolRatio s) div 100)"

text \<open>The four tests that set \<open>ucConstantFanOpenNum\<close>, in order; the last one that holds wins.\<close>

definition ConstantFanOpenNum :: "u32 \<Rightarrow> u32 \<Rightarrow> u8 \<Rightarrow> u8" where
  "ConstantFanOpenNum req rated n0 =
     (let n1 = (if req < rated then 0 else n0);
          n2 = (if rated \<le> req \<and> req < rated * 2 then 1 else n1);
          n3 = (if rated * 2 \<le> req \<and> req < rated * 3 then 2 else n2)
      in if rated * 3 \<le> req then 3 else n3)"

definition vSystem_ExAirRequest_Vol :: "'z sys_scheme \<Rightarrow> 'z sys_scheme" where
  "vSystem_ExAirRequest_Vol s =
     (let minFreq = ucast (usExAirFanMinFreq s) :: u32;
          rated = ulExAirFanRated_Vol s;
          period = ucast (usExAirFanCtrlPeriod s) :: u32;
          s1 = s\<lparr>ulExAirRequest_Vol := ExAirRequest s\<rparr>;
          s2 = s1\<lparr>ucConstantFanOpenNum := ConstantFanOpenNum (ulExAirRequest_Vol s1)
                    (ulExAirFanRated_Vol s1) (ucConstantFanOpenNum s1)\<rparr>;
          rest = ulExAirRequest_Vol s2 - rated * ucast (ucConstantFanOpenNum s2);
          s3 = (if variate_usable s2 then
                  let t = s2\<lparr>ucConstantFanRequestNum := ucConstantFanOpenNum s2\<rparr>
                  in (if rated \<noteq> 0
                      then t\<lparr>ulExAirFanRequestTime :=
                             udiv32 (udiv32 (rest * 500) minFreq * period) rated\<rparr>
                      else t)
                else s2)
      in if constant_only s3 then
           let t = s3\<lparr>ucConstantFanRequestNum := ucConstantFanOpenNum s3\<rparr>;
               t1 = (if rated \<noteq> 0
                     then t\<lparr>ulExAirFanRequestTime := udiv32 (rest * period) rated\<rparr> else t)
           in (if ulExAirFanRequestTime t1 \<ge> ucast (usExAirFanRunTimeLeast t1)
               then t1\<lparr>ucConstantFanRequestNum := ucConstantFanOpenNum t1 + 1\<rparr> else t1)
         else s3)"

section \<open>The two timers\<close>

definition vSystem_ExAirFanRequestTimeTmrCallback :: "'z sys_scheme \<Rightarrow> 'z sys_scheme" where
  "vSystem_ExAirFanRequestTimeTmrCallback s =
     (if auto_or_emergency s then
        let (s1, p1) = (if variate_usable s
                        then (s\<lparr>xVariableFanRequest := False\<rparr>, pExAirFanVariate s) else (s, None));
            p2 = (if constant_only s1 then psSystem_LongestExAirFan s1 else p1)
        in (case p2 of Some f \<Rightarrow> vExAirFan_SwitchClose f s1 | None \<Rightarrow> s1)
      else s)"

text \<open>
  Start the one-shot timer of the request time, unless it runs and the time is unchanged;
  \<open>before\<close> is what the code does in between.
\<close>

definition request_timer :: "('z sys_scheme \<Rightarrow> 'z sys_scheme) \<Rightarrow> 'z sys_scheme \<Rightarrow> 'z sys_scheme" where
  "request_timer before s =
     (if usGetTmrState sExAirFanRequestTimeTmr s \<noteq> OS_TMR_STATE_RUNNING \<or>
         g_ulExAirFanRequestTime s \<noteq> ulExAirFanRequestTime s
      then let s1 = before (s\<lparr>g_ulExAirFanRequestTime := ulExAirFanRequestTime s\<rparr>)
           in snd (xTimerRegist sExAirFanRequestTimeTmr (ulExAirFanRequestTime s1) 0
                OS_OPT_TMR_ONE_SHOT ExAirFanRequestTimeCB id False s1)
      else s)"

definition vSystem_ExAirFanCtrlTmrCallback :: "'z sys_scheme \<Rightarrow> 'z sys_scheme" where
  "vSystem_ExAirFanCtrlTmrCallback s =
     (if manual_or_closed s then s
      else
        let s0 = vSystem_ExAirRequest_Vol s;
            s1 = (if variate_usable s0 then
                    (case pExAirFanVariate s0 of
                       None \<Rightarrow> s0
                     | Some v \<Rightarrow>
                         (if ulExAirFanRequestTime s0 \<ge> ucast (usExAirFanRunTimeLeast s0) then
                            let t = vExAirFan_SwitchOpen v (s0\<lparr>xVariableFanRequest := True\<rparr>)
                            in request_timer id
                                 (vSystem_AdjustExAirFanFreq (usExAirFanMinFreq t) t)
                          else vExAirFan_SwitchClose v (s0\<lparr>xVariableFanRequest := False\<rparr>)))
                  else s0)
        in if constant_only s1 then
             (if ulExAirFanRequestTime s1 \<ge> ucast (usExAirFanRunTimeLeast s1)
              then request_timer vSystem_ExAirFanConstantSwitch s1 else s1)
           else s1)"

text \<open>Start the periodic control timer if it does not run or the number of fans changed.\<close>

definition control_timer :: "u16 \<Rightarrow> 'z sys_scheme \<Rightarrow> 'z sys_scheme" where
  "control_timer period s =
     (if usGetTmrState sExAirFanCtrlTmr s \<noteq> OS_TMR_STATE_RUNNING \<or>
         g_ucConstantFanRequestNum s \<noteq> ucConstantFanRequestNum s
      then snd (xTimerRegist sExAirFanCtrlTmr 0 (ucast period) OS_OPT_TMR_PERIODIC ExAirFanCtrlCB
             vSystem_ExAirFanCtrlTmrCallback True s)
      else s)"

definition switch_if_requested :: "'z sys_scheme \<Rightarrow> 'z sys_scheme" where
  "switch_if_requested s =
     (if usGetTmrState sExAirFanRequestTimeTmr s = OS_TMR_STATE_RUNNING
      then vSystem_ExAirFanConstantSwitch s else s)"

definition vSystem_ExAirFanConstantCtrl :: "'z sys_scheme \<Rightarrow> 'z sys_scheme" where
  "vSystem_ExAirFanConstantCtrl s =
     (if manual_or_closed s then s
      else if constant_only s then
        let s1 = switch_if_requested (vSystem_ExAirFanConstantAlwaysOpen s)
        in control_timer (usExAirFanCtrlPeriod s1) s1
      else s)"

text \<open>
  In \<open>vSystem_ExAirFanBothCtrl\<close> the local copy of the rated volume has 16 bits, and the right
  side of the comparison is computed in \<open>int\<close>, then converted.
\<close>

definition vSystem_ExAirFanBothCtrl :: "'z sys_scheme \<Rightarrow> 'z sys_scheme" where
  "vSystem_ExAirFanBothCtrl s =
     (let openNum = ucConstantFanOpenNum s;
          request = ulExAirRequest_Vol s;
          rated = ucast (ulExAirFanRated_Vol s) :: u16;
          minFreq = usExAirFanMinFreq s;
          period = usExAirFanCtrlPeriod s
      in case pExAirFanVariate s of
           None \<Rightarrow> s
         | Some v \<Rightarrow>
             (if eExAirFanType s \<noteq> TYPE_CONSTANT_VARIABLE \<or> rated = 0 then s
              else
                let s1 = vSystem_ExAirFanConstantAlwaysOpen s;
                    rest = request - word_of_int (uint rated * uint openNum);
                    bound = word_of_int (c_int (uint minFreq * uint rated) sdiv 500) :: u32
                in if rest \<ge> bound then
                     let usFreq = ucast (rest * 500 div ucast rated) :: u16;
                         s2 = (if usFreq \<ge> usExAirFanMinFreq s1
                               then (vExAirFan_SwitchOpen v s1)\<lparr>xVariableFanRequest := True\<rparr> else s1);
                         s3 = (if usFreq \<ge> usExAirFanMinFreq s2 \<and> usFreq \<le> usExAirFanMaxFreq s2
                               then vSystem_AdjustExAirFanFreq usFreq s2 else s2);
                         s4 = (if usFreq > usExAirFanMaxFreq s3
                               then vSystem_AdjustExAirFanFreq (usExAirFanMaxFreq s3) s3 else s3)
                     in snd (xTmrStop sExAirFanCtrlTmr (snd (xTmrStop sExAirFanRequestTimeTmr s4)))
                   else control_timer period (switch_if_requested s1)))"

section \<open>The control function\<close>

text \<open>In manual mode every fan is put back to its own command.\<close>

definition manual_fan :: "nat \<Rightarrow> 'z fan_sys_scheme \<Rightarrow> 'z fan_sys_scheme" where
  "manual_fan n s =
     (let s1 = (if eCtrlCmd (fan n s) = ON \<and> \<not> xExAirFanErr (fan n s) \<and> xExAirFanRemote (fan n s)
                then vExAirFan_SwitchOpen n s else s)
      in if eCtrlCmd (fan n s1) = OFF then vExAirFan_SwitchClose n s1 else s1)"

text \<open>CO2 above threshold plus deviation: all fans on, the variable one at full frequency.\<close>

definition all_fans_on :: "'z sys_scheme \<Rightarrow> 'z sys_scheme" where
  "all_fans_on s =
     (let s1 = (if variate_usable s then
                  let t = vSystem_ExAirFanConstantSwitch (s\<lparr>ucConstantFanRequestNum := 3\<rparr>)
                  in (case pExAirFanVariate t of
                        None \<Rightarrow> t
                      | Some v \<Rightarrow> let t1 = vExAirFan_SwitchOpen v (t\<lparr>xVariableFanRequest := True\<rparr>)
                                in vSystem_AdjustExAirFanFreq (usExAirFanMaxFreq t1) t1)
                else s);
          s2 = (if constant_only s1
                then vSystem_ExAirFanConstantSwitch (s1\<lparr>ucConstantFanRequestNum := 4\<rparr>) else s1)
      in snd (xTmrStop sExAirFanCtrlTmr (snd (xTmrStop sExAirFanRequestTimeTmr s2))))"

definition fans_by_demand :: "'z sys_scheme \<Rightarrow> 'z sys_scheme" where
  "fans_by_demand s =
     (let s0 = vSystem_ExAirRequest_Vol s;
          s1 = (if variate_usable s0 then vSystem_ExAirFanBothCtrl s0 else s0)
      in if constant_only s1 then vSystem_ExAirFanConstantCtrl s1 else s1)"

definition vSystem_ExAirFanCtrl :: "'z sys_scheme \<Rightarrow> 'z sys_scheme" where
  "vSystem_ExAirFanCtrl s =
     (let s1 = (if eSystemMode s = MODE_MANUAL then for_loop EX_AIR_FAN_NUM manual_fan s else s)
      in if auto_or_emergency s1 then
           let s2 = (if uint (usCO2PPM s1) > uint (usCO2AdjustThr_V s1) + uint (usCO2AdjustDeviat s1)
                     then all_fans_on s1 else s1)
           in (if uint (usCO2PPM s2) < uint (usCO2AdjustThr_V s2) - uint (usCO2AdjustDeviat s2)
               then fans_by_demand s2 else s2)
         else s1)"

section \<open>Settings and events\<close>

text \<open>
  \<open>vSystem_ExAirSet_Vol\<close> before \<open>vSystem_ExAirRatio\<close>, which calls it. The ratio function tests
  and stores the cooling ratio twice; the heating ratio it is given is not used.
\<close>

definition vSystem_ExAirSet_Vol :: "'z sys_scheme \<Rightarrow> 'z sys_scheme" where
  "vSystem_ExAirSet_Vol s =
     (let old = ulExAirRequest_Vol s;
          s1 = vSystem_ExAirRequest_Vol s
      in if ulExAirRequest_Vol s1 \<noteq> old then
           let s2 = vSystem_ExAirRequest_Vol s1
           in (if g_ucConstantFanRequestNum s2 \<noteq> ucConstantFanRequestNum s2
               then vSystem_ExAirFanCtrl s2 else s2)
         else s1)"

definition vSystem_ExAirRatio :: "u8 \<Rightarrow> u8 \<Rightarrow> 'z sys_scheme \<Rightarrow> 'z sys_scheme" where
  "vSystem_ExAirRatio coolRatio heatRatio s =
     (if ucExAirCoolRatio s \<noteq> coolRatio \<or> ucExAirCoolRatio s \<noteq> coolRatio
      then vSystem_ExAirSet_Vol (s\<lparr>ucExAirCoolRatio := coolRatio\<rparr>) else s)"

definition vSystem_SetExAirFanFreqRange :: "u16 \<Rightarrow> u16 \<Rightarrow> 'z sys_scheme \<Rightarrow> 'z sys_scheme" where
  "vSystem_SetExAirFanFreqRange minFreq maxFreq s =
     (let s1 = s\<lparr>usExAirFanMinFreq := minFreq, usExAirFanMaxFreq := maxFreq\<rparr>;
          s2 = (if usExAirFanFreq s1 < usExAirFanMinFreq s1
                then upd_bms (\<lambda>b. b\<lparr>bms_usExAirFanFreq := usExAirFanMinFreq s1\<rparr>)
                       (s1\<lparr>usExAirFanFreq := usExAirFanMinFreq s1\<rparr>) else s1);
          s3 = (if usExAirFanMaxFreq s2 < usExAirFanFreq s2
                then upd_bms (\<lambda>b. b\<lparr>bms_usExAirFanFreq := usExAirFanMaxFreq s2\<rparr>)
                       (s2\<lparr>usExAirFanFreq := usExAirFanMaxFreq s2\<rparr>) else s2)
      in for_loop EX_AIR_FAN_NUM
           (\<lambda>n t. if eFanFreqType (fan n t) = VARIABLE_FREQ
                  then vExFan_SetFreqRange n minFreq maxFreq t else t) s3)"

definition vSystem_ExAirFanErr :: "'z sys_scheme \<Rightarrow> 'z sys_scheme" where
  "vSystem_ExAirFanErr s =
     (let nFanNum = length (filter (\<lambda>n. \<not> xExAirFanErr (fan n s)) [0..<EX_AIR_FAN_NUM]);
          s1 = (if nFanNum = 0 then
                  let t = s\<lparr>xExFanErrFlag := True\<rparr>
                  in (if eSystemMode t = MODE_AUTO
                      then upd_bms (\<lambda>b. b\<lparr>bms_eSystemMode := MODE_MANUAL\<rparr>)
                             (t\<lparr>eSystemMode := MODE_MANUAL\<rparr>) else t)
                else s\<lparr>xExFanErrFlag := False\<rparr>);
          s2 = (if nFanNum < EX_AIR_FAN_NUM then vSystem_SetAlarm s1 else vSystem_DelAlarmRequst s1)
      in vSystem_ExAirFanCtrl s2)"

definition vSystem_ExAirFanErrClean :: "'z sys_scheme \<Rightarrow> 'z sys_scheme" where
  "vSystem_ExAirFanErrClean s =
     (if \<not> bms_xExAirFanErrClean (psBMS s) then s
      else upd_bms (\<lambda>b. b\<lparr>bms_xExAirFanErrClean := False\<rparr>)
             (for_loop EX_AIR_FAN_NUM
                (\<lambda>n. upd_fan n (\<lambda>f. f\<lparr>xExAirFanErr := False, xExAirFanCtrlErr := False\<rparr>)) s))"

definition vSystem_ExAirFanRemoteChange :: "'z sys_scheme \<Rightarrow> 'z sys_scheme" where
  "vSystem_ExAirFanRemoteChange s =
     (let nFanNum = length (filter (\<lambda>n. xExAirFanRemote (fan n s)) [0..<EX_AIR_FAN_NUM]);
          s1 = (if nFanNum = 0 \<and> eSystemMode s = MODE_AUTO
                then upd_bms (\<lambda>b. b\<lparr>bms_eSystemMode := MODE_MANUAL\<rparr>)
                       (s\<lparr>eSystemMode := MODE_MANUAL\<rparr>) else s)
      in vSystem_ExAirFanCtrl s1)"

text \<open>
  \<open>vSystem_FanRunningState\<close> for fan \<open>i\<close>: the command follows the feedback; any running fan
  leaves the closed mode; the system state is that of the first running unit, or of the fans.
\<close>

definition state_of_mode :: "eRunningMode \<Rightarrow> eSystemState option" where
  "state_of_mode m = (case m of RUN_MODE_COOL \<Rightarrow> Some STATE_COOL | RUN_MODE_HEAT \<Rightarrow> Some STATE_HEAT
     | RUN_MODE_FAN \<Rightarrow> Some STATE_FAN | RUN_MODE_WET \<Rightarrow> Some STATE_WET | RUN_MODE_0 \<Rightarrow> None)"

definition leave_closed :: "'z sys_scheme \<Rightarrow> 'z sys_scheme" where
  "leave_closed s =
     (if eSystemMode s = MODE_CLOSE
      then upd_bms (\<lambda>b. b\<lparr>bms_eSystemMode := MODE_MANUAL\<rparr>) (s\<lparr>eSystemMode := MODE_MANUAL\<rparr>)
      else s)"

definition leave_closed_with_unit :: "nat \<Rightarrow> 'z sys_scheme \<Rightarrow> 'z sys_scheme" where
  "leave_closed_with_unit n s =
     (if eSystemMode s = MODE_CLOSE
      then upd_bms (\<lambda>b. b\<lparr>bms_eRunningMode := mr_eRunningMode (roof n s),
                        bms_eSystemMode := MODE_MANUAL\<rparr>)
             (s\<lparr>eRunningMode := mr_eRunningMode (roof n s), eSystemMode := MODE_MANUAL\<rparr>)
      else s)"

definition running_unit :: "'z roof_sys_scheme \<Rightarrow> nat option" where
  "running_unit s = find (\<lambda>n. dev_eRunningState (roof n s) = STATE_RUN) [0..<MODULAR_ROOF_NUM]"

definition note_running_fan :: "nat \<Rightarrow> eSystemState \<times> 'z sys_scheme \<Rightarrow> eSystemState \<times> 'z sys_scheme" where
  "note_running_fan n p =
     (if dev_eRunningState (fan n (snd p)) = STATE_RUN then (STATE_EX_FAN, leave_closed (snd p)) else p)"

definition vSystem_FanRunningState :: "nat \<Rightarrow> 'z sys_scheme \<Rightarrow> 'z sys_scheme" where
  "vSystem_FanRunningState i s =
     (let s0 = (if xExAirFanRemote (fan i s) \<and> \<not> xExAirFanErr (fan i s)
                then upd_fan i (\<lambda>f. f\<lparr>eCtrlCmd := (if dev_eRunningState f = STATE_RUN
                                                 then ON else OFF)\<rparr>) s else s);
          (eState, s1) = for_loop EX_AIR_FAN_NUM note_running_fan (STATE_CLOSED, s0)
      in case running_unit s1 of
           None \<Rightarrow> s1\<lparr>eSystemState := eState\<rparr>
         | Some n \<Rightarrow>
             (case state_of_mode (mr_eRunningMode (roof n s1)) of
                None \<Rightarrow> (leave_closed_with_unit n s1)\<lparr>eSystemState := eState\<rparr>
              | Some st \<Rightarrow> (leave_closed_with_unit n
                    (s1\<lparr>eRunningMode := mr_eRunningMode (roof n s1)\<rparr>))\<lparr>eSystemState := st\<rparr>))"

section \<open>What the functions leave alone\<close>

lemma vSystem_CloseExAirFans_keeps [simp]:
  "config (vSystem_CloseExAirFans  s) = config s" "modes (vSystem_CloseExAirFans  s) = modes s" "unit_part (vSystem_CloseExAirFans  s) = unit_part s"
  by (simp_all add: vSystem_CloseExAirFans_def Let_def split_beta  frame)

lemma vSystem_CloseExAirFans_wf [simp]: "tmr_wf s \<Longrightarrow> tmr_wf (vSystem_CloseExAirFans  s)"
  by (simp add: vSystem_CloseExAirFans_def Let_def split_beta  out_frame)

lemma vSystem_AdjustExAirFanFreq_keeps [simp]:
  "config (vSystem_AdjustExAirFanFreq v s) = config s" "modes (vSystem_AdjustExAirFanFreq v s) = modes s" "unit_part (vSystem_AdjustExAirFanFreq v s) = unit_part s"
  by (simp_all add: vSystem_AdjustExAirFanFreq_def Let_def split_beta  frame)

lemma vSystem_AdjustExAirFanFreq_wf [simp]: "tmr_wf s \<Longrightarrow> tmr_wf (vSystem_AdjustExAirFanFreq v s)"
  by (simp add: vSystem_AdjustExAirFanFreq_def Let_def split_beta  out_frame)

lemma variate_helps_keeps [simp]:
  "config (variate_helps w n s) = config s" "modes (variate_helps w n s) = modes s" "unit_part (variate_helps w n s) = unit_part s"
  by (simp_all add: variate_helps_def Let_def split_beta  frame split: option.split)

lemma variate_helps_wf [simp]: "tmr_wf s \<Longrightarrow> tmr_wf (variate_helps w n s)"
  by (simp add: variate_helps_def Let_def split_beta  out_frame split: option.split)

lemma close_loop_keeps [simp]:
  "config (close_loop thr n fs s) = config s" "modes (close_loop thr n fs s) = modes s" "unit_part (close_loop thr n fs s) = unit_part s"
  by (induction fs arbitrary: n s) simp_all

lemma close_loop_wf [simp]: "tmr_wf s \<Longrightarrow> tmr_wf (close_loop thr n fs s)"
  by (induction fs arbitrary: n s) simp_all

lemma open_loop_keeps [simp]:
  "config (open_loop n fs s) = config s" "modes (open_loop n fs s) = modes s" "unit_part (open_loop n fs s) = unit_part s"
  by (induction fs arbitrary: n s) simp_all

lemma open_loop_wf [simp]: "tmr_wf s \<Longrightarrow> tmr_wf (open_loop n fs s)"
  by (induction fs arbitrary: n s) simp_all

lemma vSystem_ExAirFanConstantAlwaysOpen_keeps [simp]:
  "config (vSystem_ExAirFanConstantAlwaysOpen  s) = config s" "modes (vSystem_ExAirFanConstantAlwaysOpen  s) = modes s" "unit_part (vSystem_ExAirFanConstantAlwaysOpen  s) = unit_part s"
  by (simp_all add: vSystem_ExAirFanConstantAlwaysOpen_def Let_def split_beta  frame split: option.split)

lemma vSystem_ExAirFanConstantAlwaysOpen_wf [simp]: "tmr_wf s \<Longrightarrow> tmr_wf (vSystem_ExAirFanConstantAlwaysOpen  s)"
  by (simp add: vSystem_ExAirFanConstantAlwaysOpen_def Let_def split_beta  out_frame split: option.split)

lemma vSystem_ExAirFanConstantSwitch_keeps [simp]:
  "config (vSystem_ExAirFanConstantSwitch  s) = config s" "modes (vSystem_ExAirFanConstantSwitch  s) = modes s" "unit_part (vSystem_ExAirFanConstantSwitch  s) = unit_part s"
  by (simp_all add: vSystem_ExAirFanConstantSwitch_def Let_def split_beta  frame split: option.split)

lemma vSystem_ExAirFanConstantSwitch_wf [simp]: "tmr_wf s \<Longrightarrow> tmr_wf (vSystem_ExAirFanConstantSwitch  s)"
  by (simp add: vSystem_ExAirFanConstantSwitch_def Let_def split_beta  out_frame split: option.split)

lemma vSystem_ExAirRequest_Vol_keeps [simp]:
  "config (vSystem_ExAirRequest_Vol  s) = config s" "modes (vSystem_ExAirRequest_Vol  s) = modes s" "unit_part (vSystem_ExAirRequest_Vol  s) = unit_part s"
  by (simp_all add: vSystem_ExAirRequest_Vol_def Let_def split_beta  frame split: option.split)

lemma vSystem_ExAirRequest_Vol_wf [simp]: "tmr_wf s \<Longrightarrow> tmr_wf (vSystem_ExAirRequest_Vol  s)"
  by (simp add: vSystem_ExAirRequest_Vol_def Let_def split_beta  out_frame split: option.split)

lemma vSystem_ExAirFanRequestTimeTmrCallback_keeps [simp]:
  "config (vSystem_ExAirFanRequestTimeTmrCallback  s) = config s" "modes (vSystem_ExAirFanRequestTimeTmrCallback  s) = modes s" "unit_part (vSystem_ExAirFanRequestTimeTmrCallback  s) = unit_part s"
  by (simp_all add: vSystem_ExAirFanRequestTimeTmrCallback_def Let_def split_beta  frame split: option.split)

lemma vSystem_ExAirFanRequestTimeTmrCallback_wf [simp]: "tmr_wf s \<Longrightarrow> tmr_wf (vSystem_ExAirFanRequestTimeTmrCallback  s)"
  by (simp add: vSystem_ExAirFanRequestTimeTmrCallback_def Let_def split_beta  out_frame split: option.split)

lemma request_timer_keeps [simp]:
  "(\<And>t. config (f t) = config t) \<Longrightarrow> config (request_timer f s) = config s"
  "(\<And>t. modes (f t) = modes t) \<Longrightarrow> modes (request_timer f s) = modes s"
  "(\<And>t. unit_part (f t) = unit_part t) \<Longrightarrow> unit_part (request_timer f s) = unit_part s"
  by (simp_all add: request_timer_def Let_def frame)

lemma request_timer_wf [simp]:
  "(\<And>t. tmr_wf t \<Longrightarrow> tmr_wf (f t)) \<Longrightarrow> tmr_wf s \<Longrightarrow> tmr_wf (request_timer f s)"
  by (simp add: request_timer_def Let_def)

lemma vSystem_ExAirFanCtrlTmrCallback_keeps [simp]:
  "config (vSystem_ExAirFanCtrlTmrCallback  s) = config s" "modes (vSystem_ExAirFanCtrlTmrCallback  s) = modes s" "unit_part (vSystem_ExAirFanCtrlTmrCallback  s) = unit_part s"
  by (simp_all add: vSystem_ExAirFanCtrlTmrCallback_def Let_def split_beta  frame split: option.split)

lemma vSystem_ExAirFanCtrlTmrCallback_wf [simp]: "tmr_wf s \<Longrightarrow> tmr_wf (vSystem_ExAirFanCtrlTmrCallback  s)"
  by (simp add: vSystem_ExAirFanCtrlTmrCallback_def Let_def split_beta  out_frame split: option.split)

lemma control_timer_keeps [simp]:
  "config (control_timer v s) = config s" "modes (control_timer v s) = modes s" "unit_part (control_timer v s) = unit_part s"
  by (simp_all add: control_timer_def Let_def split_beta  frame split: option.split)

lemma control_timer_wf [simp]: "tmr_wf s \<Longrightarrow> tmr_wf (control_timer v s)"
  by (simp add: control_timer_def Let_def split_beta  out_frame split: option.split)

lemma switch_if_requested_keeps [simp]:
  "config (switch_if_requested  s) = config s" "modes (switch_if_requested  s) = modes s" "unit_part (switch_if_requested  s) = unit_part s"
  by (simp_all add: switch_if_requested_def Let_def split_beta  frame split: option.split)

lemma switch_if_requested_wf [simp]: "tmr_wf s \<Longrightarrow> tmr_wf (switch_if_requested  s)"
  by (simp add: switch_if_requested_def Let_def split_beta  out_frame split: option.split)

lemma vSystem_ExAirFanConstantCtrl_keeps [simp]:
  "config (vSystem_ExAirFanConstantCtrl  s) = config s" "modes (vSystem_ExAirFanConstantCtrl  s) = modes s" "unit_part (vSystem_ExAirFanConstantCtrl  s) = unit_part s"
  by (simp_all add: vSystem_ExAirFanConstantCtrl_def Let_def split_beta  frame split: option.split)

lemma vSystem_ExAirFanConstantCtrl_wf [simp]: "tmr_wf s \<Longrightarrow> tmr_wf (vSystem_ExAirFanConstantCtrl  s)"
  by (simp add: vSystem_ExAirFanConstantCtrl_def Let_def split_beta  out_frame split: option.split)

lemma vSystem_ExAirFanBothCtrl_keeps [simp]:
  "config (vSystem_ExAirFanBothCtrl  s) = config s" "modes (vSystem_ExAirFanBothCtrl  s) = modes s" "unit_part (vSystem_ExAirFanBothCtrl  s) = unit_part s"
  by (simp_all add: vSystem_ExAirFanBothCtrl_def Let_def split_beta  frame split: option.split)

lemma vSystem_ExAirFanBothCtrl_wf [simp]: "tmr_wf s \<Longrightarrow> tmr_wf (vSystem_ExAirFanBothCtrl  s)"
  by (simp add: vSystem_ExAirFanBothCtrl_def Let_def split_beta  out_frame split: option.split)

lemma manual_fan_keeps [simp]:
  "config (manual_fan i s) = config s" "modes (manual_fan i s) = modes s" "unit_part (manual_fan i s) = unit_part s"
  by (simp_all add: manual_fan_def Let_def split_beta  frame split: option.split)

lemma manual_fan_wf [simp]: "tmr_wf s \<Longrightarrow> tmr_wf (manual_fan i s)"
  by (simp add: manual_fan_def Let_def split_beta  out_frame split: option.split)

lemma all_fans_on_keeps [simp]:
  "config (all_fans_on  s) = config s" "modes (all_fans_on  s) = modes s" "unit_part (all_fans_on  s) = unit_part s"
  by (simp_all add: all_fans_on_def Let_def split_beta  frame split: option.split)

lemma all_fans_on_wf [simp]: "tmr_wf s \<Longrightarrow> tmr_wf (all_fans_on  s)"
  by (simp add: all_fans_on_def Let_def split_beta  out_frame split: option.split)

lemma fans_by_demand_keeps [simp]:
  "config (fans_by_demand  s) = config s" "modes (fans_by_demand  s) = modes s" "unit_part (fans_by_demand  s) = unit_part s"
  by (simp_all add: fans_by_demand_def Let_def split_beta  frame split: option.split)

lemma fans_by_demand_wf [simp]: "tmr_wf s \<Longrightarrow> tmr_wf (fans_by_demand  s)"
  by (simp add: fans_by_demand_def Let_def split_beta  out_frame split: option.split)

lemma vSystem_ExAirFanCtrl_keeps [simp]:
  "config (vSystem_ExAirFanCtrl  s) = config s" "modes (vSystem_ExAirFanCtrl  s) = modes s" "unit_part (vSystem_ExAirFanCtrl  s) = unit_part s"
  by (simp_all add: vSystem_ExAirFanCtrl_def Let_def split_beta  frame)

lemma vSystem_ExAirFanCtrl_wf [simp]: "tmr_wf s \<Longrightarrow> tmr_wf (vSystem_ExAirFanCtrl  s)"
  by (simp add: vSystem_ExAirFanCtrl_def Let_def split_beta  out_frame)

lemma vSystem_ExAirSet_Vol_keeps [simp]:
  "config (vSystem_ExAirSet_Vol  s) = config s" "modes (vSystem_ExAirSet_Vol  s) = modes s" "unit_part (vSystem_ExAirSet_Vol  s) = unit_part s"
  by (simp_all add: vSystem_ExAirSet_Vol_def Let_def split_beta  frame split: option.split)

lemma vSystem_ExAirSet_Vol_wf [simp]: "tmr_wf s \<Longrightarrow> tmr_wf (vSystem_ExAirSet_Vol  s)"
  by (simp add: vSystem_ExAirSet_Vol_def Let_def split_beta  out_frame split: option.split)

lemma vSystem_ExAirRatio_keeps [simp]:
  "config (vSystem_ExAirRatio a b s) = config s" "modes (vSystem_ExAirRatio a b s) = modes s" "unit_part (vSystem_ExAirRatio a b s) = unit_part s"
  by (simp_all add: vSystem_ExAirRatio_def Let_def split_beta  frame split: option.split)

lemma vSystem_ExAirRatio_wf [simp]: "tmr_wf s \<Longrightarrow> tmr_wf (vSystem_ExAirRatio a b s)"
  by (simp add: vSystem_ExAirRatio_def Let_def split_beta  out_frame split: option.split)

lemma vSystem_SetExAirFanFreqRange_keeps [simp]:
  "config (vSystem_SetExAirFanFreqRange a b s) = config s" "modes (vSystem_SetExAirFanFreqRange a b s) = modes s" "unit_part (vSystem_SetExAirFanFreqRange a b s) = unit_part s"
  by (simp_all add: vSystem_SetExAirFanFreqRange_def Let_def split_beta  frame split: option.split)

lemma vSystem_SetExAirFanFreqRange_wf [simp]: "tmr_wf s \<Longrightarrow> tmr_wf (vSystem_SetExAirFanFreqRange a b s)"
  by (simp add: vSystem_SetExAirFanFreqRange_def Let_def split_beta  out_frame split: option.split)

lemma vSystem_ExAirFanErrClean_keeps [simp]:
  "config (vSystem_ExAirFanErrClean  s) = config s" "modes (vSystem_ExAirFanErrClean  s) = modes s" "unit_part (vSystem_ExAirFanErrClean  s) = unit_part s"
  by (simp_all add: vSystem_ExAirFanErrClean_def Let_def split_beta  frame split: option.split)

lemma vSystem_ExAirFanErrClean_wf [simp]: "tmr_wf s \<Longrightarrow> tmr_wf (vSystem_ExAirFanErrClean  s)"
  by (simp add: vSystem_ExAirFanErrClean_def Let_def split_beta  out_frame split: option.split)

lemma vSystem_ExAirFanErr_keeps [simp]:
  "config (vSystem_ExAirFanErr  s) = config s" "unit_part (vSystem_ExAirFanErr  s) = unit_part s"
  by (simp_all add: vSystem_ExAirFanErr_def Let_def split_beta  frame)

lemma vSystem_ExAirFanErr_wf [simp]: "tmr_wf s \<Longrightarrow> tmr_wf (vSystem_ExAirFanErr  s)"
  by (simp add: vSystem_ExAirFanErr_def Let_def split_beta  out_frame)

lemma vSystem_ExAirFanRemoteChange_keeps [simp]:
  "config (vSystem_ExAirFanRemoteChange  s) = config s" "unit_part (vSystem_ExAirFanRemoteChange  s) = unit_part s"
  by (simp_all add: vSystem_ExAirFanRemoteChange_def Let_def split_beta  frame)

lemma vSystem_ExAirFanRemoteChange_wf [simp]: "tmr_wf s \<Longrightarrow> tmr_wf (vSystem_ExAirFanRemoteChange  s)"
  by (simp add: vSystem_ExAirFanRemoteChange_def Let_def split_beta  out_frame)

lemma leave_closed_keeps [simp]:
  "config (leave_closed  s) = config s" "unit_part (leave_closed  s) = unit_part s"
  by (simp_all add: leave_closed_def Let_def split_beta  frame)

lemma leave_closed_wf [simp]: "tmr_wf s \<Longrightarrow> tmr_wf (leave_closed  s)"
  by (simp add: leave_closed_def Let_def split_beta  out_frame)

lemma leave_closed_with_unit_keeps [simp]:
  "config (leave_closed_with_unit i s) = config s"
  by (simp_all add: leave_closed_with_unit_def Let_def split_beta  frame)

lemma leave_closed_with_unit_wf [simp]: "tmr_wf s \<Longrightarrow> tmr_wf (leave_closed_with_unit i s)"
  by (simp add: leave_closed_with_unit_def Let_def split_beta  out_frame)

lemma note_running_fan_keeps:
  "config (snd (note_running_fan n p)) = config (snd p)"
  "tmr_wf (snd p) \<Longrightarrow> tmr_wf (snd (note_running_fan n p))"
  by (simp_all add: note_running_fan_def split_beta)

lemma note_running_fan_loop [simp]:
  "config (snd (for_loop N note_running_fan p)) = config (snd p)"
  by (rule for_loop_frame[of "\<lambda>p. config (snd p)"]) (rule note_running_fan_keeps)

lemma note_running_fan_loop_wf [simp]:
  "tmr_wf (snd p) \<Longrightarrow> tmr_wf (snd (for_loop N note_running_fan p))"
  by (rule for_loop_invariant[of "\<lambda>p. tmr_wf (snd p)"]) (simp_all add: note_running_fan_keeps)

lemma vSystem_FanRunningState_keeps [simp]:
  "config (vSystem_FanRunningState i s) = config s"
  by (simp_all add: vSystem_FanRunningState_def Let_def split_beta  frame split: option.split)

lemma vSystem_FanRunningState_wf [simp]: "tmr_wf s \<Longrightarrow> tmr_wf (vSystem_FanRunningState i s)"
  by (simp add: vSystem_FanRunningState_def Let_def split_beta  out_frame split: option.split)

end
