(* ===== verification/UnitCtrl.thy ===== *)
theory UnitCtrl
  imports FanCtrl
begin

text \<open>
  Control of the rooftop units, \<open>system/unitctrl.c\<close>: start and stop, the state they report, the
  change of running mode by indoor temperature with its delay and dwell timers, and what the
  system does with the units' own sensors and faults.
\<close>

section \<open>Start, stop and reported state\<close>

definition vSystem_OpenUnits :: "'z sys_scheme \<Rightarrow> 'z sys_scheme" where
  "vSystem_OpenUnits s = for_loop MODULAR_ROOF_NUM vModularRoof_SwitchOpen s"

definition vSystem_CloseUnits :: "'z sys_scheme \<Rightarrow> 'z sys_scheme" where
  "vSystem_CloseUnits s = for_loop MODULAR_ROOF_NUM vModularRoof_SwitchClose s"

definition vSystem_UnitSwitchCmd :: "nat \<Rightarrow> 'z sys_scheme \<Rightarrow> 'z sys_scheme" where
  "vSystem_UnitSwitchCmd i s =
     upd_roof i (\<lambda>r. r\<lparr>mr_xSwitchCmdChanged := True, mr_eSwitchState := mr_eSwitchCmd r\<rparr>) s"

definition vSystem_UnitSwitchState :: "nat \<Rightarrow> 'z sys_scheme \<Rightarrow> 'z sys_scheme" where
  "vSystem_UnitSwitchState i s =
     (if mr_eSwitchCmd (roof i s) \<noteq> mr_eSwitchState (roof i s) \<and> \<not> mr_xSwitchCmdChanged (roof i s)
      then upd_roof i (\<lambda>r. r\<lparr>mr_eSwitchCmd := mr_eSwitchState r\<rparr>) s else s)"

definition vSystem_UnitRunningState :: "nat \<Rightarrow> bool \<Rightarrow> 'z sys_scheme \<Rightarrow> 'z sys_scheme" where
  "vSystem_UnitRunningState i xRunningState s =
     (let s0 = (if xRunningState then
                  (if dev_eRunningState (roof i s) = STATE_RUN
                   then upd_roof i (\<lambda>r. r\<lparr>mr_eSwitchCmd := CMD_OPEN, mr_eSwitchState := CMD_OPEN\<rparr>) s
                   else upd_roof i (\<lambda>r. r\<lparr>mr_eSwitchCmd := CMD_CLOSE, mr_eSwitchState := CMD_CLOSE\<rparr>) s)
                else s)
      in case running_unit s0 of
           Some n \<Rightarrow>
             (case state_of_mode (mr_eRunningMode (roof n s0)) of
                None \<Rightarrow> leave_closed_with_unit n s0
              | Some st \<Rightarrow> leave_closed_with_unit n
                  (s0\<lparr>eSystemState := st, eRunningMode := mr_eRunningMode (roof n s0)\<rparr>))
         | None \<Rightarrow>
             (if list_ex (\<lambda>n. dev_eRunningState (fan n s0) = STATE_RUN) [0..<EX_AIR_FAN_NUM]
              then (leave_closed s0)\<lparr>eSystemState := STATE_EX_FAN\<rparr>
              else s0\<lparr>eSystemState := STATE_CLOSED\<rparr>))"

text \<open>Whether no healthy unit runs a compressor; a running one ends the first-run phase.\<close>

definition xSystem_UnitCompsClosed :: "'z sys_scheme \<Rightarrow> bool \<times> 'z sys_scheme" where
  "xSystem_UnitCompsClosed s =
     (if list_ex (\<lambda>n. mr_xCompRunning (roof n s) \<and> \<not> mr_xStopErrFlag (roof n s) \<and>
                      \<not> mr_xCommErr (roof n s)) [0..<MODULAR_ROOF_NUM]
      then (False, s\<lparr>xCompFirstRun := False\<rparr>)
      else (True, s))"

section \<open>Setting the running mode\<close>

text \<open>The code compares the running mode with \<open>STATE_COOL\<close> and \<open>STATE_WET\<close>, whose values are those
  of \<open>RUN_MODE_COOL\<close> and \<open>RUN_MODE_WET\<close>.\<close>

definition cool_or_wet :: "eRunningMode \<Rightarrow> bool" where
  "cool_or_wet m \<longleftrightarrow> m = RUN_MODE_COOL \<or> m = RUN_MODE_WET"

definition usSystem_ChangeEnergyTemp :: "'z sys_scheme \<Rightarrow> u16 \<times> 'z sys_scheme" where
  "usSystem_ChangeEnergyTemp s =
     (if eSystemMode s \<noteq> MODE_AUTO then (0, s)
      else if cool_or_wet (eRunningMode s) then
        let t = (if usTempSet s < usEnergyTemp s then usEnergyTemp s - usTempDeviat s
                 else usTempSet s)
        in (t, upd_roofs (\<lambda>r. r\<lparr>mr_usCoolTempSet := t, mr_usHeatTempSet := t\<rparr>) s)
      else (0, s))"

definition set_unit_mode :: "eRunningMode \<Rightarrow> nat \<Rightarrow> 'z sys_scheme \<Rightarrow> 'z sys_scheme" where
  "set_unit_mode m n s =
     (let s1 = vModularRoof_SetRunningMode n m s
      in if dev_eRunningState (roof n s1) = STATE_RUN then
           let s2 = upd_roof n (\<lambda>r. r\<lparr>mr_usCoolTempSet := usTempSet s1,
                                      mr_usHeatTempSet := usTempSet s1\<rparr>) s1
           in (case state_of_mode (mr_eRunningMode (roof n s2)) of
                 Some st \<Rightarrow> s2\<lparr>eSystemState := st\<rparr> | None \<Rightarrow> s2)
         else s1)"

definition vSystem_SetUnitRunningMode :: "eRunningMode \<Rightarrow> 'z sys_scheme \<Rightarrow> 'z sys_scheme" where
  "vSystem_SetUnitRunningMode eRunMode s =
     (let s0 = upd_bms (\<lambda>b. b\<lparr>bms_eRunningMode := eRunMode\<rparr>) (s\<lparr>eRunningMode := eRunMode\<rparr>);
          s1 = for_loop MODULAR_ROOF_NUM (set_unit_mode eRunMode) s0;
          s2 = (if eSystemMode s1 = MODE_AUTO then vSystem_OpenUnits s1 else s1);
          s3 = (if cool_or_wet (eRunningMode s2) \<and> eSystemMode s2 = MODE_AUTO
                then snd (usSystem_ChangeEnergyTemp s2) else s2)
      in vSystem_ExAirRequest_Vol s3)"

section \<open>The automatic change of mode\<close>

definition mode_tmr_idle :: "nat \<Rightarrow> 'z sys_scheme \<Rightarrow> bool" where
  "mode_tmr_idle n s \<longleftrightarrow> usGetTmrState (sModeChangeTmr n) s \<noteq> OS_TMR_STATE_RUNNING"

definition dwell_over :: "nat \<Rightarrow> 'z sys_scheme \<Rightarrow> bool" where
  "dwell_over n s \<longleftrightarrow> usGetTmrState (sModeChangePeriodTmr n) s \<noteq> OS_TMR_STATE_RUNNING"

definition arm_dwell :: "nat \<Rightarrow> 'z sys_scheme \<Rightarrow> 'z sys_scheme" where
  "arm_dwell n s = arm_req (one_shot_minutes (usModeChangePeriod s n) ModeChangePeriodTimeCB)
     (sModeChangePeriodTmr n) s"

definition arm_mode_tmr :: "nat \<Rightarrow> 'z sys_scheme \<Rightarrow> 'z sys_scheme" where
  "arm_mode_tmr n s = arm_req (one_shot_minutes (usModeChangeTime s n) ModeChangeTimeCB)
     (sModeChangeTmr n) s"

text \<open>Indoor temperature above or below a target by the adjustment temperature \<open>n\<close>, in \<open>int\<close>.\<close>

definition above :: "u16 \<Rightarrow> nat \<Rightarrow> 'z sys_scheme \<Rightarrow> bool" where
  "above t n s \<longleftrightarrow> sint (sAmbientIn_T s) > uint t + uint (usModeAdjustTemp s n)"

definition below :: "u16 \<Rightarrow> nat \<Rightarrow> 'z sys_scheme \<Rightarrow> bool" where
  "below t n s \<longleftrightarrow> sint (sAmbientIn_T s) < uint t - uint (usModeAdjustTemp s n)"

text \<open>Entering a mode starts the dwell timers that keep it from being left again at once.\<close>

definition enter_wet :: "'z sys_scheme \<Rightarrow> 'z sys_scheme" where
  "enter_wet s = arm_dwell 4 (arm_dwell 3 (vSystem_SetUnitRunningMode RUN_MODE_WET s))"

definition enter_fan :: "'z sys_scheme \<Rightarrow> 'z sys_scheme" where
  "enter_fan s = arm_dwell 1 (vSystem_SetUnitRunningMode RUN_MODE_FAN s)"

definition enter_with_comps :: "eRunningMode \<Rightarrow> nat \<Rightarrow> 'z sys_scheme \<Rightarrow> 'z sys_scheme" where
  "enter_with_comps m n s =
     (let (closed, s1) = xSystem_UnitCompsClosed (vSystem_SetUnitRunningMode m s);
          s2 = (if closed then s1\<lparr>xCompFirstRun := True\<rparr> else s1)
      in arm_dwell n s2)"

definition adjust_in_fan :: "'z sys_scheme \<Rightarrow> 'z sys_scheme" where
  "adjust_in_fan s =
     (if above (usTempSet s) 1 s \<and> mode_tmr_idle 1 s \<and> dwell_over 1 s then enter_wet s
      else if below (usTempSet s) 2 s \<and> mode_tmr_idle 2 s \<and> dwell_over 2 s
      then enter_with_comps RUN_MODE_HEAT 6 s
      else s)"

definition adjust_in_wet :: "'z sys_scheme \<Rightarrow> 'z sys_scheme" where
  "adjust_in_wet s =
     (let (usTempSet', s1) = usSystem_ChangeEnergyTemp s in
      if above usTempSet' 3 s1 \<and> mode_tmr_idle 3 s1 \<and> dwell_over 3 s1
      then enter_with_comps RUN_MODE_COOL 5 s1
      else if below (usTempSet s1) 4 s1 \<and> mode_tmr_idle 4 s1 \<and> dwell_over 4 s1
      then enter_fan s1
      else s1)"

text \<open>
  \<open>xCompFirstRun == FALSE && xSystem_UnitCompsClosed() == TRUE\<close>: the call is made only when the
  flag is clear, and then has no effect on it.
\<close>

definition comps_stopped_again :: "'z sys_scheme \<Rightarrow> bool" where
  "comps_stopped_again s \<longleftrightarrow> \<not> xCompFirstRun s \<and> fst (xSystem_UnitCompsClosed s)"

definition adjust_in_cool :: "'z sys_scheme \<Rightarrow> 'z sys_scheme" where
  "adjust_in_cool s =
     (let (usTempSet', s1) = usSystem_ChangeEnergyTemp s in
      if below usTempSet' 5 s1 \<and> mode_tmr_idle 5 s1 \<and> dwell_over 5 s1 then enter_wet s1
      else if comps_stopped_again s1 \<and> mode_tmr_idle 7 s1 \<and> dwell_over 5 s1 then enter_wet s1
      else s1)"

definition adjust_in_heat :: "'z sys_scheme \<Rightarrow> 'z sys_scheme" where
  "adjust_in_heat s =
     (if above (usTempSet s) 6 s \<and> mode_tmr_idle 6 s \<and> dwell_over 6 s then enter_fan s
      else if comps_stopped_again s \<and> mode_tmr_idle 8 s \<and> dwell_over 6 s then enter_fan s
      else s)"

text \<open>
  The four blocks of the code test the mode one after the other; a block that changes it
  returns, so exactly the block of the current mode runs.
\<close>

definition vSystem_AdjustUnitRunningMode :: "'z sys_scheme \<Rightarrow> 'z sys_scheme" where
  "vSystem_AdjustUnitRunningMode s =
     (if eSystemMode s \<noteq> MODE_AUTO \<or> eSystemState s = STATE_CLOSED then s
      else case eRunningMode s of
        RUN_MODE_FAN \<Rightarrow> adjust_in_fan s
      | RUN_MODE_WET \<Rightarrow> adjust_in_wet s
      | RUN_MODE_COOL \<Rightarrow> adjust_in_cool s
      | RUN_MODE_HEAT \<Rightarrow> adjust_in_heat s
      | RUN_MODE_0 \<Rightarrow> s)"

definition vSystem_ModeChangeTimeCallback :: "'z sys_scheme \<Rightarrow> 'z sys_scheme" where
  "vSystem_ModeChangeTimeCallback s = vSystem_AdjustUnitRunningMode s"

definition vSystem_ModeChangePeriodTimeCallback :: "'z sys_scheme \<Rightarrow> 'z sys_scheme" where
  "vSystem_ModeChangePeriodTimeCallback s = s"

definition change_in_fan :: "'z sys_scheme \<Rightarrow> 'z sys_scheme" where
  "change_in_fan s =
     (if above (usTempSet s) 1 s \<and> mode_tmr_idle 1 s then arm_mode_tmr 1 s
      else if below (usTempSet s) 2 s \<and> mode_tmr_idle 2 s then arm_mode_tmr 2 s
      else s)"

definition change_in_wet :: "'z sys_scheme \<Rightarrow> 'z sys_scheme" where
  "change_in_wet s =
     (let (usTempSet', s1) = usSystem_ChangeEnergyTemp s in
      if above usTempSet' 3 s1 \<and> mode_tmr_idle 3 s1 then arm_mode_tmr 3 s1
      else if below (usTempSet s1) 4 s1 \<and> mode_tmr_idle 4 s1 then arm_mode_tmr 4 s1
      else s1)"

definition change_in_cool :: "'z sys_scheme \<Rightarrow> 'z sys_scheme" where
  "change_in_cool s =
     (let (usTempSet', s1) = usSystem_ChangeEnergyTemp s in
      if below usTempSet' 5 s1 \<and> mode_tmr_idle 5 s1 then arm_mode_tmr 5 s1
      else if comps_stopped_again s1 \<and> mode_tmr_idle 7 s1 then arm_mode_tmr 7 s1
      else s1)"

definition change_in_heat :: "'z sys_scheme \<Rightarrow> 'z sys_scheme" where
  "change_in_heat s =
     (let s1 = s\<lparr>xCompFirstRun := True\<rparr> in
      if above (usTempSet s1) 6 s1 \<and> mode_tmr_idle 6 s1 then arm_mode_tmr 6 s1
      else if comps_stopped_again s1 \<and> mode_tmr_idle 8 s1 then arm_mode_tmr 8 s1
      else s1)"

definition vSystem_ChangeUnitRunningMode :: "'z sys_scheme \<Rightarrow> 'z sys_scheme" where
  "vSystem_ChangeUnitRunningMode s =
     (if eSystemMode s \<noteq> MODE_AUTO \<or> eSystemState s = STATE_CLOSED then s
      else case eRunningMode s of
        RUN_MODE_FAN \<Rightarrow> change_in_fan s
      | RUN_MODE_WET \<Rightarrow> change_in_wet s
      | RUN_MODE_COOL \<Rightarrow> change_in_cool s
      | RUN_MODE_HEAT \<Rightarrow> change_in_heat s
      | RUN_MODE_0 \<Rightarrow> s)"

section \<open>The units' own sensors and faults\<close>

definition vSystem_UnitSupAirTemp :: "nat \<Rightarrow> 'z sys_scheme \<Rightarrow> 'z sys_scheme" where
  "vSystem_UnitSupAirTemp i s =
     (if sint (mr_sSupAir_T (roof i s)) > uint (usSupAirMax_T s)
      then vSystem_SetAlarm s else vSystem_DelAlarmRequst s)"

definition unit_healthy :: "nat \<Rightarrow> 'z roof_sys_scheme \<Rightarrow> bool" where
  "unit_healthy n s \<longleftrightarrow> \<not> mr_xStopErrFlag (roof n s) \<and> \<not> mr_xCommErr (roof n s)"

definition vSystem_UnitFreAir :: "'z sys_scheme \<Rightarrow> 'z sys_scheme" where
  "vSystem_UnitFreAir s =
     (let total = for_loop MODULAR_ROOF_NUM
            (\<lambda>n t. if unit_healthy n s then t + ucast (mr_usFreAir_Vol (roof n s)) else t) 0
      in upd_bms (\<lambda>b. b\<lparr>bms_usTotalFreAir_Vol_H := vol_H total,
                        bms_usTotalFreAir_Vol_L := vol_L total\<rparr>)
           (s\<lparr>ulTotalFreAir_Vol := total\<rparr>))"

text \<open>
  The locals of \<open>vSystem_UnitCO2PPM\<close> and two of \<open>vSystem_UnitTempHumiIn\<close> are used before they are
  set. Their values are whatever the stack holds: arguments of the model.
\<close>

record stack_values =
  st_usTotalCO2PPM :: u16
  st_ucNum :: u8
  st_usCO2PPM :: u16
  st_sAmbientIn_T :: s16
  st_usAmbientIn_H :: u16

definition vSystem_UnitCO2PPM :: "stack_values \<Rightarrow> 'z sys_scheme \<Rightarrow> 'z sys_scheme" where
  "vSystem_UnitCO2PPM st s =
     (if xCO2SenErr s then
        let (total, ucNum) = for_loop MODULAR_ROOF_NUM
              (\<lambda>n (t, k). if \<not> mr_xCommErr (roof n s)
                          then (t + mr_usCO2PPMSelf (roof n s), k + 1) else (t, k))
              (st_usTotalCO2PPM st, st_ucNum st);
            ppm = (if ucNum \<noteq> 0 then total div ucast ucNum else st_usCO2PPM st)
        in (if usCO2PPM s \<noteq> ppm then
              let s1 = s\<lparr>usCO2PPM := ppm\<rparr>;
                  s2 = (if usCO2PPMAlarm s1 \<le> usCO2PPM s1 then vSystem_SetAlarm s1
                        else vSystem_DelAlarmRequst s1)
              in vSystem_ExAirFanCtrl s2
            else s)
      else s)"

text \<open>The sums of the on-line units' own readings, in 16 bits, and their number.\<close>

definition unit_sums ::
  "(ModularRoof \<Rightarrow> s16) \<Rightarrow> (ModularRoof \<Rightarrow> u16) \<Rightarrow> 'z roof_sys_scheme \<Rightarrow> s16 \<times> u16 \<times> u8"
where
  "unit_sums temp humi s = for_loop MODULAR_ROOF_NUM
     (\<lambda>n (t, h, k). if \<not> mr_xCommErr (roof n s)
                    then (t + temp (roof n s), h + humi (roof n s), k + 1) else (t, h, k)) (0, 0, 0)"

definition s_div :: "s16 \<Rightarrow> u8 \<Rightarrow> s16" where
  "s_div t k = word_of_int (sint t sdiv uint k)"

definition vSystem_UnitTempHumiOut :: "'z sys_scheme \<Rightarrow> 'z sys_scheme" where
  "vSystem_UnitTempHumiOut s =
     (if xTempSenOutErr s then
        let (t, h, ucNum) = unit_sums mr_sAmbientOutSelf_T mr_usAmbientOutSelf_H s
        in (if ucNum \<noteq> 0 then
              let s1 = s\<lparr>sAmbientOut_T := s_div t ucNum\<rparr>
              in (if xHumiSenOutErr s1 then s1\<lparr>usAmbientOut_H := h div ucast ucNum\<rparr> else s1)
            else s)
      else s)"

definition vSystem_UnitTempHumiIn :: "stack_values \<Rightarrow> 'z sys_scheme \<Rightarrow> 'z sys_scheme" where
  "vSystem_UnitTempHumiIn st s =
     (if xTempSenInErr s then
        let (t, h, ucNum) = unit_sums mr_sAmbientInSelf_T mr_usAmbientInSelf_H s;
            T = (if ucNum \<noteq> 0 then s_div t ucNum else st_sAmbientIn_T st);
            H = (if ucNum \<noteq> 0 \<and> xHumiSenInErr s then h div ucast ucNum else st_usAmbientIn_H st);
            s1 = upd_roofs (\<lambda>r. r\<lparr>mr_sAmbientIn_T := T, mr_usAmbientIn_H := H\<rparr>) s
        in (if sAmbientIn_T s1 \<noteq> T \<or> usAmbientIn_H s1 \<noteq> H
            then vSystem_ChangeUnitRunningMode (s1\<lparr>sAmbientIn_T := T, usAmbientIn_H := H\<rparr>)
            else s1)
      else s)"

definition MODULAR_MAX_FRE_AIR_VOL :: u32 where "MODULAR_MAX_FRE_AIR_VOL = 65000"

text \<open>The last healthy unit, which the loops remember in \<open>pUnit\<close>, and their number.\<close>

definition healthy_units :: "'z roof_sys_scheme \<Rightarrow> nat list" where
  "healthy_units s = filter (\<lambda>n. unit_healthy n s) [0..<MODULAR_ROOF_NUM]"

definition unit_err_open :: "nat \<Rightarrow> 'z sys_scheme \<Rightarrow> 'z sys_scheme" where
  "unit_err_open n s =
     (if unit_healthy n s \<and> auto_or_emergency s then vModularRoof_SwitchOpen n s else s)"

definition unit_err_fresh_air :: "'z sys_scheme \<Rightarrow> 'z sys_scheme" where
  "unit_err_fresh_air s =
     (let units = healthy_units s in
      if 0 < length units \<and> length units < MODULAR_ROOF_NUM then
        (if ulFreAirSet_Vol s > MODULAR_MAX_FRE_AIR_VOL then
           let s1 = (upd_roof (last units)
                       (\<lambda>r. r\<lparr>mr_usFreAirSet_Vol := ucast MODULAR_MAX_FRE_AIR_VOL\<rparr>) s)
                      \<lparr>ulFreAirSet_Vol := MODULAR_MAX_FRE_AIR_VOL\<rparr>
           in upd_bms (\<lambda>b. b\<lparr>bms_usFreAirSet_Vol_L := vol_L (ulFreAirSet_Vol s1),
                             bms_usFreAirSet_Vol_H := vol_H (ulFreAirSet_Vol s1)\<rparr>) s1
         else upd_roof (last units) (\<lambda>r. r\<lparr>mr_usFreAirSet_Vol := ucast (ulFreAirSet_Vol s)\<rparr>) s)
      else if length units = MODULAR_ROOF_NUM then
        upd_roofs (\<lambda>r. r\<lparr>mr_usFreAirSet_Vol := ucast (ulFreAirSet_Vol s div 2)\<rparr>) s
      else s)"

definition vSystem_UnitErr :: "stack_values \<Rightarrow> stack_values \<Rightarrow> 'z sys_scheme \<Rightarrow> 'z sys_scheme" where
  "vSystem_UnitErr st1 st2 s =
     (let s1 = for_loop MODULAR_ROOF_NUM unit_err_open s;
          ucUnitNum = length (healthy_units s1);
          s2 = unit_err_fresh_air s1;
          s3 = (if ucUnitNum < MODULAR_ROOF_NUM then vSystem_SetAlarm s2
                else vSystem_DelAlarmRequst s2);
          s4 = vSystem_UnitTempHumiIn st2 (vSystem_UnitTempHumiOut
                 (vSystem_UnitCO2PPM st1 (vSystem_UnitFreAir s3)))
      in if ucUnitNum = 0 then
           let s5 = s4\<lparr>xUnitErrFlag := True\<rparr>
           in (if auto_or_emergency s5
               then upd_bms (\<lambda>b. b\<lparr>bms_eSystemMode := MODE_MANUAL\<rparr>) (s5\<lparr>eSystemMode := MODE_MANUAL\<rparr>)
               else s5)
         else s4\<lparr>xUnitErrFlag := False\<rparr>)"

section \<open>What the functions leave alone\<close>

lemma vModularRoof_SwitchOpen_keeps [simp]:
  "config (vModularRoof_SwitchOpen i s) = config s" "modes (vModularRoof_SwitchOpen i s) = modes s"
  by (simp_all add: vModularRoof_SwitchOpen_def Let_def split_beta  frame)

lemma vModularRoof_SwitchOpen_wf [simp]: "tmr_wf s \<Longrightarrow> tmr_wf (vModularRoof_SwitchOpen i s)"
  by (simp add: vModularRoof_SwitchOpen_def Let_def split_beta  out_frame)

lemma vModularRoof_SwitchClose_keeps [simp]:
  "config (vModularRoof_SwitchClose i s) = config s" "modes (vModularRoof_SwitchClose i s) = modes s"
  by (simp_all add: vModularRoof_SwitchClose_def Let_def split_beta  frame)

lemma vModularRoof_SwitchClose_wf [simp]: "tmr_wf s \<Longrightarrow> tmr_wf (vModularRoof_SwitchClose i s)"
  by (simp add: vModularRoof_SwitchClose_def Let_def split_beta  out_frame)

lemma vModularRoof_SetRunningMode_keeps [simp]:
  "config (vModularRoof_SetRunningMode i m s) = config s" "modes (vModularRoof_SetRunningMode i m s) = modes s"
  by (simp_all add: vModularRoof_SetRunningMode_def Let_def split_beta  frame)

lemma vModularRoof_SetRunningMode_wf [simp]: "tmr_wf s \<Longrightarrow> tmr_wf (vModularRoof_SetRunningMode i m s)"
  by (simp add: vModularRoof_SetRunningMode_def Let_def split_beta  out_frame)

lemma vModularRoof_TimeoutInd_keeps [simp]:
  "config (vModularRoof_TimeoutInd i s) = config s" "modes (vModularRoof_TimeoutInd i s) = modes s"
  by (simp_all add: vModularRoof_TimeoutInd_def Let_def split_beta  frame)

lemma vModularRoof_TimeoutInd_wf [simp]: "tmr_wf s \<Longrightarrow> tmr_wf (vModularRoof_TimeoutInd i s)"
  by (simp add: vModularRoof_TimeoutInd_def Let_def split_beta  out_frame)

lemma vSystem_OpenUnits_keeps [simp]:
  "config (vSystem_OpenUnits  s) = config s" "modes (vSystem_OpenUnits  s) = modes s"
  by (simp_all add: vSystem_OpenUnits_def Let_def split_beta  frame)

lemma vSystem_OpenUnits_wf [simp]: "tmr_wf s \<Longrightarrow> tmr_wf (vSystem_OpenUnits  s)"
  by (simp add: vSystem_OpenUnits_def Let_def split_beta  out_frame)

lemma vSystem_CloseUnits_keeps [simp]:
  "config (vSystem_CloseUnits  s) = config s" "modes (vSystem_CloseUnits  s) = modes s"
  by (simp_all add: vSystem_CloseUnits_def Let_def split_beta  frame)

lemma vSystem_CloseUnits_wf [simp]: "tmr_wf s \<Longrightarrow> tmr_wf (vSystem_CloseUnits  s)"
  by (simp add: vSystem_CloseUnits_def Let_def split_beta  out_frame)

lemma vSystem_UnitSwitchCmd_keeps [simp]:
  "config (vSystem_UnitSwitchCmd i s) = config s" "modes (vSystem_UnitSwitchCmd i s) = modes s"
  by (simp_all add: vSystem_UnitSwitchCmd_def Let_def split_beta  frame)

lemma vSystem_UnitSwitchCmd_wf [simp]: "tmr_wf s \<Longrightarrow> tmr_wf (vSystem_UnitSwitchCmd i s)"
  by (simp add: vSystem_UnitSwitchCmd_def Let_def split_beta  out_frame)

lemma vSystem_UnitSwitchState_keeps [simp]:
  "config (vSystem_UnitSwitchState i s) = config s" "modes (vSystem_UnitSwitchState i s) = modes s"
  by (simp_all add: vSystem_UnitSwitchState_def Let_def split_beta  frame)

lemma vSystem_UnitSwitchState_wf [simp]: "tmr_wf s \<Longrightarrow> tmr_wf (vSystem_UnitSwitchState i s)"
  by (simp add: vSystem_UnitSwitchState_def Let_def split_beta  out_frame)

lemma set_unit_mode_keeps [simp]:
  "config (set_unit_mode m i s) = config s" "modes (set_unit_mode m i s) = modes s"
  by (simp_all add: set_unit_mode_def Let_def split_beta  frame split: option.split)

lemma set_unit_mode_wf [simp]: "tmr_wf s \<Longrightarrow> tmr_wf (set_unit_mode m i s)"
  by (simp add: set_unit_mode_def Let_def split_beta  out_frame split: option.split)

lemma UnitCompsClosed_keeps [simp]:
  "config (snd (xSystem_UnitCompsClosed s)) = config s" "modes (snd (xSystem_UnitCompsClosed s)) = modes s"
  "tmr_wf s \<Longrightarrow> tmr_wf (snd (xSystem_UnitCompsClosed s))"
  by (simp_all add: xSystem_UnitCompsClosed_def)

lemma ChangeEnergyTemp_keeps [simp]:
  "config (snd (usSystem_ChangeEnergyTemp s)) = config s" "modes (snd (usSystem_ChangeEnergyTemp s)) = modes s"
  "tmr_wf s \<Longrightarrow> tmr_wf (snd (usSystem_ChangeEnergyTemp s))"
  by (simp_all add: usSystem_ChangeEnergyTemp_def Let_def)

lemma vSystem_SetUnitRunningMode_keeps [simp]:
  "config (vSystem_SetUnitRunningMode m s) = config s" "modes (vSystem_SetUnitRunningMode m s) = modes s"
  by (simp_all add: vSystem_SetUnitRunningMode_def Let_def split_beta  frame split: option.split)

lemma vSystem_SetUnitRunningMode_wf [simp]: "tmr_wf s \<Longrightarrow> tmr_wf (vSystem_SetUnitRunningMode m s)"
  by (simp add: vSystem_SetUnitRunningMode_def Let_def split_beta  out_frame split: option.split)

lemma arm_keeps [simp]: "config (arm_req r k s) = config s" "modes (arm_req r k s) = modes s"
  "unit_part (arm_req r k s) = unit_part s"
  by (simp_all add: arm_req_def frame)

lemma arm_wf [simp]: "tmr_wf s \<Longrightarrow> tmr_wf (arm_req r k s)"
  by (rule md_timer.arm_wf)

lemma arm_dwell_keeps [simp]:
  "config (arm_dwell n s) = config s" "modes (arm_dwell n s) = modes s" "unit_part (arm_dwell n s) = unit_part s"
  by (simp_all add: arm_dwell_def Let_def split_beta  frame)

lemma arm_dwell_wf [simp]: "tmr_wf s \<Longrightarrow> tmr_wf (arm_dwell n s)"
  by (simp add: arm_dwell_def Let_def split_beta  out_frame)

lemma arm_mode_tmr_keeps [simp]:
  "config (arm_mode_tmr n s) = config s" "modes (arm_mode_tmr n s) = modes s" "unit_part (arm_mode_tmr n s) = unit_part s"
  by (simp_all add: arm_mode_tmr_def Let_def split_beta  frame)

lemma arm_mode_tmr_wf [simp]: "tmr_wf s \<Longrightarrow> tmr_wf (arm_mode_tmr n s)"
  by (simp add: arm_mode_tmr_def Let_def split_beta  out_frame)

lemma enter_wet_keeps [simp]:
  "config (enter_wet  s) = config s" "modes (enter_wet  s) = modes s"
  by (simp_all add: enter_wet_def Let_def split_beta  frame split: option.split)

lemma enter_wet_wf [simp]: "tmr_wf s \<Longrightarrow> tmr_wf (enter_wet  s)"
  by (simp add: enter_wet_def Let_def split_beta  out_frame split: option.split)

lemma enter_fan_keeps [simp]:
  "config (enter_fan  s) = config s" "modes (enter_fan  s) = modes s"
  by (simp_all add: enter_fan_def Let_def split_beta  frame split: option.split)

lemma enter_fan_wf [simp]: "tmr_wf s \<Longrightarrow> tmr_wf (enter_fan  s)"
  by (simp add: enter_fan_def Let_def split_beta  out_frame split: option.split)

lemma enter_with_comps_keeps [simp]:
  "config (enter_with_comps m n s) = config s" "modes (enter_with_comps m n s) = modes s"
  by (simp_all add: enter_with_comps_def Let_def split_beta  frame split: option.split)

lemma enter_with_comps_wf [simp]: "tmr_wf s \<Longrightarrow> tmr_wf (enter_with_comps m n s)"
  by (simp add: enter_with_comps_def Let_def split_beta  out_frame split: option.split)

lemma adjust_in_fan_keeps [simp]:
  "config (adjust_in_fan  s) = config s" "modes (adjust_in_fan  s) = modes s"
  by (simp_all add: adjust_in_fan_def Let_def split_beta  frame split: option.split)

lemma adjust_in_fan_wf [simp]: "tmr_wf s \<Longrightarrow> tmr_wf (adjust_in_fan  s)"
  by (simp add: adjust_in_fan_def Let_def split_beta  out_frame split: option.split)

lemma adjust_in_wet_keeps [simp]:
  "config (adjust_in_wet  s) = config s" "modes (adjust_in_wet  s) = modes s"
  by (simp_all add: adjust_in_wet_def Let_def split_beta  frame split: option.split)

lemma adjust_in_wet_wf [simp]: "tmr_wf s \<Longrightarrow> tmr_wf (adjust_in_wet  s)"
  by (simp add: adjust_in_wet_def Let_def split_beta  out_frame split: option.split)

lemma adjust_in_cool_keeps [simp]:
  "config (adjust_in_cool  s) = config s" "modes (adjust_in_cool  s) = modes s"
  by (simp_all add: adjust_in_cool_def Let_def split_beta  frame split: option.split)

lemma adjust_in_cool_wf [simp]: "tmr_wf s \<Longrightarrow> tmr_wf (adjust_in_cool  s)"
  by (simp add: adjust_in_cool_def Let_def split_beta  out_frame split: option.split)

lemma adjust_in_heat_keeps [simp]:
  "config (adjust_in_heat  s) = config s" "modes (adjust_in_heat  s) = modes s"
  by (simp_all add: adjust_in_heat_def Let_def split_beta  frame split: option.split)

lemma adjust_in_heat_wf [simp]: "tmr_wf s \<Longrightarrow> tmr_wf (adjust_in_heat  s)"
  by (simp add: adjust_in_heat_def Let_def split_beta  out_frame split: option.split)

lemma vSystem_AdjustUnitRunningMode_keeps [simp]:
  "config (vSystem_AdjustUnitRunningMode s) = config s" "modes (vSystem_AdjustUnitRunningMode s) = modes s" "tmr_wf s \<Longrightarrow> tmr_wf (vSystem_AdjustUnitRunningMode s)"
  by (simp_all add: vSystem_AdjustUnitRunningMode_def split: eRunningMode.split)

lemma vSystem_ModeChangeTimeCallback_keeps [simp]:
  "config (vSystem_ModeChangeTimeCallback  s) = config s" "modes (vSystem_ModeChangeTimeCallback  s) = modes s"
  by (simp_all add: vSystem_ModeChangeTimeCallback_def Let_def split_beta  frame split: option.split)

lemma vSystem_ModeChangeTimeCallback_wf [simp]: "tmr_wf s \<Longrightarrow> tmr_wf (vSystem_ModeChangeTimeCallback  s)"
  by (simp add: vSystem_ModeChangeTimeCallback_def Let_def split_beta  out_frame split: option.split)

lemma change_in_fan_keeps [simp]:
  "config (change_in_fan  s) = config s" "modes (change_in_fan  s) = modes s"
  by (simp_all add: change_in_fan_def Let_def split_beta  frame split: option.split)

lemma change_in_fan_wf [simp]: "tmr_wf s \<Longrightarrow> tmr_wf (change_in_fan  s)"
  by (simp add: change_in_fan_def Let_def split_beta  out_frame split: option.split)

lemma change_in_wet_keeps [simp]:
  "config (change_in_wet  s) = config s" "modes (change_in_wet  s) = modes s"
  by (simp_all add: change_in_wet_def Let_def split_beta  frame split: option.split)

lemma change_in_wet_wf [simp]: "tmr_wf s \<Longrightarrow> tmr_wf (change_in_wet  s)"
  by (simp add: change_in_wet_def Let_def split_beta  out_frame split: option.split)

lemma change_in_cool_keeps [simp]:
  "config (change_in_cool  s) = config s" "modes (change_in_cool  s) = modes s"
  by (simp_all add: change_in_cool_def Let_def split_beta  frame split: option.split)

lemma change_in_cool_wf [simp]: "tmr_wf s \<Longrightarrow> tmr_wf (change_in_cool  s)"
  by (simp add: change_in_cool_def Let_def split_beta  out_frame split: option.split)

lemma change_in_heat_keeps [simp]:
  "config (change_in_heat  s) = config s" "modes (change_in_heat  s) = modes s"
  by (simp_all add: change_in_heat_def Let_def split_beta  frame split: option.split)

lemma change_in_heat_wf [simp]: "tmr_wf s \<Longrightarrow> tmr_wf (change_in_heat  s)"
  by (simp add: change_in_heat_def Let_def split_beta  out_frame split: option.split)

lemma vSystem_ChangeUnitRunningMode_keeps [simp]:
  "config (vSystem_ChangeUnitRunningMode s) = config s" "modes (vSystem_ChangeUnitRunningMode s) = modes s" "tmr_wf s \<Longrightarrow> tmr_wf (vSystem_ChangeUnitRunningMode s)"
  by (simp_all add: vSystem_ChangeUnitRunningMode_def split: eRunningMode.split)

lemma vSystem_UnitSupAirTemp_keeps [simp]:
  "config (vSystem_UnitSupAirTemp i s) = config s" "modes (vSystem_UnitSupAirTemp i s) = modes s"
  by (simp_all add: vSystem_UnitSupAirTemp_def Let_def split_beta  frame split: option.split)

lemma vSystem_UnitSupAirTemp_wf [simp]: "tmr_wf s \<Longrightarrow> tmr_wf (vSystem_UnitSupAirTemp i s)"
  by (simp add: vSystem_UnitSupAirTemp_def Let_def split_beta  out_frame split: option.split)

lemma vSystem_UnitFreAir_keeps [simp]:
  "config (vSystem_UnitFreAir  s) = config s" "modes (vSystem_UnitFreAir  s) = modes s"
  by (simp_all add: vSystem_UnitFreAir_def Let_def split_beta  frame split: option.split)

lemma vSystem_UnitFreAir_wf [simp]: "tmr_wf s \<Longrightarrow> tmr_wf (vSystem_UnitFreAir  s)"
  by (simp add: vSystem_UnitFreAir_def Let_def split_beta  out_frame split: option.split)

lemma vSystem_UnitCO2PPM_keeps [simp]:
  "config (vSystem_UnitCO2PPM st s) = config s" "modes (vSystem_UnitCO2PPM st s) = modes s"
  by (simp_all add: vSystem_UnitCO2PPM_def Let_def split_beta  frame split: option.split)

lemma vSystem_UnitCO2PPM_wf [simp]: "tmr_wf s \<Longrightarrow> tmr_wf (vSystem_UnitCO2PPM st s)"
  by (simp add: vSystem_UnitCO2PPM_def Let_def split_beta  out_frame split: option.split)

lemma vSystem_UnitTempHumiOut_keeps [simp]:
  "config (vSystem_UnitTempHumiOut  s) = config s" "modes (vSystem_UnitTempHumiOut  s) = modes s"
  by (simp_all add: vSystem_UnitTempHumiOut_def Let_def split_beta  frame split: option.split)

lemma vSystem_UnitTempHumiOut_wf [simp]: "tmr_wf s \<Longrightarrow> tmr_wf (vSystem_UnitTempHumiOut  s)"
  by (simp add: vSystem_UnitTempHumiOut_def Let_def split_beta  out_frame split: option.split)

lemma vSystem_UnitTempHumiIn_keeps [simp]:
  "config (vSystem_UnitTempHumiIn st s) = config s" "modes (vSystem_UnitTempHumiIn st s) = modes s"
  by (simp_all add: vSystem_UnitTempHumiIn_def Let_def split_beta  frame split: option.split)

lemma vSystem_UnitTempHumiIn_wf [simp]: "tmr_wf s \<Longrightarrow> tmr_wf (vSystem_UnitTempHumiIn st s)"
  by (simp add: vSystem_UnitTempHumiIn_def Let_def split_beta  out_frame split: option.split)

lemma unit_err_open_keeps [simp]:
  "config (unit_err_open n s) = config s" "modes (unit_err_open n s) = modes s"
  by (simp_all add: unit_err_open_def Let_def split_beta  frame split: option.split)

lemma unit_err_open_wf [simp]: "tmr_wf s \<Longrightarrow> tmr_wf (unit_err_open n s)"
  by (simp add: unit_err_open_def Let_def split_beta  out_frame split: option.split)

lemma unit_err_fresh_air_keeps [simp]:
  "config (unit_err_fresh_air  s) = config s" "modes (unit_err_fresh_air  s) = modes s"
  by (simp_all add: unit_err_fresh_air_def Let_def split_beta  frame split: option.split)

lemma unit_err_fresh_air_wf [simp]: "tmr_wf s \<Longrightarrow> tmr_wf (unit_err_fresh_air  s)"
  by (simp add: unit_err_fresh_air_def Let_def split_beta  out_frame split: option.split)

lemma vSystem_UnitErr_keeps [simp]:
  "config (vSystem_UnitErr a b s) = config s"
  by (simp_all add: vSystem_UnitErr_def Let_def split_beta  frame split: option.split)

lemma vSystem_UnitErr_wf [simp]: "tmr_wf s \<Longrightarrow> tmr_wf (vSystem_UnitErr a b s)"
  by (simp add: vSystem_UnitErr_def Let_def split_beta  out_frame split: option.split)

lemma vSystem_UnitRunningState_keeps [simp]:
  "config (vSystem_UnitRunningState i b s) = config s"
  by (simp_all add: vSystem_UnitRunningState_def Let_def split_beta  frame split: option.split)

lemma vSystem_UnitRunningState_wf [simp]: "tmr_wf s \<Longrightarrow> tmr_wf (vSystem_UnitRunningState i b s)"
  by (simp add: vSystem_UnitRunningState_def Let_def split_beta  out_frame split: option.split)

end
