(* ===== verification/SensorCtrl.thy ===== *)
theory SensorCtrl
  imports UnitCtrl
begin

text \<open>
  What the system does with its own sensors, \<open>system/sensorctrl.c\<close>: the averages over the healthy
  sensors of each kind, the flags "all sensors of this kind have failed", and the alarm and
  control functions that follow a change.
\<close>

section \<open>CO2\<close>

text \<open>Sum and number of the readings of the healthy sensors: 16-bit sum, byte counter.\<close>

definition co2_sum :: "'z sensor_sys_scheme \<Rightarrow> u16 \<times> u8" where
  "co2_sum s = for_loop CO2_SEN_NUM
     (\<lambda>n (t, k). if \<not> sen_xCO2SenErr (psCO2SenList s ! n)
                 then (t + usAvgCO2PPM (psCO2SenList s ! n), k + 1) else (t, k)) (0, 0)"

definition vSystem_CO2PPM :: "'z sys_scheme \<Rightarrow> 'z sys_scheme" where
  "vSystem_CO2PPM s =
     (let (usTotalCO2PPM, ucCO2Num) = co2_sum s;
          ppm = (if ucCO2Num \<noteq> 0 then usTotalCO2PPM div ucast ucCO2Num else 0)
      in if usCO2PPM s \<noteq> ppm \<and> \<not> xCO2SenErr s then
           let s1 = upd_roofs (\<lambda>r. r\<lparr>mr_usCO2PPM := ppm\<rparr>) (s\<lparr>usCO2PPM := ppm\<rparr>);
               s2 = (if usCO2PPMAlarm s1 \<le> usCO2PPM s1 then vSystem_SetAlarm s1
                     else vSystem_DelAlarmRequst s1)
           in vSystem_ExAirFanCtrl s2
         else s)"

definition co2_num :: "'z sensor_sys_scheme \<Rightarrow> u8" where
  "co2_num s = for_loop CO2_SEN_NUM
     (\<lambda>n k. if \<not> sen_xCO2SenErr (psCO2SenList s ! n) then k + 1 else k) 0"

definition vSystem_CO2SensorErr :: "'z sys_scheme \<Rightarrow> 'z sys_scheme" where
  "vSystem_CO2SensorErr s =
     (let err = (co2_num s = 0);
          s2 = (if xCO2SenErr s \<noteq> err then
                  let s1 = upd_roofs (\<lambda>r. r\<lparr>mr_xCO2SenErr := err\<rparr>) (s\<lparr>xCO2SenErr := err\<rparr>)
                  in (if xCO2SenErr s1 then vSystem_SetAlarm s1 else vSystem_DelAlarmRequst s1)
                else s)
      in vSystem_CO2PPM s2)"

section \<open>Temperature and humidity\<close>

text \<open>
  One loop collects both sums and both counters; \<open>sTotalTemp\<close> is a signed 16-bit sum (it is
  computed in \<open>int\<close> and stored back, which wraps).
\<close>

definition temp_humi_sums :: "nat \<Rightarrow> TempHumiSensor list \<Rightarrow> s16 \<times> u8 \<times> u16 \<times> u8" where
  "temp_humi_sums num sensors = for_loop num
     (\<lambda>n (t, k, h, m).
        let p = sensors ! n;
            (t', k') = (if \<not> sen_xTempSenErr p then (t + sAvgTemp p, k + 1) else (t, k));
            (h', m') = (if \<not> sen_xHumiSenErr p then (h + usAvgHumi p, m + 1) else (h, m))
        in (t', k', h', m')) (0, 0, 0, 0)"

definition avg_temp :: "s16 \<Rightarrow> u8 \<Rightarrow> s16" where
  "avg_temp t k = (if k \<noteq> 0 then word_of_int (sint t sdiv uint k) else 0)"

definition avg_humi :: "u16 \<Rightarrow> u8 \<Rightarrow> u16" where
  "avg_humi h k = (if k \<noteq> 0 then h div ucast k else 0)"

definition vSystem_TempHumiOut :: "'z sys_scheme \<Rightarrow> 'z sys_scheme" where
  "vSystem_TempHumiOut s =
     (if xTempSenOutErr s then s
      else
        let (t, k, h, m) = temp_humi_sums TEMP_HUMI_SEN_OUT_NUM (psTempHumiSenOutList s);
            T = avg_temp t k;
            H = avg_humi h m
        in (if sAmbientOut_T s \<noteq> T \<or> usAmbientOut_H s \<noteq> H then
              let s1 = (if \<not> xTempSenOutErr s then s\<lparr>sAmbientOut_T := T\<rparr> else s)
              in (if \<not> xHumiSenOutErr s1 then s1\<lparr>usAmbientOut_H := H\<rparr> else s1)
            else s))"

definition vSystem_TempHumiOutErr :: "'z sys_scheme \<Rightarrow> 'z sys_scheme" where
  "vSystem_TempHumiOutErr s =
     (let (t, k, h, m) = temp_humi_sums TEMP_HUMI_SEN_OUT_NUM (psTempHumiSenOutList s);
          tErr = (k = 0);
          hErr = (m = 0);
          s2 = (if xTempSenOutErr s \<noteq> tErr \<or> xHumiSenOutErr s \<noteq> hErr then
                  let s1 = s\<lparr>xTempSenOutErr := tErr, xHumiSenOutErr := hErr\<rparr>
                  in (if xTempSenOutErr s1 \<or> xHumiSenOutErr s1
                      then vSystem_SetAlarm (s1\<lparr>xTempHumiSenOutErr := True\<rparr>)
                      else vSystem_DelAlarmRequst (s1\<lparr>xTempHumiSenOutErr := False\<rparr>))
                else s)
      in vSystem_TempHumiOut s2)"

definition vSystem_TempHumiIn :: "'z sys_scheme \<Rightarrow> 'z sys_scheme" where
  "vSystem_TempHumiIn s =
     (if xTempSenInErr s then s
      else
        let (t, k, h, m) = temp_humi_sums TEMP_HUMI_SEN_IN_NUM (psTempHumiSenInList s);
            T = avg_temp t k;
            H = avg_humi h m;
            s0 = upd_roofs (\<lambda>r. r\<lparr>mr_sAmbientIn_T := T, mr_usAmbientIn_H := H\<rparr>) s
        in (if sAmbientIn_T s0 \<noteq> T \<or> usAmbientIn_H s0 \<noteq> H then
              let s1 = (if \<not> xTempSenInErr s0 then s0\<lparr>sAmbientIn_T := T\<rparr> else s0);
                  s2 = (if \<not> xHumiSenInErr s1 then s1\<lparr>usAmbientIn_H := H\<rparr> else s1)
              in vSystem_ChangeUnitRunningMode s2
            else s0))"

definition vSystem_TempHumiInErr :: "'z sys_scheme \<Rightarrow> 'z sys_scheme" where
  "vSystem_TempHumiInErr s =
     (let (t, k, h, m) = temp_humi_sums TEMP_HUMI_SEN_IN_NUM (psTempHumiSenInList s);
          tErr = (k = 0);
          hErr = (m = 0);
          s2 = (if xTempSenInErr s \<noteq> tErr \<or> xHumiSenInErr s \<noteq> hErr then
                  let s1 = upd_roofs (\<lambda>r. r\<lparr>mr_xTempSenInErr := tErr, mr_xHumiSenInErr := hErr\<rparr>)
                             (s\<lparr>xTempSenInErr := tErr, xHumiSenInErr := hErr\<rparr>)
                  in (if xTempSenInErr s1 \<and> xHumiSenInErr s1
                      then vSystem_SetAlarm (s1\<lparr>xTempHumiSenInErr := True\<rparr>)
                      else vSystem_DelAlarmRequst (s1\<lparr>xTempHumiSenInErr := False\<rparr>))
                else s)
      in vSystem_TempHumiIn s2)"

section \<open>What the functions leave alone\<close>

lemma vSystem_CO2PPM_keeps [simp]:
  "config (vSystem_CO2PPM  s) = config s" "modes (vSystem_CO2PPM  s) = modes s"
  by (simp_all add: vSystem_CO2PPM_def Let_def split_beta  frame)

lemma vSystem_CO2PPM_wf [simp]: "tmr_wf s \<Longrightarrow> tmr_wf (vSystem_CO2PPM  s)"
  by (simp add: vSystem_CO2PPM_def Let_def split_beta  out_frame)

lemma vSystem_CO2SensorErr_keeps [simp]:
  "config (vSystem_CO2SensorErr  s) = config s" "modes (vSystem_CO2SensorErr  s) = modes s"
  by (simp_all add: vSystem_CO2SensorErr_def Let_def split_beta  frame)

lemma vSystem_CO2SensorErr_wf [simp]: "tmr_wf s \<Longrightarrow> tmr_wf (vSystem_CO2SensorErr  s)"
  by (simp add: vSystem_CO2SensorErr_def Let_def split_beta  out_frame)

lemma vSystem_TempHumiOut_keeps [simp]:
  "config (vSystem_TempHumiOut  s) = config s" "modes (vSystem_TempHumiOut  s) = modes s"
  by (simp_all add: vSystem_TempHumiOut_def Let_def split_beta  frame)

lemma vSystem_TempHumiOut_wf [simp]: "tmr_wf s \<Longrightarrow> tmr_wf (vSystem_TempHumiOut  s)"
  by (simp add: vSystem_TempHumiOut_def Let_def split_beta  out_frame)

lemma vSystem_TempHumiOutErr_keeps [simp]:
  "config (vSystem_TempHumiOutErr  s) = config s" "modes (vSystem_TempHumiOutErr  s) = modes s"
  by (simp_all add: vSystem_TempHumiOutErr_def Let_def split_beta  frame)

lemma vSystem_TempHumiOutErr_wf [simp]: "tmr_wf s \<Longrightarrow> tmr_wf (vSystem_TempHumiOutErr  s)"
  by (simp add: vSystem_TempHumiOutErr_def Let_def split_beta  out_frame)

lemma vSystem_TempHumiIn_keeps [simp]:
  "config (vSystem_TempHumiIn  s) = config s" "modes (vSystem_TempHumiIn  s) = modes s"
  by (simp_all add: vSystem_TempHumiIn_def Let_def split_beta  frame)

lemma vSystem_TempHumiIn_wf [simp]: "tmr_wf s \<Longrightarrow> tmr_wf (vSystem_TempHumiIn  s)"
  by (simp add: vSystem_TempHumiIn_def Let_def split_beta  out_frame)

lemma vSystem_TempHumiInErr_keeps [simp]:
  "config (vSystem_TempHumiInErr  s) = config s" "modes (vSystem_TempHumiInErr  s) = modes s"
  by (simp_all add: vSystem_TempHumiInErr_def Let_def split_beta  frame)

lemma vSystem_TempHumiInErr_wf [simp]: "tmr_wf s \<Longrightarrow> tmr_wf (vSystem_TempHumiInErr  s)"
  by (simp add: vSystem_TempHumiInErr_def Let_def split_beta  out_frame)

end
