(* ===== verification/SystemCtrl.thy ===== *)
theory SystemCtrl
  imports SensorCtrl
begin

text \<open>
  The commands of the supervisor, \<open>system/systemctrl.c\<close>: start and stop, the system mode, the
  targets and limits. A command that is refused writes the value in force back to the register
  image. The alarm of the same file is in theory \<open>SysState\<close>, which its callers need.
\<close>

section \<open>Start, stop and mode\<close>

definition vSystem_SwitchOpen :: "'z sys_scheme \<Rightarrow> 'z sys_scheme" where
  "vSystem_SwitchOpen s = vSystem_OpenUnits s"

definition vSystem_SwitchClose :: "'z sys_scheme \<Rightarrow> 'z sys_scheme" where
  "vSystem_SwitchClose s = vSystem_CloseUnits (vSystem_CloseExAirFans s)"

text \<open>\<open>psBMS->eSystemMode = pThis->eSystemMode\<close>: the command is refused.\<close>

definition refuse_mode :: "'z sys_scheme \<Rightarrow> 'z sys_scheme" where
  "refuse_mode s = upd_bms (\<lambda>b. b\<lparr>bms_eSystemMode := eSystemMode s\<rparr>) s"

definition idle_state :: "'z sys_scheme \<Rightarrow> bool" where
  "idle_state s \<longleftrightarrow> eSystemState s = STATE_CLOSED \<or> eSystemState s = STATE_EX_FAN"

definition remote_fans :: "'z fan_sys_scheme \<Rightarrow> nat" where
  "remote_fans s = length (filter (\<lambda>n. xExAirFanRemote (fan n s)) [0..<EX_AIR_FAN_NUM])"

definition vSystem_ChangeSystemMode :: "eSystemMode \<Rightarrow> 'z sys_scheme \<Rightarrow> 'z sys_scheme" where
  "vSystem_ChangeSystemMode mode s =
     (if eSystemMode s = mode then s
      else case mode of
        MODE_AUTO \<Rightarrow>
          (if remote_fans s = 0 \<or> xUnitErrFlag s \<or> xExFanErrFlag s then refuse_mode s
           else
             let s1 = vSystem_SwitchOpen (s\<lparr>eSystemMode := MODE_AUTO\<rparr>);
                 s2 = (if idle_state s1
                       then vSystem_SetUnitRunningMode
                              (if above (usTempSet s1) 0 s1 then RUN_MODE_FAN else RUN_MODE_HEAT) s1
                       else s1)
             in vSystem_ExAirFanCtrl s2)
      | MODE_CLOSE \<Rightarrow> vSystem_SwitchClose (s\<lparr>eSystemMode := MODE_CLOSE\<rparr>)
      | MODE_MANUAL \<Rightarrow> s\<lparr>eSystemMode := MODE_MANUAL\<rparr>
      | MODE_EMERGENCY \<Rightarrow>
          (if xUnitErrFlag s then refuse_mode s
           else vSystem_ExAirFanCtrl (vSystem_SetUnitRunningMode RUN_MODE_FAN
                  (vSystem_SwitchOpen (s\<lparr>eSystemMode := MODE_EMERGENCY\<rparr>)))))"

section \<open>Targets\<close>

definition vSystem_SetTemp :: "u16 \<Rightarrow> 'z sys_scheme \<Rightarrow> 'z sys_scheme" where
  "vSystem_SetTemp temp s =
     (if usTempSet s \<noteq> temp
      then vSystem_ChangeUnitRunningMode
             (upd_roofs (\<lambda>r. r\<lparr>mr_usCoolTempSet := temp, mr_usHeatTempSet := temp\<rparr>)
                (s\<lparr>usTempSet := temp\<rparr>))
      else s)"

definition MAX_EX_FAN_RATED_VOL :: u32 where "MAX_EX_FAN_RATED_VOL = 100000"
definition MAX_FRE_AIR_SET_VOL :: u32 where "MAX_FRE_AIR_SET_VOL = 130000"

definition fresh_air_to_bms :: "'z sys_scheme \<Rightarrow> 'z sys_scheme" where
  "fresh_air_to_bms s =
     upd_bms (\<lambda>b. b\<lparr>bms_usFreAirSet_Vol_L := vol_L (ulFreAirSet_Vol s),
                   bms_usFreAirSet_Vol_H := vol_H (ulFreAirSet_Vol s)\<rparr>) s"

definition set_unit_fresh_air :: "nat \<Rightarrow> u16 \<Rightarrow> 'z roof_sys_scheme \<Rightarrow> 'z roof_sys_scheme" where
  "set_unit_fresh_air i v = upd_roof i (\<lambda>r. r\<lparr>mr_usFreAirSet_Vol := v\<rparr>)"

definition vSystem_SetFreAir :: "u16 \<Rightarrow> u16 \<Rightarrow> 'z sys_scheme \<Rightarrow> 'z sys_scheme" where
  "vSystem_SetFreAir volH volL s =
     (let vol = vol_of volH volL;
          units = healthy_units s
      in if vol > MAX_FRE_AIR_SET_VOL then fresh_air_to_bms s
         else if ulFreAirSet_Vol s = vol then s
         else
           let s1 = s\<lparr>ulFreAirSet_Vol := vol\<rparr>;
               s2 = (if 0 < length units \<and> length units < MODULAR_ROOF_NUM then
                       (if ulFreAirSet_Vol s1 > MODULAR_MAX_FRE_AIR_VOL
                        then fresh_air_to_bms
                               ((set_unit_fresh_air (last units) (ucast MODULAR_MAX_FRE_AIR_VOL) s1)
                                  \<lparr>ulFreAirSet_Vol := MODULAR_MAX_FRE_AIR_VOL\<rparr>)
                        else set_unit_fresh_air (last units) (ucast (ulFreAirSet_Vol s1)) s1)
                     else if length units = MODULAR_ROOF_NUM
                     then upd_roofs (\<lambda>r. r\<lparr>mr_usFreAirSet_Vol := ucast (vol div 2)\<rparr>) s1
                     else s1)
           in vSystem_ExAirSet_Vol s2)"

definition vSystem_FreshFreAir :: "u32 \<Rightarrow> 'z sys_scheme \<Rightarrow> 'z sys_scheme" where
  "vSystem_FreshFreAir vol s =
     (let units = healthy_units s in
      if 0 < length units \<and> length units < MODULAR_ROOF_NUM then
        (if ulFreAirSet_Vol s > MODULAR_MAX_FRE_AIR_VOL
         then set_unit_fresh_air (last units) (ucast MODULAR_MAX_FRE_AIR_VOL) s
         else set_unit_fresh_air (last units) (ucast (ulFreAirSet_Vol s)) s)
      else if length units = MODULAR_ROOF_NUM
      then upd_roofs (\<lambda>r. r\<lparr>mr_usFreAirSet_Vol := ucast (vol div 2)\<rparr>) s
      else s)"

text \<open>The refused rated volume is written back with high and low word exchanged, as in the code.\<close>

definition vSystem_SetExAirFanRated :: "u16 \<Rightarrow> u16 \<Rightarrow> 'z sys_scheme \<Rightarrow> 'z sys_scheme" where
  "vSystem_SetExAirFanRated volH volL s =
     (let vol = vol_of volH volL in
      if vol > MAX_EX_FAN_RATED_VOL
      then upd_bms (\<lambda>b. b\<lparr>bms_usExAirFanRated_Vol_H := vol_L (ulExAirFanRated_Vol s),
                         bms_usExAirFanRated_Vol_L := vol_H (ulExAirFanRated_Vol s)\<rparr>) s
      else vSystem_ExAirFanCtrl (s\<lparr>ulExAirFanRated_Vol := vol\<rparr>))"

definition vSystem_SetExAirFanCtrlPeriod :: "u16 \<Rightarrow> 'z sys_scheme \<Rightarrow> 'z sys_scheme" where
  "vSystem_SetExAirFanCtrlPeriod period s =
     (if usExAirFanCtrlPeriod s \<noteq> period
      then vSystem_ExAirFanCtrl (s\<lparr>usExAirFanCtrlPeriod := period\<rparr>) else s)"

section \<open>Limits\<close>

definition vSystem_SetHumidity :: "u16 \<Rightarrow> u16 \<Rightarrow> 'z sys_scheme \<Rightarrow> 'z sys_scheme" where
  "vSystem_SetHumidity hmin hmax s =
     upd_roofs (\<lambda>r. r\<lparr>mr_usHumidityMin := hmin, mr_usHumidityMax := hmax\<rparr>)
       (s\<lparr>usHumidityMax := hmax, usHumidityMin := hmin\<rparr>)"

definition vSystem_SetCO2AdjustThr_V :: "u16 \<Rightarrow> 'z sys_scheme \<Rightarrow> 'z sys_scheme" where
  "vSystem_SetCO2AdjustThr_V thr s =
     (if usCO2AdjustThr_V s \<noteq> thr
      then vSystem_ExAirFanCtrl
             (upd_roofs (\<lambda>r. r\<lparr>mr_usCO2AdjustThr_V := thr\<rparr>) (s\<lparr>usCO2AdjustThr_V := thr\<rparr>))
      else s)"

definition vSystem_SetCO2AdjustDeviat :: "u16 \<Rightarrow> 'z sys_scheme \<Rightarrow> 'z sys_scheme" where
  "vSystem_SetCO2AdjustDeviat dev s =
     upd_roofs (\<lambda>r. r\<lparr>mr_usCO2AdjustDeviat := dev\<rparr>) (s\<lparr>usCO2AdjustDeviat := dev\<rparr>)"

section \<open>What the functions leave alone\<close>

lemma vSystem_SwitchOpen_keeps [simp]:
  "config (vSystem_SwitchOpen  s) = config s" "modes (vSystem_SwitchOpen  s) = modes s"
  by (simp_all add: vSystem_SwitchOpen_def Let_def split_beta  frame)

lemma vSystem_SwitchOpen_wf [simp]: "tmr_wf s \<Longrightarrow> tmr_wf (vSystem_SwitchOpen  s)"
  by (simp add: vSystem_SwitchOpen_def Let_def split_beta  out_frame)

lemma vSystem_SwitchClose_keeps [simp]:
  "config (vSystem_SwitchClose  s) = config s" "modes (vSystem_SwitchClose  s) = modes s"
  by (simp_all add: vSystem_SwitchClose_def Let_def split_beta  frame)

lemma vSystem_SwitchClose_wf [simp]: "tmr_wf s \<Longrightarrow> tmr_wf (vSystem_SwitchClose  s)"
  by (simp add: vSystem_SwitchClose_def Let_def split_beta  out_frame)

lemma refuse_mode_keeps [simp]:
  "config (refuse_mode  s) = config s" "unit_part (refuse_mode  s) = unit_part s"
  by (simp_all add: refuse_mode_def Let_def split_beta  frame)

lemma refuse_mode_wf [simp]: "tmr_wf s \<Longrightarrow> tmr_wf (refuse_mode  s)"
  by (simp add: refuse_mode_def Let_def split_beta  out_frame)

lemma ChangeSystemMode_keeps [simp]:
  "config (vSystem_ChangeSystemMode m s) = config s"
  "tmr_wf s \<Longrightarrow> tmr_wf (vSystem_ChangeSystemMode m s)"
  by (simp_all add: vSystem_ChangeSystemMode_def Let_def split: eSystemMode.split)

lemma vSystem_SetTemp_keeps [simp]:
  "config (vSystem_SetTemp v s) = config s" "modes (vSystem_SetTemp v s) = modes s"
  by (simp_all add: vSystem_SetTemp_def Let_def split_beta  frame)

lemma vSystem_SetTemp_wf [simp]: "tmr_wf s \<Longrightarrow> tmr_wf (vSystem_SetTemp v s)"
  by (simp add: vSystem_SetTemp_def Let_def split_beta  out_frame)

lemma fresh_air_to_bms_keeps [simp]:
  "config (fresh_air_to_bms  s) = config s" "modes (fresh_air_to_bms  s) = modes s"
  by (simp_all add: fresh_air_to_bms_def Let_def split_beta  frame)

lemma fresh_air_to_bms_wf [simp]: "tmr_wf s \<Longrightarrow> tmr_wf (fresh_air_to_bms  s)"
  by (simp add: fresh_air_to_bms_def Let_def split_beta  out_frame)

lemma set_unit_fresh_air_keeps [simp]:
  "config (set_unit_fresh_air i v s) = config s" "modes (set_unit_fresh_air i v s) = modes s"
  by (simp_all add: set_unit_fresh_air_def Let_def split_beta  frame)

lemma set_unit_fresh_air_wf [simp]: "tmr_wf s \<Longrightarrow> tmr_wf (set_unit_fresh_air i v s)"
  by (simp add: set_unit_fresh_air_def Let_def split_beta  out_frame)

lemma vSystem_SetFreAir_keeps [simp]:
  "config (vSystem_SetFreAir a b s) = config s" "modes (vSystem_SetFreAir a b s) = modes s"
  by (simp_all add: vSystem_SetFreAir_def Let_def split_beta  frame)

lemma vSystem_SetFreAir_wf [simp]: "tmr_wf s \<Longrightarrow> tmr_wf (vSystem_SetFreAir a b s)"
  by (simp add: vSystem_SetFreAir_def Let_def split_beta  out_frame)

lemma vSystem_FreshFreAir_keeps [simp]:
  "config (vSystem_FreshFreAir v s) = config s" "modes (vSystem_FreshFreAir v s) = modes s"
  by (simp_all add: vSystem_FreshFreAir_def Let_def split_beta  frame)

lemma vSystem_FreshFreAir_wf [simp]: "tmr_wf s \<Longrightarrow> tmr_wf (vSystem_FreshFreAir v s)"
  by (simp add: vSystem_FreshFreAir_def Let_def split_beta  out_frame)

lemma vSystem_SetExAirFanRated_keeps [simp]:
  "config (vSystem_SetExAirFanRated a b s) = config s" "modes (vSystem_SetExAirFanRated a b s) = modes s"
  by (simp_all add: vSystem_SetExAirFanRated_def Let_def split_beta  frame)

lemma vSystem_SetExAirFanRated_wf [simp]: "tmr_wf s \<Longrightarrow> tmr_wf (vSystem_SetExAirFanRated a b s)"
  by (simp add: vSystem_SetExAirFanRated_def Let_def split_beta  out_frame)

lemma vSystem_SetExAirFanCtrlPeriod_keeps [simp]:
  "config (vSystem_SetExAirFanCtrlPeriod v s) = config s" "modes (vSystem_SetExAirFanCtrlPeriod v s) = modes s"
  by (simp_all add: vSystem_SetExAirFanCtrlPeriod_def Let_def split_beta  frame)

lemma vSystem_SetExAirFanCtrlPeriod_wf [simp]: "tmr_wf s \<Longrightarrow> tmr_wf (vSystem_SetExAirFanCtrlPeriod v s)"
  by (simp add: vSystem_SetExAirFanCtrlPeriod_def Let_def split_beta  out_frame)

lemma vSystem_SetHumidity_keeps [simp]:
  "config (vSystem_SetHumidity a b s) = config s" "modes (vSystem_SetHumidity a b s) = modes s"
  by (simp_all add: vSystem_SetHumidity_def Let_def split_beta  frame)

lemma vSystem_SetHumidity_wf [simp]: "tmr_wf s \<Longrightarrow> tmr_wf (vSystem_SetHumidity a b s)"
  by (simp add: vSystem_SetHumidity_def Let_def split_beta  out_frame)

lemma vSystem_SetCO2AdjustThr_V_keeps [simp]:
  "config (vSystem_SetCO2AdjustThr_V v s) = config s" "modes (vSystem_SetCO2AdjustThr_V v s) = modes s"
  by (simp_all add: vSystem_SetCO2AdjustThr_V_def Let_def split_beta  frame)

lemma vSystem_SetCO2AdjustThr_V_wf [simp]: "tmr_wf s \<Longrightarrow> tmr_wf (vSystem_SetCO2AdjustThr_V v s)"
  by (simp add: vSystem_SetCO2AdjustThr_V_def Let_def split_beta  out_frame)

lemma vSystem_SetCO2AdjustDeviat_keeps [simp]:
  "config (vSystem_SetCO2AdjustDeviat v s) = config s" "modes (vSystem_SetCO2AdjustDeviat v s) = modes s"
  by (simp_all add: vSystem_SetCO2AdjustDeviat_def Let_def split_beta  frame)

lemma vSystem_SetCO2AdjustDeviat_wf [simp]: "tmr_wf s \<Longrightarrow> tmr_wf (vSystem_SetCO2AdjustDeviat v s)"
  by (simp add: vSystem_SetCO2AdjustDeviat_def Let_def split_beta  out_frame)

end
