(* ===== verification/SystemMain.thy ===== *)
theory SystemMain
  imports SystemCtrl
begin

text \<open>
  The system object put together, \<open>system/system.c\<close>: construction, the data kept in EEPROM, the
  dispatch of change events, the ten-second poll, the running-time timer, and which function
  each software timer calls.
\<close>

section \<open>The exhaust fan type\<close>

definition ExAirFanVariate :: sFanInfo where
  "ExAirFanVariate = \<lparr>info_eFanFreqType = VARIABLE_FREQ, info_usMinFreq = 0, info_usMaxFreq = 500,
     info_ucFreq_AO = 1, info_ucFreq_AI = 1, info_ucSwitch_DO = 1, info_ucRunState_DI = 1,
     info_ucErr_DI = 5, info_ucRemote_DI = 9\<rparr>"

definition constant_info :: "u8 \<Rightarrow> u8 \<Rightarrow> u8 \<Rightarrow> sFanInfo" where
  "constant_info sw err remote = \<lparr>info_eFanFreqType = CONSTANT_FREQ, info_usMinFreq = 0,
     info_usMaxFreq = 0, info_ucFreq_AO = 0, info_ucFreq_AI = 0, info_ucSwitch_DO = sw,
     info_ucRunState_DI = sw, info_ucErr_DI = err, info_ucRemote_DI = remote\<rparr>"

definition ExAirFanSet :: "sFanInfo list" where
  "ExAirFanSet = [constant_info 1 5 9, constant_info 2 6 10, constant_info 3 7 11,
                  constant_info 4 8 12]"

definition vSystem_ChangeExAirFanType :: "eExAirFanType \<Rightarrow> 'z sys_scheme \<Rightarrow> 'z sys_scheme" where
  "vSystem_ChangeExAirFanType ty s =
     (let s1 = s\<lparr>eExAirFanType := ty\<rparr>
      in if ty = TYPE_CONSTANT_VARIABLE
         then (vExAirFan_ChangeFreqType 0 ExAirFanVariate s1)\<lparr>pExAirFanVariate := Some 0\<rparr>
         else (vExAirFan_ChangeFreqType 0 (ExAirFanSet ! 0) s1)\<lparr>pExAirFanVariate := None\<rparr>)"

section \<open>The ten-second poll\<close>

text \<open>The body of the two loops of \<open>vSystem_ParameterSysn\<close> for unit \<open>n\<close>.\<close>

definition sync_auto :: "nat \<Rightarrow> 'z sys_scheme \<Rightarrow> 'z sys_scheme" where
  "sync_auto n s =
     (let s1 = upd_roof n (\<lambda>r. r\<lparr>mr_eSwitchState := mr_eSwitchCmd r\<rparr>) s;
          s2 = (if eRunningMode s1 \<noteq> RUN_MODE_0
                then upd_roof n (\<lambda>r. r\<lparr>mr_eRunningMode := eRunningMode s1\<rparr>) s1 else s1);
          s3 = (if cool_or_wet (eRunningMode s2) then snd (usSystem_ChangeEnergyTemp s2)
                else upd_roof n (\<lambda>r. r\<lparr>mr_usCoolTempSet := usTempSet s2,
                                     mr_usHeatTempSet := usTempSet s2\<rparr>) s2)
      in upd_roof n (\<lambda>r. r\<lparr>mr_usHumidityMin := usHumidityMin s3, mr_usHumidityMax := usHumidityMax s3,
           mr_usCO2AdjustThr_V := usCO2AdjustThr_V s3, mr_usCO2AdjustDeviat := usCO2AdjustDeviat s3,
           mr_sAmbientIn_T := sAmbientIn_T s3, mr_usAmbientIn_H := usAmbientIn_H s3,
           mr_usCO2PPM := usCO2PPM s3\<rparr>) s3)"

definition sync_manual :: "nat \<Rightarrow> 'z sys_scheme \<Rightarrow> 'z sys_scheme" where
  "sync_manual n s =
     (let s1 = (if mr_xSwitchCmdChanged (roof n s) \<and>
                   mr_eSwitchState (roof n s) \<noteq> mr_eSwitchCmd (roof n s)
                then upd_roof n (\<lambda>r. r\<lparr>mr_eSwitchState := mr_eSwitchCmd r,
                                     mr_xSwitchCmdChanged := False\<rparr>) s
                else s)
      in upd_roof n (\<lambda>r. r\<lparr>mr_sAmbientIn_T := sAmbientIn_T s1, mr_usAmbientIn_H := usAmbientIn_H s1,
           mr_usCO2PPM := usCO2PPM s1\<rparr>) s1)"

definition vSystem_ParameterSysn ::
  "stack_values \<Rightarrow> stack_values \<Rightarrow> 'z sys_scheme \<Rightarrow> 'z sys_scheme" where
  "vSystem_ParameterSysn st1 st2 s =
     (let s0 = vSystem_FreshFreAir (ulFreAirSet_Vol s) s;
          s1 = (if auto_or_emergency s0 then for_loop MODULAR_ROOF_NUM sync_auto s0
                else if manual_or_closed s0 then for_loop MODULAR_ROOF_NUM sync_manual s0
                else s0);
          s2 = vSystem_TempHumiIn (vSystem_TempHumiOut (vSystem_CO2PPM s1));
          s3 = vSystem_UnitTempHumiIn st2 (vSystem_UnitTempHumiOut (vSystem_UnitCO2PPM st1 s2));
          s4 = (if eSystemMode s3 = MODE_AUTO \<and> eSystemState s3 \<noteq> STATE_CLOSED \<and>
                   LastAmbientIn_T s3 = sAmbientIn_T s3
                then vSystem_ChangeUnitRunningMode s3 else s3)
      in s4\<lparr>LastAmbientIn_T := sAmbientIn_T s4\<rparr>)"

section \<open>Running time\<close>

definition SYSTEM_POLL_TIME_OUT_S :: u32 where "SYSTEM_POLL_TIME_OUT_S = 10"

definition count_run_time :: "'r Device_scheme \<Rightarrow> 'r Device_scheme" where
  "count_run_time d =
     (let d1 = (if dev_eRunningState d = STATE_RUN \<and> ulRunTime_S d < 0xFFFFFFFF - SYSTEM_POLL_TIME_OUT_S
                then let t = ulRunTime_S d + SYSTEM_POLL_TIME_OUT_S
                     in d\<lparr>ulRunTime_S := t, usRunTime_H := ucast (t div 3600)\<rparr>
                else d)
      in if usRunTime_H d1 \<ge> 0xFFFF then d1\<lparr>ulRunTime_S := 0, usRunTime_H := 0\<rparr> else d1)"

definition vSystem_PollTmrCallback :: "'z sys_scheme \<Rightarrow> 'z sys_scheme" where
  "vSystem_PollTmrCallback s =
     for_loop EX_AIR_FAN_NUM (\<lambda>n. upd_fan n count_run_time) (upd_roofs count_run_time s)"

definition vSystem_InitRuntimeTmr :: "'z sys_scheme \<Rightarrow> 'z sys_scheme" where
  "vSystem_InitRuntimeTmr s =
     snd (xTimerRegist sSysPollTmr 0 SYSTEM_POLL_TIME_OUT_S OS_OPT_TMR_PERIODIC SysPollCB id False s)"

text \<open>Which function a timer calls: the callbacks of the model under their names.\<close>

definition run_callback :: "tmr_cb \<Rightarrow> tmr_id \<Rightarrow> 'z sys_scheme \<Rightarrow> 'z sys_scheme" where
  "run_callback cb k s =
     (case cb of
        SysPollCB \<Rightarrow> vSystem_PollTmrCallback s
      | ExAirFanCtrlCB \<Rightarrow> vSystem_ExAirFanCtrlTmrCallback s
      | ExAirFanRequestTimeCB \<Rightarrow> vSystem_ExAirFanRequestTimeTmrCallback s
      | ModeChangeTimeCB \<Rightarrow> vSystem_ModeChangeTimeCallback s
      | ModeChangePeriodTimeCB \<Rightarrow> vSystem_ModeChangePeriodTimeCallback s
      | ExAirFanTimeoutCB \<Rightarrow> (case k of sExAirFanTmr i \<Rightarrow> vExAirFan_TimeoutInd i s | _ \<Rightarrow> s)
      | ModularRoofTimeoutCB \<Rightarrow> (case k of sModularRoofTmr i \<Rightarrow> vModularRoof_TimeoutInd i s | _ \<Rightarrow> s)
      | CO2SensorTimeoutCB \<Rightarrow> (case k of sCO2SensorTmr i \<Rightarrow> CO2Sensor_timeout i s | _ \<Rightarrow> s)
      | TempHumiSensorTimeoutCB \<Rightarrow> (case k of sTempHumiOutTmr i \<Rightarrow> TempHumiOut_timeout i s
                                   | sTempHumiInTmr i \<Rightarrow> TempHumiIn_timeout i s | _ \<Rightarrow> s))"

section \<open>Change events\<close>

text \<open>
  The monitor posts the address of a changed variable to the event task. An event names that
  variable: a register of the BMS image, or a field of the unit, fan or sensor with an index.
\<close>

datatype bms_var = BV_eSystemMode | BV_eRunningMode | BV_xAlarmClean | BV_xAlarmEnable
  | BV_xExAirFanErrClean | BV_usTempSet | BV_usFreAirSet_Vol_H | BV_usFreAirSet_Vol_L
  | BV_ucExAirCoolRatio | BV_ucExAirHeatRatio | BV_usHumidityMin | BV_usHumidityMax
  | BV_usCO2AdjustThr_V | BV_usCO2AdjustDeviat | BV_usExAirFanFreq | BV_usExAirFanMinFreq
  | BV_usExAirFanMaxFreq | BV_eExAirFanType | BV_usExAirFanCtrlPeriod
  | BV_usExAirFanRated_Vol_H | BV_usExAirFanRated_Vol_L

datatype unit_var = UV_eRunningState | UV_eRunningMode | UV_eSwitchState | UV_eSwitchCmd
  | UV_sSupAir_T | UV_usFreAir_Vol | UV_xStopErrFlag | UV_xCommErr | UV_sAmbientInSelf_T
  | UV_usAmbientInSelf_H | UV_sAmbientOutSelf_T | UV_usAmbientOutSelf_H | UV_usCO2PPMSelf

datatype fan_var = FV_xExAirFanErr | FV_xExAirFanRemote | FV_eRunningState
datatype co2_var = CV_usAvgCO2PPM | CV_xCO2SenErr
datatype temp_var = TV_sAvgTemp | TV_xTempSenErr | TV_usAvgHumi | TV_xHumiSenErr

datatype event = BMS_event bms_var | Unit_event nat unit_var | Fan_event nat fan_var
  | CO2_event nat co2_var | TempOut_event nat temp_var | TempIn_event nat temp_var

definition handle_bms :: "bms_var \<Rightarrow> 'z sys_scheme \<Rightarrow> 'z sys_scheme" where
  "handle_bms v s =
     (let b = psBMS s in
      case v of
        BV_eSystemMode \<Rightarrow> vSystem_ChangeSystemMode (bms_eSystemMode b) s
      | BV_eRunningMode \<Rightarrow> vSystem_SetUnitRunningMode (bms_eRunningMode b) s
      | BV_xAlarmClean \<Rightarrow> vSystem_CleanAlarm s
      | BV_xAlarmEnable \<Rightarrow> vSystem_AlarmEnable (bms_xAlarmEnable b) s
      | BV_xExAirFanErrClean \<Rightarrow> vSystem_ExAirFanErrClean s
      | BV_usTempSet \<Rightarrow> vSystem_SetTemp (bms_usTempSet b) s
      | BV_usFreAirSet_Vol_H \<Rightarrow> vSystem_SetFreAir (bms_usFreAirSet_Vol_H b) (bms_usFreAirSet_Vol_L b) s
      | BV_usFreAirSet_Vol_L \<Rightarrow> vSystem_SetFreAir (bms_usFreAirSet_Vol_H b) (bms_usFreAirSet_Vol_L b) s
      | BV_ucExAirCoolRatio \<Rightarrow> vSystem_ExAirRatio (bms_ucExAirCoolRatio b) (bms_ucExAirHeatRatio b) s
      | BV_ucExAirHeatRatio \<Rightarrow> vSystem_ExAirRatio (bms_ucExAirCoolRatio b) (bms_ucExAirHeatRatio b) s
      | BV_usHumidityMin \<Rightarrow> vSystem_SetHumidity (bms_usHumidityMin b) (bms_usHumidityMax b) s
      | BV_usHumidityMax \<Rightarrow> vSystem_SetHumidity (bms_usHumidityMin b) (bms_usHumidityMax b) s
      | BV_usCO2AdjustThr_V \<Rightarrow> vSystem_SetCO2AdjustThr_V (bms_usCO2AdjustThr_V b) s
      | BV_usCO2AdjustDeviat \<Rightarrow> vSystem_SetCO2AdjustDeviat (bms_usCO2AdjustDeviat b) s
      | BV_usExAirFanFreq \<Rightarrow> vSystem_AdjustExAirFanFreq (bms_usExAirFanFreq b) s
      | BV_usExAirFanMinFreq \<Rightarrow>
          vSystem_SetExAirFanFreqRange (bms_usExAirFanMinFreq b) (bms_usExAirFanMaxFreq b) s
      | BV_usExAirFanMaxFreq \<Rightarrow>
          vSystem_SetExAirFanFreqRange (bms_usExAirFanMinFreq b) (bms_usExAirFanMaxFreq b) s
      | BV_eExAirFanType \<Rightarrow> vSystem_ChangeExAirFanType (bms_eExAirFanType b) s
      | BV_usExAirFanCtrlPeriod \<Rightarrow> vSystem_SetExAirFanCtrlPeriod (bms_usExAirFanCtrlPeriod b) s
      | BV_usExAirFanRated_Vol_H \<Rightarrow>
          vSystem_SetExAirFanRated (bms_usExAirFanRated_Vol_H b) (bms_usExAirFanRated_Vol_L b) s
      | BV_usExAirFanRated_Vol_L \<Rightarrow>
          vSystem_SetExAirFanRated (bms_usExAirFanRated_Vol_H b) (bms_usExAirFanRated_Vol_L b) s)"

definition handle_unit ::
  "stack_values \<Rightarrow> stack_values \<Rightarrow> nat \<Rightarrow> unit_var \<Rightarrow> 'z sys_scheme \<Rightarrow> 'z sys_scheme" where
  "handle_unit st1 st2 n v s =
     (case v of
        UV_eRunningState \<Rightarrow> vSystem_UnitRunningState n True s
      | UV_eRunningMode \<Rightarrow> vSystem_UnitRunningState n False s
      | UV_eSwitchState \<Rightarrow> vSystem_UnitSwitchState n s
      | UV_eSwitchCmd \<Rightarrow> vSystem_UnitSwitchCmd n s
      | UV_sSupAir_T \<Rightarrow> vSystem_UnitSupAirTemp n s
      | UV_usFreAir_Vol \<Rightarrow> vSystem_UnitFreAir s
      | UV_xStopErrFlag \<Rightarrow> vSystem_UnitErr st1 st2 s
      | UV_xCommErr \<Rightarrow> vSystem_UnitErr st1 st2 s
      | UV_sAmbientInSelf_T \<Rightarrow> vSystem_UnitTempHumiIn st2 s
      | UV_usAmbientInSelf_H \<Rightarrow> vSystem_UnitTempHumiIn st2 s
      | UV_sAmbientOutSelf_T \<Rightarrow> vSystem_UnitTempHumiOut s
      | UV_usAmbientOutSelf_H \<Rightarrow> vSystem_UnitTempHumiOut s
      | UV_usCO2PPMSelf \<Rightarrow> vSystem_UnitCO2PPM st1 s)"

definition handle_fan :: "nat \<Rightarrow> fan_var \<Rightarrow> 'z sys_scheme \<Rightarrow> 'z sys_scheme" where
  "handle_fan n v s =
     (case v of
        FV_xExAirFanErr \<Rightarrow> vSystem_ExAirFanErr s
      | FV_xExAirFanRemote \<Rightarrow> vSystem_ExAirFanRemoteChange s
      | FV_eRunningState \<Rightarrow> vSystem_FanRunningState n s)"

definition handle_co2 :: "co2_var \<Rightarrow> 'z sys_scheme \<Rightarrow> 'z sys_scheme" where
  "handle_co2 v s =
     (case v of CV_usAvgCO2PPM \<Rightarrow> vSystem_CO2PPM s | CV_xCO2SenErr \<Rightarrow> vSystem_CO2SensorErr s)"

definition handle_temp_out :: "temp_var \<Rightarrow> 'z sys_scheme \<Rightarrow> 'z sys_scheme" where
  "handle_temp_out v s =
     (case v of TV_sAvgTemp \<Rightarrow> vSystem_TempHumiOut s | TV_xTempSenErr \<Rightarrow> vSystem_TempHumiOutErr s
      | TV_usAvgHumi \<Rightarrow> vSystem_TempHumiOut s | TV_xHumiSenErr \<Rightarrow> vSystem_TempHumiOutErr s)"

definition handle_temp_in :: "temp_var \<Rightarrow> 'z sys_scheme \<Rightarrow> 'z sys_scheme" where
  "handle_temp_in v s =
     (case v of TV_sAvgTemp \<Rightarrow> vSystem_TempHumiIn s | TV_xTempSenErr \<Rightarrow> vSystem_TempHumiInErr s
      | TV_usAvgHumi \<Rightarrow> vSystem_TempHumiIn s | TV_xHumiSenErr \<Rightarrow> vSystem_TempHumiInErr s)"

text \<open>One turn of the loop of \<open>vSystem_EventPollTask\<close>: the chain of \<open>HANDLE\<close>s.\<close>

definition handle_event ::
  "stack_values \<Rightarrow> stack_values \<Rightarrow> event \<Rightarrow> 'z sys_scheme \<Rightarrow> 'z sys_scheme" where
  "handle_event st1 st2 ev s =
     (case ev of
        BMS_event v \<Rightarrow> handle_bms v s
      | Unit_event n v \<Rightarrow> (if n < MODULAR_ROOF_NUM then handle_unit st1 st2 n v s else s)
      | Fan_event n v \<Rightarrow> (if n < EX_AIR_FAN_NUM then handle_fan n v s else s)
      | CO2_event n v \<Rightarrow> (if n < CO2_SEN_NUM then handle_co2 v s else s)
      | TempOut_event n v \<Rightarrow> (if n < TEMP_HUMI_SEN_OUT_NUM then handle_temp_out v s else s)
      | TempIn_event n v \<Rightarrow> (if n < TEMP_HUMI_SEN_IN_NUM then handle_temp_in v s else s))"

section \<open>Start-up\<close>

text \<open>The part of \<open>vSystem_EventPollTask\<close> before its loop, once the EEPROM data is there.\<close>

definition start_fan :: "nat \<Rightarrow> 'z sys_scheme \<Rightarrow> 'z sys_scheme" where
  "start_fan n s =
     (let s1 = upd_fan n (\<lambda>f. f\<lparr>usRunTime_H := ucast (ulRunTime_S f div 3600)\<rparr>) s;
          s2 = (if usRunTime_H (fan n s1) \<ge> 0xFFFF
                then upd_fan n (\<lambda>f. f\<lparr>ulRunTime_S := 0, usRunTime_H := 0\<rparr>) s1 else s1);
          s3 = (if eFanFreqType (fan n s2) = VARIABLE_FREQ
                then vExFan_SetFreq n (usExAirFanFreq s2) s2 else s2)
      in vSystem_SetExAirFanFreqRange (usExAirFanMinFreq s3) (usExAirFanMaxFreq s3) s3)"

definition event_task_start :: "'z sys_scheme \<Rightarrow> 'z sys_scheme" where
  "event_task_start s =
     (let s1 = vBMS_InitDefaultData s;
          s2 = vSystem_ChangeExAirFanType (eExAirFanType s1) s1;
          s3 = vSystem_SetExAirFanFreqRange (usExAirFanMinFreq s2) (usExAirFanMaxFreq s2) s2
      in for_loop EX_AIR_FAN_NUM start_fan s3)"

text \<open>
  \<open>vSystem_Init\<close>. Objects come from \<open>calloc\<close>; the device address counter starts at 1 (the
  Modbus master is configured). Registering the devices with the Modbus master, the monitor and
  the tasks is not part of this state.
\<close>

definition init_roof :: "nat \<Rightarrow> 'z sys_scheme \<Rightarrow> 'z sys_scheme" where
  "init_roof n s = vModularRoof_Init n (1 + of_nat n) (of_nat n)
     (s\<lparr>psModularRoofList := psModularRoofList s @ [roof_zero]\<rparr>)"

definition init_fan :: "nat \<Rightarrow> 'z sys_scheme \<Rightarrow> 'z sys_scheme" where
  "init_fan n s = vExAirFan_Init n (ExAirFanSet ! n) (of_nat n)
     (s\<lparr>psExAirFanList := psExAirFanList s @ [fan_zero]\<rparr>)"

definition init_co2 :: "nat \<Rightarrow> 'z sys_scheme \<Rightarrow> 'z sys_scheme" where
  "init_co2 n s = vSensor_Init_CO2 n (3 + of_nat n) (of_nat n)
     (s\<lparr>psCO2SenList := psCO2SenList s @ [co2_zero]\<rparr>)"

definition init_temp_out :: "nat \<Rightarrow> 'z sys_scheme \<Rightarrow> 'z sys_scheme" where
  "init_temp_out n s = vSensor_Init_Out n (6 + of_nat n) (of_nat n)
     (s\<lparr>psTempHumiSenOutList := psTempHumiSenOutList s @ [temp_zero]\<rparr>)"

definition init_temp_in :: "nat \<Rightarrow> 'z sys_scheme \<Rightarrow> 'z sys_scheme" where
  "init_temp_in n s = vSensor_Init_In n (7 + of_nat n) (of_nat n)
     (s\<lparr>psTempHumiSenInList := psTempHumiSenInList s @ [temp_zero]\<rparr>)"

definition SYSTEM_ALARM_DO :: u8 where "SYSTEM_ALARM_DO = 13"

definition vSystem_Init :: "'z sys_scheme \<Rightarrow> 'z sys_scheme" where
  "vSystem_Init s =
     (let s1 = vSystem_RegistAlarmIO SYSTEM_ALARM_DO s;
          s2 = for_loop EX_AIR_FAN_NUM init_fan (for_loop MODULAR_ROOF_NUM init_roof s1);
          s3 = for_loop CO2_SEN_NUM init_co2 s2;
          s4 = for_loop TEMP_HUMI_SEN_IN_NUM init_temp_in (for_loop TEMP_HUMI_SEN_OUT_NUM init_temp_out s3)
      in vSystem_InitRuntimeTmr (vSystem_InitDefaultData s4))"

text \<open>
  Static storage is zero before construction.
\<close>

definition bms_zero :: BMS where
  "bms_zero = \<lparr>
    bms_eSystemMode = MODE_CLOSE, bms_eRunningMode = RUN_MODE_0, bms_usTempSet = 0,
    bms_usHumidityMax = 0, bms_usHumidityMin = 0, bms_usFreAirSet_Vol_H = 0,
    bms_usFreAirSet_Vol_L = 0, bms_usCO2AdjustThr_V = 0, bms_usCO2AdjustDeviat = 0,
    bms_ucExAirCoolRatio = 0, bms_ucExAirHeatRatio = 0, bms_eExAirFanType = TYPE_CONSTANT,
    bms_usExAirFanFreq = 0, bms_usExAirFanMinFreq = 0, bms_usExAirFanMaxFreq = 0,
    bms_usExAirFanCtrlPeriod = 0, bms_usExAirFanRated_Vol_H = 0, bms_usExAirFanRated_Vol_L = 0,
    bms_usTotalFreAir_Vol_H = 0, bms_usTotalFreAir_Vol_L = 0, bms_xAlarmClean = False,
    bms_xAlarmEnable = False, bms_xExAirFanErrClean = False\<rparr>"

definition system_zero :: sys where
  "system_zero = io_zero \<lparr>psExAirFanList = [], psModularRoofList = [], psCO2SenList = [],
    psTempHumiSenOutList = [], psTempHumiSenInList = [],
    eSystemMode = MODE_CLOSE, eSystemState = STATE_CLOSED, eRunningMode = RUN_MODE_0,
    usModeChangeTime = (\<lambda>_. 0), usModeChangePeriod = (\<lambda>_. 0),
    usModeAdjustTemp = (\<lambda>_. 0), usTempSet = 0, usEnergyTemp = 0, usTempDeviat = 0,
    usSupAirMax_T = 0, usCO2PPM = 0, usCO2AdjustThr_V = 0, usCO2AdjustDeviat = 0,
    usCO2PPMAlarm = 0, ulExAirRequest_Vol = 0, ulFreAirSet_Vol = 0, ulTotalFreAir_Vol = 0,
    ulExAirFanRated_Vol = 0, usHumidityMax = 0, usHumidityMin = 0, sAmbientIn_T = 0,
    sAmbientOut_T = 0, usAmbientIn_H = 0, usAmbientOut_H = 0, usExAirFanRunTimeLeast = 0,
    usExAirFanFreq = 0, usExAirFanMinFreq = 0, usExAirFanMaxFreq = 0, ulExAirFanRequestTime = 0,
    usExAirFanCtrlPeriod = 0, ucExAirCoolRatio = 0, ucExAirHeatRatio = 0,
    ucConstantFanRequestNum = 0, ucConstantFanOpenNum = 0, xVariableFanRequest = False,
    eExAirFanType = TYPE_CONSTANT, xCompFirstRun = False, xUnitErrFlag = False,
    xExFanErrFlag = False, xAlarmEnable = False, xCO2SenErr = False, xTempHumiSenOutErr = False,
    xTempHumiSenInErr = False, xTempSenOutErr = False, xTempSenInErr = False,
    xHumiSenOutErr = False, xHumiSenInErr = False, sAlarm_DO = 0, pExAirFanVariate = None,
    psBMS = bms_zero, g_ulExAirFanRequestTime = 0, g_ucConstantFanRequestNum = 0,
    LastAmbientIn_T = 0\<rparr>"

text \<open>
  The data \<open>vSystem_RegistEEPROMData\<close> registers is overwritten with what the EEPROM holds: the
  fields of \<open>e\<close>, any state.
\<close>

definition eeprom_load :: "'z sys_scheme \<Rightarrow> 'z sys_scheme \<Rightarrow> 'z sys_scheme" where
  "eeprom_load e s = s\<lparr>
    ucExAirCoolRatio := ucExAirCoolRatio e, ucExAirHeatRatio := ucExAirHeatRatio e,
    eExAirFanType := eExAirFanType e, xAlarmEnable := xAlarmEnable e,
    usModeChangeTime := usModeChangeTime e, usModeChangePeriod := usModeChangePeriod e,
    usModeAdjustTemp := usModeAdjustTemp e, usTempSet := usTempSet e,
    usEnergyTemp := usEnergyTemp e, usTempDeviat := usTempDeviat e,
    usSupAirMax_T := usSupAirMax_T e, usCO2AdjustThr_V := usCO2AdjustThr_V e,
    usCO2AdjustDeviat := usCO2AdjustDeviat e, usCO2PPMAlarm := usCO2PPMAlarm e,
    usHumidityMax := usHumidityMax e, usHumidityMin := usHumidityMin e,
    usExAirFanFreq := usExAirFanFreq e, usExAirFanMinFreq := usExAirFanMinFreq e,
    usExAirFanMaxFreq := usExAirFanMaxFreq e, usExAirFanRunTimeLeast := usExAirFanRunTimeLeast e,
    usExAirFanCtrlPeriod := usExAirFanCtrlPeriod e, ulExAirFanRated_Vol := ulExAirFanRated_Vol e,
    ulFreAirSet_Vol := ulFreAirSet_Vol e\<rparr>"

section \<open>What the functions leave alone\<close>

lemma sync_auto_keeps [simp]:
  "config (sync_auto n s) = config s" "modes (sync_auto n s) = modes s"
  by (simp_all add: sync_auto_def Let_def split_beta  frame)

lemma sync_auto_wf [simp]: "tmr_wf s \<Longrightarrow> tmr_wf (sync_auto n s)"
  by (simp add: sync_auto_def Let_def split_beta  out_frame)

lemma sync_manual_keeps [simp]:
  "config (sync_manual n s) = config s" "modes (sync_manual n s) = modes s"
  by (simp_all add: sync_manual_def Let_def split_beta  frame)

lemma sync_manual_wf [simp]: "tmr_wf s \<Longrightarrow> tmr_wf (sync_manual n s)"
  by (simp add: sync_manual_def Let_def split_beta  out_frame)

lemma vSystem_ParameterSysn_keeps [simp]:
  "config (vSystem_ParameterSysn a b s) = config s" "modes (vSystem_ParameterSysn a b s) = modes s"
  by (simp_all add: vSystem_ParameterSysn_def Let_def split_beta  frame)

lemma vSystem_ParameterSysn_wf [simp]: "tmr_wf s \<Longrightarrow> tmr_wf (vSystem_ParameterSysn a b s)"
  by (simp add: vSystem_ParameterSysn_def Let_def split_beta  out_frame)

lemma vSystem_InitRuntimeTmr_keeps [simp]:
  "config (vSystem_InitRuntimeTmr  s) = config s" "modes (vSystem_InitRuntimeTmr  s) = modes s"
  by (simp_all add: vSystem_InitRuntimeTmr_def Let_def split_beta  frame)

lemma vSystem_InitRuntimeTmr_wf [simp]: "tmr_wf s \<Longrightarrow> tmr_wf (vSystem_InitRuntimeTmr  s)"
  by (simp add: vSystem_InitRuntimeTmr_def Let_def split_beta  out_frame)

end
