(* ===== verification/Reach.thy ===== *)
theory Reach
  imports SystemMain
begin

text \<open>
  The running controller as a transition system: its steps, the states reachable from power-on,
  and the invariant every step keeps. The invariant covers the timer list, the system mode, the
  fan table and the filters of the sensors.
\<close>

section \<open>Steps\<close>

text \<open>
  One step of the running controller: a change event is handled, the poll task runs, the timer
  task processes one timer, or the outside world writes: the supervisor its register image, a
  unit anything of its registers, the inputs of a fan, the readings of a sensor.
  Tasks are not preempted in the middle of a function.
\<close>

inductive sys_step :: "sys \<Rightarrow> sys \<Rightarrow> bool" where
  Event: "sys_step s (handle_event st1 st2 ev s)"
| Poll: "sys_step s (vSystem_ParameterSysn st1 st2 s)"
| PollStart: "sys_step s (vSystem_SetExAirFanFreqRange (usExAirFanMinFreq s) (usExAirFanMaxFreq s) s)"
| Timer: "TypeIsTmr (os_tmrs s k) \<Longrightarrow> sys_step s (OS_TmrTask_one run_callback k s)"
| BMS_write: "sys_step s (s\<lparr>psBMS := b\<rparr>)"
| Unit_write: "sys_step s (upd_roof i (\<lambda>_. r) s)"
| Fan_input: "sys_step s (upd_fan i (\<lambda>f. f\<lparr>dev_eRunningState := st, usRunningFreq := freq,
    xExAirFanRemote := remote, xExAirFanErr := err\<rparr>) s)"
| CO2_input: "sys_step s (s\<lparr>psCO2SenList := (psCO2SenList s)[i :=
    (psCO2SenList s ! i)\<lparr>sen_usCO2PPM := v, sen_xOnLine := on\<rparr>]\<rparr>)"
| TempOut_input: "sys_step s (s\<lparr>psTempHumiSenOutList := (psTempHumiSenOutList s)[i :=
    (psTempHumiSenOutList s ! i)\<lparr>sTemp := t, usHumi := h, sen_xOnLine := on\<rparr>]\<rparr>)"
| TempIn_input: "sys_step s (s\<lparr>psTempHumiSenInList := (psTempHumiSenInList s)[i :=
    (psTempHumiSenInList s ! i)\<lparr>sTemp := t, usHumi := h, sen_xOnLine := on\<rparr>]\<rparr>)"

inductive reachable :: "sys \<Rightarrow> bool" where
  Start: "reachable (event_task_start (eeprom_load e (vSystem_Init system_zero)))"
| Step: "reachable s \<Longrightarrow> sys_step s t \<Longrightarrow> reachable t"

section \<open>The invariant\<close>

definition modes_ok :: "'z sys_scheme \<Rightarrow> bool" where
  "modes_ok s \<longleftrightarrow> (xUnitErrFlag s \<longrightarrow> eSystemMode s \<noteq> MODE_AUTO \<and> eSystemMode s \<noteq> MODE_EMERGENCY) \<and>
     (xExFanErrFlag s \<longrightarrow> eSystemMode s \<noteq> MODE_AUTO)"


definition modes_allowed :: "eSystemMode \<times> bool \<times> bool \<times> eSystemMode \<Rightarrow> bool" where
  "modes_allowed m \<longleftrightarrow> (fst (snd m) \<longrightarrow> fst m \<noteq> MODE_AUTO \<and> fst m \<noteq> MODE_EMERGENCY) \<and>
     (fst (snd (snd m)) \<longrightarrow> fst m \<noteq> MODE_AUTO)"

lemma modes_ok_iff: "modes_ok s \<longleftrightarrow> modes_allowed (modes s)"
  by (simp add: modes_def modes_ok_def modes_allowed_def)

lemma modes_ok_leave_closed [simp]:
  "modes_ok s \<Longrightarrow> modes_ok (leave_closed s)" "modes_ok s \<Longrightarrow> modes_ok (leave_closed_with_unit n s)"
  by (auto simp: leave_closed_def leave_closed_with_unit_def modes_ok_def upd_bms_def)

lemma modes_ok_update [simp]:
  "modes_ok (s\<lparr>eSystemState := a\<rparr>) = modes_ok s" "modes_ok (s\<lparr>eRunningMode := b\<rparr>) = modes_ok s"
  "modes_ok (upd_roof i g s) = modes_ok s" "modes_ok (upd_fan j h s) = modes_ok s"
  by (simp_all add: modes_ok_iff)

text \<open>The events that change the mode.\<close>

lemma modes_ok_ChangeSystemMode: "modes_ok s \<Longrightarrow> modes_ok (vSystem_ChangeSystemMode m s)"
  by (auto simp: modes_ok_iff vSystem_ChangeSystemMode_def Let_def modes_allowed_def
      refuse_mode_def       mode_sel split: eSystemMode.split)

lemma modes_ok_ExAirFanErr: "modes_ok s \<Longrightarrow> modes_ok (vSystem_ExAirFanErr s)"
  by (auto simp: modes_ok_iff vSystem_ExAirFanErr_def Let_def modes_allowed_def mode_sel)

lemma modes_ok_RemoteChange: "modes_ok s \<Longrightarrow> modes_ok (vSystem_ExAirFanRemoteChange s)"
  by (auto simp: modes_ok_iff vSystem_ExAirFanRemoteChange_def Let_def modes_allowed_def mode_sel)

lemma modes_ok_FanRunningState: "modes_ok s \<Longrightarrow> modes_ok (vSystem_FanRunningState n s)"
proof -
  assume s: "modes_ok s"
  have "modes_ok (snd (for_loop N note_running_fan p))" if "modes_ok (snd p)" for N and p :: "eSystemState \<times> 'a sys_scheme"
    by (rule for_loop_invariant[of "\<lambda>p. modes_ok (snd p)", OF that]) (simp add: note_running_fan_def)
  then show ?thesis
    using s by (simp add: vSystem_FanRunningState_def Let_def split_beta split: option.split)
qed

lemma modes_ok_UnitRunningState: "modes_ok s \<Longrightarrow> modes_ok (vSystem_UnitRunningState n b s)"
  by (simp add: vSystem_UnitRunningState_def Let_def split: option.split)

lemma modes_ok_UnitErr: "modes_ok s \<Longrightarrow> modes_ok (vSystem_UnitErr a b s)"
  by (auto simp: modes_ok_iff vSystem_UnitErr_def Let_def modes_allowed_def
      auto_or_emergency_def mode_sel)

lemma modes_ok_keeps: "modes t = modes s \<Longrightarrow> modes_ok s \<Longrightarrow> modes_ok t"
  by (simp add: modes_ok_iff)

text \<open>The fans by type and relay channel, for each exhaust fan type.\<close>

definition fan_table :: "eExAirFanType \<Rightarrow> (eFreqType \<times> u8) list" where
  "fan_table ty = [(if ty = TYPE_CONSTANT_VARIABLE then VARIABLE_FREQ else CONSTANT_FREQ, 1),
     (CONSTANT_FREQ, 2), (CONSTANT_FREQ, 3), (CONSTANT_FREQ, 4)]"

definition fans_ok :: "'z sys_scheme \<Rightarrow> bool" where
  "fans_ok s \<longleftrightarrow> map (\<lambda>f. (eFanFreqType f, sSwitch_DO f)) (psExAirFanList s) = fan_table (eExAirFanType s) \<and>
     pExAirFanVariate s = (if eExAirFanType s = TYPE_CONSTANT_VARIABLE then Some 0 else None) \<and>
     sAlarm_DO s = 13 \<and> length (psModularRoofList s) = MODULAR_ROOF_NUM"

definition sensors_ok :: "'z sensor_sys_scheme \<Rightarrow> bool" where
  "sensors_ok s \<longleftrightarrow>
     length (psCO2SenList s) = CO2_SEN_NUM \<and> (\<forall>c \<in> set (psCO2SenList s). co2_wf c) \<and>
     length (psTempHumiSenOutList s) = TEMP_HUMI_SEN_OUT_NUM \<and>
     (\<forall>t \<in> set (psTempHumiSenOutList s). temp_wf (- 200) 600 t) \<and>
     length (psTempHumiSenInList s) = TEMP_HUMI_SEN_IN_NUM \<and>
     (\<forall>t \<in> set (psTempHumiSenInList s). temp_wf 0 600 t)"

lemma fans_ok_config: "config t = config s \<Longrightarrow> fans_ok t = fans_ok s"
  by (simp add: config_def fans_ok_def)

lemma sensors_ok_config: "config t = config s \<Longrightarrow> sensors_ok t = sensors_ok s"
  by (simp add: config_def sensors_ok_def)

definition sys_ok :: "'z sys_scheme \<Rightarrow> bool" where
  "sys_ok s \<longleftrightarrow> tmr_wf s \<and> modes_ok s \<and> fans_ok s \<and> sensors_ok s"

lemma sys_okI:
  "sys_ok s \<Longrightarrow> config t = config s \<Longrightarrow> (tmr_wf s \<Longrightarrow> tmr_wf t) \<Longrightarrow> (modes_ok s \<Longrightarrow> modes_ok t) \<Longrightarrow> sys_ok t"
  using fans_ok_config[of t s] sensors_ok_config[of t s] by (simp add: sys_ok_def)

lemma sys_ok_keeps:
  "sys_ok s \<Longrightarrow> config t = config s \<Longrightarrow> modes t = modes s \<Longrightarrow> (tmr_wf s \<Longrightarrow> tmr_wf t) \<Longrightarrow> sys_ok t"
  by (erule sys_okI) (auto simp: modes_ok_iff)

section \<open>Every step keeps it\<close>

text \<open>Changing the exhaust fan type rewrites fan 0.\<close>

lemma ChangeFreqType_list:
  assumes "0 < length (psExAirFanList s)"
  shows "map (\<lambda>f. (eFanFreqType f, sSwitch_DO f)) (psExAirFanList (vExAirFan_ChangeFreqType 0 info s)) =
    (map (\<lambda>f. (eFanFreqType f, sSwitch_DO f)) (psExAirFanList s))
      [0 := (info_eFanFreqType info, info_ucSwitch_DO info)]"
  using assms
  by (cases "psExAirFanList s")
    (simp_all add: vExAirFan_ChangeFreqType_def vExAirFan_RegistDigitalIO_def vExAirFan_RegistAnalogIO_def
      regist_footprints upd_fan_def Let_def)

lemma ChangeFreqType_frame:
  "snd (config (vExAirFan_ChangeFreqType i info s)) = snd (config s)"
  "modes (vExAirFan_ChangeFreqType i info s) = modes s"
  "tmr_wf s \<Longrightarrow> tmr_wf (vExAirFan_ChangeFreqType i info s)"
  by (simp_all add: config_def vExAirFan_ChangeFreqType_def vExAirFan_RegistDigitalIO_def
      vExAirFan_RegistAnalogIO_def regist_footprints upd_fan_def Let_def)

lemma ChangeExAirFanType_from:
  assumes "tmr_wf s" and "modes_ok s" and "sensors_ok s" and "sAlarm_DO s = 13"
    and "length (psModularRoofList s) = MODULAR_ROOF_NUM"
    and tab: "map (\<lambda>f. (eFanFreqType f, sSwitch_DO f)) (psExAirFanList s) = fan_table ty'"
  shows "sys_ok (vSystem_ChangeExAirFanType ty s)"
proof -
  let ?t = "\<lambda>info p. (vExAirFan_ChangeFreqType 0 info (s\<lparr>eExAirFanType := ty\<rparr>))\<lparr>pExAirFanVariate := p\<rparr>"
  have len: "0 < length (psExAirFanList (s\<lparr>eExAirFanType := ty\<rparr>))"
    using tab unfolding fan_table_def by (cases "psExAirFanList s") auto
  have keep: "tmr_wf (?t info p)" "modes_ok (?t info p)" "sensors_ok (?t info p)" for info p
    using assms ChangeFreqType_frame[where i=0 and info=info and s="s\<lparr>eExAirFanType := ty\<rparr>"]
    by (auto simp: modes_ok_iff config_def sensors_ok_def)
  have fans: "fans_ok (?t info (if ty = TYPE_CONSTANT_VARIABLE then Some 0 else None))"
    if "info_ucSwitch_DO info = 1"
      "info_eFanFreqType info = (if ty = TYPE_CONSTANT_VARIABLE then VARIABLE_FREQ else CONSTANT_FREQ)" for info
    using assms ChangeFreqType_frame(1)[of 0 info "s\<lparr>eExAirFanType := ty\<rparr>"] that
      ChangeFreqType_list[OF len, of info]
    by (simp add: config_def fans_ok_def fan_table_def)
  have "sys_ok (?t info (if ty = TYPE_CONSTANT_VARIABLE then Some 0 else None))"
    if "info_ucSwitch_DO info = 1"
      "info_eFanFreqType info = (if ty = TYPE_CONSTANT_VARIABLE then VARIABLE_FREQ else CONSTANT_FREQ)" for info
    using keep fans[OF that] by (simp add: sys_ok_def)
  from this[of ExAirFanVariate] this[of "ExAirFanSet ! 0"] show ?thesis
    by (auto simp: vSystem_ChangeExAirFanType_def Let_def ExAirFanVariate_def ExAirFanSet_def constant_info_def)
qed

lemma ChangeExAirFanType_ok: "sys_ok s \<Longrightarrow> sys_ok (vSystem_ChangeExAirFanType ty s)"
  by (rule ChangeExAirFanType_from[where ty' = "eExAirFanType s"]) (simp_all add: sys_ok_def fans_ok_def)

lemma handle_bms_ok: "sys_ok s \<Longrightarrow> sys_ok (handle_bms v s)"
  by (cases v)
    (auto simp: handle_bms_def Let_def ChangeExAirFanType_ok modes_ok_ChangeSystemMode
      intro: sys_okI sys_ok_keeps)

lemma handle_unit_ok: "sys_ok s \<Longrightarrow> sys_ok (handle_unit a b n v s)"
  by (cases v) (auto simp: handle_unit_def modes_ok_UnitErr modes_ok_UnitRunningState
      intro: sys_okI sys_ok_keeps)

lemma handle_fan_ok: "sys_ok s \<Longrightarrow> sys_ok (handle_fan n v s)"
  by (cases v) (auto simp: handle_fan_def modes_ok_ExAirFanErr modes_ok_RemoteChange
      modes_ok_FanRunningState intro: sys_okI)

lemma handle_event_ok: "sys_ok s \<Longrightarrow> sys_ok (handle_event a b ev s)"
proof -
  assume s: "sys_ok s"
  have "sys_ok (handle_co2 v s)" for v
    by (cases v) (auto simp: handle_co2_def intro: sys_ok_keeps[OF s])
  moreover have "sys_ok (handle_temp_out v s)" "sys_ok (handle_temp_in v s)" for v
    by (cases v; auto simp: handle_temp_out_def handle_temp_in_def intro: sys_ok_keeps[OF s])+
  ultimately show ?thesis
    using s by (cases ev) (auto simp: handle_event_def handle_bms_ok handle_unit_ok handle_fan_ok)
qed

text \<open>The timers' callbacks.\<close>

lemma sensor_list_ok:
  "sys_ok s \<Longrightarrow> length l = length (psCO2SenList s) \<Longrightarrow> \<forall>c \<in> set l. co2_wf c \<Longrightarrow>
    sys_ok (s\<lparr>psCO2SenList := l\<rparr>)"
  "sys_ok s \<Longrightarrow> length m = length (psTempHumiSenOutList s) \<Longrightarrow> \<forall>t \<in> set m. temp_wf (- 200) 600 t \<Longrightarrow>
    sys_ok (s\<lparr>psTempHumiSenOutList := m\<rparr>)"
  "sys_ok s \<Longrightarrow> length m = length (psTempHumiSenInList s) \<Longrightarrow> \<forall>t \<in> set m. temp_wf 0 600 t \<Longrightarrow>
    sys_ok (s\<lparr>psTempHumiSenInList := m\<rparr>)"
  by (simp_all add: sys_ok_def fans_ok_def sensors_ok_def modes_ok_def)

lemma sensor_update_ok:
  assumes "sys_ok s"
  shows "(\<And>c. co2_wf c \<Longrightarrow> co2_wf (f c)) \<Longrightarrow>
      sys_ok (s\<lparr>psCO2SenList := (psCO2SenList s)[i := f (psCO2SenList s ! i)]\<rparr>)"
    and "(\<And>lo hi t. temp_wf lo hi t \<Longrightarrow> temp_wf lo hi (g t)) \<Longrightarrow>
      sys_ok (s\<lparr>psTempHumiSenOutList := (psTempHumiSenOutList s)[i := g (psTempHumiSenOutList s ! i)]\<rparr>)"
    and "(\<And>lo hi t. temp_wf lo hi t \<Longrightarrow> temp_wf lo hi (g t)) \<Longrightarrow>
      sys_ok (s\<lparr>psTempHumiSenInList := (psTempHumiSenInList s)[i := g (psTempHumiSenInList s ! i)]\<rparr>)"
proof -
  have wf: "\<forall>c \<in> set (psCO2SenList s). co2_wf c" "\<forall>t \<in> set (psTempHumiSenOutList s). temp_wf (- 200) 600 t"
    "\<forall>t \<in> set (psTempHumiSenInList s). temp_wf 0 600 t"
    using assms by (simp_all add: sys_ok_def sensors_ok_def)
  show "sys_ok (s\<lparr>psCO2SenList := (psCO2SenList s)[i := f (psCO2SenList s ! i)]\<rparr>)"
    if "\<And>c. co2_wf c \<Longrightarrow> co2_wf (f c)"
    by (rule sensor_list_ok[OF assms]) (simp, rule list_all_update[OF wf(1) that])
  show "sys_ok (s\<lparr>psTempHumiSenOutList := (psTempHumiSenOutList s)[i := g (psTempHumiSenOutList s ! i)]\<rparr>)"
    if "\<And>lo hi t. temp_wf lo hi t \<Longrightarrow> temp_wf lo hi (g t)"
    by (rule sensor_list_ok[OF assms]) (simp, rule list_all_update[OF wf(2) that])
  show "sys_ok (s\<lparr>psTempHumiSenInList := (psTempHumiSenInList s)[i := g (psTempHumiSenInList s ! i)]\<rparr>)"
    if "\<And>lo hi t. temp_wf lo hi t \<Longrightarrow> temp_wf lo hi (g t)"
    by (rule sensor_list_ok[OF assms]) (simp, rule list_all_update[OF wf(3) that])
qed

lemma count_run_time_keeps: "eFanFreqType (count_run_time f) = eFanFreqType f"
  "sSwitch_DO (count_run_time f) = sSwitch_DO f"
  by (simp_all add: count_run_time_def Let_def)

lemma sensor_timeout_ok:
  "sys_ok s \<Longrightarrow> sys_ok (CO2Sensor_timeout i s)" "sys_ok s \<Longrightarrow> sys_ok (TempHumiOut_timeout i s)"
  "sys_ok s \<Longrightarrow> sys_ok (TempHumiIn_timeout i s)"
  unfolding CO2Sensor_timeout_def TempHumiOut_timeout_def TempHumiIn_timeout_def
  by (simp_all add: sensor_update_ok co2_wf_timeout temp_wf_timeout)

lemma callback_ok:
  "sys_ok s \<Longrightarrow> sys_ok (vSystem_PollTmrCallback s)"
  "sys_ok s \<Longrightarrow> sys_ok (vSystem_ExAirFanCtrlTmrCallback s)"
  "sys_ok s \<Longrightarrow> sys_ok (vSystem_ExAirFanRequestTimeTmrCallback s)"
  "sys_ok s \<Longrightarrow> sys_ok (vSystem_ModeChangeTimeCallback s)"
  "sys_ok s \<Longrightarrow> sys_ok (vSystem_ModeChangePeriodTimeCallback s)"
  "sys_ok s \<Longrightarrow> sys_ok (vExAirFan_TimeoutInd i s)"
  "sys_ok s \<Longrightarrow> sys_ok (vModularRoof_TimeoutInd i s)"
  by (erule sys_ok_keeps; simp add: vSystem_PollTmrCallback_def count_run_time_keeps
      vSystem_ModeChangePeriodTimeCallback_def)+

lemma run_callback_ok: "sys_ok s \<Longrightarrow> sys_ok (run_callback cb k s)"
  by (cases cb)
    (simp_all add: run_callback_def callback_ok sensor_timeout_ok split: tmr_id.split)

lemma upd_tmr_keeps [simp]: "config (upd_tmr k f s) = config s" "modes (upd_tmr k f s) = modes s"
  by (simp_all add: upd_tmr_def)

lemma OS_TmrTask_one_ok:
  assumes "sys_ok s" and "TypeIsTmr (os_tmrs s k)"
  shows "sys_ok (OS_TmrTask_one run_callback k s)"
proof -
  let ?s1 = "upd_tmr k (\<lambda>t. t\<lparr>Remain := Remain t - 1\<rparr>) s"
  let ?s2 = "if Opt (os_tmrs ?s1 k) = OS_OPT_TMR_PERIODIC then upd_tmr k (\<lambda>t. t\<lparr>Remain := Period t\<rparr>) ?s1
      else upd_tmr k (\<lambda>t. t\<lparr>State := OS_TMR_STATE_COMPLETED\<rparr>) (OS_TmrUnlink k ?s1)"
  have wf: "tmr_wf s" using assms(1) by (simp add: sys_ok_def)
  have "tmr_wf ?s1" using wf by (auto simp: tmr_wf_def)
  moreover have "tmr_wf ?s2" using wf assms(2) by (auto simp: tmr_wf_def OS_TmrUnlink_def)
  ultimately have "sys_ok ?s1" "sys_ok ?s2"
    using assms(1) by (auto intro!: sys_ok_keeps[OF assms(1)] simp: OS_TmrUnlink_def)
  then show ?thesis
    by (auto simp: OS_TmrTask_one_def Let_def run_callback_ok split: option.split)
qed

section \<open>The initial state\<close>

text \<open>So many objects of each kind have been built.\<close>

definition built :: "nat \<Rightarrow> nat \<Rightarrow> nat \<Rightarrow> nat \<Rightarrow> nat \<Rightarrow> 'z sys_scheme \<Rightarrow> bool" where
  "built r f c to ti s \<longleftrightarrow> tmr_wf s \<and> modes s = (MODE_CLOSE, False, False, MODE_CLOSE) \<and> sAlarm_DO s = 13 \<and>
     length (psModularRoofList s) = r \<and>
     map (\<lambda>f. (eFanFreqType f, sSwitch_DO f)) (psExAirFanList s) = take f (fan_table TYPE_CONSTANT) \<and>
     length (psCO2SenList s) = c \<and> (\<forall>x \<in> set (psCO2SenList s). co2_wf x) \<and>
     length (psTempHumiSenOutList s) = to \<and> (\<forall>x \<in> set (psTempHumiSenOutList s). temp_wf (- 200) 600 x) \<and>
     length (psTempHumiSenInList s) = ti \<and> (\<forall>x \<in> set (psTempHumiSenInList s). temp_wf 0 600 x)"

lemma init_roof_built: "built r f c to ti s \<Longrightarrow> built (Suc r) f c to ti (init_roof r s)"
  by (simp add: built_def init_roof_def vModularRoof_Init_def vModularRoof_InitDefaultData_def Let_def)
    (simp add: xTimerRegist_footprint upd_roof_def)

lemma take_fan_table:
  "f < 4 \<Longrightarrow> take (Suc f) (fan_table TYPE_CONSTANT) = take f (fan_table TYPE_CONSTANT) @ [(CONSTANT_FREQ, of_nat (f + 1))]"
  by (auto simp: fan_table_def numeral_eq_Suc less_Suc_eq)

lemma ExAirFanSet_nth: "f < 4 \<Longrightarrow> info_eFanFreqType (ExAirFanSet ! f) = CONSTANT_FREQ \<and>
    info_ucSwitch_DO (ExAirFanSet ! f) = of_nat (f + 1)"
  by (auto simp: ExAirFanSet_def constant_info_def numeral_eq_Suc less_Suc_eq)

lemma init_fan_built:
  assumes "built r f c to ti s" and "f < 4"
  shows "built r (Suc f) c to ti (init_fan f s)"
proof -
  have "length (map (\<lambda>f. (eFanFreqType f, sSwitch_DO f)) (psExAirFanList s)) = f"
    using assms by (simp add: built_def fan_table_def)
  then have len: "length (psExAirFanList s) = f" by simp
  show ?thesis
    using assms(1) unfolding built_def take_fan_table[OF assms(2)]
    by (simp add: init_fan_def vExAirFan_Init_def Let_def regist_footprints ExAirFanSet_nth[OF assms(2)]
        vExAirFan_RegistDigitalIO_def vExAirFan_RegistAnalogIO_def upd_fan_def len append_last)
      (simp add: xTimerRegist_footprint)
qed

lemma co2_zero_wf: "co2_wf (vCO2Sensor_InitRange (co2_zero\<lparr>sen_ucDevAddr := a, eSensorType := t, ucDevIndex := i\<rparr>))"
  by (simp add: co2_wf_def vCO2Sensor_InitRange_def co2_zero_def Device.defs sum_list_replicate)

lemma temp_zero_wf:
  "temp_wf (- 200) 600 (vTempHumiSensor_InitRange (temp_zero\<lparr>sen_ucDevAddr := a, eSensorType := TYPE_TEMP_HUMI_OUT, ucDevIndex := i\<rparr>))"
  "temp_wf 0 600 (vTempHumiSensor_InitRange (temp_zero\<lparr>sen_ucDevAddr := a, eSensorType := TYPE_TEMP_HUMI_IN, ucDevIndex := i\<rparr>))"
  by (simp_all add: temp_wf_def temp_configured_def vTempHumiSensor_InitRange_def
      temp_zero_def Device.defs sum_list_replicate)

lemma init_sensor_built:
  "built r f c to ti s \<Longrightarrow> built r f (Suc c) to ti (init_co2 c s)"
  "built r f c to ti s \<Longrightarrow> built r f c (Suc to) ti (init_temp_out to s)"
  "built r f c to ti s \<Longrightarrow> built r f c to (Suc ti) (init_temp_in ti s)"
  by (simp_all add: built_def init_co2_def vSensor_Init_CO2_def init_temp_out_def vSensor_Init_Out_def
      init_temp_in_def vSensor_Init_In_def append_last)
    (auto simp: xTimerRegist_footprint co2_zero_wf temp_zero_wf append_last)

lemma system_zero_built: "built 0 0 0 0 0 (vSystem_RegistAlarmIO SYSTEM_ALARM_DO system_zero)"
  by (simp add: built_def vSystem_RegistAlarmIO_def system_zero_def io_zero_def SYSTEM_ALARM_DO_def
      bms_zero_def modes_def tmr_wf_def tmr_zero_def)

lemma Init_built: "built 2 4 3 1 12 (vSystem_Init system_zero)"
proof -
  let ?s1 = "vSystem_RegistAlarmIO SYSTEM_ALARM_DO system_zero"
  let ?s2 = "for_loop 4 init_fan (for_loop 2 init_roof ?s1)"
  let ?s3 = "for_loop 12 init_temp_in (for_loop 1 init_temp_out (for_loop 3 init_co2 ?s2))"
  have "built 2 0 0 0 0 (for_loop 2 init_roof ?s1)"
    using system_zero_built
    by (rule for_loop_induct[of "\<lambda>n. built n 0 0 0 0"]) (rule init_roof_built)
  then have "built 2 4 0 0 0 ?s2"
    by (rule for_loop_induct[of "\<lambda>n. built 2 n 0 0 0"]) (rule init_fan_built)
  then have "built 2 4 3 0 0 (for_loop 3 init_co2 ?s2)"
    by (rule for_loop_induct[of "\<lambda>n. built 2 4 n 0 0"]) (rule init_sensor_built)
  then have "built 2 4 3 1 0 (for_loop 1 init_temp_out (for_loop 3 init_co2 ?s2))"
    by (rule for_loop_induct[of "\<lambda>n. built 2 4 3 n 0"]) (rule init_sensor_built)
  then have "built 2 4 3 1 12 ?s3"
    by (rule for_loop_induct[of "\<lambda>n. built 2 4 3 1 n"]) (rule init_sensor_built)
  moreover have "built 2 4 3 1 12 (vSystem_InitRuntimeTmr (vSystem_InitDefaultData s))" if "built 2 4 3 1 12 s" for s
    using that by (auto simp: built_def vSystem_InitRuntimeTmr_def vSystem_InitDefaultData_def modes_def)
      (auto simp: xTimerRegist_footprint)
  ultimately show ?thesis by (simp add: vSystem_Init_def Let_def)
qed

lemma start_fan_ok: "sys_ok s \<Longrightarrow> sys_ok (start_fan n s)"
  by (erule sys_ok_keeps) (simp_all add: start_fan_def Let_def)

lemma event_task_start_ok:
  assumes "built 2 4 3 1 12 s"
  shows "sys_ok (event_task_start (eeprom_load e s))"
proof -
  let ?s1 = "vBMS_InitDefaultData (eeprom_load e s)"
  have m: "modes_ok ?s1 = modes_ok s"
    by (simp add: vBMS_InitDefaultData_def eeprom_load_def upd_bms_def modes_ok_def)
  have eq: "tmr_wf ?s1 = tmr_wf s" "psExAirFanList ?s1 = psExAirFanList s"
    "psModularRoofList ?s1 = psModularRoofList s" "sAlarm_DO ?s1 = sAlarm_DO s"
    "psCO2SenList ?s1 = psCO2SenList s" "psTempHumiSenOutList ?s1 = psTempHumiSenOutList s"
    "psTempHumiSenInList ?s1 = psTempHumiSenInList s"
    by (simp_all add: vBMS_InitDefaultData_def eeprom_load_def upd_bms_def)
  have tab: "take 4 (fan_table t) = fan_table t" for t by (simp add: fan_table_def)
  have mo: "modes_ok ?s1" unfolding m using assms by (simp add: built_def modes_ok_iff modes_allowed_def)
  have "sys_ok (vSystem_ChangeExAirFanType ty ?s1)" for ty
    using assms mo by (intro ChangeExAirFanType_from)
      (auto simp: built_def eq tab sensors_ok_def)
  then have "sys_ok (vSystem_SetExAirFanFreqRange lo hi (vSystem_ChangeExAirFanType ty ?s1))" for lo hi ty
    by (rule sys_ok_keeps) (simp, simp, rule vSystem_SetExAirFanFreqRange_wf)
  then show ?thesis
    unfolding event_task_start_def Let_def by (rule for_loop_invariant) (rule start_fan_ok)
qed

lemma sys_step_ok: "sys_step s t \<Longrightarrow> sys_ok s \<Longrightarrow> sys_ok t"
proof (induction rule: sys_step.induct)
  case (Timer s k)
  then show ?case by (simp add: OS_TmrTask_one_ok)
next
  case (BMS_write s b)
  then show ?case by (rule sys_okI) (simp_all add: modes_ok_def)
next
  case (CO2_input s i v on)
  then show ?case by (rule sensor_update_ok) (simp add: co2_wf_input)
next
  case (TempOut_input s i t h on)
  then show ?case by (rule sensor_update_ok) (simp add: temp_wf_input)
next
  case (TempIn_input s i t h on)
  then show ?case by (rule sensor_update_ok) (simp add: temp_wf_input)
qed (auto simp: handle_event_ok intro: sys_ok_keeps)

lemma reachable_ok: "reachable s \<Longrightarrow> sys_ok s"
  by (induction rule: reachable.induct) (auto intro: event_task_start_ok Init_built sys_step_ok)

definition boot_state :: sys where
  "boot_state = event_task_start (eeprom_load system_zero (vSystem_Init system_zero))"

definition stack_zero :: stack_values where
  "stack_zero = \<lparr>st_usTotalCO2PPM = 0, st_ucNum = 0, st_usCO2PPM = 0, st_sAmbientIn_T = 0,
     st_usAmbientIn_H = 0\<rparr>"

lemma boot_reachable: "reachable boot_state"
  unfolding boot_state_def by (rule Start)



text \<open>
  C2. In every reachable state the list of the timer task holds each running timer exactly once
  and no other timer, and exactly the created timers have the timer type.
\<close>

theorem timer_list_consistent:
  assumes "reachable s"
  shows "distinct (OSTmrList s) \<and>
    (\<forall>k. k \<in> set (OSTmrList s) \<longleftrightarrow> State (os_tmrs s k) = OS_TMR_STATE_RUNNING) \<and>
    (\<forall>k. TypeIsTmr (os_tmrs s k) \<longleftrightarrow> State (os_tmrs s k) \<noteq> OS_TMR_STATE_UNUSED)"
  using reachable_ok[OF assms] by (simp add: sys_ok_def tmr_wf_def)

theorem timer_list_consistent_witness: "distinct (OSTmrList boot_state)"
  using timer_list_consistent[OF boot_reachable] by simp

text \<open>
  In every reachable state there are four fans on the relays 1 to 4 and the alarm is on
  relay 13; fans 2 to 4 have constant speed, and fan 1 has variable speed exactly if the exhaust
  fan type says so, which is exactly when \<open>pExAirFanVariate\<close> points at it.
\<close>

theorem fan_configuration:
  assumes "reachable s"
  shows "map sSwitch_DO (psExAirFanList s) = [1, 2, 3, 4] \<and> sAlarm_DO s = 13 \<and>
    map eFanFreqType (tl (psExAirFanList s)) = replicate 3 CONSTANT_FREQ \<and>
    (eFanFreqType (fan 0 s) = VARIABLE_FREQ \<longleftrightarrow> eExAirFanType s = TYPE_CONSTANT_VARIABLE) \<and>
    pExAirFanVariate s = (if eExAirFanType s = TYPE_CONSTANT_VARIABLE then Some 0 else None)"
proof -
  have ok: "fans_ok s" using reachable_ok[OF assms] by (simp add: sys_ok_def)
  then obtain a b c d where "psExAirFanList s = [a, b, c, d]"
    by (auto simp: fans_ok_def fan_table_def map_eq_Cons_conv)
  then show ?thesis using ok by (auto simp: fans_ok_def fan_table_def numeral_eq_Suc)
qed

theorem fan_configuration_witness: "map sSwitch_DO (psExAirFanList boot_state) = [1, 2, 3, 4]"
  using fan_configuration[OF boot_reachable] by simp

end
