(* ===== verification/FanProps.thy ===== *)
theory FanProps
  imports Reach
begin

text \<open>
  What the functions of \<open>system/fanctrl.c\<close> achieve: which fans are switched, in which order, to
  which frequency.
\<close>

section \<open>Switching and feedback\<close>

text \<open>What the control functions read of a fan, which switching it does not alter.\<close>

definition feedback :: "ExAirFan \<Rightarrow> eRunningState \<times> bool \<times> bool \<times> eFreqType \<times> u16" where
  "feedback f = (dev_eRunningState f, xExAirFanErr f, xExAirFanRemote f, eFanFreqType f, usRunTime_H f)"

lemma fan_step_feedback:
  assumes "fan_step i op g" and "\<And>f. feedback (g f) = feedback f" and "fan_there i s"
  shows "fan_there j (op s) = fan_there j s" "feedback (fan j (op s)) = feedback (fan j s)"
  using assms by (simp_all add: fan_there_step fan_step_nth)

lemma switch_feedback:
  assumes "fan_there i s"
  shows "fan_there j (vExAirFan_SwitchOpen i s) = fan_there j s"
    "feedback (fan j (vExAirFan_SwitchOpen i s)) = feedback (fan j s)"
    "fan_there j (vExAirFan_SwitchClose i s) = fan_there j s"
    "feedback (fan j (vExAirFan_SwitchClose i s)) = feedback (fan j s)"
    "fan_there j (vExFan_SetFreq i v s) = fan_there j s"
    "feedback (fan j (vExFan_SetFreq i v s)) = feedback (fan j s)"
    "eCtrlCmd (fan j (vExFan_SetFreq i v s)) = eCtrlCmd (fan j s)"
  using fan_step_feedback[OF SwitchOpen_step _ assms] fan_step_feedback[OF SwitchClose_step _ assms]
    fan_step_feedback[OF SetFreq_step _ assms] fan_step_nth[OF SetFreq_step assms]
  by (auto simp: feedback_def fan_open_def fan_close_def fan_set_freq_def)

lemma feedbackD:
  "feedback f = feedback g \<Longrightarrow> dev_eRunningState f = dev_eRunningState g"
  "feedback f = feedback g \<Longrightarrow> xExAirFanErr f = xExAirFanErr g"
  "feedback f = feedback g \<Longrightarrow> xExAirFanRemote f = xExAirFanRemote g"
  "feedback f = feedback g \<Longrightarrow> eFanFreqType f = eFanFreqType g"
  "feedback f = feedback g \<Longrightarrow> usRunTime_H f = usRunTime_H g"
  by (simp_all add: feedback_def)

lemma u8_pred: "(n :: u8) \<noteq> 0 \<Longrightarrow> unat n = Suc (unat (n - 1))"
  using unat_minus_one[of n] unat_gt_0[of n] by simp

text \<open>The opening loop starts the first \<open>n\<close> stopped fans of the list, the closing loop stops the
  first \<open>n\<close> running ones.\<close>

lemma open_loop_fold:
  assumes "\<forall>f \<in> set fs. fan_there f s"
  shows "open_loop n fs s = fold vExAirFan_SwitchOpen
    (take (unat n) (filter (\<lambda>f. dev_eRunningState (fan f s) = STATE_STOP \<and> \<not> xExAirFanErr (fan f s)) fs)) s"
  using assms
proof (induction fs arbitrary: n s)
  case (Cons f fs)
  let ?s' = "vExAirFan_SwitchOpen f s"
  have f: "fan_there f s" using Cons.prems by simp
  note fb = switch_feedback(1,2)[OF f]
  have same: "(dev_eRunningState (fan j ?s') = STATE_STOP \<and> \<not> xExAirFanErr (fan j ?s')) =
      (dev_eRunningState (fan j s) = STATE_STOP \<and> \<not> xExAirFanErr (fan j s))" for j
    using feedbackD(1,2)[OF fb(2)[of j]] by simp
  show ?case
    using Cons.IH[of ?s' "n - 1"] Cons.IH[of s n] Cons.prems
    by (auto simp: same fb word_gt_0 u8_pred)
qed simp

lemma close_loop_fold:
  assumes "\<forall>f \<in> set fs. fan_there f s"
  shows "close_loop 0 n fs s = fold vExAirFan_SwitchClose
    (take (unat n) (filter (\<lambda>f. dev_eRunningState (fan f s) = STATE_RUN) fs)) s"
  using assms
proof (induction fs arbitrary: n s)
  case (Cons f fs)
  let ?s' = "vExAirFan_SwitchClose f s"
  have f: "fan_there f s" using Cons.prems by simp
  note fb = switch_feedback(3,4)[OF f]
  have same: "(dev_eRunningState (fan j ?s') = STATE_RUN) = (dev_eRunningState (fan j s) = STATE_RUN)" for j
    using feedbackD(1)[OF fb(2)[of j]] by simp
  have pos: "uint n > 0 \<longleftrightarrow> n \<noteq> 0" by (metis word_gt_0 word_less_def uint_0_eq)
  show ?case
    using Cons.IH[of ?s' "n - 1"] Cons.IH[of s n] Cons.prems
    by (auto simp: same fb pos u8_pred)
qed simp

lemma u8_le_255: "unat (n :: u8) \<le> 255"
proof -
  have "unat n < 2 ^ LENGTH(8)" by (rule unsigned_less)
  then show ?thesis by simp
qed

lemma AdjustFreq_effect:
  assumes "fan_there 0 s"
  shows "fan_there j (vSystem_AdjustExAirFanFreq v s) = fan_there j s"
    "feedback (fan j (vSystem_AdjustExAirFanFreq v s)) = feedback (fan j s)"
    "eCtrlCmd (fan j (vSystem_AdjustExAirFanFreq v s)) = eCtrlCmd (fan j s)"
  using switch_feedback(5-7)[OF assms]
  by (simp_all add: vSystem_AdjustExAirFanFreq_def Let_def upd_bms_def)

text \<open>The variable-speed fan, if there is one, is on the list and has variable speed.\<close>

definition variate_ok :: "'z sys_scheme \<Rightarrow> bool" where
  "variate_ok s \<longleftrightarrow> length (psExAirFanList s) = EX_AIR_FAN_NUM \<and>
     (\<forall>v. pExAirFanVariate s = Some v \<longrightarrow> v < EX_AIR_FAN_NUM \<and> eFanFreqType (fan v s) = VARIABLE_FREQ)"

lemma variate_helps_effect:
  assumes "variate_ok s"
  shows "fan_there j (variate_helps w n s) = fan_there j s" (is ?there)
    and "feedback (fan j (variate_helps w n s)) = feedback (fan j s)" (is ?fb)
    and "pExAirFanVariate s \<noteq> Some j \<Longrightarrow> eCtrlCmd (fan j (variate_helps w n s)) = eCtrlCmd (fan j s)"
proof -
  have "?there \<and> ?fb \<and> (pExAirFanVariate s \<noteq> Some j \<longrightarrow>
    eCtrlCmd (fan j (variate_helps w n s)) = eCtrlCmd (fan j s))"
  proof (cases "pExAirFanVariate s")
    case None
    then show ?thesis by (simp add: variate_helps_def)
  next
    case (Some v)
    have v: "fan_there v s" "fan_there 0 s" using assms Some by (auto simp: variate_ok_def)
    let ?o = "vExAirFan_SwitchOpen v s"
    let ?a = "vSystem_AdjustExAirFanFreq (usExAirFanMaxFreq s) ?o"
    let ?s1 = "if unat w > n \<and> variate_usable s then ?a else s"
    have o: "fan_there 0 ?o" using switch_feedback(1)[OF v(1)] v(2) by blast
    have a: "fan_there k ?a = fan_there k s" "feedback (fan k ?a) = feedback (fan k s)"
      "k \<noteq> v \<Longrightarrow> eCtrlCmd (fan k ?a) = eCtrlCmd (fan k s)" for k
      using AdjustFreq_effect[OF o] switch_feedback(1,2)[OF v(1)] fan_step_nth[OF SwitchOpen_step v(1)]
      by auto
    have s1: "fan_there k ?s1 = fan_there k s" "feedback (fan k ?s1) = feedback (fan k s)"
      "k \<noteq> v \<Longrightarrow> eCtrlCmd (fan k ?s1) = eCtrlCmd (fan k s)" for k
      using a by auto
    have v1: "fan_there v ?s1" using s1(1) v(1) by blast
    have p: "pExAirFanVariate ?s1 = Some v"
      using Some configD(1)[of ?s1 s] by simp
    have c: "fan_there k (vExAirFan_SwitchClose v ?s1) = fan_there k s"
      "feedback (fan k (vExAirFan_SwitchClose v ?s1)) = feedback (fan k s)"
      "k \<noteq> v \<Longrightarrow> eCtrlCmd (fan k (vExAirFan_SwitchClose v ?s1)) = eCtrlCmd (fan k s)" for k
      using switch_feedback(3,4)[OF v1] s1 fan_step_nth[OF SwitchClose_step v1] by auto
    have "variate_helps w n s = (if unat w \<le> n \<and> \<not> xVariableFanRequest ?s1 \<and>
        eExAirFanType ?s1 = TYPE_CONSTANT_VARIABLE \<and> dev_eRunningState (fan v ?s1) = STATE_RUN
        then vExAirFan_SwitchClose v ?s1 else ?s1)"
      unfolding variate_helps_def Let_def using Some p by simp
    then show ?thesis using s1 c Some by (simp only: option.inject) (auto split: if_splits)
  qed
  then show ?there ?fb "pExAirFanVariate s \<noteq> Some j \<Longrightarrow> eCtrlCmd (fan j (variate_helps w n s)) = eCtrlCmd (fan j s)"
    by blast+
qed

text \<open>Switching leaves the numbers of fans asked for alone.\<close>

lemma switch_numbers [simp]:
  "ucConstantFanRequestNum (vExFan_SetFreq i v s) = ucConstantFanRequestNum s"
  "ucConstantFanRequestNum (vExAirFan_SwitchOpen i s) = ucConstantFanRequestNum s"
  "ucConstantFanRequestNum (vExAirFan_SwitchClose i s) = ucConstantFanRequestNum s"
  "ucConstantFanOpenNum (vExFan_SetFreq i v s) = ucConstantFanOpenNum s"
  "ucConstantFanOpenNum (vExAirFan_SwitchOpen i s) = ucConstantFanOpenNum s"
  "ucConstantFanOpenNum (vExAirFan_SwitchClose i s) = ucConstantFanOpenNum s"
  by (simp_all add: vExFan_SetFreq_def vExAirFan_SwitchOpen_def vExAirFan_SwitchClose_def
      upd_fan_def Let_def out_frame)

lemma variate_numbers [simp]:
  "ucConstantFanRequestNum (variate_helps w n s) = ucConstantFanRequestNum s"
  "ucConstantFanOpenNum (variate_helps w n s) = ucConstantFanOpenNum s"
  by (simp_all add: variate_helps_def vSystem_AdjustExAirFanFreq_def upd_bms_def Let_def split: option.split)

lemma constant_fans_props:
  "set (constant_fans s) = {i. i < EX_AIR_FAN_NUM \<and> eFanFreqType (fan i s) = CONSTANT_FREQ \<and> fan_ready (fan i s)}"
  "distinct (constant_fans s)" "length (constant_fans s) \<le> EX_AIR_FAN_NUM"
  using length_filter_upt_le by (auto simp: constant_fans_def)

lemma fans_ok_fan:
  assumes "fans_ok s" and "i < EX_AIR_FAN_NUM"
  shows "eFanFreqType (fan i s) = (if i = 0 \<and> eExAirFanType s = TYPE_CONSTANT_VARIABLE then VARIABLE_FREQ else CONSTANT_FREQ)"
    and "sSwitch_DO (fan i s) = of_nat (i + 1)" and "fan_there i s"
proof -
  have tab: "map (\<lambda>f. (eFanFreqType f, sSwitch_DO f)) (psExAirFanList s) = fan_table (eExAirFanType s)"
    using assms(1) by (simp add: fans_ok_def)
  have len: "length (psExAirFanList s) = 4" using arg_cong[OF tab, of length] by (simp add: fan_table_def)
  then show "fan_there i s" using assms(2) by simp
  have "(eFanFreqType (fan i s), sSwitch_DO (fan i s)) = fan_table (eExAirFanType s) ! i"
    using arg_cong[OF tab, of "\<lambda>l. l ! i"] len assms(2) by simp
  then show "eFanFreqType (fan i s) = (if i = 0 \<and> eExAirFanType s = TYPE_CONSTANT_VARIABLE then VARIABLE_FREQ else CONSTANT_FREQ)"
    "sSwitch_DO (fan i s) = of_nat (i + 1)"
    using assms(2) by (auto simp: fan_table_def numeral_eq_Suc less_Suc_eq)
qed

lemma fans_ok_variate: "fans_ok s \<Longrightarrow> variate_ok s"
  using fans_ok_fan(1,3)[of s] fans_ok_fan(3)[of s 3]
  by (auto simp: variate_ok_def fans_ok_def fan_table_def dest: map_eq_imp_length_eq split: if_splits)

text \<open>
  The specification: of the usable constant-speed fans in the order of their running time, the
  first stopped ones are to be started, the last running ones to be stopped.
\<close>

definition fans_by_time :: "eRunningState \<Rightarrow> 'z sys_scheme \<Rightarrow> nat list" where
  "fans_by_time st s = filter (\<lambda>i. dev_eRunningState (fan i s) = st) (sort_key (run_hours s) (constant_fans s))"

definition fans_to_start :: "'z sys_scheme \<Rightarrow> nat list" where
  "fans_to_start s = take (unat (ucConstantFanRequestNum s) - length (fans_by_time STATE_RUN s))
     (fans_by_time STATE_STOP s)"

definition fans_to_stop :: "'z sys_scheme \<Rightarrow> nat list" where
  "fans_to_stop s = take (length (fans_by_time STATE_RUN s) - unat (ucConstantFanRequestNum s))
     (rev (fans_by_time STATE_RUN s))"

lemma ConstantSwitch_commands:
  assumes "\<not> manual_or_closed s" and "fans_ok s" and "j < EX_AIR_FAN_NUM"
  shows "eCtrlCmd (fan j (vSystem_ExAirFanConstantSwitch s)) =
    (if j \<in> set (fans_to_start s) then ON
     else if j \<in> set (fans_to_stop s) then OFF
     else eCtrlCmd (fan j (variate_helps (ucConstantFanRequestNum s) (length (constant_fans s)) s)))"
proof -
  have vo: "variate_ok s" using assms(2) by (rule fans_ok_variate)
  define l where "l = sort_key (run_hours s) (constant_fans s)"
  define running where "running = filter (\<lambda>i. dev_eRunningState (fan i s) = STATE_RUN) l"
  define stopped where "stopped = filter (\<lambda>i. dev_eRunningState (fan i s) = STATE_STOP) l"
  define wanted where "wanted = unat (ucConstantFanRequestNum s)"
  define s1 where "s1 = variate_helps (ucConstantFanRequestNum s) (length l) s"
  have l: "set l = {i. i < EX_AIR_FAN_NUM \<and> eFanFreqType (fan i s) = CONSTANT_FREQ \<and> fan_ready (fan i s)}"
    "length l \<le> 4"
    using constant_fans_props[of s] by (simp_all add: l_def)
  have fb: "fan_there i s1 = fan_there i s" "feedback (fan i s1) = feedback (fan i s)" for i
    using variate_helps_effect(1,2)[OF vo] by (simp_all add: s1_def)
  have there: "\<forall>f \<in> set l. fan_there f s1" using l fb vo by (auto simp: variate_ok_def)
  have run: "running_count s l = length running" by (simp add: running_count_def running_def)
  have le: "length running \<le> 4" unfolding running_def by (rule le_trans[OF length_filter_le l(2)])
  have flt: "filter (\<lambda>f. dev_eRunningState (fan f s1) = STATE_RUN) (rev l) = rev running"
    "filter (\<lambda>f. dev_eRunningState (fan f s1) = STATE_STOP \<and> \<not> xExAirFanErr (fan f s1)) l = stopped"
    using l(1) by (auto simp: running_def stopped_def rev_filter feedbackD[OF fb(2)] intro: filter_cong)
  have u: "unat (of_nat m :: u8) = m" if "m \<le> 255" for m
    using that by (simp add: unat_of_nat take_bit_nat_eq_self)
  have w: "wanted \<le> 255" using u8_le_255[of "ucConstantFanRequestNum s"] by (simp add: wanted_def)
  let ?closed = "fold vExAirFan_SwitchClose (take (length running - wanted) (rev running)) s1"
  let ?opened = "fold vExAirFan_SwitchOpen (take (wanted - length running) stopped) s1"
  have closed: "close_loop 0 (of_nat (length running - wanted)) (rev l) s1 = ?closed"
    using close_loop_fold[of "rev l" s1 "of_nat (length running - wanted)"] there le
    by (simp add: flt u)
  have opened: "open_loop (of_nat (wanted - length running)) l s1 = ?opened"
    using open_loop_fold[OF there, of "of_nat (wanted - length running)"] w by (simp add: flt u)
  have eq: "fan i (vSystem_ExAirFanConstantSwitch s) = fan i (if wanted < length running then ?closed
      else if length running < wanted then ?opened else s1)" for i
    using assms(1) closed opened run
    by (simp add: vSystem_ExAirFanConstantSwitch_def bubble_sort_sort_key Let_def wanted_def
        flip: l_def s1_def del: of_nat_diff)
  have ready: "fan_ready (fan i s1)" if "i \<in> set l" for i
    using l(1) that feedbackD[OF fb(2)[of i]] by auto
  have sub: "set (take n (rev running)) \<subseteq> set l" "set (take n stopped) \<subseteq> set l" for n
    using set_take_subset[of n] by (force simp: running_def stopped_def)+
  have ON: "eCtrlCmd (fan j (if wanted < length running then ?closed
      else if length running < wanted then ?opened else s1)) = ON \<longleftrightarrow>
      (if j \<in> set (take (wanted - length running) stopped) then True
       else if j \<in> set (take (length running - wanted) (rev running)) then False
       else eCtrlCmd (fan j s1) = ON)"
    using fan_switch.fold_close[of "take (length running - wanted) (rev running)" s1]
      fan_switch.fold_open[of "take (wanted - length running) stopped" s1] there ready sub
    by (auto simp: subset_iff)
  have cmd: "(a = ON) = (b = ON) \<Longrightarrow> a = b" for a b by (cases a; cases b) auto
  show ?thesis
    unfolding fans_to_start_def fans_to_stop_def fans_by_time_def Let_def
      l_def[symmetric] running_def[symmetric] stopped_def[symmetric] wanted_def[symmetric]
    using ON by (intro cmd) (auto simp: eq s1_def[unfolded l_def length_sort])
qed

lemma ConstantSwitch_constant:
  assumes "\<not> manual_or_closed s" and "fans_ok s" and "j < EX_AIR_FAN_NUM"
    and "eFanFreqType (fan j s) = CONSTANT_FREQ"
  shows "eCtrlCmd (fan j (vSystem_ExAirFanConstantSwitch s)) =
    (if j \<in> set (fans_to_start s) then ON
     else if j \<in> set (fans_to_stop s) then OFF else eCtrlCmd (fan j s))"
proof -
  have vo: "variate_ok s" using assms(2) by (rule fans_ok_variate)
  then have "pExAirFanVariate s \<noteq> Some j" using assms(4) by (auto simp: variate_ok_def)
  then show ?thesis
    by (simp add: ConstantSwitch_commands[OF assms(1-3)] variate_helps_effect(3)[OF vo])
qed

text \<open>
  C7. Outside manual and closed mode, when fewer constant-speed fans run than are asked for, the
  stopped healthy remote ones with the least running time are started to make up the number;
  when more run, the running ones with the most running time are stopped; no other constant-speed
  fan is touched.
\<close>

theorem constant_fans_switched_by_running_time:
  assumes "\<not> manual_or_closed s" and "fans_ok s" and "j < EX_AIR_FAN_NUM"
    and "eFanFreqType (fan j s) = CONSTANT_FREQ"
  shows "let by_time = sort_key (run_hours s) (constant_fans s);
      running = filter (\<lambda>i. dev_eRunningState (fan i s) = STATE_RUN) by_time;
      stopped = filter (\<lambda>i. dev_eRunningState (fan i s) = STATE_STOP) by_time;
      wanted = unat (ucConstantFanRequestNum s)
    in eCtrlCmd (fan j (vSystem_ExAirFanConstantSwitch s)) =
      (if j \<in> set (take (wanted - length running) stopped) then ON
       else if j \<in> set (take (length running - wanted) (rev running)) then OFF
       else eCtrlCmd (fan j s))"
  using ConstantSwitch_constant[OF assms]
  by (simp add: fans_to_start_def fans_to_stop_def fans_by_time_def Let_def)

text \<open>Four stopped constant-speed fans in automatic mode, run for 30, 10, 20 and 40 hours, two wanted.\<close>

definition fan_after :: "u16 \<Rightarrow> u8 \<Rightarrow> ExAirFan" where
  "fan_after h ch = fan_zero\<lparr>eFanFreqType := CONSTANT_FREQ, dev_eRunningState := STATE_STOP,
     usRunTime_H := h, sSwitch_DO := ch, xExAirFanRemote := True, eCtrlCmd := OFF\<rparr>"

definition fans_example :: sys where
  "fans_example = system_zero\<lparr>eSystemMode := MODE_AUTO, sAlarm_DO := 13, ucConstantFanRequestNum := 2,
     psModularRoofList := [roof_zero, roof_zero],
     psExAirFanList := [fan_after 30 1, fan_after 10 2, fan_after 20 3, fan_after 40 4]\<rparr>"

lemma fan_after_simps [simp]:
  "eFanFreqType (fan_after h ch) = CONSTANT_FREQ" "dev_eRunningState (fan_after h ch) = STATE_STOP"
  "usRunTime_H (fan_after h ch) = h" "sSwitch_DO (fan_after h ch) = ch" "fan_ready (fan_after h ch)"
  "eCtrlCmd (fan_after h ch) = OFF"
  by (simp_all add: fan_after_def fan_zero_def)

lemma fans_example_simps [simp]:
  "fans_ok fans_example" "\<not> manual_or_closed fans_example"
  "psExAirFanList fans_example = [fan_after 30 1, fan_after 10 2, fan_after 20 3, fan_after 40 4]"
  "ucConstantFanRequestNum fans_example = 2"
  by (simp_all add: fans_example_def fans_ok_def fan_table_def system_zero_def io_zero_def manual_or_closed_def)

lemma fans_example_order: "sort_key (run_hours fans_example) (constant_fans fans_example) = [1, 2, 0, 3]"
  by (simp add: constant_fans_def run_hours_def upt_rec)

theorem constant_fans_switched_by_running_time_witness:
  "eCtrlCmd (fan 2 (vSystem_ExAirFanConstantSwitch fans_example)) = ON \<and>
   eCtrlCmd (fan 3 (vSystem_ExAirFanConstantSwitch fans_example)) = OFF"
  using constant_fans_switched_by_running_time[of fans_example 2]
    constant_fans_switched_by_running_time[of fans_example 3]
  unfolding Let_def fans_example_order by simp

end
