(* ===== verification/FanDemand.thy ===== *)
theory FanDemand
  imports FanProps
begin

text \<open>
  How much exhaust air is asked for and what it makes the fans do: closing, demand, frequency,
  the request timer, the reaction to a high CO2 concentration.
\<close>

section \<open>Stopping\<close>

lemma close_loop_relays:
  assumes "fan_channels_ok s" and "\<And>i. i < n \<Longrightarrow> fan_there i s"
  shows "psExAirFanList (for_loop n vExAirFan_SwitchClose s) =
      map (\<lambda>i. if i < n then fan_close (fan i s) else fan i s) [0..<length (psExAirFanList s)]"
    and "DO_channel ch \<Longrightarrow> DO_on ch (for_loop n vExAirFan_SwitchClose s) \<longleftrightarrow>
      DO_on ch s \<and> (\<forall>i < n. ch \<noteq> sSwitch_DO (fan i s))"
proof -
  have "psExAirFanList (for_loop n vExAirFan_SwitchClose s) =
      map (\<lambda>i. if i < n then fan_close (fan i s) else fan i s) [0..<length (psExAirFanList s)] \<and>
    (\<forall>ch. DO_channel ch \<longrightarrow> DO_on ch (for_loop n vExAirFan_SwitchClose s) \<longleftrightarrow>
      DO_on ch s \<and> (\<forall>i < n. ch \<noteq> sSwitch_DO (fan i s)))"
    using assms(2)
  proof (induction n)
    case 0
    show ?case by (simp add: map_nth)
  next
    case (Suc n)
    let ?t = "for_loop n vExAirFan_SwitchClose s"
    have IH: "psExAirFanList ?t = map (\<lambda>i. if i < n then fan_close (fan i s) else fan i s)
        [0..<length (psExAirFanList s)]"
      "\<And>ch. DO_channel ch \<Longrightarrow> DO_on ch ?t \<longleftrightarrow> DO_on ch s \<and> (\<forall>i < n. ch \<noteq> sSwitch_DO (fan i s))"
      using Suc by auto
    have n: "fan_there n s" using Suc.prems by simp
    then have nt: "fan_there n ?t" "fan n ?t = fan n s" by (simp_all add: IH(1))
    have ch: "DO_channel (sSwitch_DO (fan n ?t))"
      using fan_channels_okD(1)[OF assms(1) n] nt(2) by simp
    have l: "psExAirFanList (vExAirFan_SwitchClose n ?t) = (psExAirFanList ?t)[n := fan_close (fan n s)]"
      using fan_step_list[OF SwitchClose_step nt(1)] nt(2) by simp
    have "psExAirFanList (for_loop (Suc n) vExAirFan_SwitchClose s) =
        map (\<lambda>i. if i < Suc n then fan_close (fan i s) else fan i s) [0..<length (psExAirFanList s)]"
      unfolding for_loop_Suc l IH(1)
      by (rule nth_equalityI) (simp_all add: nth_list_update less_Suc_eq)
    moreover have "DO_on ch (for_loop (Suc n) vExAirFan_SwitchClose s) \<longleftrightarrow>
        DO_on ch s \<and> (\<forall>i < Suc n. ch \<noteq> sSwitch_DO (fan i s))" if "DO_channel ch" for ch
      unfolding for_loop_Suc DO_on_SwitchClose[OF that ch] IH(2)[OF that] nt(2)
      by (auto simp: less_Suc_eq)
    ultimately show ?case by blast
  qed
  then show "psExAirFanList (for_loop n vExAirFan_SwitchClose s) =
      map (\<lambda>i. if i < n then fan_close (fan i s) else fan i s) [0..<length (psExAirFanList s)]"
    "DO_channel ch \<Longrightarrow> DO_on ch (for_loop n vExAirFan_SwitchClose s) \<longleftrightarrow>
      DO_on ch s \<and> (\<forall>i < n. ch \<noteq> sSwitch_DO (fan i s))"
    by auto
qed

lemma less_four: "i < EX_AIR_FAN_NUM \<Longrightarrow> i = 0 \<or> i = 1 \<or> i = 2 \<or> i = 3"
  by auto

lemma fans_ok_channels: "fans_ok s \<Longrightarrow> fan_channels_ok s"
proof -
  assume "fans_ok s"
  then have tab: "map (\<lambda>f. (eFanFreqType f, sSwitch_DO f)) (psExAirFanList s) = fan_table (eExAirFanType s)"
    by (simp add: fans_ok_def)
  have "map snd (map (\<lambda>f. (eFanFreqType f, sSwitch_DO f)) (psExAirFanList s)) = [1, 2, 3, 4]"
    unfolding tab by (simp add: fan_table_def)
  then have "map sSwitch_DO (psExAirFanList s) = [1, 2, 3, 4]" by (simp add: comp_def)
  then have "distinct (map sSwitch_DO (psExAirFanList s))" "set (map sSwitch_DO (psExAirFanList s)) = {1, 2, 3, 4}"
    by auto
  moreover from this(2) have "sSwitch_DO f \<in> {1, 2, 3, 4}" if "f \<in> set (psExAirFanList s)" for f
    using that by (metis image_eqI list.set_map)
  ultimately show ?thesis by (force simp: fan_channels_ok_def)
qed

text \<open>The example with 60000 volumes of fresh air, a ratio of 90 percent and CO2 above the limit.\<close>

definition demand_example :: sys where
  "demand_example = fans_example\<lparr>ulFreAirSet_Vol := 60000, ucExAirCoolRatio := 90,
     ulExAirFanRated_Vol := 36000, usExAirFanCtrlPeriod := 1800, usExAirFanRunTimeLeast := 300,
     usCO2PPM := 3000, usCO2AdjustThr_V := 2700, usCO2AdjustDeviat := 270\<rparr>"

lemma fans_ok_settings [simp]:
  "fans_ok (ulFreAirSet_Vol_update f1 s) = fans_ok s" "fans_ok (ucExAirCoolRatio_update f2 s) = fans_ok s"
  "fans_ok (ulExAirFanRated_Vol_update f3 s) = fans_ok s" "fans_ok (usExAirFanCtrlPeriod_update f4 s) = fans_ok s"
  "fans_ok (usExAirFanRunTimeLeast_update f5 s) = fans_ok s" "fans_ok (usCO2PPM_update f6 s) = fans_ok s"
  "fans_ok (usCO2AdjustThr_V_update f7 s) = fans_ok s" "fans_ok (usCO2AdjustDeviat_update f8 s) = fans_ok s"
  "fans_ok (usExAirFanMaxFreq_update f9 s) = fans_ok s"
  by (simp_all add: fans_ok_def)

lemma demand_example_simps [simp]:
  "fans_ok demand_example" "tmr_wf demand_example" "constant_only demand_example"
  "auto_or_emergency demand_example"
  "psExAirFanList demand_example = [fan_after 30 1, fan_after 10 2, fan_after 20 3, fan_after 40 4]"
  "ulExAirFanRated_Vol demand_example = 36000" "usExAirFanCtrlPeriod demand_example = 1800"
  "usExAirFanRunTimeLeast demand_example = 300" "usCO2PPM demand_example = 3000"
  "usCO2AdjustThr_V demand_example = 2700" "usCO2AdjustDeviat demand_example = 270"
  by (simp_all add: demand_example_def constant_only_def auto_or_emergency_def)
    (simp_all add: fans_example_def system_zero_def io_zero_def tmr_wf_def tmr_zero_def)

text \<open>
  Closing the exhaust fans commands all of them off, releases their relays, stops both
  timers of the fan control, and leaves the alarm relay alone.
\<close>

theorem all_fans_closed:
  assumes "fans_ok s" and "tmr_wf s"
  shows "(\<forall>i < EX_AIR_FAN_NUM. eCtrlCmd (fan i (vSystem_CloseExAirFans s)) = OFF \<and>
      \<not> DO_on (sSwitch_DO (fan i s)) (vSystem_CloseExAirFans s)) \<and>
    \<not> tmr_running sExAirFanCtrlTmr (vSystem_CloseExAirFans s) \<and>
    \<not> tmr_running sExAirFanRequestTimeTmr (vSystem_CloseExAirFans s) \<and>
    (DO_on 13 (vSystem_CloseExAirFans s) \<longleftrightarrow> DO_on 13 s)"
proof -
  let ?t = "for_loop EX_AIR_FAN_NUM vExAirFan_SwitchClose s"
  have len: "length (psExAirFanList s) = EX_AIR_FAN_NUM"
    using fans_ok_variate[OF assms(1)] by (simp add: variate_ok_def)
  note loop = close_loop_relays[OF fans_ok_channels[OF assms(1)], of EX_AIR_FAN_NUM]
  have wf: "tmr_wf ?t" using assms(2) by (simp add: for_loop_invariant)
  have eq: "fan i (vSystem_CloseExAirFans s) = fan i ?t"
    "DO_on ch (vSystem_CloseExAirFans s) = DO_on ch ?t" for i ch
    by (simp_all add: vSystem_CloseExAirFans_def xTmrStop_footprint DO_on_def)
  have ch: "DO_channel (sSwitch_DO (fan i s))" "sSwitch_DO (fan i s) \<noteq> 13" if "i < EX_AIR_FAN_NUM" for i
    using fans_ok_fan(2)[OF assms(1) that] less_four[OF that] by auto
  have "\<not> tmr_running sExAirFanCtrlTmr (vSystem_CloseExAirFans s)"
    "\<not> tmr_running sExAirFanRequestTimeTmr (vSystem_CloseExAirFans s)"
    using md_timer.running_stop[OF md_timer.stop_wf[OF wf]] md_timer.running_stop[OF wf]
    by (simp_all add: vSystem_CloseExAirFans_def flip: stop_tmr_def)
  then show ?thesis
    using loop ch len by (auto simp: eq fan_close_def)
qed

theorem all_fans_closed_witness:
  "eCtrlCmd (fan 3 (vSystem_CloseExAirFans demand_example)) = OFF"
  using all_fans_closed[of demand_example] by simp

section \<open>Demand\<close>

lemma u32_mult: "unat a * unat b < 2 ^ 32 \<Longrightarrow> unat ((a :: u32) * b) = unat a * unat b"
  by (simp add: unat_mult_lem[THEN iffD1])

lemma unat_ucast_16_32: "unat (ucast (x :: u16) :: u32) = unat x"
  using unsigned_less[of x, where 'a = nat] by (simp add: unsigned_ucast_eq take_bit_nat_eq_self)

lemma ConstantFanOpenNum_eq:
  assumes "0 < rated" and "unat rated * 3 < 2 ^ 32"
  shows "unat (ConstantFanOpenNum req rated n) = min 3 (unat req div unat rated)"
proof -
  let ?q = "unat req" and ?r = "unat rated"
  have r: "0 < ?r" using assms(1) by (simp add: unat_gt_0 word_neq_0_conv)
  have m: "unat (rated * 2) = ?r * 2" "unat (rated * 3) = ?r * 3"
    using u32_mult[of rated 2] u32_mult[of rated 3] assms(2) by simp_all
  have lt: "?q < ?r * k \<longleftrightarrow> ?q div ?r < k" for k using r by (simp add: div_less_iff_less_mult mult.commute)
  have "unat (ConstantFanOpenNum req rated n) =
      (if ?r * 3 \<le> ?q then 3 else if ?r * 2 \<le> ?q then 2 else if ?r \<le> ?q then 1 else 0)"
    by (auto simp: ConstantFanOpenNum_def Let_def word_le_nat_alt word_less_nat_alt m)
  moreover have "?r \<le> ?q \<longleftrightarrow> 1 \<le> ?q div ?r" using lt[of 1] by linarith
  moreover have "?r * 2 \<le> ?q \<longleftrightarrow> 2 \<le> ?q div ?r" using lt[of 2] by linarith
  moreover have "?r * 3 \<le> ?q \<longleftrightarrow> 3 \<le> ?q div ?r" using lt[of 3] by linarith
  ultimately show ?thesis by auto
qed



section \<open>Frequency\<close>

text \<open>
  C10. Whatever frequency the demand gives, the system sets it to the nearest value of its range,
  shows the same value to the supervisor, hands it to the healthy variable-speed fan, which clamps
  it to its own range, and touches no other fan.
\<close>

theorem exhaust_frequency_bounded:
  assumes "fans_ok s" and "eExAirFanType s = TYPE_CONSTANT_VARIABLE"
    and "usExAirFanMinFreq s \<le> usExAirFanMaxFreq s"
  shows "let t = vSystem_AdjustExAirFanFreq v s; freq = max (usExAirFanMinFreq s) (min v (usExAirFanMaxFreq s))
    in usExAirFanFreq t = freq \<and> bms_usExAirFanFreq (psBMS t) = freq \<and>
      usExAirFanMinFreq s \<le> freq \<and> freq \<le> usExAirFanMaxFreq s \<and>
      (\<not> xExAirFanErr (fan 0 s) \<longrightarrow> usSetFreq (fan 0 t) = clamp_freq freq (fan 0 s)) \<and>
      (\<forall>i. 0 < i \<longrightarrow> fan i t = fan i s)"
proof -
  have f0: "fan_there 0 s" "eFanFreqType (fan 0 s) = VARIABLE_FREQ"
    using fans_ok_fan[OF assms(1), of 0] assms(2) by simp_all
  have freq: "max (usExAirFanMinFreq s) (min v (usExAirFanMaxFreq s)) =
      (let f1 = (if v < usExAirFanMinFreq s then usExAirFanMinFreq s else v)
       in if usExAirFanMaxFreq s < f1 then usExAirFanMaxFreq s else f1)"
    using assms(3) by (auto simp: max_def min_def Let_def)
  show ?thesis
    unfolding Let_def freq vSystem_AdjustExAirFanFreq_def
    using assms(2,3) f0 fan_step_nth[OF SetFreq_step f0(1)]
    by (auto simp: upd_bms_def fan_set_freq_def)
qed

text \<open>The example with a variable-speed fan.\<close>

definition variable_example :: sys where
  "variable_example = fans_example\<lparr>eExAirFanType := TYPE_CONSTANT_VARIABLE, pExAirFanVariate := Some 0,
     usExAirFanMaxFreq := 500,
     psExAirFanList := [(fan_after 30 1)\<lparr>eFanFreqType := VARIABLE_FREQ, usMaxFreq := 400\<rparr>,
       fan_after 10 2, fan_after 20 3, fan_after 40 4]\<rparr>"

theorem exhaust_frequency_bounded_witness:
  "usSetFreq (fan 0 (vSystem_AdjustExAirFanFreq 450 variable_example)) = 400"
proof -
  have "fans_ok variable_example" "\<not> xExAirFanErr (fan 0 variable_example)"
    by (simp_all add: variable_example_def fans_ok_def fan_table_def fans_example_def system_zero_def
        io_zero_def fan_after_def fan_zero_def)
  then show ?thesis
    using exhaust_frequency_bounded[of variable_example 450]
    by (simp add: Let_def variable_example_def fans_example_def system_zero_def io_zero_def
        clamp_freq_def fan_after_def fan_zero_def)
qed

section \<open>The fan with the longest running time\<close>

lemma pick_loop:
  fixes key :: "nat \<Rightarrow> 'k::linorder"
  assumes "l \<noteq> []"
  shows "for_loop (length l) (\<lambda>n p. if key p < key (l ! n) then l ! n else p) (l ! 0) \<in> set l \<and>
    (\<forall>x \<in> set l. key x \<le> key (for_loop (length l) (\<lambda>n p. if key p < key (l ! n) then l ! n else p) (l ! 0)))"
proof -
  let ?p = "\<lambda>m. for_loop m (\<lambda>n p. if key p < key (l ! n) then l ! n else p) (l ! 0)"
  have "m \<le> length l \<Longrightarrow> ?p m \<in> set l \<and> (\<forall>k < m. key (l ! k) \<le> key (?p m))" for m
  proof (induction m)
    case 0
    then show ?case using assms by simp
  next
    case (Suc m)
    then show ?case by (auto simp: for_loop_Suc less_Suc_eq intro: less_imp_le order_trans[OF _ less_imp_le])
  qed
  from this[of "length l"] show ?thesis by (auto simp: in_set_conv_nth)
qed

definition runs_constant :: "'z fan_sys_scheme \<Rightarrow> nat \<Rightarrow> bool" where
  "runs_constant s i \<longleftrightarrow> i < EX_AIR_FAN_NUM \<and> eFanFreqType (fan i s) = CONSTANT_FREQ \<and>
     dev_eRunningState (fan i s) = STATE_RUN"

lemma LongestExAirFan_spec:
  "psSystem_LongestExAirFan s = None \<Longrightarrow> \<not> runs_constant s i"
  "psSystem_LongestExAirFan s = Some f \<Longrightarrow> runs_constant s f"
  "psSystem_LongestExAirFan s = Some f \<Longrightarrow> runs_constant s i \<Longrightarrow> run_hours s i \<le> run_hours s f"
proof -
  define l where "l = filter (\<lambda>n. eFanFreqType (fan n s) = CONSTANT_FREQ \<and>
             dev_eRunningState (fan n s) = STATE_RUN) [0..<EX_AIR_FAN_NUM]"
  have set: "i \<in> set l \<longleftrightarrow> runs_constant s i" for i
    by (auto simp: l_def runs_constant_def)
  have eq: "psSystem_LongestExAirFan s = (if 1 \<le> length l then
      Some (for_loop (length l) (\<lambda>n p. if run_hours s p < run_hours s (l ! n) then l ! n else p) (l ! 0)) else None)"
    unfolding psSystem_LongestExAirFan_def Let_def l_def[symmetric] by (rule refl)
  show "psSystem_LongestExAirFan s = None \<Longrightarrow> \<not> runs_constant s i"
    using set[of i] unfolding eq by (cases l) (auto split: if_splits)
  show "psSystem_LongestExAirFan s = Some f \<Longrightarrow> runs_constant s f"
    "psSystem_LongestExAirFan s = Some f \<Longrightarrow> runs_constant s i \<Longrightarrow> run_hours s i \<le> run_hours s f"
    using pick_loop[of l "run_hours s"] unfolding eq set[symmetric] by (cases "l = []"; force split: if_splits)+
qed

text \<open>
  When the request time of the extra fan is over, and only constant-speed fans are driven, the
  running one with the longest running time is stopped and nothing else happens; when none runs
  the state does not change.
\<close>

theorem request_time_stops_longest:
  assumes "auto_or_emergency s" and "constant_only s"
  shows "case psSystem_LongestExAirFan s of
      None \<Rightarrow> vSystem_ExAirFanRequestTimeTmrCallback s = s \<and> (\<forall>i. \<not> runs_constant s i)
    | Some f \<Rightarrow> vSystem_ExAirFanRequestTimeTmrCallback s = vExAirFan_SwitchClose f s \<and>
        runs_constant s f \<and> (\<forall>i. runs_constant s i \<longrightarrow> run_hours s i \<le> run_hours s f)"
proof -
  have "\<not> variate_usable s"
    using assms(2) by (auto simp: constant_only_def variate_usable_def split: option.splits)
  then show ?thesis
    using LongestExAirFan_spec[of s] assms
    by (simp add: vSystem_ExAirFanRequestTimeTmrCallback_def Let_def split: option.split)
qed

theorem request_time_stops_longest_witness:
  "vSystem_ExAirFanRequestTimeTmrCallback demand_example = demand_example"
proof -
  have "\<not> runs_constant demand_example i" for i
    using less_four[of i] by (auto simp: runs_constant_def numeral_eq_Suc)
  then have "psSystem_LongestExAirFan demand_example = None"
    using LongestExAirFan_spec(2)[of demand_example] by (cases "psSystem_LongestExAirFan demand_example") auto
  then show ?thesis using request_time_stops_longest[of demand_example] by simp
qed

section \<open>High CO2\<close>

definition same_feedback :: "'z fan_sys_scheme \<Rightarrow> 'z fan_sys_scheme \<Rightarrow> bool" where
  "same_feedback s t \<longleftrightarrow> (\<forall>k. fan_there k t = fan_there k s \<and> feedback (fan k t) = feedback (fan k s))"

lemma same_feedback_refl [simp]: "same_feedback s s"
  by (simp add: same_feedback_def)

lemma same_feedback_trans: "same_feedback s t \<Longrightarrow> same_feedback t u \<Longrightarrow> same_feedback s u"
  by (simp add: same_feedback_def)

lemma same_feedback_switch:
  "fan_there i s \<Longrightarrow> same_feedback s (vExAirFan_SwitchOpen i s)"
  "fan_there i s \<Longrightarrow> same_feedback s (vExAirFan_SwitchClose i s)"
  by (simp_all add: same_feedback_def switch_feedback(1-4))

lemma same_feedback_loops:
  "\<forall>f \<in> set fs. fan_there f s \<Longrightarrow> same_feedback s (close_loop thr n fs s)"
  "\<forall>f \<in> set fs. fan_there f s \<Longrightarrow> same_feedback s (open_loop n fs s)"
proof (induction fs arbitrary: n s)
  case (Cons f fs)
  {
    case 1
    then show ?case
      using Cons.IH(1) switch_feedback(3)[of f s] same_feedback_trans[OF same_feedback_switch(2)[of f s]] by auto
  next
    case 2
    then show ?case
      using Cons.IH(2) switch_feedback(1)[of f s] same_feedback_trans[OF same_feedback_switch(1)[of f s]] by auto
  }
qed simp_all

lemma ConstantSwitch_feedback:
  assumes "fans_ok s"
  shows "same_feedback s (vSystem_ExAirFanConstantSwitch s)"
proof -
  let ?l = "sort_key (run_hours s) (constant_fans s)"
  let ?h = "\<lambda>w. variate_helps w (length ?l) s"
  have l: "\<forall>f \<in> set ?l. fan_there f s"
    using fans_ok_variate[OF assms] by (auto simp: constant_fans_def variate_ok_def)
  have h: "same_feedback s (?h w)" for w
    using variate_helps_effect[OF fans_ok_variate[OF assms]] by (simp add: same_feedback_def)
  then have lh: "\<forall>f \<in> set ?l. fan_there f (?h w)" for w using l by (simp add: same_feedback_def)
  have c: "same_feedback s (close_loop 0 n (rev ?l) (?h w))" for n w
    using same_feedback_trans[OF h same_feedback_loops(1)] lh by simp
  then have lc: "\<forall>f \<in> set ?l. fan_there f (close_loop 0 n (rev ?l) (?h w))" for n w
    using l by (simp add: same_feedback_def)
  have "same_feedback s (open_loop m ?l (close_loop 0 n (rev ?l) (?h w)))" for m n w
    using same_feedback_trans[OF c same_feedback_loops(2)[OF lc]] .
  moreover have "same_feedback s (open_loop m ?l (?h w))" for m w
    using same_feedback_trans[OF h same_feedback_loops(2)[OF lh]] .
  moreover have "same_feedback s (t\<lparr>g_ucConstantFanRequestNum := x\<rparr>) = same_feedback s t" for t x
    by (simp add: same_feedback_def)
  ultimately show ?thesis
    using c h by (simp add: vSystem_ExAirFanConstantSwitch_def Let_def bubble_sort_sort_key del: of_nat_diff)
qed

lemma ConstantSwitch_starts_all:
  assumes "\<not> manual_or_closed s" and "fans_ok s" and "j < EX_AIR_FAN_NUM"
    and "eFanFreqType (fan j s) = CONSTANT_FREQ"
    and "length (constant_fans s) \<le> unat (ucConstantFanRequestNum s)"
  shows "eCtrlCmd (fan j (vSystem_ExAirFanConstantSwitch s)) =
    (if fan_ready (fan j s) \<and> dev_eRunningState (fan j s) = STATE_STOP then ON else eCtrlCmd (fan j s))"
proof -
  let ?run = "\<lambda>i. dev_eRunningState (fan i s) = STATE_RUN" and ?l = "constant_fans s"
  have st: "dev_eRunningState (fan i s) = STATE_STOP \<longleftrightarrow> \<not> ?run i" for i
    by (cases "dev_eRunningState (fan i s)") auto
  have len: "length (fans_by_time STATE_RUN s) + length (fans_by_time STATE_STOP s) = length ?l"
    using sum_length_filter_compl[of ?run "sort_key (run_hours s) ?l"]
    by (simp add: fans_by_time_def st)
  then have "fans_to_start s = fans_by_time STATE_STOP s" "fans_to_stop s = []"
    using assms(5) by (simp_all add: fans_to_start_def fans_to_stop_def)
  moreover have "j \<in> set (fans_by_time STATE_STOP s) \<longleftrightarrow> fan_ready (fan j s) \<and> dev_eRunningState (fan j s) = STATE_STOP"
    using assms(3,4) by (auto simp: fans_by_time_def constant_fans_def)
  ultimately show ?thesis by (simp add: ConstantSwitch_constant[OF assms(1-4)])
qed

lemma constant_fans_length:
  assumes "fans_ok s"
  shows "length (constant_fans s) \<le> (if eExAirFanType s = TYPE_CONSTANT_VARIABLE then 3 else 4)"
proof -
  have "set (constant_fans s) \<subseteq> (if eExAirFanType s = TYPE_CONSTANT_VARIABLE then {1..<4} else {0..<4})"
    using fans_ok_fan(1)[OF assms] by (auto simp: constant_fans_def Suc_le_eq split: if_splits)
  moreover have "distinct (constant_fans s)" by (simp add: constant_fans_def)
  ultimately show ?thesis
    using card_mono[of "if eExAirFanType s = TYPE_CONSTANT_VARIABLE then {1..<4} else {0..<4}" "set (constant_fans s)"]
    by (simp add: distinct_card split: if_splits)
qed

lemma same_feedback_conditions:
  assumes "same_feedback s t" and "eExAirFanType t = eExAirFanType s" and "pExAirFanVariate t = pExAirFanVariate s"
  shows "variate_usable t = variate_usable s" "constant_only t = constant_only s"
  using assms feedbackD(2,3)[of "fan _ t" "fan _ s"]
  by (auto simp: variate_usable_def constant_only_def same_feedback_def split: option.splits)

lemma ctrl_high_co2:
  assumes "auto_or_emergency s"
    and "uint (usCO2PPM s) > uint (usCO2AdjustThr_V s) + uint (usCO2AdjustDeviat s)"
  shows "vSystem_ExAirFanCtrl s = all_fans_on s"
proof -
  have "usCO2PPM t = usCO2PPM s" "usCO2AdjustThr_V t = usCO2AdjustThr_V s"
    "usCO2AdjustDeviat t = usCO2AdjustDeviat s" if "unit_part t = unit_part s" for t
    using that by (simp_all add: unit_part_def)
  from this[of "all_fans_on s"]
  have co2: "usCO2PPM (all_fans_on s) = usCO2PPM s" "usCO2AdjustThr_V (all_fans_on s) = usCO2AdjustThr_V s"
    "usCO2AdjustDeviat (all_fans_on s) = usCO2AdjustDeviat s" by simp_all
  have low: "\<not> uint (usCO2PPM s) < uint (usCO2AdjustThr_V s) - uint (usCO2AdjustDeviat s)"
    using assms(2) uint_ge_0[of "usCO2AdjustDeviat s"] by linarith
  have "eSystemMode s \<noteq> MODE_MANUAL" using assms(1) by (auto simp: auto_or_emergency_def)
  then show ?thesis using co2 assms low by (simp add: vSystem_ExAirFanCtrl_def Let_def)
qed

lemma all_fans_on_timers:
  assumes "tmr_wf s"
  shows "\<not> tmr_running sExAirFanCtrlTmr (all_fans_on s)" "\<not> tmr_running sExAirFanRequestTimeTmr (all_fans_on s)"
proof -
  have "\<not> tmr_running sExAirFanCtrlTmr (snd (xTmrStop sExAirFanCtrlTmr (snd (xTmrStop sExAirFanRequestTimeTmr t))))"
    "\<not> tmr_running sExAirFanRequestTimeTmr (snd (xTmrStop sExAirFanCtrlTmr (snd (xTmrStop sExAirFanRequestTimeTmr t))))"
    if "tmr_wf t" for t
    using md_timer.running_stop[OF md_timer.stop_wf[OF that]] md_timer.running_stop[OF that]
    by (simp_all flip: stop_tmr_def)
  then show "\<not> tmr_running sExAirFanCtrlTmr (all_fans_on s)" "\<not> tmr_running sExAirFanRequestTimeTmr (all_fans_on s)"
    using assms unfolding all_fans_on_def Let_def by (auto split: option.split)
qed

lemma fan_after_stops: "fan i (snd (xTmrStop a (snd (xTmrStop b t)))) = fan i t"
  by (simp add: xTmrStop_footprint)

text \<open>\<open>n\<close> is what \<open>all_fans_on\<close> asks for: at least the number of usable constant-speed fans.\<close>

lemma request_all:
  assumes "\<not> manual_or_closed s" and "fans_ok s" and "length (constant_fans s) \<le> unat n"
  shows "same_feedback s (vSystem_ExAirFanConstantSwitch (s\<lparr>ucConstantFanRequestNum := n\<rparr>))"
    and "i < EX_AIR_FAN_NUM \<Longrightarrow> eFanFreqType (fan i s) = CONSTANT_FREQ \<Longrightarrow>
      eCtrlCmd (fan i (vSystem_ExAirFanConstantSwitch (s\<lparr>ucConstantFanRequestNum := n\<rparr>))) =
      (if fan_ready (fan i s) \<and> dev_eRunningState (fan i s) = STATE_STOP then ON else eCtrlCmd (fan i s))"
proof -
  have m: "\<not> manual_or_closed (s\<lparr>ucConstantFanRequestNum := n\<rparr>)" and f: "fans_ok (s\<lparr>ucConstantFanRequestNum := n\<rparr>)"
    using assms(1,2) by (simp_all add: manual_or_closed_def fans_ok_def)
  show "same_feedback s (vSystem_ExAirFanConstantSwitch (s\<lparr>ucConstantFanRequestNum := n\<rparr>))"
    using ConstantSwitch_feedback[OF f] by (simp add: same_feedback_def)
  show "i < EX_AIR_FAN_NUM \<Longrightarrow> eFanFreqType (fan i s) = CONSTANT_FREQ \<Longrightarrow>
      eCtrlCmd (fan i (vSystem_ExAirFanConstantSwitch (s\<lparr>ucConstantFanRequestNum := n\<rparr>))) =
      (if fan_ready (fan i s) \<and> dev_eRunningState (fan i s) = STATE_STOP then ON else eCtrlCmd (fan i s))"
    using ConstantSwitch_starts_all[OF m f, of i] assms(3) by (simp add: constant_fans_def)
qed

text \<open>With a usable variable-speed fan (which is fan 0) the three others are asked for.\<close>

lemma all_fans_on_variable:
  assumes ok: "\<not> manual_or_closed s" "fans_ok s" and v: "variate_usable s" and i: "i < EX_AIR_FAN_NUM"
  shows "eCtrlCmd (fan i (all_fans_on s)) =
    (if i = 0 \<or> fan_ready (fan i s) \<and> dev_eRunningState (fan i s) = STATE_STOP then ON else eCtrlCmd (fan i s))"
proof -
  have ty: "eExAirFanType s = TYPE_CONSTANT_VARIABLE" "pExAirFanVariate s = Some 0" "fan_ready (fan 0 s)"
    using ok(2) v by (auto simp: variate_usable_def fans_ok_def split: option.splits if_splits)
  have len: "length (constant_fans s) \<le> unat (3 :: u8)" using constant_fans_length[OF ok(2)] ty by simp
  let ?C = "vSystem_ExAirFanConstantSwitch (s\<lparr>ucConstantFanRequestNum := 3\<rparr>)"
  let ?t = "?C\<lparr>xVariableFanRequest := True\<rparr>"
  have ft: "same_feedback s ?t" "pExAirFanVariate ?C = Some 0"
    using request_all(1)[OF ok len] configD(1)[of ?C s] ty by (simp_all add: same_feedback_def)
  have there: "fan_there 0 ?t" "fan_ready (fan 0 ?t)"
    using ft(1) fans_ok_fan(3)[OF ok(2), of 0] feedbackD(2,3)[of "fan 0 ?t" "fan 0 s"] ty(3)
    by (simp_all add: same_feedback_def)
  define u where "u = vSystem_AdjustExAirFanFreq (usExAirFanMaxFreq (vExAirFan_SwitchOpen 0 ?t)) (vExAirFan_SwitchOpen 0 ?t)"
  have o0: "fan_there 0 (vExAirFan_SwitchOpen 0 ?t)"
    unfolding switch_feedback(1)[OF there(1)] by (rule there(1))
  have u: "same_feedback s u"
    using AdjustFreq_effect(1,2)[OF o0] same_feedback_trans[OF ft(1) same_feedback_switch(1)[OF there(1)]]
    by (simp add: same_feedback_def u_def)
  have cu: "eExAirFanType u = eExAirFanType s" "pExAirFanVariate u = pExAirFanVariate s"
    using configD(1,2)[of u s] by (simp_all add: u_def)
  have "\<not> constant_only u"
    using same_feedback_conditions(2)[OF u cu] v
    by (auto simp: constant_only_def variate_usable_def split: option.splits)
  then have eq: "fan i (all_fans_on s) = fan i u"
    using v ft(2) by (simp add: all_fans_on_def Let_def fan_after_stops flip: u_def)
  have "eCtrlCmd (fan i u) = (if i = 0 then ON else eCtrlCmd (fan i ?C))"
    using AdjustFreq_effect(3)[OF o0, where j = i] fan_step_nth[OF SwitchOpen_step there(1), where j = i] there(2)
    by (simp add: u_def)
  then show ?thesis
    using request_all(2)[OF ok len i] fans_ok_fan(1)[OF ok(2) i] by (simp add: eq)
qed

text \<open>Without one, all four are asked for, and an unusable variable-speed fan is left as it is.\<close>

lemma all_fans_on_constant:
  assumes ok: "\<not> manual_or_closed s" "fans_ok s" and v: "\<not> variate_usable s" and i: "i < EX_AIR_FAN_NUM"
  shows "eCtrlCmd (fan i (all_fans_on s)) =
    (if fan_ready (fan i s) \<and> dev_eRunningState (fan i s) = STATE_STOP then ON else eCtrlCmd (fan i s))"
    and "eFanFreqType (fan i s) = VARIABLE_FREQ \<Longrightarrow> \<not> fan_ready (fan i s)"
proof -
  let ?s = "s\<lparr>ucConstantFanRequestNum := 4\<rparr>"
  have p: "pExAirFanVariate s = (if eExAirFanType s = TYPE_CONSTANT_VARIABLE then Some 0 else None)"
    using ok(2) by (simp add: fans_ok_def)
  have "constant_only s"
    using v by (cases "eExAirFanType s") (auto simp: constant_only_def variate_usable_def p split: option.splits)
  then have eq: "fan i (all_fans_on s) = fan i (vSystem_ExAirFanConstantSwitch ?s)"
    using v by (simp add: all_fans_on_def Let_def fan_after_stops)
  have len: "length (constant_fans s) \<le> unat (4 :: u8)"
    using constant_fans_length[OF ok(2)] by (simp split: if_splits)
  have sub: "set (fans_to_start ?s) \<subseteq> set (constant_fans s)" "set (fans_to_stop ?s) \<subseteq> set (constant_fans s)"
    by (auto simp: fans_to_start_def fans_to_stop_def fans_by_time_def constant_fans_def dest!: in_set_takeD)
  have var: "eCtrlCmd (fan i (vSystem_ExAirFanConstantSwitch ?s)) = eCtrlCmd (fan i s) \<and> \<not> fan_ready (fan i s)"
    if "eFanFreqType (fan i s) = VARIABLE_FREQ"
  proof -
    have i0: "i = 0" "eExAirFanType s = TYPE_CONSTANT_VARIABLE"
      using fans_ok_fan(1)[OF ok(2) i] that by (auto split: if_splits)
    have "length (constant_fans s) \<le> 3" using constant_fans_length[OF ok(2)] i0(2) by simp
    moreover have "\<not> variate_usable ?s" using v by (simp add: variate_usable_def split: option.splits)
    ultimately have "variate_helps 4 (length (constant_fans s)) ?s = ?s"
      by (simp add: variate_helps_def Let_def split: option.split)
    moreover have "i \<notin> set (constant_fans s)" using that by (simp add: constant_fans_def)
    moreover have "\<not> manual_or_closed ?s" "fans_ok ?s" "constant_fans ?s = constant_fans s"
      using ok by (simp_all add: manual_or_closed_def fans_ok_def constant_fans_def)
    ultimately have "eCtrlCmd (fan i (vSystem_ExAirFanConstantSwitch ?s)) = eCtrlCmd (fan i s)"
      using ConstantSwitch_commands[where s = ?s and j = i] i sub by auto
    then show ?thesis using v i0 p by (simp add: variate_usable_def)
  qed
  then show "eFanFreqType (fan i s) = VARIABLE_FREQ \<Longrightarrow> \<not> fan_ready (fan i s)" by blast
  show "eCtrlCmd (fan i (all_fans_on s)) =
    (if fan_ready (fan i s) \<and> dev_eRunningState (fan i s) = STATE_STOP then ON else eCtrlCmd (fan i s))"
    using request_all(2)[OF ok len i] var by (cases "eFanFreqType (fan i s)") (auto simp: eq)
qed

text \<open>
  C8. When the CO2 concentration in automatic or emergency mode exceeds threshold plus deviation,
  exactly the healthy remote fans that stand still are commanded on, the healthy remote
  variable-speed fan always; no other command changes, no fan is stopped, and both timers that
  could stop one later are cancelled.
\<close>

theorem high_co2_starts_all_fans:
  assumes "fans_ok s" and "tmr_wf s" and "auto_or_emergency s"
    and "uint (usCO2PPM s) > uint (usCO2AdjustThr_V s) + uint (usCO2AdjustDeviat s)"
  shows "(\<forall>i < EX_AIR_FAN_NUM. eCtrlCmd (fan i (vSystem_ExAirFanCtrl s)) =
      (if fan_ready (fan i s) \<and>
          (dev_eRunningState (fan i s) = STATE_STOP \<or> eFanFreqType (fan i s) = VARIABLE_FREQ)
       then ON else eCtrlCmd (fan i s))) \<and>
    \<not> tmr_running sExAirFanCtrlTmr (vSystem_ExAirFanCtrl s) \<and>
    \<not> tmr_running sExAirFanRequestTimeTmr (vSystem_ExAirFanCtrl s)"
proof -
  have ok: "\<not> manual_or_closed s"
    using assms(3) by (auto simp: manual_or_closed_def auto_or_emergency_def)
  have "eCtrlCmd (fan i (all_fans_on s)) =
      (if fan_ready (fan i s) \<and>
          (dev_eRunningState (fan i s) = STATE_STOP \<or> eFanFreqType (fan i s) = VARIABLE_FREQ)
       then ON else eCtrlCmd (fan i s))" if i: "i < EX_AIR_FAN_NUM" for i
  proof (cases "variate_usable s")
    case True
    then have "eExAirFanType s = TYPE_CONSTANT_VARIABLE" "fan_ready (fan 0 s)"
      using assms(1) by (auto simp: variate_usable_def fans_ok_def split: option.splits if_splits)
    then show ?thesis
      using all_fans_on_variable[OF ok assms(1) True i] fans_ok_fan(1)[OF assms(1) i] by auto
  next
    case False
    show ?thesis using all_fans_on_constant[OF ok assms(1) False i] by auto
  qed
  then show ?thesis
    using all_fans_on_timers[OF assms(2)] unfolding ctrl_high_co2[OF assms(3,4)] by blast
qed

theorem high_co2_starts_all_fans_witness:
  "eCtrlCmd (fan 3 (vSystem_ExAirFanCtrl demand_example)) = ON"
  using high_co2_starts_all_fans[of demand_example] by simp

end
