(* ===== verification/MbCrc.thy ===== *)
theory MbCrc
  imports Prelude
begin

text \<open>
  The two CRC routines of \<open>FreeModbus/utils/mbutils.c\<close>: bit by bit and by table.
\<close>

unbundle bit_operations_syntax

section \<open>The routines\<close>

text \<open>
  \<open>MB_CRCCalc\<close>: the inner loop shifts eight times; the outer loop counts in a byte up to a
  16-bit size, so it may run for ever.
\<close>

definition crc_shift :: "u16 \<Rightarrow> u16" where
  "crc_shift c = (let tmp = c AND 1; c1 = drop_bit 1 c in if tmp = 1 then c1 XOR 0xA001 else c1)"

definition crc_byte :: "u16 \<Rightarrow> u8 \<Rightarrow> u16" where
  "crc_byte c b = for_loop 8 (\<lambda>_. crc_shift) (c XOR ucast b)"

partial_function (option) crc_loop :: "u8 list \<Rightarrow> u16 \<Rightarrow> u8 \<Rightarrow> u16 \<Rightarrow> u16 option" where
  "crc_loop Data DataSize j c =
     (if uint j < uint DataSize
      then crc_loop Data DataSize (j + 1) (crc_byte c (Data ! unat j)) else Some c)"

definition MB_CRCCalc :: "u8 list \<Rightarrow> u8 \<Rightarrow> u16 \<Rightarrow> u16 option" where
  "MB_CRCCalc Data StartIndex DataSize = crc_loop Data DataSize StartIndex 0xFFFF"

definition aucCRCHi :: "u8 list" where
  "aucCRCHi = [
   0x00, 0xC1, 0x81, 0x40, 0x01, 0xC0, 0x80, 0x41, 0x01, 0xC0, 0x80, 0x41, 0x00, 0xC1, 0x81, 0x40,
   0x01, 0xC0, 0x80, 0x41, 0x00, 0xC1, 0x81, 0x40, 0x00, 0xC1, 0x81, 0x40, 0x01, 0xC0, 0x80, 0x41,
   0x01, 0xC0, 0x80, 0x41, 0x00, 0xC1, 0x81, 0x40, 0x00, 0xC1, 0x81, 0x40, 0x01, 0xC0, 0x80, 0x41,
   0x00, 0xC1, 0x81, 0x40, 0x01, 0xC0, 0x80, 0x41, 0x01, 0xC0, 0x80, 0x41, 0x00, 0xC1, 0x81, 0x40,
   0x01, 0xC0, 0x80, 0x41, 0x00, 0xC1, 0x81, 0x40, 0x00, 0xC1, 0x81, 0x40, 0x01, 0xC0, 0x80, 0x41,
   0x00, 0xC1, 0x81, 0x40, 0x01, 0xC0, 0x80, 0x41, 0x01, 0xC0, 0x80, 0x41, 0x00, 0xC1, 0x81, 0x40,
   0x00, 0xC1, 0x81, 0x40, 0x01, 0xC0, 0x80, 0x41, 0x01, 0xC0, 0x80, 0x41, 0x00, 0xC1, 0x81, 0x40,
   0x01, 0xC0, 0x80, 0x41, 0x00, 0xC1, 0x81, 0x40, 0x00, 0xC1, 0x81, 0x40, 0x01, 0xC0, 0x80, 0x41,
   0x01, 0xC0, 0x80, 0x41, 0x00, 0xC1, 0x81, 0x40, 0x00, 0xC1, 0x81, 0x40, 0x01, 0xC0, 0x80, 0x41,
   0x00, 0xC1, 0x81, 0x40, 0x01, 0xC0, 0x80, 0x41, 0x01, 0xC0, 0x80, 0x41, 0x00, 0xC1, 0x81, 0x40,
   0x00, 0xC1, 0x81, 0x40, 0x01, 0xC0, 0x80, 0x41, 0x01, 0xC0, 0x80, 0x41, 0x00, 0xC1, 0x81, 0x40,
   0x01, 0xC0, 0x80, 0x41, 0x00, 0xC1, 0x81, 0x40, 0x00, 0xC1, 0x81, 0x40, 0x01, 0xC0, 0x80, 0x41,
   0x00, 0xC1, 0x81, 0x40, 0x01, 0xC0, 0x80, 0x41, 0x01, 0xC0, 0x80, 0x41, 0x00, 0xC1, 0x81, 0x40,
   0x01, 0xC0, 0x80, 0x41, 0x00, 0xC1, 0x81, 0x40, 0x00, 0xC1, 0x81, 0x40, 0x01, 0xC0, 0x80, 0x41,
   0x01, 0xC0, 0x80, 0x41, 0x00, 0xC1, 0x81, 0x40, 0x00, 0xC1, 0x81, 0x40, 0x01, 0xC0, 0x80, 0x41,
   0x00, 0xC1, 0x81, 0x40, 0x01, 0xC0, 0x80, 0x41, 0x01, 0xC0, 0x80, 0x41, 0x00, 0xC1, 0x81, 0x40]"

definition aucCRCLo :: "u8 list" where
  "aucCRCLo = [
   0x00, 0xC0, 0xC1, 0x01, 0xC3, 0x03, 0x02, 0xC2, 0xC6, 0x06, 0x07, 0xC7, 0x05, 0xC5, 0xC4, 0x04,
   0xCC, 0x0C, 0x0D, 0xCD, 0x0F, 0xCF, 0xCE, 0x0E, 0x0A, 0xCA, 0xCB, 0x0B, 0xC9, 0x09, 0x08, 0xC8,
   0xD8, 0x18, 0x19, 0xD9, 0x1B, 0xDB, 0xDA, 0x1A, 0x1E, 0xDE, 0xDF, 0x1F, 0xDD, 0x1D, 0x1C, 0xDC,
   0x14, 0xD4, 0xD5, 0x15, 0xD7, 0x17, 0x16, 0xD6, 0xD2, 0x12, 0x13, 0xD3, 0x11, 0xD1, 0xD0, 0x10,
   0xF0, 0x30, 0x31, 0xF1, 0x33, 0xF3, 0xF2, 0x32, 0x36, 0xF6, 0xF7, 0x37, 0xF5, 0x35, 0x34, 0xF4,
   0x3C, 0xFC, 0xFD, 0x3D, 0xFF, 0x3F, 0x3E, 0xFE, 0xFA, 0x3A, 0x3B, 0xFB, 0x39, 0xF9, 0xF8, 0x38,
   0x28, 0xE8, 0xE9, 0x29, 0xEB, 0x2B, 0x2A, 0xEA, 0xEE, 0x2E, 0x2F, 0xEF, 0x2D, 0xED, 0xEC, 0x2C,
   0xE4, 0x24, 0x25, 0xE5, 0x27, 0xE7, 0xE6, 0x26, 0x22, 0xE2, 0xE3, 0x23, 0xE1, 0x21, 0x20, 0xE0,
   0xA0, 0x60, 0x61, 0xA1, 0x63, 0xA3, 0xA2, 0x62, 0x66, 0xA6, 0xA7, 0x67, 0xA5, 0x65, 0x64, 0xA4,
   0x6C, 0xAC, 0xAD, 0x6D, 0xAF, 0x6F, 0x6E, 0xAE, 0xAA, 0x6A, 0x6B, 0xAB, 0x69, 0xA9, 0xA8, 0x68,
   0x78, 0xB8, 0xB9, 0x79, 0xBB, 0x7B, 0x7A, 0xBA, 0xBE, 0x7E, 0x7F, 0xBF, 0x7D, 0xBD, 0xBC, 0x7C,
   0xB4, 0x74, 0x75, 0xB5, 0x77, 0xB7, 0xB6, 0x76, 0x72, 0xB2, 0xB3, 0x73, 0xB1, 0x71, 0x70, 0xB0,
   0x50, 0x90, 0x91, 0x51, 0x93, 0x53, 0x52, 0x92, 0x96, 0x56, 0x57, 0x97, 0x55, 0x95, 0x94, 0x54,
   0x9C, 0x5C, 0x5D, 0x9D, 0x5F, 0x9F, 0x9E, 0x5E, 0x5A, 0x9A, 0x9B, 0x5B, 0x99, 0x59, 0x58, 0x98,
   0x88, 0x48, 0x49, 0x89, 0x4B, 0x8B, 0x8A, 0x4A, 0x4E, 0x8E, 0x8F, 0x4F, 0x8D, 0x4D, 0x4C, 0x8C,
   0x44, 0x84, 0x85, 0x45, 0x87, 0x47, 0x46, 0x86, 0x82, 0x42, 0x43, 0x83, 0x41, 0x81, 0x80, 0x40]"

text \<open>\<open>usMBCRC16\<close>: the state is the pair of the high and the low byte.\<close>

fun crc16_loop :: "u8 \<times> u8 \<Rightarrow> u8 list \<Rightarrow> u8 \<times> u8" where
  "crc16_loop st [] = st"
| "crc16_loop (ucCRCHi, ucCRCLo) (b # bs) =
     (let iIndex = unat (ucCRCLo XOR b)
      in crc16_loop (aucCRCLo ! iIndex, ucCRCHi XOR aucCRCHi ! iIndex) bs)"

definition crc_word :: "u8 \<times> u8 \<Rightarrow> u16" where
  "crc_word st = push_bit 8 (ucast (fst st)) OR ucast (snd st)"

definition usMBCRC16 :: "u8 list \<Rightarrow> u16 \<Rightarrow> u16" where
  "usMBCRC16 pucFrame usLen = crc_word (crc16_loop (0xFF, 0xFF) (take (unat usLen) pucFrame))"

section \<open>The table is the bitwise routine\<close>

lemma crc_shift_alt: "crc_shift c = drop_bit 1 c XOR (if odd c then 0xA001 else 0)"
  by (simp add: crc_shift_def Let_def and_one_eq odd_iff_mod_2_eq_one)

lemma crc_shift_xor: "crc_shift (a XOR b) = crc_shift a XOR crc_shift b"
  by (auto simp: crc_shift_alt even_xor_iff drop_bit_xor ac_simps)

definition crc8 :: "u16 \<Rightarrow> u16" where
  "crc8 = for_loop 8 (\<lambda>_. crc_shift)"

lemma crc8_xor: "crc8 (a XOR b) = crc8 a XOR crc8 b"
  by (simp add: crc8_def for_loop_numeral crc_shift_xor)

text \<open>
  The values of an XOR-linear function on \<open>0, \<dots>, 2 ^ n - 1\<close> are spanned by those on the powers of two.
\<close>

fun span_xor :: "'a::semiring_bit_operations list \<Rightarrow> 'a list" where
  "span_xor [] = [0]"
| "span_xor (t # ts) = (let l = span_xor ts in l @ map (\<lambda>x. t XOR x) l)"

lemma length_span_xor [simp]: "length (span_xor ts) = 2 ^ length ts"
  by (induction ts) (simp_all add: Let_def)

lemma of_nat_pow_add: "i < 2 ^ n \<Longrightarrow> (of_nat (2 ^ n + i) :: u16) = of_nat (2 ^ n) XOR of_nat i"
proof -
  assume i: "i < 2 ^ n"
  have "\<not> bit i n" using i by (metis bit_take_bit_iff less_irrefl take_bit_nat_eq_self)
  then have "2 ^ n AND i = 0" by (intro bit_eqI) (auto simp: bit_and_iff bit_exp_iff)
  then have "2 ^ n + i = 2 ^ n XOR i" using disjunctive_add_eq_xor[of "2 ^ n" i] by simp
  then show ?thesis by (simp add: of_nat_xor_eq)
qed

lemma span_crc8: "map (\<lambda>i. crc8 (of_nat i)) [0..<2 ^ n] = span_xor (map (\<lambda>k. crc8 (of_nat (2 ^ k))) (rev [0..<n]))"
proof (induction n)
  case 0
  show ?case by (simp add: crc8_def for_loop_numeral crc_shift_alt)
next
  case (Suc n)
  have "map (\<lambda>i. crc8 (of_nat i)) [2 ^ n..<2 ^ n + 2 ^ n] =
      map (\<lambda>i. crc8 (of_nat (2 ^ n + i))) [0..<2 ^ n]"
    by (rule nth_equalityI) simp_all
  also have "\<dots> = map (\<lambda>x. crc8 (of_nat (2 ^ n)) XOR x) (map (\<lambda>i. crc8 (of_nat i)) [0..<2 ^ n])"
    unfolding map_map comp_def
    by (rule map_cong) (simp_all only: of_nat_pow_add crc8_xor set_upt atLeastLessThan_iff)
  finally have upper: "map (\<lambda>i. crc8 (of_nat i)) [2 ^ n..<2 ^ n + 2 ^ n] =
      map (\<lambda>x. crc8 (of_nat (2 ^ n)) XOR x) (map (\<lambda>i. crc8 (of_nat i)) [0..<2 ^ n])" .
  have "[0..<2 ^ Suc n] = [0..<2 ^ n] @ [2 ^ n..<2 ^ n + 2 ^ n :: nat]"
    using upt_add_eq_append[of 0 "2 ^ n" "2 ^ n"] by (simp add: mult_2)
  then show ?case
    unfolding upt_Suc by (simp only: map_append upper Suc rev_append rev.simps append_Nil append_Cons
        list.map span_xor.simps Let_def if_True le0)
qed

lemma tables_span: "aucCRCHi = span_xor [0x01, 0x01, 0x01, 0x01, 0x01, 0x01, 0x81, 0xC1]"
  "aucCRCLo = span_xor [0xA0, 0xF0, 0xD8, 0xCC, 0xC6, 0xC3, 0xC1, 0xC0]"
  by (simp_all add: aucCRCHi_def aucCRCLo_def)

lemma crc_word_xor: "crc_word (a XOR b, c XOR d) = crc_word (a, c) XOR crc_word (b, d)"
  by (rule bit_word_eqI) (auto simp: crc_word_def bit_simps dest: bit_imp_le_length)

lemma span_pairs:
  "length as = length bs \<Longrightarrow> map crc_word (zip (span_xor as) (span_xor bs)) = span_xor (map crc_word (zip as bs))"
proof (induction as bs rule: list_induct2)
  case Nil
  show ?case by (simp add: crc_word_def)
next
  case (Cons x xs y ys)
  let ?l = "zip (span_xor xs) (span_xor ys)"
  have "map crc_word (zip (map ((XOR) x) (span_xor xs)) (map ((XOR) y) (span_xor ys))) =
      map ((XOR) (crc_word (x, y))) (map crc_word ?l)"
    by (simp add: zip_map_map split_beta crc_word_xor)
  then show ?case using Cons by (simp add: Let_def zip_append)
qed

lemma crc_table:
  assumes "i < 256"
  shows "crc8 (of_nat i) = crc_word (aucCRCLo ! i, aucCRCHi ! i)"
proof -
  have "map (\<lambda>i. crc8 (of_nat i)) [0..<2 ^ 8] = map crc_word (zip aucCRCLo aucCRCHi)"
    unfolding span_crc8 tables_span
    by (subst span_pairs) (simp_all add: upt_rec crc8_def for_loop_numeral crc_shift_alt crc_word_def)
  then have "map (\<lambda>i. crc8 (of_nat i)) [0..<2 ^ 8] ! i = map crc_word (zip aucCRCLo aucCRCHi) ! i" by simp
  then show ?thesis using assms by (simp add: tables_span del: span_xor.simps)
qed

text \<open>Eight shifts of a word whose low byte is zero are a shift by eight.\<close>

lemma crc8_high: "crc8 (push_bit 8 (ucast (h :: u8))) = ucast h"
proof -
  have shift: "crc_shift (push_bit (Suc k) (ucast h)) = push_bit k (ucast h)" if "Suc k \<le> 8" for k
    using that by (intro bit_word_eqI)
      (auto simp: crc_shift_alt bit_simps simp del: push_bit_Suc dest: bit_imp_le_length)
  show ?thesis
    using shift[of 0] shift[of 1] shift[of 2] shift[of 3] shift[of 4] shift[of 5] shift[of 6] shift[of 7]
    unfolding crc8_def for_loop_def by (simp add: upt_rec eval_nat_numeral)
qed

lemma crc_word_alt: "crc_word (h, l) = push_bit 8 (ucast h) XOR ucast l"
  by (rule bit_word_eqI) (auto simp: crc_word_def bit_simps dest: bit_imp_le_length)

lemma crc8_word:
  "crc8 (crc_word (h, l)) = crc_word (aucCRCLo ! unat l, h XOR aucCRCHi ! unat l)"
proof -
  have "unat l < 256" using unsigned_less[of l, where 'a = nat] by simp
  then have "crc8 (ucast l) = crc_word (aucCRCLo ! unat l, aucCRCHi ! unat l)"
    using crc_table[of "unat l"] by (simp add: unsigned_of_nat of_nat_unat)
  then show ?thesis
    by (simp add: crc_word_alt crc8_xor crc8_high ac_simps unsigned_xor_eq)
qed

lemma crc_byte_word:
  "crc_byte (crc_word (h, l)) b = crc_word (aucCRCLo ! unat (l XOR b), h XOR aucCRCHi ! unat (l XOR b))"
proof -
  have "crc_byte (crc_word (h, l)) b = crc8 (crc_word (h, l XOR b))"
    by (simp add: crc_byte_def crc8_def crc_word_alt unsigned_xor_eq ac_simps)
  then show ?thesis by (simp add: crc8_word)
qed

lemma crc16_loop_fold: "crc_word (crc16_loop st bs) = fold (\<lambda>b c. crc_byte c b) bs (crc_word st)"
  by (induction st bs rule: crc16_loop.induct) (simp_all add: crc_byte_word Let_def)

definition crc16 :: "u8 list \<Rightarrow> u16" where
  "crc16 bs = fold (\<lambda>b c. crc_byte c b) bs 0xFFFF"

lemma usMBCRC16_crc16: "usMBCRC16 bs n = crc16 (take (unat n) bs)"
  by (simp only: usMBCRC16_def crc16_def crc16_loop_fold) (simp add: crc_word_def)

text \<open>The byte-counted loop.\<close>

lemma uint_less_unat: "uint a < uint b \<longleftrightarrow> unat a < unat b" for a :: "'a::len word" and b :: "'b::len word"
  by (simp flip: of_nat_less_iff[where 'a = int])

lemma crc_loop_fold:
  assumes "unat n \<le> 255" and "unat j \<le> unat n" and "unat n \<le> length d"
  shows "crc_loop d n j c = Some (fold (\<lambda>b c. crc_byte c b) (take (unat n - unat j) (drop (unat j) d)) c)"
  using assms
proof (induction "unat n - unat j" arbitrary: j c)
  case 0
  then have e: "unat n - unat j = 0" by simp
  then have "\<not> uint j < uint n" by (simp add: uint_less_unat)
  then show ?case unfolding e by (subst crc_loop.simps) simp
next
  case (Suc k)
  then have lt: "unat j < unat n" "unat n \<le> 255" by simp_all
  then have j1: "unat (j + 1) = Suc (unat j)"
    by (simp add: unat_word_ariths)
  have "take (unat n - unat j) (drop (unat j) d) =
      d ! unat j # take (unat n - unat (j + 1)) (drop (unat (j + 1)) d)"
    using lt Suc.prems(3) j1
    by (metis (no_types, lifting) Cons_nth_drop_Suc Suc_diff_Suc dual_order.strict_trans1 take_Suc_Cons)
  moreover have "uint j < uint n" using lt by (simp add: uint_less_unat)
  ultimately show ?case
    using Suc.hyps(1)[of "j + 1"] Suc.hyps(2) Suc.prems j1 lt by (subst crc_loop.simps) simp
qed

lemma crc_loop_result:
  assumes "crc_loop d n j c = Some r"
  shows "unat n \<le> 255"
proof (rule crc_loop.raw_induct[OF _ assms])
  fix f :: "u8 list \<Rightarrow> u16 \<Rightarrow> u8 \<Rightarrow> u16 \<Rightarrow> u16 option" and d n c r and j :: u8
  have "unat j \<le> 255" using unsigned_less[of j, where 'a = nat] by simp
  then show "unat n \<le> 255"
    if "\<And>d n j c r. f d n j c = Some r \<Longrightarrow> unat n \<le> 255"
      "(if uint j < uint n then f d n (j + 1) (crc_byte c (d ! unat j)) else Some c) = Some r"
    using that by (auto simp: uint_less_unat split: if_splits)
qed

section \<open>What the check detects\<close>

lemma crc_shift_inj: "crc_shift a = crc_shift b \<Longrightarrow> a = b"
proof -
  assume "crc_shift a = crc_shift b"
  then have z: "crc_shift (a XOR b) = 0" by (simp add: crc_shift_xor)
  have "even (a XOR b)"
  proof (rule ccontr)
    assume "odd (a XOR b)"
    then have "bit (crc_shift (a XOR b)) 15"
      by (auto simp: crc_shift_alt bit_simps dest: bit_imp_le_length)
    then show False using z by simp
  qed
  then have e: "\<not> bit (a XOR b) 0" and "drop_bit 1 (a XOR b) = 0" using z by (simp_all add: crc_shift_alt bit_0)
  then have "\<not> bit (a XOR b) (Suc n)" for n
    using bit_drop_bit_eq[of 1 "a XOR b"] by (metis bit_0_eq bot_apply bot_bool_def comp_apply plus_1_eq_Suc)
  then have "a XOR b = 0" using e by (intro bit_word_eqI) (metis bit_0_eq bot_apply bot_bool_def not0_implies_Suc)
  then show "a = b" by (metis xor.right_neutral xor.left_commute xor_self_eq)
qed

lemma crc8_inj: "crc8 a = crc8 b \<Longrightarrow> a = b"
  by (simp add: crc8_def for_loop_numeral) (blast dest: crc_shift_inj)

lemma ucast_8_16_id: "(ucast (ucast (x :: u8) :: u16) :: u8) = x"
  by (rule bit_word_eqI) (auto simp: bit_simps)

lemma crc_byte_inj:
  "crc_byte a x = crc_byte b x \<Longrightarrow> a = b" "crc_byte c x = crc_byte c y \<Longrightarrow> x = y"
proof -
  have eq: "crc_byte a x = crc8 (a XOR ucast x)" for a x by (simp add: crc_byte_def crc8_def)
  show "crc_byte a x = crc_byte b x \<Longrightarrow> a = b"
    unfolding eq by (drule crc8_inj) (drule arg_cong[of _ _ "\<lambda>w. w XOR ucast x"], simp add: xor.assoc)
  assume "crc_byte c x = crc_byte c y"
  then have "c XOR ucast x = c XOR ucast y" unfolding eq by (rule crc8_inj)
  then have "c XOR (c XOR ucast x) = c XOR (c XOR ucast y)" by (rule arg_cong)
  then have "(ucast x :: u16) = ucast y" by simp
  then show "x = y" by (metis ucast_8_16_id)
qed

lemma crc_fold_inj: "fold (\<lambda>b c. crc_byte c b) bs a = fold (\<lambda>b c. crc_byte c b) bs b \<Longrightarrow> a = b"
  by (induction bs arbitrary: a b) (auto dest: crc_byte_inj(1))

lemma crc16_append: "crc16 (xs @ ys) = fold (\<lambda>b c. crc_byte c b) ys (crc16 xs)"
  by (simp add: crc16_def)

lemma crc_word_split: "crc_word (ucast (drop_bit 8 c), ucast c) = (c :: u16)"
  by (rule bit_word_eqI) (auto simp: crc_word_def bit_simps dest: bit_imp_le_length)

text \<open>Appending the low and the high byte of the CRC gives zero, and nothing else does.\<close>

lemma crc16_check: "crc16 (xs @ [ucast (crc16 xs), ucast (drop_bit 8 (crc16 xs))]) = 0"
proof -
  obtain h l where c: "crc16 xs = crc_word (h, l)" using crc_word_split by metis
  have hl: "ucast (crc_word (h, l)) = l" "ucast (drop_bit 8 (crc_word (h, l))) = h"
    by (rule bit_word_eqI, auto simp: crc_word_def bit_simps dest: bit_imp_le_length)+
  have t: "aucCRCLo ! 0 = 0" "aucCRCHi ! 0 = 0" by (simp_all add: aucCRCLo_def aucCRCHi_def)
  show ?thesis
    unfolding crc16_append c by (simp add: hl crc_byte_word t) (simp add: crc_word_def)
qed

lemma crc_word_high: "crc_word (h, l) = crc_word (h', l') \<Longrightarrow> h = h'"
proof -
  assume "crc_word (h, l) = crc_word (h', l')"
  then have "(ucast (drop_bit 8 (crc_word (h, l))) :: u8) = ucast (drop_bit 8 (crc_word (h', l')))" by simp
  moreover have "ucast (drop_bit 8 (crc_word (p, q))) = p" for p q
    by (rule bit_word_eqI) (auto simp: crc_word_def bit_simps dest: bit_imp_le_length)
  ultimately show "h = h'" by simp
qed

lemma CRCLo_zero: "i < 256 \<Longrightarrow> aucCRCLo ! i = 0 \<Longrightarrow> i = 0"
proof -
  have all: "list_all (\<lambda>x. x \<noteq> 0) (tl aucCRCLo)" by (simp add: aucCRCLo_def)
  have len: "length aucCRCLo = 256" by (simp add: tables_span del: span_xor.simps)
  assume i: "i < 256" "aucCRCLo ! i = 0"
  show "i = 0"
  proof (rule ccontr)
    assume "i \<noteq> 0"
    then have "aucCRCLo ! i = tl aucCRCLo ! (i - 1)" "i - 1 < length (tl aucCRCLo)"
      using i(1) len by (simp_all add: nth_tl)
    then show False using all i(2) by (simp add: list_all_length)
  qed
qed

lemma xor_left_cancel: "w XOR p = w XOR q \<longleftrightarrow> p = q" for p q w :: "'a::len word"
  by (auto dest: arg_cong[of _ _ "\<lambda>v. w XOR v"])

lemma xor_swap: "p XOR q = r XOR s \<Longrightarrow> p XOR r = q XOR s" for p q r s :: "'a::len word"
  by (drule arg_cong[of _ _ "\<lambda>v. v XOR (q XOR r)"]) (simp add: ac_simps)

lemma crc_two_bytes_inj:
  assumes "crc_byte (crc_byte c a) b = crc_byte (crc_byte c a') b'"
  shows "a = a' \<and> b = b'"
proof -
  have eq: "crc_byte a x = crc8 (a XOR ucast x)" for a x by (simp add: crc_byte_def crc8_def)
  let ?x = "a XOR a'"
  have "crc8 (c XOR ucast a) XOR ucast b = crc8 (c XOR ucast a') XOR ucast b'"
    using assms unfolding eq by (rule crc8_inj)
  then have "crc8 c XOR crc8 (ucast a) XOR ucast b = crc8 c XOR crc8 (ucast a') XOR ucast b'"
    by (simp only: crc8_xor xor.assoc)
  then have "crc8 (ucast a) XOR ucast b = crc8 (ucast a') XOR ucast b'"
    by (simp only: xor.assoc xor_left_cancel)
  then have "crc8 (ucast a) XOR crc8 (ucast a') = ucast b XOR ucast b'"
    by (rule xor_swap)
  then have "crc8 (ucast ?x) = crc_word (0, b XOR b')"
    by (simp add: unsigned_xor_eq crc8_xor crc_word_alt)
  moreover have "crc8 (ucast ?x) = crc_word (aucCRCLo ! unat ?x, aucCRCHi ! unat ?x)"
    using crc8_word[of 0 ?x] by (simp add: crc_word_alt)
  ultimately have "aucCRCLo ! unat ?x = 0"
    by (metis crc_word_high)
  then have "unat ?x = 0" using CRCLo_zero[of "unat ?x"] unsigned_less[of ?x, where 'a = nat] by simp
  then have "a XOR a' = a XOR a" by (simp add: unat_eq_zero)
  then have "a = a'" by (simp only: xor_left_cancel)
  then show ?thesis using assms crc_byte_inj(2) by blast
qed

text \<open>
  C11. The bit-by-bit CRC and the table-driven one compute the same value for every frame of up to
  255 bytes; for a longer frame the bit-by-bit routine does not return, because it counts in a byte.
\<close>

theorem crc_routines_agree:
  assumes "unat n \<le> length d"
  shows "MB_CRCCalc d 0 n = (if unat n \<le> 255 then Some (usMBCRC16 d n) else None)"
proof (cases "unat n \<le> 255")
  case True
  then show ?thesis
    using crc_loop_fold[of n 0 d] assms by (simp add: MB_CRCCalc_def usMBCRC16_crc16 crc16_def)
next
  case False
  then have "MB_CRCCalc d 0 n \<noteq> Some r" for r
    using crc_loop_result by (auto simp: MB_CRCCalc_def)
  then show ?thesis using False by (cases "MB_CRCCalc d 0 n") auto
qed

theorem crc_routines_agree_witness:
  "MB_CRCCalc [0x01, 0x03, 0x00, 0x00, 0x00, 0x01] 0 6 = Some (usMBCRC16 [0x01, 0x03, 0x00, 0x00, 0x00, 0x01] 6)"
  using crc_routines_agree[of 6 "[0x01, 0x03, 0x00, 0x00, 0x00, 0x01]"] by simp

text \<open>
  C12. The receiver's test, CRC zero over the whole frame, holds exactly when the last two bytes are
  the low and the high byte of the CRC of the bytes before them, which is what the sender appends.
\<close>

theorem crc_check_roundtrip:
  assumes "length f + 2 < 65536"
  shows "usMBCRC16 (f @ [a, b]) (of_nat (length f) + 2) = 0 \<longleftrightarrow>
    a = ucast (usMBCRC16 f (of_nat (length f))) \<and> b = ucast (drop_bit 8 (usMBCRC16 f (of_nat (length f))))"
proof -
  have l: "unat (of_nat (length f) :: u16) = length f" "unat (of_nat (length f) + 2 :: u16) = length f + 2"
    using assms by (simp_all add: unat_of_nat unat_word_ariths take_bit_nat_eq_self)
  have crc: "crc16 (f @ [a, b]) = crc_byte (crc_byte (crc16 f) a) b" for a b
    by (simp add: crc16_append)
  show ?thesis
    unfolding usMBCRC16_crc16 l
    using crc16_check[of f] crc_two_bytes_inj[of "crc16 f" a b] by (auto simp: crc)
qed

lemma crc_example: "usMBCRC16 [0x01, 0x03, 0x00, 0x00, 0x00, 0x01] 6 = 0x0A84"
  by code_simp

theorem crc_check_roundtrip_witness:
  "usMBCRC16 [0x01, 0x03, 0x00, 0x00, 0x00, 0x01, 0x84, 0x0A] 8 = 0"
  using crc_check_roundtrip[of "[0x01, 0x03, 0x00, 0x00, 0x00, 0x01]" "0x84" "0x0A"]
  by (simp add: crc_example)

text \<open>
  C13. A frame in which one byte, or two adjacent bytes, have been changed in any way has a
  different CRC, so the corruption is always detected.
\<close>

theorem crc_detects_corruption:
  assumes "length xs + length ys + 2 = unat n" and "(a, b) \<noteq> (a', b')"
  shows "usMBCRC16 (xs @ [a, b] @ ys) n \<noteq> usMBCRC16 (xs @ [a', b'] @ ys) n"
proof -
  have "crc16 (xs @ [a, b] @ ys) = fold (\<lambda>b c. crc_byte c b) ys (crc_byte (crc_byte (crc16 xs) a) b)" for a b
    by (simp add: crc16_def)
  then show ?thesis
    unfolding usMBCRC16_crc16 using assms crc_fold_inj crc_two_bytes_inj by (simp add: min_def) blast
qed

theorem crc_detects_corruption_witness:
  "usMBCRC16 [0x01, 0x03, 0x00, 0x00, 0x00, 0x01] 6 \<noteq> usMBCRC16 [0x01, 0x04, 0x00, 0x00, 0x00, 0x01] 6"
  using crc_detects_corruption[of "[0x01]" "[0x00, 0x00, 0x01]" 6 "0x03" "0x00" "0x04" "0x00"] by simp

end
