(* ===== verification/MbSlave.thy ===== *)
theory MbSlave
  imports Prelude "HOL-Library.Monad_Syntax"
begin

text \<open>
  The Modbus slave the supervisor talks to, \<open>FreeModbus/slave\<close>, as configured in
  \<open>config/mbconfig.h\<close>: dictionaries (\<open>mbdict.h\<close>, \<open>mbmap.c\<close>), register and coil access
  (\<open>mbfuncholding.c\<close>, \<open>mbfuncinput.c\<close>, \<open>mbfunccoils.c\<close>, \<open>mbbits.c\<close>), the frames of Modbus/TCP
  (\<open>mbtcp.c\<close>) and the polling loop (\<open>mb.c\<close>).

  A variable of the program that a dictionary points at is a name of type \<open>'v\<close>; its value is 16
  bits of the memory, of which a variable of 8 bits uses the low ones. A result \<open>None\<close> means that
  the C code dereferences a null pointer or leaves an array.
\<close>

unbundle bit_operations_syntax

section \<open>Data\<close>

datatype eDataType = RegHoldData | RegInputData | CoilData | DiscInData

datatype access_mode = RW | WO | RO

text \<open>\<open>ucDataType\<close>; the register functions know four types.\<close>

datatype data_type = MB_uint16 | MB_uint8 | MB_int16 | MB_int8 | MB_other

record 'v sMBSlaveRegData =
  reg_usAddr :: u16
  reg_usMinVal :: u16
  reg_usMaxVal :: u16
  reg_ucTmitMult :: u8
  reg_ucDataType :: data_type
  reg_ucAccessMode :: access_mode
  reg_pvValue :: "'v option"

record 'v sMBSlaveBitData =
  bit_usAddr :: u16
  bit_ucAccessMode :: access_mode
  bit_pvValue :: "'v option"

record 'd sMBSlaveDataTable =
  pvDataBuf :: "'d list option"
  usStartAddr :: u16
  usEndAddr :: u16
  usDataCount :: u16

record 'v sMBSlaveCommData =
  sMBRegInTable :: "'v sMBSlaveRegData sMBSlaveDataTable"
  sMBRegHoldTable :: "'v sMBSlaveRegData sMBSlaveDataTable"
  sMBCoilTable :: "'v sMBSlaveBitData sMBSlaveDataTable"
  pxSlaveDataMapIndex :: "(eDataType \<Rightarrow> u16 \<Rightarrow> u16 option) option"

datatype eMBErrorCode = MB_ENOERR | MB_ENOREG | MB_EINVAL | MB_EPORTERR | MB_ENORES | MB_EIO
  | MB_EILLSTATE | MB_ETIMEDOUT

datatype eMBException = MB_EX_NONE | MB_EX_ILLEGAL_FUNCTION | MB_EX_ILLEGAL_DATA_ADDRESS
  | MB_EX_ILLEGAL_DATA_VALUE | MB_EX_SLAVE_DEVICE_FAILURE | MB_EX_SLAVE_BUSY

fun exception_code :: "eMBException \<Rightarrow> u8" where
  "exception_code MB_EX_NONE = 0"
| "exception_code MB_EX_ILLEGAL_FUNCTION = 1"
| "exception_code MB_EX_ILLEGAL_DATA_ADDRESS = 2"
| "exception_code MB_EX_ILLEGAL_DATA_VALUE = 3"
| "exception_code MB_EX_SLAVE_DEVICE_FAILURE = 4"
| "exception_code MB_EX_SLAVE_BUSY = 6"

fun prveMBSlaveError2Exception :: "eMBErrorCode \<Rightarrow> eMBException" where
  "prveMBSlaveError2Exception MB_ENOERR = MB_EX_NONE"
| "prveMBSlaveError2Exception MB_ENOREG = MB_EX_ILLEGAL_DATA_ADDRESS"
| "prveMBSlaveError2Exception MB_EINVAL = MB_EX_ILLEGAL_DATA_VALUE"
| "prveMBSlaveError2Exception MB_ETIMEDOUT = MB_EX_SLAVE_BUSY"
| "prveMBSlaveError2Exception _ = MB_EX_SLAVE_DEVICE_FAILURE"

text \<open>The functions that fill a dictionary, in the order of the macros of \<open>mbmap.h\<close>.\<close>

definition vMBSlaveRegDataInit ::
  "u16 \<Rightarrow> data_type \<Rightarrow> u16 \<Rightarrow> u16 \<Rightarrow> access_mode \<Rightarrow> u8 \<Rightarrow> 'v \<Rightarrow> 'v sMBSlaveRegData" where
  "vMBSlaveRegDataInit addr ty mn mx acc tmit v =
     \<lparr>reg_usAddr = addr, reg_usMinVal = mn, reg_usMaxVal = mx, reg_ucTmitMult = tmit,
      reg_ucDataType = ty, reg_ucAccessMode = acc, reg_pvValue = Some v\<rparr>"

definition vMBSlaveBitDataInit :: "u16 \<Rightarrow> access_mode \<Rightarrow> 'v \<Rightarrow> 'v sMBSlaveBitData" where
  "vMBSlaveBitDataInit addr acc v =
     \<lparr>bit_usAddr = addr, bit_ucAccessMode = acc, bit_pvValue = Some v\<rparr>"

definition vMBSlaveDevDataTableInit :: "'d list \<Rightarrow> u16 \<Rightarrow> u16 \<Rightarrow> u16 \<Rightarrow> 'd sMBSlaveDataTable" where
  "vMBSlaveDevDataTableInit buf start end n =
     \<lparr>pvDataBuf = Some buf, usStartAddr = start, usEndAddr = end, usDataCount = n\<rparr>"

section \<open>Looking up an address\<close>

text \<open>
  The result of the map functions is the pointer they leave: an entry, or nothing for \<open>NULL\<close>.
  Every caller starts with \<open>NULL\<close> and ignores the error code; an index beyond the buffer is a
  pointer outside it.
\<close>

definition map_entry ::
  "eDataType \<Rightarrow> 'v sMBSlaveCommData \<Rightarrow> 'd sMBSlaveDataTable \<Rightarrow> u16 \<Rightarrow> 'd option option" where
  "map_entry ty cd tab addr =
     (case (pxSlaveDataMapIndex cd, pvDataBuf tab) of
        (Some index, Some buf) \<Rightarrow>
          (case index ty addr of
             Some i \<Rightarrow> (if unat i < length buf then Some (Some (buf ! unat i)) else None)
           | None \<Rightarrow> Some None)
      | _ \<Rightarrow> Some None)"

definition eMBSlaveRegInMap :: "'v sMBSlaveCommData \<Rightarrow> u16 \<Rightarrow> 'v sMBSlaveRegData option option" where
  "eMBSlaveRegInMap cd addr = map_entry RegInputData cd (sMBRegInTable cd) addr"

definition eMBSlaveRegHoldMap :: "'v sMBSlaveCommData \<Rightarrow> u16 \<Rightarrow> 'v sMBSlaveRegData option option" where
  "eMBSlaveRegHoldMap cd addr = map_entry RegHoldData cd (sMBRegHoldTable cd) addr"

definition eMBSlaveCoilsMap :: "'v sMBSlaveCommData \<Rightarrow> u16 \<Rightarrow> 'v sMBSlaveBitData option option" where
  "eMBSlaveCoilsMap cd addr = map_entry CoilData cd (sMBCoilTable cd) addr"

section \<open>Buffers\<close>

type_synonym buffer = "u8 list"

definition put :: "nat \<Rightarrow> u8 \<Rightarrow> buffer \<Rightarrow> buffer option" where
  "put i b buf = (if i < length buf then Some (buf[i := b]) else None)"

definition get :: "buffer \<Rightarrow> nat \<Rightarrow> u8 option" where
  "get buf i = (if i < length buf then Some (buf ! i) else None)"

definition hi_byte :: "u16 \<Rightarrow> u8" where "hi_byte v = ucast (drop_bit 8 v)"
definition lo_byte :: "u16 \<Rightarrow> u8" where "lo_byte v = ucast v"

definition word16 :: "u8 \<Rightarrow> u8 \<Rightarrow> u16" where
  "word16 h l = push_bit 8 (ucast h) OR ucast l"

definition get16 :: "buffer \<Rightarrow> nat \<Rightarrow> u16 option" where
  "get16 buf i = do { h \<leftarrow> get buf i; l \<leftarrow> get buf (i + 1); Some (word16 h l) }"

definition put16 :: "nat \<Rightarrow> u16 \<Rightarrow> buffer \<Rightarrow> buffer option" where
  "put16 i v buf = do { b \<leftarrow> put i (hi_byte v) buf; put (i + 1) (lo_byte v) b }"

section \<open>One register\<close>

text \<open>The value as it stands in the variable; an unknown type leaves the previous value.\<close>

definition reg_load :: "data_type \<Rightarrow> u16 \<Rightarrow> u16 \<Rightarrow> u16" where
  "reg_load ty prev c = (case ty of MB_uint16 \<Rightarrow> c | MB_uint8 \<Rightarrow> ucast (ucast c :: u8)
     | MB_int16 \<Rightarrow> c | MB_int8 \<Rightarrow> scast (ucast c :: u8) | MB_other \<Rightarrow> prev)"

definition reg_read :: "'v sMBSlaveRegData \<Rightarrow> u16 \<Rightarrow> u16 \<Rightarrow> u16" where
  "reg_read e prev c =
     (let v = reg_load (reg_ucDataType e) prev c
      in if reg_ucTmitMult e \<noteq> 0 \<and> reg_ucTmitMult e \<noteq> 1 then v * ucast (reg_ucTmitMult e) else v)"

text \<open>
  Writing checks the range, for signed types after conversion. The code divides by the factor in
  single precision; for a 16-bit value and an 8-bit factor the truncated quotient is the integer one.
\<close>

definition reg_in_range :: "'v sMBSlaveRegData \<Rightarrow> u16 \<Rightarrow> bool" where
  "reg_in_range e v \<longleftrightarrow>
     (let mn = reg_usMinVal e; mx = reg_usMaxVal e
      in case reg_ucDataType e of
           MB_uint16 \<Rightarrow> mn \<le> v \<and> v \<le> mx
         | MB_uint8 \<Rightarrow> mn \<le> v \<and> v \<le> mx
         | MB_int16 \<Rightarrow> sint mn \<le> sint v \<and> sint v \<le> sint mx
         | MB_int8 \<Rightarrow> sint (ucast mn :: u8) \<le> sint (ucast v :: u8) \<and> sint (ucast v :: u8) \<le> sint (ucast mx :: u8)
         | MB_other \<Rightarrow> True)"

definition reg_store :: "data_type \<Rightarrow> u16 \<Rightarrow> u16 \<Rightarrow> u16" where
  "reg_store ty c v = (case ty of MB_uint16 \<Rightarrow> v | MB_uint8 \<Rightarrow> ucast (ucast v :: u8)
     | MB_int16 \<Rightarrow> v | MB_int8 \<Rightarrow> ucast (ucast v :: u8) | MB_other \<Rightarrow> c)"

definition reg_scale :: "'v sMBSlaveRegData \<Rightarrow> u16 \<Rightarrow> u16" where
  "reg_scale e v = (if reg_ucTmitMult e \<noteq> 0 \<and> reg_ucTmitMult e \<noteq> 1 then v div ucast (reg_ucTmitMult e) else v)"

definition reg_write :: "'v sMBSlaveRegData \<Rightarrow> u16 \<Rightarrow> ('v \<Rightarrow> u16) \<Rightarrow> eMBErrorCode \<times> ('v \<Rightarrow> u16)" where
  "reg_write e raw m =
     (case reg_pvValue e of
        None \<Rightarrow> (MB_ENOERR, m)
      | Some v \<Rightarrow>
          if reg_ucAccessMode e = RO then (MB_EINVAL, m)
          else let x = reg_scale e raw
               in if reg_in_range e x then (MB_ENOERR, m(v := reg_store (reg_ucDataType e) (m v) x))
                  else (MB_EINVAL, m))"

section \<open>Register access\<close>

text \<open>The loops of \<open>eMBSlaveRegHoldingCB\<close>: \<open>pos\<close> is the position of \<open>pucRegBuffer\<close>.\<close>

fun hold_read ::
  "'v sMBSlaveCommData \<Rightarrow> ('v \<Rightarrow> u16) \<Rightarrow> nat \<Rightarrow> nat \<Rightarrow> u16 \<Rightarrow> u16 \<Rightarrow> buffer \<Rightarrow> buffer option" where
  "hold_read cd m 0 pos addr prev buf = Some buf"
| "hold_read cd m (Suc n) pos addr prev buf =
     do { e \<leftarrow> eMBSlaveRegHoldMap cd addr;
          (case e of
             Some e' \<Rightarrow>
               (case reg_pvValue e' of
                  Some v \<Rightarrow>
                    (if reg_ucAccessMode e' \<noteq> WO
                     then do { buf' \<leftarrow> put16 pos (reg_read e' prev (m v)) buf;
                               hold_read cd m n (pos + 2) (addr + 1) (reg_read e' prev (m v)) buf' }
                     else do { buf' \<leftarrow> put16 pos 0 buf; hold_read cd m n (pos + 2) (addr + 1) prev buf' })
                | None \<Rightarrow> do { buf' \<leftarrow> put16 pos 0 buf; hold_read cd m n (pos + 2) (addr + 1) prev buf' })
           | None \<Rightarrow> do { buf' \<leftarrow> put16 pos 0 buf; hold_read cd m n (pos + 2) (addr + 1) prev buf' }) }"

fun hold_write ::
  "'v sMBSlaveCommData \<Rightarrow> buffer \<Rightarrow> nat \<Rightarrow> nat \<Rightarrow> u16 \<Rightarrow> ('v \<Rightarrow> u16) \<Rightarrow> (eMBErrorCode \<times> ('v \<Rightarrow> u16)) option" where
  "hold_write cd buf 0 pos addr m = Some (MB_ENOERR, m)"
| "hold_write cd buf (Suc n) pos addr m =
     do { e \<leftarrow> eMBSlaveRegHoldMap cd addr;
          v \<leftarrow> get16 buf pos;
          (let (err, m') = (case e of Some e' \<Rightarrow> reg_write e' v m | None \<Rightarrow> (MB_ENOERR, m))
           in if err \<noteq> MB_ENOERR then Some (err, m') else hold_write cd buf n (pos + 2) (addr + 1) m') }"

text \<open>The test of the address range that the three callbacks share.\<close>

definition in_table :: "'d sMBSlaveDataTable \<Rightarrow> u16 \<Rightarrow> u16 \<Rightarrow> bool" where
  "in_table tab addr n \<longleftrightarrow> pvDataBuf tab \<noteq> None \<and> usDataCount tab \<noteq> 0 \<and>
     usStartAddr tab \<le> addr \<and> uint addr + uint n - 1 \<le> uint (usEndAddr tab)"

text \<open>
  Reading input registers; the access mode is read before the null test, and the local variable
  has no value before the first register of a known type.
\<close>

fun input_read ::
  "'v sMBSlaveCommData \<Rightarrow> ('v \<Rightarrow> u16) \<Rightarrow> nat \<Rightarrow> nat \<Rightarrow> u16 \<Rightarrow> u16 option \<Rightarrow> buffer \<Rightarrow> (eMBErrorCode \<times> buffer) option" where
  "input_read cd m 0 pos addr prev buf = Some (MB_ENOERR, buf)"
| "input_read cd m (Suc n) pos addr prev buf =
     do { e \<leftarrow> eMBSlaveRegInMap cd addr;
          e' \<leftarrow> e;
          (if reg_ucAccessMode e' = WO then Some (MB_ENOREG, buf)
           else case reg_pvValue e' of
                  Some v \<Rightarrow> do { p \<leftarrow> (if reg_ucDataType e' = MB_other then prev else Some 0);
                               buf' \<leftarrow> put16 pos (reg_read e' p (m v)) buf;
                               input_read cd m n (pos + 2) (addr + 1) (Some (reg_read e' p (m v))) buf' }
                | None \<Rightarrow> do { buf' \<leftarrow> put16 pos 0 buf; input_read cd m n (pos + 2) (addr + 1) prev buf' }) }"

section \<open>Coils\<close>

text \<open>
  \<open>mbbits.c\<close>: the number of bytes is always one more than the quotient, and the last byte counts
  the remaining bits only if there are any; the access mode is read before the null test.
\<close>

definition bits_bytes :: "u16 \<Rightarrow> nat" where
  "bits_bytes n = unat n div 8 + 1"

definition bits_in_byte :: "u16 \<Rightarrow> nat \<Rightarrow> nat" where
  "bits_in_byte n left = (if left = 1 \<and> unat n mod 8 > 0 then unat n mod 8 else 8)"

fun set_byte ::
  "'v sMBSlaveCommData \<Rightarrow> u8 \<Rightarrow> nat list \<Rightarrow> u16 \<Rightarrow> ('v \<Rightarrow> u16) \<Rightarrow> (eMBErrorCode \<times> u16 \<times> ('v \<Rightarrow> u16)) option" where
  "set_byte cd b [] addr m = Some (MB_ENOERR, addr, m)"
| "set_byte cd b (i # is) addr m =
     do { e \<leftarrow> eMBSlaveCoilsMap cd addr;
          e' \<leftarrow> e;
          (if bit_ucAccessMode e' = RO then Some (MB_ENOREG, addr, m)
           else set_byte cd b is (addr + 1)
                  (case bit_pvValue e' of
                     Some v \<Rightarrow> m(v := if bit b i then 1 else 0) | None \<Rightarrow> m)) }"

fun SetBits_loop ::
  "'v sMBSlaveCommData \<Rightarrow> buffer \<Rightarrow> u16 \<Rightarrow> nat \<Rightarrow> nat \<Rightarrow> u16 \<Rightarrow> ('v \<Rightarrow> u16) \<Rightarrow> (eMBErrorCode \<times> ('v \<Rightarrow> u16)) option" where
  "SetBits_loop cd buf n 0 pos addr m = Some (MB_ENOERR, m)"
| "SetBits_loop cd buf n (Suc left) pos addr m =
     do { b \<leftarrow> get buf pos;
          (err, addr', m') \<leftarrow> set_byte cd b [0..<bits_in_byte n (Suc left)] addr m;
          (if err \<noteq> MB_ENOERR then Some (err, m') else SetBits_loop cd buf n left (pos + 1) addr' m') }"

definition eMBSlaveUtilSetBits ::
  "'v sMBSlaveCommData \<Rightarrow> buffer \<Rightarrow> nat \<Rightarrow> u16 \<Rightarrow> u16 \<Rightarrow> ('v \<Rightarrow> u16) \<Rightarrow> (eMBErrorCode \<times> ('v \<Rightarrow> u16)) option" where
  "eMBSlaveUtilSetBits cd buf pos addr n m = SetBits_loop cd buf n (bits_bytes n) pos addr m"

fun get_byte ::
  "'v sMBSlaveCommData \<Rightarrow> ('v \<Rightarrow> u16) \<Rightarrow> nat list \<Rightarrow> u16 \<Rightarrow> u8 \<Rightarrow> (eMBErrorCode \<times> u16 \<times> u8) option" where
  "get_byte cd m [] addr b = Some (MB_ENOERR, addr, b)"
| "get_byte cd m (i # is) addr b =
     do { e \<leftarrow> eMBSlaveCoilsMap cd addr;
          e' \<leftarrow> e;
          (if bit_ucAccessMode e' = WO then Some (MB_ENOREG, addr, b)
           else get_byte cd m is (addr + 1)
                  (case bit_pvValue e' of
                     Some v \<Rightarrow> if (ucast (m v) :: u8) > 0 then b OR push_bit i 1 else b | None \<Rightarrow> b)) }"

fun GetBits_loop ::
  "'v sMBSlaveCommData \<Rightarrow> ('v \<Rightarrow> u16) \<Rightarrow> u16 \<Rightarrow> nat \<Rightarrow> nat \<Rightarrow> u16 \<Rightarrow> buffer \<Rightarrow> (eMBErrorCode \<times> buffer) option" where
  "GetBits_loop cd m n 0 pos addr buf = Some (MB_ENOERR, buf)"
| "GetBits_loop cd m n (Suc left) pos addr buf =
     do { buf0 \<leftarrow> put pos 0 buf;
          (err, addr', b) \<leftarrow> get_byte cd m [0..<bits_in_byte n (Suc left)] addr 0;
          buf1 \<leftarrow> put pos b buf0;
          (if err \<noteq> MB_ENOERR then Some (err, buf1) else GetBits_loop cd m n left (pos + 1) addr' buf1) }"

definition eMBSlaveUtilGetBits ::
  "'v sMBSlaveCommData \<Rightarrow> ('v \<Rightarrow> u16) \<Rightarrow> nat \<Rightarrow> u16 \<Rightarrow> u16 \<Rightarrow> buffer \<Rightarrow> (eMBErrorCode \<times> buffer) option" where
  "eMBSlaveUtilGetBits cd m pos addr n buf = GetBits_loop cd m n (bits_bytes n) pos addr buf"

section \<open>State of a slave\<close>

text \<open>
  The part of \<open>sMBSlaveInfo\<close> and \<open>sMBSlavePort\<close> the TCP slave uses. The queued event is absent while
  \<open>xEventInQueue\<close> is false; \<open>pucMBFrame\<close> is an offset in \<open>ucRcvBuf\<close>; \<open>sent\<close> collects the bytes passed
  to the socket.
\<close>

datatype eMBSlaveEventType = EV_READY | EV_FRAME_RECEIVED | EV_EXECUTE | EV_FRAME_SENT | EV_ERROR_RCV

datatype eMBState = STATE_ENABLED | STATE_DISABLED | STATE_NOT_INITIALIZED

record 'v slave =
  psSlaveCurData :: "'v sMBSlaveCommData"
  slave_mem :: "'v \<Rightarrow> u16"
  ucSlaveAddr :: u8
  eMBState :: eMBState
  ucRcvBuf :: buffer
  usRcvBufferPos :: u16
  usLength :: u16
  pucMBFrame :: "nat option"
  ucRcvAddress :: u8
  eQueuedEvent :: "eMBSlaveEventType option"
  xSocketConnected :: bool
  sent :: "u8 list list"

definition xMBSlavePortEventPost :: "eMBSlaveEventType \<Rightarrow> 'v slave \<Rightarrow> 'v slave" where
  "xMBSlavePortEventPost e s = s\<lparr>eQueuedEvent := Some e\<rparr>"

definition frame8 :: "nat \<Rightarrow> 'v slave \<Rightarrow> u8 option" where
  "frame8 off s = do { f \<leftarrow> pucMBFrame s; get (ucRcvBuf s) (f + off) }"

definition frame16 :: "nat \<Rightarrow> 'v slave \<Rightarrow> u16 option" where
  "frame16 off s = do { f \<leftarrow> pucMBFrame s; get16 (ucRcvBuf s) (f + off) }"

text \<open>A response starts with the function code and one more byte.\<close>

definition response_head :: "u8 \<Rightarrow> u8 \<Rightarrow> 'v slave \<Rightarrow> 'v slave option" where
  "response_head code b s =
     do { f \<leftarrow> pucMBFrame s;
          b1 \<leftarrow> put f code (ucRcvBuf s);
          b2 \<leftarrow> put (f + 1) b b1;
          Some (s\<lparr>ucRcvBuf := b2, usLength := 2\<rparr>) }"

section \<open>Callbacks\<close>

datatype access = Read | Write

definition eMBSlaveRegHoldingCB ::
  "nat \<Rightarrow> u16 \<Rightarrow> u16 \<Rightarrow> access \<Rightarrow> 'v slave \<Rightarrow> (eMBErrorCode \<times> 'v slave) option" where
  "eMBSlaveRegHoldingCB off addr n mode s =
     (let cd = psSlaveCurData s
      in if \<not> in_table (sMBRegHoldTable cd) addr n then Some (MB_ENOREG, s)
         else do { f \<leftarrow> pucMBFrame s;
                   (case mode of
                      Read \<Rightarrow> do { b \<leftarrow> hold_read cd (slave_mem s) (unat n) (f + off) addr 0 (ucRcvBuf s);
                                  Some (MB_ENOERR, s\<lparr>ucRcvBuf := b\<rparr>) }
                    | Write \<Rightarrow> do { (err, m) \<leftarrow> hold_write cd (ucRcvBuf s) (unat n) (f + off) addr (slave_mem s);
                                   Some (err, s\<lparr>slave_mem := m\<rparr>) }) })"

definition eMBSlaveRegInputCB ::
  "nat \<Rightarrow> u16 \<Rightarrow> u16 \<Rightarrow> 'v slave \<Rightarrow> (eMBErrorCode \<times> 'v slave) option" where
  "eMBSlaveRegInputCB off addr n s =
     (let cd = psSlaveCurData s
      in if \<not> in_table (sMBRegInTable cd) addr n then Some (MB_ENOREG, s)
         else do { f \<leftarrow> pucMBFrame s;
                   (err, b) \<leftarrow> input_read cd (slave_mem s) (unat n) (f + off) addr None (ucRcvBuf s);
                   Some (err, s\<lparr>ucRcvBuf := b\<rparr>) })"

definition eMBSlaveRegCoilsCB ::
  "nat \<Rightarrow> u16 \<Rightarrow> u16 \<Rightarrow> access \<Rightarrow> 'v slave \<Rightarrow> (eMBErrorCode \<times> 'v slave) option" where
  "eMBSlaveRegCoilsCB off addr n mode s =
     (let cd = psSlaveCurData s
      in if \<not> in_table (sMBCoilTable cd) addr n then Some (MB_ENOREG, s)
         else do { f \<leftarrow> pucMBFrame s;
                   (case mode of
                      Read \<Rightarrow> do { (err, b) \<leftarrow> eMBSlaveUtilGetBits cd (slave_mem s) (f + off) addr n (ucRcvBuf s);
                                  Some (err, s\<lparr>ucRcvBuf := b\<rparr>) }
                    | Write \<Rightarrow> do { (err, m) \<leftarrow> eMBSlaveUtilSetBits cd (ucRcvBuf s) (f + off) addr n (slave_mem s);
                                   Some (err, s\<lparr>slave_mem := m\<rparr>) }) })"

section \<open>Function handlers\<close>

text \<open>Each takes the request at \<open>pucMBFrame\<close> and leaves the response there.\<close>

definition after_callback ::
  "('v slave \<Rightarrow> 'v slave) \<Rightarrow> eMBErrorCode \<times> 'v slave \<Rightarrow> eMBException \<times> 'v slave" where
  "after_callback done r = (if fst r \<noteq> MB_ENOERR then (prveMBSlaveError2Exception (fst r), snd r)
                            else (MB_EX_NONE, done (snd r)))"

definition eMBSlaveFuncWriteMultipleHoldingRegister :: "'v slave \<Rightarrow> (eMBException \<times> 'v slave) option" where
  "eMBSlaveFuncWriteMultipleHoldingRegister s =
     (if usLength s \<ge> 6
      then do { addr \<leftarrow> frame16 1 s; n \<leftarrow> frame16 3 s; bytes \<leftarrow> frame8 5 s;
                (if n \<ge> 1 \<and> n \<le> 0x78 \<and> bytes = ucast (2 * n)
                 then map_option (after_callback (\<lambda>s. s\<lparr>usLength := 5\<rparr>))
                        (eMBSlaveRegHoldingCB 6 addr n Write s)
                 else Some (MB_EX_ILLEGAL_DATA_VALUE, s)) }
      else Some (MB_EX_ILLEGAL_DATA_VALUE, s))"

definition eMBSlaveFuncReadHoldingRegister :: "'v slave \<Rightarrow> (eMBException \<times> 'v slave) option" where
  "eMBSlaveFuncReadHoldingRegister s =
     (if usLength s = 5
      then do { addr \<leftarrow> frame16 1 s; n \<leftarrow> frame16 3 s;
                (if n \<ge> 1 \<and> n \<le> 0x7D
                 then do { s1 \<leftarrow> response_head 3 (ucast (n * 2)) s;
                           map_option (after_callback (\<lambda>s. s\<lparr>usLength := usLength s + n * 2\<rparr>))
                             (eMBSlaveRegHoldingCB 2 addr n Read s1) }
                 else Some (MB_EX_ILLEGAL_DATA_VALUE, s)) }
      else Some (MB_EX_ILLEGAL_DATA_VALUE, s))"

text \<open>A request that is too short is not refused here.\<close>

definition eMBSlaveFuncReadWriteMultipleHoldingRegister :: "'v slave \<Rightarrow> (eMBException \<times> 'v slave) option" where
  "eMBSlaveFuncReadWriteMultipleHoldingRegister s =
     (if usLength s \<ge> 10
      then do { raddr \<leftarrow> frame16 1 s; rn \<leftarrow> frame16 3 s; waddr \<leftarrow> frame16 5 s; wn \<leftarrow> frame16 7 s;
                bytes \<leftarrow> frame8 9 s;
                (if rn \<ge> 1 \<and> rn \<le> 0x7D \<and> wn \<ge> 1 \<and> wn \<le> 0x79 \<and> 2 * wn = ucast bytes
                 then do { (err, s1) \<leftarrow> eMBSlaveRegHoldingCB 10 (waddr + 1) wn Write s;
                           (if err = MB_ENOERR
                            then do { s2 \<leftarrow> response_head 23 (ucast (rn * 2)) s1;
                                      map_option (after_callback (\<lambda>s. s\<lparr>usLength := usLength s + 2 * rn\<rparr>))
                                        (eMBSlaveRegHoldingCB 2 raddr rn Read s2) }
                            else Some (prveMBSlaveError2Exception err, s1)) }
                 else Some (MB_EX_ILLEGAL_DATA_VALUE, s)) }
      else Some (MB_EX_NONE, s))"

definition eMBSlaveFuncReadInputRegister :: "'v slave \<Rightarrow> (eMBException \<times> 'v slave) option" where
  "eMBSlaveFuncReadInputRegister s =
     (if usLength s = 5
      then do { addr \<leftarrow> frame16 1 s; n \<leftarrow> frame16 3 s;
                (if n \<ge> 1 \<and> n < 0x7D
                 then do { s1 \<leftarrow> response_head 4 (ucast (n * 2)) s;
                           map_option (after_callback (\<lambda>s. s\<lparr>usLength := usLength s + n * 2\<rparr>))
                             (eMBSlaveRegInputCB 2 addr n s1) }
                 else Some (MB_EX_ILLEGAL_DATA_VALUE, s)) }
      else Some (MB_EX_ILLEGAL_DATA_VALUE, s))"

definition coil_bytes :: "u16 \<Rightarrow> u8" where
  "coil_bytes n = (if n AND 7 \<noteq> 0 then ucast (n div 8 + 1) else ucast (n div 8))"

text \<open>Reading adds one to the coil address, writing does not.\<close>

definition eMBSlaveFuncReadCoils :: "'v slave \<Rightarrow> (eMBException \<times> 'v slave) option" where
  "eMBSlaveFuncReadCoils s =
     (if usLength s = 5
      then do { addr \<leftarrow> frame16 1 s; n \<leftarrow> frame16 3 s;
                (if n \<ge> 1 \<and> n < 0x7D0
                 then do { s1 \<leftarrow> response_head 1 (coil_bytes n) s;
                           map_option (after_callback (\<lambda>s. s\<lparr>usLength := usLength s + ucast (coil_bytes n)\<rparr>))
                             (eMBSlaveRegCoilsCB 2 (addr + 1) n Read s1) }
                 else Some (MB_EX_ILLEGAL_DATA_VALUE, s)) }
      else Some (MB_EX_ILLEGAL_DATA_VALUE, s))"

definition eMBSlaveFuncWriteMultipleCoils :: "'v slave \<Rightarrow> (eMBException \<times> 'v slave) option" where
  "eMBSlaveFuncWriteMultipleCoils s =
     (if usLength s > 5
      then do { addr \<leftarrow> frame16 1 s; n \<leftarrow> frame16 3 s; bytes \<leftarrow> frame8 5 s;
                (if n \<ge> 1 \<and> n \<le> 0x7B0 \<and> coil_bytes n = bytes
                 then map_option (after_callback (\<lambda>s. s\<lparr>usLength := 5\<rparr>)) (eMBSlaveRegCoilsCB 6 addr n Write s)
                 else Some (MB_EX_ILLEGAL_DATA_VALUE, s)) }
      else Some (MB_EX_ILLEGAL_DATA_VALUE, s))"

text \<open>\<open>xFuncHandlers\<close> with the functions that are enabled; the code compares in this order.\<close>

definition xFuncHandlers :: "(u8 \<times> ('v slave \<Rightarrow> (eMBException \<times> 'v slave) option)) list" where
  "xFuncHandlers = [(4, eMBSlaveFuncReadInputRegister), (3, eMBSlaveFuncReadHoldingRegister),
     (16, eMBSlaveFuncWriteMultipleHoldingRegister), (23, eMBSlaveFuncReadWriteMultipleHoldingRegister),
     (1, eMBSlaveFuncReadCoils), (15, eMBSlaveFuncWriteMultipleCoils)]"

definition call_handler :: "u8 \<Rightarrow> 'v slave \<Rightarrow> (eMBException \<times> 'v slave) option" where
  "call_handler code s = (case map_of xFuncHandlers code of
     Some h \<Rightarrow> h s | None \<Rightarrow> Some (MB_EX_ILLEGAL_FUNCTION, s))"

section \<open>Transport and polling\<close>

text \<open>
  \<open>recv\<close> is the bytes the socket gives, at most 256; none means that the connection is closed. The
  code first waits until the server task has accepted a connection.
\<close>

definition xMBSlaveTCPPortGetRequest :: "u8 list \<Rightarrow> 'v slave \<Rightarrow> 'v slave" where
  "xMBSlaveTCPPortGetRequest recv s =
     (let s1 = s\<lparr>xSocketConnected := True, usRcvBufferPos := 0\<rparr>; bytes = take 256 recv
      in if bytes = [] then xMBSlavePortEventPost EV_ERROR_RCV (s1\<lparr>xSocketConnected := False\<rparr>)
         else xMBSlavePortEventPost EV_FRAME_RECEIVED
                (s1\<lparr>ucRcvBuf := bytes @ drop (length bytes) (ucRcvBuf s), usRcvBufferPos := of_nat (length bytes)\<rparr>))"

definition eMBSlaveTCPReceive :: "'v slave \<Rightarrow> eMBErrorCode \<times> 'v slave" where
  "eMBSlaveTCPReceive s =
     (let b = ucRcvBuf s
      in if word16 (b ! 2) (b ! 3) = 0
         then let s1 = s\<lparr>usLength := ucast (b ! 5) - 1, ucRcvAddress := b ! 6, pucMBFrame := Some 7\<rparr>
              in (if uint (usRcvBufferPos s) - 7 + 1 < uint (usLength s1) then MB_EIO else MB_ENOERR, s1)
         else (MB_EIO, s))"

definition eMBSlaveTCPSend :: "u8 \<Rightarrow> 'v slave \<Rightarrow> 'v slave option" where
  "eMBSlaveTCPSend addr s =
     do { f \<leftarrow> pucMBFrame s;
          (if f < 7 then None else Some ());
          b1 \<leftarrow> put (f - 7 + 5) (ucast (usLength s) + 1) (ucRcvBuf s);
          b2 \<leftarrow> put (f - 7 + 6) addr b1;
          (if f - 7 + unat (usLength s + 7) \<le> length b2
           then Some (xMBSlavePortEventPost EV_FRAME_SENT
             (s\<lparr>ucRcvBuf := b2, sent := sent s @ [take (unat (usLength s + 7)) (drop (f - 7) b2)]\<rparr>))
           else None) }"

definition eMBSlaveTCPInit :: "'v slave \<Rightarrow> 'v slave" where
  "eMBSlaveTCPInit s = s\<lparr>eQueuedEvent := None, eMBState := STATE_DISABLED\<rparr>"

definition eMBSlaveEnable :: "u8 list \<Rightarrow> 'v slave \<Rightarrow> eMBErrorCode \<times> 'v slave" where
  "eMBSlaveEnable recv s =
     (if eMBState s = STATE_DISABLED
      then (MB_ENOERR, (xMBSlaveTCPPortGetRequest recv s)\<lparr>eMBState := STATE_ENABLED\<rparr>)
      else (MB_EILLSTATE, s))"

text \<open>Executing a request: broadcasts get no answer, and then nothing is posted either.\<close>

definition execute_request :: "'v slave \<Rightarrow> 'v slave option" where
  "execute_request s =
     do { code \<leftarrow> frame8 0 s;
          (ex, s1) \<leftarrow> call_handler code s;
          (if ucRcvAddress s1 \<noteq> 0
           then do { s2 \<leftarrow> (if ex \<noteq> MB_EX_NONE
                            then response_head (code OR 128) (exception_code ex) s1 else Some s1);
                     eMBSlaveTCPSend (ucSlaveAddr s2) s2 }
           else Some s1) }"

text \<open>
  One call of \<open>eMBSlavePoll\<close>. With no event in the queue the task waits in
  \<open>xMBSlavePortEventGet\<close>; the state stays as it is.
\<close>

definition eMBSlavePoll :: "u8 list \<Rightarrow> 'v slave \<Rightarrow> (eMBErrorCode \<times> 'v slave) option" where
  "eMBSlavePoll recv s =
     (if eMBState s \<noteq> STATE_ENABLED then Some (MB_EILLSTATE, s)
      else case eQueuedEvent s of
        None \<Rightarrow> Some (MB_ENOERR, s)
      | Some e \<Rightarrow>
          let s0 = s\<lparr>eQueuedEvent := None\<rparr>
          in case e of
               EV_FRAME_RECEIVED \<Rightarrow>
                 (let (err, s1) = eMBSlaveTCPReceive s0
                  in Some (MB_ENOERR,
                       if err = MB_ENOERR
                       then (if ucRcvAddress s1 = ucSlaveAddr s1 \<or> ucRcvAddress s1 = 0
                             then xMBSlavePortEventPost EV_EXECUTE s1 else s1)
                       else xMBSlavePortEventPost EV_ERROR_RCV s1))
             | EV_EXECUTE \<Rightarrow> map_option (\<lambda>s. (MB_ENOERR, s)) (execute_request s0)
             | _ \<Rightarrow> Some (MB_ENOERR, xMBSlaveTCPPortGetRequest recv s0))"

text \<open>The task: after initialisation and start it polls for ever; here, once per given read.\<close>

fun poll_loop :: "u8 list list \<Rightarrow> 'v slave \<Rightarrow> 'v slave option" where
  "poll_loop [] s = Some s"
| "poll_loop (r # rs) s = do { (err, s1) \<leftarrow> eMBSlavePoll r s; poll_loop rs s1 }"

fun vMBSlaveTCPPollTask :: "u8 list list \<Rightarrow> 'v slave \<Rightarrow> 'v slave option" where
  "vMBSlaveTCPPollTask [] s = Some (eMBSlaveTCPInit s)"
| "vMBSlaveTCPPollTask (r # rs) s = poll_loop rs (snd (eMBSlaveEnable r (eMBSlaveTCPInit s)))"

end
