(* ===== verification/MbRegs.thy ===== *)
theory MbRegs
  imports MbSlave
begin

text \<open>
  What the loops of the register callbacks do, proved once for any dictionary (locale
  \<open>register_dict\<close>): reading writes the two bytes of each register in turn, writing applies the
  registers one after the other up to the first that is refused.
\<close>

section \<open>Bytes\<close>

definition word_bytes :: "u16 \<Rightarrow> buffer" where
  "word_bytes v = [hi_byte v, lo_byte v]"

lemma length_word_bytes [simp]: "length (word_bytes v) = 2"
  by (simp add: word_bytes_def)

lemma word16_bytes [simp]: "word16 (hi_byte v) (lo_byte v) = v"
  unfolding word16_def hi_byte_def lo_byte_def
  by (rule bit_word_eqI) (auto simp: bit_simps dest: bit_imp_le_length)

lemma hi_byte_0 [simp]: "hi_byte 0 = 0" and lo_byte_0 [simp]: "lo_byte 0 = 0"
  by (simp_all add: hi_byte_def lo_byte_def)

lemma put16_bytes:
  "put16 i v buf = (if i + 2 \<le> length buf then Some (take i buf @ word_bytes v @ drop (i + 2) buf) else None)"
  by (auto simp: put16_def put_def word_bytes_def upd_conv_take_nth_drop Let_def min_def
      take_Suc_conv_app_nth simp flip: Cons_nth_drop_Suc)

lemma get16_eq: "get16 buf i = (if i + 2 \<le> length buf then Some (word16 (buf ! i) (buf ! (i + 1))) else None)"
  by (auto simp: get16_def get_def)

definition word_at :: "buffer \<Rightarrow> nat \<Rightarrow> u16" where
  "word_at buf i = word16 (buf ! i) (buf ! (i + 1))"

text \<open>The words that stand one after the other from a position on.\<close>

fun buf_words :: "buffer \<Rightarrow> nat \<Rightarrow> nat \<Rightarrow> u16 list" where
  "buf_words buf pos 0 = []"
| "buf_words buf pos (Suc n) = word_at buf pos # buf_words buf (pos + 2) n"

lemma length_buf_words [simp]: "length (buf_words buf pos n) = n"
  by (induction n arbitrary: pos) auto

lemma nth_buf_words: "k < n \<Longrightarrow> buf_words buf pos n ! k = word_at buf (pos + 2 * k)"
  by (induction n arbitrary: pos k) (auto simp: nth_Cons' less_Suc_eq_0_disj)

lemma of_nat_u16_0: "(of_nat n :: u16) = 0 \<longleftrightarrow> 65536 dvd n"
  by (simp add: word_of_nat_eq_0_iff)

section \<open>The contract of a dictionary\<close>

definition known_type :: "'v sMBSlaveRegData \<Rightarrow> bool" where
  "known_type e \<longleftrightarrow> reg_ucDataType e \<noteq> MB_other"

text \<open>What the registers of an entry show, and whether and how they take a value.\<close>

definition shown :: "('v \<Rightarrow> u16) \<Rightarrow> 'v sMBSlaveRegData option \<Rightarrow> u16" where
  "shown m e = (case e of None \<Rightarrow> 0 | Some e' \<Rightarrow>
     (case reg_pvValue e' of None \<Rightarrow> 0 | Some v \<Rightarrow> if reg_ucAccessMode e' = WO then 0 else reg_read e' 0 (m v)))"

definition accepts :: "'v sMBSlaveRegData option \<Rightarrow> u16 \<Rightarrow> bool" where
  "accepts e w \<longleftrightarrow> (case e of None \<Rightarrow> True | Some e' \<Rightarrow>
     reg_pvValue e' = None \<or> reg_ucAccessMode e' \<noteq> RO \<and> reg_in_range e' (reg_scale e' w))"

definition stores :: "'v sMBSlaveRegData option \<Rightarrow> u16 \<Rightarrow> ('v \<Rightarrow> u16) \<Rightarrow> 'v \<Rightarrow> u16" where
  "stores e w m = (case e of None \<Rightarrow> m | Some e' \<Rightarrow>
     (case reg_pvValue e' of None \<Rightarrow> m
      | Some v \<Rightarrow> m(v := reg_store (reg_ucDataType e') (m v) (reg_scale e' w))))"

lemma reg_write_eq:
  "(case e of Some e' \<Rightarrow> reg_write e' w m | None \<Rightarrow> (MB_ENOERR, m)) =
   (if accepts e w then (MB_ENOERR, stores e w m) else (MB_EINVAL, m))"
  by (auto simp: reg_write_def accepts_def stores_def Let_def split: option.split)

lemma reg_read_prev: "known_type e \<Longrightarrow> reg_read e p c = reg_read e 0 c"
  by (auto simp: reg_read_def reg_load_def known_type_def split: data_type.split)

text \<open>The registers from an address on, the address wrapping as in the code.\<close>

fun shown_bytes :: "(u16 \<Rightarrow> 'v sMBSlaveRegData option) \<Rightarrow> ('v \<Rightarrow> u16) \<Rightarrow> nat \<Rightarrow> u16 \<Rightarrow> buffer" where
  "shown_bytes entry m 0 a = []"
| "shown_bytes entry m (Suc n) a = word_bytes (shown m (entry a)) @ shown_bytes entry m n (a + 1)"

fun store_all :: "(u16 \<Rightarrow> 'v sMBSlaveRegData option) \<Rightarrow> u16 list \<Rightarrow> u16 \<Rightarrow> ('v \<Rightarrow> u16) \<Rightarrow> 'v \<Rightarrow> u16" where
  "store_all entry [] a m = m"
| "store_all entry (w # ws) a m = store_all entry ws (a + 1) (stores (entry a) w m)"

fun accepted :: "(u16 \<Rightarrow> 'v sMBSlaveRegData option) \<Rightarrow> u16 list \<Rightarrow> u16 \<Rightarrow> nat" where
  "accepted entry [] a = 0"
| "accepted entry (w # ws) a = (if accepts (entry a) w then Suc (accepted entry ws (a + 1)) else 0)"

lemma length_shown_bytes [simp]: "length (shown_bytes entry m n a) = 2 * n"
  by (induction n arbitrary: a) auto

lemma accepted_le: "accepted entry ws a \<le> length ws"
  by (induction ws arbitrary: a) auto

lemma accepted_all: "accepted entry ws a = length ws \<longleftrightarrow> (\<forall>k<length ws. accepts (entry (a + of_nat k)) (ws ! k))"
proof (induction ws arbitrary: a)
  case (Cons w ws)
  have "(\<forall>k<Suc (length ws). accepts (entry (a + of_nat k)) ((w # ws) ! k)) \<longleftrightarrow>
    accepts (entry a) w \<and> (\<forall>k<length ws. accepts (entry (a + 1 + of_nat k)) (ws ! k))"
    by (auto simp: All_less_Suc2 ac_simps)
  then show ?case using Cons.IH[of "a + 1"] by auto
qed simp

lemma accepted_first_refused:
  "accepted entry ws a < length ws \<Longrightarrow>
   \<not> accepts (entry (a + of_nat (accepted entry ws a))) (ws ! accepted entry ws a)"
proof (induction ws arbitrary: a)
  case (Cons w ws)
  then show ?case using Cons.IH[of "a + 1"] by (auto simp: add.assoc add.commute add.left_commute)
qed simp

locale register_dict =
  fixes cd :: "'v sMBSlaveCommData" and entry :: "u16 \<Rightarrow> 'v sMBSlaveRegData option"
  assumes hold_map: "eMBSlaveRegHoldMap cd a = Some (entry a)"
    and has_variable: "entry a = Some e \<Longrightarrow> reg_pvValue e \<noteq> None"
    and has_type: "entry a = Some e \<Longrightarrow> known_type e"
    and own_variable: "entry a = Some e \<Longrightarrow> entry b = Some e' \<Longrightarrow> reg_pvValue e = reg_pvValue e' \<Longrightarrow> a = b"
begin

lemma hold_read_step:
  "hold_read cd m (Suc n) pos addr prev buf =
   (if pos + 2 \<le> length buf
    then hold_read cd m n (pos + 2) (addr + 1) (case entry addr of None \<Rightarrow> prev | Some e \<Rightarrow>
           if reg_ucAccessMode e = WO then prev else shown m (entry addr))
         (take pos buf @ word_bytes (shown m (entry addr)) @ drop (pos + 2) buf)
    else None)"
proof (cases "entry addr")
  case None
  then show ?thesis by (simp add: hold_map shown_def put16_bytes)
next
  case (Some e)
  then obtain v where "reg_pvValue e = Some v" using has_variable by blast
  moreover have "reg_read e prev (m v) = reg_read e 0 (m v)"
    using Some has_type reg_read_prev by blast
  ultimately show ?thesis using Some by (simp add: hold_map shown_def put16_bytes)
qed

lemma hold_read_spec:
  "pos + 2 * n \<le> length buf \<Longrightarrow>
   hold_read cd m n pos addr prev buf = Some (take pos buf @ shown_bytes entry m n addr @ drop (pos + 2 * n) buf)"
proof (induction n arbitrary: pos addr prev buf)
  case (Suc n)
  let ?b = "take pos buf @ word_bytes (shown m (entry addr)) @ drop (pos + 2) buf"
  have "length ?b = length buf" using Suc.prems by simp
  then show ?case
    using Suc.prems Suc.IH[of "pos + 2" ?b]
    by (simp del: hold_read.simps(2) add: hold_read_step min_def add.commute)
qed simp

lemma hold_read_fault:
  "length buf < pos + 2 * n \<Longrightarrow> pos \<le> length buf \<Longrightarrow> hold_read cd m n pos addr prev buf = None"
proof (induction n arbitrary: pos addr prev buf)
  case (Suc n)
  then show ?case by (simp del: hold_read.simps(2) add: hold_read_step)
qed simp

lemma hold_write_step:
  "hold_write cd buf (Suc n) pos addr m =
   (if pos + 2 \<le> length buf
    then if accepts (entry addr) (word_at buf pos)
         then hold_write cd buf n (pos + 2) (addr + 1) (stores (entry addr) (word_at buf pos) m)
         else Some (MB_EINVAL, m)
    else None)"
  by (simp add: hold_map get16_eq reg_write_eq word_at_def)

lemma hold_write_spec:
  assumes "pos + 2 * n \<le> length buf"
  defines "ws \<equiv> buf_words buf pos n"
  shows "hold_write cd buf n pos addr m =
    Some (if accepted entry ws addr = n then MB_ENOERR else MB_EINVAL,
          store_all entry (take (accepted entry ws addr) ws) addr m)"
  unfolding ws_def using assms(1)
proof (induction n arbitrary: pos addr m)
  case (Suc n)
  then show ?case by (simp del: hold_write.simps(2) add: hold_write_step)
qed simp

lemma stores_other:
  "entry a = Some e \<Longrightarrow> reg_pvValue e = Some v \<Longrightarrow> a \<noteq> b \<Longrightarrow> stores (entry b) w m v = m v"
  by (auto simp: stores_def split: option.split dest: own_variable)

text \<open>Every register that was written shows what was stored, and no other variable changes.\<close>

lemma store_all_other:
  assumes "entry a = Some e" "reg_pvValue e = Some v" "\<forall>k<length ws. a \<noteq> b + of_nat k"
  shows "store_all entry ws b m v = m v"
  using assms(3)
proof (induction ws arbitrary: b m)
  case (Cons w ws)
  have ne: "a \<noteq> b" "\<forall>k<length ws. a \<noteq> b + 1 + of_nat k"
    using Cons.prems by (auto simp: All_less_Suc2 add.assoc add.commute)
  show ?case using Cons.IH[OF ne(2)] stores_other[OF assms(1,2) ne(1)] by simp
qed simp

lemma store_all_at:
  assumes "k < length ws" "length ws \<le> 65536"
    and "entry (b + of_nat k) = Some e" "reg_pvValue e = Some v"
  shows "store_all entry ws b m v = reg_store (reg_ucDataType e) (m v) (reg_scale e (ws ! k))"
  using assms
proof (induction ws arbitrary: b m k)
  case (Cons w ws)
  show ?case
  proof (cases k)
    case 0
    have "b \<noteq> b + 1 + of_nat j" if "j < length ws" for j
    proof
      assume "b = b + 1 + of_nat j"
      then have "(of_nat (Suc j) :: u16) = 0" by simp
      then show False using that Cons.prems(2) by (simp only: of_nat_u16_0) (auto dest!: dvd_imp_le)
    qed
    then have "store_all entry ws (b + 1) (stores (entry b) w m) v = stores (entry b) w m v"
      using 0 Cons.prems by (intro store_all_other) auto
    then show ?thesis using 0 Cons.prems by (simp add: stores_def)
  next
    case (Suc j)
    have "store_all entry ws (b + 1) (stores (entry b) w m) v =
        reg_store (reg_ucDataType e) (stores (entry b) w m v) (reg_scale e (ws ! j))"
      using Cons.prems Suc by (intro Cons.IH) (auto simp: add.assoc)
    moreover have "stores (entry b) w m v = m v"
    proof (rule stores_other[OF Cons.prems(3,4)])
      have "(of_nat k :: u16) \<noteq> 0"
        using Suc Cons.prems(1,2) by (simp only: of_nat_u16_0) (auto dest!: dvd_imp_le)
      then show "b + of_nat k \<noteq> b" by simp
    qed
    ultimately show ?thesis using Suc by simp
  qed
qed simp

end

end
