(* ===== verification/MbCoils.thy ===== *)
theory MbCoils
  imports MbRegs
begin

text \<open>
  Coils: the nested loops of \<open>mbbits.c\<close> are one loop over coils, and this loop goes past the number
  asked for when that is a multiple of eight. Locale \<open>coil_dict\<close> is the contract of a dictionary.
\<close>

section \<open>One loop over the coils\<close>

definition coil_span :: "u16 \<Rightarrow> nat" where
  "coil_span n = (if unat n mod 8 = 0 then unat n + 8 else unat n)"

fun coils_write ::
  "'v sMBSlaveCommData \<Rightarrow> buffer \<Rightarrow> nat \<Rightarrow> nat \<Rightarrow> nat \<Rightarrow> u16 \<Rightarrow> ('v \<Rightarrow> u16) \<Rightarrow> (eMBErrorCode \<times> ('v \<Rightarrow> u16)) option" where
  "coils_write cd buf pos k 0 addr m = Some (MB_ENOERR, m)"
| "coils_write cd buf pos k (Suc n) addr m =
     do { b \<leftarrow> get buf (pos + k div 8); e \<leftarrow> eMBSlaveCoilsMap cd addr; e' \<leftarrow> e;
          (if bit_ucAccessMode e' = RO then Some (MB_ENOREG, m)
           else coils_write cd buf pos (k + 1) n (addr + 1)
             (case bit_pvValue e' of Some v \<Rightarrow> m(v := if bit b (k mod 8) then 1 else 0) | None \<Rightarrow> m)) }"

lemma byte_coils_write:
  assumes "get buf (pos + q) = Some b" "i + j \<le> 8"
  shows "coils_write cd buf pos (8 * q + i) (j + n) addr m =
    do { (err, addr', m') \<leftarrow> set_byte cd b [i..<i + j] addr m;
         (if err \<noteq> MB_ENOERR then Some (err, m') else coils_write cd buf pos (8 * q + i + j) n addr' m') }"
  using assms(2)
proof (induction j arbitrary: i addr m)
  case (Suc j)
  have q: "(8 * q + i) div 8 = q" "(8 * q + i) mod 8 = i" using Suc.prems by auto
  have "[i..<i + Suc j] = i # [Suc i..<Suc i + j]" by (simp add: upt_conv_Cons del: upt_Suc)
  then show ?case
    using Suc.IH[of "Suc i"] Suc.prems q assms(1)
    by (simp del: upt_Suc split: Option.bind_split)
qed simp

lemma byte_coils_write_fault:
  "get buf (pos + q) = None \<Longrightarrow> 0 < n \<Longrightarrow> coils_write cd buf pos (8 * q) n addr m = None"
  by (cases n) auto

lemma SetBits_loop_coils:
  assumes "r = (if unat n mod 8 = 0 then 8 else unat n mod 8)"
  shows "SetBits_loop cd buf n (Suc left) (pos + q) addr m = coils_write cd buf pos (8 * q) (8 * left + r) addr m"
proof (induction left arbitrary: q addr m)
  case 0
  have r: "bits_in_byte n (Suc 0) = r" "r \<le> 8" "0 < r" using assms by (auto simp: bits_in_byte_def)
  show ?case
  proof (cases "get buf (pos + q)")
    case None
    then show ?thesis using r by (simp add: byte_coils_write_fault)
  next
    case (Some b)
    then show ?thesis using byte_coils_write[of buf pos q b 0 r cd 0 addr m] r
      by (auto split: Option.bind_split)
  qed
next
  case (Suc left)
  have r: "bits_in_byte n (Suc (Suc left)) = 8" by (simp add: bits_in_byte_def)
  show ?case
  proof (cases "get buf (pos + q)")
    case None
    then show ?thesis by (simp add: byte_coils_write_fault del: coils_write.simps)
  next
    case (Some b)
    have step: "8 * q + 0 + 8 = 8 * (q + 1)" "[0..<0 + 8] = [0..<8]" by simp_all
    have "SetBits_loop cd buf n (Suc (Suc left)) (pos + q) addr m =
        do { (err, addr', m') \<leftarrow> set_byte cd b [0..<8] addr m;
             (if err \<noteq> MB_ENOERR then Some (err, m') else SetBits_loop cd buf n (Suc left) (pos + (q + 1)) addr' m') }"
      by (subst SetBits_loop.simps(2)) (unfold Some r add.assoc Option.bind_lunit, rule refl)
    also have "\<dots> = coils_write cd buf pos (8 * q) (8 + (8 * left + r)) addr m"
      unfolding Suc.IH using byte_coils_write[OF Some, of 0 8 cd "8 * left + r" addr m]
      unfolding step by simp
    also have "8 + (8 * left + r) = 8 * Suc left + r" by simp
    finally show ?thesis .
  qed
qed

lemma SetBits_coils: "eMBSlaveUtilSetBits cd buf pos addr n m = coils_write cd buf pos 0 (coil_span n) addr m"
proof -
  have "coil_span n = 8 * (unat n div 8) + (if unat n mod 8 = 0 then 8 else unat n mod 8)"
    using div_mult_mod_eq[of "unat n" 8] unfolding coil_span_def by presburger
  then show ?thesis
    using SetBits_loop_coils[OF refl, of cd buf n "unat n div 8" pos 0 addr m]
    by (simp add: eMBSlaveUtilSetBits_def bits_bytes_def)
qed

section \<open>The contract of a dictionary\<close>

definition coil_writable :: "'v sMBSlaveBitData option \<Rightarrow> bool" where
  "coil_writable e \<longleftrightarrow> (case e of None \<Rightarrow> False | Some e' \<Rightarrow> bit_ucAccessMode e' \<noteq> RO)"

text \<open>How many of the first \<open>n\<close> coils from an address on can be written.\<close>

fun writable_run :: "(u16 \<Rightarrow> 'v sMBSlaveBitData option) \<Rightarrow> nat \<Rightarrow> u16 \<Rightarrow> nat" where
  "writable_run coil 0 a = 0"
| "writable_run coil (Suc n) a = (if coil_writable (coil a) then Suc (writable_run coil n (a + 1)) else 0)"

definition coil_value :: "buffer \<Rightarrow> nat \<Rightarrow> nat \<Rightarrow> u16" where
  "coil_value buf pos k = (if bit (buf ! (pos + k div 8)) (k mod 8) then 1 else 0)"

lemma writable_run_le: "writable_run coil n a \<le> n"
  by (induction n arbitrary: a) auto

lemma writable_run_prefix: "j < writable_run coil n a \<Longrightarrow> coil_writable (coil (a + of_nat j))"
proof (induction n arbitrary: a j)
  case (Suc n)
  then show ?case using Suc.IH[of "j - 1" "a + 1"] by (cases j) (auto simp: add.assoc split: if_splits)
qed simp

lemma writable_run_end: "writable_run coil n a < n \<Longrightarrow> \<not> coil_writable (coil (a + of_nat (writable_run coil n a)))"
proof (induction n arbitrary: a)
  case (Suc n)
  then show ?case using Suc.IH[of "a + 1"] by (auto simp: ac_simps)
qed simp

locale coil_dict =
  fixes cd :: "'v sMBSlaveCommData" and coil :: "u16 \<Rightarrow> 'v sMBSlaveBitData option"
  assumes coil_map: "eMBSlaveCoilsMap cd a = Some (coil a)"
    and has_variable: "coil a = Some e \<Longrightarrow> bit_pvValue e \<noteq> None"
    and own_variable: "coil a = Some e \<Longrightarrow> coil b = Some e' \<Longrightarrow> bit_pvValue e = bit_pvValue e' \<Longrightarrow> a = b"
begin

text \<open>The memory after the first \<open>n\<close> coils, of which \<open>k\<close> is the first bit.\<close>

fun store_coils :: "buffer \<Rightarrow> nat \<Rightarrow> nat \<Rightarrow> nat \<Rightarrow> u16 \<Rightarrow> ('v \<Rightarrow> u16) \<Rightarrow> 'v \<Rightarrow> u16" where
  "store_coils buf pos k 0 a m = m"
| "store_coils buf pos k (Suc n) a m = store_coils buf pos (k + 1) n (a + 1)
     (m(the (bit_pvValue (the (coil a))) := coil_value buf pos k))"

lemma coils_write_spec:
  assumes "pos + (k + n - 1) div 8 < length buf"
  shows "coils_write cd buf pos k n a m =
    (if writable_run coil n a = n then Some (MB_ENOERR, store_coils buf pos k n a m)
     else if coil (a + of_nat (writable_run coil n a)) = None then None
     else Some (MB_ENOREG, store_coils buf pos k (writable_run coil n a) a m))"
  using assms
proof (induction n arbitrary: k a m)
  case (Suc n)
  have "k div 8 \<le> (k + Suc n - 1) div 8" by (rule div_le_mono) simp
  then have b: "get buf (pos + k div 8) = Some (buf ! (pos + k div 8))"
    using Suc.prems by (simp add: get_def)
  show ?case
  proof (cases "coil_writable (coil a)")
    case True
    then obtain e v where e: "coil a = Some e" "bit_ucAccessMode e \<noteq> RO" "bit_pvValue e = Some v"
      using has_variable by (auto simp: coil_writable_def split: option.splits)
    have "pos + (k + 1 + n - 1) div 8 < length buf" using Suc.prems by simp
    from Suc.IH[OF this, of "a + 1"] show ?thesis
      using e b True by (simp add: coil_map coil_value_def add.assoc)
  next
    case False
    then show ?thesis
      using b by (auto simp: coil_map coil_writable_def split: option.splits)
  qed
qed simp

lemma store_coils_other:
  assumes "coil a = Some e" "bit_pvValue e = Some v" "\<forall>j<n. a \<noteq> b + of_nat j"
    and "\<forall>j<n. coil (b + of_nat j) \<noteq> None"
  shows "store_coils buf pos k n b m v = m v"
  using assms(3,4)
proof (induction n arbitrary: k b m)
  case (Suc n)
  have all: "\<forall>j<n. a \<noteq> b + 1 + of_nat j" "\<forall>j<n. coil (b + 1 + of_nat j) \<noteq> None" "a \<noteq> b" "coil b \<noteq> None"
    using Suc.prems by (auto simp: All_less_Suc2 ac_simps)
  then obtain e' where e': "coil b = Some e'" by blast
  then have "the (bit_pvValue (the (coil b))) \<noteq> v"
    using own_variable[OF assms(1) e'] has_variable[OF e'] assms(2) all(3) by auto
  then show ?case using Suc.IH[OF all(1,2)] by simp
qed simp

lemma store_coils_at:
  assumes "j < n" "n \<le> 65536" "\<forall>i<n. coil (b + of_nat i) \<noteq> None"
    and "coil (b + of_nat j) = Some e" "bit_pvValue e = Some v"
  shows "store_coils buf pos k n b m v = coil_value buf pos (k + j)"
  using assms
proof (induction n arbitrary: k b m j)
  case (Suc n)
  have all: "\<forall>i<n. coil (b + 1 + of_nat i) \<noteq> None" "coil b \<noteq> None"
    using Suc.prems(3) by (auto simp: All_less_Suc2 ac_simps)
  show ?case
  proof (cases j)
    case 0
    have "b \<noteq> b + 1 + of_nat i" if "i < n" for i
    proof
      assume "b = b + 1 + of_nat i"
      then have "(of_nat (Suc i) :: u16) = 0" by simp
      then show False using that Suc.prems(2) by (simp only: of_nat_u16_0) (auto dest!: dvd_imp_le)
    qed
    then have "store_coils buf pos (k + 1) n (b + 1) (m(v := coil_value buf pos k)) v = coil_value buf pos k"
      using store_coils_other[of b e v n "b + 1"] 0 Suc.prems(4,5) all(1) by simp
    then show ?thesis using 0 Suc.prems(4,5) by simp
  next
    case (Suc i)
    then show ?thesis using Suc.IH[of i "b + 1" "k + 1"] Suc.prems all(1) by (simp add: add.assoc)
  qed
qed simp

text \<open>Reading the coils of one byte.\<close>

definition coil_on :: "('v \<Rightarrow> u16) \<Rightarrow> u16 \<Rightarrow> bool" where
  "coil_on m a = ((ucast (m (the (bit_pvValue (the (coil a))))) :: u8) > 0)"

fun read_bits :: "('v \<Rightarrow> u16) \<Rightarrow> nat \<Rightarrow> nat \<Rightarrow> u16 \<Rightarrow> u8 \<Rightarrow> u8" where
  "read_bits m i 0 a b = b"
| "read_bits m i (Suc n) a b = read_bits m (i + 1) n (a + 1) (if coil_on m a then b OR push_bit i 1 else b)"

lemma get_byte_spec:
  assumes "\<forall>j<n. \<exists>e. coil (a + of_nat j) = Some e \<and> bit_ucAccessMode e \<noteq> WO"
  shows "get_byte cd m [i..<i + n] a b = Some (MB_ENOERR, a + of_nat n, read_bits m i n a b)"
  using assms
proof (induction n arbitrary: i a b)
  case (Suc n)
  have all: "\<forall>j<n. \<exists>e. coil (a + 1 + of_nat j) = Some e \<and> bit_ucAccessMode e \<noteq> WO"
    using Suc.prems by (auto simp: All_less_Suc2 ac_simps)
  obtain e where e: "coil a = Some e" "bit_ucAccessMode e \<noteq> WO"
    using Suc.prems by (auto simp: All_less_Suc2)
  then obtain v where v: "bit_pvValue e = Some v" using has_variable by blast
  have "[i..<i + Suc n] = i # [Suc i..<Suc i + n]" by (simp add: upt_conv_Cons del: upt_Suc)
  then show ?case
    using Suc.IH[OF all, of "Suc i"] e v by (simp del: upt_Suc add: coil_map coil_on_def ac_simps)
qed simp

lemma get_byte_fault:
  assumes "j < n" "coil (a + of_nat j) = None" "\<forall>k<j. \<exists>e. coil (a + of_nat k) = Some e \<and> bit_ucAccessMode e \<noteq> WO"
  shows "get_byte cd m [i..<i + n] a b = None"
  using assms
proof (induction n arbitrary: i a b j)
  case (Suc n)
  have upt: "[i..<i + Suc n] = i # [Suc i..<Suc i + n]" by (simp add: upt_conv_Cons del: upt_Suc)
  show ?case
  proof (cases j)
    case 0
    then show ?thesis using Suc.prems upt by (simp del: upt_Suc add: coil_map)
  next
    case (Suc k)
    have "\<forall>l<k. \<exists>e. coil (a + 1 + of_nat l) = Some e \<and> bit_ucAccessMode e \<noteq> WO"
        "\<exists>e. coil a = Some e \<and> bit_ucAccessMode e \<noteq> WO"
      using Suc.prems(3) Suc by (auto simp: All_less_Suc2 ac_simps)
    then show ?thesis
      using Suc.IH[of k "a + 1" "Suc i"] Suc.prems Suc upt by (auto simp del: upt_Suc simp: coil_map add.assoc)
  qed
qed simp

lemma bit_read_bits:
  "i + n \<le> 8 \<Longrightarrow> bit (read_bits m i n a b) t \<longleftrightarrow> bit b t \<or> i \<le> t \<and> t < i + n \<and> coil_on m (a + of_nat (t - i))"
proof (induction n arbitrary: i a b)
  case (Suc n)
  have "bit (read_bits m i (Suc n) a b) t \<longleftrightarrow>
      bit (if coil_on m a then b OR push_bit i 1 else b) t \<or>
      Suc i \<le> t \<and> t < Suc i + n \<and> coil_on m (a + 1 + of_nat (t - Suc i))"
    using Suc.IH[of "Suc i" "a + 1"] Suc.prems by simp
  moreover have "bit (if coil_on m a then b OR push_bit i 1 else b) t \<longleftrightarrow> bit b t \<or> t = i \<and> coil_on m a"
    using Suc.prems by (auto simp: bit_simps)
  moreover have "coil_on m (a + of_nat (t - i)) = coil_on m (a + 1 + of_nat (t - Suc i))" if "i < t"
  proof -
    have "t - i = Suc (t - Suc i)" using that by simp
    then show ?thesis by (simp del: of_nat_diff add: add.assoc)
  qed
  ultimately show ?case
    by (cases t i rule: linorder_cases) (auto simp del: of_nat_diff)
qed auto


end

end
