(* ===== verification/BmsDict.thy ===== *)
theory BmsDict
  imports MbCoils
begin

text \<open>
  The register dictionary of the supervisor, \<open>Device/bms.c\<close>: which variable of the system stands
  behind which Modbus address. The two halves of the C code, the switch that gives an index and the
  table that is filled entry by entry, are modelled separately and shown to agree.
\<close>

section \<open>Variables\<close>

text \<open>
  The objects the table points into: \<open>pThis\<close> is the register image, \<open>pSystem\<close> the system, and the
  others are the devices of the system's lists.
\<close>

datatype bms_name =
    This string | Sys string
  | Unit nat string | SupFan nat string | Modul nat nat string
  | Comp nat nat nat string | OutFan nat nat nat string
  | ExFan nat string | CO2Sen nat string | SenOut nat string | SenIn nat string
  | UnitMeter string | ExAirFanMeter string

section \<open>The index switch\<close>

definition bms_hold_cases :: "(u16 \<times> u16) list" where
  "bms_hold_cases = [
   (0, 0), (1, 1), (2, 2), (3, 3), (4, 4), (11, 5), (12, 6), (13, 7), (14, 8), (15, 9),
   (17, 10), (18, 11), (19, 12), (20, 13), (29, 14), (30, 15), (31, 16), (32, 17), (33, 18), (37, 19),
   (38, 20), (39, 21), (40, 22), (41, 23), (42, 24), (43, 25), (44, 26), (45, 27), (46, 28), (52, 29),
   (53, 30), (54, 31), (55, 32), (56, 33), (57, 34), (58, 35), (59, 36), (64, 37), (65, 38), (66, 39),
   (67, 40), (68, 41), (69, 42), (75, 43), (76, 44), (77, 45), (78, 46), (79, 47), (80, 48), (81, 49),
   (93, 50), (94, 51), (95, 52), (96, 53), (97, 54), (98, 55), (99, 56), (113, 57), (114, 58), (115, 59),
   (116, 60), (117, 61), (118, 62), (119, 63), (120, 64), (121, 65), (122, 66), (124, 67), (125, 68), (126, 69),
   (127, 70), (128, 71), (129, 72), (130, 73), (131, 74), (132, 75), (133, 76), (134, 77), (135, 78), (145, 79),
   (146, 80), (147, 81), (148, 82), (149, 83), (150, 84), (151, 85), (152, 86), (153, 87), (154, 88), (156, 89),
   (157, 90), (158, 91), (159, 92), (160, 93), (161, 94), (162, 95), (163, 96), (164, 97), (165, 98), (166, 99),
   (167, 100), (179, 101), (181, 102), (191, 103), (201, 104), (211, 105), (235, 106), (236, 107), (237, 108), (241, 109),
   (242, 110), (250, 111), (251, 112), (252, 113), (253, 114), (254, 115), (255, 116), (256, 117), (257, 118), (258, 119),
   (259, 120), (260, 121), (261, 122), (268, 123), (269, 124), (270, 125), (271, 126), (272, 127), (273, 128), (274, 129),
   (275, 130), (276, 131), (277, 132), (278, 133), (279, 134), (286, 135), (287, 136), (288, 137), (305, 138), (306, 139),
   (307, 140)]"

definition bms_coil_cases :: "(u16 \<times> u16) list" where
  "bms_coil_cases = [
   (4, 0), (5, 1), (16, 2), (17, 3), (18, 4), (24, 5), (25, 6), (26, 7), (27, 8), (28, 9),
   (29, 10), (30, 11), (31, 12), (32, 13), (34, 14), (35, 15), (36, 16), (37, 17), (38, 18), (39, 19),
   (48, 20), (49, 21), (50, 22), (51, 23), (52, 24), (53, 25), (56, 26), (57, 27), (58, 28), (59, 29),
   (60, 30), (61, 31), (64, 32), (65, 33), (66, 34), (67, 35), (68, 36), (69, 37), (72, 38), (73, 39),
   (74, 40), (75, 41), (76, 42), (77, 43), (88, 44), (89, 45), (90, 46), (91, 47), (92, 48), (93, 49),
   (94, 50), (95, 51), (96, 52), (98, 53), (99, 54), (100, 55), (101, 56), (102, 57), (103, 58), (112, 59),
   (113, 60), (114, 61), (115, 62), (116, 63), (117, 64), (120, 65), (121, 66), (122, 67), (123, 68), (124, 69),
   (125, 70), (128, 71), (129, 72), (130, 73), (131, 74), (132, 75), (133, 76), (136, 77), (137, 78), (138, 79),
   (139, 80), (140, 81), (141, 82), (152, 83), (154, 84), (160, 85), (161, 86), (162, 87), (163, 88), (164, 89),
   (168, 90), (169, 91), (170, 92), (171, 93), (172, 94), (176, 95), (177, 96), (178, 97), (179, 98), (180, 99),
   (184, 100), (185, 101), (186, 102), (187, 103), (188, 104), (192, 105), (193, 106), (194, 107), (200, 108), (201, 109),
   (208, 110), (209, 111), (210, 112), (211, 113), (212, 114), (213, 115), (214, 116), (215, 117), (216, 118), (217, 119),
   (218, 120), (219, 121), (224, 122), (225, 123), (226, 124), (227, 125), (228, 126), (229, 127), (230, 128), (231, 129),
   (232, 130), (233, 131), (234, 132), (235, 133)]"

text \<open>Any other data type falls through with index 0.\<close>

definition xBMS_DevDataMapIndex :: "eDataType \<Rightarrow> u16 \<Rightarrow> u16 option" where
  "xBMS_DevDataMapIndex ty addr =
     (case ty of RegHoldData \<Rightarrow> map_of bms_hold_cases addr
      | CoilData \<Rightarrow> map_of bms_coil_cases addr
      | _ \<Rightarrow> Some 0)"

section \<open>The tables\<close>

abbreviation reg ::
  "u16 \<Rightarrow> data_type \<Rightarrow> u16 \<Rightarrow> u16 \<Rightarrow> access_mode \<Rightarrow> u8 \<Rightarrow> bms_name \<Rightarrow> bms_name sMBSlaveRegData" where
  "reg \<equiv> vMBSlaveRegDataInit"

abbreviation coil :: "u16 \<Rightarrow> access_mode \<Rightarrow> bms_name \<Rightarrow> bms_name sMBSlaveBitData" where
  "coil \<equiv> vMBSlaveBitDataInit"

definition bms_hold_system :: "bms_name sMBSlaveRegData list" where
  "bms_hold_system = [
   reg 0 MB_uint16 0 65535 RO 1 (Sys  ''usUnitID''),
   reg 1 MB_uint16 0 65535 RO 1 (Sys  ''usProtocolVer''),
   reg 2 MB_uint8 0 3 RW 1 (This ''eSystemMode''),
   reg 3 MB_uint8 1 4 RW 1 (This ''eRunningMode''),
   reg 4 MB_uint8 0 7 RO 1 (Sys  ''eSystemState''),
   reg 11 MB_int16 (-2) 56 RW 1 (Sys  ''sChickenGrowDays''),
   reg 12 MB_uint16 160 350 RW 1 (This ''usTempSet''),
   reg 13 MB_uint16 0 65535 RW 1 (This ''usFreAirSet_Vol_L''),
   reg 14 MB_uint16 0 1 RW 1 (This ''usFreAirSet_Vol_H''),
   reg 15 MB_uint16 0 450 RW 1 (Sys  ''usEnergyTemp''),
   reg 17 MB_uint16 0 550 RW 1 (Sys  ''usSupAirMax_T''),
   reg 18 MB_uint16 0 100 RW 1 (This ''usHumidityMax''),
   reg 19 MB_uint16 0 100 RW 1 (This ''usHumidityMin''),
   reg 20 MB_uint16 0 100 RW 1 (Sys  ''usTempDeviat''),
   reg 29 MB_uint16 0 3500 RW 1 (This ''usCO2AdjustThr_V''),
   reg 30 MB_uint16 0 3500 RW 1 (This ''usCO2AdjustDeviat''),
   reg 31 MB_uint16 0 3500 RW 1 (Sys  ''usCO2ExAirDeviat_1''),
   reg 32 MB_uint16 0 3500 RW 1 (Sys  ''usCO2ExAirDeviat_2''),
   reg 33 MB_uint16 0 3500 RW 1 (Sys  ''usCO2PPMAlarm''),
   reg 37 MB_uint16 0 500 RW 1 (This ''usExAirFanFreq''),
   reg 38 MB_uint16 0 500 RW 1 (This ''usExAirFanMinFreq''),
   reg 39 MB_uint16 0 500 RW 1 (This ''usExAirFanMaxFreq''),
   reg 40 MB_uint16 0 65535 RW 1 (This ''usExAirFanRated_Vol_L''),
   reg 41 MB_uint16 0 1 RW 1 (This ''usExAirFanRated_Vol_H''),
   reg 42 MB_uint16 0 7200 RW 1 (This ''usExAirFanCtrlPeriod''),
   reg 43 MB_uint16 0 7200 RW 1 (Sys  ''usExAirFanRunTimeLeast''),
   reg 44 MB_uint8 0 1 RW 1 (This ''eExAirFanType''),
   reg 45 MB_uint8 0 200 RW 1 (This ''ucExAirCoolRatio''),
   reg 46 MB_uint8 0 200 RW 1 (This ''ucExAirHeatRatio''),
   reg 52 MB_uint16 0 7200 RW 1 (Sys  ''usModeChangeTime_1''),
   reg 53 MB_uint16 0 7200 RW 1 (Sys  ''usModeChangeTime_2''),
   reg 54 MB_uint16 0 7200 RW 1 (Sys  ''usModeChangeTime_3''),
   reg 55 MB_uint16 0 7200 RW 1 (Sys  ''usModeChangeTime_4''),
   reg 56 MB_uint16 0 7200 RW 1 (Sys  ''usModeChangeTime_5''),
   reg 57 MB_uint16 0 7200 RW 1 (Sys  ''usModeChangeTime_6''),
   reg 58 MB_uint16 0 7200 RW 1 (Sys  ''usModeChangeTime_7''),
   reg 59 MB_uint16 0 7200 RW 1 (Sys  ''usModeChangeTime_8''),
   reg 64 MB_uint16 0 7200 RW 1 (Sys  ''usModeChangePeriod_1''),
   reg 65 MB_uint16 0 7200 RW 1 (Sys  ''usModeChangePeriod_2''),
   reg 66 MB_uint16 0 7200 RW 1 (Sys  ''usModeChangePeriod_3''),
   reg 67 MB_uint16 0 7200 RW 1 (Sys  ''usModeChangePeriod_4''),
   reg 68 MB_uint16 0 7200 RW 1 (Sys  ''usModeChangePeriod_5''),
   reg 69 MB_uint16 0 7200 RW 1 (Sys  ''usModeChangePeriod_6''),
   reg 75 MB_uint16 0 100 RW 1 (Sys  ''usModeAdjustTemp_0''),
   reg 76 MB_uint16 0 100 RW 1 (Sys  ''usModeAdjustTemp_1''),
   reg 77 MB_uint16 0 100 RW 1 (Sys  ''usModeAdjustTemp_2''),
   reg 78 MB_uint16 0 100 RW 1 (Sys  ''usModeAdjustTemp_3''),
   reg 79 MB_uint16 0 100 RW 1 (Sys  ''usModeAdjustTemp_4''),
   reg 80 MB_uint16 0 100 RW 1 (Sys  ''usModeAdjustTemp_5''),
   reg 81 MB_uint16 0 100 RW 1 (Sys  ''usModeAdjustTemp_6''),
   reg 93 MB_uint16 0 65535 RO 1 (This ''usTotalFreAir_Vol_L''),
   reg 94 MB_uint16 0 1 RO 1 (This ''usTotalFreAir_Vol_H''),
   reg 95 MB_uint16 0 5000 RO 1 (Sys  ''usCO2PPM''),
   reg 96 MB_int16 0 600 RO 1 (Sys  ''sAmbientIn_T''),
   reg 97 MB_int16 (-200) 600 RO 1 (Sys  ''sAmbientOut_T''),
   reg 98 MB_uint16 0 100 RO 1 (Sys  ''usAmbientIn_H''),
   reg 99 MB_uint16 0 100 RO 1 (Sys  ''usAmbientOut_H'')]"

definition bms_hold_units :: "bms_name sMBSlaveRegData list" where
  "bms_hold_units = [
   reg 113 MB_uint8 85 170 RW 1 (Unit 0 ''eSwitchCmd''),
   reg 114 MB_uint8 1 4 RO 1 (Unit 0 ''eRunningMode''),
   reg 115 MB_uint8 0 3 RO 1 (Unit 0 ''eFuncMode''),
   reg 116 MB_uint16 0 5000 RO 1 (Unit 0 ''usCO2PPMSelf''),
   reg 117 MB_int16 (-200) 1400 RO 1 (Unit 0 ''sRetAir_T''),
   reg 118 MB_int16 (-200) 1400 RO 1 (Unit 0 ''sSupAir_T''),
   reg 119 MB_uint16 0 65000 RO 1 (Unit 0 ''usRetAir_Vol''),
   reg 120 MB_uint16 0 65000 RO 1 (Unit 0 ''usSupAir_Vol''),
   reg 121 MB_uint16 0 65000 RO 1 (Unit 0 ''usFreAir_Vol''),
   reg 122 MB_uint16 0 65000 RW 1 (Unit 0 ''usFreAirSet_Vol''),
   reg 124 MB_uint16 0 1000 RO 1 (Unit 0 ''usFreAirDamper_Ang''),
   reg 125 MB_uint16 160 350 RO 1 (Unit 0 ''usCoolTempSet''),
   reg 126 MB_uint16 160 350 RO 1 (Unit 0 ''usHeatTempSet''),
   reg 127 MB_int16 (-400) 700 RO 1 (Unit 0 ''sAmbientInSelf_T''),
   reg 128 MB_int16 (-400) 700 RO 1 (Unit 0 ''sAmbientOutSelf_T''),
   reg 129 MB_uint16 0 100 RO 1 (Unit 0 ''usAmbientInSelf_H''),
   reg 130 MB_uint16 0 100 RO 1 (Unit 0 ''usAmbientOutSelf_H''),
   reg 131 MB_uint8 0 5 RO 1 (Modul 0 0 ''ucModularState''),
   reg 132 MB_uint8 0 5 RO 1 (Modul 0 1 ''ucModularState''),
   reg 133 MB_uint8 0 5 RO 1 (Modul 0 2 ''ucModularState''),
   reg 134 MB_uint8 0 5 RO 1 (Modul 0 3 ''ucModularState''),
   reg 135 MB_uint16 0 65535 RO 1 (Unit 0 ''Device.usRunTime_H''),
   reg 145 MB_uint8 85 170 RW 1 (Unit 1 ''eSwitchCmd''),
   reg 146 MB_uint8 1 4 RO 1 (Unit 1 ''eRunningMode''),
   reg 147 MB_uint8 0 3 RO 1 (Unit 1 ''eFuncMode''),
   reg 148 MB_uint16 0 5000 RO 1 (Unit 1 ''usCO2PPMSelf''),
   reg 149 MB_int16 (-200) 1400 RO 1 (Unit 1 ''sRetAir_T''),
   reg 150 MB_int16 (-200) 1400 RO 1 (Unit 1 ''sSupAir_T''),
   reg 151 MB_uint16 0 65000 RO 1 (Unit 1 ''usRetAir_Vol''),
   reg 152 MB_uint16 0 65000 RO 1 (Unit 1 ''usSupAir_Vol''),
   reg 153 MB_uint16 0 65000 RO 1 (Unit 1 ''usFreAir_Vol''),
   reg 154 MB_uint16 0 65000 RW 1 (Unit 1 ''usFreAirSet_Vol''),
   reg 156 MB_uint16 0 1000 RO 1 (Unit 1 ''usFreAirDamper_Ang''),
   reg 157 MB_uint16 160 350 RO 1 (Unit 1 ''usCoolTempSet''),
   reg 158 MB_uint16 160 350 RO 1 (Unit 1 ''usHeatTempSet''),
   reg 159 MB_int16 (-400) 700 RO 1 (Unit 1 ''sAmbientInSelf_T''),
   reg 160 MB_int16 (-400) 700 RO 1 (Unit 1 ''sAmbientOutSelf_T''),
   reg 161 MB_uint16 0 100 RO 1 (Unit 1 ''usAmbientInSelf_H''),
   reg 162 MB_uint16 0 100 RO 1 (Unit 1 ''usAmbientOutSelf_H''),
   reg 163 MB_uint8 0 5 RO 1 (Modul 1 0 ''ucModularState''),
   reg 164 MB_uint8 0 5 RO 1 (Modul 1 1 ''ucModularState''),
   reg 165 MB_uint8 0 5 RO 1 (Modul 1 2 ''ucModularState''),
   reg 166 MB_uint8 0 5 RO 1 (Modul 1 3 ''ucModularState''),
   reg 167 MB_uint16 0 65535 RO 1 (Unit 1 ''Device.usRunTime_H'')]"

definition bms_hold_devices :: "bms_name sMBSlaveRegData list" where
  "bms_hold_devices = [
   reg 179 MB_uint16 0 500 RO 1 (ExFan 0 ''usRunningFreq''),
   reg 181 MB_uint16 0 65535 RO 1 (ExFan 0 ''Device.usRunTime_H''),
   reg 191 MB_uint16 0 65535 RO 1 (ExFan 1 ''Device.usRunTime_H''),
   reg 201 MB_uint16 0 65535 RO 1 (ExFan 2 ''Device.usRunTime_H''),
   reg 211 MB_uint16 0 65535 RO 1 (ExFan 3 ''Device.usRunTime_H''),
   reg 235 MB_uint16 0 5000 RO 1 (CO2Sen 0 ''usAvgCO2PPM''),
   reg 236 MB_uint16 0 5000 RO 1 (CO2Sen 1 ''usAvgCO2PPM''),
   reg 237 MB_uint16 0 5000 RO 1 (CO2Sen 2 ''usAvgCO2PPM''),
   reg 241 MB_int16 (-200) 600 RO 1 (SenOut 0 ''sAvgTemp''),
   reg 242 MB_uint16 0 100 RO 1 (SenOut 0 ''usAvgHumi''),
   reg 250 MB_int16 0 600 RO 1 (SenIn 0 ''sAvgTemp''),
   reg 251 MB_int16 0 600 RO 1 (SenIn 1 ''sAvgTemp''),
   reg 252 MB_int16 0 600 RO 1 (SenIn 2 ''sAvgTemp''),
   reg 253 MB_int16 0 600 RO 1 (SenIn 3 ''sAvgTemp''),
   reg 254 MB_int16 0 600 RO 1 (SenIn 4 ''sAvgTemp''),
   reg 255 MB_int16 0 600 RO 1 (SenIn 5 ''sAvgTemp''),
   reg 256 MB_int16 0 600 RO 1 (SenIn 6 ''sAvgTemp''),
   reg 257 MB_int16 0 600 RO 1 (SenIn 7 ''sAvgTemp''),
   reg 258 MB_int16 0 600 RO 1 (SenIn 8 ''sAvgTemp''),
   reg 259 MB_int16 0 600 RO 1 (SenIn 9 ''sAvgTemp''),
   reg 260 MB_int16 0 600 RO 1 (SenIn 10 ''sAvgTemp''),
   reg 261 MB_int16 0 600 RO 1 (SenIn 11 ''sAvgTemp''),
   reg 268 MB_uint16 0 100 RO 1 (SenIn 0 ''usAvgHumi''),
   reg 269 MB_uint16 0 100 RO 1 (SenIn 1 ''usAvgHumi''),
   reg 270 MB_uint16 0 100 RO 1 (SenIn 2 ''usAvgHumi''),
   reg 271 MB_uint16 0 100 RO 1 (SenIn 3 ''usAvgHumi''),
   reg 272 MB_uint16 0 100 RO 1 (SenIn 4 ''usAvgHumi''),
   reg 273 MB_uint16 0 100 RO 1 (SenIn 5 ''usAvgHumi''),
   reg 274 MB_uint16 0 100 RO 1 (SenIn 6 ''usAvgHumi''),
   reg 275 MB_uint16 0 100 RO 1 (SenIn 7 ''usAvgHumi''),
   reg 276 MB_uint16 0 100 RO 1 (SenIn 8 ''usAvgHumi''),
   reg 277 MB_uint16 0 100 RO 1 (SenIn 9 ''usAvgHumi''),
   reg 278 MB_uint16 0 100 RO 1 (SenIn 10 ''usAvgHumi''),
   reg 279 MB_uint16 0 100 RO 1 (SenIn 11 ''usAvgHumi''),
   reg 286 MB_uint16 0 65535 RO 1 (UnitMeter  ''usPower''),
   reg 287 MB_uint16 0 65535 RO 1 (UnitMeter  ''usTotalEnergy_L''),
   reg 288 MB_uint16 0 65535 RO 1 (UnitMeter  ''usTotalEnergy_H''),
   reg 305 MB_uint16 0 65535 RO 1 (ExAirFanMeter  ''usPower''),
   reg 306 MB_uint16 0 65535 RO 1 (ExAirFanMeter  ''usTotalEnergy_L''),
   reg 307 MB_uint16 0 65535 RO 1 (ExAirFanMeter  ''usTotalEnergy_H'')]"

definition bms_coil_unit0 :: "bms_name sMBSlaveBitData list" where
  "bms_coil_unit0 = [
   coil 4 RW (This ''xAlarmEnable''),
   coil 5 RW (This ''xAlarmClean''),
   coil 16 RO (Sys  ''xTempSenInErr''),
   coil 17 RO (Sys  ''xHumiSenInErr''),
   coil 18 RO (Sys  ''xCO2SenErr''),
   coil 24 RW (Unit 0 ''xErrClean''),
   coil 25 RO (Unit 0 ''Device.eRunningState''),
   coil 26 RO (Unit 0 ''xStopErrFlag''),
   coil 27 RO (Unit 0 ''Device.xErrFlag''),
   coil 28 RO (Unit 0 ''Device.xAlarmFlag''),
   coil 29 RO (Unit 0 ''xCommErr''),
   coil 30 RO (SupFan 0 ''Device.eRunningState''),
   coil 31 RO (Unit 0 ''xSupAirDamperState''),
   coil 32 RO (Unit 0 ''xWetMode''),
   coil 34 RO (Unit 0 ''xRetAirSenErr''),
   coil 35 RO (Unit 0 ''xFreAirSenErr''),
   coil 36 RO (Unit 0 ''xCO2SenSelfErr_1''),
   coil 37 RO (Unit 0 ''xCO2SenSelfErr_2''),
   coil 38 RO (Unit 0 ''xTempSenInSelfErr''),
   coil 39 RO (Unit 0 ''xHumiSenInSelfErr''),
   coil 48 RO (Comp 0 0 0 ''Device.eRunningState''),
   coil 49 RO (Comp 0 0 1 ''Device.eRunningState''),
   coil 50 RO (OutFan 0 0 0 ''Device.eRunningState''),
   coil 51 RO (OutFan 0 0 1 ''Device.eRunningState''),
   coil 52 RO (Modul 0 0 ''xTempSenOutErr''),
   coil 53 RO (Modul 0 0 ''xHumiSenOutErr''),
   coil 56 RO (Comp 0 1 0 ''Device.eRunningState''),
   coil 57 RO (Comp 0 1 1 ''Device.eRunningState''),
   coil 58 RO (OutFan 0 1 0 ''Device.eRunningState''),
   coil 59 RO (OutFan 0 1 1 ''Device.eRunningState''),
   coil 60 RO (Modul 0 1 ''xTempSenOutErr''),
   coil 61 RO (Modul 0 1 ''xHumiSenOutErr''),
   coil 64 RO (Comp 0 2 0 ''Device.eRunningState''),
   coil 65 RO (Comp 0 2 1 ''Device.eRunningState''),
   coil 66 RO (OutFan 0 2 0 ''Device.eRunningState''),
   coil 67 RO (OutFan 0 2 1 ''Device.eRunningState''),
   coil 68 RO (Modul 0 2 ''xTempSenOutErr''),
   coil 69 RO (Modul 0 2 ''xHumiSenOutErr''),
   coil 72 RO (Comp 0 3 0 ''Device.eRunningState''),
   coil 73 RO (Comp 0 3 1 ''Device.eRunningState''),
   coil 74 RO (OutFan 0 3 0 ''Device.eRunningState''),
   coil 75 RO (OutFan 0 3 1 ''Device.eRunningState''),
   coil 76 RO (Modul 0 3 ''xTempSenOutErr''),
   coil 77 RO (Modul 0 3 ''xHumiSenOutErr'')]"

definition bms_coil_unit1 :: "bms_name sMBSlaveBitData list" where
  "bms_coil_unit1 = [
   coil 88 RW (Unit 1 ''xErrClean''),
   coil 89 RO (Unit 1 ''Device.eRunningState''),
   coil 90 RO (Unit 1 ''xStopErrFlag''),
   coil 91 RO (Unit 1 ''Device.xErrFlag''),
   coil 92 RO (Unit 1 ''Device.xAlarmFlag''),
   coil 93 RO (Unit 1 ''xCommErr''),
   coil 94 RO (SupFan 1 ''Device.eRunningState''),
   coil 95 RO (Unit 1 ''xSupAirDamperState''),
   coil 96 RO (Unit 1 ''xWetMode''),
   coil 98 RO (Unit 1 ''xRetAirSenErr''),
   coil 99 RO (Unit 1 ''xFreAirSenErr''),
   coil 100 RO (Unit 1 ''xCO2SenSelfErr_1''),
   coil 101 RO (Unit 1 ''xCO2SenSelfErr_2''),
   coil 102 RO (Unit 1 ''xTempSenInSelfErr''),
   coil 103 RO (Unit 1 ''xHumiSenInSelfErr''),
   coil 112 RO (Comp 1 0 0 ''Device.eRunningState''),
   coil 113 RO (Comp 1 0 1 ''Device.eRunningState''),
   coil 114 RO (OutFan 1 0 0 ''Device.eRunningState''),
   coil 115 RO (OutFan 1 0 1 ''Device.eRunningState''),
   coil 116 RO (Modul 1 0 ''xTempSenOutErr''),
   coil 117 RO (Modul 1 0 ''xHumiSenOutErr''),
   coil 120 RO (Comp 1 1 0 ''Device.eRunningState''),
   coil 121 RO (Comp 1 1 1 ''Device.eRunningState''),
   coil 122 RO (OutFan 1 1 0 ''Device.eRunningState''),
   coil 123 RO (OutFan 1 1 1 ''Device.eRunningState''),
   coil 124 RO (Modul 1 1 ''xTempSenOutErr''),
   coil 125 RO (Modul 1 1 ''xHumiSenOutErr''),
   coil 128 RO (Comp 1 2 0 ''Device.eRunningState''),
   coil 129 RO (Comp 1 2 1 ''Device.eRunningState''),
   coil 130 RO (OutFan 1 2 0 ''Device.eRunningState''),
   coil 131 RO (OutFan 1 2 1 ''Device.eRunningState''),
   coil 132 RO (Modul 1 2 ''xTempSenOutErr''),
   coil 133 RO (Modul 1 2 ''xHumiSenOutErr''),
   coil 136 RO (Comp 1 3 0 ''Device.eRunningState''),
   coil 137 RO (Comp 1 3 1 ''Device.eRunningState''),
   coil 138 RO (OutFan 1 3 0 ''Device.eRunningState''),
   coil 139 RO (OutFan 1 3 1 ''Device.eRunningState''),
   coil 140 RO (Modul 1 3 ''xTempSenOutErr''),
   coil 141 RO (Modul 1 3 ''xHumiSenOutErr'')]"

definition bms_coil_devices :: "bms_name sMBSlaveBitData list" where
  "bms_coil_devices = [
   coil 152 RO (UnitMeter  ''sMBSlaveDev.xOnLine''),
   coil 154 RW (This ''xExAirFanErrClean''),
   coil 160 RW (ExFan 0 ''eCtrlCmd''),
   coil 161 RO (ExFan 0 ''xExAirFanErr''),
   coil 162 RO (ExFan 0 ''Device.eRunningState''),
   coil 163 RO (ExFan 0 ''xExAirFanCtrlErr''),
   coil 164 RO (ExFan 0 ''xExAirFanRemote''),
   coil 168 RW (ExFan 1 ''eCtrlCmd''),
   coil 169 RO (ExFan 1 ''xExAirFanErr''),
   coil 170 RO (ExFan 1 ''Device.eRunningState''),
   coil 171 RO (ExFan 1 ''xExAirFanCtrlErr''),
   coil 172 RO (ExFan 1 ''xExAirFanRemote''),
   coil 176 RW (ExFan 2 ''eCtrlCmd''),
   coil 177 RO (ExFan 2 ''xExAirFanErr''),
   coil 178 RO (ExFan 2 ''Device.eRunningState''),
   coil 179 RO (ExFan 2 ''xExAirFanCtrlErr''),
   coil 180 RO (ExFan 2 ''xExAirFanRemote''),
   coil 184 RW (ExFan 3 ''eCtrlCmd''),
   coil 185 RO (ExFan 3 ''xExAirFanErr''),
   coil 186 RO (ExFan 3 ''Device.eRunningState''),
   coil 187 RO (ExFan 3 ''xExAirFanCtrlErr''),
   coil 188 RO (ExFan 3 ''xExAirFanRemote''),
   coil 192 RO (CO2Sen 0 ''xCO2SenErr''),
   coil 193 RO (CO2Sen 1 ''xCO2SenErr''),
   coil 194 RO (CO2Sen 2 ''xCO2SenErr''),
   coil 200 RO (Sys  ''xTempSenOutErr''),
   coil 201 RO (Sys  ''xHumiSenOutErr''),
   coil 208 RO (SenIn 0 ''xTempSenErr''),
   coil 209 RO (SenIn 1 ''xTempSenErr''),
   coil 210 RO (SenIn 2 ''xTempSenErr''),
   coil 211 RO (SenIn 3 ''xTempSenErr''),
   coil 212 RO (SenIn 4 ''xTempSenErr''),
   coil 213 RO (SenIn 5 ''xTempSenErr''),
   coil 214 RO (SenIn 6 ''xTempSenErr''),
   coil 215 RO (SenIn 7 ''xTempSenErr''),
   coil 216 RO (SenIn 8 ''xTempSenErr''),
   coil 217 RO (SenIn 9 ''xTempSenErr''),
   coil 218 RO (SenIn 10 ''xTempSenErr''),
   coil 219 RO (SenIn 11 ''xTempSenErr''),
   coil 224 RO (SenIn 0 ''xHumiSenErr''),
   coil 225 RO (SenIn 1 ''xHumiSenErr''),
   coil 226 RO (SenIn 2 ''xHumiSenErr''),
   coil 227 RO (SenIn 3 ''xHumiSenErr''),
   coil 228 RO (SenIn 4 ''xHumiSenErr''),
   coil 229 RO (SenIn 5 ''xHumiSenErr''),
   coil 230 RO (SenIn 6 ''xHumiSenErr''),
   coil 231 RO (SenIn 7 ''xHumiSenErr''),
   coil 232 RO (SenIn 8 ''xHumiSenErr''),
   coil 233 RO (SenIn 9 ''xHumiSenErr''),
   coil 234 RO (SenIn 10 ''xHumiSenErr''),
   coil 235 RO (SenIn 11 ''xHumiSenErr'')]"

definition bms_hold_table :: "bms_name sMBSlaveRegData list" where
  "bms_hold_table = bms_hold_system @ bms_hold_units @ bms_hold_devices"

definition bms_coil_table :: "bms_name sMBSlaveBitData list" where
  "bms_coil_table = bms_coil_unit0 @ bms_coil_unit1 @ bms_coil_devices"

text \<open>The buffers have 150 and 140 entries; the rest stays zero.\<close>

definition zero_reg :: "bms_name sMBSlaveRegData" where
  "zero_reg = \<lparr>reg_usAddr = 0, reg_usMinVal = 0, reg_usMaxVal = 0, reg_ucTmitMult = 0,
     reg_ucDataType = MB_other, reg_ucAccessMode = RW, reg_pvValue = None\<rparr>"

definition zero_coil :: "bms_name sMBSlaveBitData" where
  "zero_coil = \<lparr>bit_usAddr = 0, bit_ucAccessMode = RW, bit_pvValue = None\<rparr>"

text \<open>The table of input registers is never initialised: its buffer pointer stays null.\<close>

definition vBMS_InitBMSCommData :: "bms_name sMBSlaveCommData" where
  "vBMS_InitBMSCommData =
     \<lparr>sMBRegInTable = \<lparr>pvDataBuf = None, usStartAddr = 0, usEndAddr = 0, usDataCount = 0\<rparr>,
      sMBRegHoldTable = vMBSlaveDevDataTableInit (bms_hold_table @ replicate 9 zero_reg) 0 307
        (of_nat (length bms_hold_table)),
      sMBCoilTable = vMBSlaveDevDataTableInit (bms_coil_table @ replicate 6 zero_coil) 0 240
        (of_nat (length bms_coil_table)),
      pxSlaveDataMapIndex = Some xBMS_DevDataMapIndex\<rparr>"

section \<open>Switch and tables agree\<close>

definition bms_hold :: "u16 \<Rightarrow> bms_name sMBSlaveRegData option" where
  "bms_hold addr = map_of (map (\<lambda>e. (reg_usAddr e, e)) bms_hold_table) addr"

definition bms_coil :: "u16 \<Rightarrow> bms_name sMBSlaveBitData option" where
  "bms_coil addr = map_of (map (\<lambda>e. (bit_usAddr e, e)) bms_coil_table) addr"

lemmas bms_hold_defs = bms_hold_table_def bms_hold_system_def bms_hold_units_def bms_hold_devices_def
lemmas bms_coil_defs = bms_coil_table_def bms_coil_unit0_def bms_coil_unit1_def bms_coil_devices_def

lemma length_bms_hold: "length bms_hold_table = 141"
  by (simp add: bms_hold_defs)

lemma length_bms_coil: "length bms_coil_table = 134"
  by (simp add: bms_coil_defs)

lemma bms_hold_keys: "map fst bms_hold_cases = map reg_usAddr bms_hold_table"
  by (simp add: bms_hold_cases_def bms_hold_defs vMBSlaveRegDataInit_def)

lemma bms_coil_keys: "map fst bms_coil_cases = map bit_usAddr bms_coil_table"
  by (simp add: bms_coil_cases_def bms_coil_defs vMBSlaveBitDataInit_def)

lemma bms_hold_indices: "map (unat \<circ> snd) bms_hold_cases = [0..<length bms_hold_table]"
  unfolding length_bms_hold by (simp add: bms_hold_cases_def upt_rec[of _ "numeral _"])

lemma bms_coil_indices: "map (unat \<circ> snd) bms_coil_cases = [0..<length bms_coil_table]"
  unfolding length_bms_coil by (simp add: bms_coil_cases_def upt_rec[of _ "numeral _"])

lemma index_agrees_offset:
  assumes "map fst cs = map key tab" "map (unat \<circ> snd) cs = [n..<n + length tab]"
  shows "case map_of cs a of
      Some i \<Rightarrow> n \<le> unat i \<and> unat i < n + length tab \<and> map_of (map (\<lambda>e. (key e, e)) tab) a = Some (tab ! (unat i - n))
    | None \<Rightarrow> map_of (map (\<lambda>e. (key e, e)) tab) a = None"
  using assms
proof (induction tab arbitrary: cs n)
  case (Cons e tab)
  then obtain k i cs' where cs: "cs = (k, i) # cs'" by (cases cs) auto
  have "[n..<n + length (e # tab)] = n # [Suc n..<Suc n + length tab]"
    by (simp add: upt_conv_Cons del: upt_Suc)
  then have *: "k = key e" "unat i = n" "map fst cs' = map key tab"
      "map (unat \<circ> snd) cs' = [Suc n..<Suc n + length tab]"
    using Cons.prems unfolding cs by (auto simp del: upt_Suc simp: comp_def)
  show ?case
    using Cons.IH[OF *(3,4)] *(1,2) unfolding cs by (auto split: option.splits simp: nth_Cons')
qed simp

lemma index_agrees:
  assumes "map fst cs = map key tab" "map (unat \<circ> snd) cs = [0..<length tab]"
  shows "case map_of cs a of
      Some i \<Rightarrow> unat i < length tab \<and> map_of (map (\<lambda>e. (key e, e)) tab) a = Some (tab ! unat i)
    | None \<Rightarrow> map_of (map (\<lambda>e. (key e, e)) tab) a = None"
  using index_agrees_offset[where n = 0 and a = a, OF assms(1)] assms(2) by (auto split: option.splits)

lemma bms_hold_index:
  "case xBMS_DevDataMapIndex RegHoldData a of
     Some i \<Rightarrow> unat i < 141 \<and> bms_hold a = Some (bms_hold_table ! unat i)
   | None \<Rightarrow> bms_hold a = None"
  using index_agrees[OF bms_hold_keys bms_hold_indices, of a]
  by (simp add: xBMS_DevDataMapIndex_def bms_hold_def length_bms_hold split: option.splits)

lemma bms_coil_index:
  "case xBMS_DevDataMapIndex CoilData a of
     Some i \<Rightarrow> unat i < 134 \<and> bms_coil a = Some (bms_coil_table ! unat i)
   | None \<Rightarrow> bms_coil a = None"
  using index_agrees[OF bms_coil_keys bms_coil_indices, of a]
  by (simp add: xBMS_DevDataMapIndex_def bms_coil_def length_bms_coil split: option.splits)

lemma bms_hold_map: "eMBSlaveRegHoldMap vBMS_InitBMSCommData a = Some (bms_hold a)"
  using bms_hold_index[of a] length_bms_hold
  by (auto simp: eMBSlaveRegHoldMap_def map_entry_def vBMS_InitBMSCommData_def
      vMBSlaveDevDataTableInit_def nth_append split: option.splits)

lemma bms_coil_map: "eMBSlaveCoilsMap vBMS_InitBMSCommData a = Some (bms_coil a)"
  using bms_coil_index[of a] length_bms_coil
  by (auto simp: eMBSlaveCoilsMap_def map_entry_def vBMS_InitBMSCommData_def
      vMBSlaveDevDataTableInit_def nth_append split: option.splits)

lemma bms_hold_variables: "distinct (map reg_pvValue bms_hold_table)"
  by (simp add: bms_hold_defs vMBSlaveRegDataInit_def)

lemma bms_coil_variables: "distinct (map bit_pvValue bms_coil_table)"
  by (simp add: bms_coil_defs vMBSlaveBitDataInit_def)

lemma bms_hold_entries: "list_all (\<lambda>e. reg_pvValue e \<noteq> None \<and> known_type e \<and> reg_ucTmitMult e = 1 \<and>
    reg_ucAccessMode e \<noteq> WO \<and> reg_ucDataType e \<noteq> MB_int8 \<and> (reg_ucDataType e = MB_uint8 \<longrightarrow> reg_usMaxVal e \<le> 255)) bms_hold_table"
  by (simp add: bms_hold_defs vMBSlaveRegDataInit_def known_type_def)

lemma bms_coil_entries: "list_all (\<lambda>e. bit_pvValue e \<noteq> None \<and> bit_ucAccessMode e \<noteq> WO) bms_coil_table"
  by (simp add: bms_coil_defs vMBSlaveBitDataInit_def)

lemma bms_hold_in: "bms_hold a = Some e \<Longrightarrow> e \<in> set bms_hold_table \<and> reg_usAddr e = a"
  by (auto simp: bms_hold_def dest!: map_of_SomeD)

lemma distinct_map_eq: "distinct (map f xs) \<Longrightarrow> x \<in> set xs \<Longrightarrow> y \<in> set xs \<Longrightarrow> f x = f y \<Longrightarrow> x = y"
  by (auto simp: distinct_map dest: inj_onD)

interpretation bms_regs: register_dict vBMS_InitBMSCommData bms_hold
proof
  fix a b e e'
  show "eMBSlaveRegHoldMap vBMS_InitBMSCommData a = Some (bms_hold a)" by (rule bms_hold_map)
  assume e: "bms_hold a = Some e"
  then have in_e: "e \<in> set bms_hold_table" "reg_usAddr e = a" using bms_hold_in by blast+
  show "reg_pvValue e \<noteq> None" "known_type e"
    using in_e bms_hold_entries by (auto simp: list_all_iff)
  assume "bms_hold b = Some e'" "reg_pvValue e = reg_pvValue e'"
  then show "a = b" using in_e bms_hold_in[of b e'] distinct_map_eq[OF bms_hold_variables] by blast
qed

lemma bms_coil_in: "bms_coil a = Some e \<Longrightarrow> e \<in> set bms_coil_table \<and> bit_usAddr e = a"
  by (auto simp: bms_coil_def dest!: map_of_SomeD)

interpretation bms_coils: coil_dict vBMS_InitBMSCommData bms_coil
proof
  fix a b e e'
  show "eMBSlaveCoilsMap vBMS_InitBMSCommData a = Some (bms_coil a)" by (rule bms_coil_map)
  assume e: "bms_coil a = Some e"
  then have in_e: "e \<in> set bms_coil_table" "bit_usAddr e = a" using bms_coil_in by blast+
  show "bit_pvValue e \<noteq> None"
    using in_e bms_coil_entries by (auto simp: list_all_iff)
  assume "bms_coil b = Some e'" "bit_pvValue e = bit_pvValue e'"
  then show "a = b" using in_e bms_coil_in[of b e'] distinct_map_eq[OF bms_coil_variables] by blast
qed

end
