(* ===== verification/SlaveProps.thy ===== *)
theory SlaveProps
  imports BmsDict
begin

text \<open>
  What the supervisor can rely on when it talks to the controller: which values a read returns,
  which writes are refused and what they leave behind, and how the polling loop goes on.
\<close>

section \<open>A slave that serves the supervisor's dictionary\<close>

definition bms_slave :: "bms_name slave \<Rightarrow> bool" where
  "bms_slave s \<longleftrightarrow> psSlaveCurData s = vBMS_InitBMSCommData \<and> length (ucRcvBuf s) = 256"

definition has_request :: "'v slave \<Rightarrow> bool" where
  "has_request s \<longleftrightarrow> pucMBFrame s = Some 7"

lemma bms_slave_dict: "bms_slave s \<Longrightarrow> psSlaveCurData s = vBMS_InitBMSCommData"
  and bms_slave_buf: "bms_slave s \<Longrightarrow> length (ucRcvBuf s) = 256"
  by (simp_all add: bms_slave_def)

lemma frame8_eq: "bms_slave s \<Longrightarrow> has_request s \<Longrightarrow> off < 249 \<Longrightarrow> frame8 off s = Some (ucRcvBuf s ! (7 + off))"
  by (simp add: frame8_def has_request_def get_def bms_slave_buf)

lemma frame16_eq: "bms_slave s \<Longrightarrow> has_request s \<Longrightarrow> off < 248 \<Longrightarrow> frame16 off s = Some (word_at (ucRcvBuf s) (7 + off))"
  by (simp add: frame16_def has_request_def get16_eq word_at_def bms_slave_buf)

lemma bms_in_table:
  "in_table (sMBRegHoldTable vBMS_InitBMSCommData) a n \<longleftrightarrow> uint a + uint n \<le> 308"
  by (auto simp: in_table_def vBMS_InitBMSCommData_def vMBSlaveDevDataTableInit_def length_bms_hold)

lemma RegHolding_read:
  assumes "bms_slave s" "has_request s" "off + 2 * unat n \<le> 249"
  shows "eMBSlaveRegHoldingCB off a n Read s =
    (if uint a + uint n \<le> 308
     then Some (MB_ENOERR, s\<lparr>ucRcvBuf := take (7 + off) (ucRcvBuf s) @
            shown_bytes bms_hold (slave_mem s) (unat n) a @ drop (7 + off + 2 * unat n) (ucRcvBuf s)\<rparr>)
     else Some (MB_ENOREG, s))"
  using assms bms_regs.hold_read_spec[of "7 + off" "unat n" "ucRcvBuf s"]
  by (simp add: eMBSlaveRegHoldingCB_def bms_slave_dict bms_in_table has_request_def bms_slave_buf Let_def)

lemma RegHolding_read_fault:
  assumes "bms_slave s" "has_request s" "off + 2 * unat n > 249" "off < 249" "uint a + uint n \<le> 308"
  shows "eMBSlaveRegHoldingCB off a n Read s = None"
  using assms bms_regs.hold_read_fault[of "ucRcvBuf s" "7 + off" "unat n"]
  by (simp add: eMBSlaveRegHoldingCB_def bms_slave_dict bms_in_table has_request_def bms_slave_buf Let_def)

lemma RegHolding_write:
  assumes "bms_slave s" "has_request s" "off + 2 * unat n \<le> 249"
  defines "ws \<equiv> buf_words (ucRcvBuf s) (7 + off) (unat n)"
  shows "eMBSlaveRegHoldingCB off a n Write s =
    (if uint a + uint n \<le> 308
     then Some (if accepted bms_hold ws a = unat n then MB_ENOERR else MB_EINVAL,
            s\<lparr>slave_mem := store_all bms_hold (take (accepted bms_hold ws a) ws) a (slave_mem s)\<rparr>)
     else Some (MB_ENOREG, s))"
  using assms bms_regs.hold_write_spec[of "7 + off" "unat n" "ucRcvBuf s"]
  by (simp add: eMBSlaveRegHoldingCB_def bms_slave_dict bms_in_table has_request_def bms_slave_buf Let_def)

lemma response_head_eq:
  assumes "bms_slave s" "has_request s"
  shows "response_head c b s = Some (s\<lparr>ucRcvBuf := (ucRcvBuf s)[7 := c, 8 := b], usLength := 2\<rparr>)"
  using assms by (simp add: response_head_def has_request_def put_def bms_slave_buf)

section \<open>Values\<close>

text \<open>The supervisor's registers show the variable as it is and take it as it comes.\<close>

lemma bms_shown:
  assumes "bms_hold a = Some e"
  obtains v where "reg_pvValue e = Some v" "shown m (bms_hold a) = reg_load (reg_ucDataType e) 0 (m v)"
proof -
  have e: "e \<in> set bms_hold_table" using assms bms_hold_in by blast
  then obtain v where v: "reg_pvValue e = Some v" using bms_hold_entries by (auto simp: list_all_iff)
  have "reg_ucTmitMult e = 1" "reg_ucAccessMode e \<noteq> WO" using e bms_hold_entries by (auto simp: list_all_iff)
  then show thesis using that v assms by (simp add: shown_def reg_read_def Let_def)
qed

lemma bms_store_load:
  assumes "bms_hold a = Some e" "accepts (Some e) w"
  shows "reg_scale e w = w" "reg_load (reg_ucDataType e) 0 (reg_store (reg_ucDataType e) c w) = w"
proof -
  have e: "e \<in> set bms_hold_table" using assms bms_hold_in by blast
  have ty: "known_type e" "reg_ucDataType e \<noteq> MB_int8" "reg_ucDataType e = MB_uint8 \<Longrightarrow> reg_usMaxVal e \<le> 255"
      "reg_pvValue e \<noteq> None" "reg_ucTmitMult e = 1"
    using e bms_hold_entries by (auto simp: list_all_iff)
  then show s: "reg_scale e w = w" by (simp add: reg_scale_def)
  have "ucast (ucast w :: u8) = w" if "w \<le> m" "m \<le> 255" for m :: u16
    using order.trans[OF that] by (simp add: word_unat_eq_iff word_le_nat_alt unsigned_ucast_eq unsigned_take_bit_eq take_bit_nat_eq_self)
  then show "reg_load (reg_ucDataType e) 0 (reg_store (reg_ucDataType e) c w) = w"
    using ty assms(2) s by (auto simp: accepts_def reg_in_range_def reg_load_def reg_store_def known_type_def
        Let_def split: data_type.splits)
qed

section \<open>A state to try things on\<close>

text \<open>A slave with address 1 whose buffer holds a request.\<close>

definition slave_example :: "u8 list \<Rightarrow> bms_name slave" where
  "slave_example req = \<lparr>psSlaveCurData = vBMS_InitBMSCommData, slave_mem = (\<lambda>_. 0), ucSlaveAddr = 1,
     eMBState = STATE_ENABLED, ucRcvBuf = req @ replicate (256 - length req) 0,
     usRcvBufferPos = of_nat (length req), usLength = of_nat (length req) - 7, pucMBFrame = Some 7,
     ucRcvAddress = 1, eQueuedEvent = Some EV_FRAME_RECEIVED, xSocketConnected = True, sent = []\<rparr>"

lemma slave_example_ok:
  "length req \<le> 256 \<Longrightarrow> bms_slave (slave_example req)" "has_request (slave_example req)"
  by (simp_all add: slave_example_def bms_slave_def has_request_def)

lemma slave_example_frame:
  "off + 8 < length req \<Longrightarrow> length req \<le> 256 \<Longrightarrow> frame16 off (slave_example req) = Some (word_at req (7 + off))"
  "off + 7 < length req \<Longrightarrow> length req \<le> 256 \<Longrightarrow> frame8 off (slave_example req) = Some (req ! (7 + off))"
  by (simp_all add: slave_example_def frame16_def frame8_def get16_eq get_def word_at_def nth_append)

lemma slave_example_fields [simp]:
  "slave_mem (slave_example req) = (\<lambda>_. 0)" "ucSlaveAddr (slave_example req) = 1"
  "eMBState (slave_example req) = STATE_ENABLED" "ucRcvAddress (slave_example req) = 1"
  "usLength (slave_example req) = of_nat (length req) - 7" "sent (slave_example req) = []"
  "eQueuedEvent (slave_example req) = Some EV_FRAME_RECEIVED"
  "ucRcvBuf (slave_example req) = req @ replicate (256 - length req) 0"
  by (simp_all add: slave_example_def)

lemma bms_hold_12: "bms_hold 12 = Some (reg 12 MB_uint16 160 350 RW 1 (This ''usTempSet''))"
  by (simp add: bms_hold_def bms_hold_defs vMBSlaveRegDataInit_def)

lemma bms_coils_4_5:
  "bms_coil 4 = Some (coil 4 RW (This ''xAlarmEnable''))" "bms_coil 5 = Some (coil 5 RW (This ''xAlarmClean''))"
  by (simp_all add: bms_coil_def bms_coil_defs vMBSlaveBitDataInit_def)

abbreviation write_12 :: "u8 \<Rightarrow> u8 list" where
  "write_12 v \<equiv> [0, 1, 0, 0, 0, 9, 1, 16, 0, 12, 0, 1, 2, 0, v]"

lemma word_at_shown:
  assumes "k < n"
  shows "word_at (pre @ shown_bytes entry m n a @ post) (length pre + 2 * k) = shown m (entry (a + of_nat k))"
  using assms
proof (induction n arbitrary: a k pre)
  case (Suc n)
  show ?case
  proof (cases k)
    case 0
    then show ?thesis by (simp add: word_at_def nth_append word_bytes_def)
  next
    case (Suc j)
    have "word_at ((pre @ word_bytes (shown m (entry a))) @ shown_bytes entry m n (a + 1) @ post)
        (length (pre @ word_bytes (shown m (entry a))) + 2 * j) = shown m (entry (a + 1 + of_nat j))"
      using Suc Suc.prems by (intro Suc.IH) simp
    then show ?thesis using Suc by (simp add: add.assoc)
  qed
qed simp

text \<open>The outcome of a write, in terms of single registers.\<close>

definition refuses :: "bms_name sMBSlaveRegData \<Rightarrow> u16 \<Rightarrow> bool" where
  "refuses e w \<longleftrightarrow> reg_ucAccessMode e = RO \<or> \<not> reg_in_range e w"

definition written :: "nat \<Rightarrow> u16 list \<Rightarrow> u16 \<Rightarrow> (bms_name \<Rightarrow> u16) \<Rightarrow> (bms_name \<Rightarrow> u16) \<Rightarrow> bool" where
  "written k ws a m m' \<longleftrightarrow> (\<forall>b e v. bms_hold b = Some e \<and> reg_pvValue e = Some v \<longrightarrow>
     (\<forall>j<k. b = a + of_nat j \<longrightarrow> m' v = reg_store (reg_ucDataType e) (m v) (ws ! j)) \<and>
     ((\<forall>j<k. b \<noteq> a + of_nat j) \<longrightarrow> m' v = m v))"

lemma accepted_prefix: "j < accepted entry ws a \<Longrightarrow> accepts (entry (a + of_nat j)) (ws ! j)"
proof (induction ws arbitrary: a j)
  case (Cons w ws)
  then show ?case using Cons.IH[of "j - 1" "a + 1"] by (cases j) (auto simp: add.assoc split: if_splits)
qed simp

lemma bms_scale: "bms_hold a = Some e \<Longrightarrow> reg_scale e w = w"
  using bms_hold_in[of a e] bms_hold_entries by (auto simp: list_all_iff reg_scale_def)

lemma store_all_written:
  assumes "length ws \<le> 65536"
  shows "written (accepted bms_hold ws a) ws a m (store_all bms_hold (take (accepted bms_hold ws a) ws) a m)"
proof -
  define k where "k = accepted bms_hold ws a"
  have k: "k \<le> length ws" unfolding k_def by (rule accepted_le)
  then have "length (take k ws) \<le> 65536" using assms(1) by simp
  then show ?thesis
    using k bms_regs.store_all_at[where ws = "take k ws" and b = a and m = m]
      bms_regs.store_all_other[where ws = "take k ws" and b = a and m = m]
    unfolding written_def k_def[symmetric] by (auto simp: bms_scale min_def)
qed

lemma not_accepts_bms:
  "\<not> accepts (bms_hold a) w \<longleftrightarrow> (\<exists>e. bms_hold a = Some e \<and> refuses e w)"
  using bms_hold_in[of a] bms_hold_entries bms_scale[of a]
  by (auto simp: accepts_def refuses_def list_all_iff split: option.splits)

text \<open>
  C15. A write of several holding registers answers exception 2 beyond address 307. Otherwise it
  writes the registers in order up to the first mapped one that is read-only or whose range does not
  contain the value, and then answers exception 3: the registers before it keep their new values,
  all other variables of the table are unchanged. Without such a register the answer is the
  request's head.
\<close>

theorem holding_write_outcome:
  assumes "bms_slave s" "has_request s" "usLength s \<ge> 6"
    and "frame16 1 s = Some a" "frame16 3 s = Some n" "frame8 5 s = Some (ucast (2 * n))" "n \<in> {1..0x78}"
  defines "ws \<equiv> buf_words (ucRcvBuf s) 13 (unat n)"
  shows "if uint a + uint n > 308
    then eMBSlaveFuncWriteMultipleHoldingRegister s = Some (MB_EX_ILLEGAL_DATA_ADDRESS, s)
    else \<exists>k m. written k ws a (slave_mem s) m \<and>
      (if k = unat n
       then eMBSlaveFuncWriteMultipleHoldingRegister s = Some (MB_EX_NONE, s\<lparr>slave_mem := m, usLength := 5\<rparr>)
       else eMBSlaveFuncWriteMultipleHoldingRegister s = Some (MB_EX_ILLEGAL_DATA_VALUE, s\<lparr>slave_mem := m\<rparr>) \<and>
         k < unat n \<and> (\<exists>e. bms_hold (a + of_nat k) = Some e \<and> refuses e (ws ! k))) \<and>
      (\<forall>j<k. \<forall>e. bms_hold (a + of_nat j) = Some e \<longrightarrow> \<not> refuses e (ws ! j))"
proof -
  have n: "unat n \<le> 120" "1 \<le> n" "n \<le> 0x78" using assms(7) by (simp_all add: word_le_nat_alt)
  have ws: "length ws = unat n" "length ws \<le> 65536" using n by (simp_all add: ws_def)
  define k where "k = accepted bms_hold ws a"
  have wr: "eMBSlaveRegHoldingCB 6 a n Write s =
    (if uint a + uint n \<le> 308
     then Some (if k = unat n then MB_ENOERR else MB_EINVAL,
            s\<lparr>slave_mem := store_all bms_hold (take k ws) a (slave_mem s)\<rparr>)
     else Some (MB_ENOREG, s))"
    using RegHolding_write[OF assms(1,2), of 6 n a] n by (simp add: ws_def k_def)
  have run: "eMBSlaveFuncWriteMultipleHoldingRegister s =
      map_option (after_callback (\<lambda>s. s\<lparr>usLength := 5\<rparr>)) (eMBSlaveRegHoldingCB 6 a n Write s)"
    using assms(3-6) n by (simp add: eMBSlaveFuncWriteMultipleHoldingRegister_def)
  have refused: "\<exists>e. bms_hold (a + of_nat k) = Some e \<and> refuses e (ws ! k)" if "k \<noteq> unat n"
    using accepted_first_refused[of bms_hold ws a] accepted_le[of bms_hold ws a] that ws
    unfolding k_def not_accepts_bms by fastforce
  have "written k ws a (slave_mem s) (store_all bms_hold (take k ws) a (slave_mem s))"
    unfolding k_def by (rule store_all_written[OF ws(2)])
  moreover have "\<forall>j<k. \<forall>e. bms_hold (a + of_nat j) = Some e \<longrightarrow> \<not> refuses e (ws ! j)"
    using accepted_prefix[of _ bms_hold ws a] not_accepts_bms unfolding k_def by blast
  moreover have "k \<le> unat n" using accepted_le[of bms_hold ws a] ws by (simp add: k_def)
  ultimately show ?thesis
    using refused unfolding run wr
    by (auto simp: after_callback_def intro!: exI[of _ k] exI[of _ "store_all bms_hold (take k ws) a (slave_mem s)"])
qed

theorem holding_write_outcome_witness:
  "\<exists>m. eMBSlaveFuncWriteMultipleHoldingRegister (slave_example (write_12 99)) =
     Some (MB_EX_ILLEGAL_DATA_VALUE, (slave_example (write_12 99))\<lparr>slave_mem := m\<rparr>) \<and>
   m (This ''usTempSet'') = 0"
proof -
  let ?s = "slave_example (write_12 99)"
  have w: "buf_words (ucRcvBuf ?s) 13 1 = [99]"
    by (simp add: word_at_def word16_def nth_append)
  have "\<exists>k m. written k [99] 12 (slave_mem ?s) m \<and>
      (if k = 1
       then eMBSlaveFuncWriteMultipleHoldingRegister ?s = Some (MB_EX_NONE, ?s\<lparr>slave_mem := m, usLength := 5\<rparr>)
       else eMBSlaveFuncWriteMultipleHoldingRegister ?s = Some (MB_EX_ILLEGAL_DATA_VALUE, ?s\<lparr>slave_mem := m\<rparr>) \<and>
         k < 1 \<and> (\<exists>e. bms_hold (12 + of_nat k) = Some e \<and> refuses e ([99] ! k))) \<and>
      (\<forall>j<k. \<forall>e. bms_hold (12 + of_nat j) = Some e \<longrightarrow> \<not> refuses e ([99] ! j))"
    using holding_write_outcome[of ?s 12 1, unfolded unsigned_1 w] slave_example_ok[of "write_12 99"]
    by (simp add: slave_example_frame word_at_def word16_def)
  then obtain k m where r: "written k [99] 12 (slave_mem ?s) m" "k = 0"
      "eMBSlaveFuncWriteMultipleHoldingRegister ?s = Some (MB_EX_ILLEGAL_DATA_VALUE, ?s\<lparr>slave_mem := m\<rparr>)"
    by (auto simp: bms_hold_12 refuses_def reg_in_range_def vMBSlaveRegDataInit_def split: if_splits)
  have "m (This ''usTempSet'') = slave_mem ?s (This ''usTempSet'')"
    using r(1,2) bms_hold_12 unfolding written_def by (fastforce simp: vMBSlaveRegDataInit_def)
  then show ?thesis using r(3) by (auto simp: slave_example_def)
qed


lemma buf_words_append: "length pre = pos \<Longrightarrow> pos + 2 * n \<le> length buf \<Longrightarrow>
  k < n \<Longrightarrow> word_at buf (pos + 2 * k) = buf_words buf pos n ! k"
  by (simp add: nth_buf_words)

text \<open>
  C16. Reading back: after an accepted write of registers, a read of the same addresses returns the
  written words, and zero for the addresses that stand for no variable.
\<close>

theorem holding_write_then_read:
  assumes "bms_slave s" "has_request s" "off + 2 * unat n \<le> 249"
    and "eMBSlaveRegHoldingCB off a n Write s = Some (MB_ENOERR, s1)"
  shows "\<exists>s2. eMBSlaveRegHoldingCB off a n Read s1 = Some (MB_ENOERR, s2) \<and>
    (\<forall>k<unat n. frame16 (off + 2 * k) s2 = (if bms_hold (a + of_nat k) = None then Some 0 else frame16 (off + 2 * k) s))"
proof -
  let ?ws = "buf_words (ucRcvBuf s) (7 + off) (unat n)"
  have range: "uint a + uint n \<le> 308" and all: "accepted bms_hold ?ws a = unat n"
      and s1: "s1 = s\<lparr>slave_mem := store_all bms_hold ?ws a (slave_mem s)\<rparr>"
    using assms(4) unfolding RegHolding_write[OF assms(1-3)] by (auto split: if_splits)
  have ok1: "bms_slave s1" "has_request s1" using assms(1,2) by (simp_all add: s1 bms_slave_def has_request_def)
  let ?b = "take (7 + off) (ucRcvBuf s) @ shown_bytes bms_hold (slave_mem s1) (unat n) a @
      drop (7 + off + 2 * unat n) (ucRcvBuf s)"
  have read: "eMBSlaveRegHoldingCB off a n Read s1 = Some (MB_ENOERR, s1\<lparr>ucRcvBuf := ?b\<rparr>)"
    using RegHolding_read[OF ok1 assms(3)] range by (simp add: s1)
  have "frame16 (off + 2 * k) (s1\<lparr>ucRcvBuf := ?b\<rparr>) =
      (if bms_hold (a + of_nat k) = None then Some 0 else frame16 (off + 2 * k) s)" if k: "k < unat n" for k
  proof -
    have "frame16 (off + 2 * k) (s1\<lparr>ucRcvBuf := ?b\<rparr>) = Some (word_at ?b (7 + off + 2 * k))"
      using ok1 assms(1-3) k by (subst frame16_eq) (auto simp: bms_slave_def has_request_def s1 add.assoc)
    also have "word_at ?b (7 + off + 2 * k) = shown (slave_mem s1) (bms_hold (a + of_nat k))"
      using word_at_shown[OF k, of "take (7 + off) (ucRcvBuf s)"] assms(1,3) k by (simp add: bms_slave_buf)
    finally have shown: "frame16 (off + 2 * k) (s1\<lparr>ucRcvBuf := ?b\<rparr>) =
        Some (shown (slave_mem s1) (bms_hold (a + of_nat k)))" .
    show ?thesis
    proof (cases "bms_hold (a + of_nat k)")
      case None
      then show ?thesis using shown by (simp add: shown_def)
    next
      case (Some e)
      obtain v where v: "reg_pvValue e = Some v"
          "shown (slave_mem s1) (bms_hold (a + of_nat k)) = reg_load (reg_ucDataType e) 0 (slave_mem s1 v)"
        using bms_shown[OF Some] by metis
      have "accepts (Some e) (?ws ! k)" using accepted_prefix[of k bms_hold ?ws a] all k Some by simp
      moreover have "slave_mem s1 v = reg_store (reg_ucDataType e) (slave_mem s v) (reg_scale e (?ws ! k))"
        using bms_regs.store_all_at[of k ?ws a e v "slave_mem s"] k Some v(1) assms(3) by (simp add: s1)
      ultimately have "reg_load (reg_ucDataType e) 0 (slave_mem s1 v) = ?ws ! k"
        using bms_store_load[OF Some] by simp
      moreover have "frame16 (off + 2 * k) s = Some (?ws ! k)"
        using assms(1-3) k by (subst frame16_eq) (auto simp: nth_buf_words add.assoc)
      ultimately show ?thesis using shown v(2) Some by simp
    qed
  qed
  then show ?thesis using read by blast
qed

theorem holding_write_then_read_witness:
  "\<exists>s1 s2. eMBSlaveRegHoldingCB 6 12 1 Write (slave_example (write_12 200)) = Some (MB_ENOERR, s1) \<and>
     eMBSlaveRegHoldingCB 6 12 1 Read s1 = Some (MB_ENOERR, s2) \<and> frame16 6 s2 = Some 200"
proof -
  let ?s = "slave_example (write_12 200)"
  have w: "buf_words (ucRcvBuf ?s) 13 1 = [200]"
    by (simp add: word_at_def word16_def nth_append)
  obtain s1 where s1: "eMBSlaveRegHoldingCB 6 12 1 Write ?s = Some (MB_ENOERR, s1)"
    using RegHolding_write[of ?s 6 1 12] slave_example_ok[of "write_12 200"] w
    by (simp add: accepts_def bms_hold_12 reg_in_range_def reg_scale_def vMBSlaveRegDataInit_def)
  then show ?thesis
    using holding_write_then_read[of ?s 6 1 12 s1] slave_example_ok[of "write_12 200"]
    by (fastforce simp: bms_hold_12 slave_example_frame word_at_def word16_def)
qed

lemma response_frame:
  assumes "length b = 256"
  shows "take (9 + length x) ((take 9 (b[7 := c, 8 := d]) @ x @ r)[5 := p, 6 := q]) = take 5 b @ [p, q, c, d] @ x"
proof -
  have "take 9 (b[7 := c, 8 := d]) = take 5 b @ [b ! 5, b ! 6, c, d]"
    using assms by (intro nth_equalityI) (auto simp: nth_append nth_list_update nth_Cons' less_Suc_eq numeral_eq_Suc)
  then show ?thesis using assms by (simp add: list_update_append min_def numeral_eq_Suc)
qed

lemma lo_add: "(ucast (x + y) :: u8) = ucast x + ucast y" for x y :: u16
  by (rule word_uint_eqI) (simp add: unsigned_ucast_eq unsigned_take_bit_eq uint_word_ariths take_bit_eq_mod mod_simps mod_mod_cancel)

text \<open>
  C17. A read request for up to 123 registers is answered with one frame: the transport header with
  the length, the function code, the byte count and the value of every register, zero where no
  variable stands. A request for 124 or 125 registers passes the check of the count but the values
  leave the receive buffer; more are refused with exception 3.
\<close>

theorem holding_read_answer:
  assumes "bms_slave s" "has_request s" "usLength s = 5" "frame8 0 s = Some 3"
    and "frame16 1 s = Some a" "frame16 3 s = Some n" "ucRcvAddress s \<noteq> 0" "1 \<le> n" "uint a + uint n \<le> 308"
  shows "(n \<le> 123 \<longrightarrow> (\<exists>s1. execute_request s = Some s1 \<and> eQueuedEvent s1 = Some EV_FRAME_SENT \<and>
      sent s1 = sent s @ [take 5 (ucRcvBuf s) @ [ucast (n * 2) + 3, ucSlaveAddr s, 3, ucast (n * 2)] @
        shown_bytes bms_hold (slave_mem s) (unat n) a])) \<and>
    (n \<in> {124, 125} \<longrightarrow> execute_request s = None)"
proof -
  let ?h = "s\<lparr>ucRcvBuf := (ucRcvBuf s)[7 := 3, 8 := ucast (n * 2)], usLength := 2\<rparr>"
  have h: "bms_slave ?h" "has_request ?h" using assms(1,2) by (simp_all add: bms_slave_def has_request_def)
  have handler: "eMBSlaveFuncReadHoldingRegister s =
      map_option (after_callback (\<lambda>s. s\<lparr>usLength := usLength s + n * 2\<rparr>)) (eMBSlaveRegHoldingCB 2 a n Read ?h)"
    if "n \<le> 125" using that assms(3,5,6,8) response_head_eq[OF assms(1,2)]
    by (simp add: eMBSlaveFuncReadHoldingRegister_def)
  have run: "execute_request s = do { (ex, s1) \<leftarrow> eMBSlaveFuncReadHoldingRegister s;
      (if ucRcvAddress s1 \<noteq> 0
           then do { s2 \<leftarrow> (if ex \<noteq> MB_EX_NONE
                            then response_head (3 OR 128) (exception_code ex) s1 else Some s1);
                     eMBSlaveTCPSend (ucSlaveAddr s2) s2 }
           else Some s1) }"
    using assms(4) by (simp add: execute_request_def call_handler_def xFuncHandlers_def)
  have "\<exists>s1. execute_request s = Some s1 \<and> eQueuedEvent s1 = Some EV_FRAME_SENT \<and>
      sent s1 = sent s @ [take 5 (ucRcvBuf s) @ [ucast (n * 2) + 3, ucSlaveAddr s, 3, ucast (n * 2)] @
        shown_bytes bms_hold (slave_mem s) (unat n) a]" if n: "n \<le> 123"
  proof -
    let ?x = "shown_bytes bms_hold (slave_mem s) (unat n) a"
    let ?b = "take 9 ((ucRcvBuf s)[7 := 3, 8 := ucast (n * 2)]) @ ?x @ drop (9 + 2 * unat n) (ucRcvBuf s)"
    let ?r = "s\<lparr>ucRcvBuf := ?b, usLength := 2 + n * 2\<rparr>"
    let ?b' = "?b[5 := ucast (2 + n * 2) + 1, 6 := ucSlaveAddr s]"
    have un: "unat n \<le> 123" using n by (simp add: word_le_nat_alt)
    have "eMBSlaveFuncReadHoldingRegister s = Some (MB_EX_NONE, ?r)"
      using handler RegHolding_read[OF h, of 2 n a] n un assms(9)
      by (simp add: after_callback_def word_le_nat_alt)
    moreover have "eMBSlaveTCPSend (ucSlaveAddr s) ?r = Some (xMBSlavePortEventPost EV_FRAME_SENT
        (?r\<lparr>ucRcvBuf := ?b', sent := sent s @ [take (9 + length ?x) ?b']\<rparr>))"
      using assms(1,2) un
      by (simp add: eMBSlaveTCPSend_def put_def has_request_def bms_slave_buf unat_word_ariths mult.commute)
    moreover have "take (9 + length ?x) ?b' = take 5 (ucRcvBuf s) @ [ucast (n * 2) + 3, ucSlaveAddr s, 3, ucast (n * 2)] @ ?x"
      unfolding response_frame[OF bms_slave_buf[OF assms(1)]] by (simp add: lo_add)
    ultimately show ?thesis
      using assms(7) unfolding run by (simp add: xMBSlavePortEventPost_def)
  qed
  moreover have "execute_request s = None" if "n \<in> {124, 125}"
  proof -
    have "n \<le> 125" "2 + 2 * unat n > 249" using that by auto
    then show ?thesis
      using handler RegHolding_read_fault[OF h, of 2 n a] assms(9) unfolding run by simp
  qed
  ultimately show ?thesis by blast
qed

theorem holding_read_answer_witness:
  "\<exists>s1. execute_request (slave_example [0, 1, 0, 0, 0, 6, 1, 3, 0, 12, 0, 1]) = Some s1 \<and>
     sent s1 = [[0, 1, 0, 0, 0, 5, 1, 3, 2, 0, 0]]"
proof -
  let ?req = "[0, 1, 0, 0, 0, 6, 1, 3, 0, 12, 0, 1]"
  have "\<exists>s1. execute_request (slave_example ?req) = Some s1 \<and> eQueuedEvent s1 = Some EV_FRAME_SENT \<and>
      sent s1 = sent (slave_example ?req) @ [take 5 (ucRcvBuf (slave_example ?req)) @
        [ucast (1 * 2 :: u16) + 3, ucSlaveAddr (slave_example ?req), 3, ucast (1 * 2 :: u16)] @
        shown_bytes bms_hold (slave_mem (slave_example ?req)) (unat (1 :: u16)) 12]"
    using holding_read_answer[of "slave_example ?req" 12 1] slave_example_ok[of ?req]
    by (simp add: slave_example_frame word_at_def word16_def)
  then show ?thesis
    by (auto simp: shown_def bms_hold_12 vMBSlaveRegDataInit_def reg_read_def reg_load_def word_bytes_def)
qed


section \<open>The dictionary\<close>

text \<open>
  C14. For every address, the index switch finds an entry exactly if the table has one with this
  address, the index is inside the filled part of the buffer and the entry there has the address
  asked for; this holds for the holding registers and for the coils.
\<close>

theorem dictionary_index_and_table_agree:
  "(case xBMS_DevDataMapIndex RegHoldData a of
      Some i \<Rightarrow> unat i < length bms_hold_table \<and> reg_usAddr (bms_hold_table ! unat i) = a
    | None \<Rightarrow> a \<notin> reg_usAddr ` set bms_hold_table) \<and>
   (case xBMS_DevDataMapIndex CoilData a of
      Some i \<Rightarrow> unat i < length bms_coil_table \<and> bit_usAddr (bms_coil_table ! unat i) = a
    | None \<Rightarrow> a \<notin> bit_usAddr ` set bms_coil_table)"
proof (intro conjI)
  show "case xBMS_DevDataMapIndex RegHoldData a of
      Some i \<Rightarrow> unat i < length bms_hold_table \<and> reg_usAddr (bms_hold_table ! unat i) = a
    | None \<Rightarrow> a \<notin> reg_usAddr ` set bms_hold_table"
  proof (cases "xBMS_DevDataMapIndex RegHoldData a")
    case None
    then have "a \<notin> fst ` set (map (\<lambda>e. (reg_usAddr e, e)) bms_hold_table)"
      using bms_hold_index[of a] unfolding bms_hold_def by (simp only: option.case map_of_eq_None_iff not_False_eq_True)
    then show ?thesis using None by (simp add: image_image)
  next
    case (Some i)
    then show ?thesis using bms_hold_index[of a] bms_hold_in[of a] by (simp add: length_bms_hold)
  qed
  show "case xBMS_DevDataMapIndex CoilData a of
      Some i \<Rightarrow> unat i < length bms_coil_table \<and> bit_usAddr (bms_coil_table ! unat i) = a
    | None \<Rightarrow> a \<notin> bit_usAddr ` set bms_coil_table"
  proof (cases "xBMS_DevDataMapIndex CoilData a")
    case None
    then have "a \<notin> fst ` set (map (\<lambda>e. (bit_usAddr e, e)) bms_coil_table)"
      using bms_coil_index[of a] unfolding bms_coil_def by (simp only: option.case map_of_eq_None_iff not_False_eq_True)
    then show ?thesis using None by (simp add: image_image)
  next
    case (Some i)
    then show ?thesis using bms_coil_index[of a] bms_coil_in[of a] by (simp add: length_bms_coil)
  qed
qed

section \<open>Coils\<close>

lemma bms_coils_in_table:
  "in_table (sMBCoilTable vBMS_InitBMSCommData) a n \<longleftrightarrow> uint a + uint n \<le> 241"
  by (auto simp: in_table_def vBMS_InitBMSCommData_def vMBSlaveDevDataTableInit_def length_bms_coil)

lemma coil_span_bytes: "(coil_span n - 1) div 8 = unat n div 8"
proof -
  have "(if x mod 8 = 0 then x + 8 else x) - 1 = 8 * (x div 8) + (if x mod 8 = 0 then 7 else x mod 8 - 1)" for x :: nat
    using div_mult_mod_eq[of x 8] by auto
  then show ?thesis unfolding coil_span_def by simp
qed

text \<open>The coils before the first one that cannot be written, and how they are left.\<close>

definition coils_set :: "nat \<Rightarrow> buffer \<Rightarrow> nat \<Rightarrow> u16 \<Rightarrow> (bms_name \<Rightarrow> u16) \<Rightarrow> (bms_name \<Rightarrow> u16) \<Rightarrow> bool" where
  "coils_set k buf pos a m m' \<longleftrightarrow>
     (\<forall>j<k. \<exists>e v. bms_coil (a + of_nat j) = Some e \<and> bit_ucAccessMode e \<noteq> RO \<and> bit_pvValue e = Some v \<and>
        m' v = coil_value buf pos j) \<and>
     (\<forall>b e v. bms_coil b = Some e \<and> bit_pvValue e = Some v \<and> (\<forall>j<k. b \<noteq> a + of_nat j) \<longrightarrow> m' v = m v)"

lemma store_coils_set:
  assumes "k \<le> writable_run bms_coil n a" "k \<le> 65536"
  shows "coils_set k buf pos a m (bms_coils.store_coils buf pos 0 k a m)"
proof -
  let ?m = "bms_coils.store_coils buf pos 0 k a m"
  have all: "coil_writable (bms_coil (a + of_nat i))" if "i < k" for i
    using writable_run_prefix[of i bms_coil n a] that assms(1) by simp
  have mapped: "\<forall>i<k. bms_coil (a + of_nat i) \<noteq> None"
    by (intro allI impI) (drule all, auto simp: coil_writable_def split: option.splits)
  have "\<exists>e v. bms_coil (a + of_nat j) = Some e \<and> bit_ucAccessMode e \<noteq> RO \<and> bit_pvValue e = Some v \<and>
      ?m v = coil_value buf pos j" if j: "j < k" for j
  proof -
    obtain e where e: "bms_coil (a + of_nat j) = Some e" "bit_ucAccessMode e \<noteq> RO"
      using all[OF j] by (auto simp: coil_writable_def split: option.splits)
    moreover obtain v where v: "bit_pvValue e = Some v" using bms_coils.has_variable[OF e(1)] by blast
    ultimately show ?thesis
      using bms_coils.store_coils_at[OF j assms(2) mapped e(1) v, of buf pos 0 m] by auto
  qed
  moreover have "?m v = m v" if "bms_coil b = Some e" "bit_pvValue e = Some v" "\<forall>j<k. b \<noteq> a + of_nat j" for b e v
    using bms_coils.store_coils_other[OF that mapped] .
  ultimately show ?thesis unfolding coils_set_def by blast
qed

text \<open>
  C21. A write of \<open>n\<close> coils goes over \<open>n\<close> coils, or \<open>n + 8\<close> when \<open>n\<close> is a multiple of eight. The
  coils are set in order up to the first one that is not writable; there an address without a
  variable is a null dereference and a read-only coil is answered with an error. Nothing else is
  changed.
\<close>

theorem coil_write_outcome:
  assumes "bms_slave s" "has_request s" "off + unat n div 8 < 249" "uint a + uint n \<le> 241"
  shows "\<exists>k m. k \<le> coil_span n \<and> coils_set k (ucRcvBuf s) (7 + off) a (slave_mem s) m \<and>
    eMBSlaveRegCoilsCB off a n Write s =
      (if k = coil_span n then Some (MB_ENOERR, s\<lparr>slave_mem := m\<rparr>)
       else if bms_coil (a + of_nat k) = None then None
       else Some (MB_ENOREG, s\<lparr>slave_mem := m\<rparr>)) \<and>
    (k < coil_span n \<longrightarrow> \<not> coil_writable (bms_coil (a + of_nat k)))"
proof -
  let ?T = "coil_span n" let ?b = "ucRcvBuf s" let ?pos = "7 + off"
  define k where "k = writable_run bms_coil ?T a"
  define m where "m = bms_coils.store_coils ?b ?pos 0 k a (slave_mem s)"
  have k: "k \<le> ?T" unfolding k_def by (rule writable_run_le)
  have "uint n \<le> 241" using assms(4) uint_ge_0[of a] by linarith
  then have "unat n \<le> 241" unfolding unat_eq_nat_uint by linarith
  then have T: "?T \<le> 65536" by (simp add: coil_span_def)
  have "coils_write vBMS_InitBMSCommData ?b ?pos 0 ?T a (slave_mem s) =
      (if k = ?T then Some (MB_ENOERR, m) else if bms_coil (a + of_nat k) = None then None else Some (MB_ENOREG, m))"
    using bms_coils.coils_write_spec[of ?pos 0 ?T ?b a "slave_mem s"] coil_span_bytes[of n] assms(3)
      bms_slave_buf[OF assms(1)]
    by (simp add: k_def m_def)
  then have "eMBSlaveRegCoilsCB off a n Write s =
      (if k = ?T then Some (MB_ENOERR, s\<lparr>slave_mem := m\<rparr>)
       else if bms_coil (a + of_nat k) = None then None
       else Some (MB_ENOREG, s\<lparr>slave_mem := m\<rparr>))"
    using assms(1,2,4)
    by (simp add: eMBSlaveRegCoilsCB_def bms_slave_dict bms_coils_in_table has_request_def SetBits_coils)
  moreover have "coils_set k ?b ?pos a (slave_mem s) m"
    unfolding m_def using store_coils_set[of k ?T a] k T by (simp add: k_def)
  moreover have "k < ?T \<longrightarrow> \<not> coil_writable (bms_coil (a + of_nat k))"
    unfolding k_def by (intro impI writable_run_end)
  ultimately show ?thesis using k by (intro exI[of _ k] exI[of _ m] conjI)
qed

theorem coil_write_outcome_witness:
  "\<exists>m. eMBSlaveRegCoilsCB 6 4 1 Write (slave_example [0, 1, 0, 0, 0, 8, 1, 15, 0, 4, 0, 1, 1, 1]) =
     Some (MB_ENOERR, (slave_example [0, 1, 0, 0, 0, 8, 1, 15, 0, 4, 0, 1, 1, 1])\<lparr>slave_mem := m\<rparr>) \<and>
   m (This ''xAlarmEnable'') = 1 \<and> m (This ''xAlarmClean'') = 0"
proof -
  let ?s = "slave_example [0, 1, 0, 0, 0, 8, 1, 15, 0, 4, 0, 1, 1, 1]"
  have span: "coil_span 1 = 1" by (simp add: coil_span_def)
  obtain k m where r: "k \<le> 1" "coils_set k (ucRcvBuf ?s) 13 4 (slave_mem ?s) m"
      "eMBSlaveRegCoilsCB 6 4 1 Write ?s = (if k = 1 then Some (MB_ENOERR, ?s\<lparr>slave_mem := m\<rparr>)
       else if bms_coil (4 + of_nat k) = None then None else Some (MB_ENOREG, ?s\<lparr>slave_mem := m\<rparr>))"
      "k < 1 \<longrightarrow> \<not> coil_writable (bms_coil (4 + of_nat k))"
    using coil_write_outcome[of ?s 6 1 4] slave_example_ok[of "[0, 1, 0, 0, 0, 8, 1, 15, 0, 4, 0, 1, 1, 1]"]
    by (simp add: span) blast
  then have k: "k = 1" by (cases k) (auto simp: coil_writable_def bms_coils_4_5 vMBSlaveBitDataInit_def)
  have "m (This ''xAlarmEnable'') = coil_value (ucRcvBuf ?s) 13 0"
    using r(2) k by (simp add: coils_set_def bms_coils_4_5 vMBSlaveBitDataInit_def)
  moreover have "m (This ''xAlarmClean'') = slave_mem ?s (This ''xAlarmClean'')"
    using r(2) k bms_coils_4_5(2) unfolding coils_set_def by (fastforce simp: vMBSlaveBitDataInit_def)
  ultimately show ?thesis using r(3) k by (simp add: coil_value_def slave_example_def)
qed

lemma coil_answer:
  assumes "bms_slave s" "has_request s"
  defines "s1 r \<equiv> s\<lparr>ucRcvBuf := (ucRcvBuf s)[7 := 1, 8 := 1, 9 := r], usLength := 3\<rparr>"
  shows "frame8 0 (s1 r) = Some 1" "frame8 1 (s1 r) = Some 1" "frame8 2 (s1 r) = Some r"
  using assms(2) bms_slave_buf[OF assms(1)] by (simp_all add: s1_def frame8_def get_def has_request_def)

lemma least_unmapped:
  fixes n :: nat
  assumes "\<not> (\<forall>j<n. P j)"
  obtains j where "j < n" "\<not> P j" "\<forall>k<j. P k"
  using assms exists_least_iff[of "\<lambda>j. j < n \<and> \<not> P j"] by (metis less_trans)

text \<open>
  A read of fewer than eight coils from address \<open>a\<close> shows the coils from \<open>a + 1\<close> on, one bit each,
  where a write of the same address sets the coils from \<open>a\<close> on; if one of them has no variable, the
  read dereferences a null pointer.
\<close>

theorem coil_read_is_shifted:
  assumes "bms_slave s" "has_request s" "usLength s = 5" "frame16 1 s = Some a" "frame16 3 s = Some n"
    and "1 \<le> n" "n < 8" "uint (a + 1) + uint n \<le> 241"
  shows "if \<forall>j<unat n. bms_coil (a + 1 + of_nat j) \<noteq> None
    then \<exists>s1 b. eMBSlaveFuncReadCoils s = Some (MB_EX_NONE, s1) \<and> usLength s1 = 3 \<and>
      frame8 0 s1 = Some 1 \<and> frame8 1 s1 = Some 1 \<and> frame8 2 s1 = Some b \<and>
      (\<forall>j. bit b j \<longleftrightarrow> j < unat n \<and> bms_coils.coil_on (slave_mem s) (a + 1 + of_nat j))
    else eMBSlaveFuncReadCoils s = None"
proof -
  let ?h = "s\<lparr>ucRcvBuf := (ucRcvBuf s)[7 := 1, 8 := 1], usLength := 2\<rparr>"
  have n: "unat n < 8" "0 < unat n" using assms(6,7) by (simp_all add: word_less_nat_alt word_le_nat_alt)
  have "n AND 7 = take_bit 3 n" by (simp add: take_bit_eq_mask mask_eq_exp_minus_1)
  then have nw: "n AND 7 = n" "n div 8 = 0"
    using n by (simp_all add: word_unat_eq_iff unat_div unsigned_take_bit_eq take_bit_nat_eq_self)
  have bytes: "coil_bytes n = 1"
    using n by (simp add: coil_bytes_def nw) (use n in auto)
  have bits: "bits_bytes n = 1" "bits_in_byte n (Suc 0) = unat n"
    using n by (simp_all add: bits_bytes_def bits_in_byte_def)
  have n': "n < 0x7D0" using n(1) by (simp add: word_less_nat_alt)
  have handler: "eMBSlaveFuncReadCoils s =
      map_option (after_callback (\<lambda>s. s\<lparr>usLength := usLength s + 1\<rparr>)) (eMBSlaveRegCoilsCB 2 (a + 1) n Read ?h)"
    using assms(3-6) n' response_head_eq[OF assms(1,2)] by (simp add: eMBSlaveFuncReadCoils_def bytes)
  have cb: "eMBSlaveRegCoilsCB 2 (a + 1) n Read ?h = do {
      (err, addr', b) \<leftarrow> get_byte vBMS_InitBMSCommData (slave_mem s) [0..<unat n] (a + 1) 0;
      Some (err, ?h\<lparr>ucRcvBuf := (ucRcvBuf ?h)[9 := b]\<rparr>) }"
    using assms(1,2,8) bms_slave_buf[OF assms(1)]
    by (auto simp: eMBSlaveRegCoilsCB_def bms_slave_dict bms_coils_in_table has_request_def
        eMBSlaveUtilGetBits_def bits put_def split: Option.bind_split)
  have readable: "bms_coil c \<noteq> None \<Longrightarrow> \<exists>e. bms_coil c = Some e \<and> bit_ucAccessMode e \<noteq> WO" for c
    using bms_coil_in[of c] bms_coil_entries by (auto simp: list_all_iff)
  show ?thesis
  proof (cases "\<forall>j<unat n. bms_coil (a + 1 + of_nat j) \<noteq> None")
    case True
    let ?r = "bms_coils.read_bits (slave_mem s) 0 (unat n) (a + 1) 0"
    let ?s1 = "?h\<lparr>ucRcvBuf := (ucRcvBuf ?h)[9 := ?r], usLength := 3\<rparr>"
    have "get_byte vBMS_InitBMSCommData (slave_mem s) [0..<0 + unat n] (a + 1) 0 =
        Some (MB_ENOERR, a + 1 + of_nat (unat n), ?r)"
      using True readable by (intro bms_coils.get_byte_spec) blast
    then have "eMBSlaveFuncReadCoils s = Some (MB_EX_NONE, ?s1)"
      unfolding handler cb by (simp add: after_callback_def)
    moreover have "bit ?r j \<longleftrightarrow> j < unat n \<and> bms_coils.coil_on (slave_mem s) (a + 1 + of_nat j)" for j
      using bms_coils.bit_read_bits[of 0 "unat n" "slave_mem s" "a + 1" 0 j] n by simp
    moreover have "frame8 0 ?s1 = Some 1" "frame8 1 ?s1 = Some 1" "frame8 2 ?s1 = Some ?r" "usLength ?s1 = 3"
      using coil_answer[OF assms(1,2), of ?r] by simp_all
    ultimately show ?thesis unfolding if_P[OF True] by (intro exI[of _ ?s1] exI[of _ ?r] conjI allI)
  next
    case False
    obtain j where j: "j < unat n" "\<not> bms_coil (a + 1 + of_nat j) \<noteq> None"
        "\<forall>k<j. bms_coil (a + 1 + of_nat k) \<noteq> None"
      by (rule least_unmapped[OF False])
    have "get_byte vBMS_InitBMSCommData (slave_mem s) [0..<0 + unat n] (a + 1) 0 = None"
      by (rule bms_coils.get_byte_fault[OF j(1) j(2)[unfolded not_not]]) (use j(3) readable in simp)
    then show ?thesis using False unfolding handler cb by simp
  qed
qed

theorem coil_read_is_shifted_witness:
  "\<exists>s1. eMBSlaveFuncReadCoils (slave_example [0, 1, 0, 0, 0, 6, 1, 1, 0, 3, 0, 2]) = Some (MB_EX_NONE, s1) \<and>
     frame8 2 s1 = Some 0"
proof -
  let ?req = "[0, 1, 0, 0, 0, 6, 1, 1, 0, 3, 0, 2]"
  have "bms_coil (3 + 1 + of_nat j) \<noteq> None" if "j < unat (2 :: u16)" for j
    using that less_2_cases[of j] bms_coils_4_5 by auto
  then obtain s1 b where "eMBSlaveFuncReadCoils (slave_example ?req) = Some (MB_EX_NONE, s1)" "frame8 2 s1 = Some b"
      "\<forall>j. bit b j \<longleftrightarrow> j < unat (2 :: u16) \<and> bms_coils.coil_on (slave_mem (slave_example ?req)) (3 + 1 + of_nat j)"
    using coil_read_is_shifted[of "slave_example ?req" 3 2] slave_example_ok[of ?req]
    by (simp add: slave_example_frame word_at_def word16_def) blast
  moreover from this(3) have "b = 0"
    by (intro bit_word_eqI) (simp add: bms_coils.coil_on_def slave_example_def)
  ultimately show ?thesis by auto
qed


section \<open>The service loop\<close>

text \<open>What a request handler leaves alone.\<close>

definition same_link :: "'v slave \<Rightarrow> 'v slave \<Rightarrow> bool" where
  "same_link s s' \<longleftrightarrow> ucSlaveAddr s' = ucSlaveAddr s \<and> eMBState s' = eMBState s \<and> ucRcvAddress s' = ucRcvAddress s \<and>
     pucMBFrame s' = pucMBFrame s \<and> eQueuedEvent s' = eQueuedEvent s \<and> sent s' = sent s \<and>
     xSocketConnected s' = xSocketConnected s"

lemma same_link_refl [simp]: "same_link s s"
  by (simp add: same_link_def)

lemma same_link_trans: "same_link s s' \<Longrightarrow> same_link s' s'' \<Longrightarrow> same_link s s''"
  by (simp add: same_link_def)

lemma same_link_update [simp]:
  "same_link s (s'\<lparr>usLength := n\<rparr>) = same_link s s'" "same_link s (s'\<lparr>ucRcvBuf := b\<rparr>) = same_link s s'"
  "same_link s (s'\<lparr>slave_mem := m\<rparr>) = same_link s s'"
  by (simp_all add: same_link_def)

lemma bind_SomeD: "(x \<bind> f) = Some r \<Longrightarrow> \<exists>y. x = Some y \<and> f y = Some r"
  by (cases x) auto

lemma response_head_link: "response_head c b s = Some s' \<Longrightarrow> same_link s s'"
  by (auto simp: response_head_def dest!: bind_SomeD)

lemma RegHolding_link: "eMBSlaveRegHoldingCB off a n mode s = Some (err, s') \<Longrightarrow> same_link s s'"
  by (auto simp: eMBSlaveRegHoldingCB_def Let_def dest!: bind_SomeD split: if_splits access.splits)

lemma RegInput_link: "eMBSlaveRegInputCB off a n s = Some (err, s') \<Longrightarrow> same_link s s'"
  by (auto simp: eMBSlaveRegInputCB_def Let_def dest!: bind_SomeD split: if_splits)

lemma RegCoils_link: "eMBSlaveRegCoilsCB off a n mode s = Some (err, s') \<Longrightarrow> same_link s s'"
  by (auto simp: eMBSlaveRegCoilsCB_def Let_def dest!: bind_SomeD split: if_splits access.splits)

lemma after_callback_link: "after_callback (\<lambda>s. s\<lparr>usLength := f s\<rparr>) (err, s1) = (ex, s2) \<Longrightarrow> same_link s1 s2"
  by (auto simp: after_callback_def split: if_splits)

lemmas callback_links = RegHolding_link RegInput_link RegCoils_link response_head_link after_callback_link

lemma handler_links:
  "eMBSlaveFuncReadInputRegister s = Some (ex, s') \<Longrightarrow> same_link s s'"
  "eMBSlaveFuncReadHoldingRegister s = Some (ex, s') \<Longrightarrow> same_link s s'"
  "eMBSlaveFuncWriteMultipleHoldingRegister s = Some (ex, s') \<Longrightarrow> same_link s s'"
  "eMBSlaveFuncReadWriteMultipleHoldingRegister s = Some (ex, s') \<Longrightarrow> same_link s s'"
  "eMBSlaveFuncReadCoils s = Some (ex, s') \<Longrightarrow> same_link s s'"
  "eMBSlaveFuncWriteMultipleCoils s = Some (ex, s') \<Longrightarrow> same_link s s'"
  unfolding eMBSlaveFuncReadInputRegister_def eMBSlaveFuncReadHoldingRegister_def
      eMBSlaveFuncWriteMultipleHoldingRegister_def eMBSlaveFuncReadWriteMultipleHoldingRegister_def
      eMBSlaveFuncReadCoils_def eMBSlaveFuncWriteMultipleCoils_def
  by (auto dest!: bind_SomeD callback_links split: if_splits intro: same_link_trans) (simp_all add: same_link_def)

lemma call_handler_link: "call_handler code s = Some (ex, s') \<Longrightarrow> same_link s s'"
  by (auto simp: call_handler_def xFuncHandlers_def split: if_splits option.splits intro: handler_links)

lemma eMBSlaveTCPReceive_link:
  "eMBSlaveTCPReceive s = (err, s1) \<Longrightarrow> eMBState s1 = eMBState s \<and> eQueuedEvent s1 = eQueuedEvent s \<and>
     sent s1 = sent s \<and> ucSlaveAddr s1 = ucSlaveAddr s"
  by (auto simp: eMBSlaveTCPReceive_def Let_def split: if_splits)

lemma TCPSend_link:
  "eMBSlaveTCPSend a s = Some s1 \<Longrightarrow> eMBState s1 = eMBState s \<and> eQueuedEvent s1 = Some EV_FRAME_SENT \<and>
     (\<exists>f. sent s1 = sent s @ [f])"
  by (auto simp: eMBSlaveTCPSend_def xMBSlavePortEventPost_def dest!: bind_SomeD split: if_splits)

lemma execute_answers:
  assumes "execute_request s = Some s1" "ucRcvAddress s \<noteq> 0"
  shows "eMBState s1 = eMBState s \<and> eQueuedEvent s1 = Some EV_FRAME_SENT \<and> (\<exists>f. sent s1 = sent s @ [f])"
proof -
  obtain code ex s2 s3 where r: "call_handler code s = Some (ex, s2)"
      "(if ex \<noteq> MB_EX_NONE then response_head (code OR 128) (exception_code ex) s2 else Some s2) = Some s3"
      "eMBSlaveTCPSend (ucSlaveAddr s3) s3 = Some s1"
    using assms call_handler_link unfolding execute_request_def same_link_def
    by (fastforce dest!: bind_SomeD split: if_splits)
  have "same_link s s3"
    using call_handler_link[OF r(1)] r(2)
    by (auto split: if_splits dest!: response_head_link simp: same_link_def)
  then show ?thesis using TCPSend_link[OF r(3)] by (auto simp: same_link_def)
qed

lemma execute_broadcast:
  assumes "execute_request s = Some s1" "ucRcvAddress s = 0"
  shows "same_link s s1"
  using assms call_handler_link unfolding execute_request_def
  by (fastforce dest!: bind_SomeD simp: same_link_def split: if_splits)

text \<open>A slave that waits for an event nobody will post.\<close>

definition waits_for_ever :: "'v slave \<Rightarrow> bool" where
  "waits_for_ever s \<longleftrightarrow> (\<forall>rs. poll_loop rs s = Some s)"

lemma no_event_waits:
  assumes "eQueuedEvent s = None"
  shows "waits_for_ever s"
proof -
  have "poll_loop rs s = Some s" for rs
    using assms by (induction rs) (auto simp: eMBSlavePoll_def)
  then show ?thesis by (simp add: waits_for_ever_def)
qed

lemma poll_received:
  assumes "eMBState s = STATE_ENABLED" "eQueuedEvent s = Some EV_FRAME_RECEIVED"
    and "eMBSlaveTCPReceive (s\<lparr>eQueuedEvent := None\<rparr>) = (MB_ENOERR, s1)"
  shows "eMBSlavePoll r s = Some (MB_ENOERR, if ucRcvAddress s1 = ucSlaveAddr s1 \<or> ucRcvAddress s1 = 0
     then s1\<lparr>eQueuedEvent := Some EV_EXECUTE\<rparr> else s1)"
  using assms by (simp add: eMBSlavePoll_def xMBSlavePortEventPost_def)

lemma poll_execute:
  assumes "eMBState s = STATE_ENABLED" "eQueuedEvent s = None"
  shows "eMBSlavePoll r (s\<lparr>eQueuedEvent := Some EV_EXECUTE\<rparr>) = map_option (\<lambda>s. (MB_ENOERR, s)) (execute_request s)"
proof -
  have "s\<lparr>eQueuedEvent := None\<rparr> = s" using assms(2) by simp
  then have "execute_request (s\<lparr>eQueuedEvent := None\<rparr>) = execute_request s" by (rule arg_cong)
  then show ?thesis using assms by (simp add: eMBSlavePoll_def)
qed

text \<open>
  C18. A frame received for this slave's address whose execution does not fault is answered: three
  rounds of the loop later exactly one frame has been sent and the next request has been received,
  so the slave is ready as before.
\<close>

theorem own_request_is_answered:
  assumes "eMBState s = STATE_ENABLED" "eQueuedEvent s = Some EV_FRAME_RECEIVED"
    and "eMBSlaveTCPReceive (s\<lparr>eQueuedEvent := None\<rparr>) = (MB_ENOERR, s1)"
    and "ucRcvAddress s1 = ucSlaveAddr s" "ucSlaveAddr s \<noteq> 0" "execute_request s1 \<noteq> None" "next \<noteq> []"
  shows "\<exists>s' f. poll_loop [r1, r2, next] s = Some s' \<and> sent s' = sent s @ [f] \<and>
    eMBState s' = STATE_ENABLED \<and> eQueuedEvent s' = Some EV_FRAME_RECEIVED \<and>
    take (length (take 256 next)) (ucRcvBuf s') = take 256 next"
proof -
  note link = eMBSlaveTCPReceive_link[OF assms(3)]
  obtain s2 where s2: "execute_request s1 = Some s2" using assms(6) by blast
  have addr: "ucRcvAddress s1 \<noteq> 0" "ucSlaveAddr s1 = ucSlaveAddr s" using assms(4,5) link by simp_all
  obtain f where f: "eMBState s2 = STATE_ENABLED" "eQueuedEvent s2 = Some EV_FRAME_SENT" "sent s2 = sent s @ [f]"
    using execute_answers[OF s2 addr(1)] link assms(1) by auto
  let ?s3 = "xMBSlaveTCPPortGetRequest next (s2\<lparr>eQueuedEvent := None\<rparr>)"
  have "poll_loop [r1, r2, next] s = Some ?s3"
    using poll_received[OF assms(1-3)] poll_execute[of s1 r2] assms(1,4) addr(2) link s2 f
    by (simp add: eMBSlavePoll_def)
  moreover have "take 256 next \<noteq> []" using assms(7) by simp
  ultimately show ?thesis
    using f by (intro exI[of _ ?s3] exI[of _ f])
      (simp add: xMBSlaveTCPPortGetRequest_def xMBSlavePortEventPost_def Let_def min_def)
qed

theorem own_request_is_answered_witness:
  "\<exists>s' f. poll_loop [[], [], [0, 2]] (slave_example [0, 1, 0, 0, 0, 6, 1, 6, 0, 12, 0, 200]) = Some s' \<and>
     sent s' = [f] \<and> eQueuedEvent s' = Some EV_FRAME_RECEIVED"
proof -
  let ?s = "slave_example [0, 1, 0, 0, 0, 6, 1, 6, 0, 12, 0, 200]"
  let ?s1 = "snd (eMBSlaveTCPReceive (?s\<lparr>eQueuedEvent := None\<rparr>))"
  have rcv: "eMBSlaveTCPReceive (?s\<lparr>eQueuedEvent := None\<rparr>) = (MB_ENOERR, ?s1)"
    by (simp add: eMBSlaveTCPReceive_def slave_example_def word16_def)
  have ex: "execute_request ?s1 \<noteq> None"
    by (simp add: eMBSlaveTCPReceive_def slave_example_def word16_def execute_request_def frame8_def get_def
        call_handler_def xFuncHandlers_def response_head_def put_def eMBSlaveTCPSend_def)
  show ?thesis
    using own_request_is_answered[OF _ _ rcv _ _ ex, of "[0, 2]" "[]" "[]"]
    by (simp add: slave_example_def eMBSlaveTCPReceive_def word16_def) blast
qed

text \<open>
  A valid frame for the unit of another slave, or a broadcast, leaves the queue empty: nobody
  posts an event any more, so the slave never reads from the socket again.
\<close>

theorem other_unit_stops_the_slave:
  assumes "eMBState s = STATE_ENABLED" "eQueuedEvent s = Some EV_FRAME_RECEIVED"
    and "eMBSlaveTCPReceive (s\<lparr>eQueuedEvent := None\<rparr>) = (MB_ENOERR, s1)"
    and "ucSlaveAddr s \<noteq> 0" "ucRcvAddress s1 \<noteq> ucSlaveAddr s"
  shows "if ucRcvAddress s1 \<noteq> 0
    then poll_loop [r1] s = Some s1 \<and> waits_for_ever s1 \<and> sent s1 = sent s
    else \<forall>s2. poll_loop [r1, r2] s = Some s2 \<longrightarrow> waits_for_ever s2 \<and> sent s2 = sent s"
proof (cases "ucRcvAddress s1 = 0")
  case False
  then show ?thesis
    using poll_received[OF assms(1-3)] eMBSlaveTCPReceive_link[OF assms(3)] assms(2,5) no_event_waits[of s1] by simp
next
  case True
  have "waits_for_ever s2 \<and> sent s2 = sent s" if "poll_loop [r1, r2] s = Some s2" for s2
  proof -
    note link = eMBSlaveTCPReceive_link[OF assms(3)]
    have "execute_request s1 = Some s2"
      using that poll_received[OF assms(1-3), of r1] poll_execute[of s1 r2] True link assms(1)
      by (auto dest!: bind_SomeD)
    from execute_broadcast[OF this True] show ?thesis
      using link no_event_waits[of s2] by (simp add: same_link_def)
  qed
  then show ?thesis using True by simp
qed

end
