(* ===== verification/TimerProps.thy ===== *)
theory TimerProps
  imports Timers
begin

text \<open>
  What the software timers guarantee to their users: a pass of the timer task comes to an end, and
  a one-shot timer fires after its delay and not before.
\<close>


text \<open>Two timers: one about to expire, one periodic.\<close>

definition timers_example :: os where
  "timers_example = \<lparr>os_tmrs = (\<lambda>k. if k = sSysPollTmr
       then tmr_zero\<lparr>TypeIsTmr := True, State := OS_TMR_STATE_RUNNING, Remain := 1, Period := 10000, Opt := OS_OPT_TMR_PERIODIC\<rparr>
       else if k = sExAirFanCtrlTmr
       then tmr_zero\<lparr>TypeIsTmr := True, State := OS_TMR_STATE_RUNNING, Remain := 1, Opt := OS_OPT_TMR_ONE_SHOT\<rparr>
       else tmr_zero),
     OSTmrList = [sSysPollTmr, sExAirFanCtrlTmr], OSTmrTickCtr = 0\<rparr>"

lemma timers_example_wf: "tmr_wf timers_example"
  by (auto simp: timers_example_def tmr_wf_def tmr_zero_def)

lemma quiet_none: "quiet (\<lambda>_ _ s. s)"
  by (simp add: quiet_def)


section \<open>One-shot timers\<close>

text \<open>Registering a timer again with the same times keeps the option it was created with.\<close>

lemma prepare_opt:
  assumes "tmr_wf s" and "tmr_args_ok opt dly period"
    and "State (os_tmrs s k) = OS_TMR_STATE_UNUSED \<or> Opt (os_tmrs s k) = opt"
  shows "Opt (os_tmrs (snd (xTimerRegist_prepare k dly period opt cb s)) k) = opt"
  using assms(3)
  by (auto simp: xTimerRegist_prepare_def Let_def OSTmrStateGet_def split_beta OSTmrCreate_ok[OF assms(2)]
      OSTmrStop_def OSTmrDel_def upd_tmr_def OS_TmrUnlink_def split: tmr_state.splits if_splits)


lemma registered_one_shot_at:
  fixes s :: "'z os_scheme" and cb
  assumes wf: "tmr_wf s" and d: "d \<noteq> 0" "unat d * 1000 < 2 ^ 32"
    and opt: "State (os_tmrs s k) = OS_TMR_STATE_UNUSED \<or> Opt (os_tmrs s k) = OS_OPT_TMR_ONE_SHOT"
  defines "s1 \<equiv> snd (xTimerRegist k d 0 OS_OPT_TMR_ONE_SHOT cb id False s)"
  shows "tmr_wf s1 \<and> one_shot_at k (unat d * 1000) s1"
proof -
  have u: "unat (d * 1000) = unat d * 1000"
    using d(2) unat_mult_lem[of d 1000] by simp
  have pos: "0 < unat d" using d(1) by (simp add: unat_gt_0)
  have nz: "d * 1000 \<noteq> 0" using u pos by (auto simp: word_unat_eq_iff)
  have ok: "tmr_args_ok OS_OPT_TMR_ONE_SHOT (d * TMR_TICK_PER_SECOND) (0 * TMR_TICK_PER_SECOND)"
    using nz by (simp add: tmr_args_ok_def TMR_TICK_PER_SECOND_def)
  have arms: "tmr_running k s1 \<and> Remain (os_tmrs s1 k) = d * 1000"
    using xTimerRegist_arms[OF wf ok, of False k id cb] nz
    by (simp add: s1_def TMR_TICK_PER_SECOND_def)
  define s2 where "s2 = snd (xTimerRegist_prepare k (d * TMR_TICK_PER_SECOND)
      (0 * TMR_TICK_PER_SECOND) OS_OPT_TMR_ONE_SHOT cb s)"
  have opt2: "Opt (os_tmrs s2 k) = OS_OPT_TMR_ONE_SHOT"
    unfolding s2_def by (rule prepare_opt[OF wf ok opt])
  have p: "fst (xTimerRegist_prepare k (d * TMR_TICK_PER_SECOND) (0 * TMR_TICK_PER_SECOND)
      OS_OPT_TMR_ONE_SHOT cb s) = OS_ERR_NONE"
    using prepare_ok[OF wf ok] by blast
  have s1: "s1 = snd (OSTmrStart k s2)"
    using xTimerRegist_eq[OF p, of s2 False id] by (simp add: s1_def s2_def)
  have "Opt (os_tmrs s1 k) = OS_OPT_TMR_ONE_SHOT"
    using opt2 unfolding s1 by (auto simp: OSTmrStart_def split: tmr_state.split)
  moreover have "tmr_wf s1" unfolding s1_def by (rule xTimerRegist_wf[OF wf]) simp
  ultimately show ?thesis using arms u pos by (simp add: one_shot_at_def tmr_running_State)
qed




section \<open>The timers as countdowns\<close>

text \<open>
  The specification: a running timer is the number of ticks it has to go and, if it is periodic,
  the number it starts again with; every other timer is absent. The kernel's list, states and
  objects implement it.
\<close>

definition abs_timers :: "'z os_scheme \<Rightarrow> tmr_id \<Rightarrow> (nat \<times> nat option) option" where
  "abs_timers s k = (let t = os_tmrs s k in
     if State t = OS_TMR_STATE_RUNNING
     then Some (unat (Remain t), if Opt t = OS_OPT_TMR_PERIODIC then Some (unat (Period t)) else None)
     else None)"

fun countdown :: "nat \<times> nat option \<Rightarrow> (nat \<times> nat option) option" where
  "countdown (n, reload) =
     (if n \<le> 1 then (case reload of None \<Rightarrow> None | Some p \<Rightarrow> Some (p, Some p)) else Some (n - 1, reload))"

text \<open>No running timer has run down.\<close>

definition timers_live :: "'z os_scheme \<Rightarrow> bool" where
  "timers_live s \<longleftrightarrow> (\<forall>k. State (os_tmrs s k) = OS_TMR_STATE_RUNNING \<longrightarrow> Remain (os_tmrs s k) \<noteq> 0)"

lemma abs_timers_regist:
  assumes wf: "tmr_wf s" and ok: "tmr_args_ok opt (d * TMR_TICK_PER_SECOND) (p * TMR_TICK_PER_SECOND)"
    and opt: "State (os_tmrs s k) = OS_TMR_STATE_UNUSED \<or> Opt (os_tmrs s k) = opt"
  shows "abs_timers (snd (xTimerRegist k d p opt cb f False s)) =
    (abs_timers s)(k \<mapsto> (unat (if d * TMR_TICK_PER_SECOND = 0 then p * TMR_TICK_PER_SECOND
        else d * TMR_TICK_PER_SECOND),
      if opt = OS_OPT_TMR_PERIODIC then Some (unat (p * TMR_TICK_PER_SECOND)) else None))"
    (is "abs_timers ?s' = _")
proof
  fix j
  have other: "j \<noteq> k \<Longrightarrow> os_tmrs ?s' j = os_tmrs s j"
    by (rule xTimerRegist_other[OF wf]) simp_all
  define s2 where "s2 = snd (xTimerRegist_prepare k (d * TMR_TICK_PER_SECOND)
      (p * TMR_TICK_PER_SECOND) opt cb s)"
  note prep = prepare_ok[OF wf ok, of k cb, folded s2_def]
  have wf2: "tmr_wf s2" using prepare_result[OF wf] unfolding s2_def by blast
  have st: "State (os_tmrs s2 k) \<in> {OS_TMR_STATE_STOPPED, OS_TMR_STATE_COMPLETED}" using prep by blast
  have eq: "?s' = snd (OSTmrStart k s2)"
    using xTimerRegist_eq[of k d p opt cb s s2 False f] prep by (simp add: s2_def)
  have self: "State (os_tmrs ?s' k) = OS_TMR_STATE_RUNNING"
    "Remain (os_tmrs ?s' k) = (if d * TMR_TICK_PER_SECOND = 0 then p * TMR_TICK_PER_SECOND
        else d * TMR_TICK_PER_SECOND)"
    "Opt (os_tmrs ?s' k) = opt" "Period (os_tmrs ?s' k) = p * TMR_TICK_PER_SECOND"
    using prep prepare_opt[OF wf ok opt, of cb, folded s2_def] unfolding eq OSTmrStart_arms[OF st wf2] by simp_all
  define s' where "s' = ?s'"
  note self = self[folded s'_def] and other = other[folded s'_def]
  show "abs_timers ?s' j = ((abs_timers s)(k \<mapsto> (unat (if d * TMR_TICK_PER_SECOND = 0
      then p * TMR_TICK_PER_SECOND else d * TMR_TICK_PER_SECOND),
      if opt = OS_OPT_TMR_PERIODIC then Some (unat (p * TMR_TICK_PER_SECOND)) else None))) j"
    unfolding s'_def[symmetric] by (cases "j = k") (simp_all add: abs_timers_def self other Let_def)
qed

lemma abs_timers_stop:
  assumes "tmr_wf s"
  shows "abs_timers (snd (xTmrStop k s)) = (abs_timers s)(k := None)"
proof
  fix j
  have "State (os_tmrs (snd (xTmrStop k s)) k) \<noteq> OS_TMR_STATE_RUNNING"
    using xTmrStop_effect(1,2)[OF assms, of k] usGetTmrState_wf by metis
  then show "abs_timers (snd (xTmrStop k s)) j = ((abs_timers s)(k := None)) j"
    using xTmrStop_effect(3)[OF assms, of j k] by (cases "j = k") (simp_all add: abs_timers_def Let_def)
qed

lemma abs_timers_pass:
  assumes "quiet run" and "tmr_wf s" and live: "timers_live s"
  shows "\<exists>s'. OS_TmrTask_pass run s = Some s' \<and>
    abs_timers s' = (\<lambda>k. Option.bind (abs_timers s k) countdown)"
proof -
  obtain s' where s': "OS_TmrTask_pass run s = Some s'"
    "os_tmrs s' = (\<lambda>k. if State (os_tmrs s k) = OS_TMR_STATE_RUNNING then tick1 (os_tmrs s k) else os_tmrs s k)"
    using OS_TmrTask_pass_quiet[OF assms(1,2)] by blast
  have "abs_timers s' k = Option.bind (abs_timers s k) countdown" for k
  proof (cases "State (os_tmrs s k) = OS_TMR_STATE_RUNNING")
    case True
    then have r: "Remain (os_tmrs s k) \<noteq> 0" using live by (simp add: timers_live_def)
    have one: "unat (Remain (os_tmrs s k)) \<le> 1 \<longleftrightarrow> Remain (os_tmrs s k) = 1"
      using r by (auto simp: word_unat_eq_iff le_Suc_eq)
    have minus: "unat (Remain (os_tmrs s k) - 1) = unat (Remain (os_tmrs s k)) - 1"
      using r by (simp add: unat_minus_one)
    show ?thesis unfolding abs_timers_def s'(2) tick1_def Let_def
      using True one minus by simp
  next
    case False
    then show ?thesis by (simp add: abs_timers_def s'(2) Let_def)
  qed
  then show ?thesis using s'(1) by blast
qed



end
