(* ===== verification/UnitProps.thy ===== *)
theory UnitProps
  imports FanProps
begin

text \<open>
  The control of the rooftop units: which changes of the running mode the automatic control makes
  and when, how long it then keeps a mode, what it does when units fail, and the alarm.
\<close>

section \<open>The running mode\<close>

lemma unit_part_eRunningMode: "unit_part s = unit_part t \<Longrightarrow> eRunningMode s = eRunningMode t"
  by (simp add: unit_part_def)

lemma ExAirRequest_eRunningMode [simp]: "eRunningMode (vSystem_ExAirRequest_Vol s) = eRunningMode s"
  by (rule unit_part_eRunningMode) simp

lemma arm_dwell_eRunningMode [simp]: "eRunningMode (arm_dwell n s) = eRunningMode s"
  by (rule unit_part_eRunningMode) simp

lemma upd_keeps_eRunningMode [simp]:
  "eRunningMode (upd_roof i g s) = eRunningMode s" "eRunningMode (upd_bms h t) = eRunningMode t"
  "eRunningMode (upd_roofs g t) = eRunningMode t"
  by (simp_all add: upd_roof_def upd_bms_def upd_roofs_def for_loop_frame[of eRunningMode])

lemma SwitchOpen_eRunningMode [simp]: "eRunningMode (vModularRoof_SwitchOpen i s) = eRunningMode s"
  by (simp add: vModularRoof_SwitchOpen_def Let_def split_beta frame)

lemma OpenUnits_eRunningMode [simp]: "eRunningMode (vSystem_OpenUnits s) = eRunningMode s"
  by (simp add: vSystem_OpenUnits_def for_loop_frame[of eRunningMode])

lemma set_unit_mode_eRunningMode [simp]: "eRunningMode (set_unit_mode m n s) = eRunningMode s"
  by (simp add: set_unit_mode_def vModularRoof_SetRunningMode_def Let_def split: option.split)

lemma ChangeEnergyTemp_eRunningMode [simp]:
  "eRunningMode (snd (usSystem_ChangeEnergyTemp s)) = eRunningMode s"
  by (simp add: usSystem_ChangeEnergyTemp_def Let_def)

lemma UnitCompsClosed_eRunningMode [simp]:
  "eRunningMode (snd (xSystem_UnitCompsClosed s)) = eRunningMode s"
  by (simp add: xSystem_UnitCompsClosed_def)

lemma SetUnitRunningMode_eRunningMode [simp]: "eRunningMode (vSystem_SetUnitRunningMode m s) = m"
  by (simp add: vSystem_SetUnitRunningMode_def Let_def for_loop_frame[of eRunningMode])

lemma enter_eRunningMode [simp]:
  "eRunningMode (enter_wet s) = RUN_MODE_WET" "eRunningMode (enter_fan s) = RUN_MODE_FAN"
  "eRunningMode (enter_with_comps m n s) = m"
  by (simp_all add: enter_wet_def enter_fan_def enter_with_comps_def Let_def split_beta)

text \<open>Recomputing the energy temperature only writes set points of the units.\<close>

lemma upd_roofs_reads [simp]:
  "usTempSet (upd_roofs g s) = usTempSet s" "sAmbientIn_T (upd_roofs g s) = sAmbientIn_T s"
  "usModeAdjustTemp (upd_roofs g s) = usModeAdjustTemp s" "os_tmrs (upd_roofs g t) = os_tmrs t"
  "OSTmrList (upd_roofs g t) = OSTmrList t" "usModeChangePeriod (upd_roofs g s) = usModeChangePeriod s"
  "xCompFirstRun (upd_roofs g s) = xCompFirstRun s"
  by (simp_all add: upd_roofs_def upd_roof_def for_loop_frame[of usTempSet] for_loop_frame[of sAmbientIn_T]
      for_loop_frame[of usModeAdjustTemp] for_loop_frame[of os_tmrs] for_loop_frame[of OSTmrList]
      for_loop_frame[of usModeChangePeriod] for_loop_frame[of xCompFirstRun])

lemma ChangeEnergyTemp_reads [simp]:
  "usTempSet (snd (usSystem_ChangeEnergyTemp s)) = usTempSet s"
  "sAmbientIn_T (snd (usSystem_ChangeEnergyTemp s)) = sAmbientIn_T s"
  "usModeAdjustTemp (snd (usSystem_ChangeEnergyTemp s)) = usModeAdjustTemp s"
  "os_tmrs (snd (usSystem_ChangeEnergyTemp s)) = os_tmrs s"
  "usModeChangePeriod (snd (usSystem_ChangeEnergyTemp s)) = usModeChangePeriod s"
  "xCompFirstRun (snd (usSystem_ChangeEnergyTemp s)) = xCompFirstRun s"
  by (simp_all add: usSystem_ChangeEnergyTemp_def Let_def)

lemma guard_cong:
  "sAmbientIn_T t = sAmbientIn_T s \<Longrightarrow> usModeAdjustTemp t = usModeAdjustTemp s \<Longrightarrow> above x n t = above x n s"
  "sAmbientIn_T t = sAmbientIn_T s \<Longrightarrow> usModeAdjustTemp t = usModeAdjustTemp s \<Longrightarrow> below x n t = below x n s"
  "os_tmrs t = os_tmrs s \<Longrightarrow> mode_tmr_idle n t = mode_tmr_idle n s"
  "os_tmrs t = os_tmrs s \<Longrightarrow> dwell_over n t = dwell_over n s"
  by (simp_all add: above_def below_def mode_tmr_idle_def dwell_over_def usGetTmrState_def OSTmrStateGet_def)

text \<open>
  The specification of the control: the edges of the mode graph with the timers that guard each,
  the number of the delay timer and that of the dwell timer.
\<close>

inductive mode_edge :: "eRunningMode \<Rightarrow> eRunningMode \<Rightarrow> nat \<Rightarrow> nat \<Rightarrow> bool" where
  "mode_edge RUN_MODE_FAN RUN_MODE_WET 1 1"
| "mode_edge RUN_MODE_FAN RUN_MODE_HEAT 2 2"
| "mode_edge RUN_MODE_WET RUN_MODE_COOL 3 3"
| "mode_edge RUN_MODE_WET RUN_MODE_FAN 4 4"
| "mode_edge RUN_MODE_COOL RUN_MODE_WET 5 5"
| "mode_edge RUN_MODE_COOL RUN_MODE_WET 7 5"
| "mode_edge RUN_MODE_HEAT RUN_MODE_FAN 6 6"
| "mode_edge RUN_MODE_HEAT RUN_MODE_FAN 8 6"

inductive_simps mode_edge_from:
  "mode_edge RUN_MODE_FAN m n d" "mode_edge RUN_MODE_WET m n d" "mode_edge RUN_MODE_COOL m n d"
  "mode_edge RUN_MODE_HEAT m n d" "mode_edge RUN_MODE_0 m n d"

text \<open>What makes the control take the edge of delay timer \<open>n\<close>, apart from the timers.\<close>

definition edge_reason :: "'z sys_scheme \<Rightarrow> nat \<Rightarrow> bool" where
  "edge_reason s n \<longleftrightarrow>
     (let energy = fst (usSystem_ChangeEnergyTemp s) in
      if n = 1 then above (usTempSet s) 1 s
      else if n = 2 then below (usTempSet s) 2 s
      else if n = 3 then above energy 3 s
      else if n = 4 then below (usTempSet s) 4 s
      else if n = 5 then below energy 5 s
      else if n = 6 then above (usTempSet s) 6 s
      else comps_stopped_again (snd (usSystem_ChangeEnergyTemp s)))"

lemma edge_reason_simps:
  "edge_reason s (Suc 0) = above (usTempSet s) (Suc 0) s" "edge_reason s 2 = below (usTempSet s) 2 s"
  "edge_reason s 3 = above (fst (usSystem_ChangeEnergyTemp s)) 3 s" "edge_reason s 4 = below (usTempSet s) 4 s"
  "edge_reason s 5 = below (fst (usSystem_ChangeEnergyTemp s)) 5 s" "edge_reason s 6 = above (usTempSet s) 6 s"
  "edge_reason s 7 = comps_stopped_again (snd (usSystem_ChangeEnergyTemp s))"
  "edge_reason s 8 = comps_stopped_again (snd (usSystem_ChangeEnergyTemp s))"
  by (simp_all add: edge_reason_def Let_def)

lemma edge_takenI:
  "mode_edge m m' n d \<Longrightarrow> edge_reason s n \<Longrightarrow> mode_tmr_idle n s \<Longrightarrow> dwell_over d s \<Longrightarrow>
    \<exists>n d. mode_edge m m' n d \<and> edge_reason s n \<and> mode_tmr_idle n s \<and> dwell_over d s"
  by blast

lemma ChangeEnergyTemp_heat:
  "eRunningMode s = RUN_MODE_HEAT \<Longrightarrow> snd (usSystem_ChangeEnergyTemp s) = s"
  by (simp add: usSystem_ChangeEnergyTemp_def cool_or_wet_def)

lemma AdjustUnitRunningMode_edge:
  assumes "eRunningMode (vSystem_AdjustUnitRunningMode s) \<noteq> eRunningMode s"
  shows "eSystemMode s = MODE_AUTO \<and> eSystemState s \<noteq> STATE_CLOSED \<and>
    (\<exists>n d. mode_edge (eRunningMode s) (eRunningMode (vSystem_AdjustUnitRunningMode s)) n d \<and>
      edge_reason s n \<and> mode_tmr_idle n s \<and> dwell_over d s)"
proof -
  note cong = guard_cong[of "snd (usSystem_ChangeEnergyTemp s)" s]
  have pre: "eSystemMode s = MODE_AUTO \<and> eSystemState s \<noteq> STATE_CLOSED"
    using assms by (simp add: vSystem_AdjustUnitRunningMode_def split: if_splits)
  moreover have "\<exists>n d. mode_edge (eRunningMode s) (eRunningMode (vSystem_AdjustUnitRunningMode s)) n d \<and>
      edge_reason s n \<and> mode_tmr_idle n s \<and> dwell_over d s"
  proof (cases "eRunningMode s")
    case RUN_MODE_FAN
    then show ?thesis using assms pre edge_takenI[OF mode_edge.intros(1)] edge_takenI[OF mode_edge.intros(2)]
      by (auto simp: vSystem_AdjustUnitRunningMode_def adjust_in_fan_def edge_reason_simps split: if_splits)
  next
    case RUN_MODE_WET
    then show ?thesis using assms pre edge_takenI[OF mode_edge.intros(3)] edge_takenI[OF mode_edge.intros(4)]
      by (auto simp: vSystem_AdjustUnitRunningMode_def adjust_in_wet_def edge_reason_simps cong
          split_beta split: if_splits)
  next
    case RUN_MODE_COOL
    then show ?thesis using assms pre edge_takenI[OF mode_edge.intros(5)] edge_takenI[OF mode_edge.intros(6)]
      by (auto simp: vSystem_AdjustUnitRunningMode_def adjust_in_cool_def edge_reason_simps cong
          split_beta split: if_splits)
  next
    case RUN_MODE_HEAT
    then show ?thesis using assms pre edge_takenI[where s = s, OF mode_edge.intros(7)]
        edge_takenI[where s = s, OF mode_edge.intros(8)]
      by (auto simp: vSystem_AdjustUnitRunningMode_def adjust_in_heat_def edge_reason_simps
          ChangeEnergyTemp_heat split: if_splits)
  next
    case RUN_MODE_0
    then show ?thesis using assms pre by (simp add: vSystem_AdjustUnitRunningMode_def)
  qed
  ultimately show ?thesis by blast
qed


text \<open>
  C25. Each automatic change of the running mode is an edge of the mode graph, made in automatic
  mode while the system is on, for the reason of that edge, with the delay timer of the edge no
  longer running and the dwell timer of the edge over.
\<close>

theorem mode_change_follows_graph:
  assumes "eRunningMode (vSystem_AdjustUnitRunningMode s) \<noteq> eRunningMode s"
  shows "eSystemMode s = MODE_AUTO \<and> eSystemState s \<noteq> STATE_CLOSED \<and>
    (\<exists>n d. mode_edge (eRunningMode s) (eRunningMode (vSystem_AdjustUnitRunningMode s)) n d \<and>
      edge_reason s n \<and> mode_tmr_idle n s \<and> dwell_over d s)"
  by (rule AdjustUnitRunningMode_edge[OF assms])

text \<open>Fan mode at 27.0 degrees with a set point of 25.0 and an adjustment of 1.0: too warm.\<close>

definition warm_example :: sys where
  "warm_example = fans_example\<lparr>eRunningMode := RUN_MODE_FAN, eSystemState := STATE_FAN,
     usTempSet := 250, sAmbientIn_T := 270, usModeAdjustTemp := (\<lambda>n. 10),
     usModeChangePeriod := (\<lambda>n. 5)\<rparr>"

lemma warm_example_simps [simp]:
  "eSystemMode warm_example = MODE_AUTO" "eSystemState warm_example = STATE_FAN"
  "eRunningMode warm_example = RUN_MODE_FAN" "above (usTempSet warm_example) (Suc 0) warm_example"
  "mode_tmr_idle n warm_example" "dwell_over n warm_example" "tmr_wf warm_example"
  "usModeChangePeriod warm_example n = 5"
  by (simp_all add: warm_example_def above_def mode_tmr_idle_def dwell_over_def usGetTmrState_def
      OSTmrStateGet_def tmr_wf_def) (simp_all add: fans_example_def system_zero_def io_zero_def tmr_zero_def)

lemma warm_example_changes: "eRunningMode (vSystem_AdjustUnitRunningMode warm_example) = RUN_MODE_WET"
  by (simp add: vSystem_AdjustUnitRunningMode_def adjust_in_fan_def)

theorem mode_change_follows_graph_witness:
  "\<exists>n d. mode_edge RUN_MODE_FAN RUN_MODE_WET n d \<and> edge_reason warm_example n"
  using mode_change_follows_graph[of warm_example] by (auto simp: warm_example_changes)

section \<open>Dwelling in a mode\<close>

lemma arm_dwell_over:
  assumes "tmr_wf s" and "usModeChangePeriod s n \<noteq> 0"
  shows "dwell_over j (arm_dwell n s) \<longleftrightarrow> j \<noteq> n \<and> dwell_over j s"
  using md_timer.running_arm[OF assms(1), of _ "sModeChangePeriodTmr j" "sModeChangePeriodTmr n"] assms(2)
  by (simp add: dwell_over_def arm_dwell_def one_shot_minutes_ok)

lemma unit_part_usModeChangePeriod: "unit_part s = unit_part t \<Longrightarrow> usModeChangePeriod s = usModeChangePeriod t"
  by (simp add: unit_part_def)

lemma ExAirRequest_period [simp]: "usModeChangePeriod (vSystem_ExAirRequest_Vol s) = usModeChangePeriod s"
  by (rule unit_part_usModeChangePeriod) simp

lemma arm_dwell_period [simp]: "usModeChangePeriod (arm_dwell n s) = usModeChangePeriod s"
  by (rule unit_part_usModeChangePeriod) simp

lemma OpenUnits_period [simp]: "usModeChangePeriod (vSystem_OpenUnits s) = usModeChangePeriod s"
  unfolding vSystem_OpenUnits_def
  by (rule for_loop_frame[of usModeChangePeriod])
    (simp add: vModularRoof_SwitchOpen_def Let_def split_beta upd_roof_def frame)

lemma set_unit_mode_period [simp]: "usModeChangePeriod (set_unit_mode m n s) = usModeChangePeriod s"
  by (simp add: set_unit_mode_def vModularRoof_SetRunningMode_def upd_roof_def Let_def split: option.split)

lemma SetUnitRunningMode_period [simp]:
  "usModeChangePeriod (vSystem_SetUnitRunningMode m s) = usModeChangePeriod s"
  by (simp add: vSystem_SetUnitRunningMode_def Let_def upd_bms_def for_loop_frame[of usModeChangePeriod])

lemma UnitCompsClosed_period [simp]:
  "usModeChangePeriod (snd (xSystem_UnitCompsClosed s)) = usModeChangePeriod s"
  by (simp add: xSystem_UnitCompsClosed_def)

lemma enter_dwell:
  assumes "tmr_wf s" and "\<And>n. usModeChangePeriod s n \<noteq> 0"
  shows "\<not> dwell_over 3 (enter_wet s)" "\<not> dwell_over 4 (enter_wet s)" "\<not> dwell_over 1 (enter_fan s)"
    "\<not> dwell_over n (enter_with_comps m n s)"
  using assms
  by (simp_all add: enter_wet_def enter_fan_def enter_with_comps_def arm_dwell_over Let_def split_beta)

text \<open>A change of mode enters one of the four modes from the state or from the state with its set points recomputed.\<close>

lemma AdjustUnitRunningMode_enters:
  assumes "eRunningMode (vSystem_AdjustUnitRunningMode s) \<noteq> eRunningMode s"
  shows "\<exists>x \<in> {s, snd (usSystem_ChangeEnergyTemp s)}. vSystem_AdjustUnitRunningMode s \<in>
      {enter_wet x, enter_fan x, enter_with_comps RUN_MODE_HEAT 6 x, enter_with_comps RUN_MODE_COOL 5 x}"
proof -
  let ?e = "snd (usSystem_ChangeEnergyTemp s)"
  have "adjust_in_fan s \<in> {s, enter_wet s, enter_with_comps RUN_MODE_HEAT 6 s}"
    "adjust_in_wet s \<in> {?e, enter_fan ?e, enter_with_comps RUN_MODE_COOL 5 ?e}"
    "adjust_in_cool s \<in> {?e, enter_wet ?e}" "adjust_in_heat s \<in> {s, enter_fan s}"
    by (simp_all add: adjust_in_fan_def adjust_in_wet_def adjust_in_cool_def adjust_in_heat_def
        Let_def split_beta)
  moreover have "vSystem_AdjustUnitRunningMode s \<in>
      {s, adjust_in_fan s, adjust_in_wet s, adjust_in_cool s, adjust_in_heat s}"
    by (cases "eRunningMode s") (simp_all add: vSystem_AdjustUnitRunningMode_def)
  moreover have "vSystem_AdjustUnitRunningMode s \<noteq> s" "vSystem_AdjustUnitRunningMode s \<noteq> ?e"
    using assms by (auto dest!: arg_cong[where f = eRunningMode])
  ultimately show ?thesis by (elim insertE emptyE) simp_all
qed

text \<open>
  The mode just entered is guarded by a running dwell timer on each of its edges except the one
  from fan mode to heating.
\<close>

lemma AdjustUnitRunningMode_dwell:
  assumes wf: "tmr_wf s" and p: "\<And>n. usModeChangePeriod s n \<noteq> 0"
    and chg: "eRunningMode (vSystem_AdjustUnitRunningMode s) \<noteq> eRunningMode s"
    and edge: "mode_edge (eRunningMode (vSystem_AdjustUnitRunningMode s)) m n d"
    and over: "dwell_over d (vSystem_AdjustUnitRunningMode s)"
  shows "eRunningMode (vSystem_AdjustUnitRunningMode s) = RUN_MODE_FAN \<and> m = RUN_MODE_HEAT"
proof -
  let ?e = "snd (usSystem_ChangeEnergyTemp s)"
  have e: "tmr_wf ?e" "\<And>n. usModeChangePeriod ?e n \<noteq> 0" using wf p by simp_all
  note dw = enter_dwell[OF wf p] enter_dwell[OF e]
  have cases: "\<exists>x \<in> {s, ?e}. vSystem_AdjustUnitRunningMode s \<in>
      {enter_wet x, enter_fan x, enter_with_comps RUN_MODE_HEAT 6 x, enter_with_comps RUN_MODE_COOL 5 x}"
    using chg by (rule AdjustUnitRunningMode_enters)
  have "eRunningMode y = RUN_MODE_FAN \<and> m = RUN_MODE_HEAT"
    if "x \<in> {s, ?e}" "mode_edge (eRunningMode y) m n d" "dwell_over d y"
      "y = enter_wet x \<or> y = enter_fan x \<or> y = enter_with_comps RUN_MODE_HEAT 6 x \<or>
       y = enter_with_comps RUN_MODE_COOL 5 x" for x y
    using that(4)
  proof (elim disjE)
  qed (use that dw in \<open>auto simp: mode_edge_from\<close>)
  with cases edge over show ?thesis by blast
qed

text \<open>
  C26. When the dwell times are not zero, a mode that has just been entered is not left at the next
  evaluation, whatever temperatures and settings it sees, as long as the timers have not moved on:
  with one exception, heating may follow fan mode at once, since nothing starts dwell timer 2.
\<close>

theorem mode_is_kept_for_dwell_time:
  assumes "tmr_wf s" and "\<forall>n. usModeChangePeriod s n \<noteq> 0"
    and "eRunningMode (vSystem_AdjustUnitRunningMode s) \<noteq> eRunningMode s"
    and "eRunningMode t = eRunningMode (vSystem_AdjustUnitRunningMode s)"
    and "os_tmrs t = os_tmrs (vSystem_AdjustUnitRunningMode s)"
  shows "eRunningMode (vSystem_AdjustUnitRunningMode t) = eRunningMode t \<or>
    eRunningMode t = RUN_MODE_FAN \<and> eRunningMode (vSystem_AdjustUnitRunningMode t) = RUN_MODE_HEAT"
proof (cases "eRunningMode (vSystem_AdjustUnitRunningMode t) = eRunningMode t")
  case False
  from AdjustUnitRunningMode_edge[OF this] obtain n d where
    "mode_edge (eRunningMode t) (eRunningMode (vSystem_AdjustUnitRunningMode t)) n d" "dwell_over d t"
    by blast
  then show ?thesis
    using AdjustUnitRunningMode_dwell[OF assms(1) _ assms(3)] assms(2,4) guard_cong(4)[OF assms(5)] by metis
qed simp

theorem mode_is_kept_for_dwell_time_witness:
  "eRunningMode (vSystem_AdjustUnitRunningMode
     ((vSystem_AdjustUnitRunningMode warm_example)\<lparr>sAmbientIn_T := 100\<rparr>)) = RUN_MODE_WET"
  using mode_is_kept_for_dwell_time[of warm_example
      "(vSystem_AdjustUnitRunningMode warm_example)\<lparr>sAmbientIn_T := 100\<rparr>"]
  by (simp add: warm_example_changes)


section \<open>The alarm\<close>

lemma DelAlarm_relay:
  "DO_channel (sAlarm_DO s) \<Longrightarrow> DO_channel ch \<Longrightarrow>
    DO_on ch (vSystem_DelAlarm s) \<longleftrightarrow> ch \<noteq> sAlarm_DO s \<and> DO_on ch s"
  by (simp add: vSystem_DelAlarm_def vDigitalOutputCtrl_effect)

lemma SetAlarm_relay:
  "DO_channel (sAlarm_DO s) \<Longrightarrow> DO_channel ch \<Longrightarrow>
    DO_on ch (vSystem_SetAlarm s) \<longleftrightarrow> (ch = sAlarm_DO s \<and> xAlarmEnable s) \<or> DO_on ch s"
  by (auto simp: vSystem_SetAlarm_def vDigitalOutputCtrl_effect)

lemma alarm_pending_relays:
  "alarm_pending (vDigitalOutputCtrl ch e s) = alarm_pending s"
  by (simp add: alarm_pending_def unit_alarm_def frame)

text \<open>
  C27. The alarm relay: an event that may raise the alarm switches it on exactly if alarms are
  enabled; an event that may end it leaves it on exactly if it was on, alarms are enabled and a
  cause is still pending; enabling alarms switches it on if a cause is pending, disabling them
  switches it off. None of the three touches another relay.
\<close>

theorem alarm_relay_follows_causes:
  assumes "DO_channel (sAlarm_DO s)" and "DO_channel ch"
  shows "(DO_on ch (vSystem_SetAlarm s) \<longleftrightarrow>
      (if ch = sAlarm_DO s then DO_on ch s \<or> xAlarmEnable s else DO_on ch s)) \<and>
    (DO_on ch (vSystem_DelAlarmRequst s) \<longleftrightarrow>
      (if ch = sAlarm_DO s then DO_on ch s \<and> xAlarmEnable s \<and> alarm_pending s else DO_on ch s)) \<and>
    (DO_on ch (vSystem_AlarmEnable en s) \<longleftrightarrow>
      (if ch = sAlarm_DO s then en \<and> (DO_on ch s \<or> alarm_pending s) else DO_on ch s))"
proof (intro conjI)
  have keep: "sAlarm_DO (vSystem_DelAlarm s) = sAlarm_DO s"
    "alarm_pending (vSystem_DelAlarm s) = alarm_pending s"
    by (simp_all add: vSystem_DelAlarm_def alarm_pending_relays) (simp add: frame)
  show "DO_on ch (vSystem_SetAlarm s) \<longleftrightarrow>
      (if ch = sAlarm_DO s then DO_on ch s \<or> xAlarmEnable s else DO_on ch s)"
    using SetAlarm_relay[OF assms] by auto
  have twice: "DO_on ch (vSystem_DelAlarm (vSystem_DelAlarm s)) \<longleftrightarrow> ch \<noteq> sAlarm_DO s \<and> DO_on ch s"
    using DelAlarm_relay[OF assms] DelAlarm_relay[of "vSystem_DelAlarm s" ch] assms keep by simp
  show "DO_on ch (vSystem_DelAlarmRequst s) \<longleftrightarrow>
      (if ch = sAlarm_DO s then DO_on ch s \<and> xAlarmEnable s \<and> alarm_pending s else DO_on ch s)"
    using DelAlarm_relay[OF assms] twice by (auto simp: vSystem_DelAlarmRequst_def Let_def keep)
  let ?e = "s\<lparr>xAlarmEnable := en\<rparr>"
  have "DO_on ch ?e = DO_on ch s" "alarm_pending ?e = alarm_pending s"
    by (simp_all add: DO_on_def alarm_pending_def unit_alarm_def)
  then show "DO_on ch (vSystem_AlarmEnable en s) \<longleftrightarrow>
      (if ch = sAlarm_DO s then en \<and> (DO_on ch s \<or> alarm_pending s) else DO_on ch s)"
    using SetAlarm_relay[of ?e ch] DelAlarm_relay[of ?e ch] assms
    by (auto simp: vSystem_AlarmEnable_def Let_def)
qed

theorem alarm_relay_follows_causes_witness:
  "DO_on 13 (vSystem_AlarmEnable True (fans_example\<lparr>xCO2SenErr := True\<rparr>))"
proof -
  have "sAlarm_DO (fans_example\<lparr>xCO2SenErr := True\<rparr>) = 13" by (simp add: fans_example_def)
  then show ?thesis
    using alarm_relay_follows_causes[of "fans_example\<lparr>xCO2SenErr := True\<rparr>" 13 True]
    by (simp add: alarm_pending_def)
qed

section \<open>Failing units\<close>

text \<open>What decides the health of the units and how the fresh air is shared among them.\<close>

definition unit_view :: "'z roof_sys_scheme \<Rightarrow> (bool \<times> bool \<times> u16) list" where
  "unit_view s = map (\<lambda>r. (mr_xStopErrFlag r, mr_xCommErr r, mr_usFreAirSet_Vol r)) (psModularRoofList s)"

lemma unit_part_unit_view: "unit_part s = unit_part t \<Longrightarrow> unit_view s = unit_view t"
  by (simp add: unit_part_def unit_view_def)

lemma unit_view_upd_roof [simp]:
  assumes "\<And>r. mr_xStopErrFlag (g r) = mr_xStopErrFlag r" "\<And>r. mr_xCommErr (g r) = mr_xCommErr r"
    "\<And>r. mr_usFreAirSet_Vol (g r) = mr_usFreAirSet_Vol r"
  shows "unit_view (upd_roof i g s) = unit_view s" "unit_view (upd_roofs g s) = unit_view s"
proof -
  show one: "unit_view (upd_roof i g s) = unit_view s" for i and s :: "'c roof_sys_scheme"
    using assms by (simp add: unit_view_def upd_roof_def map_list_update_same)
  show "unit_view (upd_roofs g s) = unit_view s"
    by (simp add: upd_roofs_def one for_loop_frame[of unit_view])
qed

lemma unit_view_keeps [simp]:
  "unit_view (vSystem_ExAirFanCtrl s) = unit_view s" "unit_view (arm_mode_tmr n s) = unit_view s"
  "unit_view (vDigitalOutputCtrl ch e s) = unit_view s" "unit_view (upd_bms b s) = unit_view s"
  by (rule unit_part_unit_view, simp add: frame)+

lemma unit_view_steps [simp]:
  "unit_view (vSystem_SetAlarm s) = unit_view s" "unit_view (vSystem_DelAlarmRequst s) = unit_view s"
  "unit_view (snd (usSystem_ChangeEnergyTemp s)) = unit_view s"
  by (simp_all add: vSystem_SetAlarm_def vSystem_DelAlarmRequst_def vSystem_DelAlarm_def
      usSystem_ChangeEnergyTemp_def Let_def)

lemma unit_view_fields [simp]:
  "unit_view (xCompFirstRun_update f s) = unit_view s" "unit_view (ulTotalFreAir_Vol_update g s) = unit_view s"
  "unit_view (usCO2PPM_update h s) = unit_view s" "unit_view (sAmbientOut_T_update h1 s) = unit_view s"
  "unit_view (usAmbientOut_H_update h2 s) = unit_view s" "unit_view (sAmbientIn_T_update h3 s) = unit_view s"
  "unit_view (usAmbientIn_H_update h4 s) = unit_view s" "unit_view (ulFreAirSet_Vol_update h5 s) = unit_view s"
  "unit_view (xUnitErrFlag_update h6 s) = unit_view s" "unit_view (eSystemMode_update h7 s) = unit_view s"
  by (simp_all add: unit_view_def)

lemma unit_view_ChangeUnitRunningMode [simp]:
  "unit_view (vSystem_ChangeUnitRunningMode s) = unit_view s"
  by (simp add: vSystem_ChangeUnitRunningMode_def change_in_fan_def change_in_wet_def
      change_in_cool_def change_in_heat_def Let_def split_beta split: eRunningMode.split)

lemma unit_view_sensors [simp]:
  "unit_view (vSystem_UnitFreAir s) = unit_view s" "unit_view (vSystem_UnitCO2PPM st s) = unit_view s"
  "unit_view (vSystem_UnitTempHumiOut s) = unit_view s" "unit_view (vSystem_UnitTempHumiIn st s) = unit_view s"
  by (simp_all add: vSystem_UnitFreAir_def vSystem_UnitCO2PPM_def vSystem_UnitTempHumiOut_def
      vSystem_UnitTempHumiIn_def Let_def split_beta)

lemma unit_err_open_view [simp]: "unit_view (unit_err_open n s) = unit_view s"
  "eSystemMode (unit_err_open n s) = eSystemMode s" "ulFreAirSet_Vol (unit_err_open n s) = ulFreAirSet_Vol s"
  by (simp_all add: unit_err_open_def vModularRoof_SwitchOpen_def) (simp_all add: upd_roof_def)

lemma unit_view_nth:
  assumes "unit_view s = unit_view t"
  shows "length (psModularRoofList s) = length (psModularRoofList t)"
    and "n < length (psModularRoofList t) \<Longrightarrow> unit_healthy n s = unit_healthy n t \<and>
      mr_usFreAirSet_Vol (roof n s) = mr_usFreAirSet_Vol (roof n t)"
proof -
  show len: "length (psModularRoofList s) = length (psModularRoofList t)"
    using arg_cong[where f = length, OF assms] by (simp add: unit_view_def)
  show "n < length (psModularRoofList t) \<Longrightarrow> unit_healthy n s = unit_healthy n t \<and>
      mr_usFreAirSet_Vol (roof n s) = mr_usFreAirSet_Vol (roof n t)"
    using arg_cong[where f = "\<lambda>l. l ! n", OF assms] len by (simp add: unit_view_def unit_healthy_def)
qed

lemma healthy_units_view:
  assumes "unit_view s = unit_view t" and "length (psModularRoofList t) = MODULAR_ROOF_NUM"
  shows "healthy_units s = healthy_units t"
  unfolding healthy_units_def
  by (rule filter_cong) (use unit_view_nth(2)[OF assms(1)] assms(2) in auto)

lemma healthy_units_two:
  "healthy_units s = (if unit_healthy 0 s then [0] else []) @ (if unit_healthy 1 s then [1] else [])"
  by (simp add: healthy_units_def upt_rec)

text \<open>The share of fresh air a unit is set to.\<close>

definition fresh_air_share :: "nat \<Rightarrow> 'z sys_scheme \<Rightarrow> nat" where
  "fresh_air_share n s =
     (if healthy_units s = [n] then min (unat (ulFreAirSet_Vol s)) 65000
      else if length (healthy_units s) = MODULAR_ROOF_NUM then unat (ulFreAirSet_Vol s) div 2
      else unat (mr_usFreAirSet_Vol (roof n s)))"

lemma upd_roofs_roof:
  assumes "length (psModularRoofList s) = MODULAR_ROOF_NUM" "n < MODULAR_ROOF_NUM"
  shows "roof n (upd_roofs g s) = g (roof n s)"
  using assms by (auto simp: upd_roofs_def for_loop_numeral for_loop_1 less_2_cases_iff)

lemma upd_bms_roofs [simp]: "psModularRoofList (upd_bms b s) = psModularRoofList s"
  by (simp add: upd_bms_def)

lemma unit_err_fresh_air_roof:
  assumes "length (psModularRoofList s) = MODULAR_ROOF_NUM" and "n < MODULAR_ROOF_NUM"
  shows "mr_usFreAirSet_Vol (roof n (unit_err_fresh_air s)) =
    (if healthy_units s = [n] then ucast (min (ulFreAirSet_Vol s) MODULAR_MAX_FRE_AIR_VOL)
     else if length (healthy_units s) = MODULAR_ROOF_NUM then ucast (ulFreAirSet_Vol s div 2)
     else mr_usFreAirSet_Vol (roof n s))"
proof -
  consider "healthy_units s = []" | k where "healthy_units s = [k]" "k < MODULAR_ROOF_NUM" |
    "healthy_units s = [0, 1]"
    by (cases "unit_healthy 0 s"; cases "unit_healthy 1 s") (simp_all add: healthy_units_two)
  then show ?thesis
  proof cases
    case (2 k)
    then show ?thesis using assms
      by (cases "k = n") (simp_all add: unit_err_fresh_air_def Let_def min_def flip: not_less)
  qed (use assms in \<open>simp_all add: unit_err_fresh_air_def Let_def upd_roofs_roof\<close>)
qed

lemma unit_err_fresh_air_share:
  assumes "length (psModularRoofList s) = MODULAR_ROOF_NUM" and "n < MODULAR_ROOF_NUM"
    and vol: "unat (ulFreAirSet_Vol s) \<le> 130000"
  shows "unat (mr_usFreAirSet_Vol (roof n (unit_err_fresh_air s))) = fresh_air_share n s"
proof -
  let ?v = "ulFreAirSet_Vol s"
  have u: "unat (ucast w :: u16) = unat w" if "unat w \<le> 65000" for w :: u32
    using that by (simp add: unsigned_ucast_eq take_bit_nat_eq_self)
  have "unat (min ?v MODULAR_MAX_FRE_AIR_VOL) = min (unat ?v) 65000"
    by (simp add: MODULAR_MAX_FRE_AIR_VOL_def min_def word_le_nat_alt)
  moreover have "unat (?v div 2) = unat ?v div 2" by (simp add: unat_div)
  ultimately show ?thesis
    unfolding unit_err_fresh_air_roof[OF assms(1,2)] fresh_air_share_def using vol by (simp add: u)
qed

text \<open>
  C28. What a fault of the units makes the system do, for two units and a fresh air setting the
  commands allow: the unit error flag says that no unit is healthy; then automatic and emergency
  mode give way to manual mode, and otherwise the mode stays. A single healthy unit takes over all
  the fresh air up to 65000, two share it equally, and the setting of the others stays.
\<close>

theorem unit_failure_response:
  assumes "length (psModularRoofList s) = MODULAR_ROOF_NUM" and "unat (ulFreAirSet_Vol s) \<le> 130000"
  shows "(xUnitErrFlag (vSystem_UnitErr st1 st2 s) \<longleftrightarrow> (\<forall>n < MODULAR_ROOF_NUM. \<not> unit_healthy n s)) \<and>
    eSystemMode (vSystem_UnitErr st1 st2 s) =
      (if (\<forall>n < MODULAR_ROOF_NUM. \<not> unit_healthy n s) \<and> auto_or_emergency s then MODE_MANUAL
       else eSystemMode s) \<and>
    (\<forall>n < MODULAR_ROOF_NUM. unat (mr_usFreAirSet_Vol (roof n (vSystem_UnitErr st1 st2 s))) =
      fresh_air_share n s)"
proof -
  let ?t = "vSystem_UnitErr st1 st2 s"
  define s1 where "s1 = for_loop MODULAR_ROOF_NUM unit_err_open s"
  define s2 where "s2 = unit_err_fresh_air s1"
  define s4 where "s4 = vSystem_UnitTempHumiIn st2 (vSystem_UnitTempHumiOut
    (vSystem_UnitCO2PPM st1 (vSystem_UnitFreAir
      (if length (healthy_units s1) < MODULAR_ROOF_NUM then vSystem_SetAlarm s2
       else vSystem_DelAlarmRequst s2))))"
  have v1: "unit_view s1 = unit_view s" by (simp add: s1_def for_loop_frame[of unit_view])
  have len1: "length (psModularRoofList s1) = MODULAR_ROOF_NUM" using unit_view_nth(1)[OF v1] assms(1) by simp
  have h1: "healthy_units s1 = healthy_units s" by (rule healthy_units_view[OF v1 assms(1)])
  have vol1: "ulFreAirSet_Vol s1 = ulFreAirSet_Vol s" by (simp add: s1_def for_loop_frame[of ulFreAirSet_Vol])
  have none: "healthy_units s = [] \<longleftrightarrow> (\<forall>n < MODULAR_ROOF_NUM. \<not> unit_healthy n s)"
    by (auto simp: healthy_units_def filter_empty_conv)
  have v4: "unit_view s4 = unit_view s2" by (simp add: s4_def)
  have m4: "modes s4 = modes s" by (simp add: s4_def s2_def s1_def)
  have t: "?t = (if healthy_units s = []
      then (if auto_or_emergency (s4\<lparr>xUnitErrFlag := True\<rparr>)
            then upd_bms (\<lambda>b. b\<lparr>bms_eSystemMode := MODE_MANUAL\<rparr>)
                   (s4\<lparr>xUnitErrFlag := True, eSystemMode := MODE_MANUAL\<rparr>)
            else s4\<lparr>xUnitErrFlag := True\<rparr>)
      else s4\<lparr>xUnitErrFlag := False\<rparr>)"
    by (simp add: vSystem_UnitErr_def Let_def s4_def s2_def flip: s1_def h1)
  have vt: "unit_view ?t = unit_view s2" using v4 by (simp add: t)
  have len2: "length (psModularRoofList s2) = MODULAR_ROOF_NUM"
    using len1 by (simp add: s2_def unit_err_fresh_air_def Let_def upd_roofs_def for_loop_numeral for_loop_1)
  have "unat (mr_usFreAirSet_Vol (roof n ?t)) = fresh_air_share n s" if n: "n < MODULAR_ROOF_NUM" for n
  proof -
    have "unat (mr_usFreAirSet_Vol (roof n ?t)) = fresh_air_share n s1"
      using unit_view_nth(2)[OF vt] n len2 unit_err_fresh_air_share[OF len1 n] assms(2) vol1
      by (simp add: s2_def)
    also have "\<dots> = fresh_air_share n s"
      using unit_view_nth(2)[OF v1] n assms(1) by (simp add: fresh_air_share_def h1 vol1)
    finally show ?thesis .
  qed
  moreover have "xUnitErrFlag ?t \<longleftrightarrow> healthy_units s = []" by (simp add: t upd_bms_def)
  moreover have "eSystemMode ?t = (if healthy_units s = [] \<and> auto_or_emergency s then MODE_MANUAL else eSystemMode s)"
    using m4 by (simp add: t upd_bms_def auto_or_emergency_def modes_def)
  ultimately show ?thesis unfolding none by blast
qed

theorem unit_failure_response_witness:
  "\<forall>st1 st2. eSystemMode (vSystem_UnitErr st1 st2 (fans_example\<lparr>psModularRoofList :=
      [roof_zero\<lparr>mr_xCommErr := True\<rparr>, roof_zero\<lparr>mr_xStopErrFlag := True\<rparr>]\<rparr>)) = MODE_MANUAL"
proof -
  let ?s = "fans_example\<lparr>psModularRoofList :=
      [roof_zero\<lparr>mr_xCommErr := True\<rparr>, roof_zero\<lparr>mr_xStopErrFlag := True\<rparr>]\<rparr>"
  have "ulFreAirSet_Vol ?s = 0" "auto_or_emergency ?s" "\<forall>n < MODULAR_ROOF_NUM. \<not> unit_healthy n ?s"
    by (simp_all add: fans_example_def system_zero_def io_zero_def auto_or_emergency_def
        unit_healthy_def less_2_cases_iff nth_Cons')
  then show ?thesis using unit_failure_response[of ?s] by simp
qed

end
