(* ===== verification/Inputs.thy ===== *)
theory Inputs
  imports Sensor
begin

text \<open>
  The inputs of the controller, \<open>Module/md_input.c\<close>: the eight-way multiplexer, the analogue
  samples and their conversion to a current and to a real value, the digital inputs, and the
  receive function of the input task, which stores every registered input in its variable.

  What the chip sees is a parameter: while the multiplexer stands at channel \<open>n\<close>, \<open>env n\<close> gives
  the values of ports 0 and 1 and the seven results of the analogue converter.
\<close>

section \<open>Analogue samples\<close>

definition DeltaUAList :: "int list" where
  "DeltaUAList = [32,32,32,33,32,32,32,31,31,31,32,32,31,31,31,31,32,31,
     31,30,30,29,31,31,30,30,29,29,28,29,29,29,28,28,27,29,
     29,28,28,27,26,27,27,26,25,23,21,19,18,16,14,13,12,11,
     13,12,11,11,11,10,11,11,10,9,9,8,10,8,8,7,6,6,
     6,6,5,3,1,0,-15,-42,-60]"

definition RealUAList :: "int list" where
  "RealUAList = [432,452,472,493,512,532,552,571,591,
     611,632,652,671,691,711,731,752,771,
     791,810,830,849,871,891,910,930,949,
     969,988,1009,1029,1049,1068,1088,1107,1129,
     1149,1168,1188,1207,1226,1247,1267,1286,1305,
     1323,1341,1359,1378,1396,1414,1433,1452,1471,
     1493,1512,1531,1551,1571,1590,1611,1631,1650,
     1669,1689,1708,1730,1748,1768,1787,1806,1826,
     1846,1866,1885,1903,1921,1940,1945,1938,1940]"

text \<open>Reading \<open>i\<close>: the first is dropped, the others go into the maximum and the minimum.\<close>

definition sampling_step :: "u32 list \<Rightarrow> nat \<Rightarrow> u32 \<times> u32 \<Rightarrow> u32 \<times> u32" where
  "sampling_step hits i = (\<lambda>(mx, mn).
     if 0 < i then
       let (mx, mn) = (if i = 1 then (hits ! i, hits ! i) else (mx, mn));
           mx = (if mx < hits ! i then hits ! i else mx)
       in (mx, if mn > hits ! i then hits ! i else mn)
     else (mx, mn))"

definition ulAnalogInputSampling :: "u32 list \<Rightarrow> u32" where
  "ulAnalogInputSampling hits =
     (let (mx, mn) = for_loop 7 (sampling_step hits) (0, 0);
          total = fold (\<lambda>i sum. sum + hits ! i) [1..<7] 0
      in (total - mx - mn) div 4)"

definition sAnalogInputToUA :: "u32 \<Rightarrow> s16" where
  "sAnalogInputToUA ulSample =
     (let ulInput_V = 100 * 3300 * ulSample div 4096 in ucast (ulInput_V div 150))"

section \<open>Calibration and conversion\<close>

definition uA_distance :: "s16 \<Rightarrow> nat \<Rightarrow> s16" where
  "uA_distance uA i =
     (let real = word_of_int (RealUAList ! i) in if real <s uA then uA - real else real - uA)"

definition calibrate_step :: "s16 \<Rightarrow> nat \<Rightarrow> s16 \<times> nat \<Rightarrow> s16 \<times> nat" where
  "calibrate_step uA i = (\<lambda>(deltaMin, deltaMinIndex).
     let delta = uA_distance uA i in if delta <s deltaMin then (delta, i) else (deltaMin, deltaMinIndex))"

definition sAnalogInputCalibrateuA :: "s16 \<Rightarrow> s16" where
  "sAnalogInputCalibrateuA us10_uA =
     (let (deltaMin, deltaMinIndex) = for_loop 81 (calibrate_step us10_uA) (uA_distance us10_uA 0, 0)
      in us10_uA - word_of_int (DeltaUAList ! deltaMinIndex))"

definition ulInputConvertToReal :: "s32 \<Rightarrow> s32 \<Rightarrow> s16 \<Rightarrow> u32" where
  "ulInputConvertToReal lMin lMax s10uA =
     (let s10uA_C = sAnalogInputCalibrateuA s10uA in
      if 400 \<le> sint s10uA_C
      then word_of_int (c_int ((sint s10uA_C - 400) * sint (lMax - lMin)) sdiv 1600) + lMin
      else 0)"

section \<open>The multiplexer\<close>

definition ucInputGet4051Channel :: "'z io_scheme \<Rightarrow> u8" where
  "ucInputGet4051Channel s = ucast (drop_bit 27 (GPIO_ReadValue 1 s) AND 7)"

definition vInputSet4051Channel :: "u8 \<Rightarrow> 'z io_scheme \<Rightarrow> 'z io_scheme" where
  "vInputSet4051Channel ucChannel s =
     (let put = (\<lambda>clear set. GPIO_SetValue 1 (push_bit 27 set) (GPIO_ClearValue 1 (push_bit 27 clear) s)) in
      if ucChannel = 1 then GPIO_ClearValue 1 (push_bit 27 7) s
      else if ucChannel = 2 then put 6 1
      else if ucChannel = 3 then put 5 2
      else if ucChannel = 4 then put 4 3
      else if ucChannel = 5 then put 3 4
      else if ucChannel = 6 then put 2 5
      else if ucChannel = 7 then put 1 6
      else if ucChannel = 8 then GPIO_SetValue 1 (push_bit 27 7) s
      else GPIO_ClearValue 1 (push_bit 27 7) s)"

section \<open>Reading the inputs\<close>

definition AI_channel_order :: "nat list" where
  "AI_channel_order = [2, 1, 0, 3, 7, 5, 4, 6]"

definition sAnalogInputGetuA :: "u8 \<Rightarrow> 'z io_scheme \<Rightarrow> s16" where
  "sAnalogInputGetuA ucChannel s =
     (if 0 < ucChannel \<and> ucChannel \<le> 8
      then AnalogInputuA s ! (AI_channel_order ! (unat ucChannel - 1)) else 0)"

definition ulAnalogInputGetRealVal :: "u8 \<Rightarrow> 'z io_scheme \<Rightarrow> u32" where
  "ulAnalogInputGetRealVal ucChannel s =
     (if 0 < ucChannel \<and> ucChannel \<le> 8 then
        let d = AnalogInputData s ! (unat ucChannel - 1)
        in ulInputConvertToReal (ai_lMin d) (ai_lMax d) (sAnalogInputGetuA ucChannel s)
      else 0)"

definition ucDigitalInputGetBit :: "nat \<Rightarrow> nat \<Rightarrow> 'z io_scheme \<Rightarrow> u8" where
  "ucDigitalInputGetBit ucDACNum ucOffsetBit s =
     (if ucDACNum = 1 then drop_bit ucOffsetBit (LogicInput1 s) AND 1
      else drop_bit ucOffsetBit (LogicInput2 s) AND 1)"

text \<open>The logic input and the bit behind each digital channel.\<close>

definition DI_wiring :: "(nat \<times> nat) list" where
  "DI_wiring = [(2, 4), (2, 6), (2, 2), (2, 1), (2, 0), (2, 3), (2, 5),
     (1, 4), (1, 6), (1, 2), (1, 1), (1, 0), (1, 3), (1, 7), (1, 5)]"

definition ucDigitalInputGetRealVal :: "u8 \<Rightarrow> 'z io_scheme \<Rightarrow> u8" where
  "ucDigitalInputGetRealVal ucChannel s =
     (if 0 < ucChannel \<and> ucChannel \<le> 15
      then let (n, bit) = DI_wiring ! (unat ucChannel - 1) in ucDigitalInputGetBit n bit s
      else 0)"

definition ucSaInputConvertToID :: "u8 \<Rightarrow> u8" where
  "ucSaInputConvertToID sa =
     NOT (push_bit 4 (sa AND 1) OR drop_bit 1 (sa AND 2) OR drop_bit 1 (sa AND 4) OR (sa AND 8) OR
          drop_bit 2 (sa AND 16)) AND 31"

section \<open>The receive function\<close>

record input_env =
  in_port0 :: u32
  in_port1 :: u32
  in_hits :: "u32 list"

text \<open>
  One turn of the first loop. The wait for the multiplexer only delays: the channel read back is
  the one just set. The accumulators are the three temporaries.
\<close>

definition receive_channel ::
  "(nat \<Rightarrow> input_env) \<Rightarrow> nat \<Rightarrow> (u8 \<times> u8 \<times> u8) \<times> 'z io_scheme \<Rightarrow> (u8 \<times> u8 \<times> u8) \<times> 'z io_scheme"
where
  "receive_channel env i = (\<lambda>((sa, l1, l2), s).
     let s1 = vInputSet4051Channel (of_nat i + 1) s;
         e = env (unat (ucInputGet4051Channel s1));
         sa = sa OR push_bit i (ucast (drop_bit 28 (in_port0 e) AND 1));
         l1 = l1 OR push_bit i (ucast (drop_bit 29 (in_port0 e) AND 1));
         l2 = l2 OR push_bit i (ucast (drop_bit 19 (in_port1 e) AND 1))
     in ((sa, l1, l2),
         s1\<lparr>AnalogInputuA := (AnalogInputuA s1)[i := sAnalogInputToUA (ulAnalogInputSampling (in_hits e))]\<rparr>))"

text \<open>
  The 32-bit store goes to a 16-bit variable. The upper half lands in the field behind it, the
  lower half of \<open>sFreq_AO.lMax\<close>.
\<close>

definition store_analog :: "ai_var \<Rightarrow> u32 \<Rightarrow> 'z fan_sys_scheme \<Rightarrow> 'z fan_sys_scheme" where
  "store_analog v x s = (case v of Fan_usRunningFreq i \<Rightarrow>
     upd_fan i (\<lambda>f. f\<lparr>usRunningFreq := ucast x,
        sFreq_AO := (sFreq_AO f)\<lparr>io_lMax := push_bit 16 (drop_bit 16 (io_lMax (sFreq_AO f))) OR drop_bit 16 x\<rparr>\<rparr>) s)"

definition store_digital :: "di_var \<Rightarrow> bool \<Rightarrow> 'z fan_sys_scheme \<Rightarrow> 'z fan_sys_scheme" where
  "store_digital v b s = (case v of
     Fan_eRunningState i \<Rightarrow> upd_fan i (\<lambda>f. f\<lparr>dev_eRunningState := if b then STATE_RUN else STATE_STOP\<rparr>) s
   | Fan_xExAirFanErr i \<Rightarrow> upd_fan i (\<lambda>f. f\<lparr>xExAirFanErr := b\<rparr>) s
   | Fan_xExAirFanRemote i \<Rightarrow> upd_fan i (\<lambda>f. f\<lparr>xExAirFanRemote := b\<rparr>) s)"

definition store_AI :: "nat \<Rightarrow> 'z fan_sys_scheme \<Rightarrow> 'z fan_sys_scheme" where
  "store_AI i s = (case pvAIVal (AnalogInputData s ! i) of None \<Rightarrow> s
     | Some v \<Rightarrow> store_analog v (ulAnalogInputGetRealVal (of_nat i + 1) s) s)"

definition store_DI :: "nat \<Rightarrow> 'z fan_sys_scheme \<Rightarrow> 'z fan_sys_scheme" where
  "store_DI i s = (case DigitalInputData s ! i of None \<Rightarrow> s
     | Some v \<Rightarrow> store_digital v (ucDigitalInputGetRealVal (of_nat i + 1) s = 0) s)"

definition vInputReceive :: "(nat \<Rightarrow> input_env) \<Rightarrow> 'z fan_sys_scheme \<Rightarrow> 'z fan_sys_scheme" where
  "vInputReceive env s =
     (let ((sa, l1, l2), s1) = for_loop 8 (receive_channel env) ((0, 0, 0), s);
          s2 = s1\<lparr>SaInput := sa, LogicInput1 := l1, LogicInput2 := l2\<rparr>;
          s3 = for_loop DI_NUM store_DI (for_loop AI_NUM store_AI s2)
      in s3\<lparr>ControllerID := ucSaInputConvertToID (SaInput s3)\<rparr>)"

section \<open>The multiplexer selects what it is set to\<close>

lemma mux_bits:
  fixes w c e :: u32
  assumes "c OR e = mask 3"
  shows "drop_bit 27 ((w AND NOT (push_bit 27 c)) OR push_bit 27 e) AND mask 3 = e"
proof (rule bit_word_eqI)
  fix n
  assume "n < LENGTH(32)"
  have "bit c n \<or> bit e n \<longleftrightarrow> n < 3"
    using arg_cong[where f = "\<lambda>w. bit w n", OF assms] by (auto simp: bit_simps)
  then show "bit (drop_bit 27 ((w AND NOT (push_bit 27 c)) OR push_bit 27 e) AND mask 3) n = bit e n"
    by (auto simp: bit_simps)
qed

lemma mask_3: "(mask 3 :: u32) = 7"
  by (simp add: mask_eq_exp_minus_1)

lemma mux_roundtrip:
  assumes "i < 8"
  shows "ucInputGet4051Channel (vInputSet4051Channel (of_nat i + 1) s) = of_nat i"
proof -
  have i: "i = 0 \<or> i = 1 \<or> i = 2 \<or> i = 3 \<or> i = 4 \<or> i = 5 \<or> i = 6 \<or> i = 7" using assms by auto
  let ?w = "gpio s 1"
  show ?thesis
    using i mux_bits[of 7 0 ?w] mux_bits[of 6 1 ?w] mux_bits[of 5 2 ?w] mux_bits[of 4 3 ?w]
      mux_bits[of 3 4 ?w] mux_bits[of 2 5 ?w] mux_bits[of 1 6 ?w] mux_bits[of 0 7 ?w]
    by (elim disjE) (simp_all add: ucInputGet4051Channel_def vInputSet4051Channel_def GPIO_ReadValue_def
        GPIO_SetValue_def GPIO_ClearValue_def Let_def mask_3)
qed


section \<open>What the receive function stores\<close>

lemma bit_one_shift:
  "i < 8 \<Longrightarrow> bit (push_bit i (ucast (drop_bit m (w :: u32) AND 1)) :: u8) k \<longleftrightarrow> k = i \<and> bit w m"
  by (auto simp: bit_simps)

lemma AnalogInputuA_mux [simp]: "AnalogInputuA (vInputSet4051Channel c s) = AnalogInputuA s"
  by (simp add: vInputSet4051Channel_def GPIO_SetValue_def GPIO_ClearValue_def Let_def)

lemma mux_footprint: "vInputSet4051Channel c s = s\<lparr>gpio := gpio (vInputSet4051Channel c s)\<rparr>"
  by (simp add: vInputSet4051Channel_def GPIO_SetValue_def GPIO_ClearValue_def Let_def)

definition measured :: "(nat \<Rightarrow> input_env) \<Rightarrow> nat \<Rightarrow> s16" where
  "measured env k = sAnalogInputToUA (ulAnalogInputSampling (in_hits (env k)))"

definition received :: "(nat \<Rightarrow> input_env) \<Rightarrow> nat \<Rightarrow> 'z io_scheme \<Rightarrow> (u8 \<times> u8 \<times> u8) \<times> 'z io_scheme \<Rightarrow> bool" where
  "received env n s r \<longleftrightarrow> (case r of ((sa, l1, l2), t) \<Rightarrow>
     (\<forall>k. bit sa k \<longleftrightarrow> k < n \<and> bit (in_port0 (env k)) 28) \<and>
     (\<forall>k. bit l1 k \<longleftrightarrow> k < n \<and> bit (in_port0 (env k)) 29) \<and>
     (\<forall>k. bit l2 k \<longleftrightarrow> k < n \<and> bit (in_port1 (env k)) 19) \<and>
     (\<exists>g. t = s\<lparr>gpio := g, AnalogInputuA := map (measured env) [0..<n] @ drop n (AnalogInputuA s)\<rparr>))"

lemma receive_channel_received:
  assumes n: "n < 8" and len: "length (AnalogInputuA s) = 8" and r: "received env n s r"
  shows "received env (Suc n) s (receive_channel env n r)"
proof -
  obtain sa l1 l2 t where r': "r = ((sa, l1, l2), t)" by (metis prod.collapse)
  note R = r[unfolded received_def r' prod.case]
  let ?m = "vInputSet4051Channel (of_nat n + 1) t"
  have ch: "unat (ucInputGet4051Channel ?m) = n"
    using n by (simp add: mux_roundtrip unat_of_nat)
  let ?l = "\<lambda>n. map (measured env) [0..<n] @ drop n (AnalogInputuA s)"
  from R obtain g where t: "t = s\<lparr>gpio := g, AnalogInputuA := ?l n\<rparr>" by blast
  have list: "(?l n)[n := measured env n] = ?l (Suc n)"
    using n len by (intro nth_equalityI) (auto simp: nth_append nth_list_update less_Suc_eq)
  have upd: "?m\<lparr>AnalogInputuA := (AnalogInputuA ?m)[n := measured env n]\<rparr> =
      s\<lparr>gpio := gpio ?m, AnalogInputuA := ?l (Suc n)\<rparr>"
    using list by (subst mux_footprint) (simp add: t)
  have eq: "receive_channel env n ((sa, l1, l2), t) =
      ((sa OR push_bit n (ucast (drop_bit 28 (in_port0 (env n)) AND 1)),
        l1 OR push_bit n (ucast (drop_bit 29 (in_port0 (env n)) AND 1)),
        l2 OR push_bit n (ucast (drop_bit 19 (in_port1 (env n)) AND 1))),
       s\<lparr>gpio := gpio ?m, AnalogInputuA := ?l (Suc n)\<rparr>)"
    unfolding receive_channel_def prod.case Let_def ch measured_def[symmetric] upd ..
  show ?thesis
    unfolding received_def r' eq prod.case
    using R n by (intro conjI exI[of _ "gpio ?m"] refl) (auto simp: bit_or_iff bit_one_shift less_Suc_eq)
qed

lemma received_all:
  assumes "length (AnalogInputuA s) = 8"
  shows "received env 8 s (for_loop 8 (receive_channel env) ((0, 0, 0), s))"
proof (rule for_loop_induct[where I = "\<lambda>n r. received env n s r"])
  show "received env 0 s ((0, 0, 0), s)" by (auto simp: received_def intro: exI[of _ "gpio s"])
qed (use receive_channel_received[OF _ assms] in blast)

text \<open>The registers the conversion reads, which the stores leave alone.\<close>

definition input_regs where
  "input_regs s = (LogicInput1 s, LogicInput2 s, SaInput s, AnalogInputuA s, AnalogInputData s,
     DigitalInputData s, length (psExAirFanList s))"

lemma input_regs_upd_fan [simp]: "input_regs (upd_fan i g s) = input_regs s"
  by (simp add: input_regs_def upd_fan_def)

lemma input_regs_stores [simp]:
  "input_regs (store_AI k s) = input_regs s" "input_regs (store_DI k s) = input_regs s"
  by (simp_all add: store_AI_def store_DI_def store_analog_def store_digital_def
      split: option.split ai_var.split di_var.split)

lemma input_regs_loops [simp]:
  "input_regs (for_loop n store_AI s) = input_regs s" "input_regs (for_loop n store_DI s) = input_regs s"
  by (rule for_loop_frame; simp)+

lemma input_regs_reads:
  assumes "input_regs t = input_regs s"
  shows "ulAnalogInputGetRealVal c t = ulAnalogInputGetRealVal c s"
    and "ucDigitalInputGetRealVal c t = ucDigitalInputGetRealVal c s"
    and "pvAIVal (AnalogInputData t ! k) = pvAIVal (AnalogInputData s ! k)"
    and "DigitalInputData t ! k = DigitalInputData s ! k"
    and "fan_there i t = fan_there i s" and "SaInput t = SaInput s"
  using assms by (simp_all add: input_regs_def ulAnalogInputGetRealVal_def sAnalogInputGetuA_def
      ucDigitalInputGetRealVal_def ucDigitalInputGetBit_def split_beta)

text \<open>The variables as the firmware reads them.\<close>

fun di_fan :: "di_var \<Rightarrow> nat" where
  "di_fan (Fan_eRunningState i) = i" | "di_fan (Fan_xExAirFanErr i) = i" | "di_fan (Fan_xExAirFanRemote i) = i"

fun di_value :: "di_var \<Rightarrow> 'z fan_sys_scheme \<Rightarrow> bool" where
  "di_value (Fan_eRunningState i) s = (dev_eRunningState (fan i s) = STATE_RUN)"
| "di_value (Fan_xExAirFanErr i) s = xExAirFanErr (fan i s)"
| "di_value (Fan_xExAirFanRemote i) s = xExAirFanRemote (fan i s)"

lemma upd_fan_cases:
  "fan_there j s \<Longrightarrow> fan j (upd_fan i g s) = (if j = i then g (fan j s) else fan j s)"
  by (simp add: upd_fan_def nth_list_update)

lemma store_digital_value:
  "fan_there (di_fan v) s \<Longrightarrow> di_value v (store_digital w b s) = (if w = v then b else di_value v s)"
  by (cases v; cases w) (auto simp: store_digital_def upd_fan_cases)

lemma store_digital_freq:
  "fan_there i s \<Longrightarrow> usRunningFreq (fan i (store_digital w b s)) = usRunningFreq (fan i s)"
  by (cases w) (simp_all add: store_digital_def upd_fan_cases)

lemma store_analog_value:
  "fan_there i s \<Longrightarrow> usRunningFreq (fan i (store_analog w x s)) =
     (if w = Fan_usRunningFreq i then ucast x else usRunningFreq (fan i s))"
  "fan_there (di_fan v) s \<Longrightarrow> di_value v (store_analog w x s) = di_value v s"
  by (cases w; auto simp: store_analog_def upd_fan_cases)
    (cases w; cases v; auto simp: store_analog_def upd_fan_cases)

lemma store_DI_loop:
  assumes "fan_there (di_fan v) s" and "\<And>k. k < n \<Longrightarrow> DigitalInputData s ! k = Some v \<longleftrightarrow> k = c"
  shows "di_value v (for_loop n store_DI s) =
    (if c < n then ucDigitalInputGetRealVal (of_nat c + 1) s = 0 else di_value v s)"
  using assms(2)
proof (induction n)
  case (Suc n)
  let ?t = "for_loop n store_DI s"
  note rd = input_regs_reads[of ?t s, OF input_regs_loops(2)]
  have IH: "di_value v ?t = (if c < n then ucDigitalInputGetRealVal (of_nat c + 1) s = 0 else di_value v s)"
    using Suc by simp
  have th: "fan_there (di_fan v) ?t" using assms(1) rd(5) by simp
  have "di_value v (store_DI n ?t) =
      (if n = c then ucDigitalInputGetRealVal (of_nat n + 1) s = 0 else di_value v ?t)"
    using Suc.prems[of n] store_digital_value[OF th] unfolding store_DI_def rd
    by (auto split: option.split)
  then show ?case using IH by (auto simp: for_loop_Suc less_Suc_eq)
qed simp

lemma store_AI_loop:
  assumes "fan_there i s"
    and "\<And>k. k < n \<Longrightarrow> pvAIVal (AnalogInputData s ! k) = Some (Fan_usRunningFreq i) \<longleftrightarrow> k = c"
  shows "usRunningFreq (fan i (for_loop n store_AI s)) =
    (if c < n then ucast (ulAnalogInputGetRealVal (of_nat c + 1) s) else usRunningFreq (fan i s))"
  using assms(2)
proof (induction n)
  case (Suc n)
  let ?t = "for_loop n store_AI s"
  note rd = input_regs_reads[of ?t s, OF input_regs_loops(1)]
  have IH: "usRunningFreq (fan i ?t) =
      (if c < n then ucast (ulAnalogInputGetRealVal (of_nat c + 1) s) else usRunningFreq (fan i s))"
    using Suc by simp
  have th: "fan_there i ?t" using assms(1) rd(5) by simp
  have "usRunningFreq (fan i (store_AI n ?t)) =
      (if n = c then ucast (ulAnalogInputGetRealVal (of_nat n + 1) s) else usRunningFreq (fan i ?t))"
    using Suc.prems[of n] store_analog_value(1)[OF th] unfolding store_AI_def rd
    by (auto split: option.split)
  then show ?case using IH by (auto simp: for_loop_Suc less_Suc_eq)
qed simp

lemma store_DI_freq: "fan_there i s \<Longrightarrow> usRunningFreq (fan i (store_DI n s)) = usRunningFreq (fan i s)"
  by (simp add: store_DI_def store_digital_freq split: option.split)

lemma store_DI_loop_freq:
  "fan_there i s \<Longrightarrow> usRunningFreq (fan i (for_loop n store_DI s)) = usRunningFreq (fan i s)"
  by (induction n) (simp_all add: for_loop_Suc store_DI_freq input_regs_reads(5)[OF input_regs_loops(2)])

lemma store_AI_value: "fan_there (di_fan v) s \<Longrightarrow> di_value v (store_AI n s) = di_value v s"
  by (simp add: store_AI_def store_analog_value(2) split: option.split)

lemma store_AI_loop_value:
  "fan_there (di_fan v) s \<Longrightarrow> di_value v (for_loop n store_AI s) = di_value v s"
  by (induction n) (simp_all add: for_loop_Suc store_AI_value input_regs_reads(5)[OF input_regs_loops(1)])

text \<open>The pin a digital channel reads, and at which position of the multiplexer.\<close>

definition DI_pin :: "(nat \<Rightarrow> input_env) \<Rightarrow> nat \<Rightarrow> bool" where
  "DI_pin env c = (let (n, k) = DI_wiring ! c in
     if n = 1 then bit (in_port0 (env k)) 29 else bit (in_port1 (env k)) 19)"

lemma fifteen: "c < DI_NUM \<Longrightarrow> c \<in> {0, 1, 2, 3, 4, 5, 6, 7, 8, 9, 10, 11, 12, 13, 14}"
  by (simp add: less_Suc_eq numeral_eq_Suc)

lemma and_1_bit: "((w :: u8) AND 1 = 0) \<longleftrightarrow> \<not> bit w 0"
  by (simp add: and_one_eq bit_0 odd_iff_mod_2_eq_one)

lemma DI_read:
  assumes c: "c < DI_NUM"
    and l1: "\<And>k. bit (LogicInput1 s) k \<longleftrightarrow> k < 8 \<and> bit (in_port0 (env k)) 29"
    and l2: "\<And>k. bit (LogicInput2 s) k \<longleftrightarrow> k < 8 \<and> bit (in_port1 (env k)) 19"
  shows "ucDigitalInputGetRealVal (of_nat c + 1) s = 0 \<longleftrightarrow> \<not> DI_pin env c"
proof -
  have u: "unat (of_nat c + 1 :: u8) - 1 = c" "0 < (of_nat c + 1 :: u8)" "(of_nat c + 1 :: u8) \<le> 15"
    using fifteen[OF c] by auto
  show ?thesis
    using fifteen[OF c] unfolding ucDigitalInputGetRealVal_def u(1)
    using u(2,3) by (auto simp: DI_wiring_def DI_pin_def ucDigitalInputGetBit_def and_1_bit
        bit_drop_bit_eq l1 l2)
qed

lemma AI_read:
  assumes c: "c < AI_NUM" and A: "AnalogInputuA s = map (measured env) [0..<8]"
  shows "ulAnalogInputGetRealVal (of_nat c + 1) s =
    ulInputConvertToReal (ai_lMin (AnalogInputData s ! c)) (ai_lMax (AnalogInputData s ! c))
      (measured env (AI_channel_order ! c))"
proof -
  have c8: "c \<in> {0, 1, 2, 3, 4, 5, 6, 7}" using c by auto
  then have "AI_channel_order ! c < 8" by (auto simp: AI_channel_order_def)
  moreover have "unat (of_nat c + 1 :: u8) - 1 = c" "0 < (of_nat c + 1 :: u8)" "(of_nat c + 1 :: u8) \<le> 8"
    using c8 by auto
  ultimately show ?thesis
    by (simp add: ulAnalogInputGetRealVal_def sAnalogInputGetuA_def A Let_def)
qed

text \<open>Each variable is registered for at most one channel.\<close>

definition registered_once :: "'z fan_sys_scheme \<Rightarrow> bool" where
  "registered_once s \<longleftrightarrow>
     (\<forall>c < DI_NUM. \<forall>k < DI_NUM. DigitalInputData s ! c \<noteq> None \<longrightarrow>
        DigitalInputData s ! k = DigitalInputData s ! c \<longrightarrow> k = c) \<and>
     (\<forall>c < AI_NUM. \<forall>k < AI_NUM. pvAIVal (AnalogInputData s ! c) \<noteq> None \<longrightarrow>
        pvAIVal (AnalogInputData s ! k) = pvAIVal (AnalogInputData s ! c) \<longrightarrow> k = c)"

text \<open>
  C29. After the receive function a variable registered for a digital channel holds the inverted level
  of the pin that channel is wired to, seen at the multiplexer position of that channel, and the
  frequency of a fan registered for an analogue channel is the real value converted from the current
  measured there, in its 16 bits.
\<close>

theorem inputs_reach_their_variables:
  assumes "length (AnalogInputuA s) = AI_NUM" and "registered_once s"
  shows "(\<forall>c < DI_NUM. \<forall>v. DigitalInputData s ! c = Some v \<and> fan_there (di_fan v) s \<longrightarrow>
      di_value v (vInputReceive env s) = (\<not> DI_pin env c)) \<and>
    (\<forall>c < AI_NUM. \<forall>i. pvAIVal (AnalogInputData s ! c) = Some (Fan_usRunningFreq i) \<and> fan_there i s \<longrightarrow>
      usRunningFreq (fan i (vInputReceive env s)) =
        ucast (ulInputConvertToReal (ai_lMin (AnalogInputData s ! c)) (ai_lMax (AnalogInputData s ! c))
          (measured env (AI_channel_order ! c))))"
proof -
  obtain sa l1 l2 s1 where r: "for_loop 8 (receive_channel env) ((0, 0, 0), s) = ((sa, l1, l2), s1)"
    by (metis prod.collapse)
  note R = received_all[OF assms(1), of env, unfolded r received_def prod.case]
  then obtain g where s1: "s1 = s\<lparr>gpio := g, AnalogInputuA := map (measured env) [0..<8]\<rparr>"
    using assms(1) by auto
  define s2 where "s2 = s1\<lparr>SaInput := sa, LogicInput1 := l1, LogicInput2 := l2\<rparr>"
  define a where "a = for_loop AI_NUM store_AI s2"
  define t where "t = for_loop DI_NUM store_DI a"
  have recv: "vInputReceive env s = t\<lparr>ControllerID := ucSaInputConvertToID (SaInput t)\<rparr>"
    unfolding vInputReceive_def r t_def a_def s2_def by (simp add: Let_def del: for_loop_numeral)
  have fin: "di_value v (vInputReceive env s) = di_value v t" "fan i (vInputReceive env s) = fan i t" for v i
    by (cases v; simp add: recv) (simp add: recv)
  have s2: "DigitalInputData s2 = DigitalInputData s" "AnalogInputData s2 = AnalogInputData s"
    "fan_there i s2 = fan_there i s" "AnalogInputuA s2 = map (measured env) [0..<8]" for i
    by (simp_all add: s2_def s1)
  have L: "\<And>k. bit (LogicInput1 s2) k \<longleftrightarrow> k < 8 \<and> bit (in_port0 (env k)) 29"
    "\<And>k. bit (LogicInput2 s2) k \<longleftrightarrow> k < 8 \<and> bit (in_port1 (env k)) 19"
    using R by (simp_all add: s2_def)
  note rd = input_regs_reads[of a s2, OF input_regs_loops(1)[of AI_NUM s2, folded a_def]]
  have "di_value v t = (\<not> DI_pin env c)"
    if c: "c < DI_NUM" "DigitalInputData s ! c = Some v" "fan_there (di_fan v) s" for c v
  proof -
    have "k < DI_NUM \<Longrightarrow> DigitalInputData a ! k = Some v \<longleftrightarrow> k = c" for k
      using assms(2) c by (auto simp: rd s2 registered_once_def)
    then have "di_value v t \<longleftrightarrow> ucDigitalInputGetRealVal (of_nat c + 1) s2 = 0"
      using store_DI_loop[of v a DI_NUM c] c by (simp add: t_def rd s2)
    then show ?thesis using DI_read[OF c(1) L] by simp
  qed
  moreover have "usRunningFreq (fan i t) =
      ucast (ulInputConvertToReal (ai_lMin (AnalogInputData s ! c)) (ai_lMax (AnalogInputData s ! c))
        (measured env (AI_channel_order ! c)))"
    if c: "c < AI_NUM" "pvAIVal (AnalogInputData s ! c) = Some (Fan_usRunningFreq i)" "fan_there i s" for c i
  proof -
    have "k < AI_NUM \<Longrightarrow> pvAIVal (AnalogInputData s2 ! k) = Some (Fan_usRunningFreq i) \<longleftrightarrow> k = c" for k
      using assms(2) c by (auto simp: s2 registered_once_def)
    then have "usRunningFreq (fan i a) = ucast (ulAnalogInputGetRealVal (of_nat c + 1) s2)"
      using store_AI_loop[of i s2 AI_NUM c] c by (simp add: a_def s2)
    then show ?thesis
      using store_DI_loop_freq[of i a DI_NUM] c AI_read[OF c(1) s2(4)] by (simp add: t_def rd s2)
  qed
  ultimately show ?thesis unfolding fin by blast
qed

text \<open>One fan whose error input is channel 2 and whose frequency is channel 1.\<close>

definition inputs_example :: fan_sys where
  "inputs_example = (vDigitalInputRegist 2 (Fan_xExAirFanErr 0)
     (vAnalogInputRegist 1 0 500 (Fan_usRunningFreq 0) (io_zero \<lparr>psExAirFanList = [fan_zero]\<rparr>)))"

theorem inputs_reach_their_variables_witness:
  "xExAirFanErr (fan 0 (vInputReceive (\<lambda>k. \<lparr>in_port0 = 0, in_port1 = 0, in_hits = replicate 7 0\<rparr>) inputs_example))"
proof -
  have "registered_once inputs_example"
    by (auto simp: registered_once_def inputs_example_def vDigitalInputRegist_def vAnalogInputRegist_def
        io_zero_def nth_list_update split: if_splits)
  moreover have "length (AnalogInputuA inputs_example) = AI_NUM" "DigitalInputData inputs_example ! 1 = Some (Fan_xExAirFanErr 0)"
    "fan_there 0 inputs_example"
    by (simp_all add: inputs_example_def vDigitalInputRegist_def vAnalogInputRegist_def io_zero_def)
  ultimately have "di_value (Fan_xExAirFanErr 0) (vInputReceive (\<lambda>k. \<lparr>in_port0 = 0, in_port1 = 0,
      in_hits = replicate 7 0\<rparr>) inputs_example)"
    using inputs_reach_their_variables[of inputs_example "\<lambda>k. \<lparr>in_port0 = 0, in_port1 = 0, in_hits = replicate 7 0\<rparr>"]
    by (auto simp: DI_pin_def DI_wiring_def dest!: spec[where x = 1])
  then show ?thesis by simp
qed


section \<open>Measuring a current\<close>

lemma sampling_step_late: "2 \<le> n \<Longrightarrow> sampling_step hits n (a, b) = (max a (hits ! n), min b (hits ! n))"
  by (auto simp: sampling_step_def max_def min_def)

lemma sampling_loop:
  "for_loop n (sampling_step hits) (0, 0) = (mx, mn) \<Longrightarrow> 2 \<le> n \<Longrightarrow>
    mx = Max ((\<lambda>i. hits ! i) ` {1..<n}) \<and> mn = Min ((\<lambda>i. hits ! i) ` {1..<n})"
proof (induction n arbitrary: mx mn)
  case (Suc n)
  obtain a b where ab: "for_loop n (sampling_step hits) (0, 0) = (a, b)" by fastforce
  show ?case
  proof (cases "n = 1")
    case True
    then show ?thesis using Suc.prems ab
      by (auto simp: for_loop_Suc sampling_step_def)
  next
    case False
    then have n: "2 \<le> n" using Suc.prems(2) by simp
    let ?A = "(\<lambda>i. hits ! i) ` {1..<n}"
    have "{1..<Suc n} = insert n {1..<n}" using n by auto
    then have img: "(\<lambda>i. hits ! i) ` {1..<Suc n} = insert (hits ! n) ?A" by simp
    have A: "finite ?A" "?A \<noteq> {}" using n by auto
    have "(mx, mn) = (max a (hits ! n), min b (hits ! n))"
      using Suc.prems(1) ab sampling_step_late[OF n] by (simp add: for_loop_Suc)
    then show ?thesis
      using Suc.IH[OF ab n] unfolding img Max_insert[OF A] Min_insert[OF A]
      by (simp add: max.commute min.commute)
  qed
qed simp

lemma seven: "length (hits :: 'c list) = 7 \<Longrightarrow>
    \<exists>h a b c d e f. hits = [h, a, b, c, d, e, f]"
  by (auto simp: length_Suc_conv numeral_eq_Suc)

lemma fold_readings: "fold (\<lambda>i sum. sum + [h, a, b, c, d, e, f] ! i) [1..<7] (0 :: u32) = a + b + c + d + e + f"
  by (simp add: upt_rec add.assoc)

lemma unat_sum6:
  assumes "\<forall>x \<in> {a, b, c, d, e, f}. x \<le> (4095 :: u32)"
  shows "unat (a + b + c + d + e + f) = unat a + unat b + unat c + unat d + unat e + unat f"
proof -
  have "unat a \<le> 4095 \<and> unat b \<le> 4095 \<and> unat c \<le> 4095 \<and> unat d \<le> 4095 \<and> unat e \<le> 4095 \<and> unat f \<le> 4095"
    using assms by (simp add: word_le_nat_alt)
  then show ?thesis by (simp add: unat_word_ariths mod_add_left_eq)
qed

lemma sampling_bounds:
  assumes "length hits = 7" and "\<forall>h \<in> set hits. h \<le> 4095"
  defines "readings \<equiv> map unat (tl hits)"
  shows "unat (ulAnalogInputSampling hits) = (sum_list readings - Max (set readings) - Min (set readings)) div 4"
    and "Min (set readings) \<le> unat (ulAnalogInputSampling hits)"
    and "unat (ulAnalogInputSampling hits) \<le> Max (set readings)" and "Max (set readings) \<le> 4095"
proof -
  obtain h a b c d e f where H: "hits = [h, a, b, c, d, e, f]" using seven[OF assms(1)] by blast
  let ?A = "{a, b, c, d, e, f}"
  obtain mx mn where loop: "for_loop 7 (sampling_step hits) (0, 0) = (mx, mn)" by fastforce
  have img: "(\<lambda>i. hits ! i) ` {1..<7} = ?A"
  proof -
    have "{1..<7} = {1, 2, 3, 4, 5, 6 :: nat}" by auto
    then show ?thesis by (simp add: H)
  qed
  have m: "mx = Max ?A" "mn = Min ?A" using sampling_loop[OF loop] unfolding img by simp_all
  have u: "unat mx = Max (unat ` ?A)" "unat mn = Min (unat ` ?A)"
    unfolding m by (intro mono_Max_commute mono_Min_commute; simp add: mono_def word_le_nat_alt)+
  have R: "set readings = unat ` ?A" by (simp add: readings_def H)
  have in_A: "unat mx \<in> unat ` ?A" unfolding u(1) by (rule Max_in) auto
  have le: "x \<in> unat ` ?A \<Longrightarrow> unat mn \<le> x \<and> x \<le> unat mx" for x
    unfolding u by (intro conjI Min_le Max_ge) auto
  have small: "\<forall>x \<in> ?A. x \<le> 4095" using assms(2) by (simp add: H)
  let ?t = "unat a + unat b + unat c + unat d + unat e + unat f"
  have t: "unat (a + b + c + d + e + f) = ?t" by (rule unat_sum6[OF small])
  have sum: "sum_list readings = ?t" by (simp add: readings_def H)
  have bounds: "unat mx + 5 * unat mn \<le> ?t" "?t \<le> unat mn + 5 * unat mx"
  proof -
    have l: "unat mn \<le> unat a \<and> unat mn \<le> unat b \<and> unat mn \<le> unat c \<and> unat mn \<le> unat d \<and>
        unat mn \<le> unat e \<and> unat mn \<le> unat f"
      "unat a \<le> unat mx \<and> unat b \<le> unat mx \<and> unat c \<le> unat mx \<and> unat d \<le> unat mx \<and>
        unat e \<le> unat mx \<and> unat f \<le> unat mx" using le by auto
    then show "unat mx + 5 * unat mn \<le> ?t" using in_A by (elim imageE) (auto; linarith)
    have "unat mn \<in> unat ` ?A" unfolding u(2) by (rule Min_in) auto
    then show "?t \<le> unat mn + 5 * unat mx" using l by (elim imageE) (auto; linarith)
  qed
  have s1: "unat (a + b + c + d + e + f - mx) = ?t - unat mx"
    using bounds(1) t by (subst unat_sub) (simp_all add: word_le_nat_alt)
  have s2: "unat (a + b + c + d + e + f - mx - mn) = ?t - unat mx - unat mn"
    using bounds(1) s1 by (subst unat_sub) (simp_all add: word_le_nat_alt)
  have v: "unat (ulAnalogInputSampling hits) = (?t - unat mx - unat mn) div 4"
    unfolding ulAnalogInputSampling_def Let_def loop prod.case unat_div s2[symmetric]
    by (simp only: H fold_readings) simp
  show "unat (ulAnalogInputSampling hits) = (sum_list readings - Max (set readings) - Min (set readings)) div 4"
    unfolding v sum R u ..
  show "Min (set readings) \<le> unat (ulAnalogInputSampling hits)"
    unfolding v R u(2)[symmetric] using bounds by linarith
  show "unat (ulAnalogInputSampling hits) \<le> Max (set readings)"
    unfolding v R u(1)[symmetric] using bounds by linarith
  show "Max (set readings) \<le> 4095"
    unfolding R u(1)[symmetric] using in_A small by (auto simp: word_le_nat_alt)
qed

lemma ToUA_eq:
  assumes "unat x \<le> 4095"
  shows "sint (sAnalogInputToUA x) = int (330000 * unat x div 4096 div 150)"
    and "330000 * unat x div 4096 div 150 \<le> 2199"
proof -
  show b: "330000 * unat x div 4096 div 150 \<le> 2199" using assms by linarith
  have "unat (330000 * x) = 330000 * unat x" using assms by (simp add: unat_mult_lem[THEN iffD1])
  then have "unat (330000 * x div 4096 div 150) = 330000 * unat x div 4096 div 150"
    by (simp add: unat_div)
  then have "uint (sAnalogInputToUA x) = int (330000 * unat x div 4096 div 150)"
    using b by (simp add: sAnalogInputToUA_def uint_nat unsigned_ucast_eq take_bit_nat_eq_self)
  then show "sint (sAnalogInputToUA x) = int (330000 * unat x div 4096 div 150)"
    using b by (simp add: sint_uint signed_take_bit_int_eq_self)
qed


text \<open>The entry of the calibration table nearest to a current.\<close>

lemma calibration_tables:
  "length RealUAList = 81" "length DeltaUAList = 81"
  "\<forall>x \<in> set RealUAList. 0 \<le> x \<and> x \<le> 2000" "\<forall>x \<in> set DeltaUAList. -60 \<le> x \<and> x \<le> 33"
  by (simp_all add: RealUAList_def DeltaUAList_def)

lemma calibration_entry:
  "i < 81 \<Longrightarrow> 0 \<le> RealUAList ! i \<and> RealUAList ! i \<le> 2000"
  "i < 81 \<Longrightarrow> -60 \<le> DeltaUAList ! i \<and> DeltaUAList ! i \<le> 33"
  using calibration_tables nth_mem by metis+

lemma sint_s16: "-32768 \<le> x \<Longrightarrow> x < 32768 \<Longrightarrow> sint (word_of_int x :: s16) = x"
  by (simp add: sint_sbintrunc' signed_take_bit_int_eq_self)

lemma c_int_id: "-2147483648 \<le> x \<Longrightarrow> x < 2147483648 \<Longrightarrow> c_int x = x"
  unfolding c_int_def by (rule sint_of_int_s32) simp_all

lemma sint_diff_s16:
  "-32768 \<le> sint a - sint b \<Longrightarrow> sint a - sint b < 32768 \<Longrightarrow> sint (a - b :: s16) = sint a - sint b"
  using sint_s16[of "sint a - sint b"] by simp

lemma uA_distance_eq:
  assumes "0 \<le> sint uA" "sint uA \<le> 2199" "i < 81"
  shows "sint (uA_distance uA i) = \<bar>sint uA - RealUAList ! i\<bar>"
proof -
  have r: "sint (word_of_int (RealUAList ! i) :: s16) = RealUAList ! i"
    using calibration_entry(1)[OF assms(3)] by (intro sint_s16) auto
  then show ?thesis
    using assms calibration_entry(1)[OF assms(3)]
    by (auto simp: uA_distance_def Let_def word_sless_alt r sint_diff_s16)
qed

lemma calibrate_nearest:
  assumes "0 \<le> sint uA" "sint uA \<le> 2199"
  shows "\<exists>j < 81. (\<forall>i < 81. \<bar>sint uA - RealUAList ! j\<bar> \<le> \<bar>sint uA - RealUAList ! i\<bar>) \<and>
    sint (sAnalogInputCalibrateuA uA) = sint uA - DeltaUAList ! j"
proof -
  obtain d j where r: "for_loop 81 (calibrate_step uA) (uA_distance uA 0, 0) = (d, j)" by fastforce
  have "case for_loop 81 (calibrate_step uA) (uA_distance uA 0, 0) of (d, j) \<Rightarrow>
      d = uA_distance uA j \<and> j < 81 \<and> (\<forall>i < 81. sint d \<le> sint (uA_distance uA i))"
    by (rule for_loop_induct[where I = "\<lambda>n p. case p of (d, j) \<Rightarrow> d = uA_distance uA j \<and> j < 81 \<and>
        (\<forall>i < n. sint d \<le> sint (uA_distance uA i))"])
      (auto simp: calibrate_step_def Let_def word_sless_alt less_Suc_eq split: prod.splits intro: order.trans)
  with r have j: "j < 81" "\<forall>i < 81. sint (uA_distance uA j) \<le> sint (uA_distance uA i)" by auto
  have D: "sint (word_of_int (DeltaUAList ! j) :: s16) = DeltaUAList ! j"
    using calibration_entry(2)[OF j(1)] by (intro sint_s16) auto
  have "sint (sAnalogInputCalibrateuA uA) = sint uA - DeltaUAList ! j"
    unfolding sAnalogInputCalibrateuA_def r Let_def prod.case
    using calibration_entry(2)[OF j(1)] assms by (simp add: sint_diff_s16 D)
  moreover have "\<forall>i < 81. \<bar>sint uA - RealUAList ! j\<bar> \<le> \<bar>sint uA - RealUAList ! i\<bar>"
    using j uA_distance_eq[OF assms] by simp
  ultimately show ?thesis using j(1) by blast
qed

lemma ConvertToReal_eq:
  assumes C: "sint (sAnalogInputCalibrateuA uA) \<le> 2259"
    and l: "0 \<le> sint lMin" "sint lMin \<le> sint lMax" "sint lMax < 65536"
  shows "int (unat (ulInputConvertToReal lMin lMax uA)) =
    (if 400 \<le> sint (sAnalogInputCalibrateuA uA)
     then (sint (sAnalogInputCalibrateuA uA) - 400) * (sint lMax - sint lMin) div 1600 + sint lMin else 0)"
proof (cases "400 \<le> sint (sAnalogInputCalibrateuA uA)")
  case True
  let ?C = "sint (sAnalogInputCalibrateuA uA)" and ?r = "sint lMax - sint lMin"
  have "sint (lMax - lMin) = ?r"
    using sint_of_int_s32[of ?r] l by simp
  moreover have p: "0 \<le> (?C - 400) * ?r" "(?C - 400) * ?r \<le> 1859 * 65535"
    using True C l mult_mono[of "?C - 400" 1859 ?r 65535] by (auto intro!: mult_nonneg_nonneg)
  then have "c_int ((?C - 400) * ?r) = (?C - 400) * ?r"
    by (intro c_int_id) linarith+
  moreover have "uint lMin = sint lMin"
    using l by (simp add: uint_sint take_bit_int_eq_self)
  moreover have "P sdiv 1600 = P div 1600" if "0 \<le> P" for P :: int
    using that by (simp add: signed_divide_int_def sgn_if)
  moreover have "uint (word_of_int Q + lMin) = Q + sint lMin" if "0 \<le> Q" "Q < 2 ^ 31" for Q
  proof -
    have "word_of_int Q + lMin = word_of_int (Q + sint lMin)" by simp
    then show ?thesis using that l uint_of_int_u32[of "Q + sint lMin"] by simp
  qed
  ultimately show ?thesis using True p(1) p(2) zdiv_mono1[OF p(2), of 1600]
    by (simp add: ulInputConvertToReal_def Let_def pos_imp_zdiv_nonneg_iff)
qed (simp add: ulInputConvertToReal_def Let_def)


text \<open>
  C30. From the converter to the variable, for samples of twelve bits: the first of the seven readings is
  dropped, and the mean is that of the other six without the largest and the smallest; it lies between
  these. The current is \<open>I\<close>, at most 2199; it is corrected by the entry of the calibration table
  nearest to it. Below 400 (4 mA) the value is 0, from 400 on it is linear in the corrected current,
  and up to 2000 (20 mA) it stays in the configured range.
\<close>

theorem analogue_value:
  assumes "length hits = 7" and "\<forall>h \<in> set hits. h \<le> 4095"
    and "0 \<le> sint lMin" and "sint lMin \<le> sint lMax" and "sint lMax < 65536"
  shows "let readings = map unat (tl hits); m = unat (ulAnalogInputSampling hits);
      I = int (330000 * m div 4096 div 150); uA = sAnalogInputToUA (ulAnalogInputSampling hits);
      C = sint (sAnalogInputCalibrateuA uA); v = int (unat (ulInputConvertToReal lMin lMax uA)) in
    m = (sum_list readings - Max (set readings) - Min (set readings)) div 4 \<and>
    Min (set readings) \<le> m \<and> m \<le> Max (set readings) \<and> sint uA = I \<and> I \<le> 2199 \<and>
    (\<exists>j < 81. (\<forall>i < 81. \<bar>I - RealUAList ! j\<bar> \<le> \<bar>I - RealUAList ! i\<bar>) \<and> C = I - DeltaUAList ! j) \<and>
    v = (if 400 \<le> C then (C - 400) * (sint lMax - sint lMin) div 1600 + sint lMin else 0) \<and>
    (400 \<le> C \<and> C \<le> 2000 \<longrightarrow> sint lMin \<le> v \<and> v \<le> sint lMax)"
proof -
  note S = sampling_bounds[OF assms(1,2)]
  define m where "m = unat (ulAnalogInputSampling hits)"
  define uA where "uA = sAnalogInputToUA (ulAnalogInputSampling hits)"
  define C where "C = sint (sAnalogInputCalibrateuA uA)"
  have "m \<le> 4095" using S(3,4) by (simp add: m_def)
  note I = ToUA_eq[of "ulAnalogInputSampling hits", folded m_def uA_def, OF this]
  have uA: "0 \<le> sint uA" "sint uA \<le> 2199" unfolding I(1) using I(2) by simp_all
  obtain j where j: "j < 81" "\<forall>i < 81. \<bar>sint uA - RealUAList ! j\<bar> \<le> \<bar>sint uA - RealUAList ! i\<bar>"
    "C = sint uA - DeltaUAList ! j"
    using calibrate_nearest[OF uA] unfolding C_def by blast
  have C: "C \<le> 2259" using j(3) uA(2) calibration_entry(2)[OF j(1)] by linarith
  let ?r = "sint lMax - sint lMin"
  have range: "(C - 400) * ?r div 1600 \<le> ?r" "0 \<le> (C - 400) * ?r div 1600" if "400 \<le> C" "C \<le> 2000"
  proof -
    have "(C - 400) * ?r \<le> 1600 * ?r" using that assms(4) by (intro mult_right_mono) auto
    then have "(C - 400) * ?r div 1600 \<le> 1600 * ?r div 1600" by (rule zdiv_mono1) simp
    then show "(C - 400) * ?r div 1600 \<le> ?r" by simp
    have "0 \<le> (C - 400) * ?r" using that assms(4) by (intro mult_nonneg_nonneg) auto
    then show "0 \<le> (C - 400) * ?r div 1600" by (intro pos_imp_zdiv_nonneg_iff[THEN iffD2]) simp_all
  qed
  have v: "int (unat (ulInputConvertToReal lMin lMax uA)) =
      (if 400 \<le> C then (C - 400) * ?r div 1600 + sint lMin else 0)"
    using ConvertToReal_eq[OF C[unfolded C_def] assms(3-5)] unfolding C_def .
  show ?thesis
    unfolding Let_def m_def[symmetric] uA_def[symmetric] C_def[symmetric] v
  proof (intro conjI impI)
    show "\<exists>j < 81. (\<forall>i < 81. \<bar>int (330000 * m div 4096 div 150) - RealUAList ! j\<bar>
        \<le> \<bar>int (330000 * m div 4096 div 150) - RealUAList ! i\<bar>) \<and>
        C = int (330000 * m div 4096 div 150) - DeltaUAList ! j"
      using j unfolding I(1) by blast
    assume "400 \<le> C \<and> C \<le> 2000"
    then show "sint lMin \<le> (if 400 \<le> C then (C - 400) * ?r div 1600 + sint lMin else 0)"
      "(if 400 \<le> C then (C - 400) * ?r div 1600 + sint lMin else 0) \<le> sint lMax"
      using range by simp_all
  qed (use S(1-3)[folded m_def] I in simp_all)
qed

theorem analogue_value_witness:
  "ulInputConvertToReal 0 500 (sAnalogInputToUA (ulAnalogInputSampling [9, 1000, 1001, 999, 1000, 4095, 0])) =
    ulInputConvertToReal 0 500 (sAnalogInputToUA 1000) \<and>
   sint (sAnalogInputToUA (ulAnalogInputSampling [9, 1000, 1001, 999, 1000, 4095, 0])) = 537"
proof -
  let ?h = "[9, 1000, 1001, 999, 1000, 4095, 0] :: u32 list"
  note A = analogue_value[of ?h 0 500, unfolded Let_def]
  have "unat (ulAnalogInputSampling ?h) = 1000" using A by simp
  then have "ulAnalogInputSampling ?h = 1000" by (simp add: word_unat_eq_iff)
  then show ?thesis using A by simp
qed

end
