(* ===== verification/MbLink.thy ===== *)
theory MbLink
  imports MbSlave MbCrc
begin

text \<open>
  The serial link of the Modbus master: ownership of the bus (\<open>OSMutexPend\<close>, \<open>OSMutexPost\<close> of
  \<open>uCOS_III/Source/os_mutex.c\<close>), events, timers and UART of \<open>FreeModbus/master/port\<close>, and the
  byte-level state machines of \<open>FreeModbus/master/rtu/mbrtu_m.c\<close>.

  Of a kernel timer only whether it runs is kept; the interrupt service routine of the UART is entered
  without \<open>OSIntEnter\<close>, so the kernel's tests for calls from an interrupt pass. The two callbacks of
  \<open>Module/md_modbus.c\<close> only blink a LED and are left out. As in \<open>MbSlave\<close> the result \<open>None\<close> is
  an access outside an array or through a null pointer.
\<close>

unbundle bit_operations_syntax

section \<open>Ownership of the bus\<close>

text \<open>
  The tasks that use the master, and a kernel mutex with its owner, nesting counter and waiting
  tasks; priorities are left out. Argument checks are on (\<open>OS_CFG_ARG_CHK_EN\<close> in \<open>os_cfg.h\<close>):
  posting takes two options, \<open>OS_OPT_POST_ALL\<close> is not one of them.
\<close>

datatype mb_task = Task_Poll | Task_ScanRead | Task_ScanWrite

record mutex =
  OwnerTCB :: "mb_task option"
  OwnerNestingCtr :: u8
  PendList :: "mb_task list"

datatype mutex_err = MUTEX_ERR_NONE | ERR_MUTEX_OVF | ERR_MUTEX_OWNER | ERR_MUTEX_OPT_INVALID
  | ERR_MUTEX_NOT_OWNER | ERR_MUTEX_NESTING

datatype post_opt = OS_OPT_POST_NONE | OS_OPT_POST_NO_SCHED | OS_OPT_POST_ALL

text \<open>Pending without a limit; no error code means that the task blocks.\<close>

definition OSMutexPend :: "mb_task \<Rightarrow> mutex \<Rightarrow> mutex_err option \<times> mutex" where
  "OSMutexPend cur m =
     (if OwnerNestingCtr m = 0 then (Some MUTEX_ERR_NONE, m\<lparr>OwnerTCB := Some cur, OwnerNestingCtr := 1\<rparr>)
      else if OwnerTCB m = Some cur
      then (if OwnerNestingCtr m = - 1 then (Some ERR_MUTEX_OVF, m)
            else (Some ERR_MUTEX_OWNER, m\<lparr>OwnerNestingCtr := OwnerNestingCtr m + 1\<rparr>))
      else (None, m\<lparr>PendList := PendList m @ [cur]\<rparr>))"

definition OSMutexPost :: "mb_task \<Rightarrow> post_opt \<Rightarrow> mutex \<Rightarrow> mutex_err \<times> mutex" where
  "OSMutexPost cur opt m =
     (if opt \<noteq> OS_OPT_POST_NONE \<and> opt \<noteq> OS_OPT_POST_NO_SCHED then (ERR_MUTEX_OPT_INVALID, m)
      else if OwnerTCB m \<noteq> Some cur then (ERR_MUTEX_NOT_OWNER, m)
      else if OwnerNestingCtr m - 1 > 0 then (ERR_MUTEX_NESTING, m\<lparr>OwnerNestingCtr := OwnerNestingCtr m - 1\<rparr>)
      else (case PendList m of
              [] \<Rightarrow> (MUTEX_ERR_NONE, m\<lparr>OwnerTCB := None, OwnerNestingCtr := 0\<rparr>)
            | t # ts \<Rightarrow> (MUTEX_ERR_NONE, m\<lparr>OwnerTCB := Some t, OwnerNestingCtr := 1, PendList := ts\<rparr>)))"

section \<open>State\<close>

datatype eMBMasterEventType = EV_MASTER_READY | EV_MASTER_FRAME_RECEIVED | EV_MASTER_EXECUTE
  | EV_MASTER_FRAME_SENT | EV_MASTER_ERROR_PROCESS | EV_MASTER_PROCESS_SUCCESS
  | EV_MASTER_ERROR_RESPOND_TIMEOUT | EV_MASTER_ERROR_RECEIVE_DATA | EV_MASTER_ERROR_EXECUTE_FUNCTION

datatype eMBMasterErrorEventType = EV_ERROR_RESPOND_TIMEOUT | EV_ERROR_RECEIVE_DATA
  | EV_ERROR_EXECUTE_FUNCTION

datatype eMBMasterTimerMode = MB_TMODE_T35 | MB_TMODE_RESPOND_TIMEOUT | MB_TMODE_CONVERT_DELAY

datatype eMBMasterRcvState = STATE_M_RX_IDLE | STATE_M_RX_INIT | STATE_M_RX_RCV | STATE_M_RX_ERROR

datatype eMBMasterSndState = STATE_M_TX_IDLE | STATE_M_TX_XMIT | STATE_M_TX_XFWR

datatype eMBMasterReqErrCode = MB_MRE_NO_ERR | MB_MRE_NO_REG | MB_MRE_ILL_ARG | MB_MRE_REV_DATA
  | MB_MRE_TIMEDOUT | MB_MRE_MASTER_BUSY | MB_MRE_EXE_FUN | MB_MRE_EPORTERR | MB_MRE_ENORES
  | MB_MRE_EIO | MB_MRE_EILLSTATE | MB_MRE_ETIMEDOUT

text \<open>
  \<open>sMBMasterPort\<close> and the transport part of \<open>sMBMasterInfo\<close>. \<open>pucSndBufferCur\<close> is an offset in the send
  buffer, \<open>pucMBRcvFrame\<close> and \<open>pucMasterPDUCur\<close> are offsets in the receive buffer. Of the semaphore
  it matters only whether it is zero, since \<open>xMBMasterPortEventGet\<close> resets it. The UART is the interrupts
  enabled, the direction of the RS-485 driver and the bytes written to it.
\<close>

record link =
  m_ucSlaveDevMinAddr :: u8
  m_ucSlaveDevMaxAddr :: u8
  usSndPDULength :: u16
  usSndBufferCount :: u16
  m_usRcvBufferPos :: u16
  usRcvRequestBytes :: u16
  m_usLength :: u16
  pucSndBufferCur :: nat
  pucMasterPDUCur :: "nat option"
  pucMBRcvFrame :: "nat option"
  ucMBDestAddr :: u8
  xFrameIsBroadcast :: bool
  m_eMBState :: eMBState
  eRcvState :: eMBMasterRcvState
  eSndState :: eMBMasterSndState
  eCurErrorType :: eMBMasterErrorEventType
  ucRTUSndBuf :: buffer
  ucRTURcvBuf :: buffer
  m_eQueuedEvent :: eMBMasterEventType
  eCurTimerMode :: eMBMasterTimerMode
  m_xEventInQueue :: bool
  xWaitFinishInQueue :: bool
  xMBIsFinished :: bool
  sMasterPortTmr_runs :: bool
  sConvertDelayTmr_runs :: bool
  sRespondTimeoutTmr_runs :: bool
  sMBEventSem :: bool
  sMBIdleMutex :: mutex
  uart_rx_int :: bool
  uart_tx_int :: bool
  uart_de_tx :: bool
  uart_out :: "u8 list"

section \<open>Port: events\<close>

definition xMBMasterPortEventInit :: "'z link_scheme \<Rightarrow> 'z link_scheme" where
  "xMBMasterPortEventInit s =
     s\<lparr>sMBIdleMutex := \<lparr>OwnerTCB = None, OwnerNestingCtr = 0, PendList = []\<rparr>, sMBEventSem := False,
       m_xEventInQueue := False, xWaitFinishInQueue := False\<rparr>"

definition xMBMasterPortEventPost :: "eMBMasterEventType \<Rightarrow> 'z link_scheme \<Rightarrow> 'z link_scheme" where
  "xMBMasterPortEventPost e s = s\<lparr>m_xEventInQueue := True, m_eQueuedEvent := e, sMBEventSem := True\<rparr>"

text \<open>
  Getting an event once the semaphore is up; the result is the value \<open>*eEvent\<close> gets, which is left as
  it was for events this function does not know (\<open>e0\<close>).
\<close>

definition xMBMasterPortEventGet ::
  "eMBMasterEventType \<Rightarrow> 'z link_scheme \<Rightarrow> eMBMasterEventType option \<times> 'z link_scheme" where
  "xMBMasterPortEventGet e0 s =
     (let s1 = s\<lparr>sMBEventSem := False\<rparr>
      in if m_xEventInQueue s1
         then (Some (if m_eQueuedEvent s1 \<in> {EV_MASTER_READY, EV_MASTER_FRAME_RECEIVED, EV_MASTER_EXECUTE,
                          EV_MASTER_FRAME_SENT, EV_MASTER_ERROR_PROCESS} then m_eQueuedEvent s1 else e0),
               s1\<lparr>m_xEventInQueue := False\<rparr>)
         else (None, s1))"

text \<open>Taking the bus; without a result the task blocks. The error code of the kernel is not looked at.\<close>

definition xMBMasterRunResTake :: "mb_task \<Rightarrow> 'z link_scheme \<Rightarrow> bool option \<times> 'z link_scheme" where
  "xMBMasterRunResTake cur s =
     (let (err, m) = OSMutexPend cur (sMBIdleMutex s)
      in case err of None \<Rightarrow> (None, s\<lparr>sMBIdleMutex := m\<rparr>)
         | Some _ \<Rightarrow> (Some True, s\<lparr>sMBIdleMutex := m, xMBIsFinished := False\<rparr>))"

definition vMBMasterRunResRelease :: "mb_task \<Rightarrow> 'z link_scheme \<Rightarrow> 'z link_scheme" where
  "vMBMasterRunResRelease cur s = s\<lparr>sMBIdleMutex := snd (OSMutexPost cur OS_OPT_POST_ALL (sMBIdleMutex s))\<rparr>"

text \<open>The error callbacks and the success callback differ in the event they leave.\<close>

definition request_finished :: "eMBMasterEventType \<Rightarrow> 'z link_scheme \<Rightarrow> 'z link_scheme" where
  "request_finished e s = s\<lparr>m_eQueuedEvent := e, xWaitFinishInQueue := True, xMBIsFinished := True\<rparr>"

definition vMBMasterErrorCBRespondTimeout :: "'z link_scheme \<Rightarrow> 'z link_scheme" where
  "vMBMasterErrorCBRespondTimeout = request_finished EV_MASTER_ERROR_RESPOND_TIMEOUT"

definition vMBMasterErrorCBReceiveData :: "'z link_scheme \<Rightarrow> 'z link_scheme" where
  "vMBMasterErrorCBReceiveData = request_finished EV_MASTER_ERROR_RECEIVE_DATA"

definition vMBMasterErrorCBExecuteFunction :: "'z link_scheme \<Rightarrow> 'z link_scheme" where
  "vMBMasterErrorCBExecuteFunction = request_finished EV_MASTER_ERROR_EXECUTE_FUNCTION"

definition vMBMasterCBRequestSuccess :: "'z link_scheme \<Rightarrow> 'z link_scheme" where
  "vMBMasterCBRequestSuccess = request_finished EV_MASTER_PROCESS_SUCCESS"

section \<open>Port: timers\<close>

text \<open>Starting one timer stops the two others.\<close>

definition vMBsMasterPortTmrsEnable :: "'z link_scheme \<Rightarrow> 'z link_scheme" where
  "vMBsMasterPortTmrsEnable s =
     s\<lparr>eCurTimerMode := MB_TMODE_T35, sMasterPortTmr_runs := True, sConvertDelayTmr_runs := False,
       sRespondTimeoutTmr_runs := False\<rparr>"

definition vMBsMasterPortTmrsConvertDelayEnable :: "'z link_scheme \<Rightarrow> 'z link_scheme" where
  "vMBsMasterPortTmrsConvertDelayEnable s =
     s\<lparr>eCurTimerMode := MB_TMODE_CONVERT_DELAY, sConvertDelayTmr_runs := True, sMasterPortTmr_runs := False,
       sRespondTimeoutTmr_runs := False\<rparr>"

definition vMBsMasterPortTmrsRespondTimeoutEnable :: "'z link_scheme \<Rightarrow> 'z link_scheme" where
  "vMBsMasterPortTmrsRespondTimeoutEnable s =
     s\<lparr>eCurTimerMode := MB_TMODE_RESPOND_TIMEOUT, sRespondTimeoutTmr_runs := True, sMasterPortTmr_runs := False,
       sConvertDelayTmr_runs := False\<rparr>"

definition vMBsMasterPortTmrsDisable :: "'z link_scheme \<Rightarrow> 'z link_scheme" where
  "vMBsMasterPortTmrsDisable s =
     s\<lparr>sMasterPortTmr_runs := False, sConvertDelayTmr_runs := False, sRespondTimeoutTmr_runs := False\<rparr>"

text \<open>
  The lengths of the three timers in ticks of a millisecond: \<open>xMBMasterPortTmrsInit\<close> for the value
  \<open>eMBMasterRTUInit\<close> computes from the baud rate. A one-shot timer of length zero is refused.
\<close>

definition usTimerT35_50us :: "u32 \<Rightarrow> u32" where
  "usTimerT35_50us Baud_rate = (if Baud_rate > 19200 then 35 else udiv32 (7 * 220000) (2 * Baud_rate))"

definition xMBMasterPortTmrsInit :: "u16 \<Rightarrow> (nat \<times> nat \<times> nat) option" where
  "xMBMasterPortTmrsInit usTim1Timerout50us =
     (let i = unat usTim1Timerout50us * 80 div (1000000 div 1000)
      in if i = 0 then None else Some (i, 200 * 1000 div 1000, 300 * 1000 div 1000))"

section \<open>Port: UART\<close>

text \<open>
  The interrupts are numbers: a disjunction of two of them names a third. Those of the modem lines are not part
  of the state.
\<close>

definition UART_INTCFG_RBR :: nat where "UART_INTCFG_RBR = 0"
definition UART_INTCFG_THRE :: nat where "UART_INTCFG_THRE = 1"
definition UART_INTCFG_CTS :: nat where "UART_INTCFG_CTS = 4"

definition UART_IntConfig :: "nat \<Rightarrow> bool \<Rightarrow> 'z link_scheme \<Rightarrow> 'z link_scheme" where
  "UART_IntConfig cfg en s =
     (if cfg = UART_INTCFG_RBR then s\<lparr>uart_rx_int := en\<rparr>
      else if cfg = UART_INTCFG_THRE then s\<lparr>uart_tx_int := en\<rparr> else s)"

definition vMBMasterPortSerialEnable :: "bool \<Rightarrow> bool \<Rightarrow> 'z link_scheme \<Rightarrow> 'z link_scheme" where
  "vMBMasterPortSerialEnable xRxEnable xTxEnable s =
     (let s1 = (if xRxEnable then UART_IntConfig UART_INTCFG_RBR True (s\<lparr>uart_de_tx := False\<rparr>)
                else UART_IntConfig (UART_INTCFG_RBR OR UART_INTCFG_CTS) False (s\<lparr>uart_de_tx := True\<rparr>))
      in if xTxEnable then UART_IntConfig UART_INTCFG_THRE True (s1\<lparr>uart_de_tx := True\<rparr>)
         else UART_IntConfig UART_INTCFG_THRE False (s1\<lparr>uart_de_tx := False\<rparr>))"

definition vMBMasterPortClose :: "'z link_scheme \<Rightarrow> 'z link_scheme" where
  "vMBMasterPortClose = UART_IntConfig (UART_INTCFG_THRE OR UART_INTCFG_RBR) False"

lemmas UART_INTCFG_defs = UART_INTCFG_RBR_def UART_INTCFG_THRE_def UART_INTCFG_CTS_def

text \<open>The receive interrupt is never disabled.\<close>

lemma vMBMasterPortSerialEnable_eq:
  "vMBMasterPortSerialEnable rx tx s =
     s\<lparr>uart_de_tx := tx, uart_rx_int := rx \<or> uart_rx_int s, uart_tx_int := tx\<rparr>"
  by (cases rx; cases tx) (simp_all add: vMBMasterPortSerialEnable_def UART_IntConfig_def UART_INTCFG_defs)

definition xMBMasterPortSerialPutByte :: "u8 \<Rightarrow> 'z link_scheme \<Rightarrow> 'z link_scheme" where
  "xMBMasterPortSerialPutByte b s = s\<lparr>uart_out := uart_out s @ [b]\<rparr>"

section \<open>RTU framing\<close>

text \<open>\<open>xMB_UartInit\<close> cannot fail. It leaves the driver of the line on.\<close>

definition xMB_UartInit :: "'z link_scheme \<Rightarrow> 'z link_scheme" where
  "xMB_UartInit s =
     UART_IntConfig UART_INTCFG_RBR True (s\<lparr>uart_de_tx := True, uart_rx_int := False, uart_tx_int := False\<rparr>)"

definition eMBMasterRTUInit :: "u32 \<Rightarrow> 'z link_scheme \<Rightarrow> eMBErrorCode \<times> 'z link_scheme" where
  "eMBMasterRTUInit Baud_rate s =
     (let s1 = xMB_UartInit s
      in if xMBMasterPortTmrsInit (ucast (usTimerT35_50us Baud_rate)) = None then (MB_EPORTERR, s1) else (MB_ENOERR, s1))"

definition vMBMasterRTUStart :: "'z link_scheme \<Rightarrow> 'z link_scheme" where
  "vMBMasterRTUStart s = s\<lparr>eSndState := STATE_M_TX_IDLE, eRcvState := STATE_M_RX_IDLE\<rparr>"

definition vMBMasterRTUStop :: "'z link_scheme \<Rightarrow> 'z link_scheme" where
  "vMBMasterRTUStop s = vMBsMasterPortTmrsDisable (vMBMasterPortSerialEnable False False s)"

text \<open>The address, the offset of the PDU in the receive buffer and its length.\<close>

definition eMBMasterRTUReceive :: "'z link_scheme \<Rightarrow> (u8 \<times> nat \<times> u16) option" where
  "eMBMasterRTUReceive s =
     (if m_usRcvBufferPos s \<ge> 4 \<and> usMBCRC16 (ucRTURcvBuf s) (m_usRcvBufferPos s) = 0
      then Some (ucRTURcvBuf s ! 0, 1, m_usRcvBufferPos s - 1 - 2) else None)"

text \<open>\<open>pucFrame\<close> is the offset of the PDU in the send buffer; the byte before it becomes the address.\<close>

definition eMBMasterRTUSend :: "u8 \<Rightarrow> nat \<Rightarrow> u16 \<Rightarrow> 'z link_scheme \<Rightarrow> (eMBErrorCode \<times> 'z link_scheme) option" where
  "eMBMasterRTUSend addr pucFrame usLen s =
     (if addr < m_ucSlaveDevMinAddr s \<or> addr > m_ucSlaveDevMaxAddr s then Some (MB_EINVAL, s)
      else if eRcvState s \<noteq> STATE_M_RX_IDLE then Some (MB_EIO, s)
      else do {
        (if pucFrame = 0 then None else Some ());
        b1 \<leftarrow> put (pucFrame - 1) addr (ucRTUSndBuf s);
        (let n = 1 + usLen; crc = usMBCRC16 (drop (pucFrame - 1) b1) n
         in do { b2 \<leftarrow> put (unat n) (ucast crc) b1;
                 b3 \<leftarrow> put (unat (n + 1)) (ucast (drop_bit 8 crc)) b2;
                 b \<leftarrow> get b3 (pucFrame - 1);
                 Some (MB_ENOERR,
                   (xMBMasterPortSerialPutByte b
                     (vMBMasterPortSerialEnable False True
                       (s\<lparr>ucRTUSndBuf := b3, eSndState := STATE_M_TX_XMIT\<rparr>)))
                     \<lparr>pucSndBufferCur := pucFrame, usSndBufferCount := n + 2 - 1\<rparr>) }) })"

text \<open>One byte received.\<close>

definition xMBMasterRTUReceiveFSM :: "u8 \<Rightarrow> 'z link_scheme \<Rightarrow> 'z link_scheme option" where
  "xMBMasterRTUReceiveFSM ucByte s =
     (case eRcvState s of
        STATE_M_RX_INIT \<Rightarrow> Some (vMBsMasterPortTmrsEnable s)
      | STATE_M_RX_ERROR \<Rightarrow> Some (vMBsMasterPortTmrsEnable s)
      | STATE_M_RX_IDLE \<Rightarrow>
          do { b \<leftarrow> put 0 ucByte (ucRTURcvBuf s);
               Some (vMBsMasterPortTmrsEnable
                 ((vMBsMasterPortTmrsDisable s)\<lparr>eSndState := STATE_M_TX_IDLE, m_usRcvBufferPos := 1,
                    eRcvState := STATE_M_RX_RCV, ucRTURcvBuf := b\<rparr>)) }
      | STATE_M_RX_RCV \<Rightarrow>
          (if m_usRcvBufferPos s < 256
           then do { b \<leftarrow> put (unat (m_usRcvBufferPos s)) ucByte (ucRTURcvBuf s);
                     Some (vMBsMasterPortTmrsEnable
                       (s\<lparr>ucRTURcvBuf := b, m_usRcvBufferPos := m_usRcvBufferPos s + 1\<rparr>)) }
           else Some (vMBsMasterPortTmrsEnable (s\<lparr>eRcvState := STATE_M_RX_ERROR\<rparr>))))"

text \<open>The transmitter is empty.\<close>

definition xMBMasterRTUTransmitFSM :: "'z link_scheme \<Rightarrow> 'z link_scheme option" where
  "xMBMasterRTUTransmitFSM s =
     (case eSndState s of
        STATE_M_TX_IDLE \<Rightarrow> Some (vMBMasterPortSerialEnable True False s)
      | STATE_M_TX_XMIT \<Rightarrow>
          (if usSndBufferCount s \<noteq> 0
           then do { b \<leftarrow> get (ucRTUSndBuf s) (pucSndBufferCur s);
                     Some ((xMBMasterPortSerialPutByte b s)
                       \<lparr>pucSndBufferCur := pucSndBufferCur s + 1, usSndBufferCount := usSndBufferCount s - 1\<rparr>) }
           else do { a \<leftarrow> get (ucRTUSndBuf s) 0;
                     (let s1 = (vMBMasterPortSerialEnable True False (s\<lparr>xFrameIsBroadcast := (a = 0)\<rparr>))
                                 \<lparr>eSndState := STATE_M_TX_XFWR\<rparr>
                      in Some (if xFrameIsBroadcast s1 then vMBsMasterPortTmrsConvertDelayEnable s1
                               else vMBsMasterPortTmrsRespondTimeoutEnable s1)) })
      | STATE_M_TX_XFWR \<Rightarrow> Some s)"

text \<open>One of the timers expires.\<close>

definition xMBMasterRTUTimerExpired :: "'z link_scheme \<Rightarrow> 'z link_scheme" where
  "xMBMasterRTUTimerExpired s =
     (if eRcvState s = STATE_M_RX_RCV \<and> m_usRcvBufferPos s < 4
      then vMBsMasterPortTmrsRespondTimeoutEnable
             (s\<lparr>eRcvState := STATE_M_RX_IDLE, eSndState := STATE_M_TX_XFWR\<rparr>)
      else
        let s1 = (case eRcvState s of
                    STATE_M_RX_INIT \<Rightarrow> xMBMasterPortEventPost EV_MASTER_READY s
                  | STATE_M_RX_RCV \<Rightarrow> xMBMasterPortEventPost EV_MASTER_FRAME_RECEIVED s
                  | STATE_M_RX_ERROR \<Rightarrow>
                      xMBMasterPortEventPost EV_MASTER_ERROR_PROCESS (s\<lparr>eCurErrorType := EV_ERROR_RECEIVE_DATA\<rparr>)
                  | STATE_M_RX_IDLE \<Rightarrow> s);
            s2 = s1\<lparr>eRcvState := STATE_M_RX_IDLE\<rparr>;
            s3 = (if eSndState s2 = STATE_M_TX_XFWR \<and> \<not> xFrameIsBroadcast s2
                  then xMBMasterPortEventPost EV_MASTER_ERROR_PROCESS (s2\<lparr>eCurErrorType := EV_ERROR_RESPOND_TIMEOUT\<rparr>)
                  else s2);
            s4 = vMBsMasterPortTmrsDisable (s3\<lparr>eSndState := STATE_M_TX_IDLE\<rparr>)
        in if eCurTimerMode s4 = MB_TMODE_CONVERT_DELAY then xMBMasterPortEventPost EV_MASTER_EXECUTE s4 else s4)"

section \<open>Interrupts\<close>

text \<open>
  What the hardware and the timer task do: the transmitter becomes empty, a byte arrives, a timer
  expires. An interrupt that is disabled is not taken; a timer that does not run does not expire.
\<close>

datatype port_timer = Tmr_T35 | Tmr_ConvertDelay | Tmr_RespondTimeout

datatype link_event = TxReady | RxByte u8 | Expires port_timer

fun timer_runs :: "port_timer \<Rightarrow> 'z link_scheme \<Rightarrow> bool" where
  "timer_runs Tmr_T35 s = sMasterPortTmr_runs s"
| "timer_runs Tmr_ConvertDelay s = sConvertDelayTmr_runs s"
| "timer_runs Tmr_RespondTimeout s = sRespondTimeoutTmr_runs s"

fun timer_completed :: "port_timer \<Rightarrow> 'z link_scheme \<Rightarrow> 'z link_scheme" where
  "timer_completed Tmr_T35 s = s\<lparr>sMasterPortTmr_runs := False\<rparr>"
| "timer_completed Tmr_ConvertDelay s = s\<lparr>sConvertDelayTmr_runs := False\<rparr>"
| "timer_completed Tmr_RespondTimeout s = s\<lparr>sRespondTimeoutTmr_runs := False\<rparr>"

definition prvvMasterUARTTxReadyISR :: "'z link_scheme \<Rightarrow> 'z link_scheme option" where
  "prvvMasterUARTTxReadyISR s = (if uart_tx_int s then xMBMasterRTUTransmitFSM s else Some s)"

definition prvvMasterUARTRxISR :: "u8 \<Rightarrow> 'z link_scheme \<Rightarrow> 'z link_scheme option" where
  "prvvMasterUARTRxISR b s = (if uart_rx_int s then xMBMasterRTUReceiveFSM b s else Some s)"

definition vMasterTimeoutInd :: "port_timer \<Rightarrow> 'z link_scheme \<Rightarrow> 'z link_scheme" where
  "vMasterTimeoutInd t s = (if timer_runs t s then xMBMasterRTUTimerExpired (timer_completed t s) else s)"

fun link_step :: "link_event \<Rightarrow> 'z link_scheme \<Rightarrow> 'z link_scheme option" where
  "link_step TxReady s = prvvMasterUARTTxReadyISR s"
| "link_step (RxByte b) s = prvvMasterUARTRxISR b s"
| "link_step (Expires t) s = Some (vMasterTimeoutInd t s)"

fun link_steps :: "link_event list \<Rightarrow> 'z link_scheme \<Rightarrow> 'z link_scheme option" where
  "link_steps [] s = Some s"
| "link_steps (e # es) s = do { s1 \<leftarrow> link_step e s; link_steps es s1 }"

end
