(* ===== verification/WireProps.thy ===== *)
theory WireProps
  imports MbLink
begin

text \<open>
  What goes over the serial line of the master: sending a frame byte by byte, receiving one, and the
  timer that ends it. Every lemma gives the whole new state as a record update.
\<close>

section \<open>Frames\<close>

definition rtu_frame :: "u8 \<Rightarrow> u8 list \<Rightarrow> u8 list" where
  "rtu_frame addr pdu = (let c = crc16 (addr # pdu) in addr # pdu @ [ucast c, ucast (drop_bit 8 c)])"

definition link_idle :: "'z link_scheme \<Rightarrow> bool" where
  "link_idle s \<longleftrightarrow> eRcvState s = STATE_M_RX_IDLE \<and> length (ucRTUSndBuf s) = 253 \<and> length (ucRTURcvBuf s) = 256"

lemma length_rtu_frame [simp]: "length (rtu_frame addr pdu) = length pdu + 3"
  by (simp add: rtu_frame_def Let_def)

lemma rtu_frame_nth_0 [simp]: "rtu_frame addr pdu ! 0 = addr"
  by (simp add: rtu_frame_def Let_def)

lemma rtu_frame_neq_Nil [simp]: "rtu_frame addr pdu \<noteq> []"
  by (simp add: rtu_frame_def Let_def)

lemma crc16_rtu_frame: "crc16 (rtu_frame addr pdu) = 0"
  using crc16_check[of "addr # pdu"] by (simp add: rtu_frame_def Let_def)

lemma link_steps_append: "link_steps (xs @ ys) s = do { t \<leftarrow> link_steps xs s; link_steps ys t }"
  by (induction xs arbitrary: s) (auto split: bind_splits)

section \<open>Sending\<close>

text \<open>The state after the first byte has been written to the transmitter.\<close>

definition sending :: "u8 \<Rightarrow> u8 list \<Rightarrow> 'z link_scheme \<Rightarrow> 'z link_scheme" where
  "sending addr pdu s = s\<lparr>ucRTUSndBuf := rtu_frame addr pdu @ drop (length pdu + 3) (ucRTUSndBuf s),
     eSndState := STATE_M_TX_XMIT, uart_tx_int := True, uart_de_tx := True,
     uart_out := uart_out s @ [addr], pucSndBufferCur := 1, usSndBufferCount := of_nat (length pdu) + 2\<rparr>"

lemma frame_in_buffer:
  assumes "take (length pdu) (drop 1 buf) = pdu" "length pdu + 3 \<le> length buf"
  shows "buf[0 := addr, Suc (length pdu) := c, Suc (Suc (length pdu)) := d] =
    addr # pdu @ [c, d] @ drop (length pdu + 3) buf"
proof -
  obtain x bs where buf: "buf = x # bs" using assms(2) by (cases buf) auto
  have bs: "bs = pdu @ drop (length pdu) bs" using assms(1) append_take_drop_id[of "length pdu" bs] by (simp add: buf)
  obtain y z ys where ys: "drop (length pdu) bs = y # z # ys"
  proof -
    have "2 \<le> length (drop (length pdu) bs)" using assms(2) by (simp add: buf)
    then show ?thesis using that by (cases "drop (length pdu) bs" rule: remdups_adj.cases) auto
  qed
  have "drop (length pdu + 3) buf = ys"
    using arg_cong[OF ys, of "drop 2"] by (simp add: buf eval_nat_numeral)
  then show ?thesis
    by (subst buf, subst bs, subst ys) (simp add: list_update_append)
qed

lemma send_frame:
  assumes "link_idle s" "m_ucSlaveDevMinAddr s \<le> addr" "addr \<le> m_ucSlaveDevMaxAddr s"
    and "take (length pdu) (drop 1 (ucRTUSndBuf s)) = pdu" "length pdu \<le> 250"
  shows "eMBMasterRTUSend addr 1 (of_nat (length pdu)) s = Some (MB_ENOERR, sending addr pdu s)"
proof -
  let ?b = "(ucRTUSndBuf s)[0 := addr]" and ?n = "1 + of_nat (length pdu) :: u16"
  have len: "length (ucRTUSndBuf s) = 253" "eRcvState s = STATE_M_RX_IDLE" using assms(1) by (auto simp: link_idle_def)
  have n: "unat ?n = Suc (length pdu)" "unat (?n + 1) = Suc (Suc (length pdu))"
    using assms(5) by (simp_all add: unat_word_ariths unsigned_of_nat take_bit_nat_eq_self)
  have "take (Suc (length pdu)) ?b = addr # pdu"
    using assms(4,5) len by (cases "ucRTUSndBuf s") auto
  then have crc: "usMBCRC16 ?b ?n = crc16 (addr # pdu)" by (simp add: usMBCRC16_crc16 n)
  show ?thesis
    using assms(2,3,5) len frame_in_buffer[OF assms(4), of addr "ucast (crc16 (addr # pdu))" "ucast (drop_bit 8 (crc16 (addr # pdu)))"]
    by (simp add: eMBMasterRTUSend_def put_def get_def Let_def n[simplified] crc[simplified] not_less sending_def
        vMBMasterPortSerialEnable_eq xMBMasterPortSerialPutByte_def rtu_frame_def)
qed

text \<open>The transmitter is found empty \<open>k\<close> times, with nothing received meanwhile.\<close>

lemma tx_run:
  assumes "eSndState s = STATE_M_TX_XMIT" "uart_tx_int s" "k \<le> unat (usSndBufferCount s)"
    and "pucSndBufferCur s + unat (usSndBufferCount s) \<le> length (ucRTUSndBuf s)"
  shows "link_steps (replicate k TxReady) s = Some (s\<lparr>uart_out := uart_out s @ take k (drop (pucSndBufferCur s) (ucRTUSndBuf s)),
    pucSndBufferCur := pucSndBufferCur s + k, usSndBufferCount := usSndBufferCount s - of_nat k\<rparr>)"
  using assms
proof (induction k arbitrary: s)
  case (Suc k)
  let ?s = "(xMBMasterPortSerialPutByte (ucRTUSndBuf s ! pucSndBufferCur s) s)
    \<lparr>pucSndBufferCur := pucSndBufferCur s + 1, usSndBufferCount := usSndBufferCount s - 1\<rparr>"
  have pos: "usSndBufferCount s \<noteq> 0" using Suc.prems(3) by (metis not_less_eq_eq unat_0 zero_le)
  then have dec: "unat (usSndBufferCount s - 1) = unat (usSndBufferCount s) - 1" "0 < unat (usSndBufferCount s)"
    by (simp_all add: unat_minus_one unat_gt_0)
  have cur: "pucSndBufferCur s < length (ucRTUSndBuf s)" using Suc.prems(4) dec(2) by simp
  have "link_step TxReady s = Some ?s"
    using Suc.prems pos cur by (simp add: prvvMasterUARTTxReadyISR_def xMBMasterRTUTransmitFSM_def get_def)
  moreover have "link_steps (replicate k TxReady) ?s = Some (?s\<lparr>uart_out := uart_out ?s @ take k (drop (pucSndBufferCur ?s) (ucRTUSndBuf ?s)),
      pucSndBufferCur := pucSndBufferCur ?s + k, usSndBufferCount := usSndBufferCount ?s - of_nat k\<rparr>)"
    using Suc.prems dec by (intro Suc.IH) (auto simp: xMBMasterPortSerialPutByte_def)
  ultimately show ?case
    using cur by (simp add: xMBMasterPortSerialPutByte_def Cons_nth_drop_Suc[symmetric] algebra_simps)
qed simp

text \<open>The last interrupt turns the line around and starts the timer of the answer.\<close>

definition line_turned :: "u8 \<Rightarrow> u8 list \<Rightarrow> 'z link_scheme \<Rightarrow> 'z link_scheme" where
  "line_turned addr pdu s = (sending addr pdu s)\<lparr>uart_out := uart_out s @ rtu_frame addr pdu,
     pucSndBufferCur := length pdu + 3, usSndBufferCount := 0, xFrameIsBroadcast := (addr = 0),
     eSndState := STATE_M_TX_XFWR, uart_rx_int := True, uart_tx_int := False, uart_de_tx := False,
     eCurTimerMode := (if addr = 0 then MB_TMODE_CONVERT_DELAY else MB_TMODE_RESPOND_TIMEOUT),
     sConvertDelayTmr_runs := (addr = 0), sRespondTimeoutTmr_runs := (addr \<noteq> 0), sMasterPortTmr_runs := False\<rparr>"

lemma sending_run:
  assumes "link_idle s" "length pdu \<le> 250" "k \<le> length pdu + 2"
  shows "link_steps (replicate k TxReady) (sending addr pdu s) = Some ((sending addr pdu s)\<lparr>
    uart_out := uart_out s @ take (Suc k) (rtu_frame addr pdu),
    pucSndBufferCur := 1 + k, usSndBufferCount := of_nat (length pdu) + 2 - of_nat k\<rparr>)"
proof -
  let ?s = "sending addr pdu s"
  obtain fs where fs: "rtu_frame addr pdu = addr # fs" "length fs = length pdu + 2"
    by (metis length_Suc_conv length_rtu_frame rtu_frame_nth_0 nth_Cons_0 add_Suc_right numeral_3_eq_3 numeral_2_eq_2)
  have count: "unat (usSndBufferCount ?s) = length pdu + 2"
    using assms(2) by (simp add: sending_def unat_word_ariths unsigned_of_nat take_bit_nat_eq_self)
  have "link_steps (replicate k TxReady) ?s = Some (?s\<lparr>uart_out := uart_out ?s @ take k (drop (pucSndBufferCur ?s) (ucRTUSndBuf ?s)),
    pucSndBufferCur := pucSndBufferCur ?s + k, usSndBufferCount := usSndBufferCount ?s - of_nat k\<rparr>)"
    using assms count by (intro tx_run) (auto simp: sending_def link_idle_def)
  then show ?thesis using assms(3) fs by (simp add: sending_def)
qed

lemma sending_end:
  assumes "link_idle s" "length pdu \<le> 250"
  shows "link_steps (replicate (length pdu + 2) TxReady @ [TxReady]) (sending addr pdu s) = Some (line_turned addr pdu s)"
  using sending_run[OF assms, of "length pdu + 2" addr]
  by (simp add: link_steps_append prvvMasterUARTTxReadyISR_def xMBMasterRTUTransmitFSM_def get_def sending_def nth_append
      vMBMasterPortSerialEnable_eq vMBsMasterPortTmrsConvertDelayEnable_def
      vMBsMasterPortTmrsRespondTimeoutEnable_def line_turned_def del: replicate_Suc)

section \<open>Receiving\<close>

definition received :: "u8 list \<Rightarrow> 'z link_scheme \<Rightarrow> 'z link_scheme" where
  "received bs s = s\<lparr>ucRTURcvBuf := bs @ drop (length bs) (ucRTURcvBuf s), m_usRcvBufferPos := of_nat (length bs),
     eRcvState := STATE_M_RX_RCV, eSndState := STATE_M_TX_IDLE, eCurTimerMode := MB_TMODE_T35,
     sMasterPortTmr_runs := True, sConvertDelayTmr_runs := False, sRespondTimeoutTmr_runs := False\<rparr>"

lemma receive_one:
  assumes "uart_rx_int s" "length bs < 256" "length (ucRTURcvBuf s) = 256"
  shows "link_step (RxByte b) (received bs s) = Some (received (bs @ [b]) s)"
proof -
  have pos: "unat (of_nat (length bs) :: u16) = length bs"
    using assms(2) by (simp add: unsigned_of_nat take_bit_nat_eq_self)
  then have "(of_nat (length bs) :: u16) < 256" using assms(2) by (simp add: word_less_nat_alt)
  moreover have "(bs @ drop (length bs) (ucRTURcvBuf s))[length bs := b] = bs @ b # drop (Suc (length bs)) (ucRTURcvBuf s)"
    using assms(2,3) by (simp add: list_update_append Cons_nth_drop_Suc[symmetric])
  ultimately show ?thesis
    using assms by (simp add: prvvMasterUARTRxISR_def xMBMasterRTUReceiveFSM_def received_def put_def pos
        vMBsMasterPortTmrsEnable_def add.commute)
qed

lemma receive_first:
  assumes "eRcvState s = STATE_M_RX_IDLE" "uart_rx_int s" "length (ucRTURcvBuf s) = 256"
  shows "link_step (RxByte b) s = Some (received [b] s)"
  using assms by (cases "ucRTURcvBuf s") (auto simp: prvvMasterUARTRxISR_def xMBMasterRTUReceiveFSM_def received_def
      put_def vMBsMasterPortTmrsEnable_def vMBsMasterPortTmrsDisable_def)

lemma receive_run:
  assumes "eRcvState s = STATE_M_RX_IDLE" "uart_rx_int s" "length (ucRTURcvBuf s) = 256"
    and "bs \<noteq> []" "length bs \<le> 256"
  shows "link_steps (map RxByte bs) s = Some (received bs s)"
  using assms(4,5)
proof (induction bs rule: rev_nonempty_induct)
  case (single b)
  then show ?case using receive_first[OF assms(1-3)] by simp
next
  case (snoc b bs)
  then show ?case using receive_one[OF assms(2) _ assms(3), of bs b] by (simp add: link_steps_append)
qed

text \<open>The end of a frame: a pause of three and a half characters.\<close>

definition frame_ended :: "u8 list \<Rightarrow> 'z link_scheme \<Rightarrow> 'z link_scheme" where
  "frame_ended bs s = (received bs s)\<lparr>eRcvState := STATE_M_RX_IDLE, sMasterPortTmr_runs := False,
     m_xEventInQueue := True, m_eQueuedEvent := EV_MASTER_FRAME_RECEIVED, sMBEventSem := True\<rparr>"

lemma pause_after_frame:
  assumes "4 \<le> length bs" "length bs \<le> 256"
  shows "link_steps [Expires Tmr_T35] (received bs s) = Some (frame_ended bs s)"
proof -
  have "unat (of_nat (length bs) :: u16) = length bs"
    using assms(2) by (simp add: unsigned_of_nat take_bit_nat_eq_self)
  then have "\<not> (of_nat (length bs) :: u16) < 4" using assms(1) by (simp add: word_less_nat_alt)
  then show ?thesis
    by (simp add: vMasterTimeoutInd_def received_def xMBMasterRTUTimerExpired_def Let_def
        xMBMasterPortEventPost_def vMBsMasterPortTmrsDisable_def frame_ended_def)
qed

text \<open>Fewer than four bytes are dropped and the wait for an answer starts again.\<close>

definition fragment_dropped :: "u8 list \<Rightarrow> 'z link_scheme \<Rightarrow> 'z link_scheme" where
  "fragment_dropped bs s = (received bs s)\<lparr>eRcvState := STATE_M_RX_IDLE, eSndState := STATE_M_TX_XFWR,
     eCurTimerMode := MB_TMODE_RESPOND_TIMEOUT, sMasterPortTmr_runs := False, sRespondTimeoutTmr_runs := True\<rparr>"

lemma pause_after_fragment:
  assumes "length bs < 4"
  shows "link_steps [Expires Tmr_T35] (received bs s) = Some (fragment_dropped bs s)"
proof -
  have "unat (of_nat (length bs) :: u16) = length bs"
    using assms by (simp add: unsigned_of_nat take_bit_nat_eq_self)
  then have "(of_nat (length bs) :: u16) < 4" using assms by (simp add: word_less_nat_alt)
  then show ?thesis
    by (simp add: vMasterTimeoutInd_def received_def xMBMasterRTUTimerExpired_def
        vMBsMasterPortTmrsRespondTimeoutEnable_def fragment_dropped_def)
qed

text \<open>Silence after a request that was no broadcast.\<close>

definition silence_ended :: "'z link_scheme \<Rightarrow> 'z link_scheme" where
  "silence_ended s = s\<lparr>eCurErrorType := EV_ERROR_RESPOND_TIMEOUT, eSndState := STATE_M_TX_IDLE,
     sRespondTimeoutTmr_runs := False, sMasterPortTmr_runs := False, sConvertDelayTmr_runs := False,
     m_xEventInQueue := True, m_eQueuedEvent := EV_MASTER_ERROR_PROCESS, sMBEventSem := True\<rparr>"

lemma silence:
  assumes "eRcvState s = STATE_M_RX_IDLE" "eSndState s = STATE_M_TX_XFWR" "\<not> xFrameIsBroadcast s"
    and "sRespondTimeoutTmr_runs s" "eCurTimerMode s = MB_TMODE_RESPOND_TIMEOUT"
  shows "link_steps [Expires Tmr_RespondTimeout] s = Some (silence_ended s)"
  using assms by (simp add: vMasterTimeoutInd_def xMBMasterRTUTimerExpired_def Let_def
      xMBMasterPortEventPost_def vMBsMasterPortTmrsDisable_def silence_ended_def)

text \<open>What the state machine makes of the frame.\<close>

lemma received_frame:
  assumes "bs \<noteq> []" "4 \<le> length bs" "length bs \<le> 256"
    and "take (unat (m_usRcvBufferPos s)) (ucRTURcvBuf s) = bs" "m_usRcvBufferPos s = of_nat (length bs)"
  shows "eMBMasterRTUReceive s = (if crc16 bs = 0 then Some (hd bs, 1, of_nat (length bs) - 3) else None)"
proof -
  have pos: "unat (m_usRcvBufferPos s) = length bs"
    using assms(3,5) by (simp add: unsigned_of_nat take_bit_nat_eq_self)
  then have "m_usRcvBufferPos s \<ge> 4" using assms(2) by (simp add: word_le_nat_alt)
  moreover have "ucRTURcvBuf s ! 0 = hd bs"
    using assms(1,4) pos by (cases "ucRTURcvBuf s"; cases bs) auto
  ultimately show ?thesis
    using assms(4,5) pos by (simp add: eMBMasterRTUReceive_def usMBCRC16_crc16)
qed

section \<open>A request on the wire\<close>

text \<open>A byte heard while sending is taken for the start of an answer: the next interrupt turns the line around.\<close>

lemma sending_cut:
  assumes "uart_rx_int t" "uart_tx_int t" "eRcvState t = STATE_M_RX_IDLE" "length (ucRTURcvBuf t) = 256"
  shows "\<exists>t'. link_steps [RxByte b, TxReady] t = Some t' \<and> uart_out t' = uart_out t \<and> \<not> uart_tx_int t' \<and>
    \<not> uart_de_tx t' \<and> \<not> sRespondTimeoutTmr_runs t' \<and> sMasterPortTmr_runs t'"
  using receive_first[OF assms(3,1,4), of b] assms(2)
  by (simp add: prvvMasterUARTTxReadyISR_def xMBMasterRTUTransmitFSM_def vMBMasterPortSerialEnable_eq received_def
      del: link_step.simps(2))


definition link_at_rest :: link where
  "link_at_rest = \<lparr>m_ucSlaveDevMinAddr = 1, m_ucSlaveDevMaxAddr = 40, usSndPDULength = 0, usSndBufferCount = 0,
     m_usRcvBufferPos = 0, usRcvRequestBytes = 0, m_usLength = 0, pucSndBufferCur = 0, pucMasterPDUCur = None,
     pucMBRcvFrame = None, ucMBDestAddr = 0, xFrameIsBroadcast = False, m_eMBState = STATE_ENABLED,
     eRcvState = STATE_M_RX_IDLE, eSndState = STATE_M_TX_IDLE, eCurErrorType = EV_ERROR_RESPOND_TIMEOUT,
     ucRTUSndBuf = replicate 253 0, ucRTURcvBuf = replicate 256 0, m_eQueuedEvent = EV_MASTER_READY,
     eCurTimerMode = MB_TMODE_T35, m_xEventInQueue = False, xWaitFinishInQueue = False, xMBIsFinished = False,
     sMasterPortTmr_runs = False, sConvertDelayTmr_runs = False, sRespondTimeoutTmr_runs = False,
     sMBEventSem = False, sMBIdleMutex = \<lparr>OwnerTCB = None, OwnerNestingCtr = 0, PendList = []\<rparr>,
     uart_rx_int = True, uart_tx_int = False, uart_de_tx = False, uart_out = []\<rparr>"


end
