(* ===== verification/MbDevs.thy ===== *)
theory MbDevs
  imports MbLink
begin

text \<open>
  The devices of the Modbus master and their dictionaries: \<open>mbdict_m.h\<close>, \<open>mbmap_m.c\<close> and
  \<open>mbbits_m.c\<close> of \<open>FreeModbus/master/functions\<close>, the callbacks of \<open>mbfuncholding_m.c\<close>,
  \<open>mbfuncinput_m.c\<close> and \<open>mbfunccoils_m.c\<close> that move values between frames and variables.

  An entry of a dictionary points at a variable of the program (type \<open>'v\<close>, value of 16 bits as in
  \<open>MbSlave\<close>) and, where it can be written, remembers the value last known to the device.
\<close>

unbundle bit_operations_syntax

section \<open>Data\<close>

record 'v sMasterRegHoldData =
  mh_usAddr :: u16
  mh_usPreVal :: u16
  mh_usMinVal :: u16
  mh_usMaxVal :: u16
  mh_ucDataType :: data_type
  mh_ucAccessMode :: access_mode
  mh_ucTmitMult :: u8
  mh_pvValue :: "'v option"

record 'v sMasterRegInData =
  mi_usAddr :: u16
  mi_usMinVal :: u16
  mi_usMaxVal :: u16
  mi_ucDataType :: data_type
  mi_ucAccessMode :: access_mode
  mi_ucTmitMult :: u8
  mi_pvValue :: "'v option"

record 'v sMasterBitCoilData =
  mc_usAddr :: u16
  mc_ucPreVal :: u8
  mc_ucAccessMode :: access_mode
  mc_pvValue :: "'v option"

datatype eMasterCmdMode = READ_REG_IN | READ_REG_HOLD | WRITE_REG_HOLD

record sMBTestDevCmd =
  cmd_usAddr :: u16
  cmd_usValue :: u16
  cmd_eCmdMode :: eMasterCmdMode
  cmd_xCheckVal :: bool

text \<open>\<open>sMBDevDataTable\<close> has the fields of the slave's table.\<close>

type_synonym 'd sMBDevDataTable = "'d sMBSlaveDataTable"

record 'v sMBSlaveDevCommData =
  md_RegInTable :: "'v sMasterRegInData sMBDevDataTable"
  md_RegHoldTable :: "'v sMasterRegHoldData sMBDevDataTable"
  md_CoilTable :: "'v sMasterBitCoilData sMBDevDataTable"
  md_DevCmdTable :: sMBTestDevCmd
  md_pxDevDataMapIndex :: "(eDataType \<Rightarrow> u8 \<Rightarrow> u16 \<Rightarrow> u16 option) option"
  md_usProtocolID :: u16

text \<open>\<open>psDevDataInfo\<close> is a list, \<open>psDevCurData\<close> an element of it.\<close>

record 'v sMBSlaveDev =
  sd_usProtocolID :: u16
  sd_ucDevAddr :: u8
  sd_ucOfflineTimes :: u8
  sd_xDataReady :: bool
  sd_xSynchronized :: bool
  sd_xStateTestRequest :: bool
  sd_xDevOnTimeout :: bool
  sd_xOnLine :: bool
  sd_sDevOfflineTmr_runs :: bool
  sd_psDevDataInfo :: "'v sMBSlaveDevCommData list"
  sd_psDevCurData :: "nat option"

datatype eMasterRunMode = STATE_HEART_BEAT | STATE_SCAN_DEV | STATE_SCAN_DTU | STATE_TEST_DEV | STATE_SYSN_DEV

text \<open>
  The master with its devices and the variables of the program. \<open>bus\<close> is not part of the program: it
  is what interrupts and other tasks do during the coming delays of the task that waits for a request,
  one list per delay.
\<close>

datatype 'v bus_event = Link link_event | Poll eMBMasterEventType | SetVar 'v u16 | DevTimeout nat

record 'v master = link +
  m_eMBRunMode :: eMasterRunMode
  psMBSlaveDevsList :: "'v sMBSlaveDev list"
  psMBSlaveDevCur :: "nat option"
  ucSlaveDevCount :: u8
  RegHoldValList :: "u16 list"
  BitCoilByteValList :: "u8 list"
  master_mem :: "'v \<Rightarrow> u16"
  bus :: "'v bus_event list list"

section \<open>Filling a dictionary\<close>

definition vMBMasterDevRegHoldDataInit ::
  "u16 \<Rightarrow> data_type \<Rightarrow> u16 \<Rightarrow> u16 \<Rightarrow> u16 \<Rightarrow> access_mode \<Rightarrow> u8 \<Rightarrow> 'v \<Rightarrow> 'v sMasterRegHoldData" where
  "vMBMasterDevRegHoldDataInit addr ty mn mx pre acc tmit v =
     \<lparr>mh_usAddr = addr, mh_usPreVal = pre, mh_usMinVal = mn, mh_usMaxVal = mx, mh_ucDataType = ty,
      mh_ucAccessMode = acc, mh_ucTmitMult = tmit, mh_pvValue = Some v\<rparr>"

definition vMBMasterDevRegInDataInit ::
  "u16 \<Rightarrow> data_type \<Rightarrow> u16 \<Rightarrow> u16 \<Rightarrow> access_mode \<Rightarrow> u8 \<Rightarrow> 'v \<Rightarrow> 'v sMasterRegInData" where
  "vMBMasterDevRegInDataInit addr ty mn mx acc tmit v =
     \<lparr>mi_usAddr = addr, mi_usMinVal = mn, mi_usMaxVal = mx, mi_ucDataType = ty,
      mi_ucAccessMode = acc, mi_ucTmitMult = tmit, mi_pvValue = Some v\<rparr>"

definition vMBMasterDevCoilDataInit :: "u16 \<Rightarrow> u8 \<Rightarrow> access_mode \<Rightarrow> 'v \<Rightarrow> 'v sMasterBitCoilData" where
  "vMBMasterDevCoilDataInit addr pre acc v =
     \<lparr>mc_usAddr = addr, mc_ucPreVal = pre, mc_ucAccessMode = acc, mc_pvValue = Some v\<rparr>"

definition vMBMasterDevTestCmdInit :: "u16 \<Rightarrow> eMasterCmdMode \<Rightarrow> u16 \<Rightarrow> bool \<Rightarrow> sMBTestDevCmd" where
  "vMBMasterDevTestCmdInit addr mode v chk =
     \<lparr>cmd_usAddr = addr, cmd_usValue = v, cmd_eCmdMode = mode, cmd_xCheckVal = chk\<rparr>"

definition vMBMasterDevDataTableInit :: "'d list \<Rightarrow> u16 \<Rightarrow> u16 \<Rightarrow> u16 \<Rightarrow> 'd sMBDevDataTable" where
  "vMBMasterDevDataTableInit buf start end n =
     \<lparr>pvDataBuf = Some buf, usStartAddr = start, usEndAddr = end, usDataCount = n\<rparr>"

section \<open>Devices\<close>

definition dev_at :: "'v master \<Rightarrow> nat \<Rightarrow> 'v sMBSlaveDev option" where
  "dev_at s i = (if i < length (psMBSlaveDevsList s) then Some (psMBSlaveDevsList s ! i) else None)"

definition upd_dev :: "nat \<Rightarrow> ('v sMBSlaveDev \<Rightarrow> 'v sMBSlaveDev) \<Rightarrow> 'v master \<Rightarrow> 'v master" where
  "upd_dev i f s = s\<lparr>psMBSlaveDevsList := (psMBSlaveDevsList s)[i := f (psMBSlaveDevsList s ! i)]\<rparr>"

text \<open>The dictionary in use, \<open>psDevCurData\<close>.\<close>

definition cur_data :: "'v master \<Rightarrow> nat \<Rightarrow> 'v sMBSlaveDevCommData option" where
  "cur_data s i =
     do { d \<leftarrow> dev_at s i; j \<leftarrow> sd_psDevCurData d;
          (if j < length (sd_psDevDataInfo d) then Some (sd_psDevDataInfo d ! j) else None) }"

definition upd_cur_data ::
  "nat \<Rightarrow> ('v sMBSlaveDevCommData \<Rightarrow> 'v sMBSlaveDevCommData) \<Rightarrow> 'v master \<Rightarrow> 'v master" where
  "upd_cur_data i f s = upd_dev i (\<lambda>d. case sd_psDevCurData d of None \<Rightarrow> d
     | Some j \<Rightarrow> d\<lparr>sd_psDevDataInfo := (sd_psDevDataInfo d)[j := f (sd_psDevDataInfo d ! j)]\<rparr>) s"

definition upd_entry :: "nat \<Rightarrow> ('d \<Rightarrow> 'd) \<Rightarrow> 'd sMBDevDataTable \<Rightarrow> 'd sMBDevDataTable" where
  "upd_entry k f tab = tab\<lparr>pvDataBuf := map_option (\<lambda>buf. buf[k := f (buf ! k)]) (pvDataBuf tab)\<rparr>"

definition upd_hold_entry ::
  "nat \<Rightarrow> nat \<Rightarrow> ('v sMasterRegHoldData \<Rightarrow> 'v sMasterRegHoldData) \<Rightarrow> 'v master \<Rightarrow> 'v master" where
  "upd_hold_entry i k f = upd_cur_data i (\<lambda>cd. cd\<lparr>md_RegHoldTable := upd_entry k f (md_RegHoldTable cd)\<rparr>)"

definition upd_coil_entry ::
  "nat \<Rightarrow> nat \<Rightarrow> ('v sMasterBitCoilData \<Rightarrow> 'v sMasterBitCoilData) \<Rightarrow> 'v master \<Rightarrow> 'v master" where
  "upd_coil_entry i k f = upd_cur_data i (\<lambda>cd. cd\<lparr>md_CoilTable := upd_entry k f (md_CoilTable cd)\<rparr>)"

definition psMBMasterGetDev :: "'v master \<Rightarrow> u8 \<Rightarrow> nat option" where
  "psMBMasterGetDev s addr = find (\<lambda>i. sd_ucDevAddr (psMBSlaveDevsList s ! i) = addr) [0..<length (psMBSlaveDevsList s)]"

definition xMBMasterRegistDev :: "'v sMBSlaveDev \<Rightarrow> 'v master \<Rightarrow> 'v master" where
  "xMBMasterRegistDev d s =
     s\<lparr>psMBSlaveDevsList := psMBSlaveDevsList s @ [d], ucSlaveDevCount := ucSlaveDevCount s + 1\<rparr>"

section \<open>Looking up an address\<close>

text \<open>Every function first moves to the device that is addressed.\<close>

definition switch_dev :: "u8 \<Rightarrow> 'v master \<Rightarrow> (nat \<times> 'v master) option" where
  "switch_dev addr s =
     do { i \<leftarrow> psMBSlaveDevCur s; d \<leftarrow> dev_at s i;
          (if sd_ucDevAddr d = addr then Some (i, s)
           else do { j \<leftarrow> psMBMasterGetDev s addr; Some (j, s\<lparr>psMBSlaveDevCur := Some j\<rparr>) }) }"

text \<open>
  The result is the pointer the map functions leave, here an index in the buffer of the table; an
  index beyond it is a pointer outside. The map of the coils does not test the number of entries.
\<close>

definition master_map ::
  "eDataType \<Rightarrow> ('v sMBSlaveDevCommData \<Rightarrow> 'd sMBDevDataTable) \<Rightarrow> bool \<Rightarrow> u8 \<Rightarrow> u16 \<Rightarrow> 'v master \<Rightarrow>
   (nat option \<times> 'v master) option" where
  "master_map ty tab test_count addr reg s =
     do { (i, s1) \<leftarrow> switch_dev addr s; d \<leftarrow> dev_at s1 i; cd \<leftarrow> cur_data s1 i;
          (case (pvDataBuf (tab cd), md_pxDevDataMapIndex cd) of
             (Some buf, Some index) \<Rightarrow>
               (if test_count \<and> usDataCount (tab cd) = 0 then Some (None, s1)
                else (case index ty (ucast (sd_usProtocolID d)) reg of
                        Some k \<Rightarrow> (if unat k < length buf then Some (Some (unat k), s1) else None)
                      | None \<Rightarrow> Some (None, s1)))
           | _ \<Rightarrow> Some (None, s1)) }"

definition eMBMasterRegInMap :: "u8 \<Rightarrow> u16 \<Rightarrow> 'v master \<Rightarrow> (nat option \<times> 'v master) option" where
  "eMBMasterRegInMap = master_map RegInputData md_RegInTable True"

definition eMBMasterRegHoldingMap :: "u8 \<Rightarrow> u16 \<Rightarrow> 'v master \<Rightarrow> (nat option \<times> 'v master) option" where
  "eMBMasterRegHoldingMap = master_map RegHoldData md_RegHoldTable True"

definition eMBMasterCoilMap :: "u8 \<Rightarrow> u16 \<Rightarrow> 'v master \<Rightarrow> (nat option \<times> 'v master) option" where
  "eMBMasterCoilMap = master_map CoilData md_CoilTable False"

definition hold_entry :: "'v master \<Rightarrow> nat \<Rightarrow> nat \<Rightarrow> 'v sMasterRegHoldData option" where
  "hold_entry s i k = do { cd \<leftarrow> cur_data s i; buf \<leftarrow> pvDataBuf (md_RegHoldTable cd);
                           (if k < length buf then Some (buf ! k) else None) }"

definition in_entry :: "'v master \<Rightarrow> nat \<Rightarrow> nat \<Rightarrow> 'v sMasterRegInData option" where
  "in_entry s i k = do { cd \<leftarrow> cur_data s i; buf \<leftarrow> pvDataBuf (md_RegInTable cd);
                         (if k < length buf then Some (buf ! k) else None) }"

definition coil_entry :: "'v master \<Rightarrow> nat \<Rightarrow> nat \<Rightarrow> 'v sMasterBitCoilData option" where
  "coil_entry s i k = do { cd \<leftarrow> cur_data s i; buf \<leftarrow> pvDataBuf (md_CoilTable cd);
                           (if k < length buf then Some (buf ! k) else None) }"

section \<open>Holding registers\<close>

definition scaled_down :: "u8 \<Rightarrow> u16 \<Rightarrow> u16" where
  "scaled_down tmit v = (if tmit \<noteq> 0 \<and> tmit \<noteq> 1 then v div ucast tmit else v)"

text \<open>The range test and the comparison with the previous value, by type.\<close>

definition hold_in_range :: "'v sMasterRegHoldData \<Rightarrow> u16 \<Rightarrow> bool" where
  "hold_in_range e v \<longleftrightarrow>
     (let mn = mh_usMinVal e; mx = mh_usMaxVal e
      in case mh_ucDataType e of
           MB_uint16 \<Rightarrow> mn \<le> v \<and> v \<le> mx
         | MB_uint8 \<Rightarrow> (ucast mn :: u8) \<le> ucast v \<and> (ucast v :: u8) \<le> ucast mx
         | MB_int16 \<Rightarrow> sint mn \<le> sint v \<and> sint v \<le> sint mx
         | MB_int8 \<Rightarrow> sint (ucast mn :: u8) \<le> sint (ucast v :: u8) \<and> sint (ucast v :: u8) \<le> sint (ucast mx :: u8)
         | MB_other \<Rightarrow> False)"

definition differs_from_pre :: "'v sMasterRegHoldData \<Rightarrow> u16 \<Rightarrow> bool" where
  "differs_from_pre e c =
     (case mh_ucDataType e of
        MB_uint16 \<Rightarrow> c \<noteq> mh_usPreVal e | MB_uint8 \<Rightarrow> (ucast c :: u8) \<noteq> ucast (mh_usPreVal e)
      | MB_int16 \<Rightarrow> c \<noteq> mh_usPreVal e | MB_int8 \<Rightarrow> (ucast c :: u8) \<noteq> ucast (mh_usPreVal e) | MB_other \<Rightarrow> False)"

text \<open>
  One register of a reply. A register that can be read and written and whose variable has changed
  since the last exchange keeps the variable, only the previous value is renewed. For \<open>uint8\<close> the two
  assignments of \<open>usPreVal\<close> differ: one is cast to a byte.
\<close>

definition hold_take :: "eMasterRunMode \<Rightarrow> 'v sMasterRegHoldData \<Rightarrow> u16 \<Rightarrow> ('v \<Rightarrow> u16) \<Rightarrow>
    'v sMasterRegHoldData \<times> ('v \<Rightarrow> u16)" where
  "hold_take run e raw m =
     (case mh_pvValue e of
        None \<Rightarrow> (e, m)
      | Some x \<Rightarrow>
          if mh_ucAccessMode e = WO then (e, m)
          else let v = scaled_down (mh_ucTmitMult e) raw
               in if \<not> hold_in_range e v then (e, m)
                  else let pending = (mh_ucAccessMode e = RW \<and> differs_from_pre e (m x) \<and> run = STATE_SCAN_DEV);
                           pre = (case mh_ucDataType e of
                                    MB_uint8 \<Rightarrow> (if pending then ucast (ucast v :: u8) else v)
                                  | MB_int8 \<Rightarrow> scast (ucast v :: u8) | _ \<Rightarrow> v)
                       in (e\<lparr>mh_usPreVal := pre\<rparr>,
                           if pending then m else m(x := reg_store (mh_ucDataType e) (m x) v)))"

text \<open>A register of a request the device has confirmed: the variable becomes the previous value.\<close>

definition hold_confirm :: "'v sMasterRegHoldData \<Rightarrow> ('v \<Rightarrow> u16) \<Rightarrow> 'v sMasterRegHoldData" where
  "hold_confirm e m =
     (case mh_pvValue e of
        None \<Rightarrow> e
      | Some x \<Rightarrow>
          if mh_ucAccessMode e = RO then e
          else let v = reg_load (mh_ucDataType e) 0 (m x)
               in if hold_in_range e v then e\<lparr>mh_usPreVal := v\<rparr> else e)"

fun hold_read_loop :: "u8 \<Rightarrow> nat \<Rightarrow> nat \<Rightarrow> u16 \<Rightarrow> 'v master \<Rightarrow> 'v master option" where
  "hold_read_loop addr 0 pos reg s = Some s"
| "hold_read_loop addr (Suc n) pos reg s =
     do { (e, s1) \<leftarrow> eMBMasterRegHoldingMap addr reg s;
          v \<leftarrow> get16 (ucRTURcvBuf s1) pos;
          (case e of
             None \<Rightarrow> hold_read_loop addr n (pos + 2) (reg + 1) s1
           | Some k \<Rightarrow>
               do { i \<leftarrow> psMBSlaveDevCur s1; d \<leftarrow> hold_entry s1 i k;
                    (let (d', m) = hold_take (m_eMBRunMode s1) d v (master_mem s1)
                     in hold_read_loop addr n (pos + 2) (reg + 1)
                          ((upd_hold_entry i k (\<lambda>_. d') s1)\<lparr>master_mem := m\<rparr>)) }) }"

fun hold_write_loop :: "u8 \<Rightarrow> nat \<Rightarrow> u16 \<Rightarrow> 'v master \<Rightarrow> 'v master option" where
  "hold_write_loop addr 0 reg s = Some s"
| "hold_write_loop addr (Suc n) reg s =
     do { (e, s1) \<leftarrow> eMBMasterRegHoldingMap addr reg s;
          (case e of
             None \<Rightarrow> hold_write_loop addr n (reg + 1) s1
           | Some k \<Rightarrow>
               do { i \<leftarrow> psMBSlaveDevCur s1; d \<leftarrow> hold_entry s1 i k;
                    hold_write_loop addr n (reg + 1)
                      (upd_hold_entry i k (\<lambda>d. hold_confirm d (master_mem s1)) s1) }) }"

definition table_empty :: "'d sMBDevDataTable \<Rightarrow> bool" where
  "table_empty tab \<longleftrightarrow> pvDataBuf tab = None \<or> usDataCount tab = 0"

definition outside_table :: "'d sMBDevDataTable \<Rightarrow> u16 \<Rightarrow> u16 \<Rightarrow> bool" where
  "outside_table tab addr n \<longleftrightarrow> addr < usStartAddr tab \<or> uint addr + uint n - 1 > uint (usEndAddr tab)"

text \<open>\<open>pos\<close> is the offset of \<open>pucRegBuffer\<close> in the receive buffer; only reading uses it.\<close>

definition eMBMasterRegHoldingCB ::
  "nat \<Rightarrow> u16 \<Rightarrow> u16 \<Rightarrow> access \<Rightarrow> 'v master \<Rightarrow> (eMBErrorCode \<times> 'v master) option" where
  "eMBMasterRegHoldingCB pos usAddress n mode s =
     (if m_eMBRunMode s \<noteq> STATE_SCAN_DEV then Some (MB_ENOERR, s)
      else if psMBSlaveDevCur s = None then Some (MB_ENOERR, s)
      else do {
        (i, s1) \<leftarrow> switch_dev (ucMBDestAddr s) s;
        cd \<leftarrow> cur_data s1 i;
        (if table_empty (md_RegHoldTable cd) then Some (MB_ENOREG, s1)
         else if outside_table (md_RegHoldTable cd) (usAddress - 1) n then Some (MB_ENOREG, s1)
         else (case mode of
                 Read \<Rightarrow> do { s2 \<leftarrow> hold_read_loop (ucMBDestAddr s) (unat n) pos (usAddress - 1) s1;
                             Some (MB_ENOERR, s2) }
               | Write \<Rightarrow> do { s2 \<leftarrow> hold_write_loop (ucMBDestAddr s) (unat n) (usAddress - 1) s1;
                              Some (MB_ENOERR, s2) })) })"

section \<open>Input registers\<close>

text \<open>For \<open>int16\<close> the code compares the unsigned value with the signed bounds.\<close>

definition in_take :: "'v sMasterRegInData \<Rightarrow> u16 \<Rightarrow> ('v \<Rightarrow> u16) \<Rightarrow> 'v \<Rightarrow> u16" where
  "in_take e raw m =
     (case mi_pvValue e of
        None \<Rightarrow> m
      | Some x \<Rightarrow>
          if mi_ucAccessMode e = WO then m
          else let v = scaled_down (mi_ucTmitMult e) raw; mn = mi_usMinVal e; mx = mi_usMaxVal e;
                   ok = (case mi_ucDataType e of
                           MB_uint16 \<Rightarrow> mn \<le> v \<and> v \<le> mx
                         | MB_uint8 \<Rightarrow> mn \<le> v \<and> v \<le> mx
                         | MB_int16 \<Rightarrow> uint v \<ge> sint mn \<and> uint v \<le> sint mx
                         | MB_int8 \<Rightarrow> sint (ucast mn :: u8) \<le> sint (ucast v :: u8) \<and>
                                      sint (ucast v :: u8) \<le> sint (ucast mx :: u8)
                         | MB_other \<Rightarrow> False)
               in if ok then m(x := reg_store (mi_ucDataType e) (m x) v) else m)"

fun in_read_loop :: "u8 \<Rightarrow> nat \<Rightarrow> nat \<Rightarrow> u16 \<Rightarrow> 'v master \<Rightarrow> 'v master option" where
  "in_read_loop addr 0 pos reg s = Some s"
| "in_read_loop addr (Suc n) pos reg s =
     do { (e, s1) \<leftarrow> eMBMasterRegInMap addr reg s;
          v \<leftarrow> get16 (ucRTURcvBuf s1) pos;
          (case e of
             None \<Rightarrow> in_read_loop addr n (pos + 2) (reg + 1) s1
           | Some k \<Rightarrow>
               do { i \<leftarrow> psMBSlaveDevCur s1; d \<leftarrow> in_entry s1 i k;
                    in_read_loop addr n (pos + 2) (reg + 1) (s1\<lparr>master_mem := in_take d v (master_mem s1)\<rparr>) }) }"

text \<open>The range is that of the device selected before; registers outside it are an error, but still taken.\<close>

definition eMBMasterRegInputCB :: "nat \<Rightarrow> u16 \<Rightarrow> u16 \<Rightarrow> 'v master \<Rightarrow> (eMBErrorCode \<times> 'v master) option" where
  "eMBMasterRegInputCB pos usAddress n s =
     (if m_eMBRunMode s \<noteq> STATE_SCAN_DEV \<and> m_eMBRunMode s \<noteq> STATE_SCAN_DTU then Some (MB_ENOERR, s)
      else case psMBSlaveDevCur s of
        None \<Rightarrow> Some (MB_ENOERR, s)
      | Some i \<Rightarrow>
          do { cd \<leftarrow> cur_data s i;
               (if table_empty (md_RegInTable cd) then Some (MB_ENOREG, s)
                else do { s1 \<leftarrow> in_read_loop (ucMBDestAddr s) (unat n) pos (usAddress - 1) s;
                          Some (if outside_table (md_RegInTable cd) (usAddress - 1) n then MB_ENOREG
                                else MB_ENOERR, s1) }) })"

section \<open>Coils\<close>

definition coil_take :: "eMasterRunMode \<Rightarrow> 'v sMasterBitCoilData \<Rightarrow> bool \<Rightarrow> ('v \<Rightarrow> u16) \<Rightarrow>
    'v sMasterBitCoilData \<times> ('v \<Rightarrow> u16)" where
  "coil_take run e b m =
     (case mc_pvValue e of
        None \<Rightarrow> (e, m)
      | Some x \<Rightarrow>
          if mc_ucAccessMode e = WO then (e, m)
          else (e\<lparr>mc_ucPreVal := of_bool b\<rparr>,
                if mc_ucAccessMode e = RW \<and> (ucast (m x) :: u8) \<noteq> mc_ucPreVal e \<and> run = STATE_SCAN_DEV
                then m else m(x := of_bool b)))"

definition coil_confirm :: "'v sMasterBitCoilData \<Rightarrow> ('v \<Rightarrow> u16) \<Rightarrow> 'v sMasterBitCoilData" where
  "coil_confirm e m =
     (case mc_pvValue e of
        None \<Rightarrow> e
      | Some x \<Rightarrow> if mc_ucAccessMode e = RO then e else e\<lparr>mc_ucPreVal := ucast (m x)\<rparr>)"

fun master_set_byte :: "u8 \<Rightarrow> u8 \<Rightarrow> nat list \<Rightarrow> u16 \<Rightarrow> 'v master \<Rightarrow> (u16 \<times> 'v master) option" where
  "master_set_byte addr b [] reg s = Some (reg, s)"
| "master_set_byte addr b (i # is) reg s =
     do { (e, s1) \<leftarrow> eMBMasterCoilMap addr reg s;
          (case e of
             None \<Rightarrow> master_set_byte addr b is (reg + 1) s1
           | Some k \<Rightarrow>
               do { j \<leftarrow> psMBSlaveDevCur s1; d \<leftarrow> coil_entry s1 j k;
                    (let (d', m) = coil_take (m_eMBRunMode s1) d (bit b i) (master_mem s1)
                     in master_set_byte addr b is (reg + 1)
                          ((upd_coil_entry j k (\<lambda>_. d') s1)\<lparr>master_mem := m\<rparr>)) }) }"

text \<open>
  Reading takes whole bytes, always one more than the quotient. Confirming visits one coil per byte
  and keeps the pointer of the coil before when there is none at an address.
\<close>

fun coils_read_loop :: "u8 \<Rightarrow> u16 \<Rightarrow> nat \<Rightarrow> nat \<Rightarrow> u16 \<Rightarrow> 'v master \<Rightarrow> 'v master option" where
  "coils_read_loop addr n 0 pos reg s = Some s"
| "coils_read_loop addr n (Suc left) pos reg s =
     do { b \<leftarrow> get (ucRTURcvBuf s) pos;
          (reg', s1) \<leftarrow> master_set_byte addr b [0..<bits_in_byte n (Suc left)] reg s;
          coils_read_loop addr n left (pos + 1) reg' s1 }"

fun coils_write_loop :: "u8 \<Rightarrow> nat \<Rightarrow> u16 \<Rightarrow> (nat \<times> nat) option \<Rightarrow> 'v master \<Rightarrow> 'v master option" where
  "coils_write_loop addr 0 reg prev s = Some s"
| "coils_write_loop addr (Suc left) reg prev s =
     do { (e, s1) \<leftarrow> eMBMasterCoilMap addr reg s;
          j \<leftarrow> psMBSlaveDevCur s1;
          (let cur = (case e of Some k \<Rightarrow> Some (j, k) | None \<Rightarrow> prev)
           in coils_write_loop addr left (reg + 1) cur
                (case cur of None \<Rightarrow> s1
                 | Some (i, k) \<Rightarrow> upd_coil_entry i k (\<lambda>d. coil_confirm d (master_mem s1)) s1)) }"

definition eMBMasterUtilSetBits ::
  "nat \<Rightarrow> u16 \<Rightarrow> u16 \<Rightarrow> access \<Rightarrow> 'v master \<Rightarrow> 'v master option" where
  "eMBMasterUtilSetBits pos reg n mode s =
     (case mode of
        Read \<Rightarrow> coils_read_loop (ucMBDestAddr s) n (bits_bytes n) pos reg s
      | Write \<Rightarrow> coils_write_loop (ucMBDestAddr s) (bits_bytes n) reg None s)"

definition eMBMasterRegCoilsCB ::
  "nat \<Rightarrow> u16 \<Rightarrow> u16 \<Rightarrow> access \<Rightarrow> 'v master \<Rightarrow> (eMBErrorCode \<times> 'v master) option" where
  "eMBMasterRegCoilsCB pos usAddress n mode s =
     (if psMBSlaveDevCur s = None then Some (MB_ENOERR, s)
      else do {
        (i, s1) \<leftarrow> switch_dev (ucMBDestAddr s) s;
        cd \<leftarrow> cur_data s1 i;
        (if table_empty (md_CoilTable cd) then Some (MB_ENOREG, s1)
         else if outside_table (md_CoilTable cd) (usAddress - 1) n then Some (MB_ENOREG, s1)
         else do { s2 \<leftarrow> eMBMasterUtilSetBits pos (usAddress - 1) n mode s1; Some (MB_ENOERR, s2) }) })"

end
