(* ===== verification/DevDicts.thy ===== *)
theory DevDicts
  imports MbDevs BmsDict
begin

text \<open>
  The dictionaries of the devices behind the Modbus master: rooftop units
  (\<open>Device/modularRoof.c\<close>), CO2 and temperature and humidity sensors (\<open>Device/sensor.c\<close>), energy
  meters (\<open>Device/meter.c\<close>). Index switch and tables are modelled separately, as in \<open>BmsDict\<close>; the
  variables are those the supervisor sees, so both sides of the controller share one memory.

  Locale \<open>hold_dict\<close> is what the master needs of the pair: the switch stays inside the buffer, two
  addresses never share a variable. \<open>exact_dict\<close> adds that switch and table mean the same address.
\<close>

section \<open>Rooftop units\<close>

definition roof_hold_cases :: "(u16 \<times> u16) list" where
  "roof_hold_cases = [
   (0, 0), (2, 1), (3, 2), (5, 3), (6, 4), (8, 5), (9, 6), (10, 7), (11, 8), (12, 9),
   (16, 10), (17, 11), (18, 12), (37, 13), (38, 14), (39, 15), (40, 16), (44, 17), (45, 18), (46, 19),
   (47, 20), (48, 21), (49, 22), (51, 23), (52, 24), (53, 25), (54, 26), (55, 27)]"

definition roof_coil_cases :: "(u16 \<times> u16) list" where
  "roof_coil_cases = [
   (0, 0), (1, 1), (2, 2), (3, 3), (10, 4), (16, 5), (17, 6), (18, 7), (48, 8), (54, 9),
   (55, 10), (64, 11), (65, 12), (66, 13), (67, 14), (80, 15), (81, 16), (82, 17), (83, 18), (96, 19),
   (97, 20), (98, 21), (99, 22), (112, 23), (113, 24), (114, 25), (115, 26), (144, 27), (145, 28), (264, 29),
   (265, 30), (384, 31), (385, 32), (404, 33), (405, 34), (621, 35), (622, 36), (630, 37), (631, 38)]"

text \<open>Other protocols and other types of data fall through with index 0.\<close>

definition xModularRoof_DevDataMapIndex :: "eDataType \<Rightarrow> u8 \<Rightarrow> u16 \<Rightarrow> u16 option" where
  "xModularRoof_DevDataMapIndex ty ucProtocolID usAddr =
     (if ucProtocolID \<noteq> 0 then Some 0
      else case ty of RegHoldData \<Rightarrow> map_of roof_hold_cases usAddr
        | CoilData \<Rightarrow> map_of roof_coil_cases usAddr
        | _ \<Rightarrow> Some 0)"

abbreviation hold_reg ::
  "u16 \<Rightarrow> data_type \<Rightarrow> u16 \<Rightarrow> u16 \<Rightarrow> u16 \<Rightarrow> access_mode \<Rightarrow> u8 \<Rightarrow> bms_name \<Rightarrow> bms_name sMasterRegHoldData" where
  "hold_reg \<equiv> vMBMasterDevRegHoldDataInit"

abbreviation coil_bit :: "u16 \<Rightarrow> u8 \<Rightarrow> access_mode \<Rightarrow> bms_name \<Rightarrow> bms_name sMasterBitCoilData" where
  "coil_bit \<equiv> vMBMasterDevCoilDataInit"

definition roof_hold_table :: "nat \<Rightarrow> bms_name sMasterRegHoldData list" where
  "roof_hold_table n = [
   hold_reg 0 MB_uint16 0 65535 0x302A RO 1 (Unit n ''usUnitID''),
   hold_reg 2 MB_uint8 85 170 0x55 RW 1 (Unit n ''eSwitchState''),
   hold_reg 3 MB_uint8 1 4 1 RW 1 (Unit n ''eRunningMode''),
   hold_reg 5 MB_uint16 160 350 260 RW 1 (Unit n ''usCoolTempSet''),
   hold_reg 6 MB_uint16 160 350 200 RW 1 (Unit n ''usHeatTempSet''),
   hold_reg 8 MB_uint16 0 65000 30000 WO 1 (Unit n ''usFreAirSet_Vol''),
   hold_reg 9 MB_uint16 0 100 55 WO 1 (Unit n ''usHumidityMin''),
   hold_reg 10 MB_uint16 0 100 65 WO 1 (Unit n ''usHumidityMax''),
   hold_reg 11 MB_uint16 0 5000 2700 WO 1 (Unit n ''usCO2AdjustThr_V''),
   hold_reg 12 MB_uint16 5 500 50 WO 1 (Unit n ''usCO2AdjustDeviat''),
   hold_reg 16 MB_int16 0 600 0 WO 1 (Unit n ''sAmbientIn_T''),
   hold_reg 17 MB_uint16 0 100 0 WO 1 (Unit n ''usAmbientIn_H''),
   hold_reg 18 MB_uint16 0 5000 0 WO 1 (Unit n ''usCO2PPM''),
   hold_reg 37 MB_uint8 0 5 0 RO 1 (Modul n 0 ''ucModularState''),
   hold_reg 38 MB_uint8 0 5 0 RO 1 (Modul n 1 ''ucModularState''),
   hold_reg 39 MB_uint8 0 5 0 RO 1 (Modul n 2 ''ucModularState''),
   hold_reg 40 MB_uint8 0 5 0 RO 1 (Modul n 3 ''ucModularState''),
   hold_reg 44 MB_int16 (-200) 1400 0 RO 1 (Unit n ''sRetAir_T''),
   hold_reg 45 MB_int16 (-200) 1400 0 RO 1 (Unit n ''sSupAir_T''),
   hold_reg 46 MB_int16 (-400) 700 0 RO 1 (Unit n ''sAmbientInSelf_T''),
   hold_reg 47 MB_uint16 0 100 0 RO 1 (Unit n ''usAmbientInSelf_H''),
   hold_reg 48 MB_int16 (-400) 700 0 RO 1 (Unit n ''sAmbientOutSelf_T''),
   hold_reg 49 MB_uint16 0 100 0 RO 1 (Unit n ''usAmbientOutSelf_H''),
   hold_reg 51 MB_uint16 0 1000 1000 RO 10 (Unit n ''usFreAirDamper_Ang''),
   hold_reg 52 MB_uint16 0 5000 0 RO 1 (Unit n ''usCO2PPMSelf''),
   hold_reg 53 MB_uint16 0 65000 0 RO 1 (Unit n ''usFreAir_Vol''),
   hold_reg 54 MB_uint16 0 65000 0 RO 1 (Unit n ''usSupAir_Vol''),
   hold_reg 55 MB_uint16 0 65000 0 RO 1 (Unit n ''usRetAir_Vol'')]"

definition roof_coil_table :: "nat \<Rightarrow> bms_name sMasterBitCoilData list" where
  "roof_coil_table n = [
   coil_bit 0 0 RO (Unit n ''Device.eRunningState''),
   coil_bit 1 0 RO (Unit n ''xStopErrFlag''),
   coil_bit 2 0 RO (Unit n ''Device.xErrFlag''),
   coil_bit 3 0 RO (Unit n ''Device.xAlarmFlag''),
   coil_bit 10 0 WO (Unit n ''xErrClean''),
   coil_bit 16 0 WO (Unit n ''xTempSenInErr''),
   coil_bit 17 0 WO (Unit n ''xHumiSenInErr''),
   coil_bit 18 0 WO (Unit n ''xCO2SenErr''),
   coil_bit 48 0 RO (SupFan n ''Device.eRunningState''),
   coil_bit 54 0 RO (Unit n ''xSupAirDamperState''),
   coil_bit 55 0 RO (Unit n ''xWetMode''),
   coil_bit 64 0 RO (Comp n 0 0 ''Device.eRunningState''),
   coil_bit 65 0 RO (Comp n 0 1 ''Device.eRunningState''),
   coil_bit 66 0 RO (OutFan n 0 0 ''Device.eRunningState''),
   coil_bit 67 0 RO (OutFan n 0 1 ''Device.eRunningState''),
   coil_bit 80 0 RO (Comp n 1 0 ''Device.eRunningState''),
   coil_bit 81 0 RO (Comp n 1 1 ''Device.eRunningState''),
   coil_bit 82 0 RO (OutFan n 1 0 ''Device.eRunningState''),
   coil_bit 83 0 RO (OutFan n 1 1 ''Device.eRunningState''),
   coil_bit 96 0 RO (Comp n 2 0 ''Device.eRunningState''),
   coil_bit 97 0 RO (Comp n 2 1 ''Device.eRunningState''),
   coil_bit 98 0 RO (OutFan n 2 0 ''Device.eRunningState''),
   coil_bit 99 0 RO (OutFan n 2 1 ''Device.eRunningState''),
   coil_bit 112 0 RO (Comp n 3 0 ''Device.eRunningState''),
   coil_bit 113 0 RO (Comp n 3 1 ''Device.eRunningState''),
   coil_bit 114 0 RO (OutFan n 3 0 ''Device.eRunningState''),
   coil_bit 115 0 RO (OutFan n 3 1 ''Device.eRunningState''),
   coil_bit 144 0 RO (Modul n 0 ''xTempSenOutErr''),
   coil_bit 145 0 RO (Modul n 0 ''xHumiSenOutErr''),
   coil_bit 264 0 RO (Modul n 1 ''xTempSenOutErr''),
   coil_bit 265 0 RO (Modul n 1 ''xHumiSenOutErr''),
   coil_bit 384 0 RO (Modul n 2 ''xTempSenOutErr''),
   coil_bit 385 0 RO (Modul n 2 ''xHumiSenOutErr''),
   coil_bit 404 0 RO (Modul n 3 ''xTempSenOutErr''),
   coil_bit 405 0 RO (Modul n 3 ''xHumiSenOutErr''),
   coil_bit 621 0 RO (Unit n ''xFreAirSenErr''),
   coil_bit 622 0 RO (Unit n ''xRetAirSenErr''),
   coil_bit 630 0 RO (Unit n ''xCO2SenSelfErr_1''),
   coil_bit 631 0 RO (Unit n ''xCO2SenSelfErr_2'')]"

text \<open>Entries of the buffers that are not filled stay zero.\<close>

definition zero_hold :: "bms_name sMasterRegHoldData" where
  "zero_hold = \<lparr>mh_usAddr = 0, mh_usPreVal = 0, mh_usMinVal = 0, mh_usMaxVal = 0, mh_ucDataType = MB_other,
     mh_ucAccessMode = RW, mh_ucTmitMult = 0, mh_pvValue = None\<rparr>"

definition zero_in :: "bms_name sMasterRegInData" where
  "zero_in = \<lparr>mi_usAddr = 0, mi_usMinVal = 0, mi_usMaxVal = 0, mi_ucDataType = MB_other, mi_ucAccessMode = RW,
     mi_ucTmitMult = 0, mi_pvValue = None\<rparr>"

definition zero_mcoil :: "bms_name sMasterBitCoilData" where
  "zero_mcoil = \<lparr>mc_usAddr = 0, mc_ucPreVal = 0, mc_ucAccessMode = RW, mc_pvValue = None\<rparr>"

definition no_table :: "'d sMBDevDataTable" where
  "no_table = \<lparr>pvDataBuf = None, usStartAddr = 0, usEndAddr = 0, usDataCount = 0\<rparr>"

definition vModularRoof_InitDevCommData :: "nat \<Rightarrow> bms_name sMBSlaveDevCommData" where
  "vModularRoof_InitDevCommData n =
     \<lparr>md_RegInTable = no_table,
      md_RegHoldTable = vMBMasterDevDataTableInit (roof_hold_table n @ replicate 2 zero_hold) 0 55
        (of_nat (length (roof_hold_table n))),
      md_CoilTable = vMBMasterDevDataTableInit (roof_coil_table n @ replicate 1 zero_mcoil) 0 631
        (of_nat (length (roof_coil_table n))),
      md_DevCmdTable = vMBMasterDevTestCmdInit 0 READ_REG_HOLD 0x302A True,
      md_pxDevDataMapIndex = Some xModularRoof_DevDataMapIndex,
      md_usProtocolID = 0\<rparr>"

section \<open>CO2 sensors\<close>

definition xCO2Sensor_DevDataMapIndex :: "eDataType \<Rightarrow> u8 \<Rightarrow> u16 \<Rightarrow> u16 option" where
  "xCO2Sensor_DevDataMapIndex ty ucProtocolID usAddr =
     (if ucProtocolID \<noteq> 0 then Some 0
      else case ty of RegInputData \<Rightarrow> map_of [(0, 0)] usAddr | _ \<Rightarrow> Some 0)"

definition vCO2Sensor_InitDevCommData :: "nat \<Rightarrow> u16 \<Rightarrow> bms_name sMBSlaveDevCommData" where
  "vCO2Sensor_InitDevCommData n usDataOffset =
     \<lparr>md_RegInTable = vMBMasterDevDataTableInit
        ([vMBMasterDevRegInDataInit 0 MB_uint16 0 65535 RO 1 (CO2Sen n ''usCO2PPM'')] @ replicate 2 zero_in) 0 1 1,
      md_RegHoldTable = no_table,
      md_CoilTable = no_table,
      md_DevCmdTable = vMBMasterDevTestCmdInit 528 READ_REG_HOLD usDataOffset True,
      md_pxDevDataMapIndex = Some xCO2Sensor_DevDataMapIndex,
      md_usProtocolID = 0\<rparr>"

section \<open>Temperature and humidity sensors\<close>

text \<open>\<open>sen\<close> is the object: \<open>SenIn n\<close> or \<open>SenOut n\<close>. The switch knows one address more than the table.\<close>

definition temp_hold_cases :: "(u16 \<times> u16) list" where
  "temp_hold_cases = [(0, 0), (1, 1), (2, 2)]"

definition xTempHumiSensor_DevDataMapIndex :: "eDataType \<Rightarrow> u8 \<Rightarrow> u16 \<Rightarrow> u16 option" where
  "xTempHumiSensor_DevDataMapIndex ty ucProtocolID usAddr =
     (if ucProtocolID \<noteq> 0 then Some 0
      else case ty of RegHoldData \<Rightarrow> map_of temp_hold_cases usAddr | _ \<Rightarrow> Some 0)"

definition temp_hold_table :: "(string \<Rightarrow> bms_name) \<Rightarrow> bms_name sMasterRegHoldData list" where
  "temp_hold_table sen = [
   hold_reg 0 MB_int16 (-32768) 32767 0 RO 1 (sen ''sTemp''),
   hold_reg 1 MB_uint16 0 65535 0 RO 10 (sen ''usHumi'')]"

definition vTempHumiSensor_InitDevCommData :: "(string \<Rightarrow> bms_name) \<Rightarrow> u8 \<Rightarrow> bms_name sMBSlaveDevCommData" where
  "vTempHumiSensor_InitDevCommData sen ucDevAddr =
     \<lparr>md_RegInTable = no_table,
      md_RegHoldTable = vMBMasterDevDataTableInit (temp_hold_table sen @ replicate 1 zero_hold) 0 1
        (of_nat (length (temp_hold_table sen))),
      md_CoilTable = no_table,
      md_DevCmdTable = vMBMasterDevTestCmdInit 0x30 READ_REG_HOLD (ucast ucDevAddr) True,
      md_pxDevDataMapIndex = Some xTempHumiSensor_DevDataMapIndex,
      md_usProtocolID = 0\<rparr>"

section \<open>Energy meters\<close>

text \<open>
  \<open>mtr\<close> is the object. The factor of the only register is the address of the device, its variable too;
  the switch and the table disagree about its address.
\<close>

definition meter_hold_cases :: "(u16 \<times> u16) list" where
  "meter_hold_cases = [(1, 0), (0x30, 1)]"

definition xMeter_DevDataMapIndex :: "eDataType \<Rightarrow> u8 \<Rightarrow> u16 \<Rightarrow> u16 option" where
  "xMeter_DevDataMapIndex ty ucProtocolID usAddr =
     (if ucProtocolID \<noteq> 0 then Some 0
      else case ty of RegHoldData \<Rightarrow> map_of meter_hold_cases usAddr | _ \<Rightarrow> Some 0)"

definition meter_hold_table :: "(string \<Rightarrow> bms_name) \<Rightarrow> u8 \<Rightarrow> bms_name sMasterRegHoldData list" where
  "meter_hold_table mtr ucDevAddr = [
   hold_reg 0x30 MB_uint8 1 255 0 RW ucDevAddr (mtr ''sMBSlaveDev.ucDevAddr'')]"

definition vMeter_InitDevCommData :: "(string \<Rightarrow> bms_name) \<Rightarrow> u8 \<Rightarrow> bms_name sMBSlaveDevCommData" where
  "vMeter_InitDevCommData mtr ucDevAddr =
     \<lparr>md_RegInTable = no_table,
      md_RegHoldTable = vMBMasterDevDataTableInit (meter_hold_table mtr ucDevAddr @ replicate 2 zero_hold) 1 0x30
        (of_nat (length (meter_hold_table mtr ucDevAddr))),
      md_CoilTable = no_table,
      md_DevCmdTable = vMBMasterDevTestCmdInit 0x30 READ_REG_HOLD (ucast ucDevAddr) False,
      md_pxDevDataMapIndex = Some xMeter_DevDataMapIndex,
      md_usProtocolID = 0\<rparr>"

section \<open>The contract of a dictionary\<close>

text \<open>
  \<open>tab\<close> is the buffer of the holding registers with its unfilled entries. Only \<open>usPreVal\<close> ever changes
  in it, so what the laws speak of stays as it is.
\<close>

locale hold_dict =
  fixes index :: "eDataType \<Rightarrow> u8 \<Rightarrow> u16 \<Rightarrow> u16 option"
    and pid :: u8
    and tab :: "'v sMasterRegHoldData list"
  assumes inside: "index RegHoldData pid a = Some k \<Longrightarrow> unat k < length tab"
    and index_inj: "index RegHoldData pid a = Some k \<Longrightarrow> index RegHoldData pid b = Some k \<Longrightarrow> a = b"
    and own_variables: "i < length tab \<Longrightarrow> j < length tab \<Longrightarrow> mh_pvValue (tab ! i) = Some x \<Longrightarrow>
      mh_pvValue (tab ! j) = Some x \<Longrightarrow> i = j"

locale exact_dict = hold_dict +
  assumes same_address: "index RegHoldData pid a = Some k \<Longrightarrow> mh_usAddr (tab ! unat k) = a"
    and complete: "unat k < length tab \<Longrightarrow> mh_pvValue (tab ! unat k) \<noteq> None \<Longrightarrow>
      index RegHoldData pid (mh_usAddr (tab ! unat k)) = Some k"

text \<open>Laws of a table of distinct variables followed by entries without one.\<close>

lemma padded_variables:
  assumes "distinct (map mh_pvValue tab)"
    and "i < length (tab @ replicate m zero_hold)" "j < length (tab @ replicate m zero_hold)"
    and "mh_pvValue ((tab @ replicate m zero_hold) ! i) = Some x"
    and "mh_pvValue ((tab @ replicate m zero_hold) ! j) = Some x"
  shows "i = j"
proof -
  have *: "k < length tab" if "k < length (tab @ replicate m zero_hold)"
      "mh_pvValue ((tab @ replicate m zero_hold) ! k) = Some x" for k
    using that by (auto simp: nth_append zero_hold_def split: if_splits)
  then have ij: "i < length tab" "j < length tab" using assms by blast+
  then have "map mh_pvValue tab ! i = map mh_pvValue tab ! j" using assms by (simp add: nth_append)
  then show ?thesis
    using ij nth_eq_iff_index_eq[OF assms(1), of i j] by simp
qed

text \<open>A switch whose cases list the addresses of the table in order.\<close>

lemma switch_entry:
  assumes "map fst cs = map mh_usAddr tab" "map (unat \<circ> snd) cs = [0..<length tab]" "map_of cs a = Some (k :: u16)"
  shows "unat k < length tab" "mh_usAddr (tab ! unat k) = a"
  using index_agrees[OF assms(1,2), of a] assms(3) by (auto dest: map_of_SomeD)

lemma switch_complete:
  assumes "map fst cs = map mh_usAddr tab" "map (unat \<circ> snd) cs = [0..<length tab]"
    and "distinct (map mh_usAddr tab)" "unat (k :: u16) < length tab"
  shows "map_of cs (mh_usAddr (tab ! unat k)) = Some k"
proof -
  have "length cs = length tab" using assms(1) by (metis length_map)
  then have k: "unat k < length cs" using assms(4) by simp
  have "fst (cs ! unat k) = mh_usAddr (tab ! unat k)"
    using nth_map[OF k, of fst] assms(1,4) by simp
  moreover have "unat (snd (cs ! unat k)) = unat k"
    using nth_map[OF k, of "unat \<circ> snd"] assms(2,4) by simp
  moreover have "cs ! unat k \<in> set cs" using k by simp
  ultimately have "(mh_usAddr (tab ! unat k), k) \<in> set cs" by (metis prod.collapse word_unat_eq_iff)
  moreover have "distinct (map fst cs)" using assms(1,3) by simp
  ultimately show ?thesis by simp
qed

section \<open>The devices keep the contract\<close>

lemma length_roof_hold: "length (roof_hold_table n) = 28"
  by (simp add: roof_hold_table_def)

lemma roof_hold_keys: "map fst roof_hold_cases = map mh_usAddr (roof_hold_table n)"
  by (simp add: roof_hold_cases_def roof_hold_table_def vMBMasterDevRegHoldDataInit_def)

lemma roof_hold_indices: "map (unat \<circ> snd) roof_hold_cases = [0..<length (roof_hold_table n)]"
  unfolding length_roof_hold by (simp add: roof_hold_cases_def upt_rec[of _ "numeral _"])

lemma roof_hold_variables: "distinct (map mh_pvValue (roof_hold_table n))"
  by (simp add: roof_hold_table_def vMBMasterDevRegHoldDataInit_def)

lemma roof_hold_addresses: "distinct (map mh_usAddr (roof_hold_table n))"
  unfolding roof_hold_keys[symmetric] by (simp add: roof_hold_cases_def)

interpretation roof_dict: exact_dict xModularRoof_DevDataMapIndex 0 "roof_hold_table n @ replicate 2 zero_hold"
  for n
proof
  fix a b k i j x
  note entry = switch_entry[OF roof_hold_keys[of n] roof_hold_indices[of n]]
  show "unat k < length (roof_hold_table n @ replicate 2 zero_hold)"
    if "xModularRoof_DevDataMapIndex RegHoldData 0 a = Some k"
    using that entry(1)[of a k] by (simp add: xModularRoof_DevDataMapIndex_def)
  show "a = b" if "xModularRoof_DevDataMapIndex RegHoldData 0 a = Some k"
      "xModularRoof_DevDataMapIndex RegHoldData 0 b = Some k"
    using that entry(2)[of a k] entry(2)[of b k] by (simp add: xModularRoof_DevDataMapIndex_def)
  show "mh_usAddr ((roof_hold_table n @ replicate 2 zero_hold) ! unat k) = a"
    if "xModularRoof_DevDataMapIndex RegHoldData 0 a = Some k"
    using that entry[of a k] by (simp add: xModularRoof_DevDataMapIndex_def nth_append)
  show "xModularRoof_DevDataMapIndex RegHoldData 0 (mh_usAddr ((roof_hold_table n @ replicate 2 zero_hold) ! unat k)) = Some k"
    if "unat k < length (roof_hold_table n @ replicate 2 zero_hold)"
      "mh_pvValue ((roof_hold_table n @ replicate 2 zero_hold) ! unat k) \<noteq> None"
    using that switch_complete[OF roof_hold_keys[of n] roof_hold_indices[of n] roof_hold_addresses[of n], of k]
    by (auto simp: xModularRoof_DevDataMapIndex_def nth_append zero_hold_def nth_replicate split: if_splits)
qed (rule padded_variables[OF roof_hold_variables])

lemma temp_hold_keys_indices:
  "map_of temp_hold_cases a = Some k \<Longrightarrow> a = k \<and> unat k < 3"
  by (auto simp: temp_hold_cases_def split: if_splits)

interpretation temp_dict_in: hold_dict xTempHumiSensor_DevDataMapIndex 0
  "temp_hold_table (SenIn n) @ replicate 1 zero_hold" for n
proof
  fix i j x assume "i < length (temp_hold_table (SenIn n) @ replicate 1 zero_hold)"
    "j < length (temp_hold_table (SenIn n) @ replicate 1 zero_hold)"
    "mh_pvValue ((temp_hold_table (SenIn n) @ replicate 1 zero_hold) ! i) = Some x"
    "mh_pvValue ((temp_hold_table (SenIn n) @ replicate 1 zero_hold) ! j) = Some x"
  then show "i = j"
    by (rule padded_variables[rotated]) (simp add: temp_hold_table_def vMBMasterDevRegHoldDataInit_def)
qed (auto simp: xTempHumiSensor_DevDataMapIndex_def temp_hold_table_def dest: temp_hold_keys_indices)

interpretation temp_dict_out: hold_dict xTempHumiSensor_DevDataMapIndex 0
  "temp_hold_table (SenOut n) @ replicate 1 zero_hold" for n
proof
  fix i j x assume "i < length (temp_hold_table (SenOut n) @ replicate 1 zero_hold)"
    "j < length (temp_hold_table (SenOut n) @ replicate 1 zero_hold)"
    "mh_pvValue ((temp_hold_table (SenOut n) @ replicate 1 zero_hold) ! i) = Some x"
    "mh_pvValue ((temp_hold_table (SenOut n) @ replicate 1 zero_hold) ! j) = Some x"
  then show "i = j"
    by (rule padded_variables[rotated]) (simp add: temp_hold_table_def vMBMasterDevRegHoldDataInit_def)
qed (auto simp: xTempHumiSensor_DevDataMapIndex_def temp_hold_table_def dest: temp_hold_keys_indices)

interpretation meter_dict: hold_dict xMeter_DevDataMapIndex 0 "meter_hold_table mtr adr @ replicate 2 zero_hold"
  for mtr adr
proof
  fix i j x assume "i < length (meter_hold_table mtr adr @ replicate 2 zero_hold)"
    "j < length (meter_hold_table mtr adr @ replicate 2 zero_hold)"
    "mh_pvValue ((meter_hold_table mtr adr @ replicate 2 zero_hold) ! i) = Some x"
    "mh_pvValue ((meter_hold_table mtr adr @ replicate 2 zero_hold) ! j) = Some x"
  then show "i = j"
    by (rule padded_variables[rotated]) (simp add: meter_hold_table_def vMBMasterDevRegHoldDataInit_def)
qed (auto simp: xMeter_DevDataMapIndex_def meter_hold_cases_def meter_hold_table_def split: if_splits)

end
