(* ===== verification/MbMaster.thy ===== *)
theory MbMaster
  imports MbDevs
begin

text \<open>
  The exchange of the Modbus master with one device: the request functions and the handlers of replies
  (\<open>mbfuncholding_m.c\<close>, \<open>mbfuncinput_m.c\<close>, \<open>mbfunccoils_m.c\<close>), the polling loop (\<open>mb_m.c\<close>) and the
  wait for the end of a request (\<open>mbportevent_m.c\<close>).
\<close>

unbundle bit_operations_syntax

section \<open>Handlers of replies\<close>

text \<open>
  \<open>pucMBSndFrame\<close> is the PDU of the request in the send buffer, \<open>pucFrame\<close> (offset \<open>f\<close>) the PDU received.
  Addresses are counted from one in the handlers, the callbacks count from zero again.
\<close>

definition snd8 :: "nat \<Rightarrow> 'v master \<Rightarrow> u8 option" where
  "snd8 off s = get (ucRTUSndBuf s) (1 + off)"

definition snd16 :: "nat \<Rightarrow> 'v master \<Rightarrow> u16 option" where
  "snd16 off s = get16 (ucRTUSndBuf s) (1 + off)"

definition cb_exception :: "eMBErrorCode \<times> 'v master \<Rightarrow> eMBException \<times> 'v master" where
  "cb_exception r = (prveMBSlaveError2Exception (fst r), snd r)"

definition eMBMasterFuncWriteMultipleHoldingRegister ::
  "nat \<Rightarrow> 'v master \<Rightarrow> (eMBException \<times> 'v master) option" where
  "eMBMasterFuncWriteMultipleHoldingRegister f s =
     (if m_usLength s = 5 \<or> xFrameIsBroadcast s
      then do { addr \<leftarrow> snd16 1 s; n \<leftarrow> snd16 3 s; bytes \<leftarrow> snd8 5 s;
                (if uint bytes = 2 * uint n
                 then map_option cb_exception (eMBMasterRegHoldingCB (f + 6) (addr + 1) n Write s)
                 else Some (MB_EX_ILLEGAL_DATA_VALUE, s)) }
      else Some (MB_EX_ILLEGAL_DATA_VALUE, s))"

definition eMBMasterFuncReadHoldingRegister ::
  "nat \<Rightarrow> 'v master \<Rightarrow> (eMBException \<times> 'v master) option" where
  "eMBMasterFuncReadHoldingRegister f s =
     (if xFrameIsBroadcast s then Some (MB_EX_NONE, s)
      else if m_usLength s \<ge> 2
      then do { addr \<leftarrow> snd16 1 s; n \<leftarrow> snd16 3 s; bytes \<leftarrow> get (ucRTURcvBuf s) (f + 1);
                (if n \<ge> 1 \<and> 2 * uint n = uint bytes
                 then map_option cb_exception (eMBMasterRegHoldingCB (f + 2) (addr + 1) n Read s)
                 else Some (MB_EX_ILLEGAL_DATA_VALUE, s)) }
      else Some (MB_EX_ILLEGAL_DATA_VALUE, s))"

definition eMBMasterFuncReadWriteMultipleHoldingRegister ::
  "nat \<Rightarrow> 'v master \<Rightarrow> (eMBException \<times> 'v master) option" where
  "eMBMasterFuncReadWriteMultipleHoldingRegister f s =
     (if xFrameIsBroadcast s then Some (MB_EX_NONE, s)
      else if m_usLength s \<ge> 2
      then do { raddr \<leftarrow> snd16 1 s; rn \<leftarrow> snd16 3 s; waddr \<leftarrow> snd16 5 s; wn \<leftarrow> snd16 7 s;
                bytes \<leftarrow> get (ucRTURcvBuf s) (f + 1);
                (if 2 * uint rn = uint bytes
                 then do { (err, s1) \<leftarrow> eMBMasterRegHoldingCB 10 (waddr + 1) wn Write s;
                           (if err = MB_ENOERR
                            then map_option cb_exception (eMBMasterRegHoldingCB (f + 2) (raddr + 1) rn Read s1)
                            else Some (prveMBSlaveError2Exception err, s1)) }
                 else Some (MB_EX_ILLEGAL_DATA_VALUE, s)) }
      else Some (MB_EX_NONE, s))"

definition eMBMasterFuncReadInputRegister ::
  "nat \<Rightarrow> 'v master \<Rightarrow> (eMBException \<times> 'v master) option" where
  "eMBMasterFuncReadInputRegister f s =
     (if xFrameIsBroadcast s then Some (MB_EX_NONE, s)
      else if m_usLength s \<ge> 2
      then do { addr \<leftarrow> snd16 1 s; n \<leftarrow> snd16 3 s; bytes \<leftarrow> get (ucRTURcvBuf s) (f + 1);
                (if n \<ge> 1 \<and> 2 * uint n = uint bytes
                 then map_option cb_exception (eMBMasterRegInputCB (f + 2) (addr + 1) n s)
                 else Some (MB_EX_ILLEGAL_DATA_VALUE, s)) }
      else Some (MB_EX_ILLEGAL_DATA_VALUE, s))"

definition eMBMasterFuncReadCoils :: "nat \<Rightarrow> 'v master \<Rightarrow> (eMBException \<times> 'v master) option" where
  "eMBMasterFuncReadCoils f s =
     (if xFrameIsBroadcast s then Some (MB_EX_NONE, s)
      else if m_usLength s \<ge> 2
      then do { addr \<leftarrow> snd16 1 s; n \<leftarrow> snd16 3 s; bytes \<leftarrow> get (ucRTURcvBuf s) (f + 1);
                (if n \<ge> 1 \<and> coil_bytes n = bytes
                 then map_option cb_exception (eMBMasterRegCoilsCB (f + 2) (addr + 1) n Read s)
                 else Some (MB_EX_ILLEGAL_DATA_VALUE, s)) }
      else Some (MB_EX_ILLEGAL_DATA_VALUE, s))"

text \<open>Address and number come from the reply here, the byte count from the request.\<close>

definition eMBMasterFuncWriteMultipleCoils :: "nat \<Rightarrow> 'v master \<Rightarrow> (eMBException \<times> 'v master) option" where
  "eMBMasterFuncWriteMultipleCoils f s =
     (if m_usLength s = 5 \<or> xFrameIsBroadcast s
      then do { addr \<leftarrow> get16 (ucRTURcvBuf s) (f + 1); n \<leftarrow> get16 (ucRTURcvBuf s) (f + 3); bytes \<leftarrow> snd8 5 s;
                (if n \<ge> 1 \<and> coil_bytes n = bytes
                 then map_option cb_exception (eMBMasterRegCoilsCB 7 (addr + 1) n Write s)
                 else Some (MB_EX_ILLEGAL_DATA_VALUE, s)) }
      else Some (MB_EX_ILLEGAL_DATA_VALUE, s))"

definition xMasterFuncHandlers :: "(u8 \<times> (nat \<Rightarrow> 'v master \<Rightarrow> (eMBException \<times> 'v master) option)) list" where
  "xMasterFuncHandlers = [(4, eMBMasterFuncReadInputRegister), (3, eMBMasterFuncReadHoldingRegister),
     (16, eMBMasterFuncWriteMultipleHoldingRegister), (23, eMBMasterFuncReadWriteMultipleHoldingRegister),
     (1, eMBMasterFuncReadCoils), (15, eMBMasterFuncWriteMultipleCoils)]"

section \<open>Polling\<close>

text \<open>A broadcast is handled once for every address; the counter is a byte and must not reach 255.\<close>

fun broadcast_loop ::
  "(nat \<Rightarrow> 'v master \<Rightarrow> (eMBException \<times> 'v master) option) \<Rightarrow> nat \<Rightarrow> u8 list \<Rightarrow> eMBException \<times> 'v master \<Rightarrow>
   (eMBException \<times> 'v master) option" where
  "broadcast_loop h f [] r = Some r"
| "broadcast_loop h f (j # js) r =
     do { r' \<leftarrow> h f ((snd r)\<lparr>ucMBDestAddr := j\<rparr>); broadcast_loop h f js r' }"

definition master_execute :: "nat \<Rightarrow> 'v master \<Rightarrow> (u8 \<times> 'v master) option" where
  "master_execute f s =
     do { code \<leftarrow> get (ucRTURcvBuf s) f;
          (if drop_bit 7 code \<noteq> 0
           then do { ex \<leftarrow> get (ucRTURcvBuf s) (f + 1); Some (ex, s) }
           else case map_of xMasterFuncHandlers code of
             None \<Rightarrow> Some (0, s)
           | Some h \<Rightarrow>
               map_option (map_prod exception_code id)
                 (if xFrameIsBroadcast s
                  then (if m_ucSlaveDevMaxAddr s = 255 then None
                        else broadcast_loop h f
                          (map of_nat [unat (m_ucSlaveDevMinAddr s)..<Suc (unat (m_ucSlaveDevMaxAddr s))])
                          (MB_EX_NONE, s\<lparr>m_usLength := usSndPDULength s\<rparr>))
                  else h f s)) }"

text \<open>
  One call of \<open>eMBMasterPoll\<close>. While the semaphore is down the task waits in
  \<open>xMBMasterPortEventGet\<close> and the state stays as it is; \<open>e0\<close> is the value of the uninitialised \<open>eEvent\<close>.
\<close>

definition eMBMasterPoll :: "eMBMasterEventType \<Rightarrow> 'v master \<Rightarrow> (eMBErrorCode \<times> 'v master) option" where
  "eMBMasterPoll e0 s =
     (if m_eMBState s \<noteq> STATE_ENABLED then Some (MB_EILLSTATE, s)
      else if \<not> sMBEventSem s then Some (MB_ENOERR, s)
      else let (ev, s0) = xMBMasterPortEventGet e0 s
        in case ev of
          Some EV_MASTER_FRAME_RECEIVED \<Rightarrow>
            (case eMBMasterRTUReceive s0 of
               Some (addr, f, len) \<Rightarrow>
                 let s1 = s0\<lparr>pucMBRcvFrame := Some f, m_usLength := len\<rparr>
                 in if addr = ucMBDestAddr s1
                    then Some (MB_ENOERR, xMBMasterPortEventPost EV_MASTER_EXECUTE (s1\<lparr>pucMasterPDUCur := Some f\<rparr>))
                    else Some (MB_ENOERR, xMBMasterPortEventPost EV_MASTER_ERROR_PROCESS
                           (s1\<lparr>eCurErrorType := EV_ERROR_RECEIVE_DATA\<rparr>))
             | None \<Rightarrow> Some (MB_ENOERR, xMBMasterPortEventPost EV_MASTER_ERROR_PROCESS
                           (s0\<lparr>eCurErrorType := EV_ERROR_RECEIVE_DATA\<rparr>)))
        | Some EV_MASTER_EXECUTE \<Rightarrow>
            do { f \<leftarrow> pucMBRcvFrame s0;
                 (ex, s1) \<leftarrow> master_execute f s0;
                 Some (MB_ENOERR,
                   if ex \<noteq> 0
                   then xMBMasterPortEventPost EV_MASTER_ERROR_PROCESS
                          (s1\<lparr>eCurErrorType := EV_ERROR_EXECUTE_FUNCTION\<rparr>)
                   else vMBMasterRunResRelease Task_Poll (vMBMasterCBRequestSuccess s1)) }
        | Some EV_MASTER_FRAME_SENT \<Rightarrow>
            do { (err, s1) \<leftarrow> eMBMasterRTUSend (ucMBDestAddr s0) 1 (usSndPDULength s0) s0; Some (MB_ENOERR, s1) }
        | Some EV_MASTER_ERROR_PROCESS \<Rightarrow>
            Some (MB_ENOERR, vMBMasterRunResRelease Task_Poll
              (case eCurErrorType s0 of
                 EV_ERROR_RESPOND_TIMEOUT \<Rightarrow> vMBMasterErrorCBRespondTimeout s0
               | EV_ERROR_RECEIVE_DATA \<Rightarrow> vMBMasterErrorCBReceiveData s0
               | EV_ERROR_EXECUTE_FUNCTION \<Rightarrow> vMBMasterErrorCBExecuteFunction s0))
        | _ \<Rightarrow> Some (MB_ENOERR, s0))"

definition eMBMasterInit :: "u32 \<Rightarrow> 'v master \<Rightarrow> eMBErrorCode \<times> 'v master" where
  "eMBMasterInit baud s =
     (let (err, s1) = eMBMasterRTUInit baud s
      in if err \<noteq> MB_ENOERR then (err, s1)
         else (MB_ENOERR, (xMBMasterPortEventInit s1)\<lparr>m_eMBState := STATE_DISABLED\<rparr>))"

text \<open>There is no function to close the port (\<open>MB_PORT_HAS_CLOSE\<close> is 0).\<close>

definition eMBMasterClose :: "'v master \<Rightarrow> eMBErrorCode \<times> 'v master" where
  "eMBMasterClose s = (if m_eMBState s = STATE_DISABLED then (MB_ENOERR, s) else (MB_EILLSTATE, s))"

definition eMBMasterEnable :: "'v master \<Rightarrow> eMBErrorCode \<times> 'v master" where
  "eMBMasterEnable s =
     (if m_eMBState s = STATE_DISABLED then (MB_ENOERR, (vMBMasterRTUStart s)\<lparr>m_eMBState := STATE_ENABLED\<rparr>)
      else (MB_EILLSTATE, s))"

definition eMBMasterDisable :: "'v master \<Rightarrow> eMBErrorCode \<times> 'v master" where
  "eMBMasterDisable s =
     (case m_eMBState s of
        STATE_ENABLED \<Rightarrow> (MB_ENOERR, (vMBMasterRTUStop s)\<lparr>m_eMBState := STATE_DISABLED\<rparr>)
      | STATE_DISABLED \<Rightarrow> (MB_ENOERR, s)
      | STATE_NOT_INITIALIZED \<Rightarrow> (MB_EILLSTATE, s))"

section \<open>Waiting for the end of a request\<close>

text \<open>
  The callback of a device's offline timer; what happens during a delay of 200 ms is the head of \<open>bus\<close>.
\<close>

definition vMBMasterDevOfflineTimeout :: "nat \<Rightarrow> 'v master \<Rightarrow> 'v master" where
  "vMBMasterDevOfflineTimeout i = upd_dev i (\<lambda>d. d\<lparr>sd_xDevOnTimeout := False\<rparr>)"

fun bus_step :: "'v bus_event \<Rightarrow> 'v master \<Rightarrow> 'v master option" where
  "bus_step (Link e) s = link_step e s"
| "bus_step (Poll e0) s = map_option snd (eMBMasterPoll e0 s)"
| "bus_step (SetVar x v) s = Some (s\<lparr>master_mem := (master_mem s)(x := v)\<rparr>)"
| "bus_step (DevTimeout i) s =
     (case dev_at s i of
        Some d \<Rightarrow> if sd_sDevOfflineTmr_runs d
                  then Some (vMBMasterDevOfflineTimeout i (upd_dev i (\<lambda>d. d\<lparr>sd_sDevOfflineTmr_runs := False\<rparr>) s))
                  else Some s
      | None \<Rightarrow> Some s)"

fun bus_steps :: "'v bus_event list \<Rightarrow> 'v master \<Rightarrow> 'v master option" where
  "bus_steps [] s = Some s"
| "bus_steps (e # es) s = do { s1 \<leftarrow> bus_step e s; bus_steps es s1 }"

definition vMBTimeDly :: "'v master \<Rightarrow> 'v master option" where
  "vMBTimeDly s = (case bus s of [] \<Rightarrow> Some s | es # rest \<Rightarrow> bus_steps es (s\<lparr>bus := rest\<rparr>))"

text \<open>At most ten delays; the result is \<open>ucDlyCount\<close>.\<close>

fun wait_loop :: "nat \<Rightarrow> nat \<Rightarrow> 'v master \<Rightarrow> (nat \<times> 'v master) option" where
  "wait_loop 0 ucDlyCount s = Some (ucDlyCount, s)"
| "wait_loop (Suc left) ucDlyCount s =
     (if xMBIsFinished s then Some (ucDlyCount, s)
      else do { s1 \<leftarrow> vMBTimeDly s; wait_loop left (ucDlyCount + 1) s1 })"

definition MB_MASTER_PORT_WAIT_TIMES :: nat where "MB_MASTER_PORT_WAIT_TIMES = 10"

definition eMBMasterWaitRequestFinish :: "mb_task \<Rightarrow> 'v master \<Rightarrow> (eMBMasterReqErrCode \<times> 'v master) option" where
  "eMBMasterWaitRequestFinish cur s =
     do { (ucDlyCount, s1) \<leftarrow> wait_loop MB_MASTER_PORT_WAIT_TIMES 0 s;
          (if ucDlyCount = MB_MASTER_PORT_WAIT_TIMES
           then Some (MB_MRE_TIMEDOUT, vMBMasterRunResRelease cur
                  (s1\<lparr>xMBIsFinished := True, m_eQueuedEvent := EV_MASTER_ERROR_RESPOND_TIMEOUT,
                      xWaitFinishInQueue := True, sMBEventSem := True\<rparr>))
           else Some ((case m_eQueuedEvent s1 of
                         EV_MASTER_ERROR_RESPOND_TIMEOUT \<Rightarrow> MB_MRE_TIMEDOUT
                       | EV_MASTER_ERROR_RECEIVE_DATA \<Rightarrow> MB_MRE_REV_DATA
                       | EV_MASTER_ERROR_EXECUTE_FUNCTION \<Rightarrow> MB_MRE_EXE_FUN
                       | _ \<Rightarrow> MB_MRE_NO_ERR), s1\<lparr>xWaitFinishInQueue := False\<rparr>)) }"

section \<open>Requests\<close>

text \<open>Writing bytes one after the other.\<close>

fun put_list :: "nat \<Rightarrow> u8 list \<Rightarrow> buffer \<Rightarrow> buffer option" where
  "put_list pos [] buf = Some buf"
| "put_list pos (b # bs) buf = do { buf1 \<leftarrow> put pos b buf; put_list (pos + 1) bs buf1 }"

text \<open>
  All requests check the address, take the bus, write their PDU, post the event that sends it and
  wait. A result without a code means that the task still waits for the bus.
\<close>

definition start_request :: "u8 list \<Rightarrow> u16 \<Rightarrow> u8 \<Rightarrow> 'v master \<Rightarrow> 'v master option" where
  "start_request pdu len ucSndAddr s =
     do { b \<leftarrow> put_list 1 pdu (ucRTUSndBuf s);
          Some (xMBMasterPortEventPost EV_MASTER_FRAME_SENT
            (s\<lparr>ucMBDestAddr := ucSndAddr, ucRTUSndBuf := b, usSndPDULength := len\<rparr>)) }"

definition master_request ::
  "mb_task \<Rightarrow> u8 \<Rightarrow> ('v master \<Rightarrow> 'v master option) \<Rightarrow> 'v master \<Rightarrow>
   (eMBMasterReqErrCode option \<times> 'v master) option" where
  "master_request cur ucSndAddr start s =
     (if ucSndAddr < m_ucSlaveDevMinAddr s \<or> ucSndAddr > m_ucSlaveDevMaxAddr s then Some (Some MB_MRE_ILL_ARG, s)
      else case xMBMasterRunResTake cur s of
        (None, s1) \<Rightarrow> Some (None, s1)
      | (Some False, s1) \<Rightarrow> Some (Some MB_MRE_MASTER_BUSY, s1)
      | (Some True, s1) \<Rightarrow>
          do { s2 \<leftarrow> start s1; (err, s3) \<leftarrow> eMBMasterWaitRequestFinish cur s2; Some (Some err, s3) })"

definition read_pdu :: "u8 \<Rightarrow> u16 \<Rightarrow> u16 \<Rightarrow> u8 list" where
  "read_pdu code addr n = [code, hi_byte addr, lo_byte addr, hi_byte n, lo_byte n]"

definition eMBMasterReqReadInputRegister ::
  "mb_task \<Rightarrow> u8 \<Rightarrow> u16 \<Rightarrow> u16 \<Rightarrow> 'v master \<Rightarrow> (eMBMasterReqErrCode option \<times> 'v master) option" where
  "eMBMasterReqReadInputRegister cur ucSndAddr usRegAddr usNRegs =
     master_request cur ucSndAddr (start_request (read_pdu 4 usRegAddr usNRegs) 5 ucSndAddr)"

definition eMBMasterReqReadHoldingRegister ::
  "mb_task \<Rightarrow> u8 \<Rightarrow> u16 \<Rightarrow> u16 \<Rightarrow> 'v master \<Rightarrow> (eMBMasterReqErrCode option \<times> 'v master) option" where
  "eMBMasterReqReadHoldingRegister cur ucSndAddr usRegAddr usNRegs =
     master_request cur ucSndAddr (\<lambda>s. start_request (read_pdu 3 usRegAddr usNRegs) 5 ucSndAddr
       (s\<lparr>usRcvRequestBytes := usNRegs * 2 + 5\<rparr>))"

definition eMBMasterReqReadCoils ::
  "mb_task \<Rightarrow> u8 \<Rightarrow> u16 \<Rightarrow> u16 \<Rightarrow> 'v master \<Rightarrow> (eMBMasterReqErrCode option \<times> 'v master) option" where
  "eMBMasterReqReadCoils cur ucSndAddr usCoilAddr usNCoils =
     master_request cur ucSndAddr (start_request (read_pdu 1 usCoilAddr usNCoils) 5 ucSndAddr)"

text \<open>The values come from a buffer of the master; reading beyond it is an error of the model.\<close>

definition value_bytes :: "u16 list \<Rightarrow> nat \<Rightarrow> u8 list option" where
  "value_bytes buf n = (if n \<le> length buf then Some (concat (map (\<lambda>v. [hi_byte v, lo_byte v]) (take n buf))) else None)"

definition eMBMasterReqWriteMultipleHoldingRegister ::
  "mb_task \<Rightarrow> u8 \<Rightarrow> u16 \<Rightarrow> u16 \<Rightarrow> u16 list \<Rightarrow> 'v master \<Rightarrow> (eMBMasterReqErrCode option \<times> 'v master) option" where
  "eMBMasterReqWriteMultipleHoldingRegister cur ucSndAddr usRegAddr usNRegs pusDataBuffer =
     master_request cur ucSndAddr
       (\<lambda>s. do { vs \<leftarrow> value_bytes pusDataBuffer (unat usNRegs);
                 start_request (read_pdu 16 usRegAddr usNRegs @ lo_byte usNRegs * 2 # vs)
                   (1 + 5 + 2 * usNRegs) ucSndAddr s })"

definition eMBMasterReqReadWriteMultipleHoldingRegister ::
  "mb_task \<Rightarrow> u8 \<Rightarrow> u16 \<Rightarrow> u16 \<Rightarrow> u16 list \<Rightarrow> u16 \<Rightarrow> u16 \<Rightarrow> 'v master \<Rightarrow>
   (eMBMasterReqErrCode option \<times> 'v master) option" where
  "eMBMasterReqReadWriteMultipleHoldingRegister cur ucSndAddr usReadRegAddr usNReadRegs pusDataBuffer
       usWriteRegAddr usNWriteRegs =
     master_request cur ucSndAddr
       (\<lambda>s. do { vs \<leftarrow> value_bytes pusDataBuffer (unat usNWriteRegs);
                 start_request (read_pdu 23 usReadRegAddr usNReadRegs @
                     tl (read_pdu 23 usWriteRegAddr usNWriteRegs) @ lo_byte usNWriteRegs * 2 # vs)
                   (1 + 9 + 2 * usNWriteRegs) ucSndAddr s })"

definition eMBMasterReqWriteMultipleCoils ::
  "mb_task \<Rightarrow> u8 \<Rightarrow> u16 \<Rightarrow> u16 \<Rightarrow> u8 list \<Rightarrow> 'v master \<Rightarrow> (eMBMasterReqErrCode option \<times> 'v master) option" where
  "eMBMasterReqWriteMultipleCoils cur ucSndAddr usCoilAddr usNCoils pucDataBuffer s =
     (if ucSndAddr < m_ucSlaveDevMinAddr s \<or> ucSndAddr > m_ucSlaveDevMaxAddr s then Some (Some MB_MRE_ILL_ARG, s)
      else if usNCoils > 0x07B0 then Some (Some MB_MRE_ILL_ARG, s)
      else master_request cur ucSndAddr
        (\<lambda>s. if unat (coil_bytes usNCoils) \<le> length pucDataBuffer
              then start_request (read_pdu 15 usCoilAddr usNCoils @ coil_bytes usNCoils #
                       take (unat (coil_bytes usNCoils)) pucDataBuffer)
                     (1 + 5 + ucast (coil_bytes usNCoils)) ucSndAddr s
              else None) s)"

end
