(* ===== verification/MasterProps.thy ===== *)
theory MasterProps
  imports WireProps DevDicts MbMaster
begin

text \<open>
  A whole exchange of the master with a device: what becomes of a request for every kind of answer, and
  which variables of the program a good answer changes.
\<close>

section \<open>The bus during an exchange\<close>

lemma bus_steps_append: "bus_steps (xs @ ys) s = do { t \<leftarrow> bus_steps xs s; bus_steps ys t }"
  by (induction xs arbitrary: s) (auto split: bind_splits)

lemma bus_steps_links: "bus_steps (map Link es) s = link_steps es s"
  by (induction es arbitrary: s) (auto split: bind_splits)

lemma release_refused [simp]: "vMBMasterRunResRelease cur s = s"
  by (simp add: vMBMasterRunResRelease_def OSMutexPost_def)

text \<open>Ready for a request of task \<open>cur\<close> to the device \<open>addr\<close>: the task gets the bus without waiting.\<close>

definition bus_free_for :: "mb_task \<Rightarrow> 'z link_scheme \<Rightarrow> bool" where
  "bus_free_for cur s \<longleftrightarrow> OwnerNestingCtr (sMBIdleMutex s) = 0 \<or> OwnerTCB (sMBIdleMutex s) = Some cur"

definition master_ready :: "mb_task \<Rightarrow> u8 \<Rightarrow> 'z link_scheme \<Rightarrow> bool" where
  "master_ready cur addr s \<longleftrightarrow> link_idle s \<and> bus_free_for cur s \<and> m_eMBState s = STATE_ENABLED \<and>
     m_ucSlaveDevMinAddr s \<le> addr \<and> addr \<le> m_ucSlaveDevMaxAddr s \<and> addr \<noteq> 0"

lemma pend_succeeds:
  "bus_free_for cur s \<Longrightarrow> \<exists>e m. OSMutexPend cur (sMBIdleMutex s) = (Some e, m) \<and> OwnerTCB m = Some cur"
  by (auto simp: bus_free_for_def OSMutexPend_def)

lemma bus_taken:
  "bus_free_for cur s \<Longrightarrow> \<exists>m. xMBMasterRunResTake cur s = (Some True, s\<lparr>sMBIdleMutex := m, xMBIsFinished := False\<rparr>) \<and>
    OwnerTCB m = Some cur"
  using pend_succeeds[of cur s] by (auto simp: xMBMasterRunResTake_def)

text \<open>The state with the request in the send buffer and the event that sends it taken by the poll task.\<close>

definition requesting :: "u8 \<Rightarrow> u8 list \<Rightarrow> mutex \<Rightarrow> 'z link_scheme \<Rightarrow> 'z link_scheme" where
  "requesting addr pdu m s = s\<lparr>sMBIdleMutex := m, xMBIsFinished := False, ucMBDestAddr := addr,
     ucRTUSndBuf := ucRTUSndBuf s ! 0 # pdu @ drop (Suc (length pdu)) (ucRTUSndBuf s),
     usSndPDULength := of_nat (length pdu), m_xEventInQueue := False, m_eQueuedEvent := EV_MASTER_FRAME_SENT,
     sMBEventSem := False\<rparr>"

lemma put_list_all:
  "pos + length bs \<le> length buf \<Longrightarrow> put_list pos bs buf = Some (take pos buf @ bs @ drop (pos + length bs) buf)"
proof (induction bs arbitrary: pos buf)
  case (Cons b bs)
  have "take (Suc pos) (buf[pos := b]) = take pos buf @ [b]"
    using Cons.prems by (simp add: take_Suc_conv_app_nth)
  then show ?case
    using Cons.prems Cons.IH[of "Suc pos" "buf[pos := b]"] by (simp add: put_def)
qed simp

lemma link_idle_requesting:
  "link_idle s \<Longrightarrow> length pdu \<le> 250 \<Longrightarrow> link_idle (requesting addr pdu m s)"
  by (auto simp: link_idle_def requesting_def)

lemma request_started:
  assumes "master_ready cur addr s" "length pdu \<le> 250" "len = of_nat (length pdu)"
  shows "\<exists>m. OwnerTCB m = Some cur \<and>
    master_request cur addr (start_request pdu len addr) s =
      (case eMBMasterWaitRequestFinish cur
          (xMBMasterPortEventPost EV_MASTER_FRAME_SENT (requesting addr pdu m s)) of
         None \<Rightarrow> None | Some (err, t) \<Rightarrow> Some (Some err, t))"
proof -
  obtain m where m: "xMBMasterRunResTake cur s = (Some True, s\<lparr>sMBIdleMutex := m, xMBIsFinished := False\<rparr>)"
      "OwnerTCB m = Some cur"
    using bus_taken[of cur s] assms(1) by (auto simp: master_ready_def)
  have len: "length (ucRTUSndBuf s) = 253" using assms(1) by (simp add: master_ready_def link_idle_def)
  then have buf: "put_list 1 pdu (ucRTUSndBuf s) =
      Some (ucRTUSndBuf s ! 0 # pdu @ drop (Suc (length pdu)) (ucRTUSndBuf s))"
    using assms(2) put_list_all[of 1 pdu "ucRTUSndBuf s"] by (simp add: take_Suc_conv_app_nth)
  have "\<not> addr < m_ucSlaveDevMinAddr s" "\<not> addr > m_ucSlaveDevMaxAddr s"
    using assms(1) by (auto simp: master_ready_def)
  then show ?thesis
    using m assms(3) buf
    by (intro exI[of _ m]) (simp add: master_request_def start_request_def
        xMBMasterPortEventPost_def requesting_def split: option.split)
qed

lemma poll_sends:
  assumes "master_ready cur addr s" "length pdu \<le> 250"
  shows "bus_step (Poll e0) (xMBMasterPortEventPost EV_MASTER_FRAME_SENT (requesting addr pdu m s)) =
    Some (sending addr pdu (requesting addr pdu m s))"
proof -
  let ?s = "requesting addr pdu m s"
  have "eMBMasterRTUSend addr 1 (of_nat (length pdu)) ?s = Some (MB_ENOERR, sending addr pdu ?s)"
    using assms link_idle_requesting[OF _ assms(2), of s addr m]
    by (intro send_frame) (auto simp: master_ready_def requesting_def)
  moreover define t where "t = xMBMasterPortEventPost EV_MASTER_FRAME_SENT ?s"
  moreover have "t\<lparr>sMBEventSem := False, m_xEventInQueue := False\<rparr> = ?s" "m_eMBState t = STATE_ENABLED"
      "sMBEventSem t" "m_xEventInQueue t" "m_eQueuedEvent t = EV_MASTER_FRAME_SENT"
      "ucMBDestAddr ?s = addr" "usSndPDULength ?s = of_nat (length pdu)"
    using assms(1) by (simp_all add: t_def xMBMasterPortEventPost_def requesting_def master_ready_def)
  ultimately show ?thesis
    by (simp add: eMBMasterPoll_def xMBMasterPortEventGet_def)
qed

text \<open>From the request to the moment the line is turned around.\<close>

definition send_events :: "eMBMasterEventType \<Rightarrow> u8 list \<Rightarrow> 'v bus_event list" where
  "send_events e0 pdu = Poll e0 # replicate (length pdu + 3) (Link TxReady)"

lemma request_sent:
  assumes "master_ready cur addr s" "length pdu \<le> 250"
  shows "bus_steps (send_events e0 pdu @ es) (xMBMasterPortEventPost EV_MASTER_FRAME_SENT (requesting addr pdu m s)) =
    bus_steps es (line_turned addr pdu (requesting addr pdu m s))"
proof -
  let ?s = "requesting addr pdu m s"
  have "link_steps (replicate (length pdu + 2) TxReady @ [TxReady]) (sending addr pdu ?s) = Some (line_turned addr pdu ?s)"
    using assms link_idle_requesting[OF _ assms(2), of s addr m]
    by (intro sending_end) (auto simp: master_ready_def)
  moreover have "replicate (length pdu + 3) TxReady = replicate (length pdu + 2) TxReady @ [TxReady]"
    by (simp add: replicate_append_same eval_nat_numeral)
  ultimately have "bus_steps (map Link (replicate (length pdu + 3) TxReady)) (sending addr pdu ?s) = Some (line_turned addr pdu ?s)"
    unfolding bus_steps_links by simp
  then show ?thesis
    using poll_sends[OF assms, of e0 m] by (simp add: send_events_def bus_steps_append del: bus_step.simps)
qed

text \<open>The wait ends in the first delay.\<close>

definition finished_code :: "eMBMasterEventType \<Rightarrow> eMBMasterReqErrCode" where
  "finished_code e = (case e of EV_MASTER_ERROR_RESPOND_TIMEOUT \<Rightarrow> MB_MRE_TIMEDOUT
     | EV_MASTER_ERROR_RECEIVE_DATA \<Rightarrow> MB_MRE_REV_DATA
     | EV_MASTER_ERROR_EXECUTE_FUNCTION \<Rightarrow> MB_MRE_EXE_FUN
     | _ \<Rightarrow> MB_MRE_NO_ERR)"

lemma wait_ends:
  assumes "bus s = es # rest" "\<not> xMBIsFinished s" "bus_steps es (s\<lparr>bus := rest\<rparr>) = Some t" "xMBIsFinished t"
  shows "eMBMasterWaitRequestFinish cur s = Some (finished_code (m_eQueuedEvent t), t\<lparr>xWaitFinishInQueue := False\<rparr>)"
proof -
  have "wait_loop MB_MASTER_PORT_WAIT_TIMES 0 s = Some (1, t)"
    using assms by (simp add: MB_MASTER_PORT_WAIT_TIMES_def numeral_eq_Suc vMBTimeDly_def)
  then show ?thesis
    by (simp add: eMBMasterWaitRequestFinish_def MB_MASTER_PORT_WAIT_TIMES_def finished_code_def
        split: eMBMasterEventType.split)
qed

lemma exchange:
  assumes ready: "master_ready cur addr s" and len: "length pdu \<le> 250" "len = of_nat (length pdu)"
    and bus: "bus s = (send_events e0 pdu @ es) # rest"
    and answer: "\<And>m. OwnerTCB m = Some cur \<Longrightarrow>
      \<exists>t. bus_steps es (line_turned addr pdu (requesting addr pdu m (s\<lparr>bus := rest\<rparr>))) = Some t \<and> xMBIsFinished t \<and> P t"
  shows "\<exists>t. P t \<and> master_request cur addr (start_request pdu len addr) s =
    Some (Some (finished_code (m_eQueuedEvent t)), t\<lparr>xWaitFinishInQueue := False\<rparr>)"
proof -
  obtain m where m: "OwnerTCB m = Some cur" and start: "master_request cur addr (start_request pdu len addr) s =
      (case eMBMasterWaitRequestFinish cur (xMBMasterPortEventPost EV_MASTER_FRAME_SENT (requesting addr pdu m s)) of
         None \<Rightarrow> None | Some (err, t) \<Rightarrow> Some (Some err, t))"
    using request_started[OF ready len] by blast
  obtain t where t: "bus_steps es (line_turned addr pdu (requesting addr pdu m (s\<lparr>bus := rest\<rparr>))) = Some t"
      "xMBIsFinished t" "P t"
    using answer[OF m] by blast
  define s1 where "s1 = xMBMasterPortEventPost EV_MASTER_FRAME_SENT (requesting addr pdu m s)"
  have s1: "bus s1 = (send_events e0 pdu @ es) # rest" "\<not> xMBIsFinished s1"
      "s1\<lparr>bus := rest\<rparr> = xMBMasterPortEventPost EV_MASTER_FRAME_SENT (requesting addr pdu m (s\<lparr>bus := rest\<rparr>))"
    using bus by (simp_all add: s1_def xMBMasterPortEventPost_def requesting_def)
  have ready': "master_ready cur addr (s\<lparr>bus := rest\<rparr>)"
    using ready by (simp add: master_ready_def link_idle_def bus_free_for_def)
  have "bus_steps (send_events e0 pdu @ es) (s1\<lparr>bus := rest\<rparr>) = Some t"
    using t(1) unfolding s1(3) request_sent[OF ready' len(1)] .
  then have "eMBMasterWaitRequestFinish cur s1 = Some (finished_code (m_eQueuedEvent t), t\<lparr>xWaitFinishInQueue := False\<rparr>)"
    using wait_ends[OF s1(1,2) _ t(2)] by blast
  then show ?thesis using t(3) start by (intro exI[of _ t]) (simp add: s1_def)
qed

section \<open>Answers\<close>

definition answer :: "u8 list \<Rightarrow> 'v bus_event list" where
  "answer bs = map (\<lambda>b. Link (RxByte b)) bs @ [Link (Expires Tmr_T35)]"

lemma answer_received:
  assumes "4 \<le> length bs" "length bs \<le> 256" "eRcvState s = STATE_M_RX_IDLE" "uart_rx_int s" "length (ucRTURcvBuf s) = 256"
  shows "bus_steps (answer bs @ es) s = bus_steps es (frame_ended bs s)"
proof -
  have links: "answer bs = (map Link (map RxByte bs @ [Expires Tmr_T35]) :: 'b bus_event list)"
    by (simp add: answer_def)
  have ne: "bs \<noteq> []" using assms(1) by auto
  show ?thesis
    unfolding bus_steps_append links bus_steps_links link_steps_append
      receive_run[OF assms(3-5) ne assms(2)] bind.bind_lunit pause_after_frame[OF assms(1,2)] by simp
qed

lemma fragment_received:
  assumes "length bs < 4" "bs \<noteq> []" "eRcvState s = STATE_M_RX_IDLE" "uart_rx_int s" "length (ucRTURcvBuf s) = 256"
  shows "bus_steps (answer bs @ es) s = bus_steps es (fragment_dropped bs s)"
proof -
  have links: "answer bs = (map Link (map RxByte bs @ [Expires Tmr_T35]) :: 'b bus_event list)"
    by (simp add: answer_def)
  have l: "length bs \<le> 256" using assms(1) by simp
  show ?thesis
    unfolding bus_steps_append links bus_steps_links link_steps_append
      receive_run[OF assms(3-5,2) l] bind.bind_lunit pause_after_fragment[OF assms(1)] by simp
qed

text \<open>Polls after an answer.\<close>

lemma poll_nothing: "m_eMBState s = STATE_ENABLED \<Longrightarrow> \<not> sMBEventSem s \<Longrightarrow> bus_step (Poll e) s = Some s"
  by (simp add: eMBMasterPoll_def)

definition error_event :: "eMBMasterErrorEventType \<Rightarrow> eMBMasterEventType" where
  "error_event e = (case e of EV_ERROR_RESPOND_TIMEOUT \<Rightarrow> EV_MASTER_ERROR_RESPOND_TIMEOUT
     | EV_ERROR_RECEIVE_DATA \<Rightarrow> EV_MASTER_ERROR_RECEIVE_DATA
     | EV_ERROR_EXECUTE_FUNCTION \<Rightarrow> EV_MASTER_ERROR_EXECUTE_FUNCTION)"

lemma poll_error:
  assumes "m_eMBState s = STATE_ENABLED" "sMBEventSem s" "m_xEventInQueue s" "m_eQueuedEvent s = EV_MASTER_ERROR_PROCESS"
  shows "bus_step (Poll e) s =
    Some (request_finished (error_event (eCurErrorType s)) (s\<lparr>sMBEventSem := False, m_xEventInQueue := False\<rparr>))"
  using assms by (simp add: eMBMasterPoll_def xMBMasterPortEventGet_def error_event_def vMBMasterErrorCBRespondTimeout_def
      vMBMasterErrorCBReceiveData_def vMBMasterErrorCBExecuteFunction_def split: eMBMasterErrorEventType.split)

lemma frame_checked:
  assumes "4 \<le> length bs" "length bs \<le> 256"
  shows "eMBMasterRTUReceive ((frame_ended bs s)\<lparr>sMBEventSem := False, m_xEventInQueue := False\<rparr>) =
    (if crc16 bs = 0 then Some (hd bs, 1, of_nat (length bs) - 3) else None)"
proof -
  have "unat (of_nat (length bs) :: u16) = length bs"
    using assms(2) by (simp add: unsigned_of_nat take_bit_nat_eq_self)
  then show ?thesis
    using assms by (intro received_frame) (auto simp: frame_ended_def received_def)
qed

lemma poll_rejects:
  assumes "4 \<le> length bs" "length bs \<le> 256" "m_eMBState s = STATE_ENABLED" "crc16 bs \<noteq> 0 \<or> hd bs \<noteq> ucMBDestAddr s"
  shows "\<exists>l f. bus_step (Poll e) (frame_ended bs s) = Some ((frame_ended bs s)\<lparr>m_usLength := l, pucMBRcvFrame := f,
    eCurErrorType := EV_ERROR_RECEIVE_DATA, m_eQueuedEvent := EV_MASTER_ERROR_PROCESS\<rparr>)"
proof -
  define t where "t = frame_ended bs s"
  have t: "m_eMBState t = STATE_ENABLED" "sMBEventSem t" "m_xEventInQueue t" "m_eQueuedEvent t = EV_MASTER_FRAME_RECEIVED"
      "ucMBDestAddr t = ucMBDestAddr s"
    using assms(3) by (simp_all add: t_def frame_ended_def received_def)
  have same: "t\<lparr>sMBEventSem := True, m_xEventInQueue := True\<rparr> = t" using t by simp
  show ?thesis
  proof (cases "crc16 bs = 0")
    case True
    then have "bus_step (Poll e) t = Some (t\<lparr>m_usLength := of_nat (length bs) - 3, pucMBRcvFrame := Some 1,
        eCurErrorType := EV_ERROR_RECEIVE_DATA, m_eQueuedEvent := EV_MASTER_ERROR_PROCESS\<rparr>)"
      using t assms(4) frame_checked[OF assms(1,2), of s]
      by (simp add: t_def[symmetric] eMBMasterPoll_def xMBMasterPortEventGet_def xMBMasterPortEventPost_def same)
    then show ?thesis unfolding t_def by blast
  next
    case False
    then have "bus_step (Poll e) t = Some (t\<lparr>m_usLength := m_usLength t, pucMBRcvFrame := pucMBRcvFrame t,
        eCurErrorType := EV_ERROR_RECEIVE_DATA, m_eQueuedEvent := EV_MASTER_ERROR_PROCESS\<rparr>)"
      using t frame_checked[OF assms(1,2), of s]
      by (simp add: t_def[symmetric] eMBMasterPoll_def xMBMasterPortEventGet_def xMBMasterPortEventPost_def)
    then show ?thesis unfolding t_def by blast
  qed
qed

text \<open>The state in which a frame for the master is handled.\<close>

definition executing :: "u8 list \<Rightarrow> 'z link_scheme \<Rightarrow> 'z link_scheme" where
  "executing bs s = (frame_ended bs s)\<lparr>m_usLength := of_nat (length bs) - 3, pucMBRcvFrame := Some 1,
     pucMasterPDUCur := Some 1, m_eQueuedEvent := EV_MASTER_EXECUTE, m_xEventInQueue := False, sMBEventSem := False\<rparr>"

lemma poll_accepts:
  assumes "4 \<le> length bs" "length bs \<le> 256" "m_eMBState s = STATE_ENABLED" "crc16 bs = 0" "hd bs = ucMBDestAddr s"
  shows "bus_step (Poll e) (frame_ended bs s) = Some ((executing bs s)\<lparr>m_xEventInQueue := True, sMBEventSem := True\<rparr>)"
proof -
  define t where "t = frame_ended bs s"
  have t: "m_eMBState t = STATE_ENABLED" "sMBEventSem t" "m_xEventInQueue t" "m_eQueuedEvent t = EV_MASTER_FRAME_RECEIVED"
      "ucMBDestAddr t = ucMBDestAddr s"
    using assms(3) by (simp_all add: t_def frame_ended_def received_def)
  then show ?thesis
    using assms(4,5) frame_checked[OF assms(1,2), of s]
    by (simp add: t_def[symmetric] executing_def eMBMasterPoll_def xMBMasterPortEventGet_def xMBMasterPortEventPost_def)
qed

lemma poll_executes:
  assumes "m_eMBState s = STATE_ENABLED" "master_execute 1 (executing bs s) = Some (ex, t)"
  shows "bus_step (Poll e) ((executing bs s)\<lparr>m_xEventInQueue := True, sMBEventSem := True\<rparr>) =
    Some (if ex \<noteq> 0 then xMBMasterPortEventPost EV_MASTER_ERROR_PROCESS (t\<lparr>eCurErrorType := EV_ERROR_EXECUTE_FUNCTION\<rparr>)
          else request_finished EV_MASTER_PROCESS_SUCCESS t)"
proof -
  let ?r = "(executing bs s)\<lparr>m_xEventInQueue := True, sMBEventSem := True\<rparr>"
  have same: "?r\<lparr>sMBEventSem := False, m_xEventInQueue := False\<rparr> = executing bs s"
    by (simp add: executing_def)
  have "m_eMBState ?r = STATE_ENABLED" "m_eQueuedEvent ?r = EV_MASTER_EXECUTE" "pucMBRcvFrame (executing bs s) = Some 1"
    using assms(1) by (simp_all add: executing_def frame_ended_def received_def)
  then show ?thesis
    using assms(2) same by (simp add: eMBMasterPoll_def xMBMasterPortEventGet_def vMBMasterCBRequestSuccess_def)
qed

section \<open>Failed exchanges\<close>

definition same_program :: "'v master \<Rightarrow> 'v master \<Rightarrow> bool" where
  "same_program s t \<longleftrightarrow> psMBSlaveDevsList t = psMBSlaveDevsList s \<and> psMBSlaveDevCur t = psMBSlaveDevCur s \<and>
     master_mem t = master_mem s \<and> m_eMBRunMode t = m_eMBRunMode s"

text \<open>The request has failed, nothing has been taken over, and the next request can follow.\<close>

definition gave_up :: "mb_task \<Rightarrow> u8 \<Rightarrow> 'v bus_event list list \<Rightarrow> 'v master \<Rightarrow> 'v master \<Rightarrow> bool" where
  "gave_up cur addr rest s t \<longleftrightarrow> same_program s t \<and> master_ready cur addr t \<and> bus t = rest"

text \<open>The line after a request, and what a failed exchange keeps of it.\<close>

definition awaiting :: "u8 \<Rightarrow> 'z link_scheme \<Rightarrow> bool" where
  "awaiting addr l \<longleftrightarrow> m_eMBState l = STATE_ENABLED \<and> eRcvState l = STATE_M_RX_IDLE \<and> uart_rx_int l \<and>
     length (ucRTURcvBuf l) = 256 \<and> length (ucRTUSndBuf l) = 253 \<and> ucMBDestAddr l = addr \<and>
     \<not> xFrameIsBroadcast l \<and> eSndState l = STATE_M_TX_XFWR \<and> sRespondTimeoutTmr_runs l \<and>
     eCurTimerMode l = MB_TMODE_RESPOND_TIMEOUT"

definition settled :: "'v master \<Rightarrow> 'v master \<Rightarrow> bool" where
  "settled l t \<longleftrightarrow> same_program l t \<and> bus t = bus l \<and> eRcvState t = STATE_M_RX_IDLE \<and>
     length (ucRTUSndBuf t) = 253 \<and> length (ucRTURcvBuf t) = 256 \<and> m_eMBState t = STATE_ENABLED \<and>
     sMBIdleMutex t = sMBIdleMutex l \<and> m_ucSlaveDevMinAddr t = m_ucSlaveDevMinAddr l \<and>
     m_ucSlaveDevMaxAddr t = m_ucSlaveDevMaxAddr l"

lemma line_turned_awaits:
  assumes "master_ready cur addr s" "length pdu \<le> 250"
  shows "awaiting addr (line_turned addr pdu (requesting addr pdu m (s\<lparr>bus := rest\<rparr>)))"
  using assms by (auto simp: awaiting_def line_turned_def sending_def requesting_def master_ready_def link_idle_def)

lemma settled_gave_up:
  assumes "master_ready cur addr s" "OwnerTCB m = Some cur"
    and "settled (line_turned addr pdu (requesting addr pdu m (s\<lparr>bus := rest\<rparr>))) t"
  shows "gave_up cur addr rest s (t\<lparr>xWaitFinishInQueue := False\<rparr>)"
  using assms by (simp add: settled_def gave_up_def master_ready_def link_idle_def bus_free_for_def same_program_def
      line_turned_def sending_def requesting_def)

lemma fails_after:
  assumes "master_ready cur addr s" "length pdu \<le> 250" "len = of_nat (length pdu)"
    and "bus s = (send_events e0 pdu @ es) # rest"
    and "\<And>l :: 'v master. awaiting addr l \<Longrightarrow>
      \<exists>t. bus_steps es l = Some t \<and> xMBIsFinished t \<and> m_eQueuedEvent t = ev \<and> settled l t"
  shows "\<exists>t. master_request cur addr (start_request pdu len addr) s = Some (Some (finished_code ev), t) \<and>
    gave_up cur addr rest (s :: 'v master) t"
proof -
  have "\<exists>t. bus_steps es (line_turned addr pdu (requesting addr pdu m (s\<lparr>bus := rest\<rparr>))) = Some t \<and>
      xMBIsFinished t \<and> (m_eQueuedEvent t = ev \<and> gave_up cur addr rest s (t\<lparr>xWaitFinishInQueue := False\<rparr>))"
    if "OwnerTCB m = Some cur" for m
    using assms(5)[OF line_turned_awaits[OF assms(1,2), of m rest]] settled_gave_up[OF assms(1) that] by blast
  from exchange[OF assms(1-4) this] show ?thesis by auto
qed

lemma bad_frame_rejected:
  assumes "awaiting addr l" "4 \<le> length bs" "length bs \<le> 256" "crc16 bs \<noteq> 0 \<or> hd bs \<noteq> addr"
  shows "\<exists>t. bus_steps (answer bs @ [Poll e1, Poll e2]) l = Some t \<and> xMBIsFinished t \<and>
    m_eQueuedEvent t = EV_MASTER_ERROR_RECEIVE_DATA \<and> settled l t"
proof -
  obtain n f where poll: "bus_step (Poll e1) (frame_ended bs l) = Some ((frame_ended bs l)\<lparr>m_usLength := n,
      pucMBRcvFrame := f, eCurErrorType := EV_ERROR_RECEIVE_DATA, m_eQueuedEvent := EV_MASTER_ERROR_PROCESS\<rparr>)"
    using poll_rejects[OF assms(2,3), of l e1] assms(1,4) by (auto simp: awaiting_def)
  let ?t = "request_finished EV_MASTER_ERROR_RECEIVE_DATA ((frame_ended bs l)\<lparr>m_usLength := n,
      pucMBRcvFrame := f, eCurErrorType := EV_ERROR_RECEIVE_DATA, sMBEventSem := False, m_xEventInQueue := False\<rparr>)"
  have "bus_steps (answer bs @ [Poll e1, Poll e2]) l = Some ?t"
    using answer_received[OF assms(2,3), of l "[Poll e1, Poll e2]"] assms(1) poll
    by (simp add: awaiting_def poll_error frame_ended_def received_def error_event_def request_finished_def
        del: bus_step.simps(2))
  moreover have "settled l ?t"
    using assms(1,3)
    by (simp add: awaiting_def settled_def request_finished_def frame_ended_def received_def same_program_def)
  ultimately show ?thesis by (simp add: request_finished_def)
qed

lemma exception_reported:
  assumes "awaiting addr l" "4 \<le> length bs" "length bs \<le> 256" "crc16 bs = 0" "hd bs = addr"
    and "bit (bs ! 1) 7" "bs ! 2 \<noteq> 0"
  shows "\<exists>t. bus_steps (answer bs @ [Poll e1, Poll e2, Poll e3]) l = Some t \<and> xMBIsFinished t \<and>
    m_eQueuedEvent t = EV_MASTER_ERROR_EXECUTE_FUNCTION \<and> settled l t"
proof -
  have "drop_bit 7 (bs ! 1) \<noteq> 0"
    using assms(6) bit_drop_bit_eq[of 7 "bs ! 1"] by (metis add.right_neutral bit_0_eq bot_apply bot_bool_def comp_apply)
  then have "master_execute 1 (executing bs l) = Some (bs ! 2, executing bs l)"
    using assms(2,3) by (simp add: master_execute_def executing_def frame_ended_def received_def get_def nth_append
        numeral_2_eq_2)
  then have poll: "bus_step (Poll e2) ((executing bs l)\<lparr>m_xEventInQueue := True, sMBEventSem := True\<rparr>) =
      Some (xMBMasterPortEventPost EV_MASTER_ERROR_PROCESS ((executing bs l)\<lparr>eCurErrorType := EV_ERROR_EXECUTE_FUNCTION\<rparr>))"
    using poll_executes[of l bs "bs ! 2"] assms(1,7) by (simp add: awaiting_def)
  let ?t = "request_finished EV_MASTER_ERROR_EXECUTE_FUNCTION ((xMBMasterPortEventPost EV_MASTER_ERROR_PROCESS
      ((executing bs l)\<lparr>eCurErrorType := EV_ERROR_EXECUTE_FUNCTION\<rparr>))\<lparr>sMBEventSem := False, m_xEventInQueue := False\<rparr>)"
  have "m_eMBState (xMBMasterPortEventPost EV_MASTER_ERROR_PROCESS ((executing bs l)\<lparr>eCurErrorType := EV_ERROR_EXECUTE_FUNCTION\<rparr>)) = STATE_ENABLED"
    using assms(1) by (simp add: awaiting_def xMBMasterPortEventPost_def executing_def frame_ended_def received_def)
  then have "bus_step (Poll e3) (xMBMasterPortEventPost EV_MASTER_ERROR_PROCESS
      ((executing bs l)\<lparr>eCurErrorType := EV_ERROR_EXECUTE_FUNCTION\<rparr>)) = Some ?t"
    by (subst poll_error) (simp_all add: xMBMasterPortEventPost_def error_event_def)
  then have "bus_steps (answer bs @ [Poll e1, Poll e2, Poll e3]) l = Some ?t"
    using answer_received[OF assms(2,3), of l "[Poll e1, Poll e2, Poll e3]"] assms(1,4,5) poll
      poll_accepts[OF assms(2,3), of l e1]
    by (simp add: awaiting_def del: bus_step.simps(2))
  moreover have "settled l ?t"
    using assms(1,3) by (simp add: awaiting_def settled_def request_finished_def executing_def frame_ended_def
        received_def same_program_def xMBMasterPortEventPost_def)
  ultimately show ?thesis by (intro exI[of _ ?t]) (simp add: request_finished_def)
qed

lemma silence_reported:
  assumes "awaiting addr l"
  shows "\<exists>t. bus_steps [Link (Expires Tmr_RespondTimeout), Poll e1] l = Some t \<and> xMBIsFinished t \<and>
    m_eQueuedEvent t = EV_MASTER_ERROR_RESPOND_TIMEOUT \<and> settled l t"
proof -
  have "bus_step (Link (Expires Tmr_RespondTimeout)) l = Some (silence_ended l)"
    using silence[of l] assms by (simp add: awaiting_def split: bind_splits)
  moreover have "bus_step (Poll e1) (silence_ended l) = Some (request_finished EV_MASTER_ERROR_RESPOND_TIMEOUT
      ((silence_ended l)\<lparr>sMBEventSem := False, m_xEventInQueue := False\<rparr>))"
    using assms by (subst poll_error) (simp_all add: silence_ended_def awaiting_def error_event_def)
  ultimately show ?thesis
    using assms by (simp add: request_finished_def settled_def awaiting_def silence_ended_def same_program_def
        del: bus_step.simps)
qed

lemma fragment_then_silence:
  assumes "awaiting addr l" "bs \<noteq> []" "length bs < 4"
  shows "\<exists>t. bus_steps (answer bs @ [Link (Expires Tmr_RespondTimeout), Poll e1]) l = Some t \<and> xMBIsFinished t \<and>
    m_eQueuedEvent t = EV_MASTER_ERROR_RESPOND_TIMEOUT \<and> settled l t"
proof -
  have "awaiting addr (fragment_dropped bs l)"
    using assms by (simp add: awaiting_def fragment_dropped_def received_def)
  moreover have "settled l t" if "settled (fragment_dropped bs l) t" for t
    using that by (simp add: settled_def same_program_def fragment_dropped_def received_def)
  ultimately show ?thesis
    using silence_reported[of addr "fragment_dropped bs l" e1] assms(1)
    by (auto simp: fragment_received[OF assms(3,2)] awaiting_def)
qed

definition request_fails ::
  "mb_task \<Rightarrow> u8 \<Rightarrow> u8 list \<Rightarrow> 'v bus_event list list \<Rightarrow> eMBMasterReqErrCode \<Rightarrow> 'v master \<Rightarrow> bool" where
  "request_fails cur addr pdu rest code s \<longleftrightarrow>
     (\<exists>t. master_request cur addr (start_request pdu (of_nat (length pdu)) addr) s = Some (Some code, t) \<and>
          gave_up cur addr rest s t)"


text \<open>A controller with one rooftop unit at address 5, on line.\<close>

definition unit_on_line :: "bms_name sMBSlaveDev" where
  "unit_on_line = \<lparr>sd_usProtocolID = 0, sd_ucDevAddr = 5, sd_ucOfflineTimes = 0, sd_xDataReady = True,
     sd_xSynchronized = True, sd_xStateTestRequest = False, sd_xDevOnTimeout = False, sd_xOnLine = True,
     sd_sDevOfflineTmr_runs = False, sd_psDevDataInfo = [vModularRoof_InitDevCommData 0], sd_psDevCurData = Some 0\<rparr>"

definition master_at_rest :: "bms_name bus_event list list \<Rightarrow> bms_name master" where
  "master_at_rest es = link.extend link_at_rest
     (master.fields STATE_SCAN_DEV [unit_on_line] (Some 0) 1 (replicate 50 0) (replicate 50 0) (\<lambda>_. 0) es)"

lemma master_at_rest_ready: "addr \<noteq> 0 \<Longrightarrow> addr \<le> 40 \<Longrightarrow> master_ready cur addr (master_at_rest es)"
  by (simp add: master_ready_def link_idle_def bus_free_for_def master_at_rest_def link.defs master.defs link_at_rest_def
      word_le_nat_alt unat_gt_0 Suc_le_eq)


end
