(* ===== verification/DevRead.thy ===== *)
theory DevRead
  imports MasterProps
begin

text \<open>
  Reading the holding registers of a device: the loop of the callback refines a pure loop over the
  buffer of the dictionary and the memory, and under the contract \<open>hold_dict\<close> every register of the
  answer changes its own variable only.
\<close>

section \<open>The dictionary in the state\<close>

definition dev_dict ::
  "nat \<Rightarrow> u8 \<Rightarrow> (eDataType \<Rightarrow> u8 \<Rightarrow> u16 \<Rightarrow> u16 option) \<Rightarrow> u8 \<Rightarrow> u16 \<Rightarrow> u16 \<Rightarrow>
   'v sMasterRegHoldData list \<Rightarrow> 'v master \<Rightarrow> bool" where
  "dev_dict i addr index pid lo hi buf s \<longleftrightarrow> psMBSlaveDevCur s = Some i \<and>
     (\<exists>d j. dev_at s i = Some d \<and> sd_ucDevAddr d = addr \<and> ucast (sd_usProtocolID d) = pid \<and>
        sd_psDevCurData d = Some j \<and> j < length (sd_psDevDataInfo d) \<and>
        md_pxDevDataMapIndex (sd_psDevDataInfo d ! j) = Some index \<and>
        pvDataBuf (md_RegHoldTable (sd_psDevDataInfo d ! j)) = Some buf \<and>
        usStartAddr (md_RegHoldTable (sd_psDevDataInfo d ! j)) = lo \<and>
        usEndAddr (md_RegHoldTable (sd_psDevDataInfo d ! j)) = hi \<and>
        usDataCount (md_RegHoldTable (sd_psDevDataInfo d ! j)) \<noteq> 0)"

lemma dev_dict_cong:
  assumes "psMBSlaveDevsList t = psMBSlaveDevsList s" "psMBSlaveDevCur t = psMBSlaveDevCur s"
  shows "dev_dict i addr index pid lo hi buf t = dev_dict i addr index pid lo hi buf s"
  by (simp only: dev_dict_def dev_at_def assms)

lemma dev_dict_map:
  assumes "dev_dict i addr index pid lo hi buf s" "\<And>k. index RegHoldData pid usReg = Some k \<Longrightarrow> unat k < length buf"
  shows "eMBMasterRegHoldingMap addr usReg s = Some (map_option unat (index RegHoldData pid usReg), s)"
  using assms by (auto simp: dev_dict_def eMBMasterRegHoldingMap_def master_map_def switch_dev_def cur_data_def
      split: option.split)

lemma dev_dict_entry:
  "dev_dict i addr index pid lo hi buf s \<Longrightarrow> k < length buf \<Longrightarrow> hold_entry s i k = Some (buf ! k)"
  by (auto simp: dev_dict_def hold_entry_def cur_data_def)

lemma dev_dict_update:
  assumes "dev_dict i addr index pid lo hi buf s"
  shows "dev_dict i addr index pid lo hi (buf[k := e]) ((upd_hold_entry i k (\<lambda>_. e) s)\<lparr>master_mem := m\<rparr>)"
  using assms by (auto simp: dev_dict_def dev_at_def upd_hold_entry_def upd_cur_data_def upd_dev_def upd_entry_def
      split: if_splits)

text \<open>What taking over registers leaves alone.\<close>

definition other_parts_same :: "nat \<Rightarrow> 'v master \<Rightarrow> 'v master \<Rightarrow> bool" where
  "other_parts_same i s t \<longleftrightarrow> link.truncate t = link.truncate s \<and> m_eMBRunMode t = m_eMBRunMode s \<and> bus t = bus s \<and>
     length (psMBSlaveDevsList t) = length (psMBSlaveDevsList s) \<and>
     (\<forall>i'. i' \<noteq> i \<longrightarrow> psMBSlaveDevsList t ! i' = psMBSlaveDevsList s ! i')"

lemma other_parts_refl [simp]: "other_parts_same i s s"
  by (simp add: other_parts_same_def)

lemma other_parts_trans: "other_parts_same i r s \<Longrightarrow> other_parts_same i s t \<Longrightarrow> other_parts_same i r t"
  by (simp add: other_parts_same_def)

lemma other_parts_update: "other_parts_same i s ((upd_hold_entry i k f s)\<lparr>master_mem := m\<rparr>)"
  by (simp add: other_parts_same_def upd_hold_entry_def upd_cur_data_def upd_dev_def link.defs)

lemma truncate_eqD:
  assumes "link.truncate t = link.truncate s"
  shows "ucRTURcvBuf t = ucRTURcvBuf s" "ucMBDestAddr t = ucMBDestAddr s" "m_eMBState t = m_eMBState s"
    "eRcvState t = eRcvState s" "ucRTUSndBuf t = ucRTUSndBuf s" "sMBIdleMutex t = sMBIdleMutex s"
    "m_ucSlaveDevMinAddr t = m_ucSlaveDevMinAddr s" "m_ucSlaveDevMaxAddr t = m_ucSlaveDevMaxAddr s"
    "sMBEventSem t = sMBEventSem s"
  using assms by (simp_all add: link.defs)

section \<open>The loop without the state\<close>

fun take_loop ::
  "eMasterRunMode \<Rightarrow> (u16 \<Rightarrow> u16 option) \<Rightarrow> 'v sMasterRegHoldData list \<Rightarrow> ('v \<Rightarrow> u16) \<Rightarrow> u16 \<Rightarrow> u16 list \<Rightarrow>
   'v sMasterRegHoldData list \<times> ('v \<Rightarrow> u16)" where
  "take_loop run idx buf m usReg [] = (buf, m)"
| "take_loop run idx buf m usReg (v # vs) =
     (case idx usReg of
        None \<Rightarrow> take_loop run idx buf m (usReg + 1) vs
      | Some k \<Rightarrow> (let (e, m') = hold_take run (buf ! unat k) v m
                  in take_loop run idx (buf[unat k := e]) m' (usReg + 1) vs))"

lemma hold_read_loop_refines:
  assumes "dev_dict i addr index pid lo hi buf s" "length buf = length tab"
    and inside: "\<And>a k. index RegHoldData pid a = Some k \<Longrightarrow> unat k < length tab"
    and "\<forall>q < length vs. get16 (ucRTURcvBuf s) (pos + 2 * q) = Some (vs ! q)"
    and "take_loop (m_eMBRunMode s) (index RegHoldData pid) buf (master_mem s) usReg vs = (buf', m')"
  shows "\<exists>t. hold_read_loop addr (length vs) pos usReg s = Some t \<and> dev_dict i addr index pid lo hi buf' t \<and>
    master_mem t = m' \<and> other_parts_same i s t"
  using assms(1,2,4,5)
proof (induction vs arbitrary: s buf pos usReg)
  case (Cons v vs)
  have map: "eMBMasterRegHoldingMap addr usReg s = Some (map_option unat (index RegHoldData pid usReg), s)"
    using Cons.prems(1,2) inside by (intro dev_dict_map) auto
  have v: "get16 (ucRTURcvBuf s) pos = Some v"
    using Cons.prems(3)[rule_format, of 0] by simp
  have rest: "\<forall>q < length vs. get16 (ucRTURcvBuf s) (pos + 2 + 2 * q) = Some (vs ! q)"
    using Cons.prems(3) by (auto dest: spec[of _ "Suc _"])
  show ?case
  proof (cases "index RegHoldData pid usReg")
    case None
    then show ?thesis
      using Cons.IH[OF Cons.prems(1,2) rest, of "usReg + 1"] Cons.prems(4) map v by simp
  next
    case (Some k)
    obtain e m1 where take: "hold_take (m_eMBRunMode s) (buf ! unat k) v (master_mem s) = (e, m1)"
      by (cases "hold_take (m_eMBRunMode s) (buf ! unat k) v (master_mem s)")
    define s1 where "s1 = (upd_hold_entry i (unat k) (\<lambda>_. e) s)\<lparr>master_mem := m1\<rparr>"
    have s1: "dev_dict i addr index pid lo hi (buf[unat k := e]) s1" "other_parts_same i s s1" "master_mem s1 = m1"
      using dev_dict_update[OF Cons.prems(1)] other_parts_update[of i s] by (simp_all add: s1_def)
    then have keep: "ucRTURcvBuf s1 = ucRTURcvBuf s" "m_eMBRunMode s1 = m_eMBRunMode s"
      by (auto simp: other_parts_same_def dest: truncate_eqD(1))
    have entry: "hold_entry s i (unat k) = Some (buf ! unat k)" "psMBSlaveDevCur s = Some i"
      using dev_dict_entry[OF Cons.prems(1)] inside[OF Some] Cons.prems(1,2) by (auto simp: dev_dict_def)
    obtain t where t: "hold_read_loop addr (length vs) (pos + 2) (usReg + 1) s1 = Some t"
        "dev_dict i addr index pid lo hi buf' t" "master_mem t = m'" "other_parts_same i s1 t"
      using Cons.IH[OF s1(1), of "pos + 2" "usReg + 1"] Cons.prems(2,4) rest keep s1(3) Some take by auto
    have "hold_read_loop addr (length (v # vs)) pos usReg s = hold_read_loop addr (length vs) (pos + 2) (usReg + 1) s1"
      using map v Some entry take by (simp add: s1_def)
    then show ?thesis
      using t other_parts_trans[OF s1(2) t(4)] by (intro exI[of _ t]) simp
  qed
qed auto

section \<open>What becomes of each variable\<close>

text \<open>
  The value of a variable after its register has been read as \<open>v\<close>: scaled, in range, and not waiting to
  be written to the device.
\<close>

definition read_value :: "'v sMasterRegHoldData \<Rightarrow> u16 \<Rightarrow> u16 \<Rightarrow> u16" where
  "read_value e v old =
     (let w = scaled_down (mh_ucTmitMult e) v
      in if mh_ucAccessMode e = WO \<or> \<not> hold_in_range e w \<or> (mh_ucAccessMode e = RW \<and> differs_from_pre e old)
         then old else reg_store (mh_ucDataType e) old w)"

lemma hold_take_value:
  "mh_pvValue e = Some x \<Longrightarrow> snd (hold_take STATE_SCAN_DEV e v m) = m(x := read_value e v (m x))"
  by (auto simp: hold_take_def read_value_def Let_def)

lemma hold_take_none: "mh_pvValue e = None \<Longrightarrow> hold_take run e v m = (e, m)"
  by (simp add: hold_take_def)

lemma hold_take_entry: "\<exists>p. fst (hold_take run e v m) = e\<lparr>mh_usPreVal := p\<rparr>"
proof -
  have "\<exists>p. e = e\<lparr>mh_usPreVal := p\<rparr>" by (rule exI[of _ "mh_usPreVal e"]) simp
  then show ?thesis by (auto simp: hold_take_def Let_def split: option.split)
qed

lemma of_nat_Suc_add: "a + 1 + of_nat q = a + of_nat (Suc q)" for a :: u16
  by (simp add: algebra_simps)

lemma add_of_nat_neq:
  fixes a :: u16
  assumes "q < n" "n \<le> 65535"
  shows "a \<noteq> a + 1 + of_nat q"
proof
  assume "a = a + 1 + of_nat q"
  then have "of_nat (Suc q) = (0 :: u16)" by (simp add: algebra_simps)
  then have "unat (of_nat (Suc q) :: u16) = 0" by simp
  then show False using assms by (simp add: unsigned_of_nat take_bit_nat_eq_self del: of_nat_Suc)
qed

text \<open>Only previous values change in the buffer, so variables stay where they are.\<close>

definition same_entries :: "'v sMasterRegHoldData list \<Rightarrow> 'v sMasterRegHoldData list \<Rightarrow> bool" where
  "same_entries buf buf' \<longleftrightarrow> length buf' = length buf \<and> (\<forall>j < length buf. \<exists>p. buf' ! j = (buf ! j)\<lparr>mh_usPreVal := p\<rparr>)"

definition taken ::
  "(u16 \<Rightarrow> u16 option) \<Rightarrow> u16 \<Rightarrow> u16 list \<Rightarrow> 'v sMasterRegHoldData list \<Rightarrow> ('v \<Rightarrow> u16) \<Rightarrow>
   'v sMasterRegHoldData list \<Rightarrow> ('v \<Rightarrow> u16) \<Rightarrow> bool" where
  "taken idx a vs buf m buf' m' \<longleftrightarrow> same_entries buf buf' \<and>
     (\<forall>q k x. q < length vs \<longrightarrow> idx (a + of_nat q) = Some k \<longrightarrow> mh_pvValue (buf ! unat k) = Some x \<longrightarrow>
        m' x = read_value (buf ! unat k) (vs ! q) (m x)) \<and>
     (\<forall>x. (\<forall>q k. q < length vs \<longrightarrow> idx (a + of_nat q) = Some k \<longrightarrow> mh_pvValue (buf ! unat k) \<noteq> Some x) \<longrightarrow>
        m' x = m x)"

section \<open>A good answer\<close>

lemma read_holding_request:
  assumes "master_ready cur addr s"
  shows "eMBMasterReqReadHoldingRegister cur addr a n s =
    master_request cur addr (start_request (read_pdu 3 a n) 5 addr) (s\<lparr>usRcvRequestBytes := n * 2 + 5\<rparr>)"
proof -
  have addr: "\<not> addr < m_ucSlaveDevMinAddr s" "\<not> addr > m_ucSlaveDevMaxAddr s"
    using assms by (auto simp: master_ready_def)
  obtain e m where "OSMutexPend cur (sMBIdleMutex s) = (Some e, m)"
    using pend_succeeds[of cur s] assms by (auto simp: master_ready_def)
  moreover have swap: "s\<lparr>sMBIdleMutex := m, xMBIsFinished := False, usRcvRequestBytes := n * 2 + 5\<rparr> =
      s\<lparr>usRcvRequestBytes := n * 2 + 5, sMBIdleMutex := m, xMBIsFinished := False\<rparr>" by simp
  ultimately show ?thesis
    using addr by (simp add: eMBMasterReqReadHoldingRegister_def master_request_def xMBMasterRunResTake_def)
      (simp only: swap)
qed

definition read_answer :: "u16 list \<Rightarrow> u8 list" where
  "read_answer vs = 3 # of_nat (2 * length vs) # concat (map word_bytes vs)"

lemma length_word_bytes_all [simp]: "length (concat (map word_bytes vs)) = 2 * length vs"
  by (induction vs) (auto simp: word_bytes_def)

lemma length_read_answer [simp]: "length (read_answer vs) = 2 * length vs + 2"
  by (simp add: read_answer_def)

lemma nth_word_bytes_all:
  "q < length vs \<Longrightarrow> concat (map word_bytes vs) ! (2 * q) = hi_byte (vs ! q) \<and>
     concat (map word_bytes vs) ! Suc (2 * q) = lo_byte (vs ! q)"
proof (induction vs arbitrary: q)
  case (Cons v vs)
  then show ?case by (cases q) (auto simp: word_bytes_def)
qed simp

lemma read_answer_values:
  assumes "q < length vs"
  shows "get16 (rtu_frame addr (read_answer vs) @ rest) (3 + 2 * q) = Some (vs ! q)"
proof -
  have "(rtu_frame addr (read_answer vs) @ rest) ! (3 + 2 * q) = hi_byte (vs ! q)"
    "(rtu_frame addr (read_answer vs) @ rest) ! (3 + 2 * q + 1) = lo_byte (vs ! q)"
    using assms nth_word_bytes_all[OF assms]
    by (simp_all add: rtu_frame_def read_answer_def Let_def nth_append nth_Cons' eval_nat_numeral)
  then show ?thesis using assms by (simp add: get16_eq)
qed

lemma holding_callback_reads:
  assumes "m_eMBRunMode s = STATE_SCAN_DEV" "dev_dict i (ucMBDestAddr s) index pid lo hi buf s" "length buf = length tab"
    and inside: "\<And>a k. index RegHoldData pid a = Some k \<Longrightarrow> unat k < length tab"
    and "\<forall>q < length vs. get16 (ucRTURcvBuf s) (pos + 2 * q) = Some (vs ! q)"
    and "vs \<noteq> []" "lo \<le> a" "unat a + length vs \<le> unat hi + 1" "unat n = length vs"
    and "take_loop STATE_SCAN_DEV (index RegHoldData pid) buf (master_mem s) a vs = (buf', m')"
  shows "\<exists>t. eMBMasterRegHoldingCB pos (a + 1) n Read s = Some (MB_ENOERR, t) \<and>
    dev_dict i (ucMBDestAddr s) index pid lo hi buf' t \<and> master_mem t = m' \<and> other_parts_same i s t"
proof -
  have "\<exists>t. hold_read_loop (ucMBDestAddr s) (length vs) pos a s = Some t \<and>
      dev_dict i (ucMBDestAddr s) index pid lo hi buf' t \<and> master_mem t = m' \<and> other_parts_same i s t"
    by (rule hold_read_loop_refines[OF assms(2,3) _ assms(5)]) (fact inside, simp add: assms(1,10))
  then obtain t where t: "hold_read_loop (ucMBDestAddr s) (length vs) pos a s = Some t"
      "dev_dict i (ucMBDestAddr s) index pid lo hi buf' t" "master_mem t = m'" "other_parts_same i s t" by blast
  have dev: "psMBSlaveDevCur s = Some i" "switch_dev (ucMBDestAddr s) s = Some (i, s)"
    using assms(2) by (auto simp: dev_dict_def switch_dev_def)
  obtain cd where cd: "cur_data s i = Some cd" "\<not> table_empty (md_RegHoldTable cd)"
      "usStartAddr (md_RegHoldTable cd) = lo" "usEndAddr (md_RegHoldTable cd) = hi"
    using assms(2) by (auto simp: dev_dict_def cur_data_def table_empty_def)
  have "uint n = int (length vs)" using assms(9) by (metis uint_nat)
  moreover have "int (unat a + length vs) \<le> int (unat hi + 1)" using assms(8) by (simp only: of_nat_le_iff)
  ultimately have "uint a + uint n - 1 \<le> uint hi" by simp
  then have "\<not> outside_table (md_RegHoldTable cd) a n"
    using assms(7) cd(3,4) by (simp add: outside_table_def not_less)
  then show ?thesis
    using t dev cd(1,2) assms(1,9) by (simp add: eMBMasterRegHoldingCB_def)
qed

text \<open>The PDU of the request, read back from the send buffer.\<close>

lemma request_fields:
  assumes "take 6 (ucRTUSndBuf s) = addr # read_pdu code a n"
  shows "snd16 1 s = Some a" "snd16 3 s = Some n"
proof -
  have len: "6 \<le> length (ucRTUSndBuf s)"
    using arg_cong[OF assms, of length] by (simp add: read_pdu_def)
  have "ucRTUSndBuf s ! j = (addr # read_pdu code a n) ! j" if "j < 6" for j
    using arg_cong[OF assms, of "\<lambda>l. l ! j"] that by simp
  from this[of 2] this[of 3] this[of 4] this[of 5] show "snd16 1 s = Some a" "snd16 3 s = Some n"
    using len by (simp_all add: snd16_def get16_eq read_pdu_def eval_nat_numeral)
qed

lemma execute_read_answer:
  assumes "m_eMBRunMode s = STATE_SCAN_DEV" "dev_dict i (ucMBDestAddr s) index pid lo hi buf s" "length buf = length tab"
    and "\<And>a k. index RegHoldData pid a = Some k \<Longrightarrow> unat k < length tab"
    and "vs \<noteq> []" "lo \<le> a" "unat a + length vs \<le> unat hi + 1" "length vs \<le> 125"
    and "take_loop STATE_SCAN_DEV (index RegHoldData pid) buf (master_mem s) a vs = (buf', m')"
    and "take 6 (ucRTUSndBuf s) = addr # read_pdu 3 a (of_nat (length vs))"
    and "ucRTURcvBuf s = rtu_frame addr (read_answer vs) @ rest" "\<not> xFrameIsBroadcast s"
    and "m_usLength s = of_nat (length (rtu_frame addr (read_answer vs))) - 3"
  shows "\<exists>t. master_execute 1 s = Some (0, t) \<and>
    dev_dict i (ucMBDestAddr s) index pid lo hi buf' t \<and> master_mem t = m' \<and> other_parts_same i s t"
proof -
  have n: "unat (of_nat (length vs) :: u16) = length vs"
    using assms(8) by (simp add: unsigned_of_nat take_bit_nat_eq_self)
  have n8: "unat (of_nat (2 * length vs) :: u8) = 2 * length vs"
    using assms(8) by (simp only: unsigned_of_nat) (simp add: take_bit_nat_eq_self)
  have regs: "\<forall>q < length vs. get16 (ucRTURcvBuf s) (3 + 2 * q) = Some (vs ! q)"
    using read_answer_values assms(11) by simp
  obtain t where t: "eMBMasterRegHoldingCB 3 (a + 1) (of_nat (length vs)) Read s = Some (MB_ENOERR, t)"
      "dev_dict i (ucMBDestAddr s) index pid lo hi buf' t" "master_mem t = m'" "other_parts_same i s t"
    using holding_callback_reads[OF assms(1,2,3) _ regs assms(5,6,7) n assms(9)] assms(4) by blast
  have len: "m_usLength s = of_nat (2 * length vs + 2)" using assms(13) by simp
  have "unat (m_usLength s) = 2 * length vs + 2"
    using assms(8) unfolding len by (simp only: unsigned_of_nat) (simp add: take_bit_nat_eq_self)
  then have "m_usLength s \<ge> 2" by (simp add: word_le_nat_alt)
  moreover have "get (ucRTURcvBuf s) 2 = Some (of_nat (2 * length vs))" "get (ucRTURcvBuf s) 1 = Some 3"
    using assms(11) by (simp_all add: get_def rtu_frame_def read_answer_def Let_def numeral_2_eq_2)
  moreover have "(of_nat (length vs) :: u16) \<ge> 1"
    using assms(5) n by (simp add: word_le_nat_alt Suc_le_eq)
  moreover have "2 * uint (of_nat (length vs) :: u16) = uint (of_nat (2 * length vs) :: u8)"
    unfolding uint_nat n n8 by simp
  moreover have "drop_bit 7 (3 :: u8) = 0" by simp
  ultimately show ?thesis
    using t request_fields[OF assms(10)] assms(12)
    by (simp add: master_execute_def xMasterFuncHandlers_def eMBMasterFuncReadHoldingRegister_def cb_exception_def
        numeral_2_eq_2 numeral_3_eq_3)
qed

context hold_dict
begin

lemma variable_place:
  assumes "map mh_pvValue buf = map mh_pvValue tab" "index RegHoldData pid a = Some k" "index RegHoldData pid b = Some l"
    and "mh_pvValue (buf ! unat k) = Some x" "mh_pvValue (buf ! unat l) = Some x"
  shows "a = b"
proof -
  have len: "length buf = length tab" using assms(1) by (metis length_map)
  have "mh_pvValue (tab ! j) = mh_pvValue (buf ! j)" if "j < length tab" for j
    using arg_cong[OF assms(1), of "\<lambda>l. l ! j"] that len by simp
  then have "mh_pvValue (tab ! unat k) = Some x" "mh_pvValue (tab ! unat l) = Some x"
    using assms(4,5) inside[OF assms(2)] inside[OF assms(3)] by auto
  then have "unat k = unat l" using own_variables inside[OF assms(2)] inside[OF assms(3)] by blast
  then show ?thesis using index_inj assms(2,3) word_unat_eq_iff[of k l] by blast
qed

lemma taken_skip:
  assumes "index RegHoldData pid a = None" "taken (index RegHoldData pid) (a + 1) vs buf m buf' m'"
  shows "taken (index RegHoldData pid) a (v # vs) buf m buf' m'"
  unfolding taken_def
proof (intro conjI allI impI)
  show "same_entries buf buf'" using assms(2) by (simp add: taken_def)
next
  fix q k x assume "q < length (v # vs)" "index RegHoldData pid (a + of_nat q) = Some k" "mh_pvValue (buf ! unat k) = Some x"
  then show "m' x = read_value (buf ! unat k) ((v # vs) ! q) (m x)"
    using assms by (cases q) (auto simp: taken_def of_nat_Suc_add[symmetric] simp del: of_nat_Suc)
next
  fix x assume none: "\<forall>q k. q < length (v # vs) \<longrightarrow> index RegHoldData pid (a + of_nat q) = Some k \<longrightarrow> mh_pvValue (buf ! unat k) \<noteq> Some x"
  have "mh_pvValue (buf ! unat k) \<noteq> Some x" if "q < length vs" "index RegHoldData pid (a + 1 + of_nat q) = Some k" for q k
    using none[rule_format, of "Suc q" k] that by (simp add: of_nat_Suc_add del: of_nat_Suc)
  then show "m' x = m x" using assms(2) by (auto simp: taken_def)
qed

lemma taken_entry:
  assumes vars: "map mh_pvValue buf = map mh_pvValue tab" and len: "length vs < 65535"
    and k0: "index RegHoldData pid a = Some k0"
    and take: "hold_take STATE_SCAN_DEV (buf ! unat k0) v m = (e, m1)"
    and rest: "taken (index RegHoldData pid) (a + 1) vs (buf[unat k0 := e]) m1 buf' m'"
  shows "taken (index RegHoldData pid) a (v # vs) buf m buf' m'"
  unfolding taken_def
proof (intro conjI allI impI)
  let ?e = "buf ! unat k0"
  obtain p where e: "e = ?e\<lparr>mh_usPreVal := p\<rparr>"
    using hold_take_entry[of STATE_SCAN_DEV ?e v m] take by auto
  have other: "k \<noteq> k0" "buf[unat k0 := e] ! unat k = buf ! unat k" "mh_pvValue (buf ! unat k) = Some x \<Longrightarrow> mh_pvValue ?e \<noteq> Some x"
    if "index RegHoldData pid (a + 1 + of_nat q) = Some k" "q < length vs" for q k x
  proof -
    have neq: "a \<noteq> a + 1 + of_nat q" using add_of_nat_neq[OF that(2)] len by simp
    then show "k \<noteq> k0" using index_inj that(1) k0 by blast
    then show "buf[unat k0 := e] ! unat k = buf ! unat k" by (simp add: word_unat_eq_iff)
    show "mh_pvValue (buf ! unat k) = Some x \<Longrightarrow> mh_pvValue ?e \<noteq> Some x"
      using variable_place[OF vars that(1) k0] neq by metis
  qed
  have m1: "m1 x = (if mh_pvValue ?e = Some x then read_value ?e v (m x) else m x)" for x
    using hold_take_value[of ?e _ v m] hold_take_none[of ?e STATE_SCAN_DEV v m] take by (cases "mh_pvValue ?e") auto
  have unread: "m' x = m1 x"
    if "\<And>q k. q < length vs \<Longrightarrow> index RegHoldData pid (a + 1 + of_nat q) = Some k \<Longrightarrow> mh_pvValue (buf ! unat k) \<noteq> Some x" for x
    using rest other(2) that by (auto simp: taken_def)
  have "\<exists>p. buf' ! j = (buf ! j)\<lparr>mh_usPreVal := p\<rparr>" if j: "j < length buf" for j
  proof -
    obtain p' where "buf' ! j = (buf[unat k0 := e] ! j)\<lparr>mh_usPreVal := p'\<rparr>"
      using rest j by (auto simp: taken_def same_entries_def)
    then show ?thesis using e j by (cases "j = unat k0") auto
  qed
  then show "same_entries buf buf'" using rest by (simp add: taken_def same_entries_def)
  fix x
  { fix q k assume q: "q < length (v # vs)" "index RegHoldData pid (a + of_nat q) = Some k" "mh_pvValue (buf ! unat k) = Some x"
    show "m' x = read_value (buf ! unat k) ((v # vs) ! q) (m x)"
    proof (cases q)
      case 0
      then have "k = k0" using q(2) k0 by simp
      then show ?thesis using 0 q(3) unread[of x] other(3) m1[of x] by auto
    next
      case (Suc q')
      then have q': "q' < length vs" "index RegHoldData pid (a + 1 + of_nat q') = Some k"
        using q(1,2) by (auto simp: of_nat_Suc_add simp del: of_nat_Suc)
      then have "m' x = read_value (buf ! unat k) (vs ! q') (m1 x)"
        using rest other(2)[OF q'(2,1)] q(3) by (auto simp: taken_def)
      then show ?thesis using Suc m1[of x] other(3)[OF q'(2,1) q(3)] by simp
    qed }
  assume none: "\<forall>q k. q < length (v # vs) \<longrightarrow> index RegHoldData pid (a + of_nat q) = Some k \<longrightarrow> mh_pvValue (buf ! unat k) \<noteq> Some x"
  have "mh_pvValue (buf ! unat k) \<noteq> Some x" if "q < length vs" "index RegHoldData pid (a + 1 + of_nat q) = Some k" for q k
    using none[rule_format, of "Suc q" k] that by (simp add: of_nat_Suc_add del: of_nat_Suc)
  then show "m' x = m x" using unread[of x] none[rule_format, of 0 k0] k0 m1[of x] by simp
qed

lemma take_loop_result:
  assumes "map mh_pvValue buf = map mh_pvValue tab" "length vs \<le> 65535"
    and "take_loop STATE_SCAN_DEV (index RegHoldData pid) buf m a vs = (buf', m')"
  shows "taken (index RegHoldData pid) a vs buf m buf' m'"
  using assms
proof (induction vs arbitrary: a buf m)
  case Nil
  have "\<exists>p. e = e\<lparr>mh_usPreVal := p\<rparr>" for e :: "'v sMasterRegHoldData" by (rule exI[of _ "mh_usPreVal e"]) simp
  then show ?case using Nil by (simp add: taken_def same_entries_def)
next
  case (Cons v vs)
  show ?case
  proof (cases "index RegHoldData pid a")
    case None
    then show ?thesis using Cons by (intro taken_skip) auto
  next
    case (Some k0)
    obtain e m1 where take: "hold_take STATE_SCAN_DEV (buf ! unat k0) v m = (e, m1)"
      by (cases "hold_take STATE_SCAN_DEV (buf ! unat k0) v m")
    have "mh_pvValue e = mh_pvValue (buf ! unat k0)"
      using hold_take_entry[of STATE_SCAN_DEV "buf ! unat k0" v m] take by auto
    then have "map mh_pvValue (buf[unat k0 := e]) = map mh_pvValue tab"
      using Cons.prems(1) by (metis list_update_id map_update nth_map list_update_beyond not_less)
    then show ?thesis
      using Cons Some take by (intro taken_entry[OF Cons.prems(1) _ Some take] Cons.IH) auto
  qed
qed

text \<open>The answer as it is handled by the poll task, and the whole exchange.\<close>

lemma read_answer_handled:
  fixes l :: "'v master"
  assumes l: "awaiting addr l" and run: "m_eMBRunMode l = STATE_SCAN_DEV"
    and dict: "dev_dict i addr index pid lo hi buf l" and len: "length buf = length tab"
    and vs: "vs \<noteq> []" "length vs \<le> 125" and range: "lo \<le> a" "unat a + length vs \<le> unat hi + 1"
    and pdu: "take 6 (ucRTUSndBuf l) = addr # read_pdu 3 a (of_nat (length vs))"
    and loop: "take_loop STATE_SCAN_DEV (index RegHoldData pid) buf (master_mem l) a vs = (buf', m')"
  shows "\<exists>t. bus_steps (answer (rtu_frame addr (read_answer vs)) @ [Poll e1, Poll e2]) l = Some t \<and> xMBIsFinished t \<and>
    m_eQueuedEvent t = EV_MASTER_PROCESS_SUCCESS \<and> dev_dict i addr index pid lo hi buf' t \<and> master_mem t = m' \<and>
    m_eMBRunMode t = STATE_SCAN_DEV \<and> bus t = bus l \<and> link_idle t \<and> m_eMBState t = STATE_ENABLED \<and>
    sMBIdleMutex t = sMBIdleMutex l \<and> m_ucSlaveDevMinAddr t = m_ucSlaveDevMinAddr l \<and>
    m_ucSlaveDevMaxAddr t = m_ucSlaveDevMaxAddr l \<and>
    (\<forall>i'. i' \<noteq> i \<longrightarrow> psMBSlaveDevsList t ! i' = psMBSlaveDevsList l ! i')"
proof -
  define bs where "bs = rtu_frame addr (read_answer vs)"
  have bs: "4 \<le> length bs" "length bs \<le> 256" "crc16 bs = 0" "hd bs = addr"
    using vs by (auto simp: bs_def crc16_rtu_frame hd_conv_nth)
  define x where "x = executing bs l"
  have keep: "m_eMBRunMode x = STATE_SCAN_DEV" "ucMBDestAddr x = addr" "master_mem x = master_mem l"
      "psMBSlaveDevsList x = psMBSlaveDevsList l" "psMBSlaveDevCur x = psMBSlaveDevCur l" "bus x = bus l"
      "\<not> xFrameIsBroadcast x" "sMBIdleMutex x = sMBIdleMutex l" "take 6 (ucRTUSndBuf x) = addr # read_pdu 3 a (of_nat (length vs))"
      "m_usLength x = of_nat (length bs) - 3" "ucRTURcvBuf x = bs @ drop (length bs) (ucRTURcvBuf l)"
      "m_eMBState x = STATE_ENABLED" "m_ucSlaveDevMinAddr x = m_ucSlaveDevMinAddr l" "m_ucSlaveDevMaxAddr x = m_ucSlaveDevMaxAddr l"
    using l run pdu by (simp_all add: x_def executing_def frame_ended_def received_def awaiting_def)
  have idle: "link_idle x"
    using l bs(2) by (simp add: x_def executing_def frame_ended_def received_def awaiting_def link_idle_def)
  have x_dict: "dev_dict i (ucMBDestAddr x) index pid lo hi buf x"
    using dict keep(2) dev_dict_cong[OF keep(4,5)] by simp
  have "\<exists>t. master_execute 1 x = Some (0, t) \<and> dev_dict i (ucMBDestAddr x) index pid lo hi buf' t \<and> master_mem t = m' \<and>
      other_parts_same i x t"
    using execute_read_answer[OF keep(1) x_dict len _ vs(1) range vs(2) _ keep(9) keep(11)[unfolded bs_def] keep(7)
        keep(10)[unfolded bs_def]] inside loop keep(3) by auto
  then obtain t where t: "master_execute 1 x = Some (0, t)" "dev_dict i addr index pid lo hi buf' t" "master_mem t = m'"
      "other_parts_same i x t"
    using keep(2) by auto
  note same = truncate_eqD[OF t(4)[unfolded other_parts_same_def, THEN conjunct1]]
  have "bus_steps (answer bs @ [Poll e1, Poll e2]) l = Some (request_finished EV_MASTER_PROCESS_SUCCESS t)"
    using answer_received[OF bs(1,2), of l "[Poll e1, Poll e2]"] l poll_accepts[OF bs(1,2) _ bs(3), of l e1]
      poll_executes[of l bs 0 t e2] t(1) bs(4) by (simp add: awaiting_def x_def del: bus_step.simps(2))
  moreover have "dev_dict i addr index pid lo hi buf' (request_finished EV_MASTER_PROCESS_SUCCESS t)"
    using t(2) by (subst dev_dict_cong[of _ t]) (simp_all add: request_finished_def)
  ultimately show ?thesis
    using t(3,4) same keep idle unfolding bs_def[symmetric]
    by (intro exI[of _ "request_finished EV_MASTER_PROCESS_SUCCESS t"])
      (simp add: request_finished_def other_parts_same_def link_idle_def)
qed

lemma read_exchange:
  fixes s :: "'v master"
  assumes ready: "master_ready cur addr s" and run: "m_eMBRunMode s = STATE_SCAN_DEV"
    and dict: "dev_dict i addr index pid lo hi buf s" and vars: "map mh_pvValue buf = map mh_pvValue tab"
    and vs: "vs \<noteq> []" "length vs \<le> 125" and range: "lo \<le> a" "unat a + length vs \<le> unat hi + 1"
    and bus: "bus s = (send_events e0 (read_pdu 3 a (of_nat (length vs))) @
      answer (rtu_frame addr (read_answer vs)) @ [Poll e1, Poll e2]) # rest"
  shows "\<exists>t buf'. eMBMasterReqReadHoldingRegister cur addr a (of_nat (length vs)) s = Some (Some MB_MRE_NO_ERR, t) \<and>
    dev_dict i addr index pid lo hi buf' t \<and>
    taken (index RegHoldData pid) a vs buf (master_mem s) buf' (master_mem t) \<and>
    master_ready cur addr t \<and> m_eMBRunMode t = STATE_SCAN_DEV \<and> bus t = rest \<and>
    (\<forall>i'. i' \<noteq> i \<longrightarrow> psMBSlaveDevsList t ! i' = psMBSlaveDevsList s ! i')"
proof -
  define pdu where "pdu = read_pdu 3 a (of_nat (length vs))"
  have pdu: "length pdu \<le> 250" "5 = of_nat (length pdu)" by (simp_all add: pdu_def read_pdu_def)
  obtain buf' m' where loop: "take_loop STATE_SCAN_DEV (index RegHoldData pid) buf (master_mem s) a vs = (buf', m')"
    by (cases "take_loop STATE_SCAN_DEV (index RegHoldData pid) buf (master_mem s) a vs")
  have len: "length buf = length tab" using vars by (metis length_map)
  define s0 where "s0 = s\<lparr>usRcvRequestBytes := of_nat (length vs) * 2 + 5\<rparr>"
  have s0: "master_ready cur addr s0" "bus s0 = (send_events e0 pdu @ answer (rtu_frame addr (read_answer vs)) @ [Poll e1, Poll e2]) # rest"
    using ready bus by (simp_all add: s0_def pdu_def master_ready_def link_idle_def bus_free_for_def)
  let ?P = "\<lambda>t. m_eQueuedEvent t = EV_MASTER_PROCESS_SUCCESS \<and> dev_dict i addr index pid lo hi buf' t \<and> master_mem t = m' \<and>
    master_ready cur addr t \<and> m_eMBRunMode t = STATE_SCAN_DEV \<and> bus t = rest \<and>
    (\<forall>i'. i' \<noteq> i \<longrightarrow> psMBSlaveDevsList t ! i' = psMBSlaveDevsList s ! i')"
  have answered: "\<exists>t. bus_steps (answer (rtu_frame addr (read_answer vs)) @ [Poll e1, Poll e2])
      (line_turned addr pdu (requesting addr pdu m (s0\<lparr>bus := rest\<rparr>))) = Some t \<and> xMBIsFinished t \<and> ?P t"
    if m: "OwnerTCB m = Some cur" for m
  proof -
    define l where "l = line_turned addr pdu (requesting addr pdu m (s0\<lparr>bus := rest\<rparr>))"
    have l: "awaiting addr l" using line_turned_awaits[OF s0(1) pdu(1)] by (simp add: l_def)
    have keep: "psMBSlaveDevsList l = psMBSlaveDevsList s" "psMBSlaveDevCur l = psMBSlaveDevCur s" "m_eMBRunMode l = STATE_SCAN_DEV"
        "master_mem l = master_mem s" "bus l = rest" "sMBIdleMutex l = m" "m_ucSlaveDevMinAddr l = m_ucSlaveDevMinAddr s"
        "m_ucSlaveDevMaxAddr l = m_ucSlaveDevMaxAddr s" "take 6 (ucRTUSndBuf l) = addr # read_pdu 3 a (of_nat (length vs))"
      using run by (simp_all add: l_def s0_def line_turned_def sending_def requesting_def rtu_frame_def Let_def pdu_def read_pdu_def)
    have "dev_dict i addr index pid lo hi buf l" using dict dev_dict_cong[OF keep(1,2)] by simp
    from read_answer_handled[OF l keep(3) this len vs range keep(9), of buf' m' e1 e2] show ?thesis
      using loop keep ready m by (auto simp: l_def[symmetric] master_ready_def bus_free_for_def)
  qed
  obtain t where t: "?P t" "master_request cur addr (start_request pdu 5 addr) s0 =
      Some (Some (finished_code (m_eQueuedEvent t)), t\<lparr>xWaitFinishInQueue := False\<rparr>)"
    using exchange[OF s0(1) pdu s0(2) answered] by blast
  have "eMBMasterReqReadHoldingRegister cur addr a (of_nat (length vs)) s = master_request cur addr (start_request pdu 5 addr) s0"
    using read_holding_request[OF ready] by (simp add: s0_def pdu_def)
  then have "eMBMasterReqReadHoldingRegister cur addr a (of_nat (length vs)) s =
      Some (Some MB_MRE_NO_ERR, t\<lparr>xWaitFinishInQueue := False\<rparr>)"
    using t by (simp add: finished_code_def)
  moreover have "taken (index RegHoldData pid) a vs buf (master_mem s) buf' (master_mem t)"
    using take_loop_result[OF vars _ loop] vs(2) t(1) by simp
  moreover have "dev_dict i addr index pid lo hi buf' (t\<lparr>xWaitFinishInQueue := False\<rparr>)"
    using t(1) by (subst dev_dict_cong[of _ t]) simp_all
  ultimately show ?thesis
    using t(1) by (intro exI[of _ "t\<lparr>xWaitFinishInQueue := False\<rparr>"] exI[of _ buf'])
      (simp add: master_ready_def link_idle_def bus_free_for_def)
qed

end

section \<open>By address\<close>

lemma same_entries_variables:
  assumes "same_entries buf buf'"
  shows "map mh_pvValue buf' = map mh_pvValue buf" "j < length buf \<Longrightarrow> mh_pvValue (buf' ! j) = mh_pvValue (buf ! j)"
    "j < length buf \<Longrightarrow> mh_usAddr (buf' ! j) = mh_usAddr (buf ! j)"
proof -
  have *: "mh_pvValue (buf' ! j) = mh_pvValue (buf ! j)" "mh_usAddr (buf' ! j) = mh_usAddr (buf ! j)" if j: "j < length buf" for j
  proof -
    obtain p where "buf' ! j = (buf ! j)\<lparr>mh_usPreVal := p\<rparr>" using assms j by (auto simp: same_entries_def)
    then show "mh_pvValue (buf' ! j) = mh_pvValue (buf ! j)" "mh_usAddr (buf' ! j) = mh_usAddr (buf ! j)" by simp_all
  qed
  then show "map mh_pvValue buf' = map mh_pvValue buf"
    using assms by (intro nth_equalityI) (simp_all add: same_entries_def)
  show "j < length buf \<Longrightarrow> mh_pvValue (buf' ! j) = mh_pvValue (buf ! j)"
    "j < length buf \<Longrightarrow> mh_usAddr (buf' ! j) = mh_usAddr (buf ! j)" using * by blast+
qed

lemma same_entries_trans:
  assumes "same_entries a b" "same_entries b c"
  shows "same_entries a c"
  unfolding same_entries_def
proof (intro conjI allI impI)
  show "length c = length a" using assms by (simp add: same_entries_def)
  fix j assume j: "j < length a"
  obtain p where "b ! j = (a ! j)\<lparr>mh_usPreVal := p\<rparr>" using assms(1) j by (auto simp: same_entries_def)
  moreover obtain p' where "c ! j = (b ! j)\<lparr>mh_usPreVal := p'\<rparr>" using assms j by (auto simp: same_entries_def)
  ultimately show "\<exists>p. c ! j = (a ! j)\<lparr>mh_usPreVal := p\<rparr>" by auto
qed

context exact_dict
begin

lemma taken_by_address:
  assumes taken: "taken (index RegHoldData pid) a vs buf m buf' m'" and buf: "same_entries tab buf"
    and range: "unat a + length vs \<le> 65536" and len: "length tab \<le> 65536"
    and k: "k < length tab" "mh_pvValue (tab ! k) = Some x"
  shows "m' x = (let r = unat (mh_usAddr (tab ! k))
    in if unat a \<le> r \<and> r < unat a + length vs then read_value (buf ! k) (vs ! (r - unat a)) (m x) else m x)"
proof -
  define k' where "k' = (of_nat k :: u16)"
  have k': "unat k' = k" using k(1) len by (simp add: k'_def unsigned_of_nat take_bit_nat_eq_self)
  then have idx: "index RegHoldData pid (mh_usAddr (tab ! k)) = Some k'" using complete[of k'] k by simp
  have pv: "mh_pvValue (buf ! k) = Some x" using same_entries_variables(2)[OF buf k(1)] k(2) by simp
  have sum: "unat (a + of_nat q) = unat a + q" if "q < length vs" for q
    using that range by (simp add: unat_word_ariths unsigned_of_nat take_bit_nat_eq_self)
  show ?thesis
  proof (cases "unat a \<le> unat (mh_usAddr (tab ! k)) \<and> unat (mh_usAddr (tab ! k)) < unat a + length vs")
    case True
    define q where "q = unat (mh_usAddr (tab ! k)) - unat a"
    have q: "q < length vs" using True by (auto simp: q_def)
    have "a + of_nat q = mh_usAddr (tab ! k)"
      using sum[OF q] True by (simp add: word_unat_eq_iff q_def)
    then have "m' x = read_value (buf ! k) (vs ! q) (m x)"
      using taken q idx k' pv by (auto simp: taken_def)
    then show ?thesis using True by (simp add: q_def Let_def)
  next
    case False
    have "mh_pvValue (buf ! unat l) \<noteq> Some x" if q: "q < length vs" "index RegHoldData pid (a + of_nat q) = Some l" for q l
    proof
      assume "mh_pvValue (buf ! unat l) = Some x"
      then have "mh_pvValue (tab ! unat l) = Some x"
        using same_entries_variables(2)[OF buf] inside[OF q(2)] by simp
      then have "unat l = k" using own_variables[OF inside[OF q(2)] k(1)] k(2) by simp
      then have "mh_usAddr (tab ! k) = a + of_nat q" using same_address[OF q(2)] by simp
      then show False using False sum[OF q(1)] q(1) by simp
    qed
    then have "m' x = m x" using taken by (auto simp: taken_def)
    then show ?thesis using False by (auto simp: Let_def)
  qed
qed

lemma taken_elsewhere:
  assumes taken: "taken (index RegHoldData pid) a vs buf m buf' m'" and buf: "same_entries tab buf"
    and x: "Some x \<notin> mh_pvValue ` set tab"
  shows "m' x = m x"
proof -
  have "mh_pvValue (buf ! unat k) \<noteq> Some x" if "index RegHoldData pid (a + of_nat q) = Some k" for q k
    using same_entries_variables(2)[OF buf inside[OF that]] x nth_mem[OF inside[OF that]] by (metis image_eqI)
  then show ?thesis using taken by (auto simp: taken_def)
qed

end

section \<open>Reading a rooftop unit\<close>

definition unit_dict :: "nat \<Rightarrow> nat \<Rightarrow> u8 \<Rightarrow> bms_name sMasterRegHoldData list \<Rightarrow> bms_name master \<Rightarrow> bool" where
  "unit_dict n i addr buf s \<longleftrightarrow> dev_dict i addr xModularRoof_DevDataMapIndex 0 0 55 buf s \<and>
     same_entries (roof_hold_table n @ replicate 2 zero_hold) buf"

text \<open>
  C33. The task that scans asks unit \<open>n\<close> for registers \<open>a\<close>, \<open>a + 1\<close>, \dots and the unit answers with
  values \<open>vs\<close>. The request ends without an error. Of the 28 variables behind the unit's registers those
  outside the range keep their value; those inside get the value of their own register, scaled, if it
  can be read, is in range and the variable is not waiting to be written (\<open>read_value\<close>), and keep their
  value otherwise. No other variable, no other device and of the dictionary only the previous values
  change, and the line is ready for the next request.
\<close>

theorem unit_registers_read:
  assumes ready: "master_ready cur addr s" and run: "m_eMBRunMode s = STATE_SCAN_DEV"
    and dict: "unit_dict n i addr buf s" and vs: "vs \<noteq> []" "unat a + length vs \<le> 56"
    and bus: "bus s = (send_events e0 (read_pdu 3 a (of_nat (length vs))) @
      answer (rtu_frame addr (read_answer vs)) @ [Poll e1, Poll e2]) # rest"
  shows "\<exists>t buf'. eMBMasterReqReadHoldingRegister cur addr a (of_nat (length vs)) s = Some (Some MB_MRE_NO_ERR, t) \<and>
    (\<forall>k < 28. \<forall>x. mh_pvValue (roof_hold_table n ! k) = Some x \<longrightarrow>
       master_mem t x = (let r = unat (mh_usAddr (roof_hold_table n ! k))
         in if unat a \<le> r \<and> r < unat a + length vs then read_value (buf ! k) (vs ! (r - unat a)) (master_mem s x)
            else master_mem s x)) \<and>
    (\<forall>x. Some x \<notin> mh_pvValue ` set (roof_hold_table n) \<longrightarrow> master_mem t x = master_mem s x) \<and>
    (\<forall>i'. i' \<noteq> i \<longrightarrow> psMBSlaveDevsList t ! i' = psMBSlaveDevsList s ! i') \<and>
    unit_dict n i addr buf' t \<and> master_ready cur addr t \<and> bus t = rest"
proof -
  let ?tab = "roof_hold_table n @ replicate 2 zero_hold"
  have d: "dev_dict i addr xModularRoof_DevDataMapIndex 0 0 55 buf s" and same: "same_entries ?tab buf"
    using dict by (auto simp: unit_dict_def)
  obtain t buf' where t: "eMBMasterReqReadHoldingRegister cur addr a (of_nat (length vs)) s = Some (Some MB_MRE_NO_ERR, t)"
      "dev_dict i addr xModularRoof_DevDataMapIndex 0 0 55 buf' t"
      "taken (xModularRoof_DevDataMapIndex RegHoldData 0) a vs buf (master_mem s) buf' (master_mem t)"
      "master_ready cur addr t" "bus t = rest" "\<forall>i'. i' \<noteq> i \<longrightarrow> psMBSlaveDevsList t ! i' = psMBSlaveDevsList s ! i'"
    using roof_dict.read_exchange[OF ready run d same_entries_variables(1)[OF same] vs(1) _ _ _ bus] vs(2) by auto
  have "master_mem t x = (let r = unat (mh_usAddr (roof_hold_table n ! k))
      in if unat a \<le> r \<and> r < unat a + length vs then read_value (buf ! k) (vs ! (r - unat a)) (master_mem s x)
         else master_mem s x)" if "k < 28" "mh_pvValue (roof_hold_table n ! k) = Some x" for k x
    using roof_dict.taken_by_address[OF t(3) same, of k x] vs(2) that length_roof_hold[of n] by (simp add: nth_append)
  moreover have "master_mem t x = master_mem s x" if "Some x \<notin> mh_pvValue ` set (roof_hold_table n)" for x
    using roof_dict.taken_elsewhere[OF t(3) same, of x] that by (auto simp: zero_hold_def)
  moreover have "unit_dict n i addr buf' t"
    using t(2,3) same_entries_trans[OF same] by (simp add: unit_dict_def taken_def)
  ultimately show ?thesis using t(1,4-6) by blast
qed

text \<open>The unit of the example reports a return air temperature of 21.5 degrees.\<close>

theorem unit_registers_read_witness:
  "\<exists>t. eMBMasterReqReadHoldingRegister Task_ScanRead 5 44 1
     (master_at_rest [send_events EV_MASTER_READY (read_pdu 3 44 1) @ answer (rtu_frame 5 (read_answer [215])) @
        [Poll EV_MASTER_READY, Poll EV_MASTER_READY]]) = Some (Some MB_MRE_NO_ERR, t) \<and>
     master_mem t (Unit 0 ''sRetAir_T'') = 215"
proof -
  define es where "es = send_events EV_MASTER_READY (read_pdu 3 44 (of_nat (length [215 :: u16]))) @
     answer (rtu_frame 5 (read_answer [215])) @ [Poll EV_MASTER_READY, Poll EV_MASTER_READY :: bms_name bus_event]"
  let ?buf = "roof_hold_table 0 @ replicate 2 zero_hold" and ?s = "master_at_rest [es]"
  have p: "\<exists>p. e = e\<lparr>mh_usPreVal := p\<rparr>" for e :: "bms_name sMasterRegHoldData"
    by (rule exI[of _ "mh_usPreVal e"]) simp
  then have "same_entries ?buf ?buf" by (simp add: same_entries_def)
  then have dict: "unit_dict 0 0 5 ?buf ?s"
    by (simp add: unit_dict_def dev_dict_def dev_at_def master_at_rest_def link.defs master.defs unit_on_line_def
        vModularRoof_InitDevCommData_def vMBMasterDevDataTableInit_def length_roof_hold)
  have s: "m_eMBRunMode ?s = STATE_SCAN_DEV" "bus ?s = es # []" "master_mem ?s = (\<lambda>_. 0)"
    by (simp_all add: master_at_rest_def link.defs master.defs)
  have b: "bus ?s = (send_events EV_MASTER_READY (read_pdu 3 44 (of_nat (length [215 :: u16]))) @
      answer (rtu_frame 5 (read_answer [215])) @ [Poll EV_MASTER_READY, Poll EV_MASTER_READY]) # []"
    unfolding es_def[symmetric] by (rule s(2))
  have entry: "roof_hold_table 0 ! 17 = hold_reg 44 MB_int16 (-200) 1400 0 RO 1 (Unit 0 ''sRetAir_T'')"
    by (simp add: roof_hold_table_def)
  have "\<exists>t buf'. eMBMasterReqReadHoldingRegister Task_ScanRead 5 44 (of_nat (length [215 :: u16])) ?s = Some (Some MB_MRE_NO_ERR, t) \<and>
      (\<forall>k < 28. \<forall>x. mh_pvValue (roof_hold_table 0 ! k) = Some x \<longrightarrow>
       master_mem t x = (let r = unat (mh_usAddr (roof_hold_table 0 ! k))
         in if unat (44 :: u16) \<le> r \<and> r < unat (44 :: u16) + length [215 :: u16]
            then read_value (?buf ! k) ([215] ! (r - unat (44 :: u16))) (master_mem ?s x) else master_mem ?s x)) \<and>
      (\<forall>x. Some x \<notin> mh_pvValue ` set (roof_hold_table 0) \<longrightarrow> master_mem t x = master_mem ?s x) \<and>
      (\<forall>i'. i' \<noteq> 0 \<longrightarrow> psMBSlaveDevsList t ! i' = psMBSlaveDevsList ?s ! i') \<and>
      unit_dict 0 0 5 buf' t \<and> master_ready Task_ScanRead 5 t \<and> bus t = []"
    by (rule unit_registers_read[OF _ s(1) dict _ _ b]) (simp_all add: master_at_rest_ready)
  then obtain t where t: "eMBMasterReqReadHoldingRegister Task_ScanRead 5 44 (of_nat (length [215 :: u16])) ?s = Some (Some MB_MRE_NO_ERR, t)"
      "\<forall>k < 28. \<forall>x. mh_pvValue (roof_hold_table 0 ! k) = Some x \<longrightarrow>
       master_mem t x = (let r = unat (mh_usAddr (roof_hold_table 0 ! k))
         in if unat (44 :: u16) \<le> r \<and> r < unat (44 :: u16) + length [215 :: u16]
            then read_value (?buf ! k) ([215] ! (r - unat (44 :: u16))) (master_mem ?s x) else master_mem ?s x)"
    by blast
  have "master_mem t (Unit 0 ''sRetAir_T'') = read_value (roof_hold_table 0 ! 17) 215 0"
    using t(2)[rule_format, of 17 "Unit 0 ''sRetAir_T''"] length_roof_hold[of 0] s(3)
    by (simp add: entry vMBMasterDevRegHoldDataInit_def nth_append)
  also have "\<dots> = 215"
    by (simp add: entry vMBMasterDevRegHoldDataInit_def read_value_def scaled_down_def hold_in_range_def reg_store_def)
  finally show ?thesis using t(1) by (auto simp: es_def)
qed

end
