(* ===== verification/MbScan.thy ===== *)
theory MbScan
  imports MbMaster
begin

text \<open>
  Scanning the devices of the Modbus master (\<open>mbscan_m.c\<close>) and testing whether they are there
  (\<open>mbtest_m.c\<close>), each loop of the code as a recursive function over the entries of a table.

  A result without a code or a state marked \<open>None\<close> means that the task still waits for the bus.
\<close>

unbundle bit_operations_syntax

section \<open>Reading\<close>

text \<open>
  The loops over input registers, holding registers and coils share one shape: an entry further than
  \<open>interval\<close> from the one before, or one that cannot be read, ends the block of addresses collected so
  far, and so do the last entry and a block of \<open>num\<close> addresses. They differ in these two limits and in
  the request; the loop over coils would also stop at the code \<open>MB_MRE_ETIMEDOUT\<close> (\<open>stop\<close>), and there
  \<open>iReadStartCoilAddr\<close> is also set by entries that cannot be read, before any use. Addresses and access
  modes of a dictionary do not change, so they are a list; the other arguments are the local variables.
\<close>

type_synonym 'v scan_request = "u16 \<Rightarrow> u16 \<Rightarrow> 'v master \<Rightarrow> (eMBMasterReqErrCode option \<times> 'v master) option"

definition block_request ::
  "'v scan_request \<Rightarrow> bool \<Rightarrow> u16 \<Rightarrow> u16 \<Rightarrow> eMBMasterReqErrCode \<Rightarrow> 'v master \<Rightarrow>
   (eMBMasterReqErrCode option \<times> 'v master) option" where
  "block_request req due start n eStatus s = (if due then req start n s else Some (Some eStatus, s))"

definition block_limits :: "int \<Rightarrow> u16 \<times> bool \<Rightarrow> u16 \<Rightarrow> u16 \<Rightarrow> u16 \<Rightarrow> bool \<times> u16 \<times> u16" where
  "block_limits interval entry iLastAddr iStart iCount =
     (let (addr, readable) = entry
      in if uint addr - uint iLastAddr + 1 > interval
         then (iCount > 0, (if readable then addr else iStart), (if readable then 1 else 0))
         else (let start = (if iCount = 0 \<and> readable then addr else iStart)
               in (False, start, (if readable then addr - start + 1 else iCount))))"

fun read_scan_loop ::
  "int \<Rightarrow> u16 \<Rightarrow> bool \<Rightarrow> 'v scan_request \<Rightarrow> (u16 \<times> bool) list \<Rightarrow> u16 \<Rightarrow> u16 \<Rightarrow> u16 \<Rightarrow> eMBMasterReqErrCode \<Rightarrow>
   'v master \<Rightarrow> (eMBMasterReqErrCode option \<times> 'v master) option" where
  "read_scan_loop interval num stop req [] iLastAddr iStart iCount eStatus s = Some (Some eStatus, s)"
| "read_scan_loop interval num stop req (e # es) iLastAddr iStart iCount eStatus s =
     (let (due, start, n) = block_limits interval e iLastAddr iStart iCount
      in do { (r1, s1) \<leftarrow> block_request req due iStart iCount eStatus s;
              (case r1 of None \<Rightarrow> Some (None, s1)
               | Some st1 \<Rightarrow>
                   (let due2 = (\<not> snd e \<or> es = [] \<or> n \<ge> num) \<and> n > 0
                    in do { (r2, s2) \<leftarrow> block_request req due2 start n st1 s1;
                            (case r2 of None \<Rightarrow> Some (None, s2)
                             | Some st2 \<Rightarrow>
                                 if due2 \<and> stop \<and> st2 = MB_MRE_ETIMEDOUT then Some (Some st2, s2)
                                 else read_scan_loop interval num stop req es (fst e) start
                                        (if due2 then 0 else n) st2 s2) })) })"

definition read_scan ::
  "int \<Rightarrow> u16 \<Rightarrow> bool \<Rightarrow> 'v scan_request \<Rightarrow> 'd sMBDevDataTable \<Rightarrow> ('d \<Rightarrow> u16) \<Rightarrow> ('d \<Rightarrow> access_mode) \<Rightarrow> 'v master \<Rightarrow>
   (eMBMasterReqErrCode option \<times> 'v master) option" where
  "read_scan interval num stop req tab addr acc s =
     (case pvDataBuf tab of
        None \<Rightarrow> Some (Some MB_MRE_NO_ERR, s)
      | Some buf \<Rightarrow>
          if length buf < unat (usDataCount tab) then None
          else read_scan_loop interval num stop req
                 (map (\<lambda>d. (addr d, acc d \<noteq> WO)) (take (unat (usDataCount tab)) buf)) 0 0 0 MB_MRE_NO_ERR s)"

definition MB_SCAN_MAX_REG_INTERVAL :: int where "MB_SCAN_MAX_REG_INTERVAL = 10"
definition MB_SCAN_MAX_REG_NUM :: u16 where "MB_SCAN_MAX_REG_NUM = 50"
definition MB_SCAN_MAX_BIT_INTERVAL :: int where "MB_SCAN_MAX_BIT_INTERVAL = 80"
definition MB_SCAN_MAX_BIT_NUM :: u16 where "MB_SCAN_MAX_BIT_NUM = 400"

definition eMBMasterScanReadRegIn ::
  "mb_task \<Rightarrow> nat \<Rightarrow> 'v master \<Rightarrow> (eMBMasterReqErrCode option \<times> 'v master) option" where
  "eMBMasterScanReadRegIn cur i s =
     do { d \<leftarrow> dev_at s i; cd \<leftarrow> cur_data s i;
          read_scan MB_SCAN_MAX_REG_INTERVAL MB_SCAN_MAX_REG_NUM False
            (eMBMasterReqReadInputRegister cur (sd_ucDevAddr d)) (md_RegInTable cd) mi_usAddr mi_ucAccessMode s }"

definition eMBMasterScanReadRegHold ::
  "mb_task \<Rightarrow> nat \<Rightarrow> 'v master \<Rightarrow> (eMBMasterReqErrCode option \<times> 'v master) option" where
  "eMBMasterScanReadRegHold cur i s =
     do { d \<leftarrow> dev_at s i; cd \<leftarrow> cur_data s i;
          read_scan MB_SCAN_MAX_REG_INTERVAL MB_SCAN_MAX_REG_NUM False
            (eMBMasterReqReadHoldingRegister cur (sd_ucDevAddr d)) (md_RegHoldTable cd) mh_usAddr mh_ucAccessMode s }"

definition eMBMasterScanReadCoils ::
  "mb_task \<Rightarrow> nat \<Rightarrow> 'v master \<Rightarrow> (eMBMasterReqErrCode option \<times> 'v master) option" where
  "eMBMasterScanReadCoils cur i s =
     do { d \<leftarrow> dev_at s i; cd \<leftarrow> cur_data s i;
          read_scan MB_SCAN_MAX_BIT_INTERVAL MB_SCAN_MAX_BIT_NUM True
            (eMBMasterReqReadCoils cur (sd_ucDevAddr d)) (md_CoilTable cd) mc_usAddr mc_ucAccessMode s }"

section \<open>Writing holding registers\<close>

text \<open>
  The value to send, if the register has one to be sent: scaled, different from the value the device
  has (unless \<open>check\<close> is off) and in range. Products with the factor are exact in single precision and
  are cut to the width of the type.
\<close>

definition scaled_up :: "u8 \<Rightarrow> u16 \<Rightarrow> u16" where
  "scaled_up tmit v = (if tmit \<noteq> 1 then v * ucast tmit else v)"

definition hold_out :: "bool \<Rightarrow> 'v sMasterRegHoldData \<Rightarrow> ('v \<Rightarrow> u16) \<Rightarrow> u16 option" where
  "hold_out check e m =
     (case mh_pvValue e of
        None \<Rightarrow> None
      | Some x \<Rightarrow>
          if mh_ucAccessMode e = RO then None
          else let pre = mh_usPreVal e; mn = mh_usMinVal e; mx = mh_usMaxVal e; w = scaled_up (mh_ucTmitMult e)
               in case mh_ucDataType e of
                    MB_uint16 \<Rightarrow> (let v = w (m x)
                                 in if (pre \<noteq> v \<or> \<not> check) \<and> mn \<le> v \<and> v \<le> mx then Some v else None)
                  | MB_uint8 \<Rightarrow> (let v = ucast (ucast (w (ucast (ucast (m x) :: u8))) :: u8)
                                in if (pre \<noteq> v \<or> \<not> check) \<and> mn \<le> v \<and> v \<le> mx then Some v else None)
                  | MB_int16 \<Rightarrow> (let v = w (m x)
                                in if (pre \<noteq> v \<or> \<not> check) \<and> sint mn \<le> sint v \<and> sint v \<le> sint mx
                                   then Some v else None)
                  | MB_int8 \<Rightarrow> (let v = ucast (w (m x)) :: u8
                               in if (ucast pre \<noteq> v \<or> \<not> check) \<and> sint (ucast mn :: u8) \<le> sint v \<and>
                                     sint v \<le> sint (ucast mx :: u8)
                                  then Some (scast v) else None)
                  | MB_other \<Rightarrow> None)"

definition eMBMasterWriteRegHold ::
  "mb_task \<Rightarrow> u8 \<Rightarrow> u16 \<Rightarrow> u16 \<Rightarrow> 'v master \<Rightarrow> (eMBMasterReqErrCode option \<times> 'v master) option" where
  "eMBMasterWriteRegHold cur addr reg n s =
     eMBMasterReqWriteMultipleHoldingRegister cur addr reg n (RegHoldValList s) s"

text \<open>The local variables that live across iterations; the count of values is the fill of \<open>RegHoldValList\<close>.\<close>

record write_scan =
  ws_iLastAddr :: u16
  ws_iWriteStartRegAddr :: u16
  ws_iWriteCount :: u16
  ws_iRegs :: u16
  ws_bStarted :: bool
  ws_eStatus :: eMBMasterReqErrCode

text \<open>Lines 233 to 310: one more entry, possibly with a value.\<close>

definition write_collect :: "bool \<Rightarrow> 'v sMasterRegHoldData \<Rightarrow> write_scan \<Rightarrow> 'v master \<Rightarrow> (write_scan \<times> 'v master) option" where
  "write_collect check e w s =
     do { (w1, s1) \<leftarrow>
            (case hold_out check e (master_mem s) of
               None \<Rightarrow> Some (w, s)
             | Some v \<Rightarrow>
                 if unat (ws_iWriteCount w) < length (RegHoldValList s)
                 then Some (w\<lparr>ws_iWriteCount := ws_iWriteCount w + 1\<rparr>,
                            s\<lparr>RegHoldValList := (RegHoldValList s)[unat (ws_iWriteCount w) := v]\<rparr>)
                 else None);
          (let w2 = w1\<lparr>ws_iRegs := ws_iRegs w1 + 1\<rparr>
           in Some (if ws_iWriteCount w2 = 1 \<and> \<not> ws_bStarted w2
                    then w2\<lparr>ws_iWriteStartRegAddr := mh_usAddr e, ws_bStarted := True, ws_iRegs := 1\<rparr>
                    else w2, s1)) }"

text \<open>
  Lines 311 to 348: send what has been collected at a gap in the addresses, at an entry without a value,
  at the end of the table and when the block is full.
\<close>

definition write_flush ::
  "mb_task \<Rightarrow> u8 \<Rightarrow> bool \<Rightarrow> u16 \<Rightarrow> write_scan \<Rightarrow> 'v master \<Rightarrow> (write_scan option \<times> 'v master) option" where
  "write_flush cur addr at_end reg w s =
     do { (w1, s1) \<leftarrow>
            (if uint reg \<noteq> uint (ws_iLastAddr w) + 1 \<and> ws_iWriteCount w > 0 \<and> ws_iRegs w > 1
             then if ws_iRegs w = ws_iWriteCount w
                  then do { (r, s1) \<leftarrow> eMBMasterWriteRegHold cur addr (ws_iWriteStartRegAddr w) (ws_iWriteCount w - 1) s;
                            (case r of None \<Rightarrow> Some (None, s1)
                             | Some st \<Rightarrow>
                                 Some (Some (w\<lparr>ws_eStatus := st, ws_iWriteCount := 1, ws_iRegs := 1, ws_bStarted := True,
                                              ws_iWriteStartRegAddr := reg\<rparr>),
                                       s1\<lparr>RegHoldValList := (RegHoldValList s1)
                                            [0 := RegHoldValList s1 ! unat (ws_iWriteCount w - 1)]\<rparr>)) }
                  else do { (r, s1) \<leftarrow> eMBMasterWriteRegHold cur addr (ws_iWriteStartRegAddr w) (ws_iWriteCount w) s;
                            (case r of None \<Rightarrow> Some (None, s1)
                             | Some st \<Rightarrow>
                                 Some (Some (w\<lparr>ws_eStatus := st, ws_iWriteCount := 0, ws_iRegs := 0, ws_bStarted := False\<rparr>), s1)) }
             else if ws_iWriteCount w > 0 \<and>
                     (ws_iRegs w \<noteq> ws_iWriteCount w \<or> at_end \<or> ws_iWriteCount w \<ge> MB_SCAN_MAX_REG_NUM)
             then do { (r, s1) \<leftarrow> eMBMasterWriteRegHold cur addr (ws_iWriteStartRegAddr w) (ws_iWriteCount w) s;
                       (case r of None \<Rightarrow> Some (None, s1)
                        | Some st \<Rightarrow>
                            Some (Some (w\<lparr>ws_eStatus := st, ws_iWriteCount := 0, ws_iRegs := 0, ws_bStarted := False\<rparr>), s1)) }
             else Some (Some w, s));
          Some (map_option (\<lambda>w. w\<lparr>ws_iLastAddr := reg\<rparr>) w1, s1) }"

fun write_scan_loop ::
  "mb_task \<Rightarrow> u8 \<Rightarrow> bool \<Rightarrow> nat \<Rightarrow> nat list \<Rightarrow> write_scan \<Rightarrow> 'v master \<Rightarrow> (eMBMasterReqErrCode option \<times> 'v master) option" where
  "write_scan_loop cur addr check i [] w s = Some (Some (ws_eStatus w), s)"
| "write_scan_loop cur addr check i (k # ks) w s =
     do { e \<leftarrow> hold_entry s i k;
          (w1, s1) \<leftarrow> write_collect check e w s;
          (r, s2) \<leftarrow> write_flush cur addr (ks = []) (mh_usAddr e) w1 s1;
          (case r of None \<Rightarrow> Some (None, s2) | Some w2 \<Rightarrow> write_scan_loop cur addr check i ks w2 s2) }"

definition eMBMasterScanWriteRegHold ::
  "mb_task \<Rightarrow> nat \<Rightarrow> bool \<Rightarrow> 'v master \<Rightarrow> (eMBMasterReqErrCode option \<times> 'v master) option" where
  "eMBMasterScanWriteRegHold cur i check s =
     do { d \<leftarrow> dev_at s i; cd \<leftarrow> cur_data s i;
          (if table_empty (md_RegHoldTable cd) then Some (Some MB_MRE_NO_ERR, s)
           else write_scan_loop cur (sd_ucDevAddr d) check i [0..<unat (usDataCount (md_RegHoldTable cd))]
                  \<lparr>ws_iLastAddr = 0, ws_iWriteStartRegAddr = 0, ws_iWriteCount = 0, ws_iRegs = 0,
                   ws_bStarted = False, ws_eStatus = MB_MRE_NO_ERR\<rparr> s) }"

section \<open>Writing coils\<close>

definition eMBMasterWriteCoil ::
  "mb_task \<Rightarrow> u8 \<Rightarrow> u16 \<Rightarrow> u16 \<Rightarrow> 'v master \<Rightarrow> (eMBMasterReqErrCode option \<times> 'v master) option" where
  "eMBMasterWriteCoil cur addr reg n s = eMBMasterReqWriteMultipleCoils cur addr reg n (BitCoilByteValList s) s"

record coil_scan =
  cs_iLastAddr :: u16
  cs_iWriteStartCoilAddr :: u16
  cs_iWriteBits :: u16
  cs_iWriteBytes :: u16
  cs_iBits :: u16
  cs_iBitInByte :: u8
  cs_cByteValue :: u8
  cs_bStarted :: bool
  cs_eStatus :: eMBMasterReqErrCode

definition or_bit :: "u8 \<Rightarrow> bool \<Rightarrow> u8 \<Rightarrow> u8" where
  "or_bit i on b = (if on then b OR push_bit (unat i) 1 else b)"

text \<open>Lines 503 to 530.\<close>

definition coil_collect :: "bool \<Rightarrow> 'v sMasterBitCoilData \<Rightarrow> coil_scan \<Rightarrow> 'v master \<Rightarrow> (coil_scan \<times> 'v master) option" where
  "coil_collect check e c s =
     do { (c1, s1) \<leftarrow>
            (case mc_pvValue e of
               None \<Rightarrow> Some (c, s)
             | Some x \<Rightarrow>
                 (let v = ucast (master_mem s x) :: u8
                  in if mc_ucAccessMode e = RO \<or> (mc_ucPreVal e = v \<and> check) then Some (c, s)
                     else let c0 = (if cs_iBitInByte c mod 8 = 0
                                    then c\<lparr>cs_cByteValue := 0, cs_iBitInByte := 0, cs_iWriteBytes := cs_iWriteBytes c + 1\<rparr>
                                    else c);
                              b = or_bit (cs_iBitInByte c0) (v > 0) (cs_cByteValue c0);
                              k = unat (cs_iWriteBytes c0 - 1)
                          in if k < length (BitCoilByteValList s)
                             then Some (c0\<lparr>cs_cByteValue := b, cs_iBitInByte := cs_iBitInByte c0 + 1,
                                           cs_iWriteBits := cs_iWriteBits c0 + 1\<rparr>,
                                        s\<lparr>BitCoilByteValList := (BitCoilByteValList s)[k := b]\<rparr>)
                             else None));
          (let c2 = c1\<lparr>cs_iBits := cs_iBits c1 + 1\<rparr>
           in Some (if cs_iWriteBits c2 = 1 \<and> \<not> cs_bStarted c2
                    then c2\<lparr>cs_iWriteStartCoilAddr := mc_usAddr e, cs_bStarted := True, cs_iBits := 1,
                            cs_iWriteBytes := 1\<rparr>
                    else c2, s1)) }"

definition coil_restart :: "eMBMasterReqErrCode \<Rightarrow> coil_scan \<Rightarrow> coil_scan" where
  "coil_restart st c = c\<lparr>cs_eStatus := st, cs_iWriteBits := 0, cs_iWriteBytes := 0, cs_iBits := 0, cs_cByteValue := 0,
                        cs_iBitInByte := 0, cs_bStarted := False\<rparr>"

text \<open>Lines 531 to 586.\<close>

definition coil_flush ::
  "mb_task \<Rightarrow> u8 \<Rightarrow> bool \<Rightarrow> 'v sMasterBitCoilData \<Rightarrow> coil_scan \<Rightarrow> 'v master \<Rightarrow> (coil_scan option \<times> 'v master) option" where
  "coil_flush cur addr at_end e c s =
     do { (c1, s1) \<leftarrow>
            (if uint (mc_usAddr e) \<noteq> uint (cs_iLastAddr c) + 1
             then if cs_iWriteBits c > 0 \<and> cs_iBits c > 1 \<and> cs_iBits c = cs_iWriteBits c
                  then do { (r, s1) \<leftarrow> eMBMasterWriteCoil cur addr (cs_iWriteStartCoilAddr c) (cs_iWriteBits c - 1) s;
                            x \<leftarrow> mc_pvValue e;
                            (case r of None \<Rightarrow> Some (None, s1)
                             | Some st \<Rightarrow>
                                 (let b = or_bit 0 ((ucast (master_mem s1 x) :: u8) > 0) 0
                                  in Some (Some ((coil_restart st c)\<lparr>cs_iWriteBits := 1, cs_iWriteBytes := 1, cs_iBits := 1,
                                        cs_bStarted := True, cs_iWriteStartCoilAddr := mc_usAddr e, cs_cByteValue := b,
                                        cs_iBitInByte := 1\<rparr>),
                                      s1\<lparr>BitCoilByteValList := (BitCoilByteValList s1)[0 := b]\<rparr>))) }
                  else if cs_iWriteBits c > 0 \<and> cs_iBits c > 1 \<and> cs_iBits c > cs_iWriteBits c
                  then do { (r, s1) \<leftarrow> eMBMasterWriteCoil cur addr (cs_iWriteStartCoilAddr c) (cs_iWriteBits c) s;
                            Some (map_option (\<lambda>st. coil_restart st c) r, s1) }
                  else Some (Some c, s)
             else if cs_iWriteBits c > 0 \<and>
                     (cs_iBits c > cs_iWriteBits c \<or> at_end \<or> cs_iWriteBits c \<ge> MB_SCAN_MAX_BIT_NUM)
             then do { (r, s1) \<leftarrow> eMBMasterWriteCoil cur addr (cs_iWriteStartCoilAddr c) (cs_iWriteBits c) s;
                       Some (map_option (\<lambda>st. coil_restart st c) r, s1) }
             else Some (Some c, s));
          Some (map_option (\<lambda>c. c\<lparr>cs_iLastAddr := mc_usAddr e\<rparr>) c1, s1) }"

fun coil_scan_loop ::
  "mb_task \<Rightarrow> u8 \<Rightarrow> bool \<Rightarrow> nat \<Rightarrow> nat list \<Rightarrow> coil_scan \<Rightarrow> 'v master \<Rightarrow> (eMBMasterReqErrCode option \<times> 'v master) option" where
  "coil_scan_loop cur addr check i [] c s = Some (Some (cs_eStatus c), s)"
| "coil_scan_loop cur addr check i (k # ks) c s =
     do { e \<leftarrow> coil_entry s i k;
          (c1, s1) \<leftarrow> coil_collect check e c s;
          (r, s2) \<leftarrow> coil_flush cur addr (ks = []) e c1 s1;
          (case r of None \<Rightarrow> Some (None, s2) | Some c2 \<Rightarrow> coil_scan_loop cur addr check i ks c2 s2) }"

definition eMBMasterScanWriteCoils ::
  "mb_task \<Rightarrow> nat \<Rightarrow> bool \<Rightarrow> 'v master \<Rightarrow> (eMBMasterReqErrCode option \<times> 'v master) option" where
  "eMBMasterScanWriteCoils cur i check s =
     do { d \<leftarrow> dev_at s i; cd \<leftarrow> cur_data s i;
          (if table_empty (md_CoilTable cd) then Some (Some MB_MRE_NO_ERR, s)
           else coil_scan_loop cur (sd_ucDevAddr d) check i [0..<unat (usDataCount (md_CoilTable cd))]
                  \<lparr>cs_iLastAddr = 0, cs_iWriteStartCoilAddr = 0, cs_iWriteBits = 0, cs_iWriteBytes = 0, cs_iBits = 0,
                   cs_iBitInByte = 0, cs_cByteValue = 0, cs_bStarted = False, cs_eStatus = MB_MRE_NO_ERR\<rparr> s) }"

section \<open>One device\<close>

text \<open>
  Steps of a task that may have to wait for the bus: the flag tells whether the task has run on.
\<close>

definition scan_stage ::
  "nat \<Rightarrow> ('v master \<Rightarrow> (eMBMasterReqErrCode option \<times> 'v master) option) \<Rightarrow>
   ('v master \<Rightarrow> (bool \<times> 'v master) option) \<Rightarrow> 'v master \<Rightarrow> (bool \<times> 'v master) option" where
  "scan_stage i scan rest s =
     do { (r, s1) \<leftarrow> scan s;
          (case r of None \<Rightarrow> Some (False, s1)
           | Some st \<Rightarrow>
               if st = MB_MRE_TIMEDOUT
               then Some (True, upd_dev i (\<lambda>d. d\<lparr>sd_xStateTestRequest := True, sd_xSynchronized := False\<rparr>) s1)
               else rest s1) }"

definition vMBMasterScanReadSlaveDevData ::
  "mb_task \<Rightarrow> nat \<Rightarrow> bool \<Rightarrow> 'v master \<Rightarrow> (bool \<times> 'v master) option" where
  "vMBMasterScanReadSlaveDevData cur i xSynchronize s =
     scan_stage i (eMBMasterScanReadRegHold cur i)
       (scan_stage i (eMBMasterScanReadCoils cur i)
         (scan_stage i (eMBMasterScanReadRegIn cur i) (\<lambda>s. Some (True, s))))
       (s\<lparr>psMBSlaveDevCur := Some i, m_eMBRunMode := (if xSynchronize then STATE_SYSN_DEV else STATE_SCAN_DEV)\<rparr>)"

definition vMBMasterScanWriteSlaveDevData ::
  "mb_task \<Rightarrow> nat \<Rightarrow> bool \<Rightarrow> 'v master \<Rightarrow> (bool \<times> 'v master) option" where
  "vMBMasterScanWriteSlaveDevData cur i check s =
     scan_stage i (eMBMasterScanWriteRegHold cur i check)
       (scan_stage i (eMBMasterScanWriteCoils cur i check) (\<lambda>s. Some (True, s)))
       (s\<lparr>psMBSlaveDevCur := Some i, m_eMBRunMode := STATE_SCAN_DEV\<rparr>)"

definition vMBMasterScanReadSlaveDev :: "mb_task \<Rightarrow> nat \<Rightarrow> 'v master \<Rightarrow> (bool \<times> 'v master) option" where
  "vMBMasterScanReadSlaveDev cur i s =
     do { d \<leftarrow> dev_at s i;
          (if sd_psDevCurData d = None then Some (True, s)
           else if sd_xOnLine d \<and> sd_xDataReady d
           then (if \<not> sd_xSynchronized d
                 then do { (go, s1) \<leftarrow> vMBMasterScanReadSlaveDevData cur i True s;
                           Some (if go then (True, upd_dev i (\<lambda>d. d\<lparr>sd_xSynchronized := True\<rparr>) s1) else (False, s1)) }
                 else vMBMasterScanReadSlaveDevData cur i False s)
           else Some (True, s)) }"

definition vMBMasterScanWriteSlaveDev :: "mb_task \<Rightarrow> nat \<Rightarrow> 'v master \<Rightarrow> (bool \<times> 'v master) option" where
  "vMBMasterScanWriteSlaveDev cur i s =
     do { d \<leftarrow> dev_at s i;
          (if sd_psDevCurData d = None then Some (True, s)
           else if \<not> sd_xOnLine d then Some (True, s)
           else if sd_xDataReady d
           then (if sd_xSynchronized d then vMBMasterScanWriteSlaveDevData cur i True s else Some (True, s))
           else (if \<not> sd_xSynchronized d then vMBMasterScanWriteSlaveDevData cur i False s else Some (True, s))) }"

section \<open>Is a device there?\<close>

definition MB_TEST_RETRY_TIMES :: nat where "MB_TEST_RETRY_TIMES = 2"
definition MB_TEST_OFFLINE_TIMES :: u8 where "MB_TEST_OFFLINE_TIMES = 2"

definition xMBMasterDevOfflineTmrEnable :: "nat \<Rightarrow> 'v master \<Rightarrow> 'v master" where
  "xMBMasterDevOfflineTmrEnable i = upd_dev i (\<lambda>d. d\<lparr>sd_sDevOfflineTmr_runs := True, sd_xDevOnTimeout := True\<rparr>)"

text \<open>Writing a single register is configured out, so that command sends nothing.\<close>

definition eMBDevCmdTest ::
  "mb_task \<Rightarrow> nat \<Rightarrow> sMBTestDevCmd \<Rightarrow> 'v master \<Rightarrow> (eMBMasterReqErrCode option \<times> 'v master) option" where
  "eMBDevCmdTest cur i cmd s =
     do { d \<leftarrow> dev_at s i;
          (r, s1) \<leftarrow>
            (let s0 = s\<lparr>m_eMBRunMode := STATE_TEST_DEV\<rparr>
             in case cmd_eCmdMode cmd of
                  WRITE_REG_HOLD \<Rightarrow> Some (Some MB_MRE_EILLSTATE, s0)
                | READ_REG_HOLD \<Rightarrow> eMBMasterReqReadHoldingRegister cur (sd_ucDevAddr d) (cmd_usAddr cmd) 1 s0
                | READ_REG_IN \<Rightarrow> eMBMasterReqReadInputRegister cur (sd_ucDevAddr d) (cmd_usAddr cmd) 1 s0);
          Some (r, if r = None then s1 else s1\<lparr>m_eMBRunMode := STATE_SCAN_DEV\<rparr>) }"

fun cmd_retries ::
  "nat \<Rightarrow> mb_task \<Rightarrow> nat \<Rightarrow> sMBTestDevCmd \<Rightarrow> eMBMasterReqErrCode \<Rightarrow> 'v master \<Rightarrow>
   (eMBMasterReqErrCode option \<times> 'v master) option" where
  "cmd_retries 0 cur i cmd code s = Some (Some code, s)"
| "cmd_retries (Suc n) cur i cmd code s =
     do { (r, s1) \<leftarrow> eMBDevCmdTest cur i cmd s;
          (case r of Some MB_MRE_TIMEDOUT \<Rightarrow> cmd_retries n cur i cmd MB_MRE_TIMEDOUT s1 | _ \<Rightarrow> Some (r, s1)) }"

text \<open>The value in the reply, at the PDU \<open>pucMasterPDUCur\<close> points at.\<close>

definition reply_value :: "'v master \<Rightarrow> u16 option option" where
  "reply_value s =
     (case pucMasterPDUCur s of None \<Rightarrow> Some None | Some f \<Rightarrow> map_option Some (get16 (ucRTURcvBuf s) (f + 2)))"

definition dev_found :: "nat \<Rightarrow> 'v sMBSlaveDev \<Rightarrow> 'v sMBSlaveDev" where
  "dev_found j d =
     d\<lparr>sd_xOnLine := True, sd_psDevCurData := Some j, sd_usProtocolID := md_usProtocolID (sd_psDevDataInfo d ! j),
       sd_xDataReady := True, sd_xStateTestRequest := False, sd_ucOfflineTimes := 0\<rparr>"

text \<open>
  Lines 189 to 240: the dictionaries are tried in turn until one is answered. The result is the last
  code, or no code when the function returns in the middle; none at all while waiting for the bus.
\<close>

fun dev_test_loop ::
  "mb_task \<Rightarrow> nat \<Rightarrow> nat list \<Rightarrow> eMBMasterReqErrCode \<Rightarrow> 'v master \<Rightarrow>
   (eMBMasterReqErrCode option option \<times> 'v master) option" where
  "dev_test_loop cur i [] code s = Some (Some (Some code), s)"
| "dev_test_loop cur i (j # js) code s =
     do { d \<leftarrow> dev_at s i;
          (let cmd = md_DevCmdTable (sd_psDevDataInfo d ! j)
           in do { (r, s1) \<leftarrow> cmd_retries MB_TEST_RETRY_TIMES cur i cmd code s;
                   (case r of
                      None \<Rightarrow> Some (None, s1)
                    | Some MB_MRE_TIMEDOUT \<Rightarrow> dev_test_loop cur i js MB_MRE_TIMEDOUT s1
                    | Some st \<Rightarrow>
                        if cmd_xCheckVal cmd \<and> st = MB_MRE_NO_ERR
                        then do { v \<leftarrow> reply_value s1;
                                  Some (case v of
                                          None \<Rightarrow> (Some None, s1)
                                        | Some w \<Rightarrow>
                                            (Some (Some st),
                                             upd_dev i (if w = cmd_usValue cmd then dev_found j
                                                        else (\<lambda>d. d\<lparr>sd_xDataReady := False\<rparr>)) s1)) }
                        else Some (Some (Some st), upd_dev i (dev_found j) s1)) }) }"

definition addr_outside :: "'v master \<Rightarrow> 'v sMBSlaveDev \<Rightarrow> bool" where
  "addr_outside s d \<longleftrightarrow> sd_ucDevAddr d < m_ucSlaveDevMinAddr s \<or> sd_ucDevAddr d > m_ucSlaveDevMaxAddr s"

definition vMBDevTest :: "mb_task \<Rightarrow> nat \<Rightarrow> 'v master \<Rightarrow> (bool \<times> 'v master) option" where
  "vMBDevTest cur i s =
     do { d \<leftarrow> dev_at s i;
          (if sd_xDevOnTimeout d \<or> addr_outside s d then Some (True, s)
           else do { (r, s1) \<leftarrow> dev_test_loop cur i [0..<length (sd_psDevDataInfo d)] MB_MRE_NO_ERR
                       (upd_dev i (\<lambda>d. d\<lparr>sd_xOnLine := False, sd_xDataReady := False, sd_xStateTestRequest := False\<rparr>)
                         (s\<lparr>m_eMBRunMode := STATE_TEST_DEV\<rparr>));
                     Some (case r of
                             None \<Rightarrow> (False, s1)
                           | Some None \<Rightarrow> (True, s1)
                           | Some (Some st) \<Rightarrow> (True, if st = MB_MRE_TIMEDOUT then xMBMasterDevOfflineTmrEnable i s1 else s1)) }) }"

definition vMBDevCurStateTest :: "mb_task \<Rightarrow> nat \<Rightarrow> 'v master \<Rightarrow> (bool \<times> 'v master) option" where
  "vMBDevCurStateTest cur i s =
     do { d \<leftarrow> dev_at s i;
          (if sd_xDevOnTimeout d \<or> addr_outside s d then Some (True, s)
           else do { cd \<leftarrow> cur_data s i;
                     (let cmd = md_DevCmdTable cd
                      in do { (r, s1) \<leftarrow> cmd_retries MB_TEST_RETRY_TIMES cur i cmd MB_MRE_EILLSTATE
                                (s\<lparr>m_eMBRunMode := STATE_TEST_DEV\<rparr>);
                              (case r of
                                 None \<Rightarrow> Some (False, s1)
                               | Some MB_MRE_TIMEDOUT \<Rightarrow>
                                   Some (True,
                                     if sd_ucOfflineTimes (psMBSlaveDevsList s1 ! i) = MB_TEST_OFFLINE_TIMES
                                     then upd_dev i (\<lambda>d. d\<lparr>sd_xDataReady := False, sd_xOnLine := False,
                                                       sd_xSynchronized := False, sd_ucOfflineTimes := 0\<rparr>) s1
                                     else xMBMasterDevOfflineTmrEnable i
                                            (upd_dev i (\<lambda>d. d\<lparr>sd_xDataReady := False,
                                                          sd_ucOfflineTimes := sd_ucOfflineTimes d + 1\<rparr>) s1))
                               | Some st \<Rightarrow>
                                   if cmd_xCheckVal cmd \<and> st = MB_MRE_NO_ERR
                                   then do { v \<leftarrow> reply_value s1;
                                             Some (True,
                                               case v of
                                                 None \<Rightarrow> s1
                                               | Some w \<Rightarrow>
                                                   upd_dev i (if w = cmd_usValue cmd
                                                              then (\<lambda>d. d\<lparr>sd_xOnLine := True, sd_xDataReady := True,
                                                                     sd_xStateTestRequest := False, sd_ucOfflineTimes := 0\<rparr>)
                                                              else (\<lambda>d. d\<lparr>sd_xDataReady := False\<rparr>)) s1) }
                                   else Some (True, upd_dev i (\<lambda>d. d\<lparr>sd_xOnLine := True, sd_xDataReady := True,
                                                                 sd_ucOfflineTimes := 0\<rparr>) s1)) }) }) }"

section \<open>The scan tasks\<close>

text \<open>One pass over the devices; a task that waits for the bus goes no further.\<close>

fun for_devices :: "(nat \<Rightarrow> 'v master \<Rightarrow> (bool \<times> 'v master) option) \<Rightarrow> nat list \<Rightarrow> 'v master \<Rightarrow> (bool \<times> 'v master) option" where
  "for_devices f [] s = Some (True, s)"
| "for_devices f (i # is) s =
     do { (go, s1) \<leftarrow> f i s; (if go then for_devices f is s1 else Some (False, s1)) }"

definition test_dev :: "mb_task \<Rightarrow> nat \<Rightarrow> 'v master \<Rightarrow> (bool \<times> 'v master) option" where
  "test_dev cur i s = do { d \<leftarrow> dev_at s i; (if sd_xOnLine d then Some (True, s) else vMBDevTest cur i s) }"

definition read_dev :: "mb_task \<Rightarrow> nat \<Rightarrow> 'v master \<Rightarrow> (bool \<times> 'v master) option" where
  "read_dev cur i s =
     do { d \<leftarrow> dev_at s i;
          (if sd_xOnLine d \<and> \<not> addr_outside s d
           then do { (go, s1) \<leftarrow> (if sd_xStateTestRequest d then vMBDevCurStateTest cur i s else Some (True, s));
                     (if \<not> go then Some (False, s1)
                      else do { d1 \<leftarrow> dev_at s1 i;
                                (if sd_xOnLine d1 \<and> sd_ucOfflineTimes d1 = 0
                                 then vMBMasterScanReadSlaveDev cur i s1 else Some (True, s1)) }) }
           else Some (True, s)) }"

definition write_dev :: "mb_task \<Rightarrow> nat \<Rightarrow> 'v master \<Rightarrow> (bool \<times> 'v master) option" where
  "write_dev cur i s =
     do { d \<leftarrow> dev_at s i;
          (if sd_xOnLine d \<and> sd_ucOfflineTimes d = 0 \<and> \<not> addr_outside s d
           then vMBMasterScanWriteSlaveDev cur i s else Some (True, s)) }"

definition vMBMasterScanReadSlaveDevTask :: "'v master \<Rightarrow> (bool \<times> 'v master) option" where
  "vMBMasterScanReadSlaveDevTask s =
     (if m_eMBState s = STATE_NOT_INITIALIZED then Some (True, s)
      else let ds = [0..<length (psMBSlaveDevsList s)]
           in do { (go, s1) \<leftarrow> for_devices (test_dev Task_ScanRead) ds s;
                   (if go then for_devices (read_dev Task_ScanRead) ds s1 else Some (False, s1)) })"

definition vMBMasterScanWriteSlaveDevTask :: "'v master \<Rightarrow> (bool \<times> 'v master) option" where
  "vMBMasterScanWriteSlaveDevTask s =
     (if m_eMBState s = STATE_NOT_INITIALIZED then Some (True, s)
      else for_devices (write_dev Task_ScanWrite) [0..<length (psMBSlaveDevsList s)] s)"

end
