(* ===== verification/ScanPlan.thy ===== *)
theory ScanPlan
  imports MbScan MasterProps
begin

text \<open>
  Which addresses a scan of a device asks for: the loops over the tables refine a list of blocks that
  depends on the table only.
\<close>

section \<open>The blocks of a scan\<close>

fun scan_blocks :: "int \<Rightarrow> u16 \<Rightarrow> (u16 \<times> bool) list \<Rightarrow> u16 \<Rightarrow> u16 \<Rightarrow> u16 \<Rightarrow> (u16 \<times> u16) list" where
  "scan_blocks interval num [] iLast start n = []"
| "scan_blocks interval num (e # es) iLast start n =
     (let (due, start', n') = block_limits interval e iLast start n;
          due2 = ((\<not> snd e \<or> es = [] \<or> n' \<ge> num) \<and> n' > 0)
      in (if due then [(start, n)] else []) @ (if due2 then [(start', n')] else []) @
         scan_blocks interval num es (fst e) start' (if due2 then 0 else n'))"

fun run_blocks :: "'v scan_request \<Rightarrow> (u16 \<times> u16) list \<Rightarrow> eMBMasterReqErrCode \<Rightarrow> 'v master \<Rightarrow>
    (eMBMasterReqErrCode option \<times> 'v master) option" where
  "run_blocks req [] eStatus s = Some (Some eStatus, s)"
| "run_blocks req (b # bs) eStatus s =
     do { (r, s1) \<leftarrow> req (fst b) (snd b) s;
          (case r of None \<Rightarrow> Some (None, s1) | Some st \<Rightarrow> run_blocks req bs st s1) }"

definition no_etimedout :: "'v scan_request \<Rightarrow> bool" where
  "no_etimedout req \<longleftrightarrow> (\<forall>a n s r t. req a n s = Some (r, t) \<longrightarrow> r \<noteq> Some MB_MRE_ETIMEDOUT)"

lemma read_scan_loop_blocks:
  assumes "no_etimedout req"
  shows "read_scan_loop interval num stop req es iLast start n st s =
    run_blocks req (scan_blocks interval num es iLast start n) st s"
proof (induction es arbitrary: iLast start n st s)
  case (Cons e es)
  obtain due start' n' where b: "block_limits interval e iLast start n = (due, start', n')"
    by (cases "block_limits interval e iLast start n")
  have *: "req a k t \<noteq> Some (Some MB_MRE_ETIMEDOUT, t')" for a k t t'
    using assms unfolding no_etimedout_def by blast
  show ?case
    using * by (cases due; cases "(\<not> snd e \<or> es = [] \<or> n' \<ge> num) \<and> n' > 0")
      (auto simp: b block_request_def Cons.IH Let_def split: bind_splits option.splits)
qed simp

lemma wait_no_etimedout:
  "eMBMasterWaitRequestFinish cur s = Some (err, t) \<Longrightarrow> err \<noteq> MB_MRE_ETIMEDOUT"
  by (auto simp: eMBMasterWaitRequestFinish_def split: if_splits bind_splits eMBMasterEventType.splits)

lemma master_request_no_etimedout:
  assumes "master_request cur addr start s = Some (r, t)"
  shows "r \<noteq> Some MB_MRE_ETIMEDOUT"
proof -
  obtain go s1 where take: "xMBMasterRunResTake cur s = (go, s1)" by (cases "xMBMasterRunResTake cur s")
  show ?thesis
    using assms wait_no_etimedout
    by (cases go) (auto simp: master_request_def take split: if_splits bool.splits bind_splits)
qed

lemma read_requests_no_etimedout:
  "no_etimedout (eMBMasterReqReadHoldingRegister cur addr)"
  "no_etimedout (eMBMasterReqReadInputRegister cur addr)"
  "no_etimedout (eMBMasterReqReadCoils cur addr)"
  using master_request_no_etimedout
  by (fastforce simp: no_etimedout_def eMBMasterReqReadHoldingRegister_def eMBMasterReqReadInputRegister_def
      eMBMasterReqReadCoils_def)+

section \<open>What the blocks cover\<close>

definition covers :: "nat \<Rightarrow> u16 \<times> u16 \<Rightarrow> bool" where
  "covers x b \<longleftrightarrow> unat (fst b) \<le> x \<and> x < unat (fst b) + unat (snd b)"

definition times_covered :: "(u16 \<times> u16) list \<Rightarrow> nat \<Rightarrow> nat" where
  "times_covered bs x = length (filter (covers x) bs)"

lemma times_covered_simps [simp]:
  "times_covered [] x = 0" "times_covered (b # bs) x = of_bool (covers x b) + times_covered bs x"
  "times_covered (bs @ cs) x = times_covered bs x + times_covered cs x"
  by (simp_all add: times_covered_def)

text \<open>
  A table in the order of its addresses, and the state between two entries: the block not sent yet ends
  at the last address and is not full.
\<close>

definition pending_ok :: "u16 \<Rightarrow> (u16 \<times> bool) list \<Rightarrow> u16 \<Rightarrow> u16 \<Rightarrow> u16 \<Rightarrow> bool" where
  "pending_ok num es iLast start n \<longleftrightarrow> sorted_wrt (<) (map (unat \<circ> fst) es) \<and>
     (\<forall>e \<in> set es. unat iLast \<le> unat (fst e)) \<and>
     (n \<noteq> 0 \<longrightarrow> es \<noteq> [] \<and> unat start + unat n = unat iLast + 1 \<and> n < num \<and> (\<forall>e \<in> set es. unat iLast < unat (fst e)))"

lemma block_limits_cases:
  assumes "block_limits (int k) (a, r) iLast start n = (due, start', n')"
    and "unat iLast \<le> unat a" "n \<noteq> 0 \<Longrightarrow> unat start + unat n = unat iLast + 1 \<and> unat iLast < unat a"
    and "unat n + k \<le> 65536"
  shows "(unat a + 1 > k + unat iLast \<and> due = (n > 0) \<and> n' = of_bool r \<and> (r \<longrightarrow> start' = a)) \<or>
    (unat a + 1 \<le> k + unat iLast \<and> \<not> due \<and>
      (if n = 0 then n' = of_bool r \<and> (r \<longrightarrow> start' = a)
       else start' = start \<and> unat n' = (if r then unat a + 1 - unat start else unat n)))"
proof (cases "uint a - uint iLast + 1 > int k")
  case True
  then have "unat a + 1 > k + unat iLast" by (simp add: uint_nat[symmetric] flip: of_nat_less_iff[where 'a = int])
  then show ?thesis using assms(1) True by (auto simp: block_limits_def split: if_splits)
next
  case False
  then have near: "unat a + 1 \<le> k + unat iLast"
    by (simp add: uint_nat[symmetric] flip: of_nat_le_iff[where 'a = int])
  have "unat (a - start + 1) = unat a + 1 - unat start" if "n \<noteq> 0"
  proof -
    have "unat start \<le> unat a" "unat a - unat start + 1 < 2 ^ 16"
      using assms(3)[OF that] assms(4) near unat_gt_0[of n] that by auto
    then show ?thesis by (simp add: unat_word_ariths unat_sub word_le_nat_alt take_bit_nat_eq_self)
  qed
  then show ?thesis using assms(1) False near by (auto simp: block_limits_def Let_def split: if_splits)
qed

text \<open>One entry: what it adds to the blocks, and the state it leaves.\<close>

definition entry_blocks :: "int \<Rightarrow> u16 \<Rightarrow> bool \<Rightarrow> u16 \<times> bool \<Rightarrow> u16 \<Rightarrow> u16 \<Rightarrow> u16 \<Rightarrow> (u16 \<times> u16) list \<times> u16 \<times> u16" where
  "entry_blocks interval num at_end e iLast start n =
     (let (due, start', n') = block_limits interval e iLast start n;
          due2 = ((\<not> snd e \<or> at_end \<or> n' \<ge> num) \<and> n' > 0)
      in ((if due then [(start, n)] else []) @ (if due2 then [(start', n')] else []), start', if due2 then 0 else n'))"

lemma scan_blocks_entry:
  "scan_blocks interval num (e # es) iLast start n =
     (let (bs, start', n') = entry_blocks interval num (es = []) e iLast start n
      in bs @ scan_blocks interval num es (fst e) start' n')"
  by (simp add: entry_blocks_def Let_def split: prod.split)

lemma entry_blocks_ok:
  assumes e: "entry_blocks (int k) num at_end (a, r) iLast start n = (bs, start', n')"
    and ord: "unat iLast \<le> unat a"
    and pend: "n \<noteq> 0 \<Longrightarrow> unat start + unat n = unat iLast + 1 \<and> unat iLast < unat a \<and> n < num"
    and size: "unat num + k \<le> 65536" "2 \<le> k" "1 \<le> num"
  shows "n' \<noteq> 0 \<Longrightarrow> \<not> at_end \<and> unat start' + unat n' = unat a + 1 \<and> n' < num"
    and "times_covered bs (unat a) + of_bool (n' \<noteq> 0 \<and> unat start' \<le> unat a) = of_bool r"
    and "x \<le> unat iLast \<Longrightarrow> x < unat a \<Longrightarrow>
      times_covered bs x + of_bool (n' \<noteq> 0 \<and> unat start' \<le> x) = of_bool (n \<noteq> 0 \<and> unat start \<le> x)"
    and "unat a < x \<Longrightarrow> times_covered bs x = 0"
    and "b \<in> set bs \<Longrightarrow> 0 < unat (snd b) \<and> unat (snd b) \<le> unat num + k - 2"
proof -
  obtain due st m where lim: "block_limits (int k) (a, r) iLast start n = (due, st, m)"
    by (cases "block_limits (int k) (a, r) iLast start n")
  have nk: "unat n + k \<le> 65536"
    using pend size(1) by (cases "n = 0") (auto simp: word_less_nat_alt)
  note cs = block_limits_cases[OF lim ord _ nk]
  define due2 where "due2 = ((\<not> r \<or> at_end \<or> m \<ge> num) \<and> m > 0)"
  have bs: "bs = (if due then [(start, n)] else []) @ (if due2 then [(st, m)] else [])" "start' = st"
      "n' = (if due2 then 0 else m)"
    using e lim by (auto simp: entry_blocks_def due2_def Let_def)
  have num: "1 \<le> unat num" using size(3) by (simp add: word_le_nat_alt)
  have nz: "w \<noteq> 0 \<longleftrightarrow> 0 < unat w" "0 < w \<longleftrightarrow> 0 < unat w" "w = 0 \<longleftrightarrow> unat w = 0" for w :: u16
    by (simp_all add: unat_gt_0 word_less_nat_alt unat_eq_0)
  have less: "n \<noteq> 0 \<Longrightarrow> unat n < unat num" using pend by (simp add: word_less_nat_alt)
  consider (far) "due = (n > 0)" "m = of_bool r" "r \<Longrightarrow> st = a"
    | (fresh) "n = 0" "\<not> due" "m = of_bool r" "r \<Longrightarrow> st = a"
    | (more) "n \<noteq> 0" "\<not> due" "r" "st = start" "unat m = unat a + 1 - unat start" "unat a + 1 \<le> k + unat iLast"
    | (stop) "n \<noteq> 0" "\<not> due" "\<not> r" "st = start" "m = n"
    using cs pend by (cases "n = 0"; cases r) (auto simp: word_unat_eq_iff)
  note four = this
  show "n' \<noteq> 0 \<Longrightarrow> \<not> at_end \<and> unat start' + unat n' = unat a + 1 \<and> n' < num"
    using four by cases (use pend less bs num in \<open>auto simp: due2_def nz word_less_nat_alt word_le_nat_alt not_le simp del: unat_eq_0 unat_gt_0 word_neq_0_conv split: if_splits\<close>)
  show "times_covered bs (unat a) + of_bool (n' \<noteq> 0 \<and> unat start' \<le> unat a) = of_bool r"
    using four by cases (use pend less bs num in \<open>auto simp: due2_def nz word_less_nat_alt word_le_nat_alt not_le covers_def simp del: unat_eq_0 unat_gt_0 word_neq_0_conv split: if_splits\<close>)
  show "x \<le> unat iLast \<Longrightarrow> x < unat a \<Longrightarrow>
      times_covered bs x + of_bool (n' \<noteq> 0 \<and> unat start' \<le> x) = of_bool (n \<noteq> 0 \<and> unat start \<le> x)"
    using four by cases (use pend less bs num in \<open>auto simp: due2_def nz word_less_nat_alt word_le_nat_alt not_le covers_def simp del: unat_eq_0 unat_gt_0 word_neq_0_conv split: if_splits\<close>)
  show "unat a < x \<Longrightarrow> times_covered bs x = 0"
    using four by cases (use pend less bs num in \<open>auto simp: due2_def nz word_less_nat_alt word_le_nat_alt not_le covers_def simp del: unat_eq_0 unat_gt_0 word_neq_0_conv split: if_splits\<close>)
  show "b \<in> set bs \<Longrightarrow> 0 < unat (snd b) \<and> unat (snd b) \<le> unat num + k - 2"
    using four by cases (use pend less bs num size(2) in \<open>auto simp: due2_def nz word_less_nat_alt word_le_nat_alt not_le simp del: unat_eq_0 unat_gt_0 word_neq_0_conv split: if_splits\<close>)
qed

lemma scan_blocks_ok:
  assumes "pending_ok num es iLast start n" "unat num + k \<le> 65536" "2 \<le> k" "1 \<le> num"
  defines "bs \<equiv> scan_blocks (int k) num es iLast start n"
  shows "(\<forall>(a, r) \<in> set es. times_covered bs (unat a) = of_bool r) \<and>
    (\<forall>x. x \<le> unat iLast \<longrightarrow> (\<forall>e \<in> set es. x < unat (fst e)) \<longrightarrow> times_covered bs x = of_bool (n \<noteq> 0 \<and> unat start \<le> x)) \<and>
    (\<forall>b \<in> set bs. 0 < unat (snd b) \<and> unat (snd b) \<le> unat num + k - 2)"
  using assms(1) unfolding bs_def
proof (induction es arbitrary: iLast start n)
  case Nil
  then show ?case by (simp add: pending_ok_def)
next
  case (Cons e es)
  obtain a r where e: "e = (a, r)" by (cases e)
  obtain cs start' n' where ent: "entry_blocks (int k) num (es = []) (a, r) iLast start n = (cs, start', n')"
    by (cases "entry_blocks (int k) num (es = []) (a, r) iLast start n")
  have ord: "unat iLast \<le> unat a" "\<forall>e \<in> set es. unat a < unat (fst e)"
    using Cons.prems by (auto simp: pending_ok_def e)
  have pend: "n \<noteq> 0 \<Longrightarrow> unat start + unat n = unat iLast + 1 \<and> unat iLast < unat a \<and> n < num"
    using Cons.prems by (auto simp: pending_ok_def e)
  note step = entry_blocks_ok[OF ent ord(1) pend assms(2-4)]
  have "pending_ok num es a start' n'"
    using Cons.prems step(1) ord(2) by (auto simp: pending_ok_def e less_imp_le)
  note IH = Cons.IH[OF this]
  let ?rest = "scan_blocks (int k) num es a start' n'"
  have all: "scan_blocks (int k) num (e # es) iLast start n = cs @ ?rest"
    unfolding scan_blocks_entry by (simp add: e ent)
  have before: "times_covered ?rest x = of_bool (n' \<noteq> 0 \<and> unat start' \<le> x)" if "x \<le> unat a" for x
  proof -
    have "\<forall>e \<in> set es. x < unat (fst e)" using ord(2) that by fastforce
    then show ?thesis using IH that by blast
  qed
  show ?case
    unfolding all
  proof (intro conjI ballI allI impI)
    fix f assume "f \<in> set (e # es)"
    then consider "f = (a, r)" | b q where "f = (b, q)" "f \<in> set es" unfolding e by (metis set_ConsD surj_pair)
    then show "case f of (b, q) \<Rightarrow> times_covered (cs @ ?rest) (unat b) = of_bool q"
    proof cases
      case 1
      then show ?thesis using step(2) before[of "unat a"] by simp
    next
      case 2
      have "times_covered ?rest (unat b) = of_bool q" using bspec[OF IH[THEN conjunct1] 2(2)] 2(1) by simp
      moreover have "unat a < unat b" using bspec[OF ord(2) 2(2)] 2(1) by simp
      ultimately show ?thesis using step(4)[of "unat b"] 2(1) by simp
    qed
  next
    fix x assume "x \<le> unat iLast" "\<forall>f \<in> set (e # es). x < unat (fst f)"
    then show "times_covered (cs @ ?rest) x = of_bool (n \<noteq> 0 \<and> unat start \<le> x)"
      using step(3)[of x] before[of x] by (simp add: e)
  next
    fix b assume "b \<in> set (cs @ ?rest)"
    then have "b \<in> set cs \<or> b \<in> set ?rest" by simp
    then show "0 < unat (snd b)" "unat (snd b) \<le> unat num + k - 2"
      using step(5)[of b] IH[THEN conjunct2, THEN conjunct2] by blast+
  qed
qed

section \<open>Scanning a device\<close>

definition entries :: "'d sMBDevDataTable \<Rightarrow> 'd list" where
  "entries tab = (case pvDataBuf tab of None \<Rightarrow> [] | Some buf \<Rightarrow> take (unat (usDataCount tab)) buf)"

definition in_order :: "('d \<Rightarrow> u16) \<Rightarrow> 'd sMBDevDataTable \<Rightarrow> bool" where
  "in_order addr tab \<longleftrightarrow> (\<forall>buf. pvDataBuf tab = Some buf \<longrightarrow> unat (usDataCount tab) \<le> length buf) \<and>
     sorted_wrt (<) (map addr (entries tab))"

lemma read_scan_blocks:
  assumes "in_order addr tab" "no_etimedout req" "unat num + k \<le> 65536" "2 \<le> k" "1 \<le> num"
  shows "\<exists>blocks. read_scan (int k) num stop req tab addr acc s = run_blocks req blocks MB_MRE_NO_ERR s \<and>
    (\<forall>e \<in> set (entries tab). times_covered blocks (unat (addr e)) = of_bool (acc e \<noteq> WO)) \<and>
    (\<forall>b \<in> set blocks. 0 < unat (snd b) \<and> unat (snd b) \<le> unat num + k - 2)"
proof (cases "pvDataBuf tab")
  case None
  then show ?thesis by (intro exI[of _ "[]"]) (simp add: read_scan_def entries_def)
next
  case (Some buf)
  let ?es = "map (\<lambda>d. (addr d, acc d \<noteq> WO)) (entries tab)"
  have buf: "\<not> length buf < unat (usDataCount tab)" "entries tab = take (unat (usDataCount tab)) buf"
    using assms(1) Some by (auto simp: in_order_def entries_def)
  have "sorted_wrt (<) (map (unat \<circ> fst) ?es)"
    using assms(1) by (simp add: in_order_def comp_def sorted_wrt_map word_less_nat_alt)
  then have "pending_ok num ?es 0 0 0" by (simp add: pending_ok_def)
  note ok = scan_blocks_ok[OF this assms(3-5)]
  show ?thesis
  proof (intro exI conjI)
    show "read_scan (int k) num stop req tab addr acc s = run_blocks req (scan_blocks (int k) num ?es 0 0 0) MB_MRE_NO_ERR s"
      using Some buf by (simp add: read_scan_def read_scan_loop_blocks[OF assms(2)])
  qed (use ok in auto)
qed

definition reads_once ::
  "nat \<Rightarrow> (nat \<Rightarrow> nat) \<Rightarrow> ('d \<Rightarrow> u16) \<Rightarrow> ('d \<Rightarrow> access_mode) \<Rightarrow> 'd sMBDevDataTable \<Rightarrow> 'v scan_request \<Rightarrow>
   ('v master \<Rightarrow> (eMBMasterReqErrCode option \<times> 'v master) option) \<Rightarrow> 'v master \<Rightarrow> bool" where
  "reads_once limit answer_length addr acc tab req scan s \<longleftrightarrow>
     (\<exists>blocks. scan s = run_blocks req blocks MB_MRE_NO_ERR s \<and>
        (\<forall>e \<in> set (entries tab). times_covered blocks (unat (addr e)) = of_bool (acc e \<noteq> WO)) \<and>
        (\<forall>b \<in> set blocks. 0 < unat (snd b) \<and> unat (snd b) \<le> limit \<and> answer_length (unat (snd b)) \<le> 256))"

text \<open>The bytes of an answer: address, function code, number of bytes, values, CRC.\<close>

definition register_answer :: "nat \<Rightarrow> nat" where "register_answer n = 3 + 2 * n + 2"
definition coil_answer :: "nat \<Rightarrow> nat" where "coil_answer n = 3 + (n + 7) div 8 + 2"


text \<open>A rooftop unit: 28 registers, 39 coils.\<close>

lemma roof_coil_keys: "map fst roof_coil_cases = map mc_usAddr (roof_coil_table n)"
  by (simp add: roof_coil_cases_def roof_coil_table_def vMBMasterDevCoilDataInit_def)

lemma unit_tables_in_order:
  "in_order mh_usAddr (md_RegHoldTable (vModularRoof_InitDevCommData n))"
  "in_order mi_usAddr (md_RegInTable (vModularRoof_InitDevCommData n))"
  "in_order mc_usAddr (md_CoilTable (vModularRoof_InitDevCommData n))"
proof -
  have "length (roof_coil_table n) = 39" by (simp add: roof_coil_table_def)
  moreover have "sorted_wrt (<) (map fst roof_hold_cases)" "sorted_wrt (<) (map fst roof_coil_cases)"
    by (simp_all add: roof_hold_cases_def roof_coil_cases_def)
  ultimately show "in_order mh_usAddr (md_RegHoldTable (vModularRoof_InitDevCommData n))"
    "in_order mi_usAddr (md_RegInTable (vModularRoof_InitDevCommData n))"
    "in_order mc_usAddr (md_CoilTable (vModularRoof_InitDevCommData n))"
    by (simp_all add: in_order_def entries_def vModularRoof_InitDevCommData_def vMBMasterDevDataTableInit_def no_table_def
        length_roof_hold roof_hold_keys[of n] roof_coil_keys[of n])
qed


end
