(* ===== verification/BusOwner.thy ===== *)
theory BusOwner
  imports ScanPlan
begin

text \<open>
  Who owns the bus: no operation of the master ever gives it back, because \<open>vMBMasterRunResRelease\<close>
  posts the mutex with an option the kernel refuses.
\<close>

section \<open>Operations that leave the mutex alone\<close>

lemma upd_same_mutex [simp]:
  "sMBIdleMutex (upd_dev i f s) = sMBIdleMutex s" "sMBIdleMutex (upd_cur_data i g s) = sMBIdleMutex s"
  "sMBIdleMutex (upd_hold_entry i k h s) = sMBIdleMutex s" "sMBIdleMutex (upd_coil_entry i k c s) = sMBIdleMutex s"
  by (simp_all add: upd_dev_def upd_cur_data_def upd_hold_entry_def upd_coil_entry_def)

lemma events_same_mutex [simp]:
  "sMBIdleMutex (xMBMasterPortEventPost e s) = sMBIdleMutex s"
  "sMBIdleMutex (request_finished e s) = sMBIdleMutex s"
  "sMBIdleMutex (vMBsMasterPortTmrsEnable s) = sMBIdleMutex s"
  "sMBIdleMutex (vMBsMasterPortTmrsConvertDelayEnable s) = sMBIdleMutex s"
  "sMBIdleMutex (vMBsMasterPortTmrsRespondTimeoutEnable s) = sMBIdleMutex s"
  "sMBIdleMutex (vMBsMasterPortTmrsDisable s) = sMBIdleMutex s"
  "sMBIdleMutex (vMBMasterPortSerialEnable rx tx s) = sMBIdleMutex s"
  "sMBIdleMutex (xMBMasterPortSerialPutByte b s) = sMBIdleMutex s"
  by (simp_all add: xMBMasterPortEventPost_def request_finished_def vMBsMasterPortTmrsEnable_def
      vMBsMasterPortTmrsConvertDelayEnable_def vMBsMasterPortTmrsRespondTimeoutEnable_def vMBsMasterPortTmrsDisable_def
      vMBMasterPortSerialEnable_eq xMBMasterPortSerialPutByte_def Let_def)

lemma link_step_same_mutex: "link_step e s = Some t \<Longrightarrow> sMBIdleMutex t = sMBIdleMutex s"
proof (cases e)
  case TxReady
  then show "link_step e s = Some t \<Longrightarrow> ?thesis"
    by (auto simp: prvvMasterUARTTxReadyISR_def xMBMasterRTUTransmitFSM_def Let_def
        split: if_splits bind_splits eMBMasterSndState.splits)
next
  case (RxByte b)
  then show "link_step e s = Some t \<Longrightarrow> ?thesis"
    by (auto simp: prvvMasterUARTRxISR_def xMBMasterRTUReceiveFSM_def split: if_splits bind_splits eMBMasterRcvState.splits)
next
  case (Expires x)
  have "sMBIdleMutex (timer_completed x s) = sMBIdleMutex s" by (cases x) auto
  moreover have "sMBIdleMutex (xMBMasterRTUTimerExpired r) = sMBIdleMutex r" for r :: "'a link_scheme"
    by (auto simp: xMBMasterRTUTimerExpired_def Let_def split: eMBMasterRcvState.split)
  ultimately show "link_step e s = Some t \<Longrightarrow> ?thesis" using Expires by (auto simp: vMasterTimeoutInd_def)
qed

lemma switch_dev_same_mutex: "switch_dev a s = Some (i, t) \<Longrightarrow> sMBIdleMutex t = sMBIdleMutex s"
  by (auto simp: switch_dev_def split: if_splits bind_splits)

lemma master_map_same_mutex: "master_map ty tab c a r s = Some (k, t) \<Longrightarrow> sMBIdleMutex t = sMBIdleMutex s"
  by (auto simp: master_map_def dest: switch_dev_same_mutex split: if_splits bind_splits option.splits)

lemmas maps_same_mutex = master_map_same_mutex[of RegInputData md_RegInTable True, folded eMBMasterRegInMap_def]
  master_map_same_mutex[of RegHoldData md_RegHoldTable True, folded eMBMasterRegHoldingMap_def]
  master_map_same_mutex[of CoilData md_CoilTable False, folded eMBMasterCoilMap_def]

lemma hold_read_loop_same_mutex: "hold_read_loop a n p r s = Some t \<Longrightarrow> sMBIdleMutex t = sMBIdleMutex s"
  by (induction n arbitrary: p r s)
    (fastforce simp: Let_def split: bind_splits option.splits prod.splits dest: maps_same_mutex)+

lemma hold_write_loop_same_mutex: "hold_write_loop a n r s = Some t \<Longrightarrow> sMBIdleMutex t = sMBIdleMutex s"
  by (induction n arbitrary: r s) (fastforce split: bind_splits option.splits dest: maps_same_mutex)+

lemma in_read_loop_same_mutex: "in_read_loop a n p r s = Some t \<Longrightarrow> sMBIdleMutex t = sMBIdleMutex s"
  by (induction n arbitrary: p r s) (fastforce split: bind_splits option.splits dest: maps_same_mutex)+

lemma master_set_byte_same_mutex: "master_set_byte a b is r s = Some (r', t) \<Longrightarrow> sMBIdleMutex t = sMBIdleMutex s"
  by (induction "is" arbitrary: r s)
    (fastforce simp: Let_def split: bind_splits option.splits prod.splits dest: maps_same_mutex)+

lemma coils_read_loop_same_mutex: "coils_read_loop a n left p r s = Some t \<Longrightarrow> sMBIdleMutex t = sMBIdleMutex s"
  by (induction left arbitrary: p r s) (fastforce split: bind_splits dest: master_set_byte_same_mutex)+

lemma coils_write_loop_same_mutex: "coils_write_loop a left r prev s = Some t \<Longrightarrow> sMBIdleMutex t = sMBIdleMutex s"
  by (induction left arbitrary: r prev s)
    (fastforce simp: Let_def split: bind_splits option.splits dest: maps_same_mutex)+

lemma callbacks_same_mutex:
  "eMBMasterRegHoldingCB p a n mode s = Some (err, t) \<Longrightarrow> sMBIdleMutex t = sMBIdleMutex s"
  "eMBMasterRegInputCB p a n s = Some (err, t) \<Longrightarrow> sMBIdleMutex t = sMBIdleMutex s"
  "eMBMasterRegCoilsCB p a n mode s = Some (err, t) \<Longrightarrow> sMBIdleMutex t = sMBIdleMutex s"
  by (fastforce simp: eMBMasterRegHoldingCB_def eMBMasterRegInputCB_def eMBMasterRegCoilsCB_def eMBMasterUtilSetBits_def
      split: if_splits bind_splits option.splits access.splits
      dest: switch_dev_same_mutex hold_read_loop_same_mutex hold_write_loop_same_mutex in_read_loop_same_mutex
        coils_read_loop_same_mutex coils_write_loop_same_mutex)+

lemma handlers_same_mutex:
  "eMBMasterFuncWriteMultipleHoldingRegister f s = Some (ex, t) \<Longrightarrow> sMBIdleMutex t = sMBIdleMutex s"
  "eMBMasterFuncReadHoldingRegister f s = Some (ex, t) \<Longrightarrow> sMBIdleMutex t = sMBIdleMutex s"
  "eMBMasterFuncReadInputRegister f s = Some (ex, t) \<Longrightarrow> sMBIdleMutex t = sMBIdleMutex s"
  "eMBMasterFuncReadCoils f s = Some (ex, t) \<Longrightarrow> sMBIdleMutex t = sMBIdleMutex s"
  "eMBMasterFuncWriteMultipleCoils f s = Some (ex, t) \<Longrightarrow> sMBIdleMutex t = sMBIdleMutex s"
  by (auto simp: eMBMasterFuncWriteMultipleHoldingRegister_def eMBMasterFuncReadHoldingRegister_def
      eMBMasterFuncReadInputRegister_def eMBMasterFuncReadCoils_def eMBMasterFuncWriteMultipleCoils_def cb_exception_def
      split: if_splits bind_splits dest: callbacks_same_mutex)

lemma handler_23_same_mutex:
  "eMBMasterFuncReadWriteMultipleHoldingRegister f s = Some (ex, t) \<Longrightarrow> sMBIdleMutex t = sMBIdleMutex s"
  by (fastforce simp: eMBMasterFuncReadWriteMultipleHoldingRegister_def cb_exception_def
      split: if_splits bind_splits dest: callbacks_same_mutex)

lemma broadcast_loop_same_mutex:
  assumes "\<And>s ex t. h f s = Some (ex, t) \<Longrightarrow> sMBIdleMutex t = sMBIdleMutex s"
  shows "broadcast_loop h f js r = Some (ex, t) \<Longrightarrow> sMBIdleMutex t = sMBIdleMutex (snd r)"
proof (induction js arbitrary: r)
  case (Cons j js)
  then obtain r' where r': "h f ((snd r)\<lparr>ucMBDestAddr := j\<rparr>) = Some r'" "broadcast_loop h f js r' = Some (ex, t)"
    by (auto split: bind_splits)
  then have "sMBIdleMutex (snd r') = sMBIdleMutex (snd r)"
    using assms[of "(snd r)\<lparr>ucMBDestAddr := j\<rparr>" "fst r'" "snd r'"] by simp
  then show ?case using Cons.IH[OF r'(2)] by simp
qed simp

lemma handler_same_mutex:
  assumes "map_of xMasterFuncHandlers code = Some h" "h f s = Some (ex, t)"
  shows "sMBIdleMutex t = sMBIdleMutex s"
  using assms by (auto simp: xMasterFuncHandlers_def split: if_splits dest: handlers_same_mutex handler_23_same_mutex)

lemma execute_same_mutex:
  assumes "master_execute f s = Some (ex, t)"
  shows "sMBIdleMutex t = sMBIdleMutex s"
proof -
  obtain code where code: "get (ucRTURcvBuf s) f = Some code"
    using assms by (auto simp: master_execute_def split: bind_splits)
  show ?thesis
  proof (cases "drop_bit 7 code = 0 \<and> map_of xMasterFuncHandlers code \<noteq> (None :: (nat \<Rightarrow> 'a master \<Rightarrow> _) option)")
    case True
    then obtain h where h: "map_of xMasterFuncHandlers code = Some (h :: nat \<Rightarrow> 'a master \<Rightarrow> _)" by blast
    have keep: "sMBIdleMutex q = sMBIdleMutex p" if "h f p = Some (e, q)" for p q e
      using handler_same_mutex[OF h] that by blast
    show ?thesis
    proof (cases "xFrameIsBroadcast s")
      case br: True
      then show ?thesis
        using assms True h code broadcast_loop_same_mutex[of h f, OF keep]
        by (auto simp: master_execute_def split: if_splits)
    next
      case False
      then show ?thesis using assms True h code keep by (auto simp: master_execute_def)
    qed
  next
    case False
    then show ?thesis
      using assms code by (cases "drop_bit 7 code = 0") (auto simp: master_execute_def split: bind_splits)
  qed
qed

lemma execute_event_same_mutex:
  "eMBMasterRTUSend a f n s = Some (err, t) \<Longrightarrow> sMBIdleMutex t = sMBIdleMutex s"
  by (auto simp: eMBMasterRTUSend_def Let_def split: if_splits bind_splits)

lemma release_same [simp]: "vMBMasterRunResRelease cur s = s"
  by (simp add: vMBMasterRunResRelease_def OSMutexPost_def)

lemma callbacks_finish [simp]:
  "vMBMasterErrorCBRespondTimeout s = request_finished EV_MASTER_ERROR_RESPOND_TIMEOUT s"
  "vMBMasterErrorCBReceiveData s = request_finished EV_MASTER_ERROR_RECEIVE_DATA s"
  "vMBMasterErrorCBExecuteFunction s = request_finished EV_MASTER_ERROR_EXECUTE_FUNCTION s"
  "vMBMasterCBRequestSuccess s = request_finished EV_MASTER_PROCESS_SUCCESS s"
  by (simp_all add: vMBMasterErrorCBRespondTimeout_def vMBMasterErrorCBReceiveData_def
      vMBMasterErrorCBExecuteFunction_def vMBMasterCBRequestSuccess_def)

lemma event_get_same_mutex:
  "xMBMasterPortEventGet e0 s = (ev, t) \<Longrightarrow> sMBIdleMutex t = sMBIdleMutex s"
  by (auto simp: xMBMasterPortEventGet_def Let_def split: if_splits)

lemma poll_same_mutex:
  assumes "eMBMasterPoll e0 s = Some (err, t)"
  shows "sMBIdleMutex t = sMBIdleMutex s"
proof -
  obtain ev s0 where get: "xMBMasterPortEventGet e0 s = (ev, s0)" by (cases "xMBMasterPortEventGet e0 s")
  then have s0: "sMBIdleMutex s0 = sMBIdleMutex s" by (rule event_get_same_mutex)
  consider "m_eMBState s \<noteq> STATE_ENABLED \<or> \<not> sMBEventSem s" | "m_eMBState s = STATE_ENABLED" "sMBEventSem s" by blast
  then show ?thesis
  proof cases
    case 1
    then show ?thesis using assms by (auto simp: eMBMasterPoll_def split: if_splits)
  next
    case 2
    then show ?thesis
    proof (cases ev)
      case None
      then show ?thesis using assms 2 get s0 by (simp add: eMBMasterPoll_def)
    next
      case (Some e)
      show ?thesis
      proof (cases e)
        case EV_MASTER_FRAME_RECEIVED
        then show ?thesis using assms 2 get s0 Some
          by (auto simp: eMBMasterPoll_def Let_def split: option.splits prod.splits if_splits)
      next
        case EV_MASTER_EXECUTE
        then show ?thesis using assms 2 get s0 Some
          by (auto simp: eMBMasterPoll_def split: bind_splits if_splits dest: execute_same_mutex)
      next
        case EV_MASTER_FRAME_SENT
        then show ?thesis using assms 2 get s0 Some
          by (auto simp: eMBMasterPoll_def split: bind_splits dest: execute_event_same_mutex)
      next
        case EV_MASTER_ERROR_PROCESS
        then show ?thesis using assms 2 get s0 Some
          by (auto simp: eMBMasterPoll_def split: eMBMasterErrorEventType.splits)
      qed (use assms 2 get s0 Some in \<open>simp_all add: eMBMasterPoll_def\<close>)
    qed
  qed
qed

lemma bus_step_same_mutex: "bus_step e s = Some t \<Longrightarrow> sMBIdleMutex t = sMBIdleMutex s"
proof (cases e)
  case (Link l)
  then show "bus_step e s = Some t \<Longrightarrow> ?thesis" using link_step_same_mutex by auto
next
  case (Poll e0)
  then show "bus_step e s = Some t \<Longrightarrow> ?thesis" using poll_same_mutex by auto
next
  case (DevTimeout i)
  then show "bus_step e s = Some t \<Longrightarrow> ?thesis"
    by (auto simp: vMBMasterDevOfflineTimeout_def split: option.splits if_splits)
qed auto

lemma bus_steps_same_mutex: "bus_steps es s = Some t \<Longrightarrow> sMBIdleMutex t = sMBIdleMutex s"
  by (induction es arbitrary: s) (auto split: bind_splits dest: bus_step_same_mutex)

lemma wait_loop_same_mutex: "wait_loop n c s = Some (c', t) \<Longrightarrow> sMBIdleMutex t = sMBIdleMutex s"
proof (induction n arbitrary: c s)
  case (Suc n)
  have dly: "vMBTimeDly s = Some u \<Longrightarrow> sMBIdleMutex u = sMBIdleMutex s" for u
    by (auto simp: vMBTimeDly_def split: list.splits dest: bus_steps_same_mutex)
  show ?case using Suc.prems Suc.IH dly by (fastforce split: if_splits bind_splits)
qed simp

lemma wait_same_mutex: "eMBMasterWaitRequestFinish cur s = Some (err, t) \<Longrightarrow> sMBIdleMutex t = sMBIdleMutex s"
  using wait_loop_same_mutex[of MB_MASTER_PORT_WAIT_TIMES 0 s]
  by (auto simp: eMBMasterWaitRequestFinish_def split: bind_splits if_splits)

section \<open>The owner stays the owner\<close>

definition bus_held :: "mb_task \<Rightarrow> 'z link_scheme \<Rightarrow> bool" where
  "bus_held t s \<longleftrightarrow> OwnerTCB (sMBIdleMutex s) = Some t \<and> OwnerNestingCtr (sMBIdleMutex s) \<noteq> 0"

lemma bus_held_cong: "sMBIdleMutex t = sMBIdleMutex s \<Longrightarrow> bus_held own t \<longleftrightarrow> bus_held own s"
  by (simp add: bus_held_def)

definition keeps_bus :: "mb_task \<Rightarrow> ('v master \<Rightarrow> ('r \<times> 'v master) option) \<Rightarrow> bool" where
  "keeps_bus own f \<longleftrightarrow> (\<forall>s r t. bus_held own s \<longrightarrow> f s = Some (r, t) \<longrightarrow> bus_held own t)"

lemma keeps_busD: "keeps_bus own f \<Longrightarrow> f s = Some (r, t) \<Longrightarrow> bus_held own s \<Longrightarrow> bus_held own t"
  by (simp add: keeps_bus_def)

lemma keeps_busI: "(\<And>s r t. bus_held own s \<Longrightarrow> f s = Some (r, t) \<Longrightarrow> bus_held own t) \<Longrightarrow> keeps_bus own f"
  by (simp add: keeps_bus_def)

text \<open>Asking for the bus: the owner nests deeper, up to a limit; any other task waits.\<close>

lemma take_keeps_bus:
  assumes "bus_held own s"
  shows "bus_held own (snd (xMBMasterRunResTake cur s))" "cur \<noteq> own \<Longrightarrow> fst (xMBMasterRunResTake cur s) = None"
proof -
  have "w + 1 \<noteq> 0" if "w \<noteq> - 1" for w :: u8 using that by (metis add.commute add_diff_cancel_left' diff_0)
  then show "bus_held own (snd (xMBMasterRunResTake cur s))" "cur \<noteq> own \<Longrightarrow> fst (xMBMasterRunResTake cur s) = None"
    using assms by (auto simp: bus_held_def xMBMasterRunResTake_def OSMutexPend_def)
qed

lemma request_keeps_bus:
  assumes "\<And>s t. start s = Some t \<Longrightarrow> sMBIdleMutex t = sMBIdleMutex s"
  shows "keeps_bus own (master_request cur addr start)"
proof (rule keeps_busI)
  fix s r t assume s: "bus_held own s" and req: "master_request cur addr start s = Some (r, t)"
  obtain go s1 where take: "xMBMasterRunResTake cur s = (go, s1)" by (cases "xMBMasterRunResTake cur s")
  have s1: "bus_held own s1" using take_keeps_bus(1)[OF s, of cur] take by simp
  have run: "bus_held own v" if "start s1 = Some u" "eMBMasterWaitRequestFinish cur u = Some (err, v)" for u v err
    using s1 assms[OF that(1)] wait_same_mutex[OF that(2)] by (simp add: bus_held_def)
  show "bus_held own t"
  proof (cases "addr < m_ucSlaveDevMinAddr s \<or> addr > m_ucSlaveDevMaxAddr s")
    case True
    then show ?thesis using req s by (simp add: master_request_def)
  next
    case False
    then show ?thesis
      using req s1 run by (cases go) (auto simp: master_request_def take split: bool.splits bind_splits)
  qed
qed

lemma start_same_mutex: "start_request pdu len a s = Some t \<Longrightarrow> sMBIdleMutex t = sMBIdleMutex s"
  by (auto simp: start_request_def split: bind_splits)

lemma requests_keep_bus:
  "keeps_bus own (eMBMasterReqReadInputRegister cur a r n)" "keeps_bus own (eMBMasterReqReadHoldingRegister cur a r n)"
  "keeps_bus own (eMBMasterReqReadCoils cur a r n)"
  by (auto simp: eMBMasterReqReadInputRegister_def eMBMasterReqReadHoldingRegister_def eMBMasterReqReadCoils_def
      intro!: request_keeps_bus dest: start_same_mutex)

lemma write_requests_keep_bus:
  "keeps_bus own (eMBMasterReqWriteMultipleHoldingRegister cur a r n vs)"
  "keeps_bus own (\<lambda>s. eMBMasterReqWriteMultipleCoils cur a r n bs s)"
proof -
  show "keeps_bus own (eMBMasterReqWriteMultipleHoldingRegister cur a r n vs)"
    by (auto simp: eMBMasterReqWriteMultipleHoldingRegister_def intro!: request_keeps_bus dest: start_same_mutex
        split: bind_splits)
  have "keeps_bus own (master_request cur a (\<lambda>s. if unat (coil_bytes n) \<le> length bs
      then start_request (read_pdu 15 r n @ coil_bytes n # take (unat (coil_bytes n)) bs) (1 + 5 + ucast (coil_bytes n)) a s
      else None))"
    by (auto intro!: request_keeps_bus dest: start_same_mutex split: if_splits)
  then show "keeps_bus own (\<lambda>s. eMBMasterReqWriteMultipleCoils cur a r n bs s)"
    by (auto simp: keeps_bus_def eMBMasterReqWriteMultipleCoils_def)
qed

section \<open>Scanning\<close>

lemma run_blocks_keeps_bus:
  assumes "\<And>a n. keeps_bus own (req a n)"
  shows "run_blocks req bs st s = Some (r, t) \<Longrightarrow> bus_held own s \<Longrightarrow> bus_held own t"
proof (induction bs arbitrary: st s)
  case (Cons b bs)
  obtain r1 s1 where first: "req (fst b) (snd b) s = Some (r1, s1)"
    using Cons.prems(1) by (cases "req (fst b) (snd b) s") auto
  then have "bus_held own s1" using keeps_busD[OF assms] Cons.prems(2) by blast
  then show ?case using Cons.prems(1) Cons.IH first by (cases r1) auto
qed simp

lemma read_scan_keeps_bus:
  assumes "\<And>a n. keeps_bus own (req a n)" "no_etimedout req"
  shows "keeps_bus own (read_scan interval num stop req tab addr acc)"
  using run_blocks_keeps_bus[OF assms(1)]
  by (auto simp: keeps_bus_def read_scan_def read_scan_loop_blocks[OF assms(2)] split: option.splits if_splits)

lemma scan_reads_keep_bus:
  "keeps_bus own (eMBMasterScanReadRegIn cur i)" "keeps_bus own (eMBMasterScanReadRegHold cur i)"
  "keeps_bus own (eMBMasterScanReadCoils cur i)"
  unfolding keeps_bus_def eMBMasterScanReadRegIn_def eMBMasterScanReadRegHold_def eMBMasterScanReadCoils_def
  using read_scan_keeps_bus[OF requests_keep_bus(1) read_requests_no_etimedout(2), THEN keeps_busD]
    read_scan_keeps_bus[OF requests_keep_bus(2) read_requests_no_etimedout(1), THEN keeps_busD]
    read_scan_keeps_bus[OF requests_keep_bus(3) read_requests_no_etimedout(3), THEN keeps_busD]
  by (auto split: bind_splits)

section \<open>The task that reads\<close>

lemma keeps_bus_return: "keeps_bus own (\<lambda>s. Some (c s, f s))" if "\<And>s. sMBIdleMutex (f s) = sMBIdleMutex s"
  using that by (auto simp: keeps_bus_def bus_held_def)

lemma scan_stage_keeps_bus:
  assumes "keeps_bus own scan" "keeps_bus own rest"
  shows "keeps_bus own (scan_stage i scan rest)"
proof (rule keeps_busI)
  fix s r t assume s: "bus_held own s" "scan_stage i scan rest s = Some (r, t)"
  obtain c s1 where first: "scan s = Some (c, s1)" using s(2) by (cases "scan s") (auto simp: scan_stage_def)
  then have "bus_held own s1" using keeps_busD[OF assms(1)] s(1) by blast
  then show "bus_held own t"
    using s(2) first keeps_busD[OF assms(2)]
    by (cases c) (auto simp: scan_stage_def bus_held_def split: if_splits)
qed

lemma bus_held_simps [simp]:
  "bus_held own (s\<lparr>m_eMBRunMode := x\<rparr>) = bus_held own s"
  "bus_held own (s\<lparr>psMBSlaveDevCur := p\<rparr>) = bus_held own s"
  "bus_held own (upd_dev i f s) = bus_held own s"
  by (simp_all add: bus_held_def)

lemma read_data_keeps_bus: "keeps_bus own (vMBMasterScanReadSlaveDevData cur i syn)"
proof -
  have "keeps_bus own (scan_stage i (eMBMasterScanReadRegHold cur i) (scan_stage i (eMBMasterScanReadCoils cur i)
      (scan_stage i (eMBMasterScanReadRegIn cur i) (\<lambda>s. Some (True, s)))))"
    by (intro scan_stage_keeps_bus scan_reads_keep_bus keeps_bus_return) simp
  note stages = keeps_busD[OF this]
  show ?thesis
  proof (rule keeps_busI)
    fix s r t assume "bus_held own s" "vMBMasterScanReadSlaveDevData cur i syn s = Some (r, t)"
    then show "bus_held own t"
      using stages[of "s\<lparr>psMBSlaveDevCur := Some i, m_eMBRunMode := (if syn then STATE_SYSN_DEV else STATE_SCAN_DEV)\<rparr>" r t]
      by (simp add: vMBMasterScanReadSlaveDevData_def)
  qed
qed

lemma read_slave_keeps_bus: "keeps_bus own (vMBMasterScanReadSlaveDev cur i)"
  using keeps_busD[OF read_data_keeps_bus[of own cur i]]
  by (auto simp: vMBMasterScanReadSlaveDev_def intro!: keeps_busI split: bind_splits if_splits)

lemma cmd_test_keeps_bus: "keeps_bus own (eMBDevCmdTest cur i cmd)"
  by (cases "cmd_eCmdMode cmd") (auto simp: eMBDevCmdTest_def Let_def intro!: keeps_busI split: bind_splits if_splits
      elim!: keeps_busD[OF requests_keep_bus(1)[of own cur]] keeps_busD[OF requests_keep_bus(2)[of own cur]])

lemma cmd_retries_keeps_bus: "keeps_bus own (cmd_retries n cur i cmd code)"
proof (induction n arbitrary: code)
  case (Suc n)
  show ?case
    by (auto intro!: keeps_busI split: bind_splits option.splits eMBMasterReqErrCode.splits)
      (blast dest: keeps_busD[OF cmd_test_keeps_bus[of own cur i cmd]] keeps_busD[OF Suc])+
qed (auto simp: keeps_bus_def)

lemma dev_test_loop_keeps_bus: "keeps_bus own (dev_test_loop cur i js code :: 'v master \<Rightarrow> _)"
proof (induction js arbitrary: code)
  case (Cons j js)
  show ?case
  proof (rule keeps_busI)
    fix s t :: "'v master" and r assume s: "bus_held own s" "dev_test_loop cur i (j # js) code s = Some (r, t)"
    obtain d where d: "dev_at s i = Some d" using s(2) by (auto split: bind_splits)
    define cmd where "cmd = md_DevCmdTable (sd_psDevDataInfo d ! j)"
    obtain c s1 where first: "cmd_retries MB_TEST_RETRY_TIMES cur i cmd code s = Some (c, s1)"
      using s(2) d by (auto simp: cmd_def Let_def split: bind_splits)
    then have "bus_held own s1" using keeps_busD[OF cmd_retries_keeps_bus] s(1) by blast
    then show "bus_held own t"
      using s(2) d first
      by (auto simp: cmd_def[symmetric] Let_def split: bind_splits option.splits if_splits eMBMasterReqErrCode.splits)
        (metis keeps_busD[OF Cons.IH])+
  qed
qed (auto simp: keeps_bus_def)

lemma offline_timer_keeps_bus [simp]: "bus_held own (xMBMasterDevOfflineTmrEnable i s) = bus_held own s"
  by (simp add: xMBMasterDevOfflineTmrEnable_def)

lemma dev_tests_keep_bus: "keeps_bus own (vMBDevTest cur i)" "keeps_bus own (vMBDevCurStateTest cur i)"
  by (auto simp: vMBDevTest_def vMBDevCurStateTest_def Let_def intro!: keeps_busI
      split: bind_splits if_splits option.splits eMBMasterReqErrCode.splits
      elim!: keeps_busD[OF dev_test_loop_keeps_bus[of own cur i]] keeps_busD[OF cmd_retries_keeps_bus[of own _ cur i]])

lemma for_devices_keeps_bus:
  assumes "\<And>i. keeps_bus own (f i)"
  shows "keeps_bus own (for_devices f is)"
proof (induction "is")
  case (Cons i "is")
  show ?case
    by (auto intro!: keeps_busI split: bind_splits if_splits) (blast dest: keeps_busD[OF assms] keeps_busD[OF Cons])+
qed (auto simp: keeps_bus_def)

lemma test_dev_keeps_bus: "keeps_bus own (test_dev cur i)"
  by (auto simp: test_dev_def intro!: keeps_busI split: bind_splits if_splits elim!: keeps_busD[OF dev_tests_keep_bus(1)])

lemma read_dev_keeps_bus: "keeps_bus own (read_dev cur i)"
  by (auto simp: read_dev_def intro!: keeps_busI split: bind_splits if_splits)
    (blast dest: keeps_busD[OF dev_tests_keep_bus(2)] keeps_busD[OF read_slave_keeps_bus])+

lemma passes_keep_bus:
  "keeps_bus own (for_devices (test_dev Task_ScanRead) ds)" "keeps_bus own (for_devices (read_dev Task_ScanRead) ds)"
  by (rule for_devices_keeps_bus, rule test_dev_keeps_bus) (rule for_devices_keeps_bus, rule read_dev_keeps_bus)

lemma read_task_keeps_bus: "keeps_bus own (vMBMasterScanReadSlaveDevTask :: 'v master \<Rightarrow> _)"
proof (rule keeps_busI)
  fix s t :: "'v master" and r assume s: "bus_held own s" "vMBMasterScanReadSlaveDevTask s = Some (r, t)"
  let ?ds = "[0..<length (psMBSlaveDevsList s)]"
  show "bus_held own t"
  proof (cases "m_eMBState s = STATE_NOT_INITIALIZED")
    case False
    then obtain go s1 where first: "for_devices (test_dev Task_ScanRead) ?ds s = Some (go, s1)"
      using s(2) by (auto simp: vMBMasterScanReadSlaveDevTask_def Let_def split: bind_splits)
    then have "bus_held own s1" using keeps_busD[OF passes_keep_bus(1)] s(1) by blast
    then show ?thesis
      using s(2) False first
      by (auto simp: vMBMasterScanReadSlaveDevTask_def Let_def split: if_splits dest: keeps_busD[OF passes_keep_bus(2)])
  qed (use s in \<open>simp add: vMBMasterScanReadSlaveDevTask_def\<close>)
qed

section \<open>The task that writes\<close>

text \<open>While the other task owns the bus, nothing is sent and no request is prepared.\<close>

definition silent :: "'v master \<Rightarrow> 'v master \<Rightarrow> bool" where
  "silent s t \<longleftrightarrow> bus_held Task_ScanRead t \<and> uart_out t = uart_out s \<and> ucRTUSndBuf t = ucRTUSndBuf s \<and>
     m_eQueuedEvent t = m_eQueuedEvent s \<and> m_xEventInQueue t = m_xEventInQueue s \<and> master_mem t = master_mem s"

definition stays_silent :: "('v master \<Rightarrow> ('r \<times> 'v master) option) \<Rightarrow> bool" where
  "stays_silent f \<longleftrightarrow> (\<forall>s r t. bus_held Task_ScanRead s \<longrightarrow> f s = Some (r, t) \<longrightarrow> silent s t)"

lemma silent_refl: "bus_held Task_ScanRead s \<Longrightarrow> silent s s"
  by (simp add: silent_def)

lemma silent_trans: "silent r s \<Longrightarrow> silent s t \<Longrightarrow> silent r t"
  by (simp add: silent_def)

lemma silent_held: "silent s t \<Longrightarrow> bus_held Task_ScanRead t"
  by (simp add: silent_def)

lemma stays_silentD: "stays_silent f \<Longrightarrow> f s = Some (r, t) \<Longrightarrow> bus_held Task_ScanRead s \<Longrightarrow> silent s t"
  by (simp add: stays_silent_def)

lemma stays_silentI: "(\<And>s r t. bus_held Task_ScanRead s \<Longrightarrow> f s = Some (r, t) \<Longrightarrow> silent s t) \<Longrightarrow> stays_silent f"
  by (simp add: stays_silent_def)

lemma write_request_waits:
  assumes "bus_held Task_ScanRead s" "m_ucSlaveDevMinAddr s \<le> addr" "addr \<le> m_ucSlaveDevMaxAddr s"
  shows "\<exists>m. master_request Task_ScanWrite addr start s = Some (None, s\<lparr>sMBIdleMutex := m\<rparr>) \<and>
    silent s (s\<lparr>sMBIdleMutex := m\<rparr>)"
proof -
  define m where "m = (sMBIdleMutex s)\<lparr>PendList := PendList (sMBIdleMutex s) @ [Task_ScanWrite]\<rparr>"
  have m: "OSMutexPend Task_ScanWrite (sMBIdleMutex s) = (None, m)" "bus_held Task_ScanRead (s\<lparr>sMBIdleMutex := m\<rparr>)"
    using assms(1) by (simp_all add: bus_held_def OSMutexPend_def m_def)
  have "\<not> addr < m_ucSlaveDevMinAddr s" "\<not> addr > m_ucSlaveDevMaxAddr s" using assms(2,3) by auto
  then show ?thesis
    using m by (intro exI[of _ m]) (simp add: master_request_def xMBMasterRunResTake_def silent_def)
qed

lemma request_stays_silent: "stays_silent (master_request Task_ScanWrite addr start)"
proof (rule stays_silentI)
  fix s r t assume s: "bus_held Task_ScanRead s" "master_request Task_ScanWrite addr start s = Some (r, t)"
  show "silent s t"
  proof (cases "addr < m_ucSlaveDevMinAddr s \<or> addr > m_ucSlaveDevMaxAddr s")
    case True
    then show ?thesis using s by (auto simp: master_request_def silent_def)
  next
    case False
    then show ?thesis using write_request_waits[OF s(1), of addr start] s(2) by (auto simp: not_less)
  qed
qed

lemma write_requests_silent:
  "stays_silent (eMBMasterWriteRegHold Task_ScanWrite a r n)" "stays_silent (eMBMasterWriteCoil Task_ScanWrite a r n)"
proof -
  show "stays_silent (eMBMasterWriteRegHold Task_ScanWrite a r n)"
    unfolding eMBMasterWriteRegHold_def eMBMasterReqWriteMultipleHoldingRegister_def
    by (rule stays_silentI) (erule stays_silentD[OF request_stays_silent])
  show "stays_silent (eMBMasterWriteCoil Task_ScanWrite a r n)"
    unfolding eMBMasterWriteCoil_def eMBMasterReqWriteMultipleCoils_def
    by (rule stays_silentI) (auto simp: silent_refl split: if_splits elim: stays_silentD[OF request_stays_silent])
qed

lemma write_collect_silent: "stays_silent (write_collect check e w)"
  by (auto simp: stays_silent_def write_collect_def Let_def silent_def bus_held_def split: bind_splits option.splits if_splits)

lemma coil_collect_silent: "stays_silent (coil_collect check e c)"
  by (auto simp: stays_silent_def coil_collect_def Let_def silent_def bus_held_def split: bind_splits option.splits if_splits)

lemma silent_list [simp]:
  "silent s (t\<lparr>RegHoldValList := l\<rparr>) = silent s t" "silent s (t\<lparr>BitCoilByteValList := b\<rparr>) = silent s t"
  by (simp_all add: silent_def bus_held_def)

lemma write_flush_silent: "stays_silent (write_flush Task_ScanWrite a at_end r w)"
  by (auto simp: stays_silent_def write_flush_def silent_refl split: bind_splits option.splits if_splits
      dest: stays_silentD[OF write_requests_silent(1)])

lemma coil_flush_silent: "stays_silent (coil_flush Task_ScanWrite a at_end e c)"
  by (auto simp: stays_silent_def coil_flush_def Let_def silent_refl split: bind_splits option.splits if_splits
      dest: stays_silentD[OF write_requests_silent(2)])

lemma write_scan_loop_silent: "stays_silent (write_scan_loop Task_ScanWrite a check i ks w :: 'v master \<Rightarrow> _)"
proof (induction ks arbitrary: w)
  case (Cons k ks)
  show ?case
  proof (rule stays_silentI)
    fix s t :: "'v master" and r assume s: "bus_held Task_ScanRead s" "write_scan_loop Task_ScanWrite a check i (k # ks) w s = Some (r, t)"
    obtain e w1 s1 where first: "hold_entry s i k = Some e" "write_collect check e w s = Some (w1, s1)"
      using s(2) by (auto split: bind_splits)
    then have s1: "silent s s1" using stays_silentD[OF write_collect_silent] s(1) by blast
    obtain c s2 where second: "write_flush Task_ScanWrite a (ks = []) (mh_usAddr e) w1 s1 = Some (c, s2)"
      using s(2) first by (auto split: bind_splits)
    then have s2: "silent s s2"
      using stays_silentD[OF write_flush_silent] silent_held[OF s1] silent_trans[OF s1] by blast
    show "silent s t"
    proof (cases c)
      case None
      then show ?thesis using s(2) first second s2 by simp
    next
      case (Some w2)
      then have "write_scan_loop Task_ScanWrite a check i ks w2 s2 = Some (r, t)" using s(2) first second by simp
      then show ?thesis using stays_silentD[OF Cons.IH] silent_held[OF s2] silent_trans[OF s2] by blast
    qed
  qed
qed (simp add: stays_silent_def silent_refl)

lemma coil_scan_loop_silent: "stays_silent (coil_scan_loop Task_ScanWrite a check i ks c :: 'v master \<Rightarrow> _)"
proof (induction ks arbitrary: c)
  case (Cons k ks)
  show ?case
  proof (rule stays_silentI)
    fix s t :: "'v master" and r assume s: "bus_held Task_ScanRead s" "coil_scan_loop Task_ScanWrite a check i (k # ks) c s = Some (r, t)"
    obtain e c1 s1 where first: "coil_entry s i k = Some e" "coil_collect check e c s = Some (c1, s1)"
      using s(2) by (auto split: bind_splits)
    then have s1: "silent s s1" using stays_silentD[OF coil_collect_silent] s(1) by blast
    obtain d s2 where second: "coil_flush Task_ScanWrite a (ks = []) e c1 s1 = Some (d, s2)"
      using s(2) first by (auto split: bind_splits)
    then have s2: "silent s s2"
      using stays_silentD[OF coil_flush_silent] silent_held[OF s1] silent_trans[OF s1] by blast
    show "silent s t"
    proof (cases d)
      case None
      then show ?thesis using s(2) first second s2 by simp
    next
      case (Some c2)
      then have "coil_scan_loop Task_ScanWrite a check i ks c2 s2 = Some (r, t)" using s(2) first second by simp
      then show ?thesis using stays_silentD[OF Cons.IH] silent_held[OF s2] silent_trans[OF s2] by blast
    qed
  qed
qed (simp add: stays_silent_def silent_refl)

lemma scan_writes_silent:
  "stays_silent (eMBMasterScanWriteRegHold Task_ScanWrite i check)" "stays_silent (eMBMasterScanWriteCoils Task_ScanWrite i check)"
  by (auto simp: eMBMasterScanWriteRegHold_def eMBMasterScanWriteCoils_def silent_refl intro!: stays_silentI
      split: bind_splits if_splits elim!: stays_silentD[OF write_scan_loop_silent] stays_silentD[OF coil_scan_loop_silent])

lemma silent_upd_dev [simp]: "silent s (upd_dev i f t) = silent s t"
  by (simp add: silent_def upd_dev_def bus_held_def)

lemma scan_stage_silent:
  assumes "stays_silent scan" "stays_silent rest"
  shows "stays_silent (scan_stage i scan rest :: 'v master \<Rightarrow> _)"
proof (rule stays_silentI)
  fix s t :: "'v master" and r assume s: "bus_held Task_ScanRead s" "scan_stage i scan rest s = Some (r, t)"
  obtain c s1 where first: "scan s = Some (c, s1)" using s(2) by (cases "scan s") (auto simp: scan_stage_def)
  then have s1: "silent s s1" using stays_silentD[OF assms(1)] s(1) by blast
  have rest: "silent s t" if "rest s1 = Some (r, t)"
    using stays_silentD[OF assms(2) that silent_held[OF s1]] silent_trans[OF s1] by blast
  show "silent s t"
    using s(2) first s1 rest by (cases c) (auto simp: scan_stage_def split: if_splits)
qed

lemma write_slave_silent: "stays_silent (vMBMasterScanWriteSlaveDev Task_ScanWrite i :: 'v master \<Rightarrow> _)"
proof -
  have "stays_silent (scan_stage i (eMBMasterScanWriteRegHold Task_ScanWrite i check)
      (scan_stage i (eMBMasterScanWriteCoils Task_ScanWrite i check) (\<lambda>s. Some (True, s))) :: 'v master \<Rightarrow> _)" for check
    by (intro scan_stage_silent scan_writes_silent) (simp add: stays_silent_def silent_refl)
  note stages = stays_silentD[OF this]
  have data: "silent s t" if "vMBMasterScanWriteSlaveDevData Task_ScanWrite i check s = Some (r, t)" "bus_held Task_ScanRead s"
    for check r and s t :: "'v master"
    using stages[of check "s\<lparr>psMBSlaveDevCur := Some i, m_eMBRunMode := STATE_SCAN_DEV\<rparr>" r t] that
    by (simp add: vMBMasterScanWriteSlaveDevData_def silent_def)
  show ?thesis
    by (auto simp: vMBMasterScanWriteSlaveDev_def silent_refl intro!: stays_silentI split: bind_splits if_splits
        elim!: data)
qed

lemma write_task_silent: "stays_silent (vMBMasterScanWriteSlaveDevTask :: 'v master \<Rightarrow> _)"
proof -
  have dev: "stays_silent (write_dev Task_ScanWrite i :: 'v master \<Rightarrow> _)" for i
    by (auto simp: write_dev_def silent_refl intro!: stays_silentI split: bind_splits if_splits
        elim!: stays_silentD[OF write_slave_silent])
  have pass: "stays_silent (for_devices (write_dev Task_ScanWrite) ds :: 'v master \<Rightarrow> _)" for ds
  proof (induction ds)
    case (Cons i ds)
    show ?case
    proof (rule stays_silentI)
      fix s t :: "'v master" and r assume s: "bus_held Task_ScanRead s" "for_devices (write_dev Task_ScanWrite) (i # ds) s = Some (r, t)"
      obtain go s1 where first: "write_dev Task_ScanWrite i s = Some (go, s1)"
        using s(2) by (auto split: bind_splits)
      then have s1: "silent s s1" using stays_silentD[OF dev] s(1) by blast
      have rest: "silent s t" if "for_devices (write_dev Task_ScanWrite) ds s1 = Some (r, t)"
        using stays_silentD[OF Cons.IH that silent_held[OF s1]] silent_trans[OF s1] by blast
      show "silent s t" using s(2) first s1 rest by (cases go) auto
    qed
  qed (simp add: stays_silent_def silent_refl)
  show ?thesis
  proof (rule stays_silentI)
    fix s t :: "'v master" and r
    assume s: "bus_held Task_ScanRead s" "vMBMasterScanWriteSlaveDevTask s = Some (r, t)"
    show "silent s t"
    proof (cases "m_eMBState s = STATE_NOT_INITIALIZED")
      case False
      then have "for_devices (write_dev Task_ScanWrite) [0..<length (psMBSlaveDevsList s)] s = Some (r, t)"
        using s(2) by (simp add: vMBMasterScanWriteSlaveDevTask_def)
      then show ?thesis using stays_silentD[OF pass] s(1) by blast
    qed (use s in \<open>simp add: vMBMasterScanWriteSlaveDevTask_def silent_refl\<close>)
  qed
qed

section \<open>Runs of the master\<close>

text \<open>
  One step of a run: an interrupt, a timer or a round of the poll task; a pass of the reading task;
  a pass of the writing task.
\<close>

inductive master_step :: "'v master \<Rightarrow> 'v master \<Rightarrow> bool" where
  event: "bus_step e s = Some t \<Longrightarrow> master_step s t"
| read_pass: "vMBMasterScanReadSlaveDevTask s = Some (go, t) \<Longrightarrow> master_step s t"
| write_pass: "vMBMasterScanWriteSlaveDevTask s = Some (go, t) \<Longrightarrow> master_step s t"

inductive master_runs :: "'v master \<Rightarrow> 'v master \<Rightarrow> bool" where
  here: "master_runs s s"
| step: "master_runs s t \<Longrightarrow> master_step t u \<Longrightarrow> master_runs s u"

inductive_cases master_stepE: "master_step s t"

lemma step_keeps_bus:
  fixes s t :: "'v master"
  assumes "master_step s t" "bus_held Task_ScanRead s"
  shows "bus_held Task_ScanRead t"
  using assms
proof cases
  case (event e)
  then show ?thesis using bus_step_same_mutex[OF event] bus_held_cong assms(2) by blast
next
  case (read_pass go)
  then show ?thesis using keeps_busD[OF read_task_keeps_bus read_pass assms(2)] by blast
next
  case (write_pass go)
  then show ?thesis using stays_silentD[OF write_task_silent write_pass assms(2)] silent_held by blast
qed

lemma runs_keep_bus:
  fixes s t :: "'v master"
  assumes "master_runs s t" "bus_held Task_ScanRead s"
  shows "bus_held Task_ScanRead t"
  using assms by (induction rule: master_runs.induct) (auto intro: step_keeps_bus)

text \<open>A request of the reading task on a free bus leaves it the owner.\<close>

lemma first_request_takes_bus:
  fixes s0 s :: "'v master"
  assumes "bus_free_for Task_ScanRead s0" "m_ucSlaveDevMinAddr s0 \<le> addr" "addr \<le> m_ucSlaveDevMaxAddr s0"
    and req: "eMBMasterReqReadHoldingRegister Task_ScanRead addr r n s0 = Some (err, s)"
    and nested: "OwnerNestingCtr (sMBIdleMutex s0) \<noteq> - 1"
  shows "bus_held Task_ScanRead s"
proof -
  have "w + 1 \<noteq> 0" if "w \<noteq> - 1" for w :: u8 using that by (metis add.commute add_diff_cancel_left' diff_0)
  then have taken: "bus_held Task_ScanRead (snd (xMBMasterRunResTake Task_ScanRead s0))"
      "fst (xMBMasterRunResTake Task_ScanRead s0) = Some True"
    using assms(1) nested by (auto simp: bus_held_def xMBMasterRunResTake_def OSMutexPend_def bus_free_for_def)
  obtain s1 where s1: "xMBMasterRunResTake Task_ScanRead s0 = (Some True, s1)"
    using taken(2) by (cases "xMBMasterRunResTake Task_ScanRead s0") auto
  have held: "bus_held Task_ScanRead v"
    if "start_request p l a w = Some u" "eMBMasterWaitRequestFinish Task_ScanRead u = Some (e, v)"
      "sMBIdleMutex w = sMBIdleMutex s1" for p l a u e v and w :: "'v master"
    using taken(1) start_same_mutex[OF that(1)] wait_same_mutex[OF that(2)] that(3) s1 by (simp add: bus_held_def)
  show ?thesis
    using req assms(2,3) s1 held
    by (auto simp: eMBMasterReqReadHoldingRegister_def master_request_def not_less[symmetric] split: bind_splits
        elim!: held)
qed

lemma wait_in_silence: "bus s = [] \<Longrightarrow> \<not> xMBIsFinished s \<Longrightarrow> wait_loop n c s = Some (c + n, s)"
  by (induction n arbitrary: c) (simp_all add: vMBTimeDly_def)

lemma unanswered:
  assumes "bus_free_for cur s" "bus s = []" "m_ucSlaveDevMinAddr s \<le> addr" "addr \<le> m_ucSlaveDevMaxAddr s"
    "5 < length (ucRTUSndBuf s)"
  shows "\<exists>t. eMBMasterReqReadHoldingRegister cur addr r n s = Some (Some MB_MRE_TIMEDOUT, t) \<and>
    m_ucSlaveDevMinAddr t = m_ucSlaveDevMinAddr s \<and> m_ucSlaveDevMaxAddr t = m_ucSlaveDevMaxAddr s"
proof -
  obtain m where m: "xMBMasterRunResTake cur s = (Some True, s\<lparr>sMBIdleMutex := m, xMBIsFinished := False\<rparr>)"
    using bus_taken[OF assms(1)] by blast
  obtain b where b: "put_list 1 (read_pdu 3 r n) (ucRTUSndBuf s) = Some b"
    using assms(5) put_list_all[of 1 "read_pdu 3 r n"] by (simp add: read_pdu_def)
  show ?thesis
    using assms m b
    by (simp add: eMBMasterReqReadHoldingRegister_def master_request_def start_request_def not_less[symmetric]
        eMBMasterWaitRequestFinish_def wait_in_silence xMBMasterPortEventPost_def)
qed

text \<open>
  C35. The bus is taken once and for all. After one request of the reading task on a free bus, in every state
  that the interrupts, the timers, the poll task and the passes of both scan tasks reach, the reading task still
  owns the bus; every request of the writing task to a valid address blocks, so a pass of the writing task sends
  no byte, prepares no frame, posts no event and changes no register of a device: no set point is ever written.
\<close>

theorem write_task_never_sends:
  fixes s0 s t :: "'v master"
  assumes "bus_free_for Task_ScanRead s0" "OwnerNestingCtr (sMBIdleMutex s0) \<noteq> - 1"
    and "m_ucSlaveDevMinAddr s0 \<le> addr" "addr \<le> m_ucSlaveDevMaxAddr s0"
    and "eMBMasterReqReadHoldingRegister Task_ScanRead addr r n s0 = Some (err, s)"
    and "master_runs s t"
  shows "bus_held Task_ScanRead t \<and>
    (\<forall>a start. m_ucSlaveDevMinAddr t \<le> a \<longrightarrow> a \<le> m_ucSlaveDevMaxAddr t \<longrightarrow>
       (\<exists>m. master_request Task_ScanWrite a start t = Some (None, t\<lparr>sMBIdleMutex := m\<rparr>))) \<and>
    (\<forall>go u. vMBMasterScanWriteSlaveDevTask t = Some (go, u) \<longrightarrow> silent t u)"
proof -
  have held: "bus_held Task_ScanRead t"
    using runs_keep_bus[OF assms(6) first_request_takes_bus[OF assms(1,3,4,5,2)]] .
  show ?thesis
    using held write_request_waits[OF held] stays_silentD[OF write_task_silent _ held] by blast
qed

theorem write_task_never_sends_witness:
  "\<exists>s. eMBMasterReqReadHoldingRegister Task_ScanRead 5 44 1 (master_at_rest []) = Some (Some MB_MRE_TIMEDOUT, s) \<and>
     bus_held Task_ScanRead s \<and>
     (\<exists>m. master_request Task_ScanWrite 5 (\<lambda>s. Some s) s = Some (None, s\<lparr>sMBIdleMutex := m\<rparr>))"
proof -
  define s0 where "s0 = master_at_rest []"
  have s0: "bus_free_for Task_ScanRead s0" "bus s0 = []" "m_ucSlaveDevMinAddr s0 = 1" "m_ucSlaveDevMaxAddr s0 = 40"
      "length (ucRTUSndBuf s0) = 253" "OwnerNestingCtr (sMBIdleMutex s0) = 0"
    by (simp_all add: s0_def master_at_rest_def link_at_rest_def link.defs master.defs bus_free_for_def)
  then obtain s where req: "eMBMasterReqReadHoldingRegister Task_ScanRead 5 44 1 s0 = Some (Some MB_MRE_TIMEDOUT, s)"
      and range: "m_ucSlaveDevMinAddr s = 1" "m_ucSlaveDevMaxAddr s = 40"
    using unanswered[of Task_ScanRead s0 5 44 1] by auto
  have "bus_held Task_ScanRead s \<and>
      (\<exists>m. master_request Task_ScanWrite 5 (\<lambda>s. Some s) s = Some (None, s\<lparr>sMBIdleMutex := m\<rparr>))"
    using write_task_never_sends[OF s0(1) _ _ _ req here] by (simp add: s0 range)
  with req show ?thesis unfolding s0_def by blast
qed

end
