(* ===== verification/Monitor.thy ===== *)
theory Monitor
  imports SystemMain
begin

text \<open>
  How a changed variable reaches the control functions: the monitor task (\<open>Module/md_monitor.c\<close>), the event
  task (\<open>Module/md_event.c\<close>) and the message queues of the kernel's tasks (\<open>os_task.c\<close>, \<open>os_msg.c\<close>).
\<close>

section \<open>Messages to tasks\<close>

datatype task_state = OS_TASK_STATE_RDY | OS_TASK_STATE_DLY | OS_TASK_STATE_PEND | OS_TASK_STATE_PEND_TIMEOUT
  | OS_TASK_STATE_SUSPENDED | OS_TASK_STATE_DLY_SUSPENDED | OS_TASK_STATE_PEND_SUSPENDED
  | OS_TASK_STATE_PEND_TIMEOUT_SUSPENDED | OS_TASK_STATE_DEL

datatype pend_on = OS_TASK_PEND_ON_NOTHING | OS_TASK_PEND_ON_TASK_Q | OS_TASK_PEND_ON_OTHER

datatype q_err = Q_ERR_NONE | OS_ERR_Q_MAX | OS_ERR_MSG_POOL_EMPTY | OS_ERR_STATE_INVALID

text \<open>
  The part of a task control block that messages use; \<open>'p\<close> are the pointers sent. The queue is the list
  of its messages, the oldest first; \<open>NbrEntries\<close> is its length.
\<close>

record 'p OS_TCB =
  TaskState :: task_state
  PendOn :: pend_on
  MsgPtr :: "'p option"
  NbrEntriesSize :: nat
  MsgQ :: "'p list"

text \<open>\<open>NbrFree\<close> counts the free messages of \<open>OSMsgPool\<close>; messages are posted at the end of the queue.\<close>

definition OS_MsgQPut :: "'p \<Rightarrow> 'p OS_TCB \<Rightarrow> nat \<Rightarrow> q_err \<times> 'p OS_TCB \<times> nat" where
  "OS_MsgQPut m tcb NbrFree =
     (if length (MsgQ tcb) \<ge> NbrEntriesSize tcb then (OS_ERR_Q_MAX, tcb, NbrFree)
      else if NbrFree = 0 then (OS_ERR_MSG_POOL_EMPTY, tcb, NbrFree)
      else (Q_ERR_NONE, tcb\<lparr>MsgQ := MsgQ tcb @ [m]\<rparr>, NbrFree - 1))"

definition OS_MsgQGet :: "'p OS_TCB \<Rightarrow> nat \<Rightarrow> 'p option \<times> 'p OS_TCB \<times> nat" where
  "OS_MsgQGet tcb NbrFree =
     (case MsgQ tcb of [] \<Rightarrow> (None, tcb, NbrFree)
      | m # ms \<Rightarrow> (Some m, tcb\<lparr>MsgQ := ms\<rparr>, NbrFree + 1))"

text \<open>A task that waits for a message gets it without the queue.\<close>

definition OS_Post :: "'p \<Rightarrow> 'p OS_TCB \<Rightarrow> 'p OS_TCB" where
  "OS_Post m tcb =
     (case TaskState tcb of
        OS_TASK_STATE_PEND \<Rightarrow>
          tcb\<lparr>MsgPtr := Some m, TaskState := OS_TASK_STATE_RDY, PendOn := OS_TASK_PEND_ON_NOTHING\<rparr>
      | OS_TASK_STATE_PEND_TIMEOUT \<Rightarrow>
          tcb\<lparr>MsgPtr := Some m, TaskState := OS_TASK_STATE_RDY, PendOn := OS_TASK_PEND_ON_NOTHING\<rparr>
      | OS_TASK_STATE_PEND_SUSPENDED \<Rightarrow>
          tcb\<lparr>MsgPtr := Some m, TaskState := OS_TASK_STATE_SUSPENDED, PendOn := OS_TASK_PEND_ON_NOTHING\<rparr>
      | OS_TASK_STATE_PEND_TIMEOUT_SUSPENDED \<Rightarrow>
          tcb\<lparr>MsgPtr := Some m, TaskState := OS_TASK_STATE_SUSPENDED, PendOn := OS_TASK_PEND_ON_NOTHING\<rparr>
      | _ \<Rightarrow> tcb)"

definition OS_TaskQPost :: "'p \<Rightarrow> 'p OS_TCB \<Rightarrow> nat \<Rightarrow> q_err \<times> 'p OS_TCB \<times> nat" where
  "OS_TaskQPost m tcb NbrFree =
     (if TaskState tcb \<in> {OS_TASK_STATE_RDY, OS_TASK_STATE_DLY, OS_TASK_STATE_SUSPENDED, OS_TASK_STATE_DLY_SUSPENDED}
      then OS_MsgQPut m tcb NbrFree
      else if TaskState tcb \<in> {OS_TASK_STATE_PEND, OS_TASK_STATE_PEND_TIMEOUT, OS_TASK_STATE_PEND_SUSPENDED,
                               OS_TASK_STATE_PEND_TIMEOUT_SUSPENDED}
      then (if PendOn tcb = OS_TASK_PEND_ON_TASK_Q then (Q_ERR_NONE, OS_Post m tcb, NbrFree)
            else OS_MsgQPut m tcb NbrFree)
      else (OS_ERR_STATE_INVALID, tcb, NbrFree))"

text \<open>
  A blocking \<open>OSTaskQPend\<close> of the running task: the oldest message of its queue, or the task waits.
\<close>

definition OSTaskQPend :: "'p OS_TCB \<Rightarrow> nat \<Rightarrow> 'p option \<times> 'p OS_TCB \<times> nat" where
  "OSTaskQPend tcb NbrFree =
     (case OS_MsgQGet tcb NbrFree of
        (Some m, tcb1, free) \<Rightarrow> (Some m, tcb1, free)
      | (None, tcb1, free) \<Rightarrow>
          (None, tcb1\<lparr>TaskState := OS_TASK_STATE_PEND, PendOn := OS_TASK_PEND_ON_TASK_Q\<rparr>, free))"

text \<open>\<open>eTaskCreate\<close> gives every task a message queue of size 0.\<close>

definition eTaskCreate :: "'p OS_TCB" where
  "eTaskCreate = \<lparr>TaskState = OS_TASK_STATE_RDY, PendOn = OS_TASK_PEND_ON_NOTHING, MsgPtr = None,
     NbrEntriesSize = 0, MsgQ = []\<rparr>"

section \<open>Data of the two tasks\<close>

datatype mon_type = mon_uint8 | mon_uint16 | mon_int8 | mon_int16

text \<open>The semaphore \<open>sValChange\<close> of each object stands for the object.\<close>

datatype val_change = Roof_sem nat | Fan_sem nat | CO2_sem nat | TempOut_sem nat | TempIn_sem nat | BMS_sem

text \<open>A variable is named by the event its change causes.\<close>

record sMonitorInfo =
  mon_pvVal :: event
  mon_psSem :: val_change
  mon_ucDataType :: mon_type
  mon_usDataVal :: u16
  mon_usDataId :: u16

datatype pump_task = Monitor_task | Event_task | SysEventPoll_task

record sEvent =
  ev_psSem :: val_change
  ev_psTCB :: pump_task

record sEventMsg =
  msg_psSem :: val_change
  msg_pvArg :: event

text \<open>
  The only messages are pointers to the local variable \<open>sEventMsg\<close> of the monitor task. The lists linked
  by \<open>pNext\<close> and \<open>pLast\<close> through \<open>MonitorBuf\<close> and \<open>EventBuf\<close> hold their entries in the order
  of registration; \<open>MonitorID\<close> and \<open>EventID\<close> are their lengths.
\<close>

datatype msg_ptr = ptr_sEventMsg

record pump =
  MonitorBuf :: "sMonitorInfo list"
  EventBuf :: "sEvent list"
  sEventMsg :: sEventMsg
  NbrFree :: nat
  EventTCB :: "msg_ptr OS_TCB"
  SysEventPollTCB :: "msg_ptr OS_TCB"

section \<open>Registration\<close>

definition MONITOR_DATA_MAX_NUM :: nat where "MONITOR_DATA_MAX_NUM = 90"
definition EVENT_MAX_NUM :: nat where "EVENT_MAX_NUM = 50"

text \<open>Reading a variable by its type; \<open>h\<close> is the half-word at its address.\<close>

definition read_typed :: "mon_type \<Rightarrow> u16 \<Rightarrow> u16" where
  "read_typed ty h =
     (case ty of mon_uint8 \<Rightarrow> ucast (ucast h :: u8) | mon_uint16 \<Rightarrow> h
      | mon_int8 \<Rightarrow> scast (ucast h :: u8) | mon_int16 \<Rightarrow> h)"

definition vMonitorRegist :: "event \<Rightarrow> mon_type \<Rightarrow> val_change \<Rightarrow> u16 \<Rightarrow> pump \<Rightarrow> pump" where
  "vMonitorRegist v ty sem h p =
     (if length (MonitorBuf p) \<ge> MONITOR_DATA_MAX_NUM then p
      else if v \<in> mon_pvVal ` set (MonitorBuf p) then p
      else p\<lparr>MonitorBuf := MonitorBuf p @
             [\<lparr>mon_pvVal = v, mon_psSem = sem, mon_ucDataType = ty, mon_usDataVal = read_typed ty h,
               mon_usDataId = of_nat (length (MonitorBuf p)) + 1 + 1\<rparr>]\<rparr>)"

definition vEventRegist :: "val_change \<Rightarrow> pump_task \<Rightarrow> pump \<Rightarrow> pump" where
  "vEventRegist sem t p =
     (if length (EventBuf p) \<ge> EVENT_MAX_NUM then p
      else p\<lparr>EventBuf := EventBuf p @ [\<lparr>ev_psSem = sem, ev_psTCB = t\<rparr>]\<rparr>)"

text \<open>
  The half-word at the address of a variable. For a byte only its low byte is used, except for \<open>xCommErr\<close>
  of a unit: it is registered with type \<open>int16\<close>, so the flag \<open>xStopErrFlag\<close> behind it is read too.
\<close>

definition running_code :: "eRunningState \<Rightarrow> u16" where
  "running_code r = (case r of STATE_STOP \<Rightarrow> 0 | STATE_RUN \<Rightarrow> 1)"

definition mode_code :: "eRunningMode \<Rightarrow> u16" where
  "mode_code m = (case m of RUN_MODE_0 \<Rightarrow> 0 | RUN_MODE_COOL \<Rightarrow> 1 | RUN_MODE_HEAT \<Rightarrow> 2 | RUN_MODE_FAN \<Rightarrow> 3
                  | RUN_MODE_WET \<Rightarrow> 4)"

definition unit_halfword :: "unit_var \<Rightarrow> ModularRoof \<Rightarrow> u16" where
  "unit_halfword v r =
     (case v of
        UV_eRunningState \<Rightarrow> running_code (dev_eRunningState r) | UV_eRunningMode \<Rightarrow> mode_code (mr_eRunningMode r)
      | UV_eSwitchState \<Rightarrow> ucast (mr_eSwitchState r) | UV_eSwitchCmd \<Rightarrow> ucast (mr_eSwitchCmd r)
      | UV_sSupAir_T \<Rightarrow> mr_sSupAir_T r | UV_usFreAir_Vol \<Rightarrow> mr_usFreAir_Vol r
      | UV_xStopErrFlag \<Rightarrow> of_bool (mr_xStopErrFlag r)
      | UV_xCommErr \<Rightarrow> of_bool (mr_xCommErr r) + 256 * of_bool (mr_xStopErrFlag r)
      | UV_sAmbientInSelf_T \<Rightarrow> mr_sAmbientInSelf_T r | UV_usAmbientInSelf_H \<Rightarrow> mr_usAmbientInSelf_H r
      | UV_sAmbientOutSelf_T \<Rightarrow> mr_sAmbientOutSelf_T r | UV_usAmbientOutSelf_H \<Rightarrow> mr_usAmbientOutSelf_H r
      | UV_usCO2PPMSelf \<Rightarrow> mr_usCO2PPMSelf r)"

definition co2_halfword :: "co2_var \<Rightarrow> CO2Sensor \<Rightarrow> u16" where
  "co2_halfword v c = (case v of CV_usAvgCO2PPM \<Rightarrow> usAvgCO2PPM c | CV_xCO2SenErr \<Rightarrow> of_bool (sen_xCO2SenErr c))"

definition temp_halfword :: "temp_var \<Rightarrow> TempHumiSensor \<Rightarrow> u16" where
  "temp_halfword v c =
     (case v of TV_sAvgTemp \<Rightarrow> sAvgTemp c | TV_xTempSenErr \<Rightarrow> of_bool (sen_xTempSenErr c)
      | TV_usAvgHumi \<Rightarrow> usAvgHumi c | TV_xHumiSenErr \<Rightarrow> of_bool (sen_xHumiSenErr c))"

definition fan_halfword :: "fan_var \<Rightarrow> ExAirFan \<Rightarrow> u16" where
  "fan_halfword v f =
     (case v of FV_xExAirFanErr \<Rightarrow> of_bool (xExAirFanErr f) | FV_xExAirFanRemote \<Rightarrow> of_bool (xExAirFanRemote f)
      | FV_eRunningState \<Rightarrow> running_code (dev_eRunningState f))"

definition system_mode_code :: "eSystemMode \<Rightarrow> u16" where
  "system_mode_code m = (case m of MODE_CLOSE \<Rightarrow> 0 | MODE_MANUAL \<Rightarrow> 1 | MODE_AUTO \<Rightarrow> 2 | MODE_EMERGENCY \<Rightarrow> 3)"

definition bms_halfword :: "bms_var \<Rightarrow> BMS \<Rightarrow> u16" where
  "bms_halfword v b =
     (case v of
        BV_eSystemMode \<Rightarrow> system_mode_code (bms_eSystemMode b) | BV_eRunningMode \<Rightarrow> mode_code (bms_eRunningMode b)
      | BV_xAlarmClean \<Rightarrow> of_bool (bms_xAlarmClean b) | BV_xAlarmEnable \<Rightarrow> of_bool (bms_xAlarmEnable b)
      | BV_xExAirFanErrClean \<Rightarrow> of_bool (bms_xExAirFanErrClean b) | BV_usTempSet \<Rightarrow> bms_usTempSet b
      | BV_usFreAirSet_Vol_H \<Rightarrow> bms_usFreAirSet_Vol_H b | BV_usFreAirSet_Vol_L \<Rightarrow> bms_usFreAirSet_Vol_L b
      | BV_ucExAirCoolRatio \<Rightarrow> ucast (bms_ucExAirCoolRatio b) | BV_ucExAirHeatRatio \<Rightarrow> ucast (bms_ucExAirHeatRatio b)
      | BV_usHumidityMin \<Rightarrow> bms_usHumidityMin b | BV_usHumidityMax \<Rightarrow> bms_usHumidityMax b
      | BV_usCO2AdjustThr_V \<Rightarrow> bms_usCO2AdjustThr_V b | BV_usCO2AdjustDeviat \<Rightarrow> bms_usCO2AdjustDeviat b
      | BV_usExAirFanFreq \<Rightarrow> bms_usExAirFanFreq b | BV_usExAirFanMinFreq \<Rightarrow> bms_usExAirFanMinFreq b
      | BV_usExAirFanMaxFreq \<Rightarrow> bms_usExAirFanMaxFreq b
      | BV_eExAirFanType \<Rightarrow> (case bms_eExAirFanType b of TYPE_CONSTANT \<Rightarrow> 0 | TYPE_CONSTANT_VARIABLE \<Rightarrow> 1)
      | BV_usExAirFanCtrlPeriod \<Rightarrow> bms_usExAirFanCtrlPeriod b
      | BV_usExAirFanRated_Vol_H \<Rightarrow> bms_usExAirFanRated_Vol_H b | BV_usExAirFanRated_Vol_L \<Rightarrow> bms_usExAirFanRated_Vol_L b)"

definition halfword :: "event \<Rightarrow> 'z sys_scheme \<Rightarrow> u16" where
  "halfword v s =
     (case v of
        BMS_event x \<Rightarrow> bms_halfword x (psBMS s) | Fan_event n x \<Rightarrow> fan_halfword x (psExAirFanList s ! n)
      | Unit_event n x \<Rightarrow> unit_halfword x (roof n s) | CO2_event n x \<Rightarrow> co2_halfword x (psCO2SenList s ! n)
      | TempOut_event n x \<Rightarrow> temp_halfword x (psTempHumiSenOutList s ! n)
      | TempIn_event n x \<Rightarrow> temp_halfword x (psTempHumiSenInList s ! n))"

text \<open>The lists of \<open>MONITOR\<close> calls.\<close>

definition regist_all :: "('x \<Rightarrow> event) \<Rightarrow> val_change \<Rightarrow> ('x \<times> mon_type) list \<Rightarrow> 'z sys_scheme \<Rightarrow> pump \<Rightarrow> pump" where
  "regist_all ev sem xs s p = fold (\<lambda>(x, ty). vMonitorRegist (ev x) ty sem (halfword (ev x) s)) xs p"

definition unit_monitored :: "(unit_var \<times> mon_type) list" where
  "unit_monitored =
     [(UV_eRunningState, mon_uint8), (UV_eRunningMode, mon_uint8), (UV_eSwitchState, mon_uint8),
      (UV_eSwitchCmd, mon_uint8), (UV_sSupAir_T, mon_int16), (UV_usFreAir_Vol, mon_uint16),
      (UV_sAmbientInSelf_T, mon_int16), (UV_usAmbientInSelf_H, mon_uint16),
      (UV_sAmbientOutSelf_T, mon_int16), (UV_usAmbientOutSelf_H, mon_uint16),
      (UV_usCO2PPMSelf, mon_uint16), (UV_xStopErrFlag, mon_uint8), (UV_xCommErr, mon_int16)]"

definition vModularRoof_RegistMonitor :: "nat \<Rightarrow> 'z sys_scheme \<Rightarrow> pump \<Rightarrow> pump" where
  "vModularRoof_RegistMonitor n = regist_all (Unit_event n) (Roof_sem n) unit_monitored"

text \<open>Every line of the body is commented out.\<close>

definition vExAirFan_RegistMonitor :: "nat \<Rightarrow> 'z sys_scheme \<Rightarrow> pump \<Rightarrow> pump" where
  "vExAirFan_RegistMonitor n s p = p"

definition co2_monitored :: "(co2_var \<times> mon_type) list" where
  "co2_monitored = [(CV_usAvgCO2PPM, mon_uint16), (CV_xCO2SenErr, mon_uint8)]"

definition vCO2Sensor_RegistMonitor :: "nat \<Rightarrow> 'z sys_scheme \<Rightarrow> pump \<Rightarrow> pump" where
  "vCO2Sensor_RegistMonitor n = regist_all (CO2_event n) (CO2_sem n) co2_monitored"

definition temp_monitored :: "(temp_var \<times> mon_type) list" where
  "temp_monitored = [(TV_sAvgTemp, mon_int16), (TV_xTempSenErr, mon_uint8), (TV_usAvgHumi, mon_uint16),
     (TV_xHumiSenErr, mon_uint8)]"

definition vTempHumiSensor_RegistMonitor :: "(temp_var \<Rightarrow> event) \<Rightarrow> val_change \<Rightarrow> 'z sys_scheme \<Rightarrow> pump \<Rightarrow> pump" where
  "vTempHumiSensor_RegistMonitor ev sem = regist_all ev sem temp_monitored"

text \<open>Not called by any function.\<close>

definition vBMS_MonitorRegist :: "'z sys_scheme \<Rightarrow> pump \<Rightarrow> pump" where
  "vBMS_MonitorRegist = regist_all BMS_event BMS_sem
     [(BV_eSystemMode, mon_uint8), (BV_eRunningMode, mon_uint8), (BV_usTempSet, mon_uint16),
      (BV_usFreAirSet_Vol_H, mon_uint16), (BV_usFreAirSet_Vol_L, mon_uint16), (BV_ucExAirCoolRatio, mon_uint8),
      (BV_ucExAirHeatRatio, mon_uint8), (BV_usHumidityMin, mon_uint16), (BV_usHumidityMax, mon_uint16),
      (BV_usCO2AdjustThr_V, mon_uint16), (BV_usCO2AdjustDeviat, mon_uint16), (BV_usExAirFanFreq, mon_uint16),
      (BV_usExAirFanMinFreq, mon_uint16), (BV_usExAirFanMaxFreq, mon_uint16), (BV_usExAirFanCtrlPeriod, mon_uint16),
      (BV_usExAirFanRated_Vol_H, mon_uint16), (BV_usExAirFanRated_Vol_L, mon_uint16), (BV_eExAirFanType, mon_uint8),
      (BV_xAlarmClean, mon_uint8), (BV_xAlarmEnable, mon_uint8), (BV_xExAirFanErrClean, mon_uint8)]"

text \<open>
  \<open>vSystem_Init\<close> with the registrations: the constructor of an object registers its variables, then \<open>CONNECT\<close>
  binds its semaphore to the event task of the system. The previous values are those of the object before its
  default data.
\<close>

definition pump_roof :: "nat \<Rightarrow> pump \<times> 'z sys_scheme \<Rightarrow> pump \<times> 'z sys_scheme" where
  "pump_roof n = (\<lambda>(p, s).
     (vEventRegist (Roof_sem n) SysEventPoll_task
        (vModularRoof_RegistMonitor n (s\<lparr>psModularRoofList := psModularRoofList s @ [roof_zero]\<rparr>) p),
      init_roof n s))"

definition pump_fan :: "nat \<Rightarrow> pump \<times> 'z sys_scheme \<Rightarrow> pump \<times> 'z sys_scheme" where
  "pump_fan n = (\<lambda>(p, s). (vEventRegist (Fan_sem n) SysEventPoll_task (vExAirFan_RegistMonitor n s p), init_fan n s))"

definition pump_co2 :: "nat \<Rightarrow> pump \<times> 'z sys_scheme \<Rightarrow> pump \<times> 'z sys_scheme" where
  "pump_co2 n = (\<lambda>(p, s).
     (vEventRegist (CO2_sem n) SysEventPoll_task
        (vCO2Sensor_RegistMonitor n (s\<lparr>psCO2SenList := psCO2SenList s @ [co2_zero]\<rparr>) p),
      init_co2 n s))"

definition pump_temp_out :: "nat \<Rightarrow> pump \<times> 'z sys_scheme \<Rightarrow> pump \<times> 'z sys_scheme" where
  "pump_temp_out n = (\<lambda>(p, s).
     (vEventRegist (TempOut_sem n) SysEventPoll_task
        (vTempHumiSensor_RegistMonitor (TempOut_event n) (TempOut_sem n)
           (s\<lparr>psTempHumiSenOutList := psTempHumiSenOutList s @ [temp_zero]\<rparr>) p),
      init_temp_out n s))"

definition pump_temp_in :: "nat \<Rightarrow> pump \<times> 'z sys_scheme \<Rightarrow> pump \<times> 'z sys_scheme" where
  "pump_temp_in n = (\<lambda>(p, s).
     (vEventRegist (TempIn_sem n) SysEventPoll_task
        (vTempHumiSensor_RegistMonitor (TempIn_event n) (TempIn_sem n)
           (s\<lparr>psTempHumiSenInList := psTempHumiSenInList s @ [temp_zero]\<rparr>) p),
      init_temp_in n s))"

definition pump_Init :: "pump \<times> 'z sys_scheme \<Rightarrow> pump \<times> 'z sys_scheme" where
  "pump_Init = (\<lambda>(p, s).
     (let ps1 = (p, vSystem_RegistAlarmIO SYSTEM_ALARM_DO s);
          ps2 = for_loop EX_AIR_FAN_NUM pump_fan (for_loop MODULAR_ROOF_NUM pump_roof ps1);
          ps3 = for_loop CO2_SEN_NUM pump_co2 ps2;
          (p4, s4) = for_loop TEMP_HUMI_SEN_IN_NUM pump_temp_in (for_loop TEMP_HUMI_SEN_OUT_NUM pump_temp_out ps3)
      in (vEventRegist BMS_sem SysEventPoll_task p4, vSystem_InitRuntimeTmr (vSystem_InitDefaultData s4))))"

text \<open>Before construction: empty lists, the pool of \<open>OS_CFG_MSG_POOL_SIZE\<close> messages, both tasks waiting.\<close>

definition pump_zero :: pump where
  "pump_zero = \<lparr>MonitorBuf = [], EventBuf = [], sEventMsg = \<lparr>msg_psSem = BMS_sem, msg_pvArg = BMS_event BV_eSystemMode\<rparr>,
     NbrFree = 100, EventTCB = fst (snd (OSTaskQPend eTaskCreate 100)),
     SysEventPollTCB = fst (snd (OSTaskQPend eTaskCreate 100))\<rparr>"

section \<open>The tasks\<close>

text \<open>
  Priorities (\<open>App/app_config.h\<close>), the smaller number the more urgent. A task made ready by a post runs at once if
  it is more urgent than the running one; otherwise it is put behind it (\<open>OS_RdyListInsert\<close>), and round robin is
  configured out.
\<close>

definition task_prio :: "pump_task \<Rightarrow> nat" where
  "task_prio t = (case t of SysEventPoll_task \<Rightarrow> 4 | Event_task \<Rightarrow> 5 | Monitor_task \<Rightarrow> 5)"

definition preempts :: "pump_task \<Rightarrow> pump_task \<Rightarrow> bool" where
  "preempts new cur \<longleftrightarrow> task_prio new < task_prio cur"

text \<open>
  The event task of the system from the moment it is ready until it waits again: the handlers for the
  message it was given and for those in its queue. \<open>st1\<close>, \<open>st2\<close> are what the handlers find on the stack.
\<close>

fun sys_messages :: "stack_values \<Rightarrow> stack_values \<Rightarrow> msg_ptr list \<Rightarrow> pump \<times> 'z sys_scheme \<Rightarrow> pump \<times> 'z sys_scheme" where
  "sys_messages st1 st2 [] ps = ps"
| "sys_messages st1 st2 (m # ms) (p, s) =
     sys_messages st1 st2 ms (p, handle_event st1 st2 (msg_pvArg (sEventMsg p)) s)"

definition vSystem_EventPollTask :: "stack_values \<Rightarrow> stack_values \<Rightarrow> pump \<times> 'z sys_scheme \<Rightarrow> pump \<times> 'z sys_scheme" where
  "vSystem_EventPollTask st1 st2 = (\<lambda>(p, s).
     (let tcb = SysEventPollTCB p
      in if TaskState tcb \<noteq> OS_TASK_STATE_RDY then (p, s)
         else sys_messages st1 st2 (case MsgPtr tcb of None \<Rightarrow> MsgQ tcb | Some m \<Rightarrow> m # MsgQ tcb)
           (p\<lparr>SysEventPollTCB := tcb\<lparr>MsgPtr := None, MsgQ := [], TaskState := OS_TASK_STATE_PEND,
                PendOn := OS_TASK_PEND_ON_TASK_Q\<rparr>, NbrFree := NbrFree p + length (MsgQ tcb)\<rparr>, s)))"

text \<open>\<open>OSTaskQPost\<close> to the event task of the system, by the event task.\<close>

definition post_sys :: "stack_values \<Rightarrow> stack_values \<Rightarrow> msg_ptr \<Rightarrow> pump \<times> 'z sys_scheme \<Rightarrow> pump \<times> 'z sys_scheme" where
  "post_sys st1 st2 m = (\<lambda>(p, s).
     (let (err, tcb, free) = OS_TaskQPost m (SysEventPollTCB p) (NbrFree p);
          p1 = p\<lparr>SysEventPollTCB := tcb, NbrFree := free\<rparr>
      in if preempts SysEventPoll_task Event_task then vSystem_EventPollTask st1 st2 (p1, s) else (p1, s)))"

text \<open>One message: it is sent on for every event with its semaphore.\<close>

fun forward :: "stack_values \<Rightarrow> stack_values \<Rightarrow> msg_ptr \<Rightarrow> sEvent list \<Rightarrow> pump \<times> 'z sys_scheme \<Rightarrow> pump \<times> 'z sys_scheme" where
  "forward st1 st2 m [] ps = ps"
| "forward st1 st2 m (e # es) (p, s) =
     forward st1 st2 m es
       (if msg_psSem (sEventMsg p) = ev_psSem e \<and> ev_psTCB e = SysEventPoll_task then post_sys st1 st2 m (p, s) else (p, s))"

fun forward_all :: "stack_values \<Rightarrow> stack_values \<Rightarrow> msg_ptr list \<Rightarrow> pump \<times> 'z sys_scheme \<Rightarrow> pump \<times> 'z sys_scheme" where
  "forward_all st1 st2 [] ps = ps"
| "forward_all st1 st2 (m # ms) (p, s) = forward_all st1 st2 ms (forward st1 st2 m (EventBuf p) (p, s))"

definition vEventPollTask :: "stack_values \<Rightarrow> stack_values \<Rightarrow> pump \<times> 'z sys_scheme \<Rightarrow> pump \<times> 'z sys_scheme" where
  "vEventPollTask st1 st2 = (\<lambda>(p, s).
     (let tcb = EventTCB p
      in if TaskState tcb \<noteq> OS_TASK_STATE_RDY then (p, s)
         else forward_all st1 st2 (case MsgPtr tcb of None \<Rightarrow> MsgQ tcb | Some m \<Rightarrow> m # MsgQ tcb)
           (p\<lparr>EventTCB := tcb\<lparr>MsgPtr := None, MsgQ := [], TaskState := OS_TASK_STATE_PEND,
                PendOn := OS_TASK_PEND_ON_TASK_Q\<rparr>, NbrFree := NbrFree p + length (MsgQ tcb)\<rparr>, s)))"

definition post_event :: "stack_values \<Rightarrow> stack_values \<Rightarrow> msg_ptr \<Rightarrow> pump \<times> 'z sys_scheme \<Rightarrow> pump \<times> 'z sys_scheme" where
  "post_event st1 st2 m = (\<lambda>(p, s).
     (let (err, tcb, free) = OS_TaskQPost m (EventTCB p) (NbrFree p);
          p1 = p\<lparr>EventTCB := tcb, NbrFree := free\<rparr>
      in if preempts Event_task Monitor_task then vEventPollTask st1 st2 (p1, s) else (p1, s)))"

text \<open>
  The body of the loop of \<open>vMonitorPollTask\<close> for entry \<open>i\<close>, then one pass over the list. After its pass the
  monitor sleeps for a second, and the event task runs if a message has made it ready.
\<close>

definition monitor_one :: "stack_values \<Rightarrow> stack_values \<Rightarrow> nat \<Rightarrow> pump \<times> 'z sys_scheme \<Rightarrow> pump \<times> 'z sys_scheme" where
  "monitor_one st1 st2 i = (\<lambda>(p, s).
     (let e = MonitorBuf p ! i; usDataValue = read_typed (mon_ucDataType e) (halfword (mon_pvVal e) s)
      in if mon_usDataVal e = usDataValue then (p, s)
         else post_event st1 st2 ptr_sEventMsg
           (p\<lparr>sEventMsg := \<lparr>msg_psSem = mon_psSem e, msg_pvArg = mon_pvVal e\<rparr>,
              MonitorBuf := (MonitorBuf p)[i := e\<lparr>mon_usDataVal := usDataValue\<rparr>]\<rparr>, s)))"

definition vMonitorPollTask :: "stack_values \<Rightarrow> stack_values \<Rightarrow> pump \<times> 'z sys_scheme \<Rightarrow> pump \<times> 'z sys_scheme" where
  "vMonitorPollTask st1 st2 ps = fold (monitor_one st1 st2) [0..<length (MonitorBuf (fst ps))] ps"

definition monitor_round :: "stack_values \<Rightarrow> stack_values \<Rightarrow> pump \<times> 'z sys_scheme \<Rightarrow> pump \<times> 'z sys_scheme" where
  "monitor_round st1 st2 ps = vEventPollTask st1 st2 (vMonitorPollTask st1 st2 ps)"

end
