(* ===== verification/MonitorProps.thy ===== *)
theory MonitorProps
  imports Monitor Reach
begin

text \<open>
  What the pump of change events delivers: one event for each pass of the monitor, that of the last variable
  found changed; and never one of the supervisor's image or of a fan.
\<close>

section \<open>Registration\<close>

text \<open>An entry without its values.\<close>

definition mon_key :: "sMonitorInfo \<Rightarrow> event \<times> val_change" where
  "mon_key e = (mon_pvVal e, mon_psSem e)"

abbreviation mon_keys :: "pump \<Rightarrow> (event \<times> val_change) list" where
  "mon_keys p \<equiv> map mon_key (MonitorBuf p)"

definition all_but_monitors :: "pump \<Rightarrow> pump" where
  "all_but_monitors p = p\<lparr>MonitorBuf := []\<rparr>"

lemma mon_vars: "mon_pvVal ` set (MonitorBuf p) = fst ` set (mon_keys p)"
  by (force simp: mon_key_def)

lemma vMonitorRegist_new:
  assumes "length (mon_keys p) < 90" "v \<notin> fst ` set (mon_keys p)"
  shows "mon_keys (vMonitorRegist v ty sem h p) = mon_keys p @ [(v, sem)]"
    and "all_but_monitors (vMonitorRegist v ty sem h p) = all_but_monitors p"
  using assms unfolding mon_vars[symmetric]
  by (simp_all add: vMonitorRegist_def MONITOR_DATA_MAX_NUM_def mon_key_def all_but_monitors_def)

lemma regist_all_new:
  assumes "inj ev" "distinct (map fst xs)" "length (mon_keys p) + length xs \<le> 90"
    "\<forall>x \<in> set (map fst xs). ev x \<notin> fst ` set (mon_keys p)"
  shows "mon_keys (regist_all ev sem xs s p) = mon_keys p @ map (\<lambda>x. (ev (fst x), sem)) xs \<and>
    all_but_monitors (regist_all ev sem xs s p) = all_but_monitors p"
  using assms
proof (induction xs arbitrary: p)
  case (Cons x xs)
  obtain v ty where x: "x = (v, ty)" by (cases x)
  let ?p = "vMonitorRegist (ev v) ty sem (halfword (ev v) s) p"
  have step: "mon_keys ?p = mon_keys p @ [(ev v, sem)]" "all_but_monitors ?p = all_but_monitors p"
    using Cons.prems by (intro vMonitorRegist_new; simp add: x)+
  have prems: "inj ev" "distinct (map fst xs)" "length (mon_keys ?p) + length xs \<le> 90"
    "\<forall>y \<in> set (map fst xs). ev y \<notin> fst ` set (mon_keys ?p)"
    using Cons.prems unfolding step by (auto simp: x inj_eq)
  have "regist_all ev sem (x # xs) s p = regist_all ev sem xs s ?p"
    by (simp add: regist_all_def x)
  then show ?case using Cons.IH[OF prems] step by (simp add: x)
qed (simp add: regist_all_def)

lemma vEventRegist_new:
  assumes "length (EventBuf p) < 50"
  shows "vEventRegist sem t p = p\<lparr>EventBuf := EventBuf p @ [\<lparr>ev_psSem = sem, ev_psTCB = t\<rparr>]\<rparr>"
  using assms by (simp add: vEventRegist_def EVENT_MAX_NUM_def)

text \<open>What one object registers, and the state of the pump after some objects.\<close>

definition keys_of :: "('x \<Rightarrow> event) \<Rightarrow> val_change \<Rightarrow> ('x \<times> mon_type) list \<Rightarrow> (event \<times> val_change) list" where
  "keys_of ev sem xs = map (\<lambda>x. (ev (fst x), sem)) xs"

definition waiting_tcb :: "msg_ptr OS_TCB" where
  "waiting_tcb = \<lparr>TaskState = OS_TASK_STATE_PEND, PendOn = OS_TASK_PEND_ON_TASK_Q, MsgPtr = None,
     NbrEntriesSize = 0, MsgQ = []\<rparr>"

definition pump_idle :: "pump \<Rightarrow> bool" where
  "pump_idle p \<longleftrightarrow> EventTCB p = waiting_tcb \<and> SysEventPollTCB p = waiting_tcb"

definition registered :: "(event \<times> val_change) list \<Rightarrow> val_change list \<Rightarrow> pump \<Rightarrow> bool" where
  "registered ks sems p \<longleftrightarrow> pump_idle p \<and> mon_keys p = ks \<and>
     EventBuf p = map (\<lambda>s. \<lparr>ev_psSem = s, ev_psTCB = SysEventPoll_task\<rparr>) sems"

lemma registered_regist:
  assumes "registered ks sems p" "inj ev" "distinct (map fst xs)" "length ks + length xs \<le> 90"
    "\<And>x. ev x \<notin> fst ` set ks" "length sems < 50"
  shows "registered (ks @ keys_of ev sem xs) (sems @ [sem])
    (vEventRegist sem SysEventPoll_task (regist_all ev sem xs s p))"
proof -
  let ?p = "regist_all ev sem xs s p"
  have p: "mon_keys ?p = ks @ keys_of ev sem xs" "all_but_monitors ?p = all_but_monitors p"
    using regist_all_new[of ev xs p sem s] assms by (auto simp: registered_def keys_of_def)
  then have same: "EventBuf ?p = EventBuf p" "EventTCB ?p = EventTCB p" "SysEventPollTCB ?p = SysEventPollTCB p"
    by (auto simp: all_but_monitors_def dest: arg_cong[where f = EventBuf] arg_cong[where f = EventTCB]
        arg_cong[where f = SysEventPollTCB])
  show ?thesis
    using assms p same by (simp add: registered_def pump_idle_def vEventRegist_new)
qed

definition all_keys :: "nat \<Rightarrow> nat \<Rightarrow> nat \<Rightarrow> nat \<Rightarrow> (event \<times> val_change) list" where
  "all_keys r c to ti = concat (map (\<lambda>n. keys_of (Unit_event n) (Roof_sem n) unit_monitored) [0..<r]) @
     concat (map (\<lambda>n. keys_of (CO2_event n) (CO2_sem n) co2_monitored) [0..<c]) @
     concat (map (\<lambda>n. keys_of (TempOut_event n) (TempOut_sem n) temp_monitored) [0..<to]) @
     concat (map (\<lambda>n. keys_of (TempIn_event n) (TempIn_sem n) temp_monitored) [0..<ti])"

definition all_sems :: "nat \<Rightarrow> nat \<Rightarrow> nat \<Rightarrow> nat \<Rightarrow> nat \<Rightarrow> val_change list" where
  "all_sems r f c to ti = map Roof_sem [0..<r] @ map Fan_sem [0..<f] @ map CO2_sem [0..<c] @
     map TempOut_sem [0..<to] @ map TempIn_sem [0..<ti]"

lemmas monitored = unit_monitored_def co2_monitored_def temp_monitored_def

lemma length_keys: "length (all_keys r c to ti) = 13 * r + 2 * c + 4 * to + 4 * ti"
  by (simp add: all_keys_def length_concat keys_of_def monitored comp_def sum_list_triv)

lemma keys_vars:
  "(Unit_event n v, k) \<in> set (all_keys r c to ti) \<Longrightarrow> n < r" "(CO2_event n x, k) \<in> set (all_keys r c to ti) \<Longrightarrow> n < c"
  "(TempOut_event n y, k) \<in> set (all_keys r c to ti) \<Longrightarrow> n < to"
  "(TempIn_event n y, k) \<in> set (all_keys r c to ti) \<Longrightarrow> n < ti"
  by (auto simp: all_keys_def keys_of_def)

lemma pump_roof_registers:
  assumes "registered (all_keys n 0 0 0) (all_sems n 0 0 0 0) (fst ps)" "n < 2"
  shows "registered (all_keys (Suc n) 0 0 0) (all_sems (Suc n) 0 0 0 0) (fst (pump_roof n ps))"
proof -
  have "registered (all_keys n 0 0 0 @ keys_of (Unit_event n) (Roof_sem n) unit_monitored) (all_sems n 0 0 0 0 @ [Roof_sem n])
      (vEventRegist (Roof_sem n) SysEventPoll_task (vModularRoof_RegistMonitor n t (fst ps)))" for t :: "'a sys_scheme"
    using assms(2) unfolding vModularRoof_RegistMonitor_def
    by (intro registered_regist[OF assms(1)]) (auto simp: length_keys all_sems_def monitored inj_def dest: keys_vars)
  then show ?thesis by (cases ps) (simp add: pump_roof_def all_keys_def all_sems_def)
qed

lemma pump_fan_registers:
  assumes "registered (all_keys 2 0 0 0) (all_sems 2 n 0 0 0) (fst ps)" "n < 4"
  shows "registered (all_keys 2 0 0 0) (all_sems 2 (Suc n) 0 0 0) (fst (pump_fan n ps))"
  using assms
  by (cases ps) (simp add: pump_fan_def vExAirFan_RegistMonitor_def registered_def vEventRegist_new pump_idle_def all_sems_def)

lemma pump_co2_registers:
  assumes "registered (all_keys 2 n 0 0) (all_sems 2 4 n 0 0) (fst ps)" "n < 3"
  shows "registered (all_keys 2 (Suc n) 0 0) (all_sems 2 4 (Suc n) 0 0) (fst (pump_co2 n ps))"
proof -
  have "registered (all_keys 2 n 0 0 @ keys_of (CO2_event n) (CO2_sem n) co2_monitored) (all_sems 2 4 n 0 0 @ [CO2_sem n])
      (vEventRegist (CO2_sem n) SysEventPoll_task (vCO2Sensor_RegistMonitor n t (fst ps)))" for t :: "'a sys_scheme"
    using assms(2) unfolding vCO2Sensor_RegistMonitor_def
    by (intro registered_regist[OF assms(1)]) (auto simp: length_keys all_sems_def monitored inj_def dest: keys_vars)
  then show ?thesis by (cases ps) (simp add: pump_co2_def all_keys_def all_sems_def)
qed

lemma pump_temp_out_registers:
  assumes "registered (all_keys 2 3 n 0) (all_sems 2 4 3 n 0) (fst ps)" "n < 1"
  shows "registered (all_keys 2 3 (Suc n) 0) (all_sems 2 4 3 (Suc n) 0) (fst (pump_temp_out n ps))"
proof -
  have "registered (all_keys 2 3 n 0 @ keys_of (TempOut_event n) (TempOut_sem n) temp_monitored) (all_sems 2 4 3 n 0 @ [TempOut_sem n])
      (vEventRegist (TempOut_sem n) SysEventPoll_task
        (vTempHumiSensor_RegistMonitor (TempOut_event n) (TempOut_sem n) t (fst ps)))" for t :: "'a sys_scheme"
    using assms(2) unfolding vTempHumiSensor_RegistMonitor_def
    by (intro registered_regist[OF assms(1)]) (auto simp: length_keys all_sems_def monitored inj_def dest: keys_vars)
  then show ?thesis by (cases ps) (simp add: pump_temp_out_def all_keys_def all_sems_def)
qed

lemma pump_temp_in_registers:
  assumes "registered (all_keys 2 3 1 n) (all_sems 2 4 3 1 n) (fst ps)" "n < 12"
  shows "registered (all_keys 2 3 1 (Suc n)) (all_sems 2 4 3 1 (Suc n)) (fst (pump_temp_in n ps))"
proof -
  have "registered (all_keys 2 3 1 n @ keys_of (TempIn_event n) (TempIn_sem n) temp_monitored) (all_sems 2 4 3 1 n @ [TempIn_sem n])
      (vEventRegist (TempIn_sem n) SysEventPoll_task
        (vTempHumiSensor_RegistMonitor (TempIn_event n) (TempIn_sem n) t (fst ps)))" for t :: "'a sys_scheme"
    using assms(2) unfolding vTempHumiSensor_RegistMonitor_def
    by (intro registered_regist[OF assms(1)]) (auto simp: length_keys all_sems_def monitored inj_def dest: keys_vars)
  then show ?thesis by (cases ps) (simp add: pump_temp_in_def all_keys_def all_sems_def)
qed

text \<open>The running program: all objects registered.\<close>

definition pump_ok :: "pump \<Rightarrow> bool" where
  "pump_ok p \<longleftrightarrow> registered (all_keys 2 3 1 12) (all_sems 2 4 3 1 12 @ [BMS_sem]) p"

lemma pump_Init_ok: "pump_ok (fst (pump_Init (pump_zero, s)))"
proof -
  let ?ps1 = "(pump_zero, vSystem_RegistAlarmIO SYSTEM_ALARM_DO s)"
  let ?ps2 = "for_loop 2 pump_roof ?ps1"
  let ?ps3 = "for_loop 4 pump_fan ?ps2"
  let ?ps4 = "for_loop 3 pump_co2 ?ps3"
  let ?ps5 = "for_loop 1 pump_temp_out ?ps4"
  let ?ps6 = "for_loop 12 pump_temp_in ?ps5"
  have "registered (all_keys 0 0 0 0) (all_sems 0 0 0 0 0) (fst ?ps1)"
    by (simp add: registered_def all_keys_def all_sems_def pump_zero_def pump_idle_def waiting_tcb_def OSTaskQPend_def
        OS_MsgQGet_def eTaskCreate_def)
  then have "registered (all_keys 2 0 0 0) (all_sems 2 0 0 0 0) (fst ?ps2)"
    by (rule for_loop_induct[of "\<lambda>n ps. registered (all_keys n 0 0 0) (all_sems n 0 0 0 0) (fst ps)"])
      (rule pump_roof_registers)
  then have "registered (all_keys 2 0 0 0) (all_sems 2 4 0 0 0) (fst ?ps3)"
    by (rule for_loop_induct[of "\<lambda>n ps. registered (all_keys 2 0 0 0) (all_sems 2 n 0 0 0) (fst ps)"])
      (rule pump_fan_registers)
  then have "registered (all_keys 2 3 0 0) (all_sems 2 4 3 0 0) (fst ?ps4)"
    by (rule for_loop_induct[of "\<lambda>n ps. registered (all_keys 2 n 0 0) (all_sems 2 4 n 0 0) (fst ps)"])
      (rule pump_co2_registers)
  then have "registered (all_keys 2 3 1 0) (all_sems 2 4 3 1 0) (fst ?ps5)"
    by (rule for_loop_induct[of "\<lambda>n ps. registered (all_keys 2 3 n 0) (all_sems 2 4 3 n 0) (fst ps)"])
      (rule pump_temp_out_registers)
  then have "registered (all_keys 2 3 1 12) (all_sems 2 4 3 1 12) (fst ?ps6)"
    by (rule for_loop_induct[of "\<lambda>n ps. registered (all_keys 2 3 1 n) (all_sems 2 4 3 1 n) (fst ps)"])
      (rule pump_temp_in_registers)
  then have "pump_ok (vEventRegist BMS_sem SysEventPoll_task (fst ?ps6))"
    by (simp add: pump_ok_def registered_def pump_idle_def vEventRegist_new all_sems_def)
  then show ?thesis
    unfolding pump_Init_def Let_def by (simp add: split_beta)
qed

lemma loop_snd:
  assumes "\<And>n p s. snd (f n (p, s)) = g n s"
  shows "snd (for_loop N f ps) = for_loop N g (snd ps)"
  using assms by (induction N) (simp_all add: for_loop_Suc, metis prod.collapse)

lemma pump_Init_system: "snd (pump_Init (p, s)) = vSystem_Init s"
proof -
  have eqs: "snd (for_loop N pump_roof ps) = for_loop N init_roof (snd ps)"
    "snd (for_loop N pump_fan ps) = for_loop N init_fan (snd ps)"
    "snd (for_loop N pump_co2 ps) = for_loop N init_co2 (snd ps)"
    "snd (for_loop N pump_temp_out ps) = for_loop N init_temp_out (snd ps)"
    "snd (for_loop N pump_temp_in ps) = for_loop N init_temp_in (snd ps)" for N and ps :: "pump \<times> 'a sys_scheme"
    by (rule loop_snd, simp add: pump_roof_def pump_fan_def pump_co2_def pump_temp_out_def pump_temp_in_def)+
  show ?thesis
    unfolding pump_Init_def vSystem_Init_def Let_def by (simp add: split_beta eqs del: for_loop_numeral for_loop_1)
qed

section \<open>A pass of the monitor\<close>

definition now :: "'z sys_scheme \<Rightarrow> sMonitorInfo \<Rightarrow> u16" where
  "now s e = read_typed (mon_ucDataType e) (halfword (mon_pvVal e) s)"

definition changed :: "'z sys_scheme \<Rightarrow> sMonitorInfo \<Rightarrow> bool" where
  "changed s e \<longleftrightarrow> mon_usDataVal e \<noteq> now s e"

definition refresh :: "'z sys_scheme \<Rightarrow> sMonitorInfo \<Rightarrow> sMonitorInfo" where
  "refresh s e = e\<lparr>mon_usDataVal := now s e\<rparr>"

lemma refresh_simps [simp]:
  "mon_key (refresh s e) = mon_key e" "\<not> changed s (refresh s e)" "\<not> changed s e \<Longrightarrow> refresh s e = e"
  by (simp_all add: refresh_def mon_key_def changed_def now_def)

text \<open>The pump after the entries \<open>done\<close>, of which some had changed.\<close>

definition ready_tcb :: "msg_ptr OS_TCB" where
  "ready_tcb = waiting_tcb\<lparr>TaskState := OS_TASK_STATE_RDY, PendOn := OS_TASK_PEND_ON_NOTHING, MsgPtr := Some ptr_sEventMsg\<rparr>"

definition noted :: "sMonitorInfo list \<Rightarrow> pump \<Rightarrow> pump" where
  "noted es p = (if es = [] then p
     else p\<lparr>sEventMsg := \<lparr>msg_psSem = mon_psSem (last es), msg_pvArg = mon_pvVal (last es)\<rparr>, EventTCB := ready_tcb\<rparr>)"

lemma post_event_noted:
  assumes "pump_idle p"
  shows "post_event st1 st2 ptr_sEventMsg ((noted es (p\<lparr>MonitorBuf := b\<rparr>))\<lparr>sEventMsg := m, MonitorBuf := b'\<rparr>, s) =
    (p\<lparr>MonitorBuf := b', sEventMsg := m, EventTCB := ready_tcb\<rparr>, s)"
  using assms
  by (simp add: post_event_def noted_def pump_idle_def preempts_def task_prio_def OS_TaskQPost_def OS_Post_def
      OS_MsgQPut_def waiting_tcb_def ready_tcb_def)

lemma monitor_one_eq:
  "monitor_one st1 st2 i (p, s) =
    (let e = MonitorBuf p ! i
     in if \<not> changed s e then (p, s)
        else post_event st1 st2 ptr_sEventMsg (p\<lparr>sEventMsg := \<lparr>msg_psSem = mon_psSem e, msg_pvArg = mon_pvVal e\<rparr>,
               MonitorBuf := (MonitorBuf p)[i := refresh s e]\<rparr>, s))"
  by (simp add: monitor_one_def changed_def refresh_def now_def Let_def)

lemma monitor_pass:
  assumes "pump_idle p"
  shows "i \<le> length (MonitorBuf p) \<Longrightarrow> fold (monitor_one st1 st2) [0..<i] (p, s) =
    (noted (filter (changed s) (take i (MonitorBuf p)))
       (p\<lparr>MonitorBuf := map (refresh s) (take i (MonitorBuf p)) @ drop i (MonitorBuf p)\<rparr>), s)"
proof (induction i)
  case 0
  then show ?case by (simp add: noted_def)
next
  case (Suc i)
  let ?b = "MonitorBuf p" and ?e = "MonitorBuf p ! i"
  let ?bi = "map (refresh s) (take i ?b) @ drop i ?b" and ?es = "filter (changed s) (take i ?b)"
  have i: "i < length ?b" using Suc.prems by simp
  then have e: "?bi ! i = ?e" "length ?bi = length ?b" by (simp_all add: nth_append)
  have tk: "take (Suc i) ?b = take i ?b @ [?e]" "drop i ?b = ?e # drop (Suc i) ?b"
    using i by (simp_all add: take_Suc_conv_app_nth Cons_nth_drop_Suc)
  have upd: "?bi[i := refresh s ?e] = map (refresh s) (take (Suc i) ?b) @ drop (Suc i) ?b"
    using i by (simp add: tk list_update_append)
  have buf: "MonitorBuf (noted ?es (p\<lparr>MonitorBuf := ?bi\<rparr>)) = ?bi" by (simp add: noted_def)
  have IH: "fold (monitor_one st1 st2) [0..<i] (p, s) = (noted ?es (p\<lparr>MonitorBuf := ?bi\<rparr>), s)"
    using Suc by simp
  show ?case
  proof (cases "changed s ?e")
    case False
    then have "map (refresh s) (take (Suc i) ?b) @ drop (Suc i) ?b = ?bi" using tk by simp
    moreover have "filter (changed s) (take (Suc i) ?b) = ?es" using False tk by simp
    moreover have "monitor_one st1 st2 i (noted ?es (p\<lparr>MonitorBuf := ?bi\<rparr>), s) = (noted ?es (p\<lparr>MonitorBuf := ?bi\<rparr>), s)"
      using False unfolding monitor_one_eq buf e(1) Let_def by simp
    ultimately show ?thesis using IH by (simp del: filter_append map_append take_Suc)
  next
    case True
    let ?m = "\<lparr>msg_psSem = mon_psSem ?e, msg_pvArg = mon_pvVal ?e\<rparr>"
    have "monitor_one st1 st2 i (noted ?es (p\<lparr>MonitorBuf := ?bi\<rparr>), s) =
        post_event st1 st2 ptr_sEventMsg ((noted ?es (p\<lparr>MonitorBuf := ?bi\<rparr>))\<lparr>sEventMsg := ?m,
          MonitorBuf := ?bi[i := refresh s ?e]\<rparr>, s)"
      using True unfolding monitor_one_eq buf e(1) Let_def by simp
    also have "\<dots> = (noted (?es @ [?e]) (p\<lparr>MonitorBuf := ?bi[i := refresh s ?e]\<rparr>), s)"
      unfolding post_event_noted[OF assms] by (simp add: noted_def)
    finally show ?thesis
      using True by (simp add: IH tk(1) upd[unfolded tk(1)])
  qed
qed

section \<open>Delivery\<close>

lemma forward_none: "\<forall>e \<in> set es. ev_psSem e \<noteq> msg_psSem (sEventMsg p) \<Longrightarrow> forward st1 st2 m es (p, s) = (p, s)"
  by (induction es) auto

lemma post_sys_handles:
  assumes "SysEventPollTCB p = waiting_tcb"
  shows "post_sys st1 st2 m (p, s) = (p, handle_event st1 st2 (msg_pvArg (sEventMsg p)) s)"
proof -
  have "p\<lparr>SysEventPollTCB := waiting_tcb\<rparr> = p" using assms by simp
  then show ?thesis
    using assms
    by (simp add: post_sys_def preempts_def task_prio_def OS_TaskQPost_def OS_Post_def waiting_tcb_def
        vSystem_EventPollTask_def)
qed

lemma forward_one:
  assumes "SysEventPollTCB p = waiting_tcb" "distinct sems" "msg_psSem (sEventMsg p) \<in> set sems"
  shows "forward st1 st2 m (map (\<lambda>s. \<lparr>ev_psSem = s, ev_psTCB = SysEventPoll_task\<rparr>) sems) (p, s) =
    (p, handle_event st1 st2 (msg_pvArg (sEventMsg p)) s)"
  using assms(2,3)
proof (induction sems)
  case (Cons x xs)
  show ?case
  proof (cases "x = msg_psSem (sEventMsg p)")
    case True
    then show ?thesis
      using Cons.prems by (auto simp: post_sys_handles[OF assms(1)] intro!: forward_none)
  next
    case False
    then show ?thesis using Cons by auto
  qed
qed simp

lemma event_task_delivers:
  assumes "pump_idle p" "EventBuf p = map (\<lambda>s. \<lparr>ev_psSem = s, ev_psTCB = SysEventPoll_task\<rparr>) sems" "distinct sems"
    "mon_psSem ` set es \<subseteq> set sems"
  shows "vEventPollTask st1 st2 (noted es p, s) =
    ((if es = [] then p else p\<lparr>sEventMsg := sEventMsg (noted es p)\<rparr>),
     if es = [] then s else handle_event st1 st2 (mon_pvVal (last es)) s)"
proof (cases "es = []")
  case True
  then show ?thesis using assms(1) by (simp add: noted_def vEventPollTask_def pump_idle_def waiting_tcb_def)
next
  case False
  let ?m = "\<lparr>msg_psSem = mon_psSem (last es), msg_pvArg = mon_pvVal (last es)\<rparr>"
  have back_: "p\<lparr>sEventMsg := ?m, EventTCB := waiting_tcb\<rparr> = p\<lparr>sEventMsg := ?m\<rparr>"
    using assms(1) by (simp add: pump_idle_def)
  have "mon_psSem (last es) \<in> set sems" using assms(4) False by auto
  then have "forward st1 st2 ptr_sEventMsg (EventBuf p) (p\<lparr>sEventMsg := ?m\<rparr>, s) =
      (p\<lparr>sEventMsg := ?m\<rparr>, handle_event st1 st2 (mon_pvVal (last es)) s)"
    using forward_one[of "p\<lparr>sEventMsg := ?m\<rparr>" sems st1 st2 ptr_sEventMsg s] assms by (simp add: pump_idle_def)
  then show ?thesis
    using False back_ by (simp add: noted_def vEventPollTask_def ready_tcb_def waiting_tcb_def)
qed

section \<open>Runs of the program\<close>

text \<open>Steps in which no change event is handled: as in theory \<open>Reach\<close>.\<close>

inductive own_step :: "sys \<Rightarrow> sys \<Rightarrow> bool" where
  Own_poll: "own_step s (vSystem_ParameterSysn st1 st2 s)"
| Own_start: "own_step s (vSystem_SetExAirFanFreqRange (usExAirFanMinFreq s) (usExAirFanMaxFreq s) s)"
| Own_timer: "TypeIsTmr (os_tmrs s k) \<Longrightarrow> own_step s (OS_TmrTask_one run_callback k s)"
| Own_bms: "own_step s (s\<lparr>psBMS := b\<rparr>)"
| Own_unit: "own_step s (upd_roof i (\<lambda>_. r) s)"
| Own_fan: "own_step s (upd_fan i (\<lambda>f. f\<lparr>dev_eRunningState := st, usRunningFreq := freq,
    xExAirFanRemote := remote, xExAirFanErr := err\<rparr>) s)"
| Own_co2: "own_step s (s\<lparr>psCO2SenList := (psCO2SenList s)[i :=
    (psCO2SenList s ! i)\<lparr>sen_usCO2PPM := v, sen_xOnLine := on\<rparr>]\<rparr>)"
| Own_out: "own_step s (s\<lparr>psTempHumiSenOutList := (psTempHumiSenOutList s)[i :=
    (psTempHumiSenOutList s ! i)\<lparr>sTemp := t, usHumi := h, sen_xOnLine := on\<rparr>]\<rparr>)"
| Own_in: "own_step s (s\<lparr>psTempHumiSenInList := (psTempHumiSenInList s)[i :=
    (psTempHumiSenInList s ! i)\<lparr>sTemp := t, usHumi := h, sen_xOnLine := on\<rparr>]\<rparr>)"

lemma own_step_is_step: "own_step s t \<Longrightarrow> sys_step s t"
  by (induction rule: own_step.induct) (rule sys_step.intros; assumption?)+

text \<open>
  Runs of the program from the moment both event tasks wait: its own steps, the outside world's, and rounds of
  the monitor.
\<close>

inductive pump_runs :: "pump \<times> sys \<Rightarrow> bool" where
  Run_start: "pump_Init (pump_zero, system_zero) = (p, s) \<Longrightarrow> pump_runs (p, event_task_start (eeprom_load e s))"
| Run_own: "pump_runs (p, s) \<Longrightarrow> own_step s t \<Longrightarrow> pump_runs (p, t)"
| Run_round: "pump_runs ps \<Longrightarrow> pump_runs (monitor_round st1 st2 ps)"

lemma pump_ok_facts:
  assumes "pump_ok p"
  shows "pump_idle p" "mon_keys p = all_keys 2 3 1 12"
    "EventBuf p = map (\<lambda>s. \<lparr>ev_psSem = s, ev_psTCB = SysEventPoll_task\<rparr>) (all_sems 2 4 3 1 12 @ [BMS_sem])"
    "mon_psSem ` set (MonitorBuf p) \<subseteq> set (all_sems 2 4 3 1 12 @ [BMS_sem])"
proof -
  show p: "pump_idle p" "mon_keys p = all_keys 2 3 1 12"
    "EventBuf p = map (\<lambda>s. \<lparr>ev_psSem = s, ev_psTCB = SysEventPoll_task\<rparr>) (all_sems 2 4 3 1 12 @ [BMS_sem])"
    using assms by (simp_all add: pump_ok_def registered_def)
  have "mon_psSem ` set (MonitorBuf p) = snd ` set (mon_keys p)" by (force simp: mon_key_def)
  also have "\<dots> \<subseteq> set (all_sems 2 4 3 1 12 @ [BMS_sem])"
    unfolding p by (auto simp: all_keys_def all_sems_def keys_of_def)
  finally show "mon_psSem ` set (MonitorBuf p) \<subseteq> set (all_sems 2 4 3 1 12 @ [BMS_sem])" .
qed

lemma sems_distinct: "distinct (all_sems 2 4 3 1 12 @ [BMS_sem])"
  by (auto simp: all_sems_def distinct_map inj_on_def)

lemma pass_then_event:
  fixes s t :: "'z sys_scheme"
  assumes "pump_ok p"
  defines "es \<equiv> filter (changed s) (MonitorBuf p)"
  shows "\<exists>p'. vEventPollTask st1 st2 (fst (vMonitorPollTask st1 st2 (p, s)), t) =
      (p', if es = [] then t else handle_event st1 st2 (mon_pvVal (last es)) t) \<and>
    snd (vMonitorPollTask st1 st2 (p, s)) = s \<and>
    MonitorBuf p' = map (refresh s) (MonitorBuf p) \<and> pump_ok p'"
proof -
  note p = pump_ok_facts[OF assms(1)]
  let ?p = "p\<lparr>MonitorBuf := map (refresh s) (MonitorBuf p)\<rparr>"
  have pass: "vMonitorPollTask st1 st2 (p, s) = (noted es ?p, s)"
    using monitor_pass[OF p(1) le_refl, of st1 st2 s] by (simp add: vMonitorPollTask_def es_def)
  have "mon_psSem ` set es \<subseteq> set (all_sems 2 4 3 1 12 @ [BMS_sem])"
    using p(4) unfolding es_def by (meson filter_is_subset image_mono subset_trans)
  then have "vEventPollTask st1 st2 (noted es ?p, t) =
    ((if es = [] then ?p else ?p\<lparr>sEventMsg := sEventMsg (noted es ?p)\<rparr>),
     if es = [] then t else handle_event st1 st2 (mon_pvVal (last es)) t)"
    using p(1,3) sems_distinct by (intro event_task_delivers[where sems = "all_sems 2 4 3 1 12 @ [BMS_sem]"]) (simp_all add: pump_idle_def)
  moreover have "pump_ok (if es = [] then ?p else ?p\<lparr>sEventMsg := m\<rparr>)" for m
    using assms(1) by (simp add: pump_ok_def registered_def pump_idle_def comp_def)
  ultimately show ?thesis using pass by simp
qed

lemma round_eq:
  fixes s :: "'z sys_scheme"
  assumes "pump_ok p"
  shows "\<exists>p'. monitor_round st1 st2 (p, s) =
      (p', if filter (changed s) (MonitorBuf p) = [] then s
           else handle_event st1 st2 (mon_pvVal (last (filter (changed s) (MonitorBuf p)))) s) \<and> pump_ok p'"
proof -
  have "vMonitorPollTask st1 st2 (p, s) = (fst (vMonitorPollTask st1 st2 (p, s)), s)"
    using pass_then_event[OF assms, of st1 st2 s s] by (metis prod.collapse)
  then have "monitor_round st1 st2 (p, s) = vEventPollTask st1 st2 (fst (vMonitorPollTask st1 st2 (p, s)), s)"
    unfolding monitor_round_def by simp
  then show ?thesis using pass_then_event[OF assms, of st1 st2 s s] by auto
qed

lemma pump_runs_ok: "pump_runs ps \<Longrightarrow> pump_ok (fst ps) \<and> reachable (snd ps)"
proof (induction rule: pump_runs.induct)
  case (Run_start p s e)
  then have "p = fst (pump_Init (pump_zero, system_zero))" "s = vSystem_Init system_zero"
    using pump_Init_system[of pump_zero system_zero] by simp_all
  then show ?case using pump_Init_ok reachable.Start by simp
next
  case (Run_own p s t)
  then show ?case using reachable.Step own_step_is_step by fastforce
next
  case (Run_round ps st1 st2)
  obtain p s where ps: "ps = (p, s)" by (cases ps)
  have p: "pump_ok p" and s: "reachable s" using Run_round ps by simp_all
  obtain p' where "monitor_round st1 st2 (p, s) =
      (p', if filter (changed s) (MonitorBuf p) = [] then s
           else handle_event st1 st2 (mon_pvVal (last (filter (changed s) (MonitorBuf p)))) s)" "pump_ok p'"
    using round_eq[OF p] by blast
  then show ?case using s reachable.Step[OF s Event] by (simp add: ps)
qed

definition pump_boot :: pump where
  "pump_boot = fst (pump_Init (pump_zero, system_zero))"

lemma boot_runs: "pump_runs (pump_boot, boot_state)"
  using Run_start[of pump_boot "vSystem_Init system_zero" system_zero] pump_Init_system[of pump_zero system_zero]
  unfolding pump_boot_def boot_state_def by (metis prod.collapse)



section \<open>Commands of the supervisor\<close>

definition not_automatic :: "'z sys_scheme \<Rightarrow> bool" where
  "not_automatic s \<longleftrightarrow> eSystemMode s = MODE_CLOSE \<or> eSystemMode s = MODE_MANUAL"

lemma not_automatic_modes: "modes t = modes s \<Longrightarrow> not_automatic t = not_automatic s"
  by (auto simp: modes_def not_automatic_def)

lemma not_automatic_iff: "not_automatic s \<longleftrightarrow> fst (modes s) \<in> {MODE_CLOSE, MODE_MANUAL}"
  by (simp add: not_automatic_def modes_def)

lemma not_automatic_simps [simp]:
  "not_automatic s \<Longrightarrow> not_automatic (leave_closed s)" "not_automatic s \<Longrightarrow> not_automatic (leave_closed_with_unit n s)"
  "not_automatic (s\<lparr>eSystemState := a\<rparr>) = not_automatic s" "not_automatic (s\<lparr>eRunningMode := b\<rparr>) = not_automatic s"
  "not_automatic (upd_roof i g s) = not_automatic s"
  by (auto simp: leave_closed_def leave_closed_with_unit_def not_automatic_def upd_bms_def upd_roof_def)

lemma unit_events_not_automatic: "not_automatic s \<Longrightarrow> not_automatic (handle_unit st1 st2 n v s)"
proof -
  assume s: "not_automatic s"
  have "not_automatic (vSystem_UnitErr st1 st2 s)"
    using s by (auto simp: not_automatic_iff vSystem_UnitErr_def Let_def auto_or_emergency_def mode_sel)
  moreover have "not_automatic (vSystem_UnitRunningState n b s)" for b
    using s by (simp add: vSystem_UnitRunningState_def Let_def split: option.split)
  ultimately show ?thesis
    using s by (cases v) (simp_all add: handle_unit_def not_automatic_iff)
qed

lemma sensor_events_keep_modes:
  "modes (handle_co2 c s) = modes s" "modes (handle_temp_out v s) = modes s" "modes (handle_temp_in v s) = modes s"
  by (cases c; simp add: handle_co2_def) (cases v; simp add: handle_temp_out_def handle_temp_in_def)+

lemma callbacks_keep_modes:
  "modes (run_callback cb k s) = modes s"
  by (cases cb) (simp_all add: run_callback_def vSystem_PollTmrCallback_def vSystem_ModeChangePeriodTimeCallback_def
      CO2Sensor_timeout_def TempHumiOut_timeout_def TempHumiIn_timeout_def split: tmr_id.split)

lemma own_step_keeps_mode: "own_step s t \<Longrightarrow> not_automatic s \<Longrightarrow> not_automatic t"
proof (induction rule: own_step.induct)
  case (Own_timer s k)
  then show ?case
    by (auto simp: not_automatic_iff OS_TmrTask_one_def Let_def OS_TmrUnlink_def callbacks_keep_modes split: option.split)
next
  case (Own_bms s b)
  then show ?case by (simp add: not_automatic_def)
qed (simp_all add: not_automatic_iff)

text \<open>The variables registered: no register of the supervisor's image, no field of a fan.\<close>

definition from_unit_or_sensor :: "event \<Rightarrow> bool" where
  "from_unit_or_sensor v = (case v of BMS_event _ \<Rightarrow> False | Fan_event _ _ \<Rightarrow> False | _ \<Rightarrow> True)"

lemma monitored_events:
  assumes "pump_ok p" "e \<in> set (MonitorBuf p)"
  shows "from_unit_or_sensor (mon_pvVal e)"
proof -
  have "mon_key e \<in> set (all_keys 2 3 1 12)"
    using assms(2) pump_ok_facts(2)[OF assms(1), symmetric] by simp
  then have "from_unit_or_sensor (fst (mon_key e))"
    by (auto simp: all_keys_def keys_of_def from_unit_or_sensor_def)
  then show ?thesis by (simp add: mon_key_def)
qed

lemma monitored_event_keeps_mode:
  assumes "from_unit_or_sensor v" "not_automatic s"
  shows "not_automatic (handle_event st1 st2 v s)"
proof (cases v)
  case (Unit_event n x)
  then show ?thesis using assms(2) unit_events_not_automatic[of s] by (simp add: handle_event_def)
qed (use assms in \<open>simp_all add: from_unit_or_sensor_def handle_event_def not_automatic_iff sensor_events_keep_modes\<close>)

lemma ChangeExAirFanType_keeps_modes: "modes (vSystem_ChangeExAirFanType ty s) = modes s"
  by (simp add: vSystem_ChangeExAirFanType_def Let_def ChangeFreqType_frame(2))

lemma start_not_automatic: "not_automatic (event_task_start (eeprom_load e (vSystem_Init system_zero)))"
proof -
  let ?s = "vBMS_InitDefaultData (eeprom_load e (vSystem_Init system_zero))"
  have fan: "modes (for_loop N start_fan t) = modes t" for N and t :: sys
    by (rule for_loop_invariant[of "\<lambda>u. modes u = modes t"]) (simp_all add: start_fan_def Let_def)
  have "eSystemMode ?s = MODE_CLOSE"
    using Init_built by (simp add: built_def modes_def vBMS_InitDefaultData_def eeprom_load_def upd_bms_def)
  then have "not_automatic ?s" by (simp add: not_automatic_def)
  then show ?thesis by (simp add: event_task_start_def Let_def not_automatic_iff fan ChangeExAirFanType_keeps_modes)
qed

lemma runs_not_automatic: "pump_runs ps \<Longrightarrow> not_automatic (snd ps)"
proof (induction rule: pump_runs.induct)
  case (Run_start p s e)
  then have "s = vSystem_Init system_zero" using pump_Init_system[of pump_zero system_zero] by simp
  then show ?case by (simp add: start_not_automatic)
next
  case (Run_own p s t)
  then show ?case using own_step_keeps_mode by simp
next
  case (Run_round ps st1 st2)
  obtain p s where ps: "ps = (p, s)" by (cases ps)
  let ?es = "filter (changed s) (MonitorBuf p)"
  have p: "pump_ok p" using pump_runs_ok[OF Run_round.hyps] ps by simp
  obtain p' where round: "monitor_round st1 st2 (p, s) =
      (p', if ?es = [] then s else handle_event st1 st2 (mon_pvVal (last ?es)) s)"
    using round_eq[OF p] by blast
  have "from_unit_or_sensor (mon_pvVal (last ?es))" if "?es \<noteq> []"
    using last_in_set[OF that] monitored_events[OF p] by auto
  then show ?case using Run_round.IH monitored_event_keeps_mode by (auto simp: ps round)
qed



end
