(* ===== verification/Eeprom.thy ===== *)
theory Eeprom
  imports Prelude
begin

text \<open>
  The parameter memory: the driver of the chip's EEPROM (\<open>ChipDriver/src/lpc_eeprom.c\<close>) and the module that
  saves registered variables (\<open>Module/md_eeprom.c\<close>). RAM is a function from byte addresses to bytes, since
  the module reads and writes past its buffers.
\<close>

section \<open>The driver\<close>

type_synonym ram = "nat \<Rightarrow> u8"

text \<open>The EEPROM: pages of 64 bytes.\<close>

type_synonym pages = "nat \<Rightarrow> nat \<Rightarrow> u8"

definition EEPROM_PAGE_SIZE :: nat where "EEPROM_PAGE_SIZE = 64"
definition EEPROM_PAGE_NUM :: nat where "EEPROM_PAGE_NUM = 63"

datatype EEPROM_Mode_Type = MODE_8_BIT | MODE_16_BIT | MODE_32_BIT

definition mode_bytes :: "EEPROM_Mode_Type \<Rightarrow> nat" where
  "mode_bytes mode = (case mode of MODE_8_BIT \<Rightarrow> 1 | MODE_16_BIT \<Rightarrow> 2 | MODE_32_BIT \<Rightarrow> 4)"

text \<open>
  Programming a page is done by the chip: \<open>prog old written\<close> is the new content of a page when the bytes
  \<open>written\<close> have been put into the page register since the last programming.
\<close>

type_synonym prog = "(nat \<Rightarrow> u8) \<Rightarrow> (nat \<rightharpoonup> u8) \<Rightarrow> nat \<Rightarrow> u8"

text \<open>What the manual of the chip says of it: the bytes written are programmed.\<close>

definition programs_written :: "prog \<Rightarrow> bool" where
  "programs_written prog \<longleftrightarrow> (\<forall>old written i b. written i = Some b \<longrightarrow> prog old written i = b)"

text \<open>The bytes of an element go to the page register in the order they have in memory (little endian).\<close>

definition put_bytes :: "nat \<Rightarrow> nat \<Rightarrow> nat \<Rightarrow> ram \<Rightarrow> (nat \<rightharpoonup> u8) \<Rightarrow> (nat \<rightharpoonup> u8)" where
  "put_bytes off sz a m reg = (\<lambda>i. if off \<le> i \<and> i < off + sz then Some (m (a + (i - off))) else reg i)"

fun EEPROM_Write_loop ::
  "prog \<Rightarrow> nat \<Rightarrow> nat \<Rightarrow> nat \<Rightarrow> nat \<Rightarrow> nat \<Rightarrow> ram \<Rightarrow> (nat \<rightharpoonup> u8) \<Rightarrow> pages \<Rightarrow> pages" where
  "EEPROM_Write_loop prog sz 0 page_offset page_address a m reg e = e"
| "EEPROM_Write_loop prog sz (Suc left) page_offset page_address a m reg e =
     (let reg1 = put_bytes page_offset sz a m reg;
          off1 = page_offset + sz;
          full = (off1 \<ge> EEPROM_PAGE_SIZE);
          program_it = (full \<or> left = 0);
          e1 = (if program_it then e(page_address := prog (e page_address) reg1) else e);
          reg2 = (if program_it then Map.empty else reg1);
          page1 = (if full then (if page_address + 1 > EEPROM_PAGE_NUM - 1 then 0 else page_address + 1) else page_address)
      in EEPROM_Write_loop prog sz left (if full then 0 else off1) page1 (a + sz) m reg2 e1)"

text \<open>A misaligned offset makes the driver loop for ever: no result. \<open>count\<close> counts elements, not bytes.\<close>

definition EEPROM_Write :: "prog \<Rightarrow> nat \<Rightarrow> nat \<Rightarrow> nat \<Rightarrow> EEPROM_Mode_Type \<Rightarrow> nat \<Rightarrow> ram \<Rightarrow> pages \<Rightarrow> pages option" where
  "EEPROM_Write prog page_offset page_address a mode cnt m e =
     (if page_offset mod mode_bytes mode \<noteq> 0 then None
      else Some (EEPROM_Write_loop prog (mode_bytes mode) cnt page_offset page_address a m Map.empty e))"

text \<open>The page number wraps at 64 in the address register; each element read moves the address on by its size.\<close>

fun EEPROM_Read_loop :: "nat \<Rightarrow> nat \<Rightarrow> nat \<Rightarrow> nat \<Rightarrow> nat \<Rightarrow> pages \<Rightarrow> ram \<Rightarrow> ram" where
  "EEPROM_Read_loop sz 0 page_offset page_address a e m = m"
| "EEPROM_Read_loop sz (Suc left) page_offset page_address a e m =
     (let m1 = (\<lambda>x. if a \<le> x \<and> x < a + sz then e (page_address mod 64) (page_offset + (x - a)) else m x);
          off1 = page_offset + sz;
          next_page = (off1 \<ge> EEPROM_PAGE_SIZE \<and> left > 0)
      in EEPROM_Read_loop sz left (if next_page then 0 else off1)
           (if next_page then page_address + 1 else page_address) (a + sz) e m1)"

definition EEPROM_Read :: "nat \<Rightarrow> nat \<Rightarrow> nat \<Rightarrow> EEPROM_Mode_Type \<Rightarrow> nat \<Rightarrow> pages \<Rightarrow> ram \<Rightarrow> ram" where
  "EEPROM_Read page_offset page_address a mode cnt e m =
     (if page_offset mod mode_bytes mode \<noteq> 0 then m
      else EEPROM_Read_loop (mode_bytes mode) cnt page_offset page_address a e m)"

section \<open>Registered data\<close>

datatype eEEPROMDataType = TYPE_UINT_8 | TYPE_INT_8 | TYPE_UINT_16 | TYPE_INT_16 | TYPE_UINT_32 | TYPE_INT_32
  | TYPE_RUNTIME | TYPE_E32

text \<open>The constants of each type: first page, number of variables, access mode, passes between two writes.\<close>

definition PAGE_ADDR :: "eEEPROMDataType \<Rightarrow> nat" where
  "PAGE_ADDR ty = (case ty of TYPE_UINT_8 \<Rightarrow> 0 | TYPE_INT_8 \<Rightarrow> 2 | TYPE_UINT_16 \<Rightarrow> 3 | TYPE_INT_16 \<Rightarrow> 5
     | TYPE_UINT_32 \<Rightarrow> 6 | TYPE_INT_32 \<Rightarrow> 7 | TYPE_RUNTIME \<Rightarrow> 8 | TYPE_E32 \<Rightarrow> 9)"

definition SAVE_COUNT :: "eEEPROMDataType \<Rightarrow> nat" where
  "SAVE_COUNT ty = (case ty of TYPE_UINT_8 \<Rightarrow> 5 | TYPE_INT_8 \<Rightarrow> 1 | TYPE_UINT_16 \<Rightarrow> 36 | TYPE_INT_16 \<Rightarrow> 1
     | TYPE_UINT_32 \<Rightarrow> 2 | TYPE_INT_32 \<Rightarrow> 1 | TYPE_RUNTIME \<Rightarrow> 6 | TYPE_E32 \<Rightarrow> 1)"

definition data_mode :: "eEEPROMDataType \<Rightarrow> EEPROM_Mode_Type" where
  "data_mode ty = (case ty of TYPE_UINT_8 \<Rightarrow> MODE_8_BIT | TYPE_INT_8 \<Rightarrow> MODE_8_BIT | TYPE_UINT_16 \<Rightarrow> MODE_16_BIT
     | TYPE_INT_16 \<Rightarrow> MODE_16_BIT | _ \<Rightarrow> MODE_32_BIT)"

abbreviation data_size :: "eEEPROMDataType \<Rightarrow> nat" where
  "data_size ty \<equiv> mode_bytes (data_mode ty)"

text \<open>\<open>SAVE_SIZE\<close> is in bytes; it is what the module passes as \<open>count\<close>.\<close>

definition SAVE_SIZE :: "eEEPROMDataType \<Rightarrow> nat" where
  "SAVE_SIZE ty = SAVE_COUNT ty * data_size ty"

definition WRITE_SIZE :: "eEEPROMDataType \<Rightarrow> nat" where
  "WRITE_SIZE ty = (if ty = TYPE_E32 then SAVE_SIZE TYPE_RUNTIME else SAVE_SIZE ty)"

definition WRITE_INTV :: "eEEPROMDataType \<Rightarrow> u16" where
  "WRITE_INTV ty = (case ty of TYPE_RUNTIME \<Rightarrow> 7200 div 10 | TYPE_E32 \<Rightarrow> 7200 | _ \<Rightarrow> 1)"

text \<open>
  Where the linker puts the buffers \<open>DataBuf...\<close>, the buffer of the first read and the flag
  \<open>EEPROMFirstRun\<close>; it never changes.
\<close>

record layout =
  DataBuf :: "eEEPROMDataType \<Rightarrow> nat"
  DataBufFirstRunUint8 :: nat
  EEPROMFirstRun :: nat

text \<open>
  The state: RAM, the EEPROM, the pointers \<open>pDataBuf...\<close> registered so far (their number is
  \<open>DataBuf...Count\<close>; the others are null), the counters of changes.
\<close>

record eeprom =
  ee_ram :: ram
  ee_pages :: pages
  pDataBuf :: "eEEPROMDataType \<Rightarrow> nat list"
  ChangedTimes :: "eEEPROMDataType \<Rightarrow> u16"
  EEPROMDataReady :: bool

section \<open>Operations\<close>

definition copy_bytes :: "nat \<Rightarrow> nat \<Rightarrow> nat \<Rightarrow> ram \<Rightarrow> ram" where
  "copy_bytes n dst src m = (\<lambda>x. if dst \<le> x \<and> x < dst + n then m (src + (x - dst)) else m x)"

definition same_bytes :: "nat \<Rightarrow> nat \<Rightarrow> nat \<Rightarrow> ram \<Rightarrow> bool" where
  "same_bytes n a b m \<longleftrightarrow> (\<forall>i < n. m (a + i) = m (b + i))"

definition slot :: "layout \<Rightarrow> eEEPROMDataType \<Rightarrow> nat \<Rightarrow> nat" where
  "slot L ty i = DataBuf L ty + i * data_size ty"

text \<open>\<open>xDataUint8Changed\<close> and its seven copies: entries of the buffer brought up to date, and whether any was not.\<close>

fun xDataChanged :: "layout \<Rightarrow> eEEPROMDataType \<Rightarrow> nat \<Rightarrow> nat list \<Rightarrow> ram \<Rightarrow> bool \<times> ram" where
  "xDataChanged L ty i [] m = (False, m)"
| "xDataChanged L ty i (p # ps) m =
     (if same_bytes (data_size ty) (slot L ty i) p m then xDataChanged L ty (i + 1) ps m
      else (True, snd (xDataChanged L ty (i + 1) ps (copy_bytes (data_size ty) (slot L ty i) p m))))"

text \<open>The types in the order of the code.\<close>

definition all_types :: "eEEPROMDataType list" where
  "all_types = [TYPE_UINT_8, TYPE_INT_8, TYPE_UINT_16, TYPE_INT_16, TYPE_UINT_32, TYPE_INT_32, TYPE_RUNTIME, TYPE_E32]"

definition read_type :: "layout \<Rightarrow> eEEPROMDataType \<Rightarrow> eeprom \<Rightarrow> eeprom" where
  "read_type L ty s =
     (if pDataBuf s ty = [] then s
      else s\<lparr>ee_ram := EEPROM_Read 0 (PAGE_ADDR ty) (DataBuf L ty) (data_mode ty) (SAVE_SIZE ty) (ee_pages s) (ee_ram s)\<rparr>)"

fun restore_vars :: "layout \<Rightarrow> eEEPROMDataType \<Rightarrow> nat \<Rightarrow> nat list \<Rightarrow> ram \<Rightarrow> ram" where
  "restore_vars L ty i [] m = m"
| "restore_vars L ty i (p # ps) m = restore_vars L ty (i + 1) ps (copy_bytes (data_size ty) p (slot L ty i) m)"

definition restore_type :: "layout \<Rightarrow> eEEPROMDataType \<Rightarrow> eeprom \<Rightarrow> eeprom" where
  "restore_type L ty s = s\<lparr>ee_ram := restore_vars L ty 0 (pDataBuf s ty) (ee_ram s)\<rparr>"

text \<open>The delays between the accesses let other tasks run; what they do to the variables is not part of the pass.\<close>

definition vReadEEPROMData :: "layout \<Rightarrow> eeprom \<Rightarrow> eeprom" where
  "vReadEEPROMData L s =
     (fold (restore_type L) all_types (fold (read_type L) all_types s))\<lparr>EEPROMDataReady := True\<rparr>"

definition write_pages :: "prog \<Rightarrow> layout \<Rightarrow> eEEPROMDataType \<Rightarrow> nat \<Rightarrow> eeprom \<Rightarrow> eeprom option" where
  "write_pages prog L ty n s =
     map_option (\<lambda>e. s\<lparr>ee_pages := e\<rparr>)
       (EEPROM_Write prog 0 (PAGE_ADDR ty) (DataBuf L ty) (data_mode ty) n (ee_ram s) (ee_pages s))"

definition write_type :: "prog \<Rightarrow> layout \<Rightarrow> eEEPROMDataType \<Rightarrow> eeprom \<Rightarrow> eeprom option" where
  "write_type prog L ty s =
     (let (xChanged, m) = xDataChanged L ty 0 (pDataBuf s ty) (ee_ram s);
          times = ChangedTimes s ty + 1;
          s1 = s\<lparr>ee_ram := m\<rparr>
      in if \<not> xChanged then Some s1
         else if times \<ge> WRITE_INTV ty
         then map_option (\<lambda>t. t\<lparr>ChangedTimes := (ChangedTimes t)(ty := 0)\<rparr>) (write_pages prog L ty (WRITE_SIZE ty) s1)
         else Some (s1\<lparr>ChangedTimes := (ChangedTimes s1)(ty := times)\<rparr>))"

fun write_types :: "prog \<Rightarrow> layout \<Rightarrow> eEEPROMDataType list \<Rightarrow> eeprom \<Rightarrow> eeprom option" where
  "write_types prog L [] s = Some s"
| "write_types prog L (ty # tys) s = Option.bind (write_type prog L ty s) (write_types prog L tys)"

definition vWriteEEPROMData :: "prog \<Rightarrow> layout \<Rightarrow> eeprom \<Rightarrow> eeprom option" where
  "vWriteEEPROMData prog L s = write_types prog L all_types s"

fun first_types :: "prog \<Rightarrow> layout \<Rightarrow> eEEPROMDataType list \<Rightarrow> eeprom \<Rightarrow> eeprom option" where
  "first_types prog L [] s = Some s"
| "first_types prog L (ty # tys) s =
     Option.bind (if pDataBuf s ty = [] then Some s else write_pages prog L ty (SAVE_SIZE ty) s) (first_types prog L tys)"

text \<open>\<open>EEPROM_RUNNING_TIME_INIT\<close> and \<open>EEPROM_ENERGY_INIT\<close> are 0.\<close>

definition vWriteEEPROMDataFirstTime :: "prog \<Rightarrow> layout \<Rightarrow> eeprom \<Rightarrow> eeprom option" where
  "vWriteEEPROMDataFirstTime prog L s = first_types prog L all_types s"

text \<open>Registration of the variable at address \<open>p\<close>; 0 is the null pointer.\<close>

definition xRegistEEPROMData :: "layout \<Rightarrow> eEEPROMDataType \<Rightarrow> nat \<Rightarrow> eeprom \<Rightarrow> bool \<times> eeprom" where
  "xRegistEEPROMData L ty p s =
     (if p = 0 then (False, s)
      else if p \<in> set (pDataBuf s ty) then (False, s)
      else if length (pDataBuf s ty) \<ge> SAVE_COUNT ty then (False, s)
      else (True, s\<lparr>pDataBuf := (pDataBuf s)(ty := pDataBuf s ty @ [p]),
                    ee_ram := copy_bytes (data_size ty) (slot L ty (length (pDataBuf s ty))) p (ee_ram s)\<rparr>))"

text \<open>
  \<open>vEEPROMDataTask\<close> before its loop; the configuration reads the EEPROM (\<open>EEPROM_USE_DEFAULT_DATA\<close> and
  \<open>EEPROM_DATA_INIT\<close> are 0). \<open>TRUE\<close> is 1. The flag of the first run is the last variable of its type.
\<close>

definition vEEPROMDataTask_start :: "prog \<Rightarrow> layout \<Rightarrow> eeprom \<Rightarrow> eeprom option" where
  "vEEPROMDataTask_start prog L s =
     (let last8 = length (pDataBuf s TYPE_UINT_8) - 1;
          m1 = EEPROM_Read 0 (PAGE_ADDR TYPE_UINT_8) (DataBufFirstRunUint8 L) MODE_8_BIT (SAVE_SIZE TYPE_UINT_8)
                 (ee_pages s) (ee_ram s);
          flag = m1 (DataBufFirstRunUint8 L + last8);
          m2 = m1(EEPROMFirstRun L := flag);
          s1 = s\<lparr>ee_ram := m2\<rparr>
      in map_option (vReadEEPROMData L)
           (if flag = 1
            then vWriteEEPROMDataFirstTime prog L
                   (s1\<lparr>ee_ram := m2(EEPROMFirstRun L := 0, DataBuf L TYPE_UINT_8 + last8 := 0)\<rparr>)
            else Some s1))"

text \<open>One turn of its loop is \<open>vWriteEEPROMData\<close>. \<open>vEEPROMInit\<close> registers the flag.\<close>

definition vEEPROMInit :: "layout \<Rightarrow> eeprom \<Rightarrow> eeprom" where
  "vEEPROMInit L s = snd (xRegistEEPROMData L TYPE_UINT_8 (EEPROMFirstRun L) s)"

section \<open>What the program registers\<close>

text \<open>The variables, by object and name; \<open>addr\<close> is where the program has them.\<close>

datatype saved_var = Roof_ulRunTime_S nat | Fan_ulRunTime_S nat | System_var string

definition system_data :: "(eEEPROMDataType \<times> string) list" where
  "system_data =
     [(TYPE_UINT_8, ''ucExAirCoolRatio''), (TYPE_UINT_8, ''ucExAirHeatRatio''), (TYPE_UINT_8, ''eExAirFanType''),
      (TYPE_UINT_8, ''xAlarmEnable'')] @
     map (\<lambda>n. (TYPE_UINT_16, n))
       [''usModeChangeTime_1'', ''usModeChangeTime_2'', ''usModeChangeTime_3'', ''usModeChangeTime_4'',
        ''usModeChangeTime_5'', ''usModeChangeTime_6'', ''usModeChangeTime_7'', ''usModeChangeTime_8'',
        ''usModeChangePeriod_1'', ''usModeChangePeriod_2'', ''usModeChangePeriod_3'', ''usModeChangePeriod_4'',
        ''usModeChangePeriod_5'', ''usModeChangePeriod_6'', ''usModeAdjustTemp_0'', ''usModeAdjustTemp_1'',
        ''usModeAdjustTemp_2'', ''usModeAdjustTemp_3'', ''usModeAdjustTemp_4'', ''usModeAdjustTemp_5'',
        ''usModeAdjustTemp_6'', ''usTempSet'', ''usEnergyTemp'', ''usTempDeviat'', ''usSupAirMax_T'',
        ''usCO2AdjustThr_V'', ''usCO2AdjustDeviat'', ''usCO2PPMAlarm'', ''usHumidityMax'', ''usHumidityMin'',
        ''usExAirFanFreq'', ''usExAirFanMinFreq'', ''usExAirFanMaxFreq'', ''usExAirFanRunTimeLeast'',
        ''usExAirFanCtrlPeriod''] @
     [(TYPE_INT_16, ''sChickenGrowDays''), (TYPE_UINT_32, ''ulExAirFanRated_Vol''), (TYPE_UINT_32, ''ulFreAirSet_Vol'')]"

definition vModularRoof_RegistEEPROMData :: "(saved_var \<Rightarrow> nat) \<Rightarrow> layout \<Rightarrow> nat \<Rightarrow> eeprom \<Rightarrow> eeprom" where
  "vModularRoof_RegistEEPROMData addr L n s = snd (xRegistEEPROMData L TYPE_RUNTIME (addr (Roof_ulRunTime_S n)) s)"

definition vExAirFan_RegistEEPROMData :: "(saved_var \<Rightarrow> nat) \<Rightarrow> layout \<Rightarrow> nat \<Rightarrow> eeprom \<Rightarrow> eeprom" where
  "vExAirFan_RegistEEPROMData addr L n s = snd (xRegistEEPROMData L TYPE_RUNTIME (addr (Fan_ulRunTime_S n)) s)"

definition vSystem_RegistEEPROMData :: "(saved_var \<Rightarrow> nat) \<Rightarrow> layout \<Rightarrow> eeprom \<Rightarrow> eeprom" where
  "vSystem_RegistEEPROMData addr L s =
     fold (\<lambda>(ty, name) t. snd (xRegistEEPROMData L ty (addr (System_var name)) t)) system_data s"

text \<open>The order of construction: units, fans, system, and at last the flag.\<close>

definition regist_program :: "(saved_var \<Rightarrow> nat) \<Rightarrow> layout \<Rightarrow> eeprom \<Rightarrow> eeprom" where
  "regist_program addr L s =
     vEEPROMInit L (vSystem_RegistEEPROMData addr L
       (for_loop 4 (vExAirFan_RegistEEPROMData addr L) (for_loop 2 (vModularRoof_RegistEEPROMData addr L) s)))"

end
