(* ===== verification/EepromProps.thy ===== *)
theory EepromProps
  imports Eeprom
begin

text \<open>
  What the parameter memory keeps: which variables survive a power cycle, which do not, and the
  start-up of a new board.
\<close>

section \<open>Blocks of bytes in the EEPROM\<close>

text \<open>Byte \<open>k\<close> of a block that starts at a page.\<close>

definition ee_byte :: "pages \<Rightarrow> nat \<Rightarrow> nat \<Rightarrow> u8" where
  "ee_byte e page k = e (page + k div 64) (k mod 64)"

lemma ee_byte_next:
  assumes "off + sz = 64"
  shows "ee_byte e page (off + (sz + y)) = ee_byte e (page + 1) y"
proof -
  have "off + (sz + y) = y + 64" "(y + 64) div 64 = y div 64 + 1" using assms by simp_all
  then show ?thesis by (simp only: ee_byte_def) simp
qed

lemma put_bytes_simps:
  "i < off \<Longrightarrow> put_bytes off sz a m reg i = reg i"
  "off \<le> i \<Longrightarrow> i < off + sz \<Longrightarrow> put_bytes off sz a m reg i = Some (m (a + (i - off)))"
  by (simp_all add: put_bytes_def)

lemma write_loop_block:
  assumes prog: "programs_written prog" and sz: "0 < sz" "sz dvd 64"
  shows "off < 64 \<Longrightarrow> sz dvd off \<Longrightarrow> page + (off + Suc left * sz - 1) div 64 \<le> 62 \<Longrightarrow>
    e' = EEPROM_Write_loop prog sz (Suc left) off page a m reg e \<Longrightarrow>
    (\<forall>k < Suc left * sz. ee_byte e' page (off + k) = m (a + k)) \<and>
    (\<forall>j < off. \<forall>b. reg j = Some b \<longrightarrow> e' page j = b) \<and>
    (\<forall>p. p < page \<or> page + (off + Suc left * sz - 1) div 64 < p \<longrightarrow> e' p = e p)"
proof (induction left arbitrary: off page a reg e)
  case 0
  have fits: "off + sz \<le> 64"
    using 0(1,2) sz(2) by (metis dvd_add_right_iff dvd_diff_nat dvd_imp_le le_diff_conv2 less_imp_le_nat zero_less_diff add.commute)
  then have e': "e' = e(page := prog (e page) (put_bytes off sz a m reg))"
    using 0 by (simp add: Let_def fun_upd_def)
  have "ee_byte e' page (off + k) = m (a + k)" if "k < sz" for k
    using that fits prog by (simp add: ee_byte_def e' programs_written_def put_bytes_def)
  moreover have "e' page j = b" if "j < off" "reg j = Some b" for j b
    using that prog by (simp add: e' programs_written_def put_bytes_def)
  moreover have "e' p = e p" if "p \<noteq> page" for p using that by (simp add: e')
  ultimately show ?case by simp
next
  case (Suc left)
  let ?reg = "put_bytes off sz a m reg"
  have fits: "off + sz \<le> 64"
    using Suc.prems(1,2) sz(2) by (metis dvd_add_right_iff dvd_diff_nat dvd_imp_le le_diff_conv2 less_imp_le_nat zero_less_diff add.commute)
  show ?case
  proof (cases "off + sz = 64")
    case True
    let ?e = "e(page := prog (e page) ?reg)"
    have last: "(off + Suc (Suc left) * sz - 1) div 64 = Suc ((0 + Suc left * sz - 1) div 64)"
    proof -
      have "off + Suc (Suc left) * sz - 1 = (0 + Suc left * sz - 1) + 64" using True sz(1) by simp
      then show ?thesis by simp
    qed
    then have "page + 1 \<le> 62" using Suc.prems(3) by simp
    then have e': "e' = EEPROM_Write_loop prog sz (Suc left) 0 (page + 1) (a + sz) m Map.empty ?e"
      using Suc.prems(4) True by (subst (asm) EEPROM_Write_loop.simps(2)) (simp add: Let_def EEPROM_PAGE_SIZE_def EEPROM_PAGE_NUM_def
        del: EEPROM_Write_loop.simps)
    have IH: "(\<forall>k < Suc left * sz. ee_byte e' (page + 1) (0 + k) = m (a + sz + k)) \<and>
      (\<forall>j < 0. \<forall>b. Map.empty j = Some b \<longrightarrow> e' (page + 1) j = b) \<and>
      (\<forall>p. p < page + 1 \<or> page + 1 + (0 + Suc left * sz - 1) div 64 < p \<longrightarrow> e' p = ?e p)"
      by (rule Suc.IH[OF _ _ _ e']) (use last Suc.prems(3) in auto)
    have "e' page = prog (e page) ?reg" using IH by simp
    then have here: "e' page j = b" if "?reg j = Some b" for j b
      using that prog by (simp add: programs_written_def)
    have "ee_byte e' page (off + k) = m (a + k)" if "k < Suc (Suc left) * sz" for k
    proof (cases "k < sz")
      case True
      then show ?thesis using fits here by (simp add: ee_byte_def put_bytes_def)
    next
      case False
      then obtain k' where k': "k = sz + k'" using le_Suc_ex not_less by blast
      have "ee_byte e' (page + 1) k' = m (a + sz + k')" using IH that k' by simp
      then show ?thesis using ee_byte_next[OF \<open>off + sz = 64\<close>] by (simp add: k' add.assoc)
    qed
    moreover have "e' page j = b" if "j < off" "reg j = Some b" for j b
      using that here by (simp add: put_bytes_def)
    moreover have "e' p = e p" if "p < page \<or> page + (off + Suc (Suc left) * sz - 1) div 64 < p" for p
      using that IH unfolding last by auto
    ultimately show ?thesis by blast
  next
    case False
    have last: "off + sz + Suc left * sz - 1 = off + Suc (Suc left) * sz - 1" by simp
    have e': "e' = EEPROM_Write_loop prog sz (Suc left) (off + sz) page (a + sz) m ?reg e"
      using Suc.prems(4) False fits
      by (subst (asm) EEPROM_Write_loop.simps(2)) (simp add: Let_def EEPROM_PAGE_SIZE_def del: EEPROM_Write_loop.simps)
    have IH: "(\<forall>k < Suc left * sz. ee_byte e' page (off + sz + k) = m (a + sz + k)) \<and>
      (\<forall>j < off + sz. \<forall>b. ?reg j = Some b \<longrightarrow> e' page j = b) \<and>
      (\<forall>p. p < page \<or> page + (off + sz + Suc left * sz - 1) div 64 < p \<longrightarrow> e' p = e p)"
      by (rule Suc.IH[OF _ _ _ e']) (use False fits Suc.prems(2,3) last in auto)
    have "ee_byte e' page (off + k) = m (a + k)" if "k < Suc (Suc left) * sz" for k
    proof (cases "k < sz")
      case True
      then have "?reg (off + k) = Some (m (a + k))" by (simp add: put_bytes_def)
      then show ?thesis using IH True fits False by (simp add: ee_byte_def)
    next
      case False
      then obtain k' where k': "k = sz + k'" using le_Suc_ex not_less by blast
      then show ?thesis using IH that by (simp add: add.assoc)
    qed
    moreover have "e' page j = b" if "j < off" "reg j = Some b" for j b
      using that IH by (simp add: put_bytes_def)
    ultimately show ?thesis using IH last by simp
  qed
qed

lemma write_block:
  assumes "programs_written prog" "0 < n" "page + (n * mode_bytes mode - 1) div 64 \<le> 62"
    "EEPROM_Write prog 0 page a mode n m e = Some e'"
  shows "\<forall>k < n * mode_bytes mode. ee_byte e' page k = m (a + k)"
    "\<forall>p. p < page \<or> page + (n * mode_bytes mode - 1) div 64 < p \<longrightarrow> e' p = e p"
proof -
  have sz: "0 < mode_bytes mode" "mode_bytes mode dvd 64" by (cases mode; simp add: mode_bytes_def)+
  obtain l where l: "n = Suc l" using assms(2) gr0_implies_Suc by blast
  have "e' = EEPROM_Write_loop prog (mode_bytes mode) (Suc l) 0 page a m Map.empty e"
    using assms(4) by (simp add: EEPROM_Write_def l del: EEPROM_Write_loop.simps)
  from write_loop_block[OF assms(1) sz _ _ _ this]
  show "\<forall>k < n * mode_bytes mode. ee_byte e' page k = m (a + k)"
    "\<forall>p. p < page \<or> page + (n * mode_bytes mode - 1) div 64 < p \<longrightarrow> e' p = e p"
    using assms(3) by (simp_all add: l)
qed

lemma read_loop_block:
  assumes sz: "0 < sz" "sz dvd 64"
  shows "off < 64 \<Longrightarrow> sz dvd off \<Longrightarrow> page + (off + Suc left * sz - 1) div 64 < 64 \<Longrightarrow>
    EEPROM_Read_loop sz (Suc left) off page a e m =
      (\<lambda>x. if a \<le> x \<and> x < a + Suc left * sz then ee_byte e page (off + (x - a)) else m x)"
proof (induction left arbitrary: off page a m)
  case 0
  have fits: "off + sz \<le> 64"
    using 0(1,2) sz(2) by (metis dvd_add_right_iff dvd_diff_nat dvd_imp_le le_diff_conv2 less_imp_le_nat zero_less_diff add.commute)
  show ?case using 0 fits by (auto simp: Let_def ee_byte_def fun_eq_iff)
next
  case (Suc left)
  let ?m = "\<lambda>x. if a \<le> x \<and> x < a + sz then e (page mod 64) (off + (x - a)) else m x"
  have fits: "off + sz \<le> 64"
    using Suc.prems(1,2) sz(2) by (metis dvd_add_right_iff dvd_diff_nat dvd_imp_le le_diff_conv2 less_imp_le_nat zero_less_diff add.commute)
  have here: "page mod 64 = page" using Suc.prems(3) by simp
  have byte: "e (page mod 64) (off + (x - a)) = ee_byte e page (off + (x - a))" if "a \<le> x" "x < a + sz" for x
    using that fits here by (simp add: ee_byte_def)
  show ?case
  proof (cases "off + sz = 64")
    case True
    have last: "(off + Suc (Suc left) * sz - 1) div 64 = Suc ((0 + Suc left * sz - 1) div 64)"
    proof -
      have "off + Suc (Suc left) * sz - 1 = (0 + Suc left * sz - 1) + 64" using True sz(1) by simp
      then show ?thesis by simp
    qed
    have "EEPROM_Read_loop sz (Suc (Suc left)) off page a e m = EEPROM_Read_loop sz (Suc left) 0 (page + 1) (a + sz) e ?m"
      using True by (subst EEPROM_Read_loop.simps(2)) (simp add: Let_def EEPROM_PAGE_SIZE_def del: EEPROM_Read_loop.simps)
    also have "\<dots> = (\<lambda>x. if a + sz \<le> x \<and> x < a + sz + Suc left * sz then ee_byte e (page + 1) (0 + (x - (a + sz))) else ?m x)"
      by (rule Suc.IH) (use last Suc.prems(3) in auto)
    also have "\<dots> = (\<lambda>x. if a \<le> x \<and> x < a + Suc (Suc left) * sz then ee_byte e page (off + (x - a)) else m x)"
    proof (rule ext)
      fix x
      show "(if a + sz \<le> x \<and> x < a + sz + Suc left * sz then ee_byte e (page + 1) (0 + (x - (a + sz))) else ?m x) =
          (if a \<le> x \<and> x < a + Suc (Suc left) * sz then ee_byte e page (off + (x - a)) else m x)"
      proof (cases "a + sz \<le> x")
        case over: True
        then obtain y where "x = a + sz + y" using le_Suc_ex by blast
        then show ?thesis using ee_byte_next[OF True] by (auto simp: add.assoc)
      qed (use byte in auto)
    qed
    finally show ?thesis .
  next
    case False
    have "EEPROM_Read_loop sz (Suc (Suc left)) off page a e m = EEPROM_Read_loop sz (Suc left) (off + sz) page (a + sz) e ?m"
      using False fits by (subst EEPROM_Read_loop.simps(2)) (simp add: Let_def EEPROM_PAGE_SIZE_def del: EEPROM_Read_loop.simps)
    also have "\<dots> = (\<lambda>x. if a + sz \<le> x \<and> x < a + sz + Suc left * sz then ee_byte e page (off + sz + (x - (a + sz))) else ?m x)"
      by (rule Suc.IH) (use False fits Suc.prems(2,3) in \<open>auto simp: add.assoc\<close>)
    also have "\<dots> = (\<lambda>x. if a \<le> x \<and> x < a + Suc (Suc left) * sz then ee_byte e page (off + (x - a)) else m x)"
    proof (rule ext)
      fix x
      show "(if a + sz \<le> x \<and> x < a + sz + Suc left * sz then ee_byte e page (off + sz + (x - (a + sz))) else ?m x) =
          (if a \<le> x \<and> x < a + Suc (Suc left) * sz then ee_byte e page (off + (x - a)) else m x)"
      proof (cases "a + sz \<le> x")
        case over: True
        then obtain y where "x = a + sz + y" using le_Suc_ex by blast
        then show ?thesis by (auto simp: add.assoc)
      qed (use byte in auto)
    qed
    finally show ?thesis .
  qed
qed

lemma read_block:
  assumes "0 < n" "page + (n * mode_bytes mode - 1) div 64 < 64"
  shows "EEPROM_Read 0 page a mode n e m =
    (\<lambda>x. if a \<le> x \<and> x < a + n * mode_bytes mode then ee_byte e page (x - a) else m x)"
proof -
  have sz: "0 < mode_bytes mode" "mode_bytes mode dvd 64" by (cases mode; simp add: mode_bytes_def)+
  obtain l where l: "n = Suc l" using assms(1) gr0_implies_Suc by blast
  show ?thesis
    using read_loop_block[OF sz, of 0 page l a e m] assms(2) by (auto simp: EEPROM_Read_def l fun_eq_iff simp del: EEPROM_Read_loop.simps)
qed

section \<open>Layout\<close>

definition in_buf :: "layout \<Rightarrow> eEEPROMDataType \<Rightarrow> nat \<Rightarrow> bool" where
  "in_buf L ty x \<longleftrightarrow> DataBuf L ty \<le> x \<and> x < DataBuf L ty + SAVE_SIZE ty"

text \<open>What reading the type really fills: its size in bytes is taken for a number of elements.\<close>

definition in_window :: "layout \<Rightarrow> eEEPROMDataType \<Rightarrow> nat \<Rightarrow> bool" where
  "in_window L ty x \<longleftrightarrow> DataBuf L ty \<le> x \<and> x < DataBuf L ty + SAVE_SIZE ty * data_size ty"

definition in_var :: "eEEPROMDataType \<Rightarrow> nat \<Rightarrow> nat \<Rightarrow> bool" where
  "in_var ty p x \<longleftrightarrow> p \<le> x \<and> x < p + data_size ty"

text \<open>
  The variables registered do not overlap each other nor the windows; the buffers do not overlap, and a
  buffer is not inside the window of a type read later. A linker that lays the buffers out in their order, with
  nothing else of the module behind them, does this.
\<close>

definition layout_ok :: "layout \<Rightarrow> (eEEPROMDataType \<Rightarrow> nat list) \<Rightarrow> bool" where
  "layout_ok L ps \<longleftrightarrow>
     (\<forall>ty. length (ps ty) \<le> SAVE_COUNT ty \<and> distinct (ps ty)) \<and>
     (\<forall>ty ty' x. ty \<noteq> ty' \<longrightarrow> in_buf L ty x \<longrightarrow> \<not> in_buf L ty' x) \<and>
     (\<forall>ty ty' x. PAGE_ADDR ty < PAGE_ADDR ty' \<longrightarrow> in_buf L ty x \<longrightarrow> \<not> in_window L ty' x) \<and>
     (\<forall>ty ty' p x. p \<in> set (ps ty) \<longrightarrow> in_var ty p x \<longrightarrow> \<not> in_window L ty' x) \<and>
     (\<forall>ty ty' p p' x. p \<in> set (ps ty) \<longrightarrow> p' \<in> set (ps ty') \<longrightarrow> (ty, p) \<noteq> (ty', p') \<longrightarrow>
        in_var ty p x \<longrightarrow> \<not> in_var ty' p' x)"

lemma sizes: "0 < data_size ty" "0 < SAVE_SIZE ty" "SAVE_SIZE ty \<le> SAVE_SIZE ty * data_size ty"
  "0 < WRITE_SIZE ty" "SAVE_SIZE ty \<le> WRITE_SIZE ty"
  by (cases ty; simp add: mode_bytes_def data_mode_def SAVE_SIZE_def SAVE_COUNT_def WRITE_SIZE_def)+

lemma buf_in_window: "in_buf L ty x \<Longrightarrow> in_window L ty x"
  unfolding in_buf_def in_window_def by (meson add_left_mono order_less_le_trans sizes(3))

lemma slot_in_buf: "i < SAVE_COUNT ty \<Longrightarrow> k < data_size ty \<Longrightarrow> in_buf L ty (slot L ty i + k)"
proof -
  assume "i < SAVE_COUNT ty" "k < data_size ty"
  then have "i * data_size ty + k < Suc i * data_size ty" "Suc i * data_size ty \<le> SAVE_COUNT ty * data_size ty"
    by (simp, intro mult_le_mono1) simp
  then show ?thesis by (simp add: in_buf_def slot_def SAVE_SIZE_def)
qed

lemma layoutD:
  assumes "layout_ok L ps"
  shows "length (ps ty) \<le> SAVE_COUNT ty"
    and "ty \<noteq> ty' \<Longrightarrow> in_buf L ty x \<Longrightarrow> \<not> in_buf L ty' x"
    and "PAGE_ADDR ty < PAGE_ADDR ty' \<Longrightarrow> in_buf L ty x \<Longrightarrow> \<not> in_window L ty' x"
    and "p \<in> set (ps ty) \<Longrightarrow> in_var ty p x \<Longrightarrow> \<not> in_window L ty' x"
    and "p \<in> set (ps ty) \<Longrightarrow> in_var ty p x \<Longrightarrow> \<not> in_buf L ty' x"
    and "p \<in> set (ps ty) \<Longrightarrow> p' \<in> set (ps ty') \<Longrightarrow> (ty, p) \<noteq> (ty', p') \<Longrightarrow> in_var ty p x \<Longrightarrow> \<not> in_var ty' p' x"
    and "distinct (ps ty)"
  using assms buf_in_window unfolding layout_ok_def by blast+

section \<open>Saving one type\<close>

lemma copy_bytes_simps:
  "dst \<le> x \<Longrightarrow> x < dst + n \<Longrightarrow> copy_bytes n dst src m x = m (src + (x - dst))"
  "x < dst \<or> dst + n \<le> x \<Longrightarrow> copy_bytes n dst src m x = m x"
  by (auto simp: copy_bytes_def)

definition apart_from_buf :: "layout \<Rightarrow> eEEPROMDataType \<Rightarrow> nat list \<Rightarrow> bool" where
  "apart_from_buf L ty ps \<longleftrightarrow> (\<forall>p \<in> set ps. \<forall>x. in_var ty p x \<longrightarrow> \<not> in_buf L ty x)"

text \<open>Bringing the buffer up to date from entry \<open>i\<close> on.\<close>

lemma slots_differ: "i < j \<Longrightarrow> slot L ty i + data_size ty \<le> slot L ty j"
proof -
  assume "i < j"
  then have "Suc i * data_size ty \<le> j * data_size ty" by (intro mult_le_mono1) simp
  then show ?thesis by (simp add: slot_def)
qed

lemma xDataChanged_spec:
  assumes "apart_from_buf L ty ps" "i + length ps \<le> SAVE_COUNT ty" "xDataChanged L ty i ps m = (c, m')"
  shows "(\<forall>x. x < slot L ty i \<or> \<not> in_buf L ty x \<longrightarrow> m' x = m x) \<and>
    (\<forall>j < length ps. same_bytes (data_size ty) (slot L ty (i + j)) (ps ! j) m') \<and> (\<not> c \<longrightarrow> m' = m)"
  using assms
proof (induction ps arbitrary: i m c m')
  case (Cons p ps)
  let ?m = "copy_bytes (data_size ty) (slot L ty i) p m"
  let ?same = "same_bytes (data_size ty) (slot L ty i) p m"
  define m1 where "m1 = (if ?same then m else ?m)"
  obtain c1 where rest: "xDataChanged L ty (i + 1) ps m1 = (c1, m')" and c: "\<not> c \<longrightarrow> ?same \<and> \<not> c1"
    using Cons.prems(3) by (cases "xDataChanged L ty (i + 1) ps m1") (auto simp: m1_def split: if_splits)
  have i: "i < SAVE_COUNT ty" using Cons.prems(2) by simp
  have p: "\<not> in_buf L ty (p + k)" if "k < data_size ty" for k
    using Cons.prems(1) that by (auto simp: apart_from_buf_def in_var_def)
  have IH: "(\<forall>x. x < slot L ty (i + 1) \<or> \<not> in_buf L ty x \<longrightarrow> m' x = m1 x) \<and>
      (\<forall>j < length ps. same_bytes (data_size ty) (slot L ty (i + 1 + j)) (ps ! j) m') \<and> (\<not> c1 \<longrightarrow> m' = m1)"
    by (rule Cons.IH[OF _ _ rest]) (use Cons.prems in \<open>auto simp: apart_from_buf_def\<close>)
  have m1: "m1 x = m x" if "x < slot L ty i \<or> \<not> in_buf L ty x" for x
  proof -
    have "x < slot L ty i \<or> slot L ty i + data_size ty \<le> x"
      using that slot_in_buf[OF i, of _ L] by (metis le_Suc_ex less_diff_conv2 nat_le_linear not_less add_diff_cancel_left' add_less_cancel_left)
    then show ?thesis by (auto simp: m1_def copy_bytes_def)
  qed
  have fresh: "same_bytes (data_size ty) (slot L ty i) p m1"
  proof (cases ?same)
    case False
    have "m1 (slot L ty i + k) = m (p + k)" if "k < data_size ty" for k
      using that False by (simp add: m1_def copy_bytes_def)
    then show ?thesis using m1 p by (simp add: same_bytes_def)
  qed (simp add: m1_def)
  have "m' (slot L ty i + k) = m1 (slot L ty i + k)" "m' (p + k) = m1 (p + k)" if "k < data_size ty" for k
    using IH p[OF that] slots_differ[of i "i + 1" L ty] that by auto
  then have head: "same_bytes (data_size ty) (slot L ty i) p m'"
    using fresh by (simp add: same_bytes_def)
  have "same_bytes (data_size ty) (slot L ty (i + j)) ((p # ps) ! j) m'" if "j < Suc (length ps)" for j
    using that head IH by (cases j) simp_all
  moreover have "m' x = m x" if "x < slot L ty i \<or> \<not> in_buf L ty x" for x
    using that IH m1 slots_differ[of i "i + 1" L ty] by auto
  moreover have "m' = m" if "\<not> c" using that c IH by (simp add: m1_def)
  ultimately show ?case by auto
qed auto

definition last_page :: "eEEPROMDataType \<Rightarrow> nat" where
  "last_page ty = PAGE_ADDR ty + (WRITE_SIZE ty * data_size ty - 1) div 64"

lemma pages_fit: "last_page ty \<le> 62"
  by (cases ty) (simp_all add: last_page_def PAGE_ADDR_def WRITE_SIZE_def SAVE_SIZE_def SAVE_COUNT_def data_mode_def mode_bytes_def)

lemma write_pages_ok:
  assumes "programs_written prog"
  shows "\<exists>e. write_pages prog L ty (WRITE_SIZE ty) s = Some (s\<lparr>ee_pages := e\<rparr>) \<and>
    (\<forall>k < SAVE_SIZE ty * data_size ty. ee_byte e (PAGE_ADDR ty) k = ee_ram s (DataBuf L ty + k)) \<and>
    (\<forall>p. p < PAGE_ADDR ty \<or> last_page ty < p \<longrightarrow> e p = ee_pages s p)"
proof -
  obtain e where e: "EEPROM_Write prog 0 (PAGE_ADDR ty) (DataBuf L ty) (data_mode ty) (WRITE_SIZE ty) (ee_ram s) (ee_pages s) = Some e"
    by (simp add: EEPROM_Write_def)
  note block = write_block[OF assms sizes(4) pages_fit[unfolded last_page_def] e]
  have "ee_byte e (PAGE_ADDR ty) k = ee_ram s (DataBuf L ty + k)" if "k < SAVE_SIZE ty * data_size ty" for k
    using that block(1) sizes(5)[of ty] by (metis mult_le_mono1 order_less_le_trans)
  then show ?thesis using block(2) e unfolding last_page_def by (auto simp: write_pages_def)
qed

text \<open>What a pass does to one type, and what it leaves alone.\<close>

lemma write_type_spec:
  assumes prog: "programs_written prog" and L: "layout_ok L (pDataBuf s)"
  shows "\<exists>t. write_type prog L ty s = Some t \<and> pDataBuf t = pDataBuf s \<and>
    (\<forall>x. \<not> in_buf L ty x \<longrightarrow> ee_ram t x = ee_ram s x) \<and>
    (\<forall>j < length (pDataBuf s ty). same_bytes (data_size ty) (slot L ty j) (pDataBuf s ty ! j) (ee_ram t)) \<and>
    (\<forall>ty'. ty' \<noteq> ty \<longrightarrow> ChangedTimes t ty' = ChangedTimes s ty') \<and>
    (\<forall>p. p < PAGE_ADDR ty \<or> last_page ty < p \<longrightarrow> ee_pages t p = ee_pages s p) \<and>
    (if \<not> fst (xDataChanged L ty 0 (pDataBuf s ty) (ee_ram s)) then t = s
     else WRITE_INTV ty = 1 \<longrightarrow> ChangedTimes s ty = 0 \<longrightarrow> ChangedTimes t ty = 0 \<and>
       (\<forall>k < SAVE_SIZE ty * data_size ty. ee_byte (ee_pages t) (PAGE_ADDR ty) k = ee_ram t (DataBuf L ty + k)))"
proof -
  obtain c m where x: "xDataChanged L ty 0 (pDataBuf s ty) (ee_ram s) = (c, m)" by fastforce
  have "apart_from_buf L ty (pDataBuf s ty)" using layoutD(5)[OF L] by (auto simp: apart_from_buf_def)
  from xDataChanged_spec[OF this _ x] layoutD(1)[OF L, of ty]
  have m: "\<forall>y. \<not> in_buf L ty y \<longrightarrow> m y = ee_ram s y" "\<not> c \<longrightarrow> m = ee_ram s"
    "\<forall>j < length (pDataBuf s ty). same_bytes (data_size ty) (slot L ty j) (pDataBuf s ty ! j) m"
    by simp_all
  let ?s = "s\<lparr>ee_ram := m\<rparr>"
  obtain e where e: "write_pages prog L ty (WRITE_SIZE ty) ?s = Some (?s\<lparr>ee_pages := e\<rparr>)"
    "\<forall>k < SAVE_SIZE ty * data_size ty. ee_byte e (PAGE_ADDR ty) k = m (DataBuf L ty + k)"
    "\<forall>p. p < PAGE_ADDR ty \<or> last_page ty < p \<longrightarrow> e p = ee_pages s p"
    using write_pages_ok[OF prog, of L ty ?s] by auto
  show ?thesis
  proof (cases c)
    case False
    then show ?thesis using m x by (intro exI[of _ s]) (simp add: write_type_def)
  next
    case True
    show ?thesis
    proof (cases "ChangedTimes s ty + 1 \<ge> WRITE_INTV ty")
      case due: True
      then show ?thesis
        using m x e True
        by (intro exI[of _ "s\<lparr>ee_ram := m, ee_pages := e, ChangedTimes := (ChangedTimes s)(ty := 0)\<rparr>"])
          (simp add: write_type_def)
    next
      case False
      then have "\<not> (WRITE_INTV ty = 1 \<and> ChangedTimes s ty = 0)" by auto
      then show ?thesis
        using m x True False
        by (intro exI[of _ "s\<lparr>ee_ram := m, ChangedTimes := (ChangedTimes s)(ty := ChangedTimes s ty + 1)\<rparr>"])
          (auto simp: write_type_def)
    qed
  qed
qed

section \<open>A pass over all types\<close>

text \<open>The types whose pages no other type writes.\<close>

definition own_pages :: "eEEPROMDataType \<Rightarrow> bool" where
  "own_pages ty \<longleftrightarrow> ty \<in> {TYPE_UINT_8, TYPE_INT_8, TYPE_UINT_16, TYPE_UINT_32, TYPE_INT_32}"

text \<open>The EEPROM holds the buffer of the type; the buffer holds the variables.\<close>

definition stored :: "layout \<Rightarrow> eEEPROMDataType \<Rightarrow> eeprom \<Rightarrow> bool" where
  "stored L ty s \<longleftrightarrow> ChangedTimes s ty = 0 \<and>
     (\<forall>k < SAVE_SIZE ty. ee_byte (ee_pages s) (PAGE_ADDR ty) k = ee_ram s (DataBuf L ty + k))"

definition buffered :: "layout \<Rightarrow> eEEPROMDataType \<Rightarrow> eeprom \<Rightarrow> bool" where
  "buffered L ty s \<longleftrightarrow> (\<forall>j < length (pDataBuf s ty). same_bytes (data_size ty) (slot L ty j) (pDataBuf s ty ! j) (ee_ram s))"

lemma own_page_untouched:
  assumes "own_pages ty" "ty' \<noteq> ty" "k < SAVE_SIZE ty"
  shows "PAGE_ADDR ty + k div 64 < PAGE_ADDR ty' \<or> last_page ty' < PAGE_ADDR ty + k div 64"
proof -
  have "k div 64 \<le> (SAVE_SIZE ty - 1) div 64" using assms(3) by (intro div_le_mono) simp
  then show ?thesis
    using assms(1,2)
    by (cases ty; cases ty'; simp add: own_pages_def last_page_def PAGE_ADDR_def WRITE_SIZE_def SAVE_SIZE_def SAVE_COUNT_def
        data_mode_def mode_bytes_def)
qed

lemma write_type_self:
  assumes "programs_written prog" "layout_ok L (pDataBuf s)" "own_pages ty" "stored L ty s" "write_type prog L ty s = Some t"
  shows "stored L ty t" "buffered L ty t"
proof -
  note w = write_type_spec[OF assms(1,2), of ty]
  have intv: "WRITE_INTV ty = 1" using assms(3) by (auto simp: own_pages_def WRITE_INTV_def)
  show "buffered L ty t" using w assms(5) by (auto simp: buffered_def)
  show "stored L ty t"
  proof (cases "fst (xDataChanged L ty 0 (pDataBuf s ty) (ee_ram s))")
    case True
    then have "ChangedTimes t ty = 0 \<and>
       (\<forall>k < SAVE_SIZE ty * data_size ty. ee_byte (ee_pages t) (PAGE_ADDR ty) k = ee_ram t (DataBuf L ty + k))"
      using w assms(4,5) intv by (auto simp: stored_def)
    then show ?thesis unfolding stored_def using sizes(3)[of ty] order_less_le_trans by blast
  next
    case False
    then have "t = s" using w assms(5) by auto
    then show ?thesis using assms(4) by simp
  qed
qed

lemma write_type_other:
  assumes "programs_written prog" "layout_ok L (pDataBuf s)" "ty' \<noteq> ty" "write_type prog L ty' s = Some t"
  shows "own_pages ty \<Longrightarrow> stored L ty s \<Longrightarrow> stored L ty t" "buffered L ty s \<Longrightarrow> buffered L ty t"
proof -
  note w = write_type_spec[OF assms(1,2), of ty']
  have ram: "ee_ram t x = ee_ram s x" if "\<not> in_buf L ty' x" for x using w assms(4) that by auto
  have buf: "ee_ram t x = ee_ram s x" if "in_buf L ty x" for x
    using ram layoutD(2)[OF assms(2) assms(3)] that by blast
  show "stored L ty t" if own: "own_pages ty" "stored L ty s"
  proof -
    have "ee_byte (ee_pages t) (PAGE_ADDR ty) k = ee_byte (ee_pages s) (PAGE_ADDR ty) k" if "k < SAVE_SIZE ty" for k
      using w assms(4) own_page_untouched[OF own(1) assms(3) that] by (auto simp: ee_byte_def)
    then show ?thesis
      using own(2) w assms(3,4) buf by (auto simp: stored_def in_buf_def)
  qed
  show "buffered L ty t" if b: "buffered L ty s"
    unfolding buffered_def
  proof (intro allI impI)
    fix j assume j: "j < length (pDataBuf t ty)"
    have ps: "pDataBuf t = pDataBuf s" using w assms(4) by auto
    then have p: "pDataBuf s ty ! j \<in> set (pDataBuf s ty)" and js: "j < SAVE_COUNT ty"
      using j layoutD(1)[OF assms(2), of ty] by auto
    have "same_bytes (data_size ty) (slot L ty j) (pDataBuf s ty ! j) (ee_ram s)"
      using b j ps by (simp add: buffered_def)
    moreover have "ee_ram t (slot L ty j + k) = ee_ram s (slot L ty j + k)" if "k < data_size ty" for k
      using buf slot_in_buf[OF js that] by simp
    moreover have "ee_ram t (pDataBuf s ty ! j + k) = ee_ram s (pDataBuf s ty ! j + k)" if "k < data_size ty" for k
      using ram layoutD(5)[OF assms(2) p, of "pDataBuf s ty ! j + k"] that by (simp add: in_var_def)
    ultimately show "same_bytes (data_size ty) (slot L ty j) (pDataBuf t ty ! j) (ee_ram t)"
      by (simp add: same_bytes_def ps)
  qed
qed

lemma write_types_total:
  assumes "programs_written prog" "layout_ok L (pDataBuf s)"
  shows "\<exists>t. write_types prog L tys s = Some t \<and> pDataBuf t = pDataBuf s \<and>
    (\<forall>x. (\<forall>ty \<in> set tys. \<not> in_buf L ty x) \<longrightarrow> ee_ram t x = ee_ram s x) \<and>
    (\<forall>p. (\<forall>ty \<in> set tys. p < PAGE_ADDR ty \<or> last_page ty < p) \<longrightarrow> ee_pages t p = ee_pages s p)"
  using assms(2)
proof (induction tys arbitrary: s)
  case (Cons ty tys)
  obtain u where u: "write_type prog L ty s = Some u" "pDataBuf u = pDataBuf s"
      "\<forall>x. \<not> in_buf L ty x \<longrightarrow> ee_ram u x = ee_ram s x"
      "\<forall>p. p < PAGE_ADDR ty \<or> last_page ty < p \<longrightarrow> ee_pages u p = ee_pages s p"
    using write_type_spec[OF assms(1) Cons.prems, of ty] by blast
  then show ?case using Cons.IH[of u] Cons.prems by auto
qed simp

lemma write_types_keep:
  assumes "programs_written prog"
  shows "layout_ok L (pDataBuf s) \<Longrightarrow> write_types prog L tys s = Some t \<Longrightarrow> ty \<notin> set tys \<Longrightarrow>
    (own_pages ty \<longrightarrow> stored L ty s \<longrightarrow> stored L ty t) \<and> (buffered L ty s \<longrightarrow> buffered L ty t)"
proof (induction tys arbitrary: s)
  case (Cons ty' tys)
  obtain u where u: "write_type prog L ty' s = Some u" "pDataBuf u = pDataBuf s"
    using write_type_spec[OF assms Cons.prems(1), of ty'] by blast
  have rest: "write_types prog L tys u = Some t" "layout_ok L (pDataBuf u)" "ty' \<noteq> ty" "ty \<notin> set tys"
    using Cons.prems u by auto
  show ?case
    using Cons.IH[OF rest(2,1,4)] write_type_other[OF assms Cons.prems(1) rest(3) u(1)] by blast
qed simp

lemma write_types_append:
  "write_types prog L (xs @ ys) s = Option.bind (write_types prog L xs s) (write_types prog L ys)"
proof (induction xs arbitrary: s)
  case (Cons x xs)
  then show ?case by (cases "write_type prog L x s") simp_all
qed simp

lemma write_types_stores:
  assumes "programs_written prog" "layout_ok L (pDataBuf s)" "own_pages ty" "stored L ty s"
    "write_types prog L (xs @ ty # ys) s = Some t" "ty \<notin> set xs" "ty \<notin> set ys"
  shows "stored L ty t" "buffered L ty t"
proof -
  obtain u where u: "write_types prog L xs s = Some u" "pDataBuf u = pDataBuf s"
    using write_types_total[OF assms(1,2)] by blast
  obtain v where v: "write_type prog L ty u = Some v" "pDataBuf v = pDataBuf s"
    using write_type_spec[OF assms(1), of L u ty] assms(2) u(2) by auto
  have t: "write_types prog L ys v = Some t" using assms(5) u v by (simp add: write_types_append)
  have L: "layout_ok L (pDataBuf u)" "layout_ok L (pDataBuf v)" using assms(2) u v by simp_all
  have "stored L ty u" using write_types_keep[OF assms(1,2) u(1) assms(6)] assms(3,4) by blast
  then have "stored L ty v" "buffered L ty v" using write_type_self[OF assms(1) L(1) assms(3) _ v(1)] by blast+
  then show "stored L ty t" "buffered L ty t"
    using write_types_keep[OF assms(1) L(2) t assms(7)] assms(3) by blast+
qed

lemma split_types: "\<exists>xs ys. all_types = xs @ ty # ys \<and> ty \<notin> set xs \<and> ty \<notin> set ys \<and> (\<forall>y \<in> set ys. PAGE_ADDR ty < PAGE_ADDR y)"
proof -
  have "ty \<in> set all_types" by (cases ty) (simp_all add: all_types_def)
  then obtain xs ys where s: "all_types = xs @ ty # ys" using split_list by fastforce
  have "sorted_wrt (\<lambda>a b. PAGE_ADDR a < PAGE_ADDR b) all_types" by (simp add: all_types_def PAGE_ADDR_def)
  then have "sorted_wrt (\<lambda>a b. PAGE_ADDR a < PAGE_ADDR b) (xs @ ty # ys)" using s by simp
  then have "ty \<notin> set xs" "ty \<notin> set ys" "\<forall>y \<in> set ys. PAGE_ADDR ty < PAGE_ADDR y"
    by (auto simp: sorted_wrt_append)
  with s show ?thesis by blast
qed

section \<open>Reading everything back\<close>

lemma read_type_eq:
  "read_type L ty s = (if pDataBuf s ty = [] then s
     else s\<lparr>ee_ram := (\<lambda>x. if in_window L ty x then ee_byte (ee_pages s) (PAGE_ADDR ty) (x - DataBuf L ty) else ee_ram s x)\<rparr>)"
proof -
  have "PAGE_ADDR ty + (SAVE_SIZE ty * data_size ty - 1) div 64 < 64"
    by (cases ty) (simp_all add: PAGE_ADDR_def SAVE_SIZE_def SAVE_COUNT_def data_mode_def mode_bytes_def)
  from read_block[OF sizes(2) this] show ?thesis
    by (simp add: read_type_def in_window_def)
qed

lemma read_types_same:
  "pDataBuf (fold (read_type L) tys s) = pDataBuf s" "ee_pages (fold (read_type L) tys s) = ee_pages s"
  "ChangedTimes (fold (read_type L) tys s) = ChangedTimes s"
  by (induction tys arbitrary: s) (simp_all add: read_type_def)

lemma read_types_buf:
  assumes "layout_ok L (pDataBuf s)" "pDataBuf s ty \<noteq> []" "k < SAVE_SIZE ty"
  shows "ee_ram (fold (read_type L) all_types s) (DataBuf L ty + k) = ee_byte (ee_pages s) (PAGE_ADDR ty) k"
proof -
  obtain xs ys where tys: "all_types = xs @ ty # ys" "\<forall>y \<in> set ys. PAGE_ADDR ty < PAGE_ADDR y"
    using split_types by metis
  let ?u = "read_type L ty (fold (read_type L) xs s)"
  have buf: "in_buf L ty (DataBuf L ty + k)" using assms(3) by (simp add: in_buf_def)
  have "ee_ram (fold (read_type L) ys v) (DataBuf L ty + k) = ee_ram v (DataBuf L ty + k)" for v
    using tys(2)
  proof (induction ys arbitrary: v)
    case (Cons y ys)
    have "\<not> in_window L y (DataBuf L ty + k)" using layoutD(3)[OF assms(1) _ buf] Cons.prems by simp
    then show ?case using Cons by (simp add: read_type_eq)
  qed simp
  moreover have "ee_ram ?u (DataBuf L ty + k) = ee_byte (ee_pages s) (PAGE_ADDR ty) k"
    using buf_in_window[OF buf] assms(2) by (simp add: read_type_eq read_types_same)
  ultimately show ?thesis by (simp add: tys(1))
qed

lemma restore_vars_spec:
  assumes "i + length ps \<le> SAVE_COUNT ty" "apart_from_buf L ty ps" "distinct ps"
    "\<forall>p \<in> set ps. \<forall>q \<in> set ps. p \<noteq> q \<longrightarrow> (\<forall>x. in_var ty p x \<longrightarrow> \<not> in_var ty q x)"
  shows "(\<forall>x. (\<forall>p \<in> set ps. \<not> in_var ty p x) \<longrightarrow> restore_vars L ty i ps m x = m x) \<and>
    (\<forall>j < length ps. \<forall>k < data_size ty. restore_vars L ty i ps m (ps ! j + k) = m (slot L ty (i + j) + k))"
  using assms
proof (induction ps arbitrary: i m)
  case (Cons p ps)
  let ?m = "copy_bytes (data_size ty) p (slot L ty i) m"
  have IH: "(\<forall>x. (\<forall>p \<in> set ps. \<not> in_var ty p x) \<longrightarrow> restore_vars L ty (i + 1) ps ?m x = ?m x) \<and>
    (\<forall>j < length ps. \<forall>k < data_size ty. restore_vars L ty (i + 1) ps ?m (ps ! j + k) = ?m (slot L ty (i + 1 + j) + k))"
    by (rule Cons.IH) (use Cons.prems in \<open>auto simp: apart_from_buf_def\<close>)
  have m: "?m x = m x" if "\<not> in_var ty p x" for x using that by (auto simp: in_var_def copy_bytes_def)
  have "restore_vars L ty i (p # ps) m x = m x" if "\<forall>q \<in> set (p # ps). \<not> in_var ty q x" for x
    using that IH m by simp
  moreover have "restore_vars L ty i (p # ps) m ((p # ps) ! j + k) = m (slot L ty (i + j) + k)"
    if j: "j < length (p # ps)" and k: "k < data_size ty" for j k
  proof (cases j)
    case 0
    have "in_var ty p (p + k)" using k by (simp add: in_var_def)
    then have "\<forall>q \<in> set ps. \<not> in_var ty q (p + k)" using Cons.prems(3,4) by auto
    then show ?thesis using IH 0 k by (simp add: copy_bytes_def)
  next
    case (Suc j')
    have "in_buf L ty (slot L ty (i + j) + k)" using Cons.prems(1) j k by (intro slot_in_buf) auto
    then have "\<not> in_var ty p (slot L ty (i + j) + k)" using Cons.prems(2) by (auto simp: apart_from_buf_def)
    then show ?thesis using IH Suc j k m by simp
  qed
  ultimately show ?case by blast
qed simp

lemma restore_type_spec:
  assumes "layout_ok L (pDataBuf s)"
  shows "pDataBuf (restore_type L ty s) = pDataBuf s" "ee_pages (restore_type L ty s) = ee_pages s"
    "ChangedTimes (restore_type L ty s) = ChangedTimes s"
    "(\<forall>p \<in> set (pDataBuf s ty). \<not> in_var ty p x) \<Longrightarrow> ee_ram (restore_type L ty s) x = ee_ram s x"
    "j < length (pDataBuf s ty) \<Longrightarrow> k < data_size ty \<Longrightarrow>
      ee_ram (restore_type L ty s) (pDataBuf s ty ! j + k) = ee_ram s (slot L ty j + k)"
proof -
  have "apart_from_buf L ty (pDataBuf s ty)" using layoutD(5)[OF assms] by (auto simp: apart_from_buf_def)
  moreover have "\<forall>p \<in> set (pDataBuf s ty). \<forall>q \<in> set (pDataBuf s ty). p \<noteq> q \<longrightarrow> (\<forall>x. in_var ty p x \<longrightarrow> \<not> in_var ty q x)"
    using layoutD(6)[OF assms, where ty' = ty] by blast
  ultimately have r: "(\<forall>x. (\<forall>p \<in> set (pDataBuf s ty). \<not> in_var ty p x) \<longrightarrow>
        restore_vars L ty 0 (pDataBuf s ty) (ee_ram s) x = ee_ram s x) \<and>
      (\<forall>j < length (pDataBuf s ty). \<forall>k < data_size ty.
        restore_vars L ty 0 (pDataBuf s ty) (ee_ram s) (pDataBuf s ty ! j + k) = ee_ram s (slot L ty (0 + j) + k))"
    using layoutD(1,7)[OF assms, of ty] by (intro restore_vars_spec) simp_all
  then show "(\<forall>p \<in> set (pDataBuf s ty). \<not> in_var ty p x) \<Longrightarrow> ee_ram (restore_type L ty s) x = ee_ram s x"
    "j < length (pDataBuf s ty) \<Longrightarrow> k < data_size ty \<Longrightarrow>
      ee_ram (restore_type L ty s) (pDataBuf s ty ! j + k) = ee_ram s (slot L ty j + k)"
    by (simp_all add: restore_type_def)
qed (simp_all add: restore_type_def)

lemma restore_types_same:
  "pDataBuf (fold (restore_type L) tys s) = pDataBuf s" "ee_pages (fold (restore_type L) tys s) = ee_pages s"
  "ChangedTimes (fold (restore_type L) tys s) = ChangedTimes s"
  by (induction tys arbitrary: s) (simp_all add: restore_type_def)

lemma restore_types_outside:
  "layout_ok L (pDataBuf s) \<Longrightarrow> (\<forall>ty \<in> set tys. \<forall>p \<in> set (pDataBuf s ty). \<not> in_var ty p x) \<Longrightarrow>
    ee_ram (fold (restore_type L) tys s) x = ee_ram s x"
  by (induction tys arbitrary: s) (simp_all add: restore_type_spec)

lemma restore_types_var:
  assumes "layout_ok L (pDataBuf s)" "j < length (pDataBuf s ty)" "k < data_size ty"
  shows "ee_ram (fold (restore_type L) all_types s) (pDataBuf s ty ! j + k) = ee_ram s (slot L ty j + k)"
proof -
  obtain xs ys where tys: "all_types = xs @ ty # ys" "ty \<notin> set xs" "ty \<notin> set ys" using split_types by metis
  let ?p = "pDataBuf s ty ! j"
  let ?u = "fold (restore_type L) xs s"
  have p: "?p \<in> set (pDataBuf s ty)" "in_var ty ?p (?p + k)" using assms(2,3) by (simp_all add: in_var_def)
  have others: "\<forall>ty' \<in> set ys. \<forall>q \<in> set (pDataBuf s ty'). \<not> in_var ty' q (?p + k)"
    using layoutD(6)[OF assms(1) p(1) _ _ p(2)] tys(3) by blast
  have slot: "in_buf L ty (slot L ty j + k)"
    using layoutD(1)[OF assms(1), of ty] assms(2,3) by (intro slot_in_buf) auto
  have "\<forall>ty' \<in> set xs. \<forall>q \<in> set (pDataBuf s ty'). \<not> in_var ty' q (slot L ty j + k)"
    using layoutD(5)[OF assms(1)] slot by blast
  then have u: "ee_ram ?u (slot L ty j + k) = ee_ram s (slot L ty j + k)" by (rule restore_types_outside[OF assms(1)])
  have Lu: "layout_ok L (pDataBuf ?u)" using assms(1) by (simp add: restore_types_same)
  have "ee_ram (fold (restore_type L) ys (restore_type L ty ?u)) (?p + k) = ee_ram (restore_type L ty ?u) (?p + k)"
    using others assms(1) by (intro restore_types_outside) (simp_all add: restore_types_same restore_type_spec[OF Lu])
  also have "\<dots> = ee_ram ?u (slot L ty j + k)"
    using restore_type_spec(5)[OF Lu] assms(2,3) by (simp add: restore_types_same)
  finally show ?thesis using u by (simp add: tys(1))
qed

section \<open>Power cycles\<close>

text \<open>After a reset: RAM holds anything, the same variables are registered, the EEPROM is as it was.\<close>

definition power_cycle :: "ram \<Rightarrow> eeprom \<Rightarrow> eeprom" where
  "power_cycle r s = s\<lparr>ee_ram := r, ChangedTimes := (\<lambda>_. 0), EEPROMDataReady := False\<rparr>"

lemma power_cycle_simps [simp]:
  "pDataBuf (power_cycle r s) = pDataBuf s" "ee_pages (power_cycle r s) = ee_pages s"
  "ChangedTimes (power_cycle r s) = (\<lambda>_. 0)" "ee_ram (power_cycle r s) = r"
  by (simp_all add: power_cycle_def)

lemma start_reads:
  assumes "layout_ok L (pDataBuf s)" "pDataBuf s TYPE_UINT_8 \<noteq> []"
    "ee_byte (ee_pages s) 0 (length (pDataBuf s TYPE_UINT_8) - 1) \<noteq> 1"
  shows "\<exists>m. vEEPROMDataTask_start prog L s = Some (vReadEEPROMData L (s\<lparr>ee_ram := m\<rparr>))"
proof -
  let ?i = "length (pDataBuf s TYPE_UINT_8) - 1"
  have i: "?i < 5" using layoutD(1)[OF assms(1), of TYPE_UINT_8] assms(2) by (simp add: SAVE_COUNT_def)
  have "EEPROM_Read 0 (PAGE_ADDR TYPE_UINT_8) (DataBufFirstRunUint8 L) MODE_8_BIT (SAVE_SIZE TYPE_UINT_8) (ee_pages s) (ee_ram s)
      (DataBufFirstRunUint8 L + ?i) = ee_byte (ee_pages s) 0 ?i"
    using i by (subst read_block) (simp_all add: SAVE_SIZE_def SAVE_COUNT_def data_mode_def mode_bytes_def PAGE_ADDR_def)
  then show ?thesis
    using assms(3) unfolding vEEPROMDataTask_start_def Let_def by auto
qed

lemma read_all:
  assumes "layout_ok L (pDataBuf s)"
  defines "u \<equiv> vReadEEPROMData L s"
  shows "EEPROMDataReady u" "pDataBuf u = pDataBuf s" "ee_pages u = ee_pages s" "ChangedTimes u = ChangedTimes s"
    and "j < length (pDataBuf s ty) \<Longrightarrow> k < data_size ty \<Longrightarrow>
      ee_ram u (pDataBuf s ty ! j + k) = ee_byte (ee_pages s) (PAGE_ADDR ty) (j * data_size ty + k)"
    and "pDataBuf s ty \<noteq> [] \<Longrightarrow> k < SAVE_SIZE ty \<Longrightarrow> ee_ram u (DataBuf L ty + k) = ee_byte (ee_pages s) (PAGE_ADDR ty) k"
proof -
  let ?v = "fold (read_type L) all_types s"
  have Lv: "layout_ok L (pDataBuf ?v)" using assms(1) by (simp add: read_types_same)
  show "EEPROMDataReady u" "pDataBuf u = pDataBuf s" "ee_pages u = ee_pages s" "ChangedTimes u = ChangedTimes s"
    by (simp_all add: u_def vReadEEPROMData_def restore_types_same read_types_same)
  show "ee_ram u (pDataBuf s ty ! j + k) = ee_byte (ee_pages s) (PAGE_ADDR ty) (j * data_size ty + k)"
    if "j < length (pDataBuf s ty)" "k < data_size ty"
  proof -
    have "in_buf L ty (slot L ty j + k)"
      using layoutD(1)[OF assms(1), of ty] that by (intro slot_in_buf) auto
    then have "j * data_size ty + k < SAVE_SIZE ty" by (simp add: in_buf_def slot_def)
    moreover have "pDataBuf s ty \<noteq> []" using that(1) by auto
    ultimately have "ee_ram ?v (slot L ty j + k) = ee_byte (ee_pages s) (PAGE_ADDR ty) (j * data_size ty + k)"
      using read_types_buf[OF assms(1), of ty "j * data_size ty + k"] by (simp add: slot_def add.assoc)
    then show ?thesis
      using restore_types_var[OF Lv, of j ty k] that by (simp add: u_def vReadEEPROMData_def read_types_same)
  qed
  show "ee_ram u (DataBuf L ty + k) = ee_byte (ee_pages s) (PAGE_ADDR ty) k" if "pDataBuf s ty \<noteq> []" "k < SAVE_SIZE ty"
  proof -
    have "in_buf L ty (DataBuf L ty + k)" using that by (simp add: in_buf_def)
    then have "\<forall>ty' \<in> set all_types. \<forall>p \<in> set (pDataBuf ?v ty'). \<not> in_var ty' p (DataBuf L ty + k)"
      using layoutD(5)[OF Lv] by blast
    from restore_types_outside[OF Lv this] show ?thesis
      using read_types_buf[OF assms(1) that] by (simp add: u_def vReadEEPROMData_def)
  qed
qed

lemma pass_keeps_vars:
  assumes "programs_written prog" "layout_ok L (pDataBuf s)" "vWriteEEPROMData prog L s = Some t"
    "p \<in> set (pDataBuf s ty)" "k < data_size ty"
  shows "ee_ram t (p + k) = ee_ram s (p + k)" "pDataBuf t = pDataBuf s"
proof -
  have "in_var ty p (p + k)" using assms(5) by (simp add: in_var_def)
  then have "\<forall>ty'. \<not> in_buf L ty' (p + k)" using layoutD(5)[OF assms(2,4)] by blast
  then show "ee_ram t (p + k) = ee_ram s (p + k)" "pDataBuf t = pDataBuf s"
    using write_types_total[OF assms(1,2), of all_types] assms(3) by (auto simp: vWriteEEPROMData_def)
qed

lemma stored_var:
  assumes "layout_ok L (pDataBuf s)" "stored L ty s" "buffered L ty s" "j < length (pDataBuf s ty)" "k < data_size ty"
  shows "ee_byte (ee_pages s) (PAGE_ADDR ty) (j * data_size ty + k) = ee_ram s (pDataBuf s ty ! j + k)"
proof -
  have "in_buf L ty (slot L ty j + k)"
    using layoutD(1)[OF assms(1), of ty] assms(4,5) by (intro slot_in_buf) auto
  then have "j * data_size ty + k < SAVE_SIZE ty" by (simp add: in_buf_def slot_def)
  then show ?thesis
    using assms(2-5) by (auto simp: stored_def buffered_def same_bytes_def slot_def add.assoc)
qed

lemma pass_stores:
  assumes "programs_written prog" "layout_ok L (pDataBuf s)" "own_pages ty" "stored L ty s" "vWriteEEPROMData prog L s = Some t"
  shows "stored L ty t" "buffered L ty t"
proof -
  obtain xs ys where tys: "all_types = xs @ ty # ys" "ty \<notin> set xs" "ty \<notin> set ys" using split_types by metis
  have "write_types prog L (xs @ ty # ys) s = Some t" using assms(5) by (simp add: vWriteEEPROMData_def tys(1))
  then show "stored L ty t" "buffered L ty t" using write_types_stores[OF assms(1-4) _ tys(2,3)] by blast+
qed

text \<open>The flag of the first run is over: the start after the power cycle reads the EEPROM.\<close>

lemma restart_reads:
  assumes "programs_written prog" "layout_ok L (pDataBuf s)" "stored L TYPE_UINT_8 s"
    "pDataBuf s TYPE_UINT_8 = vars @ [EEPROMFirstRun L]" "ee_ram s (EEPROMFirstRun L) \<noteq> 1"
    "vWriteEEPROMData prog L s = Some t"
  shows "\<exists>m. vEEPROMDataTask_start prog L (power_cycle r t) = Some (vReadEEPROMData L ((power_cycle r t)\<lparr>ee_ram := m\<rparr>))"
proof -
  have own: "own_pages TYPE_UINT_8" by (simp add: own_pages_def)
  have size: "data_size TYPE_UINT_8 = 1" by (simp add: data_mode_def mode_bytes_def)
  have ps: "pDataBuf t = pDataBuf s" "ee_ram t (EEPROMFirstRun L) = ee_ram s (EEPROMFirstRun L)"
    using pass_keeps_vars[OF assms(1,2,6), of "EEPROMFirstRun L" TYPE_UINT_8 0] assms(4) size by simp_all
  have "ee_byte (ee_pages t) (PAGE_ADDR TYPE_UINT_8) (length vars * data_size TYPE_UINT_8 + 0) =
      ee_ram t (pDataBuf t TYPE_UINT_8 ! length vars + 0)"
    using pass_stores[OF assms(1,2) own assms(3,6)] assms(2,4) ps size by (intro stored_var) simp_all
  then have "ee_byte (ee_pages t) 0 (length vars) \<noteq> 1" using ps assms(4,5) size by (simp add: PAGE_ADDR_def)
  then show ?thesis using assms(2,4) ps by (intro start_reads) simp_all
qed

section \<open>Registration\<close>

abbreviation regist_list :: "layout \<Rightarrow> (eEEPROMDataType \<times> nat) list \<Rightarrow> eeprom \<Rightarrow> eeprom" where
  "regist_list L ds s \<equiv> fold (\<lambda>(ty, p) t. snd (xRegistEEPROMData L ty p t)) ds s"

definition of_type :: "eEEPROMDataType \<Rightarrow> (eEEPROMDataType \<times> nat) list \<Rightarrow> nat list" where
  "of_type ty ds = map snd (filter (\<lambda>d. fst d = ty) ds)"

lemma of_type_append: "of_type ty (xs @ ys) = of_type ty xs @ of_type ty ys"
  by (simp add: of_type_def)

text \<open>Different variables, not more of a type than it has room for, are all registered, in their order.\<close>

lemma regist_list_all:
  assumes "\<And>ty. distinct (pDataBuf s ty @ of_type ty ds)" "\<And>ty. length (pDataBuf s ty @ of_type ty ds) \<le> SAVE_COUNT ty"
    "\<And>d. d \<in> set ds \<Longrightarrow> snd d \<noteq> 0"
  shows "pDataBuf (regist_list L ds s) ty = pDataBuf s ty @ of_type ty ds"
  using assms
proof (induction ds arbitrary: s)
  case Nil
  then show ?case by (simp add: of_type_def)
next
  case (Cons d ds)
  obtain t p where d: "d = (t, p)" by force
  let ?s = "snd (xRegistEEPROMData L t p s)"
  have of: "of_type t (d # ds) = p # of_type t ds" "\<And>y. y \<noteq> t \<Longrightarrow> of_type y (d # ds) = of_type y ds"
    by (simp_all add: of_type_def d)
  have "p \<noteq> 0" "p \<notin> set (pDataBuf s t)" "length (pDataBuf s t) < SAVE_COUNT t"
    using Cons.prems(1)[of t] Cons.prems(2)[of t] Cons.prems(3)[of d] d of by auto
  then have ps: "pDataBuf ?s = (pDataBuf s)(t := pDataBuf s t @ [p])"
    by (simp add: xRegistEEPROMData_def)
  have step: "pDataBuf ?s y @ of_type y ds = pDataBuf s y @ of_type y (d # ds)" for y
    by (cases "y = t") (simp_all add: ps of)
  have "pDataBuf (regist_list L ds ?s) ty = pDataBuf ?s ty @ of_type ty ds"
    by (rule Cons.IH) (use Cons.prems step in \<open>simp_all only:\<close>, auto)
  then show ?case by (simp add: d step del: fun_upd_apply)
qed

definition program_data :: "(saved_var \<Rightarrow> nat) \<Rightarrow> layout \<Rightarrow> (eEEPROMDataType \<times> nat) list" where
  "program_data addr L =
     [(TYPE_RUNTIME, addr (Roof_ulRunTime_S 0)), (TYPE_RUNTIME, addr (Roof_ulRunTime_S 1)),
      (TYPE_RUNTIME, addr (Fan_ulRunTime_S 0)), (TYPE_RUNTIME, addr (Fan_ulRunTime_S 1)),
      (TYPE_RUNTIME, addr (Fan_ulRunTime_S 2)), (TYPE_RUNTIME, addr (Fan_ulRunTime_S 3))] @
     map (\<lambda>(ty, name). (ty, addr (System_var name))) system_data @ [(TYPE_UINT_8, EEPROMFirstRun L)]"

lemma regist_program_list: "regist_program addr L s = regist_list L (program_data addr L) s"
  by (simp add: regist_program_def program_data_def vEEPROMInit_def vSystem_RegistEEPROMData_def vExAirFan_RegistEEPROMData_def
      vModularRoof_RegistEEPROMData_def fold_map comp_def case_prod_unfold for_loop_def numeral_eq_Suc)

section \<open>A board\<close>

text \<open>
  A small board for the witnesses: the flag of the first run at address 11, one setting at 20, changed from 0 to 7
  since it was saved, the days of growth at 30; RAM holds 9 behind the buffer of the settings.
\<close>

definition board_layout :: layout where
  "board_layout = \<lparr>DataBuf = (\<lambda>ty. 1000 * (PAGE_ADDR ty + 1)), DataBufFirstRunUint8 = 20000, EEPROMFirstRun = 11\<rparr>"

definition board_vars :: "eEEPROMDataType \<Rightarrow> nat list" where
  "board_vars ty = (case ty of TYPE_UINT_8 \<Rightarrow> [10, 11] | TYPE_UINT_16 \<Rightarrow> [20] | TYPE_INT_16 \<Rightarrow> [30] | _ \<Rightarrow> [])"

definition board :: eeprom where
  "board = \<lparr>ee_ram = (\<lambda>_. 0)(20 := 7, 30 := 3, 6000 := 3, 4128 := 9), ee_pages = (\<lambda>_ _. 0)(5 := (\<lambda>_. 0)(0 := 3)),
     pDataBuf = board_vars, ChangedTimes = (\<lambda>_. 0), EEPROMDataReady = True\<rparr>"

definition overwrite :: prog where
  "overwrite old written i = (case written i of Some b \<Rightarrow> b | None \<Rightarrow> old i)"

lemma overwrite_programs: "programs_written overwrite"
  by (simp add: programs_written_def overwrite_def)

lemma board_window: "in_window board_layout ty x \<Longrightarrow> x div 1000 = PAGE_ADDR ty + 1"
  by (cases ty; simp add: in_window_def board_layout_def PAGE_ADDR_def SAVE_SIZE_def SAVE_COUNT_def data_mode_def
      mode_bytes_def; linarith)

lemma board_var:
  assumes "p \<in> set (board_vars ty)" "in_var ty p x"
  shows "ty = TYPE_UINT_8 \<and> (p = 10 \<or> p = 11) \<and> x = p \<or> ty = TYPE_UINT_16 \<and> p = 20 \<and> (x = 20 \<or> x = 21) \<or>
    ty = TYPE_INT_16 \<and> p = 30 \<and> (x = 30 \<or> x = 31)"
  using assms by (cases ty) (auto simp: board_vars_def in_var_def data_mode_def mode_bytes_def)

lemma PAGE_ADDR_inj: "PAGE_ADDR ty = PAGE_ADDR ty' \<Longrightarrow> ty = ty'"
  by (cases ty; cases ty'; simp add: PAGE_ADDR_def)

lemma board_ok: "layout_ok board_layout board_vars"
  unfolding layout_ok_def
proof (intro conjI allI impI)
  fix ty ty' x p p'
  show "length (board_vars ty) \<le> SAVE_COUNT ty" "distinct (board_vars ty)"
    by (cases ty; simp add: board_vars_def SAVE_COUNT_def)+
  show "\<not> in_buf board_layout ty' x" if "ty \<noteq> ty'" "in_buf board_layout ty x"
  proof
    assume "in_buf board_layout ty' x"
    from board_window[OF buf_in_window[OF this]] board_window[OF buf_in_window[OF that(2)]] PAGE_ADDR_inj that(1)
    show False by simp
  qed
  show "\<not> in_window board_layout ty' x" if "PAGE_ADDR ty < PAGE_ADDR ty'" "in_buf board_layout ty x"
  proof
    assume "in_window board_layout ty' x"
    from board_window[OF this] board_window[OF buf_in_window[OF that(2)]] that(1) show False by simp
  qed
  show "\<not> in_window board_layout ty' x" if "p \<in> set (board_vars ty)" "in_var ty p x"
  proof
    assume "in_window board_layout ty' x"
    from board_window[OF this] board_var[OF that] show False by auto
  qed
  show "\<not> in_var ty' p' x" if "p \<in> set (board_vars ty)" "p' \<in> set (board_vars ty')" "(ty, p) \<noteq> (ty', p')" "in_var ty p x"
  proof
    assume "in_var ty' p' x"
    from board_var[OF that(2) this] board_var[OF that(1,4)] that(3) show False by auto
  qed
qed

lemma board_stored: "stored board_layout TYPE_UINT_8 board" "stored board_layout TYPE_UINT_16 board"
proof -
  have "3 + k div 64 \<noteq> 5" if "k < 72" for k :: nat using that by linarith
  then show "stored board_layout TYPE_UINT_8 board" "stored board_layout TYPE_UINT_16 board"
    by (auto simp: stored_def board_def board_layout_def PAGE_ADDR_def SAVE_SIZE_def SAVE_COUNT_def data_mode_def
        mode_bytes_def ee_byte_def)
qed

lemma board_flag: "pDataBuf board TYPE_UINT_8 = [10] @ [EEPROMFirstRun board_layout]" "ee_ram board (EEPROMFirstRun board_layout) \<noteq> 1"
  by (simp_all add: board_def board_vars_def board_layout_def)

lemma board_ok': "layout_ok board_layout (pDataBuf board)"
  using board_ok by (simp add: board_def)

lemma board_setting: "20 \<in> set (pDataBuf board TYPE_UINT_16)" "0 < length (pDataBuf board TYPE_UINT_16)"
  "\<not> same_bytes 2 (slot board_layout TYPE_UINT_16 0) (pDataBuf board TYPE_UINT_16 ! 0) (ee_ram board)"
  by (auto simp: board_def board_vars_def same_bytes_def slot_def board_layout_def PAGE_ADDR_def data_mode_def mode_bytes_def
      intro!: exI[of _ 0])

lemma board_days: "pDataBuf board TYPE_INT_16 = [30]" "same_bytes 2 (DataBuf board_layout TYPE_INT_16) 30 (ee_ram board)"
  by (simp_all add: board_def board_vars_def same_bytes_def board_layout_def PAGE_ADDR_def)

lemma board_behind: "k < 2 \<Longrightarrow> \<not> in_buf board_layout ty (DataBuf board_layout TYPE_UINT_16 + 128 + k)"
  by (cases ty; simp add: in_buf_def board_layout_def PAGE_ADDR_def SAVE_SIZE_def SAVE_COUNT_def data_mode_def mode_bytes_def)

section \<open>What survives\<close>



text \<open>A pass that finds a changed unsigned 16-bit variable.\<close>

lemma pass_frame:
  assumes "programs_written prog" "layout_ok L (pDataBuf s)" "write_types prog L tys s = Some t"
  shows "pDataBuf t = pDataBuf s" "in_buf L ty x \<Longrightarrow> ty \<notin> set tys \<Longrightarrow> ee_ram t x = ee_ram s x"
    "(\<And>ty. \<not> in_buf L ty x) \<Longrightarrow> ee_ram t x = ee_ram s x"
    "p \<in> set (pDataBuf s ty) \<Longrightarrow> k < data_size ty \<Longrightarrow> ee_ram t (p + k) = ee_ram s (p + k)"
proof -
  have t: "pDataBuf t = pDataBuf s" "\<forall>x. (\<forall>ty \<in> set tys. \<not> in_buf L ty x) \<longrightarrow> ee_ram t x = ee_ram s x"
    using write_types_total[OF assms(1,2), of tys] assms(3) by simp_all
  show "pDataBuf t = pDataBuf s" by (rule t(1))
  show "ee_ram t x = ee_ram s x" if "in_buf L ty x" "ty \<notin> set tys"
    using t(2) layoutD(2)[OF assms(2) _ that(1)] that(2) by metis
  show "ee_ram t x = ee_ram s x" if "\<And>ty. \<not> in_buf L ty x" using t(2) that by blast
  show "ee_ram t (p + k) = ee_ram s (p + k)" if "p \<in> set (pDataBuf s ty)" "k < data_size ty"
    using t(2) layoutD(5)[OF assms(2) that(1), of "p + k"] that(2) by (simp add: in_var_def)
qed

lemma still_differs:
  assumes "programs_written prog" "layout_ok L (pDataBuf s)" "write_types prog L tys s = Some t" "ty \<notin> set tys"
    "i < length (pDataBuf s ty)"
  shows "same_bytes (data_size ty) (slot L ty i) (pDataBuf s ty ! i) (ee_ram t) =
    same_bytes (data_size ty) (slot L ty i) (pDataBuf s ty ! i) (ee_ram s)"
proof -
  have i: "i < SAVE_COUNT ty" using layoutD(1)[OF assms(2), of ty] assms(5) by simp
  show ?thesis
    using pass_frame(2)[OF assms(1-3) slot_in_buf[OF i] assms(4)] pass_frame(4)[OF assms(1-3), of "pDataBuf s ty ! i" ty] assms(5)
    by (simp add: same_bytes_def)
qed

lemma uint16_pass:
  assumes "programs_written prog" "layout_ok L (pDataBuf s)" "stored L TYPE_UINT_16 s"
    "i < length (pDataBuf s TYPE_UINT_16)" "\<not> same_bytes 2 (slot L TYPE_UINT_16 i) (pDataBuf s TYPE_UINT_16 ! i) (ee_ram s)"
  shows "\<exists>b. write_types prog L [TYPE_UINT_8, TYPE_INT_8, TYPE_UINT_16] s = Some b \<and>
    (\<forall>k < 144. ee_byte (ee_pages b) 3 k = ee_ram b (DataBuf L TYPE_UINT_16 + k))"
proof -
  have size: "data_size TYPE_UINT_16 = 2" "SAVE_SIZE TYPE_UINT_16 * data_size TYPE_UINT_16 = 144"
    by (simp_all add: SAVE_SIZE_def SAVE_COUNT_def data_mode_def mode_bytes_def)
  obtain a where a: "write_types prog L [TYPE_UINT_8, TYPE_INT_8] s = Some a" "pDataBuf a = pDataBuf s"
    using write_types_total[OF assms(1,2)] by blast
  have La: "layout_ok L (pDataBuf a)" using assms(2) a(2) by simp
  note w = write_type_spec[OF assms(1) La, of TYPE_UINT_16]
  obtain b where b: "write_type prog L TYPE_UINT_16 a = Some b" using w by blast
  have "\<not> same_bytes 2 (slot L TYPE_UINT_16 i) (pDataBuf a TYPE_UINT_16 ! i) (ee_ram a)"
    using still_differs[OF assms(1,2) a(1), of TYPE_UINT_16 i] assms(4,5) size a(2) by simp
  then have "fst (xDataChanged L TYPE_UINT_16 0 (pDataBuf a TYPE_UINT_16) (ee_ram a))"
    using w b assms(4) a(2) size(1) by (auto split: if_splits)
  moreover have "ChangedTimes a TYPE_UINT_16 = 0"
    using write_types_keep[OF assms(1,2) a(1), of TYPE_UINT_16] assms(3) by (simp add: own_pages_def stored_def)
  ultimately have "\<forall>k < 144. ee_byte (ee_pages b) 3 k = ee_ram b (DataBuf L TYPE_UINT_16 + k)"
    using w b unfolding size(2) by (simp add: WRITE_INTV_def PAGE_ADDR_def)
  moreover have "write_types prog L ([TYPE_UINT_8, TYPE_INT_8] @ [TYPE_UINT_16]) s = Some b"
    unfolding write_types_append a(1) by (simp add: b)
  ultimately show ?thesis by auto
qed

text \<open>The rest of a pass in which the days have not changed leaves their page alone.\<close>

lemma rest_of_pass:
  assumes "programs_written prog" "layout_ok L (pDataBuf s)"
    "write_types prog L [TYPE_UINT_8, TYPE_INT_8, TYPE_UINT_16] s = Some b"
    "pDataBuf s TYPE_INT_16 = [days]" "same_bytes 2 (DataBuf L TYPE_INT_16) days (ee_ram s)"
  shows "\<exists>t. vWriteEEPROMData prog L s = Some t \<and> pDataBuf t = pDataBuf s \<and> ee_pages t 5 = ee_pages b 5"
proof -
  have size: "data_size TYPE_INT_16 = 2" by (simp add: data_mode_def mode_bytes_def)
  have slot0: "slot L TYPE_INT_16 0 = DataBuf L TYPE_INT_16" by (simp add: slot_def)
  have ps: "pDataBuf b = pDataBuf s" by (rule pass_frame(1)[OF assms(1-3)])
  have "same_bytes 2 (DataBuf L TYPE_INT_16) days (ee_ram b)"
    using still_differs[OF assms(1-3), of TYPE_INT_16 0] assms(4,5) size slot0 by simp
  then have c: "write_type prog L TYPE_INT_16 b = Some b"
    using assms(4) ps size slot0 by (simp add: write_type_def)
  let ?rest = "[TYPE_UINT_32, TYPE_INT_32, TYPE_RUNTIME, TYPE_E32]"
  obtain t where t: "write_types prog L ?rest b = Some t" "pDataBuf t = pDataBuf b"
      "\<forall>p. (\<forall>ty \<in> set ?rest. p < PAGE_ADDR ty \<or> last_page ty < p) \<longrightarrow> ee_pages t p = ee_pages b p"
    using write_types_total[OF assms(1), of L b ?rest] assms(2) ps by auto
  have tys: "all_types = [TYPE_UINT_8, TYPE_INT_8, TYPE_UINT_16] @ TYPE_INT_16 # ?rest" by (simp add: all_types_def)
  have "vWriteEEPROMData prog L s = write_types prog L (TYPE_INT_16 # ?rest) b"
    unfolding vWriteEEPROMData_def tys write_types_append assms(3) by (rule Option.bind.bind_lunit)
  also have "\<dots> = Some t" unfolding write_types.simps(2)[of _ _ TYPE_INT_16] c using t(1) by simp
  finally show ?thesis using t(2,3) ps by (simp add: PAGE_ADDR_def)
qed

text \<open>
  C40. The days of growth (the one signed 16-bit variable) do not survive a change of any unsigned 16-bit setting.
  Saving the settings passes their size in bytes as a number of half-words, so that the second page after the first
  is overwritten with what RAM holds 128 bytes behind the buffer; that page is where the days are kept, and an
  unchanged variable is not written again. After the next power cycle the days are those two bytes.
\<close>

theorem grow_days_overwritten:
  assumes "programs_written prog" "layout_ok L (pDataBuf s)" "stored L TYPE_UINT_8 s" "stored L TYPE_UINT_16 s"
    "pDataBuf s TYPE_UINT_8 = vars @ [EEPROMFirstRun L]" "ee_ram s (EEPROMFirstRun L) \<noteq> 1"
    and days: "pDataBuf s TYPE_INT_16 = [days]" "same_bytes 2 (DataBuf L TYPE_INT_16) days (ee_ram s)"
    and setting: "i < length (pDataBuf s TYPE_UINT_16)"
      "\<not> same_bytes 2 (slot L TYPE_UINT_16 i) (pDataBuf s TYPE_UINT_16 ! i) (ee_ram s)"
    and behind: "\<And>ty k. k < 2 \<Longrightarrow> \<not> in_buf L ty (DataBuf L TYPE_UINT_16 + 128 + k)"
  shows "\<exists>t u. vWriteEEPROMData prog L s = Some t \<and> vEEPROMDataTask_start prog L (power_cycle r t) = Some u \<and>
    (\<forall>k < 2. ee_ram u (days + k) = ee_ram s (DataBuf L TYPE_UINT_16 + 128 + k))"
proof -
  obtain b where b: "write_types prog L [TYPE_UINT_8, TYPE_INT_8, TYPE_UINT_16] s = Some b"
      "\<forall>k < 144. ee_byte (ee_pages b) 3 k = ee_ram b (DataBuf L TYPE_UINT_16 + k)"
    using uint16_pass[OF assms(1,2,4) setting] by blast
  obtain t where t: "vWriteEEPROMData prog L s = Some t" "pDataBuf t = pDataBuf s" "ee_pages t 5 = ee_pages b 5"
    using rest_of_pass[OF assms(1,2) b(1) days] by blast
  have five: "ee_byte (ee_pages t) 5 k = ee_ram s (DataBuf L TYPE_UINT_16 + 128 + k)" if k: "k < 2" for k
  proof -
    have "ee_byte (ee_pages t) 5 k = ee_byte (ee_pages b) 3 (128 + k)" using k t(3) by (cases k) (auto simp: ee_byte_def)
    also have "\<dots> = ee_ram b (DataBuf L TYPE_UINT_16 + 128 + k)" using b(2) k by (simp add: add.assoc)
    also have "\<dots> = ee_ram s (DataBuf L TYPE_UINT_16 + 128 + k)"
      by (rule pass_frame(3)[OF assms(1,2) b(1)]) (rule behind[OF k])
    finally show ?thesis .
  qed
  obtain m where start: "vEEPROMDataTask_start prog L (power_cycle r t) = Some (vReadEEPROMData L ((power_cycle r t)\<lparr>ee_ram := m\<rparr>))"
    using restart_reads[OF assms(1-3,5,6) t(1)] by blast
  have "data_size TYPE_INT_16 = 2" by (simp add: data_mode_def mode_bytes_def)
  then have "ee_ram (vReadEEPROMData L ((power_cycle r t)\<lparr>ee_ram := m\<rparr>)) (days + k) = ee_byte (ee_pages t) 5 k" if "k < 2" for k
    using read_all(5)[of L "(power_cycle r t)\<lparr>ee_ram := m\<rparr>" 0 TYPE_INT_16 k] assms(2) t(2) days(1) that
    by (simp add: PAGE_ADDR_def)
  then show ?thesis using t(1) start five by auto
qed

theorem grow_days_overwritten_witness:
  "\<exists>t u. vWriteEEPROMData overwrite board_layout board = Some t \<and>
     vEEPROMDataTask_start overwrite board_layout (power_cycle (\<lambda>_. 255) t) = Some u \<and>
     ee_ram board 30 = 3 \<and> ee_ram u 30 = 9"
proof -
  have "ee_ram board 30 = 3" "ee_ram board (DataBuf board_layout TYPE_UINT_16 + 128) = 9"
    by (simp_all add: board_def board_layout_def PAGE_ADDR_def)
  then show ?thesis
    using grow_days_overwritten[OF overwrite_programs board_ok' board_stored board_flag board_days board_setting(2,3) board_behind,
        of "\<lambda>_. 255"] by (metis add_0_right zero_less_numeral)
qed

end
