(* ===== verification/Board.thy ===== *)
theory Board
  imports Inputs
begin

text \<open>
  The rest of the board: lamps (\<open>Module/md_led.c\<close>, with those of the Modbus ports in \<open>md_modbus.c\<close>), the
  two-digit display of the controller's number (\<open>md_segment.c\<close>), the clock (\<open>md_rtc.c\<close> over
  \<open>ChipDriver/src/lpc_rtc.c\<close>), the watchdog (\<open>md_watchdog.c\<close> over \<open>lpc_wwdt.c\<close>), and
  the start of the outputs and inputs (\<open>vOutputInit\<close> of \<open>md_output.c\<close>, \<open>vInputInit\<close> of \<open>md_input.c\<close>).
\<close>

section \<open>Lamps\<close>

definition LedMCU :: IODef where "LedMCU = io_pin 1 31"
definition LedModbus1 :: IODef where "LedModbus1 = io_pin 3 26"
definition LedModbus2 :: IODef where "LedModbus2 = io_pin 0 27"
definition LedCAN :: IODef where "LedCAN = io_pin 3 25"

definition vLedOn :: "IODef \<Rightarrow> 'z io_scheme \<Rightarrow> 'z io_scheme" where
  "vLedOn led = GPIO_ClearValue (Port led) (push_bit (Pin led) 1)"

definition vLedOff :: "IODef \<Rightarrow> 'z io_scheme \<Rightarrow> 'z io_scheme" where
  "vLedOff led = GPIO_SetValue (Port led) (push_bit (Pin led) 1)"

definition vLedStateChange :: "IODef \<Rightarrow> u8 \<Rightarrow> 'z io_scheme \<Rightarrow> 'z io_scheme" where
  "vLedStateChange led state =
     (if state \<noteq> 0 then GPIO_ClearValue (Port led) (push_bit (Pin led) 1)
      else GPIO_SetValue (Port led) (push_bit (Pin led) 1))"

text \<open>Functions and directions of the pins are not part of the state.\<close>

definition vLedInit :: "'z io_scheme \<Rightarrow> 'z io_scheme" where
  "vLedInit s =
     (let s1 = GPIO_SetValue (Port LedModbus1) (push_bit (Pin LedModbus1) 1) s;
          s2 = GPIO_SetValue (Port LedModbus2) (push_bit (Pin LedModbus2) 1) s1;
          s3 = GPIO_SetValue (Port LedCAN) (push_bit (Pin LedCAN) 1) s2
      in GPIO_SetValue (Port LedMCU) (push_bit (Pin LedMCU) 1) s3)"

definition led_on :: "IODef \<Rightarrow> 'z io_scheme \<Rightarrow> bool" where
  "led_on led s \<longleftrightarrow> \<not> bit (gpio s (Port led)) (Pin led)"

section \<open>Display\<close>

definition DISP_TAB_LEFT :: "u8 list" where
  "DISP_TAB_LEFT = [0xC0, 0xF9, 0xA4, 0xB0, 0x99, 0x92, 0x82, 0xF8, 0x80, 0x90]"

definition DISP_TAB_RIGHT :: "u8 list" where
  "DISP_TAB_RIGHT = [0x40, 0x79, 0x24, 0x30, 0x19, 0x12, 0x02, 0x78, 0x00, 0x10]"

text \<open>\<open>position\<close> is the static local of \<open>vSegmentShowToggle\<close>; \<open>ssp0_sent\<close> what was written to SSP0, newest first.\<close>

record segment =
  SegmentID :: u8
  position :: u8
  ssp0_sent :: "u16 list"

definition segment_zero :: segment where
  "segment_zero = \<lparr>SegmentID = 0, position = 0, ssp0_sent = []\<rparr>"

definition vSegmentShowToggle :: "segment \<Rightarrow> segment" where
  "vSegmentShowToggle g =
     (let b = (if position g = 0 then DISP_TAB_LEFT ! unat (SegmentID g div 10)
               else DISP_TAB_RIGHT ! unat (SegmentID g mod 10))
      in g\<lparr>ssp0_sent := ucast b # ssp0_sent g, position := NOT (position g)\<rparr>)"

definition ucSegmentConvertToID :: "'z io_scheme \<Rightarrow> u8" where
  "ucSegmentConvertToID s = ucSaInputConvertToID (SaInput s)"

text \<open>One turn of the loop of \<open>vSegmentTask\<close>.\<close>

definition segment_turn :: "'z io_scheme \<Rightarrow> segment \<Rightarrow> segment" where
  "segment_turn s g = vSegmentShowToggle (g\<lparr>SegmentID := ControllerID s\<rparr>)"

section \<open>Clock\<close>

datatype RTC_TIMETYPE = RTC_TIMETYPE_SECOND | RTC_TIMETYPE_MINUTE | RTC_TIMETYPE_HOUR | RTC_TIMETYPE_DAYOFWEEK
  | RTC_TIMETYPE_DAYOFMONTH | RTC_TIMETYPE_DAYOFYEAR | RTC_TIMETYPE_MONTH | RTC_TIMETYPE_YEAR

text \<open>The time registers, and with the same fields the structure \<open>RTC_TIME_Type\<close>.\<close>

record rtc_time =
  SEC :: u32
  MINUTE :: u32
  HOUR :: u32
  DOM :: u32
  DOW :: u32
  DOY :: u32
  MONTH :: u32
  YEAR :: u32

record rtc = rtc_time +
  ILR :: u32
  CCR :: u32
  CIIR :: u32
  AMR :: u32
  CALIBRATION :: u32

definition RTC_SetTime :: "RTC_TIMETYPE \<Rightarrow> u32 \<Rightarrow> rtc \<Rightarrow> rtc" where
  "RTC_SetTime ty v r =
     (case ty of
        RTC_TIMETYPE_SECOND \<Rightarrow> if v \<le> 59 then r\<lparr>SEC := v AND 0x3F\<rparr> else r
      | RTC_TIMETYPE_MINUTE \<Rightarrow> if v \<le> 59 then r\<lparr>MINUTE := v AND 0x3F\<rparr> else r
      | RTC_TIMETYPE_HOUR \<Rightarrow> if v \<le> 23 then r\<lparr>HOUR := v AND 0x1F\<rparr> else r
      | RTC_TIMETYPE_DAYOFWEEK \<Rightarrow> if v \<le> 6 then r\<lparr>DOW := v AND 0x7\<rparr> else r
      | RTC_TIMETYPE_DAYOFMONTH \<Rightarrow> if v \<ge> 1 \<and> v \<le> 31 then r\<lparr>DOM := v AND 0x1F\<rparr> else r
      | RTC_TIMETYPE_DAYOFYEAR \<Rightarrow> if v \<ge> 1 \<and> v \<le> 366 then r\<lparr>DOY := v AND 0x1FF\<rparr> else r
      | RTC_TIMETYPE_MONTH \<Rightarrow> if v \<ge> 1 \<and> v \<le> 12 then r\<lparr>MONTH := v AND 0xF\<rparr> else r
      | RTC_TIMETYPE_YEAR \<Rightarrow> if v \<le> 4095 then r\<lparr>YEAR := v AND 0xFFF\<rparr> else r)"

definition RTC_GetFullTime :: "rtc \<Rightarrow> rtc_time" where
  "RTC_GetFullTime r =
     \<lparr>SEC = SEC r AND 0x3F, MINUTE = MINUTE r AND 0x3F, HOUR = HOUR r AND 0x1F, DOM = DOM r AND 0x1F,
      DOW = DOW r AND 0x7, DOY = DOY r AND 0x1FF, MONTH = MONTH r AND 0xF, YEAR = YEAR r AND 0xFFF\<rparr>"

definition RTC_Init :: "rtc \<Rightarrow> rtc" where
  "RTC_Init r = r\<lparr>ILR := 0, CCR := 0, CIIR := 0, AMR := 0xFF, CALIBRATION := 0\<rparr>"

definition RTC_ResetClockTickCounter :: "rtc \<Rightarrow> rtc" where
  "RTC_ResetClockTickCounter r =
     (let r1 = r\<lparr>CCR := CCR r OR 2\<rparr> in r1\<lparr>CCR := CCR r1 AND (NOT 2 AND 0x13)\<rparr>)"

definition RTC_Cmd :: "bool \<Rightarrow> rtc \<Rightarrow> rtc" where
  "RTC_Cmd en r = (if en then r\<lparr>CCR := CCR r OR 1\<rparr> else r\<lparr>CCR := CCR r AND (NOT 1 AND 0x13)\<rparr>)"

definition RTC_TIMETYPE_bit :: "RTC_TIMETYPE \<Rightarrow> u32" where
  "RTC_TIMETYPE_bit ty =
     (case ty of RTC_TIMETYPE_SECOND \<Rightarrow> 1 | RTC_TIMETYPE_MINUTE \<Rightarrow> 2 | RTC_TIMETYPE_HOUR \<Rightarrow> 4
      | RTC_TIMETYPE_DAYOFMONTH \<Rightarrow> 8 | RTC_TIMETYPE_DAYOFWEEK \<Rightarrow> 16 | RTC_TIMETYPE_DAYOFYEAR \<Rightarrow> 32
      | RTC_TIMETYPE_MONTH \<Rightarrow> 64 | RTC_TIMETYPE_YEAR \<Rightarrow> 128)"

definition RTC_CntIncrIntConfig :: "RTC_TIMETYPE \<Rightarrow> bool \<Rightarrow> rtc \<Rightarrow> rtc" where
  "RTC_CntIncrIntConfig ty en r =
     (if en then r\<lparr>CIIR := CIIR r OR RTC_TIMETYPE_bit ty\<rparr>
      else r\<lparr>CIIR := CIIR r AND (NOT (RTC_TIMETYPE_bit ty) AND 0xFF)\<rparr>)"

definition vRTCInit :: "rtc \<Rightarrow> rtc" where
  "vRTCInit r =
     (let r1 = RTC_CntIncrIntConfig RTC_TIMETYPE_SECOND True (RTC_Cmd True (RTC_ResetClockTickCounter (RTC_Init r)))
      in fold (\<lambda>(ty, v). RTC_SetTime ty v)
           [(RTC_TIMETYPE_SECOND, 0), (RTC_TIMETYPE_MINUTE, 0), (RTC_TIMETYPE_HOUR, 0), (RTC_TIMETYPE_MONTH, 11),
            (RTC_TIMETYPE_YEAR, 2017), (RTC_TIMETYPE_DAYOFMONTH, 1)] r1)"

definition vRTCSetTime :: "u16 \<Rightarrow> u8 \<Rightarrow> u8 \<Rightarrow> u8 \<Rightarrow> u8 \<Rightarrow> u8 \<Rightarrow> u8 \<Rightarrow> rtc \<Rightarrow> rtc" where
  "vRTCSetTime year month day hour mins sec dow r =
     fold (\<lambda>(ty, v). RTC_SetTime ty v)
       [(RTC_TIMETYPE_YEAR, ucast year), (RTC_TIMETYPE_MONTH, ucast month), (RTC_TIMETYPE_DAYOFMONTH, ucast day),
        (RTC_TIMETYPE_HOUR, ucast hour), (RTC_TIMETYPE_MINUTE, ucast mins), (RTC_TIMETYPE_SECOND, ucast sec),
        (RTC_TIMETYPE_DAYOFWEEK, if dow \<noteq> 7 then ucast dow else 0)] r"

text \<open>The new value of \<open>CurrTime\<close>.\<close>

definition vRTCGetTime :: "rtc \<Rightarrow> rtc_time" where
  "vRTCGetTime r = RTC_GetFullTime r"

text \<open>A pending interrupt is cleared by writing its bit.\<close>

definition RTC_IRQHandler :: "rtc \<Rightarrow> rtc" where
  "RTC_IRQHandler r = (if ILR r AND 1 \<noteq> 0 then r\<lparr>ILR := ILR r OR 1\<rparr> else r)"

section \<open>Watchdog\<close>

record wdt =
  WDT_MOD :: u32
  WDT_TC :: u32
  WDT_FEED :: "u8 list"

definition WWDT_SetTimeOutRaw :: "u32 \<Rightarrow> wdt \<Rightarrow> int \<times> wdt" where
  "WWDT_SetTimeOutRaw v w =
     (if v < 0xFF then (-1, w\<lparr>WDT_TC := 0xFF\<rparr>)
      else if v > 0x00FFFFFF then (-1, w\<lparr>WDT_TC := 0x00FFFFFF\<rparr>)
      else (0, w\<lparr>WDT_TC := v\<rparr>))"

text \<open>\<open>WDT_GET_FROM_USEC\<close>, with an oscillator of 500 kHz and four of its clocks for a count.\<close>

definition WWDT_SetTimeOut :: "u32 \<Rightarrow> wdt \<Rightarrow> int \<times> wdt" where
  "WWDT_SetTimeOut timeout = WWDT_SetTimeOutRaw (timeout div ((1000000 * 4) div 500000))"

definition WWDT_Enable :: "bool \<Rightarrow> wdt \<Rightarrow> wdt" where
  "WWDT_Enable en w = w\<lparr>WDT_MOD := if en then WDT_MOD w OR 1 else WDT_MOD w AND NOT 1\<rparr>"

text \<open>Mode 0 is protection, mode 1 reset.\<close>

definition WWDT_SetMode :: "u8 \<Rightarrow> bool \<Rightarrow> wdt \<Rightarrow> wdt" where
  "WWDT_SetMode mode en w =
     (if mode = 0 then w\<lparr>WDT_MOD := if en then WDT_MOD w OR 16 else WDT_MOD w AND NOT 16\<rparr>
      else if mode = 1 then w\<lparr>WDT_MOD := if en then WDT_MOD w OR 2 else WDT_MOD w AND NOT 2\<rparr>
      else w)"

definition WWDT_Feed :: "wdt \<Rightarrow> wdt" where
  "WWDT_Feed w = w\<lparr>WDT_FEED := 0x55 # 0xAA # WDT_FEED w\<rparr>"

definition WWDT_Cmd :: "bool \<Rightarrow> wdt \<Rightarrow> wdt" where
  "WWDT_Cmd en w =
     (if en then WWDT_Feed (w\<lparr>WDT_MOD := WDT_MOD w OR 1\<rparr>) else w\<lparr>WDT_MOD := WDT_MOD w AND NOT 1\<rparr>)"

definition WWDT_Start :: "u32 \<Rightarrow> wdt \<Rightarrow> int \<times> wdt" where
  "WWDT_Start timeout w = (let (r, w1) = WWDT_SetTimeOut timeout w in (r, WWDT_Cmd True w1))"

definition WDT_TIMEOUT :: u32 where "WDT_TIMEOUT = 10000000"

definition vWatchDogInit :: "wdt \<Rightarrow> wdt" where
  "vWatchDogInit w =
     snd (WWDT_Start WDT_TIMEOUT (WWDT_SetMode 1 True (WWDT_Enable True (snd (WWDT_SetTimeOut WDT_TIMEOUT w)))))"

text \<open>One turn of the loop of \<open>vWatchDogFeedTask\<close>, after its delay of a second; the first argument is \<open>WatchDogLedState\<close>.\<close>

definition watchdog_turn :: "bool \<Rightarrow> wdt \<Rightarrow> 'z io_scheme \<Rightarrow> bool \<times> wdt \<times> 'z io_scheme" where
  "watchdog_turn lamp w s = (\<not> lamp, WWDT_Feed w, vLedStateChange LedMCU (of_bool lamp) s)"

section \<open>Start of the outputs\<close>

definition DAC1ALARM :: IODef where "DAC1ALARM = io_pin 4 28"
definition DAC2ALARM :: IODef where "DAC2ALARM = io_pin 2 3"

definition DAC7760_REG_OUT :: u32 where "DAC7760_REG_OUT = 0x551000"
definition DAC7760_REG_CFG :: u32 where "DAC7760_REG_CFG = 0x570000"
definition Iout4To20 :: u32 where "Iout4To20 = 5"

definition PWM_MATCH_VALUE :: u32 where "PWM_MATCH_VALUE = 200"

text \<open>The SSP is assumed to come up: the loop at the end waits for its status register.\<close>

definition vDAC7760Init :: "'z io_scheme \<Rightarrow> 'z io_scheme" where
  "vDAC7760Init s =
     (let s1 = GPIO_SetValue (Port DAC1ALARM) (push_bit (Pin DAC1ALARM) 1) s;
          s2 = GPIO_ClearValue (Port DAC1CLR) (push_bit (Pin DAC1CLR) 1) s1;
          s3 = GPIO_ClearValue (Port DAC1LATCH) (push_bit (Pin DAC1LATCH) 1) s2;
          s4 = vSendDataToDAC7760 1 DAC7760_REG_CFG s3;
          s5 = vSendDataToDAC7760 1 (Iout4To20 OR DAC7760_REG_OUT) s4;
          s6 = vSendDataToDAC7760 1 DAC7760_REG_DATA s5;
          s7 = GPIO_SetValue (Port DAC2ALARM) (push_bit (Pin DAC2ALARM) 1) s6;
          s8 = GPIO_ClearValue (Port DAC2CLR) (push_bit (Pin DAC2CLR) 1) s7;
          s9 = GPIO_ClearValue (Port DAC2LATCH) (push_bit (Pin DAC2LATCH) 1) s8;
          s10 = vSendDataToDAC7760 2 DAC7760_REG_CFG s9;
          s11 = vSendDataToDAC7760 2 (Iout4To20 OR DAC7760_REG_OUT) s10
      in vSendDataToDAC7760 2 DAC7760_REG_DATA s11)"

text \<open>The control register is cleared, by which all channels are off; modes and prescale are not part of the state.\<close>

definition PWM_Init :: "'z io_scheme \<Rightarrow> 'z io_scheme" where
  "PWM_Init s = s\<lparr>pwm_ena := (\<lambda>_. False)\<rparr>"

definition vPWM1Init :: "'z io_scheme \<Rightarrow> 'z io_scheme" where
  "vPWM1Init s =
     fold (\<lambda>ch s. PWM_ChannelCmd ch True (PWM_MatchUpdate ch 0 s)) [1..<7]
       (PWM_MatchUpdate 0 PWM_MATCH_VALUE (PWM_Init s))"

definition vOutputInit :: "'z io_scheme \<Rightarrow> 'z io_scheme" where
  "vOutputInit s = vPWM1Init (vDAC7760Init (vDigitalOutputInit s))"

section \<open>Lamps of the Modbus ports\<close>

text \<open>A lamp changes on every frame; the first argument is \<open>MBMasterLedState\<close> or \<open>MBSlaveLedState\<close>.\<close>

definition vModbusMasterCallback :: "bool \<Rightarrow> 'z io_scheme \<Rightarrow> bool \<times> 'z io_scheme" where
  "vModbusMasterCallback st s = (\<not> st, vLedStateChange LedModbus1 (of_bool st) s)"

definition vModbusSlaveCallback :: "bool \<Rightarrow> 'z io_scheme \<Rightarrow> bool \<times> 'z io_scheme" where
  "vModbusSlaveCallback st s = (\<not> st, vLedStateChange LedModbus2 (of_bool st) s)"

section \<open>Start of the inputs\<close>

text \<open>The selector lines of the multiplexers go low; directions and the converter are not part of the state.\<close>

definition vInputInit :: "'z io_scheme \<Rightarrow> 'z io_scheme" where
  "vInputInit = GPIO_ClearValue 1 (push_bit 27 1 OR push_bit 28 1 OR push_bit 29 1)"

text \<open>The outputs and inputs as \<open>AppTaskCreate\<close> starts them, with the lamps after them.\<close>

definition board_start :: "'z io_scheme \<Rightarrow> 'z io_scheme" where
  "board_start s = vLedInit (vInputInit (vOutputInit s))"

section \<open>Properties\<close>

lemma led_switch:
  "Pin led < 32 \<Longrightarrow> led_on led (vLedOn led s)" "Pin led < 32 \<Longrightarrow> \<not> led_on led (vLedOff led s)"
  "Pin led < 32 \<Longrightarrow> led_on led (vLedStateChange led v s) \<longleftrightarrow> v \<noteq> 0"
  by (simp_all add: led_on_def vLedOn_def vLedOff_def vLedStateChange_def GPIO_SetValue_def GPIO_ClearValue_def
      bit_simps)

lemma watchdog_set:
  "WDT_TC (vWatchDogInit w) = 1250000" "bit (WDT_MOD (vWatchDogInit w)) 0" "bit (WDT_MOD (vWatchDogInit w)) 1"
  "WDT_FEED (vWatchDogInit w) = 0x55 # 0xAA # WDT_FEED w"
  by (simp_all add: vWatchDogInit_def WWDT_Start_def WWDT_SetTimeOut_def WWDT_SetTimeOutRaw_def WDT_TIMEOUT_def
      WWDT_Cmd_def WWDT_Feed_def WWDT_SetMode_def WWDT_Enable_def bit_simps)

text \<open>The number of the controller: five switches, inverted.\<close>

lemma bit_31: "bit (31 :: u8) n \<longleftrightarrow> n < 5"
proof -
  have "(31 :: u8) = mask 5" by (simp add: mask_eq_exp_minus_1)
  then have "bit (31 :: u8) n = bit (mask 5 :: u8) n" by (rule arg_cong)
  also have "\<dots> \<longleftrightarrow> n < 5" by (auto simp: bit_mask_iff)
  finally show ?thesis .
qed

lemma id_bits:
  "bit (ucSaInputConvertToID sa) n \<longleftrightarrow>
     n = 0 \<and> \<not> bit sa 1 \<or> n = 1 \<and> \<not> bit sa 2 \<or> n = 2 \<and> \<not> bit sa 4 \<or> n = 3 \<and> \<not> bit sa 3 \<or> n = 4 \<and> \<not> bit sa 0"
proof (cases "n < 5")
  case True
  then consider "n = 0" | "n = 1" | "n = 2" | "n = 3" | "n = 4" by linarith
  then show ?thesis
  proof cases
    case 2
    then show ?thesis by (simp add: ucSaInputConvertToID_def bit_simps numeral_2_eq_2)
  next
    case 3
    then show ?thesis by (simp add: ucSaInputConvertToID_def bit_simps eval_nat_numeral)
  qed (simp_all add: ucSaInputConvertToID_def bit_simps)
next
  case False
  then show ?thesis by (auto simp: ucSaInputConvertToID_def bit_and_iff bit_31 simp del: bit_numeral_word_iff)
qed

lemma id_bound: "unat (ucSaInputConvertToID sa) < 32"
proof -
  have "ucSaInputConvertToID sa \<le> 31" unfolding ucSaInputConvertToID_def by (rule word_and_le1)
  then show ?thesis by (simp add: word_le_nat_alt)
qed

lemma id_injective: "ucSaInputConvertToID a = ucSaInputConvertToID b \<longleftrightarrow> a AND 31 = b AND 31"
proof
  assume "ucSaInputConvertToID a = ucSaInputConvertToID b"
  then have eq: "bit (ucSaInputConvertToID a) n = bit (ucSaInputConvertToID b) n" for n by simp
  have "bit a n = bit b n" if "n < 5" for n
  proof -
    from that consider "n = 0" | "n = 1" | "n = 2" | "n = 3" | "n = 4" by linarith
    then show ?thesis using eq[of 0] eq[of 1] eq[of 2] eq[of 3] eq[of 4] by cases (simp_all add: id_bits)
  qed
  then show "a AND 31 = b AND 31" by (auto intro!: bit_word_eqI simp: bit_and_iff bit_31 simp del: bit_numeral_word_iff)
next
  assume "a AND 31 = b AND 31"
  then have "bit (a AND 31) n = bit (b AND 31) n" for n by simp
  then have eq: "(bit a n \<and> n < 5) = (bit b n \<and> n < 5)" for n by (simp add: bit_and_iff bit_31 del: bit_numeral_word_iff)
  have "bit a n = bit b n" if "n < 5" for n using eq[of n] that by simp
  then show "ucSaInputConvertToID a = ucSaInputConvertToID b" by (auto intro!: bit_word_eqI simp: id_bits)
qed

text \<open>
  Two turns of the display task, whatever side came last, send the pattern of the tens and the one of the units,
  the two being told apart by the decimal point.
\<close>

definition shows_number :: "nat \<Rightarrow> u16 list \<Rightarrow> bool" where
  "shows_number n bs \<longleftrightarrow> (\<exists>l r. l < 10 \<and> r < 10 \<and> n = 10 * l + r \<and>
     set bs = {ucast (DISP_TAB_LEFT ! l), ucast (DISP_TAB_RIGHT ! r)})"

lemma left_bit: "l < 10 \<Longrightarrow> bit (DISP_TAB_LEFT ! l) 7"
proof -
  have "\<forall>b \<in> set DISP_TAB_LEFT. bit b 7" by (simp add: DISP_TAB_LEFT_def)
  moreover assume "l < 10"
  then have "DISP_TAB_LEFT ! l \<in> set DISP_TAB_LEFT" by (intro nth_mem) (simp add: DISP_TAB_LEFT_def)
  ultimately show ?thesis by blast
qed

lemma right_bit: "l < 10 \<Longrightarrow> \<not> bit (DISP_TAB_RIGHT ! l) 7"
proof -
  have "\<forall>b \<in> set DISP_TAB_RIGHT. \<not> bit b 7" by (simp add: DISP_TAB_RIGHT_def)
  moreover assume "l < 10"
  then have "DISP_TAB_RIGHT ! l \<in> set DISP_TAB_RIGHT" by (intro nth_mem) (simp add: DISP_TAB_RIGHT_def)
  ultimately show ?thesis by blast
qed

lemma tables_distinct: "distinct DISP_TAB_LEFT" "distinct DISP_TAB_RIGHT" "length DISP_TAB_LEFT = 10" "length DISP_TAB_RIGHT = 10"
  by (simp_all add: DISP_TAB_LEFT_def DISP_TAB_RIGHT_def)

lemma ucast_8_16: "(ucast (a :: u8) :: u16) = ucast b \<longleftrightarrow> a = b"
proof
  have "(ucast (ucast x :: u16) :: u8) = x" for x :: u8 by (rule bit_word_eqI) (simp add: bit_unsigned_iff)
  moreover assume "(ucast a :: u16) = ucast b"
  then have "(ucast (ucast a :: u16) :: u8) = ucast (ucast b :: u16)" by (rule arg_cong)
  ultimately show "a = b" by simp
qed simp

lemma shows_number_unique:
  assumes "shows_number n bs" "shows_number m bs"
  shows "n = m"
proof -
  obtain l r where a: "l < 10" "r < 10" "n = 10 * l + r" "set bs = {ucast (DISP_TAB_LEFT ! l), ucast (DISP_TAB_RIGHT ! r)}"
    using assms(1) by (auto simp: shows_number_def)
  obtain k q where b: "k < 10" "q < 10" "m = 10 * k + q" "set bs = {ucast (DISP_TAB_LEFT ! k), ucast (DISP_TAB_RIGHT ! q)}"
    using assms(2) by (auto simp: shows_number_def)
  have "DISP_TAB_LEFT ! i \<noteq> DISP_TAB_RIGHT ! j" if "i < 10" "j < 10" for i j
    using left_bit[OF that(1)] right_bit[OF that(2)] by metis
  then have d: "DISP_TAB_LEFT ! l \<noteq> DISP_TAB_RIGHT ! q" "DISP_TAB_LEFT ! k \<noteq> DISP_TAB_RIGHT ! r" using a(1,2) b(1,2) by blast+
  have "(ucast (DISP_TAB_LEFT ! l) :: u16) \<in> {ucast (DISP_TAB_LEFT ! k), ucast (DISP_TAB_RIGHT ! q)}"
    "(ucast (DISP_TAB_RIGHT ! r) :: u16) \<in> {ucast (DISP_TAB_LEFT ! k), ucast (DISP_TAB_RIGHT ! q)}" using a(4) b(4) by blast+
  then have "DISP_TAB_LEFT ! l = DISP_TAB_LEFT ! k" "DISP_TAB_RIGHT ! r = DISP_TAB_RIGHT ! q"
    using d by (simp_all add: ucast_8_16)
  then have "l = k" "r = q"
    using a(1,2) b(1,2) tables_distinct nth_eq_iff_index_eq[of DISP_TAB_LEFT l k] nth_eq_iff_index_eq[of DISP_TAB_RIGHT r q] by simp_all
  then show ?thesis using a(3) b(3) by simp
qed

lemma display_shows_switches:
  assumes "position g = 0 \<or> position g = 255" "ControllerID s = ucSaInputConvertToID (SaInput s)"
  shows "shows_number (unat (ucSaInputConvertToID (SaInput s))) (take 2 (ssp0_sent (segment_turn s (segment_turn s g))))"
    "position (segment_turn s g) = 0 \<or> position (segment_turn s g) = 255"
proof -
  define i where "i = ucSaInputConvertToID (SaInput s)"
  have i: "unat i < 32" unfolding i_def by (rule id_bound)
  have d: "unat (i div 10) = unat i div 10" "unat (i mod 10) = unat i mod 10"
    by (simp_all add: unat_div unat_mod)
  have "unat i = 10 * (unat i div 10) + unat i mod 10" "unat i div 10 < 10" "unat i mod 10 < 10" using i by simp_all
  moreover have "set (take 2 (ssp0_sent (segment_turn s (segment_turn s g)))) =
      {ucast (DISP_TAB_LEFT ! (unat i div 10)), ucast (DISP_TAB_RIGHT ! (unat i mod 10))}"
  proof (cases "position g = 0")
    case True
    then have "take 2 (ssp0_sent (segment_turn s (segment_turn s g))) =
        [ucast (DISP_TAB_RIGHT ! (unat i mod 10)), ucast (DISP_TAB_LEFT ! (unat i div 10))]"
      by (simp add: segment_turn_def vSegmentShowToggle_def Let_def d assms(2) i_def[symmetric])
    then show ?thesis by auto
  next
    case False
    then have "take 2 (ssp0_sent (segment_turn s (segment_turn s g))) =
        [ucast (DISP_TAB_LEFT ! (unat i div 10)), ucast (DISP_TAB_RIGHT ! (unat i mod 10))]"
      using assms(1) by (simp add: segment_turn_def vSegmentShowToggle_def Let_def d assms(2) i_def[symmetric])
    then show ?thesis by simp
  qed
  ultimately show "shows_number (unat (ucSaInputConvertToID (SaInput s))) (take 2 (ssp0_sent (segment_turn s (segment_turn s g))))"
    unfolding shows_number_def i_def[symmetric] by blast
  show "position (segment_turn s g) = 0 \<or> position (segment_turn s g) = 255"
    using assms(1) by (auto simp: segment_turn_def vSegmentShowToggle_def Let_def)
qed

text \<open>The clock gives back a valid time; a field out of range leaves its register as it was. The week starts at 0.\<close>

lemma unat_ucast_32: "unat (ucast (x :: u8) :: u32) = unat x" "unat (ucast (y :: u16) :: u32) = unat y"
proof -
  have "unat x < 2 ^ 8" "unat y < 2 ^ 16" using unsigned_less[of x, where 'a = nat] unsigned_less[of y, where 'a = nat] by simp_all
  then show "unat (ucast x :: u32) = unat x" "unat (ucast y :: u32) = unat y"
    by (simp_all add: unsigned_ucast_eq take_bit_nat_eq_self)
qed

lemma and_small:
  assumes "unat x < 2 ^ n" "m = mask n"
  shows "(x :: u32) AND m = x"
proof -
  have "unat (take_bit n x) = unat x" using assms(1) by (simp add: unsigned_take_bit_eq take_bit_nat_eq_self)
  then have "take_bit n x = x" by (simp only: word_unat_eq_iff)
  then show ?thesis by (simp only: assms(2) take_bit_eq_mask)
qed

lemma clock_roundtrip:
  assumes "year \<le> 4095" "1 \<le> month" "month \<le> 12" "1 \<le> day" "day \<le> 31" "hour \<le> 23" "mins \<le> 59" "sec \<le> 59" "dow \<le> 7"
  shows "vRTCGetTime (vRTCSetTime year month day hour mins sec dow r) =
    \<lparr>SEC = ucast sec, MINUTE = ucast mins, HOUR = ucast hour, DOM = ucast day, DOW = if dow = 7 then 0 else ucast dow,
     DOY = DOY r AND 0x1FF, MONTH = ucast month, YEAR = ucast year\<rparr>"
proof -
  note u = assms[unfolded word_le_nat_alt, simplified]
  have ranges: "(ucast year :: u32) \<le> 4095" "(1 :: u32) \<le> ucast month" "(ucast month :: u32) \<le> 12"
    "(1 :: u32) \<le> ucast day" "(ucast day :: u32) \<le> 31" "(ucast hour :: u32) \<le> 23" "(ucast mins :: u32) \<le> 59"
    "(ucast sec :: u32) \<le> 59" "dow \<noteq> 7 \<Longrightarrow> (ucast dow :: u32) \<le> 6"
    using u word_unat_eq_iff[of dow 7] by (simp_all add: word_le_nat_alt unat_ucast_32)
  have masks: "(ucast year :: u32) AND 0xFFF = ucast year" "(ucast month :: u32) AND 0xF = ucast month"
    "(ucast day :: u32) AND 0x1F = ucast day" "(ucast hour :: u32) AND 0x1F = ucast hour"
    "(ucast mins :: u32) AND 0x3F = ucast mins" "(ucast sec :: u32) AND 0x3F = ucast sec"
    "(ucast dow :: u32) AND 0x7 = ucast dow"
    using u by (intro and_small[of _ 12] and_small[of _ 4] and_small[of _ 5] and_small[of _ 6] and_small[of _ 3];
      simp add: unat_ucast_32 mask_eq_exp_minus_1)+
  show ?thesis
    unfolding vRTCGetTime_def vRTCSetTime_def using ranges masks
    by (simp add: RTC_SetTime_def RTC_GetFullTime_def)
qed

text \<open>Clearing a pin only releases relays, and the pins of the converters are none of theirs.\<close>

lemma DO_on_clear: "DO_on ch (GPIO_ClearValue p m s) \<Longrightarrow> DO_on ch s"
  by (auto simp: DO_on_def GPIO_ClearValue_def bit_simps split: if_splits)

lemma DO_off_init: 
  assumes "DO_channel ch"
  shows "\<not> DO_on ch (vDigitalOutputInit s)"
proof -
  have "\<forall>i < n. n \<le> DO_NUM \<longrightarrow> \<not> bit (gpio t (Port (DO_IOList ! i))) (Pin (DO_IOList ! i))"
    if "t = for_loop n (\<lambda>i s. GPIO_ClearValue (Port (DO_IOList ! i)) (push_bit (Pin (DO_IOList ! i)) 1) s) s" for n t
    using that by (induction n arbitrary: t)
      (auto simp: for_loop_Suc GPIO_ClearValue_def bit_simps less_Suc_eq)
  from this[OF refl, of DO_NUM] show ?thesis
    unfolding DO_on_def vDigitalOutputInit_def using DO_channel_index[OF assms] by blast
qed

lemma DO_on_other_pin:
  assumes c: "DO_channel ch" and d: "Pin d < 32" "\<forall>p \<in> set DO_IOList. \<not> (Port p = Port d \<and> Pin p = Pin d)"
  shows "DO_on ch (GPIO_SetValue (Port d) (push_bit (Pin d) 1) s) = DO_on ch s"
proof -
  have "DO_IOList ! (unat ch - 1) \<in> set DO_IOList" using DO_channel_index[OF c] by simp
  with d show ?thesis by (auto simp: DO_on_def GPIO_SetValue_def bit_set_pin)
qed

lemma DO_on_alarm:
  assumes "DO_channel ch"
  shows "DO_on ch (GPIO_SetValue (Port DAC1ALARM) (push_bit (Pin DAC1ALARM) 1) s) = DO_on ch s"
    "DO_on ch (GPIO_SetValue (Port DAC2ALARM) (push_bit (Pin DAC2ALARM) 1) s) = DO_on ch s"
  by (rule DO_on_other_pin[OF assms]; simp add: DAC1ALARM_def DAC2ALARM_def DO_IOList_def)+

lemma gpio_vPWM1Init: "gpio (vPWM1Init s) = gpio s"
  by (simp add: vPWM1Init_def PWM_ChannelCmd_def PWM_MatchUpdate_def PWM_Init_def upt_rec)

text \<open>After the start all relays are off, and the outputs 1 to 6 enabled with a duty of 0: no current, below the 4 mA of the range.\<close>

lemma outputs_start_off:
  "DO_channel ch \<Longrightarrow> \<not> DO_on ch (vOutputInit s)"
  "1 \<le> n \<Longrightarrow> n \<le> 6 \<Longrightarrow> pwm_match (vOutputInit s) n = 0 \<and> pwm_ena (vOutputInit s) n"
  "pwm_match (vOutputInit s) 0 = 200"
proof -
  show "\<not> DO_on ch (vOutputInit s)" if c: "DO_channel ch"
  proof -
    have "DO_on ch (vOutputInit s) = DO_on ch (vDAC7760Init (vDigitalOutputInit s))"
      by (simp add: DO_on_def vOutputInit_def gpio_vPWM1Init)
    moreover have "DO_on ch (vDAC7760Init t) \<Longrightarrow> DO_on ch t" for t :: "'a io_scheme"
      unfolding vDAC7760Init_def Let_def
      by (auto simp only: DO_on_vSendDataToDAC7760[OF c] DO_on_alarm[OF c] dest!: DO_on_clear)
    ultimately show ?thesis using DO_off_init[OF c] by blast
  qed
  show "pwm_match (vOutputInit s) n = 0 \<and> pwm_ena (vOutputInit s) n" if "1 \<le> n" "n \<le> 6"
  proof -
    from that consider "n = 1" | "n = 2" | "n = 3" | "n = 4" | "n = 5" | "n = 6" by linarith
    then show ?thesis
      by cases (simp_all add: vOutputInit_def vPWM1Init_def PWM_ChannelCmd_def PWM_MatchUpdate_def upt_rec)
  qed
  show "pwm_match (vOutputInit s) 0 = 200"
    by (simp add: vOutputInit_def vPWM1Init_def PWM_ChannelCmd_def PWM_MatchUpdate_def PWM_MATCH_VALUE_def upt_rec)
qed

text \<open>Each converter is sent its configuration, the range of 4 to 20 mA and the code 0, in this order.\<close>

lemma sent_vSendDataToDAC7760:
  "ssp1_sent (vSendDataToDAC7760 n v s) =
     (if n = 1 \<or> n = 2 then ucast (v AND 0xFF) # ucast (drop_bit 8 v AND 0xFF) # ucast (drop_bit 16 v AND 0xFF) # ssp1_sent s
      else ssp1_sent s)"
  by (simp add: vSendDataToDAC7760_def Let_def vSetDAC7760IO_def vClrDAC7760IO_def GPIO_SetValue_def
      GPIO_ClearValue_def SSP_SendData_def)

lemma sent_GPIO: "ssp1_sent (GPIO_SetValue p m s) = ssp1_sent s" "ssp1_sent (GPIO_ClearValue p m s) = ssp1_sent s"
  by (simp_all add: GPIO_SetValue_def GPIO_ClearValue_def)

lemma sent_vPWM1Init: "ssp1_sent (vPWM1Init s) = ssp1_sent s"
  by (simp add: vPWM1Init_def PWM_ChannelCmd_def PWM_MatchUpdate_def PWM_Init_def upt_rec)

lemma start_bytes:
  "(ucast (DAC7760_REG_CFG AND 0xFF) :: u8) = 0" "(ucast (drop_bit 8 DAC7760_REG_CFG AND 0xFF) :: u8) = 0"
  "(ucast (drop_bit 16 DAC7760_REG_CFG AND 0xFF) :: u8) = 0x57"
  "(ucast ((Iout4To20 OR DAC7760_REG_OUT) AND 0xFF) :: u8) = 5"
  "(ucast (drop_bit 8 (Iout4To20 OR DAC7760_REG_OUT) AND 0xFF) :: u8) = 0x10"
  "(ucast (drop_bit 16 (Iout4To20 OR DAC7760_REG_OUT) AND 0xFF) :: u8) = 0x55"
  "(ucast (DAC7760_REG_DATA AND 0xFF) :: u8) = 0" "(ucast (drop_bit 8 DAC7760_REG_DATA AND 0xFF) :: u8) = 0"
  "(ucast (drop_bit 16 DAC7760_REG_DATA AND 0xFF) :: u8) = 1"
  by (simp_all add: DAC7760_REG_CFG_def DAC7760_REG_OUT_def DAC7760_REG_DATA_def Iout4To20_def)

lemma converters_start:
  "rev (take 18 (ssp1_sent (vOutputInit s))) =
     [0x57, 0, 0, 0x55, 0x10, 0x05, 0x01, 0, 0, 0x57, 0, 0, 0x55, 0x10, 0x05, 0x01, 0, 0]"
  unfolding vOutputInit_def sent_vPWM1Init vDAC7760Init_def Let_def sent_vSendDataToDAC7760 sent_GPIO start_bytes
  by simp

text \<open>Two frames in a row bring the lamp of a port back: it shows traffic, not its direction.\<close>

lemma modbus_lamp_toggles:
  "led_on LedModbus1 (snd (vModbusMasterCallback st s)) = st"
  "fst (vModbusMasterCallback st s) = (\<not> st)"
  "led_on LedModbus2 (snd (vModbusSlaveCallback st s)) = st"
  by (simp_all add: vModbusMasterCallback_def vModbusSlaveCallback_def led_switch LedModbus1_def LedModbus2_def)

text \<open>The lamps are dark and the relays still off when the tasks are created.\<close>

lemma DO_on_lamp:
  assumes "DO_channel ch" "led \<in> {LedMCU, LedModbus1, LedModbus2, LedCAN}"
  shows "DO_on ch (GPIO_SetValue (Port led) (push_bit (Pin led) 1) s) = DO_on ch s"
  using assms(2) by (intro DO_on_other_pin[OF assms(1)])
    (auto simp: LedMCU_def LedModbus1_def LedModbus2_def LedCAN_def DO_IOList_def)

lemma board_starts_off:
  assumes "DO_channel ch"
  shows "\<not> DO_on ch (board_start s)"
    "led \<in> {LedMCU, LedModbus1, LedModbus2, LedCAN} \<Longrightarrow> \<not> led_on led (board_start s)"
proof -
  have "DO_on ch (board_start s) = DO_on ch (vInputInit (vOutputInit s))"
    unfolding board_start_def vLedInit_def Let_def by (simp only: DO_on_lamp[OF assms] insert_iff simp_thms)
  then show "\<not> DO_on ch (board_start s)"
    using outputs_start_off(1)[OF assms] DO_on_clear unfolding vInputInit_def by blast
  show "\<not> led_on led (board_start s)" if "led \<in> {LedMCU, LedModbus1, LedModbus2, LedCAN}"
    using that by (auto simp: board_start_def vLedInit_def Let_def led_on_def GPIO_SetValue_def bit_or_iff
        LedMCU_def LedModbus1_def LedModbus2_def LedCAN_def)
qed

end
