(* ===== verification/TcpServer.thy ===== *)
theory TcpServer
  imports SlaveProps
begin

text \<open>
  The server task that accepts the supervisor's connections and hands them to the poll task of the slave:
  \<open>vMBSlaveTcpServerTask\<close> (\<open>FreeModbus/slave/tcp/mbtcp.c\<close>) and the registration of nodes
  (\<open>slave/functions/mb.c\<close>), with the two tasks interleaved turn by turn.
\<close>

section \<open>State\<close>

text \<open>
  One element of \<open>sMBSlaveTcpClients\<close>: the slave's data (theory \<open>MbSlave\<close>), and what registration sets. Callbacks
  are present or not. Nodes are linked by their index. The poll task waits first in \<open>eMBSlaveEnable\<close>, called from
  \<open>vMBSlaveTCPPollTask\<close>, later in \<open>eMBSlavePoll\<close>.
\<close>

datatype eMBMode = MB_RTU | MB_ASCII | MB_TCP

datatype poll_task = No_Task | Task_Created | Task_Running

record 'v sMBSlaveInfo =
  sl :: "'v slave"
  eMode :: eMBMode
  fd :: int
  pcMBPortName :: "string option"
  iSocketOfflines :: int
  ucSlavePollPrio :: u8
  pvMBSlaveReceiveCallback :: bool
  pvMBSlaveSendCallback :: bool
  pNext :: "nat option"
  pLast :: "nat option"
  sSlavePollTCB :: poll_task

text \<open>\<open>iClientNum\<close> is the local of the server task; \<open>psMBSlaveList\<close> the file variable of \<open>mb.c\<close>.\<close>

record 'v sMBSlaveTcpInfo =
  tcp_ucSlaveAddr :: u8
  ucSlaveTcpPollPrio :: u8
  tcp_ReceiveCallback :: bool
  tcp_SendCallback :: bool
  clients :: "'v sMBSlaveInfo list"
  iClientNum :: nat
  psMBSlaveList :: "nat option"

record sMBSlaveNodeInfo =
  node_eMode :: eMBMode
  node_pcMBPortName :: "string option"
  node_ucSlaveAddr :: u8
  node_iSocketClient :: int
  node_ucSlavePollPrio :: u8

definition MB_SLAVE_MAX_TCP_CLIENT :: nat where "MB_SLAVE_MAX_TCP_CLIENT = 1"

text \<open>Before any task runs the structure is zero but for the dictionary and the variables it refers to.\<close>

definition slave_zero :: "'v sMBSlaveCommData \<Rightarrow> ('v \<Rightarrow> u16) \<Rightarrow> 'v slave" where
  "slave_zero d m = \<lparr>psSlaveCurData = d, slave_mem = m, ucSlaveAddr = 0, eMBState = STATE_ENABLED,
     ucRcvBuf = replicate 256 0, usRcvBufferPos = 0, usLength = 0, pucMBFrame = None, ucRcvAddress = 0,
     eQueuedEvent = None, xSocketConnected = False, sent = []\<rparr>"

definition client_zero :: "'v sMBSlaveCommData \<Rightarrow> ('v \<Rightarrow> u16) \<Rightarrow> 'v sMBSlaveInfo" where
  "client_zero d m = \<lparr>sl = slave_zero d m, eMode = MB_RTU, fd = 0, pcMBPortName = None, iSocketOfflines = 0,
     ucSlavePollPrio = 0, pvMBSlaveReceiveCallback = False, pvMBSlaveSendCallback = False, pNext = None,
     pLast = None, sSlavePollTCB = No_Task\<rparr>"

text \<open>\<open>vModbusSlaveTCPInit\<close> and the start of the server task, the sockets being open; \<open>vRegistTcpCommData\<close> sets \<open>d\<close>.\<close>

definition vModbusSlaveTCPInit :: "u8 \<Rightarrow> u8 \<Rightarrow> 'v sMBSlaveCommData \<Rightarrow> ('v \<Rightarrow> u16) \<Rightarrow> 'v sMBSlaveTcpInfo" where
  "vModbusSlaveTCPInit ControllerID pollprio d m =
     \<lparr>tcp_ucSlaveAddr = ControllerID, ucSlaveTcpPollPrio = pollprio, tcp_ReceiveCallback = False,
      tcp_SendCallback = True, clients = replicate MB_SLAVE_MAX_TCP_CLIENT (client_zero d m), iClientNum = 0,
      psMBSlaveList = None\<rparr>"

section \<open>Registration of a node\<close>

text \<open>The search ends at a node without a name, and returns it. The fuel is the number of nodes.\<close>

fun find_node :: "nat \<Rightarrow> 'v sMBSlaveInfo list \<Rightarrow> string \<Rightarrow> nat option \<Rightarrow> nat option" where
  "find_node 0 cs name p = None"
| "find_node (Suc n) cs name p =
     (case p of None \<Rightarrow> None
      | Some i \<Rightarrow> (case pcMBPortName (cs ! i) of
                    None \<Rightarrow> Some i
                  | Some nm \<Rightarrow> if nm = name then Some i else find_node n cs name (pNext (cs ! i))))"

definition psMBSlaveFindNodeByPort :: "string option \<Rightarrow> 'v sMBSlaveTcpInfo \<Rightarrow> nat option" where
  "psMBSlaveFindNodeByPort name v =
     (case name of None \<Rightarrow> None | Some nm \<Rightarrow> find_node (Suc (length (clients v))) (clients v) nm (psMBSlaveList v))"

definition client_update :: "nat \<Rightarrow> ('v sMBSlaveInfo \<Rightarrow> 'v sMBSlaveInfo) \<Rightarrow> 'v sMBSlaveTcpInfo \<Rightarrow> 'v sMBSlaveTcpInfo" where
  "client_update i f v = v\<lparr>clients := (clients v)[i := f (clients v ! i)]\<rparr>"

text \<open>What \<open>OSTaskCreate\<close> reports is an argument. The stack knows no task for the modes that are configured out, and then reports success.\<close>

definition xMBSlaveCreatePollTask :: "bool \<Rightarrow> 'v sMBSlaveInfo \<Rightarrow> bool \<times> 'v sMBSlaveInfo" where
  "xMBSlaveCreatePollTask created c =
     (if eMode c = MB_TCP then (created, if created then c\<lparr>sSlavePollTCB := Task_Created\<rparr> else c) else (True, c))"

text \<open>The node \<open>k\<close> becomes the last of the list.\<close>

definition list_append :: "nat \<Rightarrow> 'v sMBSlaveTcpInfo \<Rightarrow> 'v sMBSlaveTcpInfo" where
  "list_append k v =
     (let v1 = (case psMBSlaveList v of
                  None \<Rightarrow> v\<lparr>psMBSlaveList := Some k\<rparr>
                | Some h \<Rightarrow> (case pLast (clients v ! h) of
                    None \<Rightarrow> v | Some l \<Rightarrow> client_update l (\<lambda>c. c\<lparr>pNext := Some k\<rparr>) v));
          h1 = (case psMBSlaveList v1 of None \<Rightarrow> k | Some h \<Rightarrow> h)
      in client_update h1 (\<lambda>c. c\<lparr>pLast := Some k\<rparr>) v1)"

definition xMBSlaveRegistNode ::
    "bool \<Rightarrow> nat \<Rightarrow> sMBSlaveNodeInfo \<Rightarrow> 'v sMBSlaveTcpInfo \<Rightarrow> bool \<times> 'v sMBSlaveTcpInfo" where
  "xMBSlaveRegistNode created k node v =
     (if node_pcMBPortName node = None then (False, v)
      else if psMBSlaveFindNodeByPort (node_pcMBPortName node) v = None
      then let c = (clients v ! k)\<lparr>eMode := node_eMode node, pNext := None, pcMBPortName := node_pcMBPortName node,
                     fd := node_iSocketClient node,
                     sl := (sl (clients v ! k))\<lparr>ucSlaveAddr := node_ucSlaveAddr node\<rparr>,
                     ucSlavePollPrio := node_ucSlavePollPrio node\<rparr>;
               (ok, c1) = xMBSlaveCreatePollTask created c;
               v1 = v\<lparr>clients := (clients v)[k := c1]\<rparr>
           in if ok then (True, list_append k v1) else (False, v1)
      else (False, v))"

section \<open>The server task\<close>

definition set_connected :: "'v sMBSlaveInfo \<Rightarrow> 'v sMBSlaveInfo" where
  "set_connected c = c\<lparr>sl := (sl c)\<lparr>xSocketConnected := True\<rparr>\<rparr>"

text \<open>The index at which the loop over the slots stops: the first that is not connected, or behind the last.\<close>

definition first_free :: "'v sMBSlaveInfo list \<Rightarrow> nat" where
  "first_free cs = length (takeWhile (\<lambda>c. xSocketConnected (sl c)) cs)"

text \<open>
  The name of a client. The digit replaces the NUL that ends the array \<open>c1\<close>, so \<open>strcpy\<close> goes on with \<open>behind\<close>,
  what the stack holds behind the array up to the next NUL; longer than 16 bytes it leaves the buffer (\<open>None\<close>).
\<close>

definition client_name :: "nat \<Rightarrow> string \<Rightarrow> string option" where
  "client_name n behind =
     (let name = ''MB_TCP_CLIENT_'' @ [char_of (48 + n)] @ behind in if length name < 16 then Some name else None)"

text \<open>One turn of the loop: \<open>conn\<close> is the result of \<open>accept\<close>, -1 for none, called only when a slot is free.\<close>

definition server_turn :: "int \<Rightarrow> bool \<Rightarrow> string \<Rightarrow> 'v sMBSlaveTcpInfo \<Rightarrow> 'v sMBSlaveTcpInfo option" where
  "server_turn conn created behind v =
     (let i = first_free (clients v);
          sock = (if i < MB_SLAVE_MAX_TCP_CLIENT then conn else - 1)
      in if sock = - 1 then Some v
         else if iClientNum v < MB_SLAVE_MAX_TCP_CLIENT
         then do { name \<leftarrow> client_name (iClientNum v) behind;
                   let (ok, v1) = xMBSlaveRegistNode created (iClientNum v)
                         \<lparr>node_eMode = MB_TCP, node_pcMBPortName = Some name, node_ucSlaveAddr = tcp_ucSlaveAddr v,
                          node_iSocketClient = sock, node_ucSlavePollPrio = ucSlaveTcpPollPrio v\<rparr> v;
                       v2 = (if ok
                             then client_update i (\<lambda>c. c\<lparr>iSocketOfflines := 0,
                                      pvMBSlaveReceiveCallback := tcp_ReceiveCallback v \<or> pvMBSlaveReceiveCallback c,
                                      pvMBSlaveSendCallback := tcp_SendCallback v \<or> pvMBSlaveSendCallback c\<rparr>)
                                    (client_update (iClientNum v) set_connected v1)
                             else v1)
                   in Some (v2\<lparr>iClientNum := iClientNum v + 1\<rparr>) }
         else if first_free (clients v) < MB_SLAVE_MAX_TCP_CLIENT
         then Some (client_update (first_free (clients v))
                      (\<lambda>c. (set_connected (c\<lparr>fd := sock\<rparr>))\<lparr>iSocketOfflines := 0\<rparr>) v)
         else Some v)"

section \<open>The poll task\<close>

text \<open>The events on which \<open>eMBSlavePoll\<close> asks for the next request.\<close>

definition asks :: "'v slave \<Rightarrow> bool" where
  "asks s \<longleftrightarrow> eQueuedEvent s \<in> {Some EV_READY, Some EV_FRAME_SENT, Some EV_ERROR_RCV}"

text \<open>
  One turn of the poll task; \<open>recv\<close> is what the socket gives if the turn reads. A turn that would read waits while
  the slot is not connected (the loop at the start of \<open>xMBSlaveTCPPortGetRequest\<close>).
\<close>

definition poll_turn :: "u8 list \<Rightarrow> 'v sMBSlaveInfo \<Rightarrow> 'v sMBSlaveInfo option" where
  "poll_turn recv c =
     (case sSlavePollTCB c of
        No_Task \<Rightarrow> Some c
      | Task_Created \<Rightarrow>
          if xSocketConnected (sl c)
          then Some (c\<lparr>sl := snd (eMBSlaveEnable recv (eMBSlaveTCPInit (sl c))), sSlavePollTCB := Task_Running\<rparr>)
          else Some c
      | Task_Running \<Rightarrow>
          if asks (sl c) \<and> \<not> xSocketConnected (sl c) then Some c
          else map_option (\<lambda>r. c\<lparr>sl := snd r\<rparr>) (eMBSlavePoll recv (sl c)))"

section \<open>Both tasks\<close>

text \<open>A turn of the server task, or of the poll task of a client; a client that does not exist has no turn.\<close>

datatype tcp_event = Accept int bool string | Poll nat "u8 list"

fun tcp_turn :: "tcp_event \<Rightarrow> 'v sMBSlaveTcpInfo \<Rightarrow> 'v sMBSlaveTcpInfo option" where
  "tcp_turn (Accept sock created behind) v = server_turn sock created behind v"
| "tcp_turn (Poll i recv) v =
     (if i < length (clients v)
      then map_option (\<lambda>c. v\<lparr>clients := (clients v)[i := c]\<rparr>) (poll_turn recv (clients v ! i)) else Some v)"

fun tcp_run :: "tcp_event list \<Rightarrow> 'v sMBSlaveTcpInfo \<Rightarrow> 'v sMBSlaveTcpInfo option" where
  "tcp_run [] v = Some v"
| "tcp_run (e # es) v = do { v1 \<leftarrow> tcp_turn e v; tcp_run es v1 }"

lemma tcp_run_append: "tcp_run (es @ fs) v = do { v1 \<leftarrow> tcp_run es v; tcp_run fs v1 }"
  by (induction es arbitrary: v) (auto split: bind_splits)

section \<open>The states of the interface\<close>

text \<open>
  With one slot the interface is in one of four states: nothing registered; a node whose task could not be created;
  a node whose task waits for its first read; a node whose task polls. \<open>tcp_ok\<close> holds in all reachable states.
\<close>

definition tcp_ok :: "u8 \<Rightarrow> 'v sMBSlaveTcpInfo \<Rightarrow> bool" where
  "tcp_ok addr v \<longleftrightarrow> tcp_ucSlaveAddr v = addr \<and> (\<exists>c. clients v = [c] \<and>
     (iClientNum v = 0 \<longrightarrow> sSlavePollTCB c = No_Task \<and> psMBSlaveList v = None \<and> \<not> xSocketConnected (sl c)) \<and>
     (sSlavePollTCB c \<noteq> No_Task \<longrightarrow> ucSlaveAddr (sl c) = addr) \<and>
     (sSlavePollTCB c = Task_Running \<longrightarrow> eMBState (sl c) = STATE_ENABLED))"

lemma find_node_none: "find_node n cs name None = None"
  by (cases n) simp_all

lemma regist_first:
  assumes "clients v = [c]" "psMBSlaveList v = None" "node_pcMBPortName node = Some nm" "node_eMode node = MB_TCP"
  shows "xMBSlaveRegistNode created 0 node v =
    (let c1 = c\<lparr>eMode := MB_TCP, pNext := None, pcMBPortName := Some nm, fd := node_iSocketClient node,
             sl := (sl c)\<lparr>ucSlaveAddr := node_ucSlaveAddr node\<rparr>, ucSlavePollPrio := node_ucSlavePollPrio node\<rparr>
     in if created then (True, v\<lparr>clients := [c1\<lparr>sSlavePollTCB := Task_Created, pLast := Some 0\<rparr>], psMBSlaveList := Some 0\<rparr>)
        else (False, v\<lparr>clients := [c1]\<rparr>))"
  using assms
  by (simp add: xMBSlaveRegistNode_def psMBSlaveFindNodeByPort_def xMBSlaveCreatePollTask_def list_append_def
      client_update_def Let_def)

text \<open>The three things a turn of the server task does.\<close>

lemma server_waits:
  "clients v = [c] \<Longrightarrow> xSocketConnected (sl c) \<or> conn = - 1 \<Longrightarrow> server_turn conn created behind v = Some v"
  by (auto simp: server_turn_def first_free_def MB_SLAVE_MAX_TCP_CLIENT_def Let_def)

lemma server_again:
  assumes "clients v = [c]" "\<not> xSocketConnected (sl c)" "conn \<noteq> - 1" "iClientNum v \<noteq> 0"
  shows "server_turn conn created behind v =
    Some (v\<lparr>clients := [c\<lparr>fd := conn, sl := (sl c)\<lparr>xSocketConnected := True\<rparr>, iSocketOfflines := 0\<rparr>]\<rparr>)"
  using assms
  by (simp add: server_turn_def first_free_def MB_SLAVE_MAX_TCP_CLIENT_def Let_def client_update_def set_connected_def)

definition registered :: "'v sMBSlaveTcpInfo \<Rightarrow> int \<Rightarrow> string \<Rightarrow> 'v sMBSlaveInfo \<Rightarrow> 'v sMBSlaveInfo" where
  "registered v conn nm c = c\<lparr>eMode := MB_TCP, pNext := None, pcMBPortName := Some nm, fd := conn,
     sl := (sl c)\<lparr>ucSlaveAddr := tcp_ucSlaveAddr v\<rparr>, ucSlavePollPrio := ucSlaveTcpPollPrio v\<rparr>"

lemma server_first:
  assumes "clients v = [c]" "\<not> xSocketConnected (sl c)" "conn \<noteq> - 1" "iClientNum v = 0" "psMBSlaveList v = None"
    and "client_name 0 behind = Some nm"
  shows "server_turn conn created behind v = Some (
    if created
    then v\<lparr>psMBSlaveList := Some 0,
        clients := [set_connected ((registered v conn nm c)\<lparr>sSlavePollTCB := Task_Created, pLast := Some 0,
           iSocketOfflines := 0, pvMBSlaveReceiveCallback := tcp_ReceiveCallback v \<or> pvMBSlaveReceiveCallback c,
           pvMBSlaveSendCallback := tcp_SendCallback v \<or> pvMBSlaveSendCallback c\<rparr>)], iClientNum := 1\<rparr>
    else v\<lparr>clients := [registered v conn nm c], iClientNum := 1\<rparr>)"
  using assms
  by (simp add: server_turn_def first_free_def MB_SLAVE_MAX_TCP_CLIENT_def Let_def regist_first registered_def
      client_update_def set_connected_def)

lemma server_faults:
  assumes "clients v = [c]" "\<not> xSocketConnected (sl c)" "conn \<noteq> - 1" "iClientNum v = 0" "client_name 0 behind = None"
  shows "server_turn conn created behind v = None"
  using assms by (simp add: server_turn_def first_free_def MB_SLAVE_MAX_TCP_CLIENT_def Let_def)

lemma client_name_0: "client_name 0 behind = (if behind = [] then Some ''MB_TCP_CLIENT_0'' else None)"
proof -
  have "(char_of (48 :: nat) :: char) = CHR ''0''" by code_simp
  then show ?thesis by (simp add: client_name_def Let_def)
qed

text \<open>What a turn of the poll task keeps.\<close>

lemma read_keeps:
  "ucSlaveAddr (xMBSlaveTCPPortGetRequest r s) = ucSlaveAddr s" "eMBState (xMBSlaveTCPPortGetRequest r s) = eMBState s"
  "sent (xMBSlaveTCPPortGetRequest r s) = sent s"
  by (simp_all add: xMBSlaveTCPPortGetRequest_def xMBSlavePortEventPost_def Let_def)

lemma send_keeps:
  "eMBSlaveTCPSend a s = Some s1 \<Longrightarrow> eMBState s1 = eMBState s \<and> ucSlaveAddr s1 = ucSlaveAddr s"
  by (auto simp: eMBSlaveTCPSend_def xMBSlavePortEventPost_def dest!: bind_SomeD split: if_splits)

lemma execute_keeps:
  assumes "execute_request s = Some s1"
  shows "eMBState s1 = eMBState s \<and> ucSlaveAddr s1 = ucSlaveAddr s"
proof -
  obtain code ex s2 where h: "call_handler code s = Some (ex, s2)"
      "(if ucRcvAddress s2 \<noteq> 0
        then do { s3 \<leftarrow> (if ex \<noteq> MB_EX_NONE then response_head (code OR 128) (exception_code ex) s2 else Some s2);
                  eMBSlaveTCPSend (ucSlaveAddr s3) s3 } else Some s2) = Some s1"
    using assms unfolding execute_request_def by (fastforce dest!: bind_SomeD)
  have "eMBState s1 = eMBState s2 \<and> ucSlaveAddr s1 = ucSlaveAddr s2"
    using h(2) by (auto dest!: bind_SomeD send_keeps response_head_link simp: same_link_def split: if_splits)
  then show ?thesis using call_handler_link[OF h(1)] by (simp add: same_link_def)
qed

lemma poll_keeps:
  assumes "eMBSlavePoll r s = Some (err, s1)"
  shows "eMBState s1 = eMBState s \<and> ucSlaveAddr s1 = ucSlaveAddr s"
  using assms
  by (auto simp: eMBSlavePoll_def Let_def xMBSlavePortEventPost_def read_keeps split: if_splits option.splits
      eMBSlaveEventType.splits prod.splits dest!: execute_keeps eMBSlaveTCPReceive_link)

lemma poll_turn_keeps:
  assumes "poll_turn r c = Some c1" "sSlavePollTCB c = Task_Running \<Longrightarrow> eMBState (sl c) = STATE_ENABLED"
  shows "ucSlaveAddr (sl c1) = ucSlaveAddr (sl c) \<and> (sSlavePollTCB c1 = No_Task \<longleftrightarrow> sSlavePollTCB c = No_Task) \<and>
    (sSlavePollTCB c = No_Task \<longrightarrow> c1 = c) \<and> (sSlavePollTCB c1 = Task_Running \<longrightarrow> eMBState (sl c1) = STATE_ENABLED)"
proof (cases "sSlavePollTCB c")
  case Task_Created
  then show ?thesis
    using assms by (auto simp: poll_turn_def eMBSlaveEnable_def eMBSlaveTCPInit_def read_keeps split: if_splits)
next
  case Task_Running
  then show ?thesis using assms by (auto simp: poll_turn_def dest!: poll_keeps split: if_splits)
qed (use assms in \<open>simp add: poll_turn_def\<close>)

lemma tcp_ok_start: "tcp_ok addr (vModbusSlaveTCPInit addr prio d m)"
  by (simp add: tcp_ok_def vModbusSlaveTCPInit_def MB_SLAVE_MAX_TCP_CLIENT_def client_zero_def slave_zero_def)

lemma tcp_ok_server:
  assumes "tcp_ok addr v" "server_turn conn created behind v = Some v'"
  shows "tcp_ok addr v'"
proof -
  obtain c where c: "clients v = [c]" "tcp_ucSlaveAddr v = addr"
      "iClientNum v = 0 \<longrightarrow> sSlavePollTCB c = No_Task \<and> psMBSlaveList v = None \<and> \<not> xSocketConnected (sl c)"
      "sSlavePollTCB c \<noteq> No_Task \<longrightarrow> ucSlaveAddr (sl c) = addr"
      "sSlavePollTCB c = Task_Running \<longrightarrow> eMBState (sl c) = STATE_ENABLED"
    using assms(1) by (auto simp: tcp_ok_def)
  consider "xSocketConnected (sl c) \<or> conn = - 1" | "\<not> xSocketConnected (sl c)" "conn \<noteq> - 1" "iClientNum v \<noteq> 0"
    | nm where "\<not> xSocketConnected (sl c)" "conn \<noteq> - 1" "iClientNum v = 0" "client_name 0 behind = Some nm"
    using server_faults[OF c(1), of conn behind created] assms(2) by (cases "client_name 0 behind") auto
  then show ?thesis
  proof cases
    case 1
    then show ?thesis using server_waits[OF c(1) 1] assms by simp
  next
    case 2
    then show ?thesis using server_again[OF c(1) 2] assms(2) c by (auto simp: tcp_ok_def)
  next
    case 3
    then show ?thesis
      using server_first[OF c(1) 3(1,2,3) _ 3(4), of created] assms(2) c
      by (auto simp: tcp_ok_def registered_def set_connected_def split: if_splits)
  qed
qed

lemma tcp_ok_turn: "tcp_ok addr v \<Longrightarrow> tcp_turn e v = Some v' \<Longrightarrow> tcp_ok addr v'"
proof (cases e)
  case (Poll i recv)
  assume a: "tcp_ok addr v" "tcp_turn e v = Some v'"
  then obtain c where c: "clients v = [c]" "sSlavePollTCB c = Task_Running \<longrightarrow> eMBState (sl c) = STATE_ENABLED"
    by (auto simp: tcp_ok_def)
  show ?thesis
    using a c(1) poll_turn_keeps[of recv c, OF _ mp[OF c(2)]] by (auto simp: Poll tcp_ok_def split: if_splits)
qed (auto intro: tcp_ok_server)

lemma tcp_ok_run: "tcp_run es v = Some v' \<Longrightarrow> tcp_ok addr v \<Longrightarrow> tcp_ok addr v'"
  by (induction es arbitrary: v) (auto dest!: bind_SomeD dest: tcp_ok_turn)

section \<open>What becomes of a connection\<close>

text \<open>The poll task reads in its next turn.\<close>

definition reading :: "'v sMBSlaveTcpInfo \<Rightarrow> bool" where
  "reading v \<longleftrightarrow> (\<exists>c. clients v = [c] \<and> xSocketConnected (sl c) \<and>
     (sSlavePollTCB c = Task_Created \<or> sSlavePollTCB c = Task_Running \<and> asks (sl c)))"

definition the_client :: "'v sMBSlaveTcpInfo \<Rightarrow> 'v sMBSlaveInfo" where
  "the_client v = hd (clients v)"

lemma read_turn:
  assumes "tcp_ok addr v" "reading v"
  shows "\<exists>s c. tcp_turn (Poll 0 r) v = Some (v\<lparr>clients := [c]\<rparr>) \<and> sSlavePollTCB c = Task_Running \<and> iClientNum v \<noteq> 0 \<and>
    sl c = xMBSlaveTCPPortGetRequest r s \<and> eMBState s = STATE_ENABLED \<and> ucSlaveAddr s = addr \<and>
    sent s = sent (sl (the_client v)) \<and> length (ucRcvBuf s) = length (ucRcvBuf (sl (the_client v)))"
proof -
  obtain c where c: "clients v = [c]" "xSocketConnected (sl c)"
      "sSlavePollTCB c = Task_Created \<or> sSlavePollTCB c = Task_Running \<and> asks (sl c)"
    using assms(2) by (auto simp: reading_def)
  have ok: "iClientNum v \<noteq> 0" "ucSlaveAddr (sl c) = addr" "sSlavePollTCB c = Task_Running \<Longrightarrow> eMBState (sl c) = STATE_ENABLED"
    using assms(1) c by (auto simp: tcp_ok_def)
  show ?thesis
  proof (cases "sSlavePollTCB c = Task_Created")
    case True
    define s where "s = (sl c)\<lparr>eQueuedEvent := None, eMBState := STATE_ENABLED\<rparr>"
    have "tcp_turn (Poll 0 r) v = Some (v\<lparr>clients := [c\<lparr>sl := xMBSlaveTCPPortGetRequest r s, sSlavePollTCB := Task_Running\<rparr>]\<rparr>)"
      using True c by (simp add: poll_turn_def eMBSlaveEnable_def eMBSlaveTCPInit_def s_def xMBSlaveTCPPortGetRequest_def
          xMBSlavePortEventPost_def Let_def)
    then show ?thesis
      using ok c(1) by (intro exI[of _ s] exI[of _ "c\<lparr>sl := xMBSlaveTCPPortGetRequest r s, sSlavePollTCB := Task_Running\<rparr>"])
        (simp add: s_def the_client_def)
  next
    case False
    define s where "s = (sl c)\<lparr>eQueuedEvent := None\<rparr>"
    have r: "sSlavePollTCB c = Task_Running" "asks (sl c)" using False c(3) by auto
    then have "eMBSlavePoll r (sl c) = Some (MB_ENOERR, xMBSlaveTCPPortGetRequest r s)"
      using ok(3) by (auto simp: asks_def eMBSlavePoll_def s_def)
    then have "tcp_turn (Poll 0 r) v = Some (v\<lparr>clients := [c\<lparr>sl := xMBSlaveTCPPortGetRequest r s\<rparr>]\<rparr>)"
      using r c by (simp add: poll_turn_def)
    then show ?thesis
      using ok r c(1) by (intro exI[of _ s] exI[of _ "c\<lparr>sl := xMBSlaveTCPPortGetRequest r s\<rparr>"])
        (simp add: s_def the_client_def)
  qed
qed

text \<open>A connected client whose task waits for an event: nothing happens any more, whatever is received and whoever connects.\<close>

definition shut :: "'v sMBSlaveTcpInfo \<Rightarrow> bool" where
  "shut v \<longleftrightarrow> (\<forall>fs. tcp_run fs v = Some v)"

lemma shutI:
  assumes "clients v = [c]" "xSocketConnected (sl c)" "sSlavePollTCB c = Task_Running" "eQueuedEvent (sl c) = None"
  shows "shut v"
proof -
  have poll: "poll_turn r c = Some c" for r using assms by (simp add: poll_turn_def asks_def eMBSlavePoll_def)
  have "tcp_turn e v = Some v" for e
    using assms poll server_waits[OF assms(1)] by (cases e) auto
  then have "tcp_run fs v = Some v" for fs by (induction fs) simp_all
  then show ?thesis by (simp add: shut_def)
qed

text \<open>A complete frame of Modbus/TCP: protocol 0, and as many bytes as its length field says.\<close>

definition complete_frame :: "u8 list \<Rightarrow> bool" where
  "complete_frame r \<longleftrightarrow> 8 \<le> length r \<and> length r \<le> 256 \<and> r ! 2 = 0 \<and> r ! 3 = 0 \<and> r ! 5 \<noteq> 0 \<and> unat (r ! 5) + 6 \<le> length r"

lemma complete_frame_received:
  assumes "complete_frame r"
  shows "\<exists>s1. eMBSlaveTCPReceive ((xMBSlaveTCPPortGetRequest r s)\<lparr>eQueuedEvent := None\<rparr>) = (MB_ENOERR, s1) \<and>
    ucRcvAddress s1 = r ! 6 \<and> xSocketConnected s1"
proof -
  define x where "x = (xMBSlaveTCPPortGetRequest r s)\<lparr>eQueuedEvent := None\<rparr>"
  have r: "8 \<le> length r" "length r \<le> 256" "r ! 2 = 0" "r ! 3 = 0" "r ! 5 \<noteq> 0" "unat (r ! 5) + 6 \<le> length r"
    using assms by (simp_all add: complete_frame_def)
  have ne: "take 256 r \<noteq> []" "take 256 r = r" using r by auto
  have buf: "ucRcvBuf x ! i = r ! i" if "i < 8" for i
    using ne r that by (simp add: x_def xMBSlaveTCPPortGetRequest_def xMBSlavePortEventPost_def Let_def nth_append)
  have pos: "usRcvBufferPos x = of_nat (length r)" "xSocketConnected x"
    using ne by (simp_all add: x_def xMBSlaveTCPPortGetRequest_def xMBSlavePortEventPost_def Let_def)
  have posi: "uint (usRcvBufferPos x) = int (length r)"
    using r by (simp add: pos unsigned_of_nat take_bit_nat_eq_self)
  have "unat (r ! 5) \<noteq> 0" "unat (r ! 5) < 256" using r(5) unsigned_less[of "r ! 5", where 'a = nat] by (simp_all add: unat_eq_0)
  have u: "uint (ucast (r ! 5) :: u16) = int (unat (r ! 5))"
    using unsigned_less[of "r ! 5", where 'a = int] by (simp add: unsigned_ucast_eq take_bit_int_eq_self)
  have one: "uint (ucast (r ! 5) - 1 :: u16) = int (unat (r ! 5)) - 1"
  proof -
    have "(1 :: int) \<le> int (unat (r ! 5))" using \<open>unat (r ! 5) \<noteq> 0\<close> by linarith
    then have "(1 :: int) \<le> uint (r ! 5)" by (simp only: of_nat_unat)
    then show ?thesis using u by (subst uint_sub_lem[THEN iffD1]) auto
  qed
  have w: "word16 (r ! 2) (r ! 3) = 0" using r by (simp add: word16_def)
  have "int (unat (r ! 5)) + 6 \<le> int (length r)" using r(6) by linarith
  then have le: "\<not> uint (usRcvBufferPos x) - 7 + 1 < uint (ucast (r ! 5) - 1 :: u16)" by (simp only: posi one)
  have "eMBSlaveTCPReceive x = (MB_ENOERR, x\<lparr>usLength := ucast (r ! 5) - 1, ucRcvAddress := r ! 6, pucMBFrame := Some 7\<rparr>)"
    using w le by (simp add: eMBSlaveTCPReceive_def Let_def buf)
  then show ?thesis using pos(2) by (simp add: x_def)
qed

text \<open>A state to try things on: the supervisor has connected to unit 1 on socket 5, and nothing has been read.\<close>

definition server_example :: "bms_name sMBSlaveTcpInfo" where
  "server_example = (let v0 = vModbusSlaveTCPInit 1 9 vBMS_InitBMSCommData (\<lambda>_. 0) in
     v0\<lparr>psMBSlaveList := Some 0,
        clients := [set_connected ((registered v0 5 ''MB_TCP_CLIENT_0'' (hd (clients v0)))\<lparr>sSlavePollTCB := Task_Created,
          pLast := Some 0, iSocketOfflines := 0, pvMBSlaveReceiveCallback := False, pvMBSlaveSendCallback := True\<rparr>)],
        iClientNum := 1\<rparr>)"

lemma server_example_reached:
  "tcp_run [Accept 5 True []] (vModbusSlaveTCPInit 1 9 vBMS_InitBMSCommData (\<lambda>_. 0)) = Some server_example"
  "reading server_example" "sent (sl (the_client server_example)) = []"
proof -
  define v0 where "v0 = vModbusSlaveTCPInit 1 9 vBMS_InitBMSCommData (\<lambda>_. 0)"
  have v0: "clients v0 = [client_zero vBMS_InitBMSCommData (\<lambda>_. 0)]" "iClientNum v0 = 0" "psMBSlaveList v0 = None"
      "\<not> xSocketConnected (sl (client_zero vBMS_InitBMSCommData (\<lambda>_. 0)))" "tcp_SendCallback v0" "\<not> tcp_ReceiveCallback v0"
      "\<not> pvMBSlaveReceiveCallback (client_zero vBMS_InitBMSCommData (\<lambda>_. 0))"
      "sent (sl (client_zero vBMS_InitBMSCommData (\<lambda>_. 0))) = []"
    by (simp_all add: v0_def vModbusSlaveTCPInit_def MB_SLAVE_MAX_TCP_CLIENT_def client_zero_def slave_zero_def)
  have e: "server_example = v0\<lparr>psMBSlaveList := Some 0,
      clients := [set_connected ((registered v0 5 ''MB_TCP_CLIENT_0'' (client_zero vBMS_InitBMSCommData (\<lambda>_. 0)))
        \<lparr>sSlavePollTCB := Task_Created, pLast := Some 0, iSocketOfflines := 0, pvMBSlaveReceiveCallback := False,
         pvMBSlaveSendCallback := True\<rparr>)], iClientNum := 1\<rparr>"
    by (simp add: server_example_def v0_def[symmetric] v0(1) Let_def)
  have "server_turn 5 True [] v0 = Some server_example"
    using server_first[OF v0(1,4) _ v0(2,3), of 5 "[]" "''MB_TCP_CLIENT_0''" True] v0(5-7)
    by (simp add: client_name_0 e)
  then show "tcp_run [Accept 5 True []] (vModbusSlaveTCPInit 1 9 vBMS_InitBMSCommData (\<lambda>_. 0)) = Some server_example"
    by (simp add: v0_def[symmetric])
  show "reading server_example" "sent (sl (the_client server_example)) = []"
    using v0(8) by (simp_all add: e reading_def the_client_def set_connected_def registered_def)
qed

text \<open>
  C19. From any state the interface reaches: when the task reads a complete frame that is not for this unit, or a
  broadcast, then after two more turns (in which a broadcast is executed) the interface is shut. No answer is sent,
  the frame's sender keeps the only slot, nothing it sends later is read, and no other connection is accepted.
\<close>

theorem other_unit_shuts_the_interface:
  assumes "tcp_run es (vModbusSlaveTCPInit addr prio d m) = Some v" "reading v"
    and "complete_frame r" "r ! 6 \<noteq> addr \<or> r ! 6 = 0"
  shows "(r ! 6 \<noteq> 0 \<longrightarrow> tcp_run [Poll 0 r, Poll 0 r1, Poll 0 r2] v \<noteq> None) \<and>
    (\<forall>v'. tcp_run [Poll 0 r, Poll 0 r1, Poll 0 r2] v = Some v' \<longrightarrow>
       shut v' \<and> xSocketConnected (sl (the_client v')) \<and> sent (sl (the_client v')) = sent (sl (the_client v)))"
proof -
  have ok: "tcp_ok addr v" using tcp_ok_run[OF assms(1) tcp_ok_start] .
  obtain s c where c: "tcp_turn (Poll 0 r) v = Some (v\<lparr>clients := [c]\<rparr>)" "sSlavePollTCB c = Task_Running"
      "sl c = xMBSlaveTCPPortGetRequest r s" "eMBState s = STATE_ENABLED" "ucSlaveAddr s = addr"
      "sent s = sent (sl (the_client v))"
    using read_turn[OF ok assms(2), of r] by blast
  obtain s1 where s1: "eMBSlaveTCPReceive ((sl c)\<lparr>eQueuedEvent := None\<rparr>) = (MB_ENOERR, s1)" "ucRcvAddress s1 = r ! 6"
      "xSocketConnected s1"
    using complete_frame_received[OF assms(3), of s] c(3) by auto
  have rne: "take 256 r \<noteq> []" using assms(3) by (auto simp: complete_frame_def)
  have ev: "eQueuedEvent (sl c) = Some EV_FRAME_RECEIVED" "eMBState (sl c) = STATE_ENABLED"
    using rne c(3,4) by (simp_all add: xMBSlaveTCPPortGetRequest_def xMBSlavePortEventPost_def Let_def)
  note link = eMBSlaveTCPReceive_link[OF s1(1)]
  have s1': "eMBState s1 = STATE_ENABLED" "eQueuedEvent s1 = None" "sent s1 = sent (sl (the_client v))" "ucSlaveAddr s1 = addr"
    using link ev c by (simp_all add: read_keeps)
  show ?thesis
  proof (cases "r ! 6 = 0")
    case False
    define v2 where "v2 = v\<lparr>clients := [c\<lparr>sl := s1\<rparr>]\<rparr>"
    have "poll_turn r1 c = Some (c\<lparr>sl := s1\<rparr>)"
      using poll_received[OF ev(2,1) s1(1), of r1] ev c(2) s1(2) s1'(4) assms(4) False by (simp add: poll_turn_def asks_def)
    then have t2: "tcp_turn (Poll 0 r1) (v\<lparr>clients := [c]\<rparr>) = Some v2" by (simp add: v2_def)
    have shut: "shut v2" using s1' s1(3) c(2) by (intro shutI[where c = "c\<lparr>sl := s1\<rparr>"]) (simp_all add: v2_def)
    then have "tcp_run [Poll 0 r2] v2 = Some v2" unfolding shut_def by blast
    then have "tcp_run [Poll 0 r, Poll 0 r1, Poll 0 r2] v = Some v2"
      using c(1) t2 by (simp del: tcp_turn.simps)
    then show ?thesis using shut s1(3) s1'(3) by (simp add: v2_def the_client_def)
  next
    case True
    define c2 where "c2 = c\<lparr>sl := s1\<lparr>eQueuedEvent := Some EV_EXECUTE\<rparr>\<rparr>"
    have "poll_turn r1 c = Some c2"
      using poll_received[OF ev(2,1) s1(1), of r1] ev c(2) s1(2) True by (simp add: poll_turn_def asks_def c2_def)
    then have t2: "tcp_turn (Poll 0 r1) (v\<lparr>clients := [c]\<rparr>) = Some (v\<lparr>clients := [c2]\<rparr>)" by simp
    have "shut v' \<and> xSocketConnected (sl (the_client v')) \<and> sent (sl (the_client v')) = sent (sl (the_client v))"
      if v': "tcp_run [Poll 0 r, Poll 0 r1, Poll 0 r2] v = Some v'" for v'
    proof -
      have "poll_turn r2 c2 = map_option (\<lambda>s. c2\<lparr>sl := s\<rparr>) (execute_request s1)"
        using poll_execute[OF s1'(1,2), of r2] c(2) by (simp add: poll_turn_def asks_def c2_def option.map_comp comp_def)
      then obtain s3 where s3: "execute_request s1 = Some s3" "v' = v\<lparr>clients := [c2\<lparr>sl := s3\<rparr>]\<rparr>"
        using v' c(1) t2 by (auto dest!: bind_SomeD)
      have "same_link s1 s3" using execute_broadcast[OF s3(1)] s1(2) True by simp
      then have e: "eQueuedEvent s3 = None" "xSocketConnected s3" "sent s3 = sent (sl (the_client v))"
        using s1' s1(3) by (simp_all add: same_link_def)
      then show ?thesis
        using shutI[of v' "c2\<lparr>sl := s3\<rparr>"] s3(2) c(2) by (simp add: the_client_def c2_def)
    qed
    then show ?thesis using True by blast
  qed
qed

theorem other_unit_shuts_the_interface_witness:
  "\<exists>v. tcp_run [Poll 0 [0, 1, 0, 0, 0, 6, 2, 6, 0, 12, 0, 200], Poll 0 [], Poll 0 []] server_example = Some v \<and>
     shut v \<and> sent (sl (the_client v)) = []"
proof -
  have "complete_frame [0, 1, 0, 0, 0, 6, 2, 6, 0, 12, 0, 200]" by (simp add: complete_frame_def)
  note t = other_unit_shuts_the_interface[OF server_example_reached(1,2) this, of "[]" "[]"]
  have "[0, 1, 0, 0, 0, 6, 2, 6, 0, 12, 0, 200] ! 6 = (2 :: u8)" by simp
  then obtain v where "tcp_run [Poll 0 [0, 1, 0, 0, 0, 6, 2, 6, 0, 12, 0, 200], Poll 0 [], Poll 0 []] server_example = Some v"
    using t by (auto simp del: tcp_run.simps tcp_turn.simps)
  moreover from this have "shut v" "sent (sl (the_client v)) = []"
    using t \<open>_ ! 6 = 2\<close> by (simp_all add: server_example_reached(3) del: tcp_run.simps tcp_turn.simps)
  ultimately show ?thesis by blast
qed

text \<open>
  C20. From any state the interface reaches: when the connection is found closed, the slot becomes free, the poll task
  waits however often it runs, and the next connection is taken over by the same task: its first bytes are read
  from the new socket as a request.
\<close>

theorem lost_connection_is_replaced:
  assumes "tcp_run es (vModbusSlaveTCPInit addr prio d m) = Some v" "reading v" "conn \<noteq> - 1" "r \<noteq> []"
  shows "\<exists>v1 v2. tcp_run (Poll 0 [] # map (Poll 0) rs) v = Some v1 \<and> \<not> xSocketConnected (sl (the_client v1)) \<and>
    tcp_run [Accept conn created behind, Poll 0 r] v1 = Some v2 \<and> fd (the_client v2) = conn \<and>
    sent (sl (the_client v2)) = sent (sl (the_client v)) \<and>
    eQueuedEvent (sl (the_client v2)) = Some EV_FRAME_RECEIVED \<and>
    take (length (take 256 r)) (ucRcvBuf (sl (the_client v2))) = take 256 r"
proof -
  have ok: "tcp_ok addr v" using tcp_ok_run[OF assms(1) tcp_ok_start] .
  obtain s c where c: "tcp_turn (Poll 0 []) v = Some (v\<lparr>clients := [c]\<rparr>)" "sSlavePollTCB c = Task_Running"
      "sl c = xMBSlaveTCPPortGetRequest [] s" "eMBState s = STATE_ENABLED" "iClientNum v \<noteq> 0"
      "sent s = sent (sl (the_client v))"
    using read_turn[OF ok assms(2), of "[]"] by blast
  define v1 where "v1 = v\<lparr>clients := [c]\<rparr>"
  have closed: "\<not> xSocketConnected (sl c)" "eQueuedEvent (sl c) = Some EV_ERROR_RCV"
    using c(3) by (simp_all add: xMBSlaveTCPPortGetRequest_def xMBSlavePortEventPost_def Let_def)
  have "poll_turn x c = Some c" for x using closed c(2) by (simp add: poll_turn_def asks_def)
  then have wait: "tcp_run (map (Poll 0) rs) v1 = Some v1" by (induction rs) (simp_all add: v1_def)
  define c2 where "c2 = c\<lparr>fd := conn, sl := (sl c)\<lparr>xSocketConnected := True\<rparr>, iSocketOfflines := 0\<rparr>"
  define v2 where "v2 = v\<lparr>clients := [c2]\<rparr>"
  have acc: "server_turn conn created behind v1 = Some v2"
    using server_again[of v1 c conn] closed(1) assms(3) c(5) by (simp add: v1_def v2_def c2_def)
  define s3 where "s3 = xMBSlaveTCPPortGetRequest r ((sl c2)\<lparr>eQueuedEvent := None\<rparr>)"
  have "eMBSlavePoll r (sl c2) = Some (MB_ENOERR, s3)"
    using closed c(3,4) by (simp add: eMBSlavePoll_def c2_def s3_def read_keeps)
  then have "poll_turn r c2 = Some (c2\<lparr>sl := s3\<rparr>)" using c(2) by (simp add: poll_turn_def c2_def)
  then have run: "tcp_run [Accept conn created behind, Poll 0 r] v1 = Some (v2\<lparr>clients := [c2\<lparr>sl := s3\<rparr>]\<rparr>)"
    using acc by (simp add: v2_def)
  have "take 256 r \<noteq> []" using assms(4) by simp
  then have s3: "eQueuedEvent s3 = Some EV_FRAME_RECEIVED" "take (length (take 256 r)) (ucRcvBuf s3) = take 256 r"
      "sent s3 = sent (sl (the_client v))"
    using c(3,6) by (simp_all add: s3_def xMBSlaveTCPPortGetRequest_def xMBSlavePortEventPost_def Let_def c2_def min_def)
  show ?thesis
    using c(1) wait run closed(1) s3
    by (intro exI[of _ v1] exI[of _ "v2\<lparr>clients := [c2\<lparr>sl := s3\<rparr>]\<rparr>"])
      (simp add: v1_def[symmetric] the_client_def, simp add: v1_def c2_def v2_def)
qed

theorem lost_connection_is_replaced_witness:
  "\<exists>v1 v2. tcp_run [Poll 0 [], Poll 0 [9]] server_example = Some v1 \<and>
     tcp_run [Accept 7 True [], Poll 0 [0, 2]] v1 = Some v2 \<and> fd (the_client v2) = 7 \<and>
     eQueuedEvent (sl (the_client v2)) = Some EV_FRAME_RECEIVED"
proof -
  have "(7 :: int) \<noteq> - 1" "[0, 2] \<noteq> ([] :: u8 list)" by simp_all
  note t = lost_connection_is_replaced[OF server_example_reached(1,2) this, of "[[9]]" True "[]"]
  then show ?thesis by (simp del: tcp_run.simps tcp_turn.simps) blast
qed

text \<open>
  If the poll task cannot be created, the connection counts as served all the same: the next one takes the slot, is
  never read, and the interface is shut.
\<close>

lemma no_task_shuts:
  assumes "clients v = [c]" "sSlavePollTCB c = No_Task" "xSocketConnected (sl c)"
  shows "shut v"
proof -
  have "tcp_turn e v = Some v" for e
    using assms server_waits[OF assms(1)] by (cases e) (auto simp: poll_turn_def)
  then have "tcp_run fs v = Some v" for fs by (induction fs) simp_all
  then show ?thesis by (simp add: shut_def)
qed

lemma failed_task_shuts:
  assumes "conn \<noteq> - 1" "conn2 \<noteq> - 1"
  shows "\<exists>v. tcp_run [Accept conn False [], Accept conn2 created behind] (vModbusSlaveTCPInit addr prio d m) = Some v \<and> shut v"
proof -
  define v0 where "v0 = vModbusSlaveTCPInit addr prio d m"
  have v0: "clients v0 = [client_zero d m]" "iClientNum v0 = 0" "psMBSlaveList v0 = None"
    by (simp_all add: v0_def vModbusSlaveTCPInit_def MB_SLAVE_MAX_TCP_CLIENT_def)
  define c where "c = registered v0 conn ''MB_TCP_CLIENT_0'' (client_zero d m)"
  have c: "\<not> xSocketConnected (sl c)" "sSlavePollTCB c = No_Task"
    by (simp_all add: c_def registered_def client_zero_def slave_zero_def)
  define v1 where "v1 = v0\<lparr>clients := [c], iClientNum := 1\<rparr>"
  have "\<not> xSocketConnected (sl (client_zero d m))" by (simp add: client_zero_def slave_zero_def)
  then have 1: "server_turn conn False [] v0 = Some v1"
    using server_first[OF v0(1) _ assms(1) v0(2,3), of "[]" "''MB_TCP_CLIENT_0''" False]
    by (simp add: client_name_0 v1_def c_def)
  define v2 where "v2 = v1\<lparr>clients := [c\<lparr>fd := conn2, sl := (sl c)\<lparr>xSocketConnected := True\<rparr>, iSocketOfflines := 0\<rparr>]\<rparr>"
  have 2: "server_turn conn2 created behind v1 = Some v2"
    using server_again[of v1 c conn2 created behind] c assms(2) by (simp add: v1_def v2_def)
  have "shut v2" by (rule no_task_shuts[where c = "c\<lparr>fd := conn2, sl := (sl c)\<lparr>xSocketConnected := True\<rparr>, iSocketOfflines := 0\<rparr>"])
      (simp_all add: v2_def c)
  then show ?thesis using 1 2 by (simp add: v0_def)
qed

end
