(* ===== verification/Sched.thy ===== *)
theory Sched
  imports Prelude "HOL-Library.Monad_Syntax"
begin

unbundle bit_operations_syntax

text \<open>
  The scheduler of the kernel: table of ready priorities (\<open>uCOS/uCOS_III/Source/os_prio.c\<close>), ready lists, scheduler,
  interrupts and scheduler lock (\<open>os_core.c\<close>), as \<open>uC_CFG/os_cfg.h\<close> configures them: 32 priorities, no round robin.
\<close>

section \<open>Table of priorities\<close>

text \<open>The table is one word, \<open>OS_CFG_PRIO_MAX\<close> being the number of its bits. \<open>CPU_CntLeadZeros\<close> is the instruction \<open>CLZ\<close>.\<close>

definition OS_CFG_PRIO_MAX :: nat where "OS_CFG_PRIO_MAX = 32"

definition CPU_CntLeadZeros :: "u32 \<Rightarrow> u32" where
  "CPU_CntLeadZeros x = of_nat (length (takeWhile (\<lambda>i. \<not> bit x (31 - i)) [0..<32]))"

definition OS_PrioGetHighest :: "u32 \<Rightarrow> u8" where
  "OS_PrioGetHighest tbl = 0 + ucast (CPU_CntLeadZeros tbl)"

definition OS_PrioInsert :: "u8 \<Rightarrow> u32 \<Rightarrow> u32" where
  "OS_PrioInsert prio tbl = tbl OR push_bit (unat (31 - ucast prio :: u32)) 1"

definition OS_PrioRemove :: "u8 \<Rightarrow> u32 \<Rightarrow> u32" where
  "OS_PrioRemove prio tbl = tbl AND NOT (push_bit (unat (31 - ucast prio :: u32)) 1)"

section \<open>State\<close>

text \<open>
  Tasks are numbers. Of the states of a task only being ready and waiting for an object, without or with timeout, matter
  here; a task not created yet is in the state of a deleted one.
\<close>

datatype OS_STATE = OS_TASK_STATE_DEL | OS_TASK_STATE_RDY | OS_TASK_STATE_PEND | OS_TASK_STATE_PEND_TIMEOUT

record os_tcb =
  NextPtr :: "nat option"
  PrevPtr :: "nat option"
  TaskState :: OS_STATE
  Prio :: u8
  CtxSwCtr :: u32

record os_rdy_list =
  HeadPtr :: "nat option"
  TailPtr :: "nat option"
  NbrEntries :: u16

record sched =
  tcb :: "nat \<Rightarrow> os_tcb"
  OSRdyList :: "u8 \<Rightarrow> os_rdy_list"
  OSPrioTbl :: u32
  OSPrioCur :: u8
  OSPrioHighRdy :: u8
  OSTCBCurPtr :: "nat option"
  OSTCBHighRdyPtr :: "nat option"
  OSRunning :: bool
  OSIntNestingCtr :: u8
  OSSchedLockNestingCtr :: u8
  OSTaskCtxSwCtr :: u32

definition tcb_set :: "nat \<Rightarrow> (os_tcb \<Rightarrow> os_tcb) \<Rightarrow> sched \<Rightarrow> sched" where
  "tcb_set t f s = s\<lparr>tcb := (tcb s)(t := f (tcb s t))\<rparr>"

definition rdy_set :: "u8 \<Rightarrow> (os_rdy_list \<Rightarrow> os_rdy_list) \<Rightarrow> sched \<Rightarrow> sched" where
  "rdy_set p f s = s\<lparr>OSRdyList := (OSRdyList s)(p := f (OSRdyList s p))\<rparr>"

text \<open>A write through a pointer that may be null; the code tests it first.\<close>

definition at_ptr :: "nat option \<Rightarrow> (os_tcb \<Rightarrow> os_tcb) \<Rightarrow> sched \<Rightarrow> sched" where
  "at_ptr p f s = (case p of None \<Rightarrow> s | Some t \<Rightarrow> tcb_set t f s)"

section \<open>Ready lists\<close>

definition OS_RdyListInsertHead :: "nat \<Rightarrow> sched \<Rightarrow> sched" where
  "OS_RdyListInsertHead t s =
     (let p = Prio (tcb s t) in
      case HeadPtr (OSRdyList s p) of
        None \<Rightarrow>
          rdy_set p (\<lambda>l. l\<lparr>NbrEntries := 1, HeadPtr := Some t, TailPtr := Some t\<rparr>)
            (tcb_set t (\<lambda>c. c\<lparr>NextPtr := None, PrevPtr := None\<rparr>) s)
      | Some h \<Rightarrow>
          rdy_set p (\<lambda>l. l\<lparr>HeadPtr := Some t\<rparr>)
            (tcb_set h (\<lambda>c. c\<lparr>PrevPtr := Some t\<rparr>)
              (tcb_set t (\<lambda>c. c\<lparr>NextPtr := Some h, PrevPtr := None\<rparr>)
                (rdy_set p (\<lambda>l. l\<lparr>NbrEntries := NbrEntries l + 1\<rparr>) s))))"

definition OS_RdyListInsertTail :: "nat \<Rightarrow> sched \<Rightarrow> sched" where
  "OS_RdyListInsertTail t s =
     (let p = Prio (tcb s t) in
      case HeadPtr (OSRdyList s p) of
        None \<Rightarrow>
          rdy_set p (\<lambda>l. l\<lparr>NbrEntries := 1, HeadPtr := Some t, TailPtr := Some t\<rparr>)
            (tcb_set t (\<lambda>c. c\<lparr>NextPtr := None, PrevPtr := None\<rparr>) s)
      | Some h \<Rightarrow>
          let q = TailPtr (OSRdyList s p)
          in rdy_set p (\<lambda>l. l\<lparr>TailPtr := Some t\<rparr>)
               (at_ptr q (\<lambda>c. c\<lparr>NextPtr := Some t\<rparr>)
                 (tcb_set t (\<lambda>c. c\<lparr>NextPtr := None, PrevPtr := q\<rparr>)
                   (rdy_set p (\<lambda>l. l\<lparr>NbrEntries := NbrEntries l + 1\<rparr>) s))))"

definition OS_RdyListInsert :: "nat \<Rightarrow> sched \<Rightarrow> sched" where
  "OS_RdyListInsert t s =
     (let s1 = s\<lparr>OSPrioTbl := OS_PrioInsert (Prio (tcb s t)) (OSPrioTbl s)\<rparr>
      in if Prio (tcb s1 t) = OSPrioCur s1 then OS_RdyListInsertTail t s1 else OS_RdyListInsertHead t s1)"

definition OS_RdyListMoveHeadToTail :: "u8 \<Rightarrow> sched \<Rightarrow> sched" where
  "OS_RdyListMoveHeadToTail p s =
     (let l = OSRdyList s p in
      if HeadPtr l = TailPtr l then s
      else case (HeadPtr l, TailPtr l) of
        (Some h, Some q) \<Rightarrow>
          if NextPtr (tcb s h) = Some q
          then rdy_set p (\<lambda>l. l\<lparr>HeadPtr := Some q, TailPtr := Some h\<rparr>)
                 (tcb_set q (\<lambda>c. c\<lparr>PrevPtr := None, NextPtr := Some h\<rparr>)
                   (tcb_set h (\<lambda>c. c\<lparr>PrevPtr := Some q, NextPtr := None\<rparr>) s))
          else let n = NextPtr (tcb s h)
               in rdy_set p (\<lambda>l. l\<lparr>HeadPtr := n, TailPtr := Some h\<rparr>)
                    (tcb_set q (\<lambda>c. c\<lparr>NextPtr := Some h\<rparr>)
                      (tcb_set h (\<lambda>c. c\<lparr>NextPtr := None, PrevPtr := Some q\<rparr>)
                        (at_ptr n (\<lambda>c. c\<lparr>PrevPtr := None\<rparr>) s)))
      | _ \<Rightarrow> s)"

definition OS_RdyListRemove :: "nat \<Rightarrow> sched \<Rightarrow> sched" where
  "OS_RdyListRemove t s =
     (let p = Prio (tcb s t); a = PrevPtr (tcb s t); b = NextPtr (tcb s t);
          s1 = (if a = None
                then (if b = None
                      then (rdy_set p (\<lambda>l. l\<lparr>NbrEntries := 0, HeadPtr := None, TailPtr := None\<rparr>) s)
                             \<lparr>OSPrioTbl := OS_PrioRemove p (OSPrioTbl s)\<rparr>
                      else rdy_set p (\<lambda>l. l\<lparr>HeadPtr := b\<rparr>)
                             (at_ptr b (\<lambda>c. c\<lparr>PrevPtr := None\<rparr>)
                               (rdy_set p (\<lambda>l. l\<lparr>NbrEntries := NbrEntries l - 1\<rparr>) s)))
                else let s2 = at_ptr a (\<lambda>c. c\<lparr>NextPtr := b\<rparr>) (rdy_set p (\<lambda>l. l\<lparr>NbrEntries := NbrEntries l - 1\<rparr>) s)
                     in if b = None then rdy_set p (\<lambda>l. l\<lparr>TailPtr := a\<rparr>) s2
                        else at_ptr b (\<lambda>c. c\<lparr>PrevPtr := a\<rparr>) s2)
      in tcb_set t (\<lambda>c. c\<lparr>PrevPtr := None, NextPtr := None\<rparr>) s1)"

section \<open>Scheduling\<close>

text \<open>The context switch, in \<open>Ports/os_cpu_a.asm\<close>; the registers of the tasks are not part of the state.\<close>

definition OSCtxSw :: "sched \<Rightarrow> sched" where
  "OSCtxSw s = s\<lparr>OSPrioCur := OSPrioHighRdy s, OSTCBCurPtr := OSTCBHighRdyPtr s\<rparr>"

text \<open>The common end of \<open>OSSched\<close> and \<open>OSIntExit\<close>. With no task ready the counter of a null pointer would be incremented (\<open>None\<close>).\<close>

definition switch_to_highest :: "sched \<Rightarrow> sched option" where
  "switch_to_highest s =
     (let p = OS_PrioGetHighest (OSPrioTbl s);
          s1 = s\<lparr>OSPrioHighRdy := p, OSTCBHighRdyPtr := HeadPtr (OSRdyList s p)\<rparr>
      in if OSTCBHighRdyPtr s1 = OSTCBCurPtr s1 then Some s1
         else case OSTCBHighRdyPtr s1 of
           None \<Rightarrow> None
         | Some t \<Rightarrow> Some (OSCtxSw ((tcb_set t (\<lambda>c. c\<lparr>CtxSwCtr := CtxSwCtr c + 1\<rparr>) s1)
                             \<lparr>OSTaskCtxSwCtr := OSTaskCtxSwCtr s + 1\<rparr>)))"

definition OSSched :: "sched \<Rightarrow> sched option" where
  "OSSched s =
     (if OSIntNestingCtr s > 0 then Some s
      else if OSSchedLockNestingCtr s > 0 then Some s
      else switch_to_highest s)"

definition OSIntEnter :: "sched \<Rightarrow> sched" where
  "OSIntEnter s =
     (if \<not> OSRunning s then s
      else if OSIntNestingCtr s \<ge> 250 then s
      else s\<lparr>OSIntNestingCtr := OSIntNestingCtr s + 1\<rparr>)"

definition OSIntExit :: "sched \<Rightarrow> sched option" where
  "OSIntExit s =
     (if \<not> OSRunning s then Some s
      else if OSIntNestingCtr s = 0 then Some s
      else let s1 = s\<lparr>OSIntNestingCtr := OSIntNestingCtr s - 1\<rparr>
           in if OSIntNestingCtr s1 > 0 then Some s1
              else if OSSchedLockNestingCtr s1 > 0 then Some s1
              else switch_to_highest s1)"

datatype OS_ERR = OS_ERR_NONE | OS_ERR_SCHED_LOCK_ISR | OS_ERR_OS_NOT_RUNNING | OS_ERR_LOCK_NESTING_OVF
  | OS_ERR_SCHED_UNLOCK_ISR | OS_ERR_SCHED_NOT_LOCKED | OS_ERR_SCHED_LOCKED

definition OSSchedLock :: "sched \<Rightarrow> OS_ERR \<times> sched" where
  "OSSchedLock s =
     (if OSIntNestingCtr s > 0 then (OS_ERR_SCHED_LOCK_ISR, s)
      else if \<not> OSRunning s then (OS_ERR_OS_NOT_RUNNING, s)
      else if OSSchedLockNestingCtr s \<ge> 250 then (OS_ERR_LOCK_NESTING_OVF, s)
      else (OS_ERR_NONE, s\<lparr>OSSchedLockNestingCtr := OSSchedLockNestingCtr s + 1\<rparr>))"

definition OSSchedUnlock :: "sched \<Rightarrow> (OS_ERR \<times> sched) option" where
  "OSSchedUnlock s =
     (if OSIntNestingCtr s > 0 then Some (OS_ERR_SCHED_UNLOCK_ISR, s)
      else if \<not> OSRunning s then Some (OS_ERR_OS_NOT_RUNNING, s)
      else if OSSchedLockNestingCtr s = 0 then Some (OS_ERR_SCHED_NOT_LOCKED, s)
      else let s1 = s\<lparr>OSSchedLockNestingCtr := OSSchedLockNestingCtr s - 1\<rparr>
           in if OSSchedLockNestingCtr s1 > 0 then Some (OS_ERR_SCHED_LOCKED, s1)
              else map_option (Pair OS_ERR_NONE) (OSSched s1))"

text \<open>The start: with at least one task created, which the idle task is, and the kernel stopped.\<close>

definition OSStart :: "sched \<Rightarrow> sched" where
  "OSStart s =
     (if OSRunning s then s
      else let p = OS_PrioGetHighest (OSPrioTbl s); h = HeadPtr (OSRdyList s p)
           in s\<lparr>OSPrioHighRdy := p, OSPrioCur := p, OSTCBHighRdyPtr := h, OSTCBCurPtr := h, OSRunning := True\<rparr>)"

section \<open>What tasks and interrupts do\<close>

text \<open>
  The part of \<open>OSTaskCreate\<close> from the ready list on, for a task \<open>t\<close> of priority \<open>p\<close>. The end of \<open>OS_Post\<close> and of a
  timeout: a waiting task becomes ready. \<open>OS_TaskBlock\<close>: the running task starts to wait; the list of timeouts is not
  part of the state.
\<close>

definition OSTaskCreate :: "nat \<Rightarrow> u8 \<Rightarrow> sched \<Rightarrow> sched option" where
  "OSTaskCreate t p s =
     (let s1 = tcb_set t (\<lambda>c. c\<lparr>TaskState := OS_TASK_STATE_RDY, Prio := p\<rparr>) s;
          s2 = OS_RdyListInsertTail t (s1\<lparr>OSPrioTbl := OS_PrioInsert p (OSPrioTbl s1)\<rparr>)
      in if \<not> OSRunning s2 then Some s2 else OSSched s2)"

definition make_ready :: "nat \<Rightarrow> sched \<Rightarrow> sched" where
  "make_ready t s = tcb_set t (\<lambda>c. c\<lparr>TaskState := OS_TASK_STATE_RDY\<rparr>) (OS_RdyListInsert t s)"

definition OS_TaskBlock :: "nat \<Rightarrow> u32 \<Rightarrow> sched \<Rightarrow> sched" where
  "OS_TaskBlock t timeout s =
     OS_RdyListRemove t (tcb_set t (\<lambda>c. c\<lparr>TaskState :=
       (if timeout > 0 then OS_TASK_STATE_PEND_TIMEOUT else OS_TASK_STATE_PEND)\<rparr>) s)"

section \<open>Linked lists\<close>

text \<open>A segment of a doubly linked list, with what its first element points back to and its last one forward to.\<close>

fun seg :: "(nat \<Rightarrow> os_tcb) \<Rightarrow> nat option \<Rightarrow> nat list \<Rightarrow> nat option \<Rightarrow> bool" where
  "seg m p [] n = True"
| "seg m p (t # ts) n =
     (PrevPtr (m t) = p \<and> NextPtr (m t) = (case ts of [] \<Rightarrow> n | u # _ \<Rightarrow> Some u) \<and> seg m (Some t) ts n)"

lemma seg_append:
  "seg m p (xs @ ys) n \<longleftrightarrow>
     seg m p xs (case ys of [] \<Rightarrow> n | y # _ \<Rightarrow> Some y) \<and> seg m (if xs = [] then p else Some (last xs)) ys n"
  by (induction xs arbitrary: p) (auto split: list.splits)

lemma case_append [simp]:
  "(case xs @ y # zs of [] \<Rightarrow> n | u # _ \<Rightarrow> f u) = (case xs of [] \<Rightarrow> f y | u # _ \<Rightarrow> f u)"
  by (cases xs) simp_all

lemma seg_cong:
  "(\<And>t. t \<in> set xs \<Longrightarrow> PrevPtr (m' t) = PrevPtr (m t) \<and> NextPtr (m' t) = NextPtr (m t)) \<Longrightarrow> seg m' p xs n = seg m p xs n"
  by (induction xs arbitrary: p) auto

lemma seg_upd [simp]: "t \<notin> set xs \<Longrightarrow> seg (m(t := c)) p xs n = seg m p xs n"
  by (rule seg_cong) auto

text \<open>What the structure of a ready list says of its tasks.\<close>

definition ready_list :: "sched \<Rightarrow> u8 \<Rightarrow> nat list \<Rightarrow> bool" where
  "ready_list s p xs \<longleftrightarrow> distinct xs \<and> seg (tcb s) None xs None \<and>
     HeadPtr (OSRdyList s p) = (if xs = [] then None else Some (hd xs)) \<and>
     TailPtr (OSRdyList s p) = (if xs = [] then None else Some (last xs)) \<and>
     NbrEntries (OSRdyList s p) = of_nat (length xs)"

text \<open>
  The ready lists of all priorities, and the table: priorities up to 31, every task in the list of its priority and in
  state ready, the bit of a priority set exactly if its list is not empty. Every other task waits.
\<close>

definition ready_lists :: "sched \<Rightarrow> (u8 \<Rightarrow> nat list) \<Rightarrow> bool" where
  "ready_lists s ls \<longleftrightarrow>
     (\<forall>p. ready_list s p (ls p)) \<and>
     (\<forall>p t. t \<in> set (ls p) \<longrightarrow> Prio (tcb s t) = p) \<and>
     (\<forall>p. ls p \<noteq> [] \<longrightarrow> unat p < 32) \<and>
     (\<forall>p. unat p < 32 \<longrightarrow> bit (OSPrioTbl s) (31 - unat p) = (ls p \<noteq> []))"

lemma Prio_set [simp]:
  "Prio (tcb (rdy_set p f s) t) = Prio (tcb s t)"
  "tcb (rdy_set p f s) = tcb s" "OSRdyList (tcb_set t g s) = OSRdyList s"
  "OSPrioTbl (rdy_set p f s) = OSPrioTbl s" "OSPrioTbl (tcb_set t g s) = OSPrioTbl s"
  "OSPrioCur (rdy_set p f s) = OSPrioCur s" "OSPrioCur (tcb_set t g s) = OSPrioCur s"
  by (simp_all add: rdy_set_def tcb_set_def)

lemma rdy_set_at: "OSRdyList (rdy_set p f s) q = (if q = p then f (OSRdyList s p) else OSRdyList s q)"
  by (simp add: rdy_set_def)

lemma tcb_set_at: "tcb (tcb_set t f s) = (tcb s)(t := f (tcb s t))"
  by (simp add: tcb_set_def)

text \<open>The operations on one list.\<close>

lemma insert_head_list:
  assumes "ready_list s p xs" "t \<notin> set xs" "Prio (tcb s t) = p"
  shows "ready_list (OS_RdyListInsertHead t s) p (t # xs)"
  using assms by (cases xs) (auto simp: OS_RdyListInsertHead_def ready_list_def Let_def rdy_set_at tcb_set_at)

lemma insert_tail_list:
  assumes "ready_list s p xs" "t \<notin> set xs" "Prio (tcb s t) = p"
  shows "ready_list (OS_RdyListInsertTail t s) p (xs @ [t])"
proof (cases xs rule: rev_cases)
  case Nil
  then show ?thesis using assms by (simp add: OS_RdyListInsertTail_def ready_list_def Let_def rdy_set_at tcb_set_at)
next
  case (snoc ys q)
  then show ?thesis
    using assms
    by (auto simp: OS_RdyListInsertTail_def ready_list_def Let_def rdy_set_at tcb_set_at at_ptr_def seg_append hd_append)
qed

lemma rotate_list:
  assumes "ready_list s p xs"
  shows "ready_list (OS_RdyListMoveHeadToTail p s) p (rotate1 xs)"
proof -
  consider "length xs \<le> 1" | a b where "xs = [a, b]" | a n ys q where "xs = a # n # ys @ [q]"
  proof (cases xs)
    case (Cons a ys)
    then show ?thesis using that by (cases ys; cases "tl ys" rule: rev_cases) auto
  qed (use that in auto)
  then show ?thesis
  proof cases
    case 1
    then have "xs = [] \<or> (\<exists>a. xs = [a])" by (cases xs) auto
    then show ?thesis using assms by (auto simp: OS_RdyListMoveHeadToTail_def Let_def ready_list_def)
  next
    case 2
    then show ?thesis
      using assms by (auto simp: OS_RdyListMoveHeadToTail_def Let_def ready_list_def rdy_set_at tcb_set_at)
  next
    case 3
    then have ne: "n \<noteq> q" "a \<noteq> q" "a \<noteq> n" using assms by (auto simp: ready_list_def)
    show ?thesis
      using assms 3 ne
      by (cases ys) (auto simp: OS_RdyListMoveHeadToTail_def Let_def ready_list_def rdy_set_at tcb_set_at at_ptr_def seg_append)
  qed
qed

lemma remove_list:
  assumes "ready_list s p xs" "t \<in> set xs" "Prio (tcb s t) = p"
  shows "ready_list (OS_RdyListRemove t s) p (remove1 t xs)"
proof -
  obtain as bs where xs: "xs = as @ t # bs" "t \<notin> set as" using split_list_first[OF assms(2)] by blast
  have rm: "remove1 t xs = as @ bs" using xs by (simp add: remove1_append)
  have "length xs = Suc (length (as @ bs))" using xs by simp
  have d: "distinct (as @ t # bs)" "seg (tcb s) None (as @ t # bs) None" using assms(1) xs by (simp_all add: ready_list_def)
  show ?thesis
  proof (cases as rule: rev_cases)
    case Nil
    show ?thesis
      using assms xs rm unfolding Nil by (cases bs)
        (simp_all add: OS_RdyListRemove_def Let_def ready_list_def rdy_set_at tcb_set_at at_ptr_def)
  next
    case (snoc ys a)
    note d = d[unfolded snoc]
    show ?thesis
    proof (cases bs)
      case Nil
      then have "PrevPtr (tcb s t) = Some a" "NextPtr (tcb s t) = None" "t \<noteq> a" using d by (simp_all add: seg_append)
      then show ?thesis
        using assms xs rm d unfolding snoc Nil
        by (simp add: OS_RdyListRemove_def Let_def ready_list_def rdy_set_at tcb_set_at at_ptr_def seg_append hd_append)
    next
      case (Cons b cs)
      then have "PrevPtr (tcb s t) = Some a" "NextPtr (tcb s t) = Some b" "t \<noteq> a" "t \<noteq> b" "a \<noteq> b"
        using d by (simp_all add: seg_append)
      then show ?thesis
        using assms xs rm d unfolding snoc Cons
        by (simp add: OS_RdyListRemove_def Let_def ready_list_def rdy_set_at tcb_set_at at_ptr_def seg_append hd_append)
    qed
  qed
qed

section \<open>All ready lists\<close>

text \<open>A change that concerns the list of priority \<open>p\<close> only.\<close>

definition only_list :: "u8 \<Rightarrow> sched \<Rightarrow> sched \<Rightarrow> bool" where
  "only_list p s s' \<longleftrightarrow>
     (\<forall>x. Prio (tcb s x) \<noteq> p \<longrightarrow> tcb s' x = tcb s x) \<and>
     (\<forall>x. Prio (tcb s' x) = Prio (tcb s x) \<and> TaskState (tcb s' x) = TaskState (tcb s x)) \<and>
     (\<forall>q. q \<noteq> p \<longrightarrow> OSRdyList s' q = OSRdyList s q) \<and>
     OSPrioCur s' = OSPrioCur s \<and> OSPrioHighRdy s' = OSPrioHighRdy s \<and> OSTCBCurPtr s' = OSTCBCurPtr s \<and>
     OSTCBHighRdyPtr s' = OSTCBHighRdyPtr s \<and> OSRunning s' = OSRunning s \<and> OSIntNestingCtr s' = OSIntNestingCtr s \<and>
     OSSchedLockNestingCtr s' = OSSchedLockNestingCtr s \<and> OSTaskCtxSwCtr s' = OSTaskCtxSwCtr s"

lemma only_list_same:
  assumes "only_list p s s'"
  shows "OSPrioCur s' = OSPrioCur s" "OSTCBCurPtr s' = OSTCBCurPtr s" "OSRunning s' = OSRunning s"
    "OSIntNestingCtr s' = OSIntNestingCtr s" "OSSchedLockNestingCtr s' = OSSchedLockNestingCtr s"
    "Prio (tcb s' x) = Prio (tcb s x)" "TaskState (tcb s' x) = TaskState (tcb s x)"
  using assms by (auto simp: only_list_def)

lemma only_list_parts:
  "only_list p s s" "only_list p s s1 \<Longrightarrow> only_list p s (rdy_set p f s1)"
  "only_list p s s1 \<Longrightarrow> only_list p s (s1\<lparr>OSPrioTbl := b\<rparr>)"
  "only_list p s s1 \<Longrightarrow> Prio (tcb s t) = p \<Longrightarrow>
     (\<And>c. Prio (g c) = Prio c) \<Longrightarrow> (\<And>c. TaskState (g c) = TaskState c) \<Longrightarrow> only_list p s (tcb_set t g s1)"
  by (auto simp: only_list_def rdy_set_def tcb_set_def)

lemma only_list_ptr:
  "only_list p s s1 \<Longrightarrow> (\<And>t. q = Some t \<Longrightarrow> Prio (tcb s t) = p) \<Longrightarrow>
     (\<And>c. Prio (g c) = Prio c) \<Longrightarrow> (\<And>c. TaskState (g c) = TaskState c) \<Longrightarrow> only_list p s (at_ptr q g s1)"
  by (auto simp: at_ptr_def split: option.splits intro: only_list_parts)

lemma ready_listD:
  assumes "ready_list s p xs"
  shows "HeadPtr (OSRdyList s p) = Some h \<Longrightarrow> h \<in> set xs" "TailPtr (OSRdyList s p) = Some h \<Longrightarrow> h \<in> set xs"
    "t \<in> set xs \<Longrightarrow> NextPtr (tcb s t) = Some h \<Longrightarrow> h \<in> set xs"
    "t \<in> set xs \<Longrightarrow> PrevPtr (tcb s t) = Some h \<Longrightarrow> h \<in> set xs"
proof -
  show "HeadPtr (OSRdyList s p) = Some h \<Longrightarrow> h \<in> set xs" "TailPtr (OSRdyList s p) = Some h \<Longrightarrow> h \<in> set xs"
    using assms by (auto simp: ready_list_def split: if_splits)
  have s: "seg (tcb s) None xs None" using assms by (simp add: ready_list_def)
  show "h \<in> set xs" if "t \<in> set xs" "NextPtr (tcb s t) = Some h"
    using split_list[OF that(1)] that(2) s by (auto simp: seg_append split: list.splits)
  show "h \<in> set xs" if "t \<in> set xs" "PrevPtr (tcb s t) = Some h"
    using split_list[OF that(1)] that(2) s by (auto simp: seg_append split: if_splits)
qed

lemma list_ops_only:
  assumes "ready_list s p xs" "\<And>x. x \<in> set xs \<Longrightarrow> Prio (tcb s x) = p" "Prio (tcb s t) = p"
  shows "only_list p s (OS_RdyListInsertHead t s)" "only_list p s (OS_RdyListInsertTail t s)"
    "t \<in> set xs \<Longrightarrow> only_list p s (OS_RdyListRemove t s)" "only_list p s (OS_RdyListMoveHeadToTail p s)"
proof -
  note m = assms(2)[OF ready_listD(1)[OF assms(1)]] assms(2)[OF ready_listD(2)[OF assms(1)]]
  show "only_list p s (OS_RdyListInsertHead t s)"
    unfolding OS_RdyListInsertHead_def Let_def assms(3)
    by (auto split: option.splits intro!: only_list_parts assms(3) dest: m)
  show "only_list p s (OS_RdyListInsertTail t s)"
    unfolding OS_RdyListInsertTail_def Let_def assms(3)
    by (auto split: option.splits intro!: only_list_parts only_list_ptr assms(3) dest: m)
  show "only_list p s (OS_RdyListRemove t s)" if "t \<in> set xs"
  proof -
    note n = assms(2)[OF ready_listD(3)[OF assms(1) that]] assms(2)[OF ready_listD(4)[OF assms(1) that]]
    show ?thesis
      unfolding OS_RdyListRemove_def Let_def assms(3)
      by (auto intro!: only_list_parts only_list_ptr assms(3) dest: n)
  qed
  show "only_list p s (OS_RdyListMoveHeadToTail p s)"
    unfolding OS_RdyListMoveHeadToTail_def Let_def
    by (auto split: option.splits intro!: only_list_parts only_list_ptr
        dest: m ready_listD(3)[OF assms(1) ready_listD(1)[OF assms(1)]] intro: assms(2))
qed

text \<open>The table.\<close>

lemma prio_bit:
  assumes "unat p < 32"
  shows "unat (31 - ucast p :: u32) = 31 - unat p"
proof -
  have "unat (ucast p :: u32) = unat p" using assms by (simp add: unsigned_ucast_eq take_bit_nat_eq_self)
  moreover from this have "(ucast p :: u32) \<le> 31" using assms by (simp add: word_le_nat_alt)
  ultimately show ?thesis by (simp add: unat_sub)
qed

lemma prio_table:
  assumes "unat p < 32" "unat q < 32"
  shows "bit (OS_PrioInsert p b) (31 - unat q) \<longleftrightarrow> q = p \<or> bit b (31 - unat q)"
    "bit (OS_PrioRemove p b) (31 - unat q) \<longleftrightarrow> q \<noteq> p \<and> bit b (31 - unat q)"
proof -
  have "bit (push_bit (31 - unat p) (1 :: u32)) (31 - unat q) \<longleftrightarrow> q = p"
    using assms by (auto simp: bit_simps word_unat_eq_iff)
  then show "bit (OS_PrioInsert p b) (31 - unat q) \<longleftrightarrow> q = p \<or> bit b (31 - unat q)"
    "bit (OS_PrioRemove p b) (31 - unat q) \<longleftrightarrow> q \<noteq> p \<and> bit b (31 - unat q)"
    using assms by (auto simp: OS_PrioInsert_def OS_PrioRemove_def prio_bit bit_or_iff bit_and_iff bit_not_iff)
qed

lemma highest_priority:
  assumes "unat q < 32" "bit b (31 - unat q)"
  shows "unat (OS_PrioGetHighest b) < 32 \<and> bit b (31 - unat (OS_PrioGetHighest b)) \<and>
    (\<forall>r. unat r < 32 \<and> bit b (31 - unat r) \<longrightarrow> OS_PrioGetHighest b \<le> r)"
proof -
  define P where "P = (\<lambda>i. \<not> bit b (31 - i))"
  define k where "k = length (takeWhile P [0..<32])"
  have k32: "k < 32"
  proof (rule ccontr)
    assume "\<not> k < 32"
    then have "takeWhile P [0..<32] = [0..<32]"
      unfolding k_def by (metis length_takeWhile_le length_upt diff_zero not_less le_antisym takeWhile_eq_take take_all)
    then have "\<forall>i\<in>set [0..<32]. P i" by (simp only: takeWhile_eq_all_conv)
    then show False using assms by (auto simp: P_def)
  qed
  have kP: "\<not> P k" using nth_length_takeWhile[of P "[0..<32]"] k32 unfolding k_def[symmetric] by simp
  have below: "P i" if "i < k" for i
  proof -
    have "takeWhile P [0..<32] ! i = [0..<32] ! i" using that unfolding k_def by (rule takeWhile_nth)
    moreover have "takeWhile P [0..<32] ! i \<in> set (takeWhile P [0..<32])" using that unfolding k_def by (rule nth_mem)
    ultimately show ?thesis using that k32 set_takeWhileD[of "takeWhile P [0..<32] ! i" P "[0..<32]"] by simp
  qed
  have h: "unat (OS_PrioGetHighest b) = k"
    using k32 unfolding OS_PrioGetHighest_def CPU_CntLeadZeros_def P_def[symmetric] k_def[symmetric]
    by (simp add: unsigned_ucast_eq unsigned_of_nat take_bit_nat_eq_self)
  show ?thesis
    using h k32 kP below by (auto simp: P_def word_le_nat_alt intro: leI)
qed

text \<open>How an operation on one list changes all lists.\<close>

lemma ready_lists_change:
  assumes "ready_lists s ls" "only_list p s s'" "ready_list s' p xs" "\<And>t. t \<in> set xs \<Longrightarrow> Prio (tcb s t) = p" "unat p < 32"
    and "\<And>q. unat q < 32 \<Longrightarrow> bit (OSPrioTbl s') (31 - unat q) \<longleftrightarrow> (if q = p then xs \<noteq> [] else bit (OSPrioTbl s) (31 - unat q))"
  shows "ready_lists s' (ls(p := xs))"
proof -
  have "ready_list s' q (ls q)" if "q \<noteq> p" for q
  proof -
    have l: "ready_list s q (ls q)" "\<And>t. t \<in> set (ls q) \<Longrightarrow> Prio (tcb s t) = q" using assms(1) by (auto simp: ready_lists_def)
    have "tcb s' t = tcb s t" if "t \<in> set (ls q)" for t
      using l(2)[OF that] \<open>q \<noteq> p\<close> assms(2) by (simp add: only_list_def)
    then have "seg (tcb s') None (ls q) None = seg (tcb s) None (ls q) None" by (intro seg_cong) simp
    then show ?thesis using l(1) that assms(2) by (simp add: ready_list_def only_list_def)
  qed
  then show ?thesis
    using assms by (auto simp: ready_lists_def only_list_same(6)[OF assms(2)] split: if_splits)
qed

lemma ready_listsD:
  assumes "ready_lists s ls"
  shows "ready_list s p (ls p)" "t \<in> set (ls p) \<Longrightarrow> Prio (tcb s t) = p" "ls p \<noteq> [] \<Longrightarrow> unat p < 32"
    "unat p < 32 \<Longrightarrow> bit (OSPrioTbl s) (31 - unat p) \<longleftrightarrow> ls p \<noteq> []"
  using assms by (auto simp: ready_lists_def)

lemma insert_lists:
  assumes r: "ready_lists s ls" and t: "\<And>p. t \<notin> set (ls p)" "unat p < 32" "Prio (tcb s t) = p"
  shows "ready_lists (OS_RdyListInsertTail t (s\<lparr>OSPrioTbl := OS_PrioInsert p (OSPrioTbl s)\<rparr>)) (ls(p := ls p @ [t]))"
    "ready_lists (OS_RdyListInsertHead t (s\<lparr>OSPrioTbl := OS_PrioInsert p (OSPrioTbl s)\<rparr>)) (ls(p := t # ls p))"
    "only_list p s (OS_RdyListInsertTail t (s\<lparr>OSPrioTbl := OS_PrioInsert p (OSPrioTbl s)\<rparr>))"
    "only_list p s (OS_RdyListInsertHead t (s\<lparr>OSPrioTbl := OS_PrioInsert p (OSPrioTbl s)\<rparr>))"
proof -
  let ?s = "s\<lparr>OSPrioTbl := OS_PrioInsert p (OSPrioTbl s)\<rparr>"
  have l: "ready_list ?s p (ls p)" "\<And>x. x \<in> set (ls p) \<Longrightarrow> Prio (tcb ?s x) = p" "Prio (tcb ?s t) = p"
    using ready_listsD(1,2)[OF r] t(3) by (simp_all add: ready_list_def)
  have only: "only_list p s s'" if "only_list p ?s s'" for s' using that by (simp add: only_list_def)
  show o: "only_list p s (OS_RdyListInsertTail t ?s)" "only_list p s (OS_RdyListInsertHead t ?s)"
    using only list_ops_only(1,2)[OF l] by blast+
  have tbl: "OSPrioTbl (OS_RdyListInsertTail t ?s) = OSPrioTbl ?s" "OSPrioTbl (OS_RdyListInsertHead t ?s) = OSPrioTbl ?s"
    by (simp_all add: OS_RdyListInsertTail_def OS_RdyListInsertHead_def Let_def at_ptr_def split: option.splits)
  have bits: "bit (OSPrioTbl ?s) (31 - unat q) \<longleftrightarrow> (if q = p then True else bit (OSPrioTbl s) (31 - unat q))" if "unat q < 32" for q
    using prio_table(1)[OF t(2) that] by simp
  show "ready_lists (OS_RdyListInsertTail t ?s) (ls(p := ls p @ [t]))"
    using insert_tail_list[OF l(1) t(1) l(3)] bits ready_listsD(2)[OF r] t(2,3) unfolding tbl(1)[symmetric]
    by (intro ready_lists_change[OF r o(1)]) auto
  show "ready_lists (OS_RdyListInsertHead t ?s) (ls(p := t # ls p))"
    using insert_head_list[OF l(1) t(1) l(3)] bits ready_listsD(2)[OF r] t(2,3) unfolding tbl(2)[symmetric]
    by (intro ready_lists_change[OF r o(2)]) auto
qed

lemma remove_lists:
  assumes r: "ready_lists s ls" and t: "t \<in> set (ls p)"
  shows "ready_lists (OS_RdyListRemove t s) (ls(p := remove1 t (ls p)))" "only_list p s (OS_RdyListRemove t s)"
proof -
  have "ls p \<noteq> []" using t by auto
  then have l: "ready_list s p (ls p)" "\<And>x. x \<in> set (ls p) \<Longrightarrow> Prio (tcb s x) = p" "Prio (tcb s t) = p" "unat p < 32"
    using ready_listsD(2)[OF r] ready_listsD(1,3)[OF r, of p] t by blast+
  show o: "only_list p s (OS_RdyListRemove t s)" by (rule list_ops_only(3)[OF l(1-3) t])
  obtain as bs where xs: "ls p = as @ t # bs" "t \<notin> set as" using split_list_first[OF t] by blast
  have rm: "remove1 t (ls p) = as @ bs" using xs by (simp add: remove1_append)
  have "PrevPtr (tcb s t) = (if as = [] then None else Some (last as))"
    "NextPtr (tcb s t) = (case bs of [] \<Rightarrow> None | b # _ \<Rightarrow> Some b)"
    using l(1) xs(1) by (auto simp: ready_list_def seg_append)
  then have tbl: "OSPrioTbl (OS_RdyListRemove t s) =
      (if remove1 t (ls p) = [] then OS_PrioRemove p (OSPrioTbl s) else OSPrioTbl s)"
    unfolding rm by (cases as; cases bs) (simp_all add: OS_RdyListRemove_def Let_def l(3) at_ptr_def)
  have "bit (OSPrioTbl (OS_RdyListRemove t s)) (31 - unat q) \<longleftrightarrow>
      (if q = p then remove1 t (ls p) \<noteq> [] else bit (OSPrioTbl s) (31 - unat q))" if "unat q < 32" for q
    using prio_table(2)[OF l(4) that] ready_listsD(4)[OF r l(4)] t by (auto simp: tbl)
  moreover have "Prio (tcb s x) = p" if "x \<in> set (remove1 t (ls p))" for x
    using l(2) subsetD[OF set_remove1_subset that] by blast
  ultimately show "ready_lists (OS_RdyListRemove t s) (ls(p := remove1 t (ls p)))"
    by (intro ready_lists_change[OF r o remove_list[OF l(1) t l(3)] _ l(4)]) blast+
qed

section \<open>Runs of the kernel\<close>

text \<open>
  What can happen: tasks are created, the kernel starts, a waiting task becomes ready (posted by a task or in an interrupt,
  or its time is over), the running task starts to wait, a task calls the scheduler, interrupts begin and end, the
  scheduler is locked and unlocked. The kernel's own tests guard the events; the idle task never waits.
\<close>

datatype sched_event = Create nat u8 | Start | Wake nat | Block u32 | Reschedule | Int_Enter | Int_Exit | Lock | Unlock

definition sched_turn :: "nat \<Rightarrow> sched_event \<Rightarrow> sched \<Rightarrow> sched option" where
  "sched_turn idle e s =
     (case e of
        Create t p \<Rightarrow>
          if TaskState (tcb s t) = OS_TASK_STATE_DEL \<and> unat p < OS_CFG_PRIO_MAX \<and> OSIntNestingCtr s = 0
          then OSTaskCreate t p s else Some s
      | Start \<Rightarrow> Some (if TaskState (tcb s idle) = OS_TASK_STATE_RDY then OSStart s else s)
      | Wake t \<Rightarrow> Some (if TaskState (tcb s t) \<in> {OS_TASK_STATE_PEND, OS_TASK_STATE_PEND_TIMEOUT} then make_ready t s else s)
      | Block timeout \<Rightarrow>
          (case OSTCBCurPtr s of
             None \<Rightarrow> Some s
           | Some c \<Rightarrow>
               Some (if OSRunning s \<and> OSIntNestingCtr s = 0 \<and> OSSchedLockNestingCtr s = 0 \<and>
                        TaskState (tcb s c) = OS_TASK_STATE_RDY \<and> c \<noteq> idle
                     then OS_TaskBlock c timeout s else s))
      | Reschedule \<Rightarrow> if OSRunning s then OSSched s else Some s
      | Int_Enter \<Rightarrow> Some (OSIntEnter s)
      | Int_Exit \<Rightarrow> OSIntExit s
      | Lock \<Rightarrow> Some (snd (OSSchedLock s))
      | Unlock \<Rightarrow> map_option snd (OSSchedUnlock s))"

fun sched_run :: "nat \<Rightarrow> sched_event list \<Rightarrow> sched \<Rightarrow> sched option" where
  "sched_run idle [] s = Some s"
| "sched_run idle (e # es) s = do { s1 \<leftarrow> sched_turn idle e s; sched_run idle es s1 }"

definition sched_zero :: sched where
  "sched_zero = \<lparr>tcb = (\<lambda>_. \<lparr>NextPtr = None, PrevPtr = None, TaskState = OS_TASK_STATE_DEL, Prio = 0, CtxSwCtr = 0\<rparr>),
     OSRdyList = (\<lambda>_. \<lparr>HeadPtr = None, TailPtr = None, NbrEntries = 0\<rparr>), OSPrioTbl = 0, OSPrioCur = 0,
     OSPrioHighRdy = 0, OSTCBCurPtr = None, OSTCBHighRdyPtr = None, OSRunning = False, OSIntNestingCtr = 0,
     OSSchedLockNestingCtr = 0, OSTaskCtxSwCtr = 0\<rparr>"

text \<open>The invariant: the lists hold exactly the ready tasks; tasks have priorities; once started, the idle task is ready.\<close>

definition sched_ok :: "nat \<Rightarrow> sched \<Rightarrow> (u8 \<Rightarrow> nat list) \<Rightarrow> bool" where
  "sched_ok idle s ls \<longleftrightarrow> ready_lists s ls \<and>
     (\<forall>t. TaskState (tcb s t) = OS_TASK_STATE_RDY \<longleftrightarrow> t \<in> set (ls (Prio (tcb s t)))) \<and>
     (\<forall>t. TaskState (tcb s t) \<noteq> OS_TASK_STATE_DEL \<longrightarrow> unat (Prio (tcb s t)) < 32) \<and>
     (OSRunning s \<longrightarrow> TaskState (tcb s idle) = OS_TASK_STATE_RDY \<and>
        OSTCBCurPtr s \<noteq> None \<and>
        (\<forall>c. OSTCBCurPtr s = Some c \<longrightarrow> Prio (tcb s c) = OSPrioCur s \<and> TaskState (tcb s c) \<noteq> OS_TASK_STATE_DEL))"

text \<open>Reading an operation that changes the state of one task only.\<close>

lemma only_list_trans: "only_list p s s1 \<Longrightarrow> only_list p s1 s2 \<Longrightarrow> only_list p s s2"
  by (simp add: only_list_def)

lemma sched_ok_fields:
  "tcb s' = tcb s \<Longrightarrow> OSRdyList s' = OSRdyList s \<Longrightarrow> OSPrioTbl s' = OSPrioTbl s \<Longrightarrow> ready_lists s' ls = ready_lists s ls"
  by (simp add: ready_lists_def ready_list_def)

lemma ready_lists_state:
  assumes "\<And>c. NextPtr (g c) = NextPtr c \<and> PrevPtr (g c) = PrevPtr c \<and> Prio (g c) = Prio c"
  shows "ready_lists (tcb_set t g s) ls = ready_lists s ls"
proof -
  have "seg (tcb (tcb_set t g s)) q xs n = seg (tcb s) q xs n" for q xs n
    using assms by (intro seg_cong) (auto simp: tcb_set_def)
  moreover have "Prio (tcb (tcb_set t g s) x) = Prio (tcb s x)" for x using assms by (simp add: tcb_set_def)
  ultimately show ?thesis by (simp add: ready_lists_def ready_list_def)
qed

lemma not_ready_not_listed:
  assumes "sched_ok idle s ls" "TaskState (tcb s t) \<noteq> OS_TASK_STATE_RDY"
  shows "t \<notin> set (ls p)"
  using assms ready_listsD(2)[of s ls t p] by (auto simp: sched_ok_def)

lemma sched_ok_start: "sched_ok idle sched_zero (\<lambda>_. [])"
  by (simp add: sched_ok_def ready_lists_def ready_list_def sched_zero_def)

lemma sched_ok_wake:
  assumes ok: "sched_ok idle s ls" and t: "TaskState (tcb s t) \<in> {OS_TASK_STATE_PEND, OS_TASK_STATE_PEND_TIMEOUT}" "Prio (tcb s t) = p"
  shows "sched_ok idle (make_ready t s) (ls(p := if p = OSPrioCur s then ls p @ [t] else t # ls p))"
    "OSPrioCur (make_ready t s) = OSPrioCur s" "OSTCBCurPtr (make_ready t s) = OSTCBCurPtr s" "OSRunning (make_ready t s) = OSRunning s"
    "Prio (tcb (make_ready t s) x) = Prio (tcb s x)"
    "TaskState (tcb (make_ready t s) x) = (if x = t then OS_TASK_STATE_RDY else TaskState (tcb s x))"
proof -
  have r: "ready_lists s ls" and p: "unat p < 32" using ok t by (auto simp: sched_ok_def)
  have n: "t \<notin> set (ls p)" for p using t(1) by (intro not_ready_not_listed[OF ok]) auto
  define s1 where "s1 = OS_RdyListInsert t s"
  define ls1 where "ls1 = ls(p := if p = OSPrioCur s then ls p @ [t] else t # ls p)"
  have 1: "ready_lists s1 ls1" "only_list p s s1"
    using insert_lists[OF r n p t(2)] t(2)
    by (cases "p = OSPrioCur s"; simp add: s1_def ls1_def OS_RdyListInsert_def Let_def)+
  have m: "make_ready t s = tcb_set t (\<lambda>c. c\<lparr>TaskState := OS_TASK_STATE_RDY\<rparr>) s1" by (simp add: make_ready_def s1_def)
  have "ready_lists (make_ready t s) ls1" using 1(1) ready_lists_state[of "\<lambda>c. c\<lparr>TaskState := OS_TASK_STATE_RDY\<rparr>"] by (simp add: m)
  then show "sched_ok idle (make_ready t s) (ls(p := if p = OSPrioCur s then ls p @ [t] else t # ls p))"
    using ok t p n only_list_same[OF 1(2)] unfolding sched_ok_def ls1_def[symmetric]
    by (auto simp: m tcb_set_def ls1_def)
  show "OSPrioCur (make_ready t s) = OSPrioCur s" "OSTCBCurPtr (make_ready t s) = OSTCBCurPtr s" "OSRunning (make_ready t s) = OSRunning s"
    "Prio (tcb (make_ready t s) x) = Prio (tcb s x)"
    "TaskState (tcb (make_ready t s) x) = (if x = t then OS_TASK_STATE_RDY else TaskState (tcb s x))"
    using only_list_same[OF 1(2)] by (simp_all add: m tcb_set_def)
qed

lemma sched_ok_block:
  assumes ok: "sched_ok idle s ls" and t: "TaskState (tcb s t) = OS_TASK_STATE_RDY" "Prio (tcb s t) = p" "t \<noteq> idle"
  shows "sched_ok idle (OS_TaskBlock t timeout s) (ls(p := remove1 t (ls p)))"
proof -
  define st where "st = (if timeout > 0 then OS_TASK_STATE_PEND_TIMEOUT else OS_TASK_STATE_PEND)"
  define s0 where "s0 = tcb_set t (\<lambda>c. c\<lparr>TaskState := st\<rparr>) s"
  have r: "ready_lists s0 ls" using ok ready_lists_state[of "\<lambda>c. c\<lparr>TaskState := st\<rparr>"] by (simp add: sched_ok_def s0_def)
  have in_l: "t \<in> set (ls p)" "distinct (ls p)" using ok t ready_listsD(1)[OF r, of p] by (auto simp: sched_ok_def ready_list_def)
  have p: "unat p < 32" using ready_listsD(3)[OF r, of p] in_l(1) by force
  note 1 = remove_lists[OF r in_l(1)]
  have b: "OS_TaskBlock t timeout s = OS_RdyListRemove t s0" by (simp add: OS_TaskBlock_def s0_def st_def)
  have st: "st \<noteq> OS_TASK_STATE_RDY" "st \<noteq> OS_TASK_STATE_DEL" by (simp_all add: st_def)
  have s0: "TaskState (tcb s0 x) = (if x = t then st else TaskState (tcb s x))" "Prio (tcb s0 x) = Prio (tcb s x)"
    "OSRunning s0 = OSRunning s" "OSTCBCurPtr s0 = OSTCBCurPtr s" "OSPrioCur s0 = OSPrioCur s" for x
    by (simp_all add: s0_def tcb_set_def)
  have "x \<in> set (ls (Prio (tcb s x))) \<longleftrightarrow> TaskState (tcb s x) = OS_TASK_STATE_RDY" for x using ok by (simp add: sched_ok_def)
  then show ?thesis
    using ok t p 1(1) st in_l unfolding sched_ok_def b
    by (auto simp: only_list_same[OF 1(2)] s0)
qed

text \<open>The task that should run: the first one in the list of the most urgent priority that has a ready task.\<close>

definition most_urgent :: "(u8 \<Rightarrow> nat list) \<Rightarrow> u8 \<Rightarrow> bool" where
  "most_urgent ls p \<longleftrightarrow> ls p \<noteq> [] \<and> (\<forall>q. ls q \<noteq> [] \<longrightarrow> p \<le> q)"

lemma most_urgent_unique: "most_urgent ls p \<Longrightarrow> most_urgent ls q \<Longrightarrow> p = q"
  by (auto simp: most_urgent_def intro: antisym)

lemma highest_is_most_urgent:
  assumes "ready_lists s ls" "ls q \<noteq> []"
  shows "most_urgent ls (OS_PrioGetHighest (OSPrioTbl s))"
proof -
  have q: "unat q < 32" "bit (OSPrioTbl s) (31 - unat q)" using ready_listsD(3,4)[OF assms(1), of q] assms(2) by simp_all
  note h = highest_priority[OF q]
  show ?thesis
    unfolding most_urgent_def
    using h ready_listsD(4)[OF assms(1)] ready_listsD(3)[OF assms(1)] by blast
qed

lemma switch_ok:
  assumes ok: "sched_ok idle s ls" "OSRunning s"
  shows "\<exists>s' p. switch_to_highest s = Some s' \<and> sched_ok idle s' ls \<and> OSRunning s' \<and> most_urgent ls p \<and>
    OSPrioCur s' = p \<and> OSTCBCurPtr s' = Some (hd (ls p)) \<and> (\<forall>x. Prio (tcb s' x) = Prio (tcb s x) \<and> TaskState (tcb s' x) = TaskState (tcb s x)) \<and>
    (most_urgent ls (OSPrioCur s) \<and> OSTCBCurPtr s = Some (hd (ls (OSPrioCur s))) \<longrightarrow> OSTCBCurPtr s' = OSTCBCurPtr s)"
proof -
  have r: "ready_lists s ls" using ok by (simp add: sched_ok_def)
  have "ls (Prio (tcb s idle)) \<noteq> []" using ok by (auto simp: sched_ok_def)
  note u = highest_is_most_urgent[OF r this]
  define p where "p = OS_PrioGetHighest (OSPrioTbl s)"
  define t where "t = hd (ls p)"
  have p: "most_urgent ls p" using u by (simp add: p_def)
  have t: "t \<in> set (ls p)" "HeadPtr (OSRdyList s p) = Some t"
    using p ready_listsD(1)[OF r, of p] by (auto simp: most_urgent_def t_def ready_list_def)
  have tp: "Prio (tcb s t) = p" "TaskState (tcb s t) = OS_TASK_STATE_RDY" "TaskState (tcb s t) \<noteq> OS_TASK_STATE_DEL"
  proof -
    show "Prio (tcb s t) = p" using ready_listsD(2)[OF r t(1)] .
    then show "TaskState (tcb s t) = OS_TASK_STATE_RDY" using ok t by (simp add: sched_ok_def)
    then show "TaskState (tcb s t) \<noteq> OS_TASK_STATE_DEL" by simp
  qed
  define s1 where "s1 = s\<lparr>OSPrioHighRdy := p, OSTCBHighRdyPtr := Some t\<rparr>"
  define s2 where "s2 = OSCtxSw ((tcb_set t (\<lambda>c. c\<lparr>CtxSwCtr := CtxSwCtr c + 1\<rparr>) s1)\<lparr>OSTaskCtxSwCtr := OSTaskCtxSwCtr s + 1\<rparr>)"
  have sw: "switch_to_highest s = (if OSTCBCurPtr s = Some t then Some s1 else Some s2)"
    using t(2) unfolding switch_to_highest_def Let_def p_def[symmetric] s1_def s2_def by auto
  have same: "most_urgent ls (OSPrioCur s) \<Longrightarrow> OSTCBCurPtr s = Some (hd (ls (OSPrioCur s))) \<Longrightarrow> OSTCBCurPtr s = Some t"
    using most_urgent_unique[OF p] by (auto simp: t_def)
  show ?thesis
  proof (cases "OSTCBCurPtr s = Some t")
    case True
    have "ready_lists s1 ls" using r by (simp add: s1_def ready_lists_def ready_list_def)
    then have "sched_ok idle s1 ls" using ok by (simp add: sched_ok_def s1_def)
    moreover have "OSPrioCur s1 = p" using ok True tp by (auto simp: sched_ok_def s1_def)
    ultimately show ?thesis
      using sw True p ok(2) by (intro exI[of _ s1] exI[of _ p]) (auto simp: s1_def t_def)
  next
    case False
    have "ready_lists (tcb_set t (\<lambda>c. c\<lparr>CtxSwCtr := CtxSwCtr c + 1\<rparr>) s) ls"
      using r ready_lists_state[of "\<lambda>c. c\<lparr>CtxSwCtr := CtxSwCtr c + 1\<rparr>"] by simp
    then have "ready_lists s2 ls" by (simp add: s2_def s1_def OSCtxSw_def tcb_set_def ready_lists_def ready_list_def)
    then have "sched_ok idle s2 ls"
      using ok tp by (auto simp: sched_ok_def s2_def s1_def OSCtxSw_def tcb_set_def)
    then show ?thesis
      using sw False p ok(2) same by (intro exI[of _ s2] exI[of _ p]) (auto simp: s2_def s1_def OSCtxSw_def tcb_set_def t_def)
  qed
qed

lemma sched_ok_create:
  assumes ok: "sched_ok idle s ls" and t: "TaskState (tcb s t) = OS_TASK_STATE_DEL" "unat p < 32"
  defines "s2 \<equiv> OS_RdyListInsertTail t ((tcb_set t (\<lambda>c. c\<lparr>TaskState := OS_TASK_STATE_RDY, Prio := p\<rparr>) s)
    \<lparr>OSPrioTbl := OS_PrioInsert p (OSPrioTbl (tcb_set t (\<lambda>c. c\<lparr>TaskState := OS_TASK_STATE_RDY, Prio := p\<rparr>) s))\<rparr>)"
  shows "sched_ok idle s2 (ls(p := ls p @ [t]))" "OSRunning s2 = OSRunning s" "OSPrioCur s2 = OSPrioCur s"
    "OSTCBCurPtr s2 = OSTCBCurPtr s" "OSIntNestingCtr s2 = OSIntNestingCtr s" "x \<noteq> t \<Longrightarrow> Prio (tcb s2 x) = Prio (tcb s x)"
    "TaskState (tcb s2 x) = (if x = t then OS_TASK_STATE_RDY else TaskState (tcb s x))"
proof -
  define s0 where "s0 = tcb_set t (\<lambda>c. c\<lparr>TaskState := OS_TASK_STATE_RDY, Prio := p\<rparr>) s"
  have nl: "t \<notin> set (ls q)" for q using t(1) by (intro not_ready_not_listed[OF ok]) simp
  have r: "ready_lists s ls" using ok by (simp add: sched_ok_def)
  have "seg (tcb s0) q (ls z) n = seg (tcb s) q (ls z) n" for q z n
    using nl by (intro seg_cong) (auto simp: s0_def tcb_set_def)
  then have r0: "ready_lists s0 ls" using r nl by (auto simp: ready_lists_def ready_list_def s0_def tcb_set_def)
  have p0: "Prio (tcb s0 t) = p" by (simp add: s0_def tcb_set_def)
  note 1 = insert_lists(1,3)[OF r0 nl t(2) p0]
  have s2: "s2 = OS_RdyListInsertTail t (s0\<lparr>OSPrioTbl := OS_PrioInsert p (OSPrioTbl s0)\<rparr>)" by (simp add: s2_def s0_def)
  have s0: "TaskState (tcb s0 x) = (if x = t then OS_TASK_STATE_RDY else TaskState (tcb s x))"
    "Prio (tcb s0 x) = (if x = t then p else Prio (tcb s x))"
    "OSRunning s0 = OSRunning s" "OSTCBCurPtr s0 = OSTCBCurPtr s" "OSPrioCur s0 = OSPrioCur s"
    "OSIntNestingCtr s0 = OSIntNestingCtr s" for x by (simp_all add: s0_def tcb_set_def)
  have rdy: "x \<in> set (ls (Prio (tcb s x))) \<longleftrightarrow> TaskState (tcb s x) = OS_TASK_STATE_RDY" for x using ok by (simp add: sched_ok_def)
  show "sched_ok idle s2 (ls(p := ls p @ [t]))"
    using ok t 1(1) nl unfolding sched_ok_def s2
    by (auto simp: only_list_same[OF 1(2)] s0)
  show "OSRunning s2 = OSRunning s" "OSPrioCur s2 = OSPrioCur s" "OSTCBCurPtr s2 = OSTCBCurPtr s"
    "OSIntNestingCtr s2 = OSIntNestingCtr s" "x \<noteq> t \<Longrightarrow> Prio (tcb s2 x) = Prio (tcb s x)"
    "TaskState (tcb s2 x) = (if x = t then OS_TASK_STATE_RDY else TaskState (tcb s x))"
    by (simp_all add: s2 only_list_same[OF 1(2)] s0)
qed

text \<open>No event faults, and every event keeps the invariant.\<close>

lemma sched_ok_cong:
  "sched_ok idle s ls \<Longrightarrow> tcb s' = tcb s \<Longrightarrow> OSRdyList s' = OSRdyList s \<Longrightarrow> OSPrioTbl s' = OSPrioTbl s \<Longrightarrow>
     OSRunning s' = OSRunning s \<Longrightarrow> OSTCBCurPtr s' = OSTCBCurPtr s \<Longrightarrow> OSPrioCur s' = OSPrioCur s \<Longrightarrow> sched_ok idle s' ls"
  by (simp add: sched_ok_def ready_lists_def ready_list_def)

lemma OSSched_ok:
  assumes "sched_ok idle s ls" "OSRunning s"
  shows "\<exists>s'. OSSched s = Some s' \<and> sched_ok idle s' ls"
  using switch_ok[OF assms] assms(1) by (auto simp: OSSched_def)

lemma OSIntExit_ok:
  assumes "sched_ok idle s ls"
  shows "\<exists>s'. OSIntExit s = Some s' \<and> sched_ok idle s' ls"
proof -
  define s1 where "s1 = s\<lparr>OSIntNestingCtr := OSIntNestingCtr s - 1\<rparr>"
  have "sched_ok idle s1 ls" by (rule sched_ok_cong[OF assms]) (simp_all add: s1_def)
  moreover from this have "OSRunning s \<Longrightarrow> \<exists>s'. switch_to_highest s1 = Some s' \<and> sched_ok idle s' ls"
    using switch_ok[of idle s1 ls] by (auto simp: s1_def)
  ultimately show ?thesis
    using assms unfolding OSIntExit_def Let_def s1_def[symmetric] by simp
qed

lemma OSStart_ok:
  assumes "sched_ok idle s ls" "TaskState (tcb s idle) = OS_TASK_STATE_RDY"
  shows "sched_ok idle (OSStart s) ls"
proof (cases "OSRunning s")
  case False
  have r: "ready_lists s ls" using assms by (simp add: sched_ok_def)
  have "ls (Prio (tcb s idle)) \<noteq> []" using assms by (auto simp: sched_ok_def)
  note u = highest_is_most_urgent[OF r this]
  define p where "p = OS_PrioGetHighest (OSPrioTbl s)"
  define t where "t = hd (ls p)"
  have t: "t \<in> set (ls p)" "HeadPtr (OSRdyList s p) = Some t"
    using u ready_listsD(1)[OF r, of p] by (auto simp: most_urgent_def t_def p_def ready_list_def)
  have "Prio (tcb s t) = p" using ready_listsD(2)[OF r t(1)] .
  moreover from this have "TaskState (tcb s t) = OS_TASK_STATE_RDY" using assms(1) t(1) by (simp add: sched_ok_def)
  then have "TaskState (tcb s t) \<noteq> OS_TASK_STATE_DEL" by simp
  moreover define s' where "s' = s\<lparr>OSPrioHighRdy := p, OSPrioCur := p, OSTCBHighRdyPtr := Some t, OSTCBCurPtr := Some t, OSRunning := True\<rparr>"
  moreover have "OSStart s = s'" using False t(2) by (simp add: OSStart_def Let_def p_def s'_def)
  moreover have "ready_lists s' ls" using r sched_ok_fields[of s' s ls] by (simp add: s'_def)
  ultimately show ?thesis using assms by (simp add: sched_ok_def)
qed (use assms in \<open>simp add: OSStart_def\<close>)

lemma sched_ok_turn:
  assumes ok: "sched_ok idle s ls"
  shows "\<exists>s' ls'. sched_turn idle e s = Some s' \<and> sched_ok idle s' ls'"
proof (cases e)
  case (Create t p)
  show ?thesis
  proof (cases "TaskState (tcb s t) = OS_TASK_STATE_DEL \<and> unat p < 32 \<and> OSIntNestingCtr s = 0")
    case True
    define s2 where "s2 = OS_RdyListInsertTail t ((tcb_set t (\<lambda>c. c\<lparr>TaskState := OS_TASK_STATE_RDY, Prio := p\<rparr>) s)
      \<lparr>OSPrioTbl := OS_PrioInsert p (OSPrioTbl (tcb_set t (\<lambda>c. c\<lparr>TaskState := OS_TASK_STATE_RDY, Prio := p\<rparr>) s))\<rparr>)"
    have s2: "sched_ok idle s2 (ls(p := ls p @ [t]))" using sched_ok_create(1)[OF ok] True by (simp add: s2_def)
    have "sched_turn idle e s = (if \<not> OSRunning s2 then Some s2 else OSSched s2)"
      using True by (simp add: sched_turn_def Create OSTaskCreate_def Let_def s2_def OS_CFG_PRIO_MAX_def del: Prio_set)
    then show ?thesis using OSSched_ok[OF s2] s2 by (cases "OSRunning s2") auto
  qed (use ok in \<open>auto simp: sched_turn_def Create OS_CFG_PRIO_MAX_def\<close>)
next
  case Start
  then show ?thesis using ok OSStart_ok[OF ok] by (auto simp: sched_turn_def)
next
  case (Wake t)
  then show ?thesis using ok sched_ok_wake(1)[OF ok _ refl, of t] by (auto simp: sched_turn_def)
next
  case (Block timeout)
  then show ?thesis
    using ok sched_ok_block[OF ok _ refl] by (cases "OSTCBCurPtr s") (auto simp: sched_turn_def)
next
  case Reschedule
  then show ?thesis using ok OSSched_ok[OF ok] by (auto simp: sched_turn_def)
next
  case Int_Enter
  have "sched_ok idle (OSIntEnter s) ls" by (rule sched_ok_cong[OF ok]) (simp_all add: OSIntEnter_def)
  then show ?thesis by (auto simp: sched_turn_def Int_Enter)
next
  case Int_Exit
  then show ?thesis using OSIntExit_ok[OF ok] by (auto simp: sched_turn_def)
next
  case Lock
  have "sched_ok idle (snd (OSSchedLock s)) ls" by (rule sched_ok_cong[OF ok]) (simp_all add: OSSchedLock_def)
  then show ?thesis by (auto simp: sched_turn_def Lock)
next
  case Unlock
  define s1 where "s1 = s\<lparr>OSSchedLockNestingCtr := OSSchedLockNestingCtr s - 1\<rparr>"
  have s1: "sched_ok idle s1 ls" by (rule sched_ok_cong[OF ok]) (simp_all add: s1_def)
  then show ?thesis
    using ok OSSched_ok[OF s1] unfolding sched_turn_def Unlock OSSchedUnlock_def Let_def s1_def[symmetric]
    by (cases "OSRunning s") (auto simp: s1_def)
qed

lemma sched_ok_run: "sched_ok idle s ls \<Longrightarrow> \<exists>s' ls'. sched_run idle es s = Some s' \<and> sched_ok idle s' ls'"
proof (induction es arbitrary: s ls)
  case (Cons e es)
  then show ?case using sched_ok_turn[OF Cons.prems, of e] by fastforce
qed auto

text \<open>The kernel never follows a null pointer.\<close>

lemma kernel_never_faults: "sched_run idle es sched_zero \<noteq> None"
  using sched_ok_run[OF sched_ok_start] by fastforce

section \<open>Who has the processor\<close>

definition waiting :: "sched \<Rightarrow> nat \<Rightarrow> bool" where
  "waiting s t \<longleftrightarrow> TaskState (tcb s t) \<in> {OS_TASK_STATE_PEND, OS_TASK_STATE_PEND_TIMEOUT}"

text \<open>The running task is ready, and no ready task is more urgent.\<close>

definition has_cpu :: "sched \<Rightarrow> nat \<Rightarrow> bool" where
  "has_cpu s c \<longleftrightarrow> OSTCBCurPtr s = Some c \<and> TaskState (tcb s c) = OS_TASK_STATE_RDY \<and>
     (\<forall>t. TaskState (tcb s t) = OS_TASK_STATE_RDY \<longrightarrow> Prio (tcb s c) \<le> Prio (tcb s t))"

text \<open>Events in which the running task does not wait and only tasks at most as urgent as it appear.\<close>

definition harmless :: "sched \<Rightarrow> nat \<Rightarrow> sched_event \<Rightarrow> bool" where
  "harmless s c e \<longleftrightarrow>
     (case e of Create t p \<Rightarrow> Prio (tcb s c) \<le> p | Wake t \<Rightarrow> waiting s t \<longrightarrow> Prio (tcb s c) \<le> Prio (tcb s t)
      | Block _ \<Rightarrow> False | _ \<Rightarrow> True)"

text \<open>The running task is the one that should run, and the tasks waiting in \<open>s\<close> waited in \<open>s0\<close> with the same priority.\<close>

definition cur_ok :: "nat \<Rightarrow> sched \<Rightarrow> sched \<Rightarrow> (u8 \<Rightarrow> nat list) \<Rightarrow> u8 \<Rightarrow> nat \<Rightarrow> bool" where
  "cur_ok idle s0 s ls p c \<longleftrightarrow> sched_ok idle s ls \<and> OSRunning s \<and> OSTCBCurPtr s = Some c \<and> OSPrioCur s = p \<and>
     most_urgent ls p \<and> hd (ls p) = c \<and>
     (\<forall>t. waiting s t \<longrightarrow> waiting s0 t \<and> Prio (tcb s t) = Prio (tcb s0 t))"

lemma cur_ok_cong:
  "cur_ok idle s0 s ls p c \<Longrightarrow> tcb s' = tcb s \<Longrightarrow> OSRdyList s' = OSRdyList s \<Longrightarrow> OSPrioTbl s' = OSPrioTbl s \<Longrightarrow>
     OSRunning s' = OSRunning s \<Longrightarrow> OSTCBCurPtr s' = OSTCBCurPtr s \<Longrightarrow> OSPrioCur s' = OSPrioCur s \<Longrightarrow> cur_ok idle s0 s' ls p c"
  using sched_ok_cong[of idle s ls s'] by (simp add: cur_ok_def waiting_def)

lemma cur_ok_switch:
  assumes "cur_ok idle s0 s ls p c"
  shows "\<exists>s'. switch_to_highest s = Some s' \<and> cur_ok idle s0 s' ls p c"
proof -
  have ok: "sched_ok idle s ls" "OSRunning s" using assms by (simp_all add: cur_ok_def)
  from switch_ok[OF ok] obtain s' q where s': "switch_to_highest s = Some s'" "sched_ok idle s' ls" "OSRunning s'" "most_urgent ls q"
      "OSPrioCur s' = q" "OSTCBCurPtr s' = Some (hd (ls q))"
      "\<forall>x. Prio (tcb s' x) = Prio (tcb s x) \<and> TaskState (tcb s' x) = TaskState (tcb s x)" by blast
  have "q = p" using most_urgent_unique[OF s'(4)] assms by (simp add: cur_ok_def)
  then show ?thesis using s' assms by (auto simp: cur_ok_def waiting_def)
qed

lemma cur_ok_sched: "cur_ok idle s0 s ls p c \<Longrightarrow> \<exists>s'. OSSched s = Some s' \<and> cur_ok idle s0 s' ls p c"
  using cur_ok_switch by (auto simp: OSSched_def)

lemma cur_ok_more:
  assumes "most_urgent ls p" "p \<le> q" "xs = ls q @ [t] \<or> q \<noteq> p \<and> xs = t # ls q"
  shows "most_urgent (ls(q := xs)) p" "hd ((ls(q := xs)) p) = hd (ls p)"
  using assms by (auto simp: most_urgent_def)

lemma cur_ok_turn:
  assumes ok: "cur_ok idle s0 s ls p c" and e: "harmless s0 c e" and p0: "Prio (tcb s0 c) = p"
  shows "\<exists>s' ls'. sched_turn idle e s = Some s' \<and> cur_ok idle s0 s' ls' p c"
proof (cases e)
  case (Create t q)
  have so: "sched_ok idle s ls" using ok by (simp add: cur_ok_def)
  show ?thesis
  proof (cases "TaskState (tcb s t) = OS_TASK_STATE_DEL \<and> unat q < 32 \<and> OSIntNestingCtr s = 0")
    case True
    define s2 where "s2 = OS_RdyListInsertTail t ((tcb_set t (\<lambda>c. c\<lparr>TaskState := OS_TASK_STATE_RDY, Prio := q\<rparr>) s)
      \<lparr>OSPrioTbl := OS_PrioInsert q (OSPrioTbl (tcb_set t (\<lambda>c. c\<lparr>TaskState := OS_TASK_STATE_RDY, Prio := q\<rparr>) s))\<rparr>)"
    note create = sched_ok_create[OF so, of t q, folded s2_def]
    have s2: "sched_ok idle s2 (ls(q := ls q @ [t]))" "OSRunning s2" using create(1,2) True ok by (simp_all add: cur_ok_def)
    have st: "waiting s2 x \<Longrightarrow> waiting s x \<and> Prio (tcb s2 x) = Prio (tcb s x)" for x
      using create(6)[of x] create(7)[of x] True by (cases "x = t") (simp_all add: waiting_def)
    have "p \<le> q" using e p0 by (simp add: harmless_def Create)
    then have "most_urgent (ls(q := ls q @ [t])) p" "hd ((ls(q := ls q @ [t])) p) = c"
      using cur_ok_more[of ls p q "ls q @ [t]" t] ok by (simp_all add: cur_ok_def del: fun_upd_apply)
    then have "cur_ok idle s0 s2 (ls(q := ls q @ [t])) p c"
      using s2 ok create(3,4) True st unfolding cur_ok_def by metis
    moreover have "sched_turn idle e s = OSSched s2"
      using True s2(2) by (simp add: sched_turn_def Create OSTaskCreate_def Let_def s2_def OS_CFG_PRIO_MAX_def del: Prio_set)
    ultimately show ?thesis using cur_ok_sched by fastforce
  qed (use ok in \<open>auto simp: sched_turn_def Create OS_CFG_PRIO_MAX_def\<close>)
next
  case Start
  then show ?thesis using ok by (auto simp: sched_turn_def OSStart_def cur_ok_def)
next
  case (Wake t)
  have so: "sched_ok idle s ls" using ok by (simp add: cur_ok_def)
  show ?thesis
  proof (cases "waiting s t")
    case True
    define q where "q = Prio (tcb s t)"
    have w: "TaskState (tcb s t) \<in> {OS_TASK_STATE_PEND, OS_TASK_STATE_PEND_TIMEOUT}" using True by (simp add: waiting_def)
    note wake = sched_ok_wake[OF so w q_def[symmetric]]
    have "p \<le> q" using ok e p0 True by (simp add: cur_ok_def harmless_def Wake q_def)
    define ls1 where "ls1 = ls(q := if q = OSPrioCur s then ls q @ [t] else t # ls q)"
    have "most_urgent ls1 p" "hd (ls1 p) = c"
      using cur_ok_more[of ls p q "if q = OSPrioCur s then ls q @ [t] else t # ls q" t] ok \<open>p \<le> q\<close>
      by (simp_all add: cur_ok_def ls1_def del: fun_upd_apply split: if_splits)
    moreover have "waiting s x \<and> Prio (tcb (make_ready t s) x) = Prio (tcb s x)" if "waiting (make_ready t s) x" for x
      using wake(5,6)[of x] that by (simp add: waiting_def split: if_splits)
    ultimately have "cur_ok idle s0 (make_ready t s) ls1 p c"
      using wake(1-4) ok unfolding cur_ok_def ls1_def[symmetric] by metis
    then show ?thesis using w by (auto simp: sched_turn_def Wake)
  qed (use ok in \<open>auto simp: sched_turn_def Wake waiting_def\<close>)
next
  case (Block timeout)
  then show ?thesis using e by (simp add: harmless_def)
next
  case Reschedule
  then show ?thesis using ok cur_ok_sched[OF ok] by (auto simp: sched_turn_def cur_ok_def)
next
  case Int_Enter
  have "cur_ok idle s0 (OSIntEnter s) ls p c" by (rule cur_ok_cong[OF ok]) (simp_all add: OSIntEnter_def)
  then show ?thesis by (auto simp: sched_turn_def Int_Enter)
next
  case Int_Exit
  define s1 where "s1 = s\<lparr>OSIntNestingCtr := OSIntNestingCtr s - 1\<rparr>"
  have "cur_ok idle s0 s1 ls p c" by (rule cur_ok_cong[OF ok]) (simp_all add: s1_def)
  then have "cur_ok idle s0 s1 ls p c" "\<exists>s'. switch_to_highest s1 = Some s' \<and> cur_ok idle s0 s' ls p c"
    using cur_ok_switch by blast+
  then show ?thesis
    using ok unfolding sched_turn_def Int_Exit OSIntExit_def Let_def s1_def[symmetric] by auto
next
  case Lock
  have "cur_ok idle s0 (snd (OSSchedLock s)) ls p c" by (rule cur_ok_cong[OF ok]) (simp_all add: OSSchedLock_def)
  then show ?thesis by (auto simp: sched_turn_def Lock)
next
  case Unlock
  define s1 where "s1 = s\<lparr>OSSchedLockNestingCtr := OSSchedLockNestingCtr s - 1\<rparr>"
  have "cur_ok idle s0 s1 ls p c" by (rule cur_ok_cong[OF ok]) (simp_all add: s1_def)
  then have "cur_ok idle s0 s1 ls p c" "\<exists>s'. OSSched s1 = Some s' \<and> cur_ok idle s0 s' ls p c"
    using cur_ok_sched by blast+
  then show ?thesis
    using ok unfolding sched_turn_def Unlock OSSchedUnlock_def Let_def s1_def[symmetric] by auto
qed

lemma cur_ok_run:
  "cur_ok idle s0 s ls p c \<Longrightarrow> (\<forall>e\<in>set fs. harmless s0 c e) \<Longrightarrow> Prio (tcb s0 c) = p \<Longrightarrow>
     \<exists>s' ls'. sched_run idle fs s = Some s' \<and> cur_ok idle s0 s' ls' p c"
proof (induction fs arbitrary: s ls)
  case (Cons e fs)
  then show ?case using cur_ok_turn[OF Cons.prems(1), of e] by fastforce
qed auto

lemma cur_ok_has_cpu:
  assumes "cur_ok idle s0 s ls p c"
  shows "has_cpu s c" "Prio (tcb s c) = p"
proof -
  have so: "sched_ok idle s ls" and u: "most_urgent ls p" "hd (ls p) = c" using assms by (simp_all add: cur_ok_def)
  have r: "ready_lists s ls" using so by (simp add: sched_ok_def)
  have c: "c \<in> set (ls p)" using u by (auto simp: most_urgent_def)
  show pc: "Prio (tcb s c) = p" by (rule ready_listsD(2)[OF r c])
  have "p \<le> Prio (tcb s t)" if "TaskState (tcb s t) = OS_TASK_STATE_RDY" for t
  proof -
    have "t \<in> set (ls (Prio (tcb s t)))" using so that by (simp add: sched_ok_def)
    then have "ls (Prio (tcb s t)) \<noteq> []" by auto
    then show ?thesis using u(1) by (simp add: most_urgent_def)
  qed
  then show "has_cpu s c"
    using assms c pc so by (simp add: has_cpu_def cur_ok_def sched_ok_def)
qed

text \<open>
  C38. In every reachable state of the running kernel, outside interrupts and with the scheduler unlocked, the scheduler
  gives the processor to a ready task such that no ready task is more urgent; and as long as that task does not wait and no
  more urgent task becomes ready it keeps the processor, whatever interrupts and locks there are: tasks of one
  priority do not take turns.
\<close>

theorem most_urgent_task_runs:
  assumes "sched_run idle es sched_zero = Some s" "OSRunning s" "OSIntNestingCtr s = 0" "OSSchedLockNestingCtr s = 0"
  shows "\<exists>s' c. OSSched s = Some s' \<and> has_cpu s' c \<and>
    (\<forall>fs. (\<forall>e\<in>set fs. harmless s' c e) \<longrightarrow> (\<exists>s''. sched_run idle fs s' = Some s'' \<and> has_cpu s'' c))"
proof -
  obtain ls where ok: "sched_ok idle s ls" using sched_ok_run[OF sched_ok_start, of idle es] assms(1) by auto
  from switch_ok[OF ok assms(2)] obtain s' p where s': "switch_to_highest s = Some s'" "sched_ok idle s' ls" "OSRunning s'" "most_urgent ls p"
      "OSPrioCur s' = p" "OSTCBCurPtr s' = Some (hd (ls p))" by blast
  define c where "c = hd (ls p)"
  have cur: "cur_ok idle s' s' ls p c" using s' by (simp add: cur_ok_def c_def)
  note cpu = cur_ok_has_cpu[OF cur]
  have "OSSched s = Some s'" using s'(1) assms by (simp add: OSSched_def)
  moreover have "\<exists>s''. sched_run idle fs s' = Some s'' \<and> has_cpu s'' c" if "\<forall>e\<in>set fs. harmless s' c e" for fs
    using cur_ok_run[OF cur that cpu(2)] cur_ok_has_cpu(1) by blast
  ultimately show ?thesis using cpu(1) by blast
qed

text \<open>A run to try things on: the idle task is number 0; tasks 1 and 2 have priority 5, task 3 has priority 6.\<close>

definition example_start :: "sched_event list" where
  "example_start = [Create 0 31, Create 1 5, Create 2 5, Create 3 6, Start]"

lemma example_run:
  "map_option (\<lambda>s. (OSRunning s, OSIntNestingCtr s, OSSchedLockNestingCtr s)) (sched_run 0 example_start sched_zero) =
     Some (True, 0, 0)"
  by code_simp

theorem most_urgent_task_runs_witness:
  "\<exists>s s' c. sched_run 0 example_start sched_zero = Some s \<and> OSSched s = Some s' \<and> has_cpu s' c \<and>
     (\<forall>fs. (\<forall>e\<in>set fs. harmless s' c e) \<longrightarrow> (\<exists>s''. sched_run 0 fs s' = Some s'' \<and> has_cpu s'' c))"
proof -
  obtain s where s: "sched_run 0 example_start sched_zero = Some s" "OSRunning s" "OSIntNestingCtr s = 0" "OSSchedLockNestingCtr s = 0"
    using example_run by auto
  show ?thesis using most_urgent_task_runs[OF s] s(1) by blast
qed

text \<open>A more urgent task that an interrupt makes ready takes the processor at once.\<close>

lemma more_urgent_task_preempts:
  assumes cur: "cur_ok idle s s ls p c" and t: "waiting s t" "Prio (tcb s t) < p"
    and "OSIntNestingCtr s = 0" "OSSchedLockNestingCtr s = 0"
  shows "\<exists>s'. sched_run idle [Int_Enter, Wake t, Int_Exit] s = Some s' \<and> OSTCBCurPtr s' = Some t"
proof -
  define s1 where "s1 = s\<lparr>OSIntNestingCtr := 1\<rparr>"
  have run: "OSRunning s" using cur by (simp add: cur_ok_def)
  have 1: "OSIntEnter s = s1" using run assms(4) by (simp add: OSIntEnter_def s1_def)
  define q where "q = Prio (tcb s1 t)"
  have q: "q < p" "q \<noteq> OSPrioCur s1" using t(2) cur by (auto simp: q_def s1_def cur_ok_def)
  have so: "sched_ok idle s1 ls" by (rule sched_ok_cong[of idle s]) (use cur in \<open>simp_all add: s1_def cur_ok_def\<close>)
  have w: "TaskState (tcb s1 t) \<in> {OS_TASK_STATE_PEND, OS_TASK_STATE_PEND_TIMEOUT}" using t(1) by (simp add: waiting_def s1_def)
  define s2 where "s2 = make_ready t s1"
  note wake = sched_ok_wake[OF so w q_def[symmetric], folded s2_def]
  define ls2 where "ls2 = ls(q := t # ls q)"
  have s2: "sched_ok idle s2 ls2" "OSRunning s2" using wake(1,4) q(2) run by (simp_all add: ls2_def s1_def)
  have nest: "OSIntNestingCtr s2 = 1" "OSSchedLockNestingCtr s2 = 0"
    using assms(5) by (simp_all add: s2_def s1_def make_ready_def tcb_set_def OS_RdyListInsert_def OS_RdyListInsertHead_def
        OS_RdyListInsertTail_def rdy_set_def at_ptr_def Let_def split: option.splits)
  define s3 where "s3 = s2\<lparr>OSIntNestingCtr := 0\<rparr>"
  have s3: "sched_ok idle s3 ls2" "OSRunning s3"
    using s2(2) sched_ok_cong[OF s2(1), of s3] by (simp_all add: s3_def)
  obtain s' r where s': "switch_to_highest s3 = Some s'" "most_urgent ls2 r" "OSTCBCurPtr s' = Some (hd (ls2 r))"
    using switch_ok[OF s3] by blast
  have "most_urgent ls2 q" using cur q(1) by (auto simp: cur_ok_def most_urgent_def ls2_def)
  then have "OSTCBCurPtr s' = Some t" using most_urgent_unique[OF s'(2)] s'(3) by (simp add: ls2_def)
  moreover have "OSIntExit s2 = switch_to_highest s3" using s2(2) nest by (simp add: OSIntExit_def s3_def)
  ultimately show ?thesis using 1 w s'(1) by (simp add: sched_turn_def s2_def)
qed

section \<open>The tasks of the controller\<close>

text \<open>The enabled tasks of \<open>App/app_config.h\<close>, and the kernel's (\<open>uC_CFG/os_cfg_app.h\<close>), with their priorities.\<close>

datatype app_task = Tick_Task | System_Event_Poll | Lwip_Create | System_Poll | System_Event | System_Monitor | Input_Receive
  | Segment_Task | EEPROM_Data | MB_Slave_Poll | MB_Slave_TCP_Server | MB_Master_Poll | MB_Master_Scan_Write
  | MB_Master_Scan_Read | Watchdog_Feed | Tmr_Task | Stat_Task | Idle_Task

fun app_task_prio :: "app_task \<Rightarrow> u8" where
  "app_task_prio Tick_Task = 1"
| "app_task_prio System_Event_Poll = 4" | "app_task_prio Lwip_Create = 4"
| "app_task_prio System_Poll = 5" | "app_task_prio System_Event = 5" | "app_task_prio System_Monitor = 5"
| "app_task_prio Input_Receive = 6" | "app_task_prio Segment_Task = 6"
| "app_task_prio EEPROM_Data = 7"
| "app_task_prio MB_Slave_Poll = 8" | "app_task_prio MB_Slave_TCP_Server = 8" | "app_task_prio MB_Master_Poll = 8"
| "app_task_prio MB_Master_Scan_Write = 9" | "app_task_prio MB_Master_Scan_Read = 9"
| "app_task_prio Watchdog_Feed = 10"
| "app_task_prio Tmr_Task = 11"
| "app_task_prio Stat_Task = 29"
| "app_task_prio Idle_Task = 31"

text \<open>
  Of two tasks of one priority neither interrupts the other (\<open>OSSched\<close>): so the three tasks that turn a
  change into a message never interrupt one another. But the functions of \<open>system/\<close> run in tasks of three priorities, of
  which the more urgent interrupt the others at any point (\<open>more_urgent_task_preempts\<close>), and nothing locks the object.
\<close>

lemma control_tasks:
  "app_task_prio a = 5 \<longleftrightarrow> a \<in> {System_Poll, System_Event, System_Monitor}"
  "app_task_prio System_Event_Poll < app_task_prio System_Poll" "app_task_prio System_Poll < app_task_prio Tmr_Task"
  by (cases a; simp) simp_all

end
