(* ===== verification/MbStart.thy ===== *)
theory MbStart
  imports MasterProps TcpServer
begin

text \<open>
  How the master comes up: \<open>vModbusMasterInit\<close> (\<open>Module/md_modbus.c\<close>), the registration of its node and the creation
  of its tasks (\<open>FreeModbus/master/functions/mb_m.c\<close>, \<open>mbscan_m.c\<close>), and the devices that \<open>vSystem_Init\<close>
  (\<open>system/system.c\<close>) registers with it. The other theories start from a master that is ready; this one shows that
  it becomes so.
\<close>

section \<open>State\<close>

text \<open>
  What registration sets beside the state of \<open>MbDevs\<close>. Callbacks are present or not, \<open>mi_tasks\<close> tells which tasks have
  been created.
\<close>

record 'v sMBMasterInfo =
  mi :: "'v master"
  mi_eMode :: eMBMode
  mi_pcMBPortName :: "string option"
  mi_Baud_rate :: u32
  ucMasterPollPrio :: u8
  ucMasterScanReadPrio :: u8
  ucMasterScanWritePrio :: u8
  mi_tasks :: "mb_task \<Rightarrow> bool"
  pvMBMasterReceiveCallback :: bool
  pvMBMasterSendCallback :: bool

record sMBMasterNodeInfo =
  mn_eMode :: eMBMode
  mn_Baud_rate :: u32
  mn_pcMBPortName :: "string option"
  mn_ucMinAddr :: u8
  mn_ucMaxAddr :: u8
  mn_ucMasterPollPrio :: u8
  mn_ucMasterScanReadPrio :: u8
  mn_ucMasterScanWritePrio :: u8

definition MBMasterNode :: sMBMasterNodeInfo where
  "MBMasterNode = \<lparr>mn_eMode = MB_RTU, mn_Baud_rate = 9600, mn_pcMBPortName = Some ''UART0'', mn_ucMinAddr = 1,
     mn_ucMaxAddr = 18, mn_ucMasterPollPrio = 11, mn_ucMasterScanReadPrio = 12, mn_ucMasterScanWritePrio = 0\<rparr>"

text \<open>
  Static storage is zero; the queued event means nothing while none is in the queue. \<open>m\<close> is the memory of the
  program and \<open>es\<close> the environment.
\<close>

definition master_zero :: "('v \<Rightarrow> u16) \<Rightarrow> 'v bus_event list list \<Rightarrow> 'v master" where
  "master_zero m es = \<lparr>m_ucSlaveDevMinAddr = 0, m_ucSlaveDevMaxAddr = 0, usSndPDULength = 0, usSndBufferCount = 0,
     m_usRcvBufferPos = 0, usRcvRequestBytes = 0, m_usLength = 0, pucSndBufferCur = 0, pucMasterPDUCur = None,
     pucMBRcvFrame = None, ucMBDestAddr = 0, xFrameIsBroadcast = False, m_eMBState = STATE_ENABLED,
     eRcvState = STATE_M_RX_IDLE, eSndState = STATE_M_TX_IDLE, eCurErrorType = EV_ERROR_RESPOND_TIMEOUT,
     ucRTUSndBuf = replicate 253 0, ucRTURcvBuf = replicate 256 0, m_eQueuedEvent = EV_MASTER_READY,
     eCurTimerMode = MB_TMODE_T35, m_xEventInQueue = False, xWaitFinishInQueue = False, xMBIsFinished = False,
     sMasterPortTmr_runs = False, sConvertDelayTmr_runs = False, sRespondTimeoutTmr_runs = False,
     sMBEventSem = False, sMBIdleMutex = \<lparr>OwnerTCB = None, OwnerNestingCtr = 0, PendList = []\<rparr>,
     uart_rx_int = False, uart_tx_int = False, uart_de_tx = False, uart_out = [],
     m_eMBRunMode = STATE_HEART_BEAT, psMBSlaveDevsList = [], psMBSlaveDevCur = None, ucSlaveDevCount = 0,
     RegHoldValList = replicate 253 0, BitCoilByteValList = replicate 253 0, master_mem = m, bus = es\<rparr>"

definition master_info_zero :: "('v \<Rightarrow> u16) \<Rightarrow> 'v bus_event list list \<Rightarrow> 'v sMBMasterInfo" where
  "master_info_zero m es = \<lparr>mi = master_zero m es, mi_eMode = MB_RTU, mi_pcMBPortName = None, mi_Baud_rate = 0,
     ucMasterPollPrio = 0, ucMasterScanReadPrio = 0, ucMasterScanWritePrio = 0, mi_tasks = (\<lambda>_. False),
     pvMBMasterReceiveCallback = False, pvMBMasterSendCallback = False\<rparr>"

section \<open>Registration\<close>

text \<open>What \<open>OSTaskCreate\<close> reports for a task is the argument \<open>created\<close>.\<close>

definition create_task :: "(mb_task \<Rightarrow> bool) \<Rightarrow> mb_task \<Rightarrow> 'v sMBMasterInfo \<Rightarrow> 'v sMBMasterInfo" where
  "create_task created t v = v\<lparr>mi_tasks := (mi_tasks v)(t := mi_tasks v t \<or> created t)\<rparr>"

text \<open>
  In the modes that are configured out the functions of the stack are not set, and \<open>eMBMasterEnable\<close> calls through a
  null pointer.
\<close>

definition xMBMasterCreatePollTask :: "(mb_task \<Rightarrow> bool) \<Rightarrow> 'v sMBMasterInfo \<Rightarrow> (bool \<times> 'v sMBMasterInfo) option" where
  "xMBMasterCreatePollTask created v =
     (if mi_eMode v \<noteq> MB_RTU then None
      else let (e1, s1) = eMBMasterInit (mi_Baud_rate v) (mi v)
           in if e1 \<noteq> MB_ENOERR then Some (False, v\<lparr>mi := s1\<rparr>)
              else let (e2, s2) = eMBMasterEnable s1
                   in if e2 \<noteq> MB_ENOERR then Some (False, v\<lparr>mi := s2\<rparr>)
                      else Some (created Task_Poll, create_task created Task_Poll (v\<lparr>mi := s2\<rparr>)))"

text \<open>Only the second result is looked at.\<close>

definition xMBMasterCreateScanTask :: "(mb_task \<Rightarrow> bool) \<Rightarrow> 'v sMBMasterInfo \<Rightarrow> bool \<times> 'v sMBMasterInfo" where
  "xMBMasterCreateScanTask created v =
     (created Task_ScanWrite, create_task created Task_ScanWrite (create_task created Task_ScanRead v))"

text \<open>The list of masters is the list of their names; the search ends at a node without one and returns it.\<close>

definition psMBMasterFindNodeByPort :: "string option \<Rightarrow> string option list \<Rightarrow> nat option" where
  "psMBMasterFindNodeByPort name ns =
     (case name of None \<Rightarrow> None
      | Some nm \<Rightarrow> find (\<lambda>i. ns ! i = None \<or> ns ! i = Some nm) [0..<length ns])"

definition xMBMasterRegistNode ::
    "(mb_task \<Rightarrow> bool) \<Rightarrow> sMBMasterNodeInfo \<Rightarrow> 'v sMBMasterInfo \<times> string option list \<Rightarrow>
     (bool \<times> 'v sMBMasterInfo \<times> string option list) option" where
  "xMBMasterRegistNode created node = (\<lambda>(v, ns).
     if mn_pcMBPortName node = None then Some (False, v, ns)
     else if psMBMasterFindNodeByPort (mn_pcMBPortName node) ns = None
     then let v1 = v\<lparr>mi_eMode := mn_eMode node, mi_Baud_rate := mn_Baud_rate node, mi_pcMBPortName := mn_pcMBPortName node,
            mi := (mi v)\<lparr>m_ucSlaveDevMinAddr := mn_ucMinAddr node, m_ucSlaveDevMaxAddr := mn_ucMaxAddr node\<rparr>,
            ucMasterPollPrio := mn_ucMasterPollPrio node, ucMasterScanReadPrio := mn_ucMasterScanReadPrio node,
            ucMasterScanWritePrio := mn_ucMasterScanWritePrio node\<rparr>
          in do { (ok, v2) \<leftarrow> xMBMasterCreatePollTask created v1;
                  (if \<not> ok then Some (False, v2, ns)
                   else let (ok3, v3) = xMBMasterCreateScanTask created v2
                        in if \<not> ok3 then Some (False, v3, ns)
                           else Some (True, v3, ns @ [mi_pcMBPortName v3])) }
     else Some (False, v, ns))"

definition vModbusMasterInit ::
    "(mb_task \<Rightarrow> bool) \<Rightarrow> u8 \<Rightarrow> u8 \<Rightarrow> u8 \<Rightarrow> 'v sMBMasterInfo \<times> string option list \<Rightarrow>
     ('v sMBMasterInfo \<times> string option list) option" where
  "vModbusMasterInit created poll rd wr s =
     do { (ok, v, ns) \<leftarrow> xMBMasterRegistNode created
            (MBMasterNode\<lparr>mn_ucMasterPollPrio := poll, mn_ucMasterScanReadPrio := rd, mn_ucMasterScanWritePrio := wr\<rparr>) s;
          Some (if ok then v\<lparr>pvMBMasterReceiveCallback := True, pvMBMasterSendCallback := True\<rparr> else v, ns) }"

section \<open>The devices of the system\<close>

text \<open>A device as its object's construction leaves it.\<close>

definition new_dev :: "u8 \<Rightarrow> 'v sMBSlaveDevCommData \<Rightarrow> 'v sMBSlaveDev" where
  "new_dev addr d = \<lparr>sd_usProtocolID = 0, sd_ucDevAddr = addr, sd_ucOfflineTimes = 0, sd_xDataReady = False,
     sd_xSynchronized = False, sd_xStateTestRequest = False, sd_xDevOnTimeout = False, sd_xOnLine = False,
     sd_sDevOfflineTmr_runs = False, sd_psDevDataInfo = [d], sd_psDevCurData = None\<rparr>"

definition regist_roof :: "nat \<Rightarrow> bms_name master \<Rightarrow> bms_name master" where
  "regist_roof n = xMBMasterRegistDev (new_dev (1 + of_nat n) (vModularRoof_InitDevCommData n))"

definition regist_co2 :: "nat \<Rightarrow> bms_name master \<Rightarrow> bms_name master" where
  "regist_co2 n = xMBMasterRegistDev (new_dev (3 + of_nat n) (vCO2Sensor_InitDevCommData n 0))"

definition regist_temp_out :: "nat \<Rightarrow> bms_name master \<Rightarrow> bms_name master" where
  "regist_temp_out n = xMBMasterRegistDev (new_dev (6 + of_nat n) (vTempHumiSensor_InitDevCommData (SenOut n) (6 + of_nat n)))"

definition regist_temp_in :: "nat \<Rightarrow> bms_name master \<Rightarrow> bms_name master" where
  "regist_temp_in n = xMBMasterRegistDev (new_dev (7 + of_nat n) (vTempHumiSensor_InitDevCommData (SenIn n) (7 + of_nat n)))"

definition regist_devices :: "bms_name master \<Rightarrow> bms_name master" where
  "regist_devices s = for_loop 12 regist_temp_in (for_loop 1 regist_temp_out (for_loop 3 regist_co2 (for_loop 2 regist_roof s)))"

section \<open>The master is ready\<close>

text \<open>At 9600 baud a pause of three and a half characters is taken as 6 ms.\<close>

lemma timers_9600: "xMBMasterPortTmrsInit (ucast (usTimerT35_50us 9600)) = Some (6, 200, 300)"
proof -
  have "usTimerT35_50us 9600 = 80" by (simp add: usTimerT35_50us_def udiv32_def)
  then show ?thesis by (simp add: xMBMasterPortTmrsInit_def)
qed

lemma rtu_init: "eMBMasterRTUInit 9600 s = (MB_ENOERR, s\<lparr>uart_de_tx := True, uart_rx_int := True, uart_tx_int := False\<rparr>)"
  by (simp add: eMBMasterRTUInit_def Let_def timers_9600 xMB_UartInit_def UART_IntConfig_def UART_INTCFG_defs)

definition started :: "'v master \<Rightarrow> 'v master" where
  "started s = s\<lparr>m_ucSlaveDevMinAddr := 1, m_ucSlaveDevMaxAddr := 18, uart_de_tx := True, uart_rx_int := True,
     uart_tx_int := False, sMBIdleMutex := \<lparr>OwnerTCB = None, OwnerNestingCtr = 0, PendList = []\<rparr>, sMBEventSem := False,
     m_xEventInQueue := False, xWaitFinishInQueue := False, eSndState := STATE_M_TX_IDLE, eRcvState := STATE_M_RX_IDLE,
     m_eMBState := STATE_ENABLED\<rparr>"

text \<open>If the tasks can be created, registration succeeds and a second one is refused; the line driver is left on.\<close>

lemma master_started:
  assumes "\<And>t. created t"
  shows "\<exists>v. vModbusMasterInit created poll rd wr (master_info_zero m es, []) = Some (v, [Some ''UART0'']) \<and>
    mi v = started (master_zero m es) \<and> (\<forall>t. mi_tasks v t) \<and> pvMBMasterSendCallback v \<and>
    ucMasterPollPrio v = poll \<and> ucMasterScanReadPrio v = rd \<and> ucMasterScanWritePrio v = wr \<and>
    xMBMasterRegistNode created MBMasterNode (v, [Some ''UART0'']) = Some (False, v, [Some ''UART0''])"
  using assms
  by (auto simp: vModbusMasterInit_def xMBMasterRegistNode_def psMBMasterFindNodeByPort_def MBMasterNode_def
      xMBMasterCreatePollTask_def xMBMasterCreateScanTask_def create_task_def master_info_zero_def eMBMasterInit_def
      rtu_init eMBMasterEnable_def vMBMasterRTUStart_def xMBMasterPortEventInit_def started_def Let_def
      intro: mb_task.exhaust)

text \<open>Registering a device changes the list of devices only.\<close>

lemma regist_dev_keeps: "master_ready cur addr (xMBMasterRegistDev d s) = master_ready cur addr s"
  by (simp add: xMBMasterRegistDev_def master_ready_def link_idle_def bus_free_for_def)

lemma regist_dev_simps:
  "psMBSlaveDevsList (xMBMasterRegistDev d s) = psMBSlaveDevsList s @ [d]" "sd_ucDevAddr (new_dev addr cd) = addr"
  by (simp_all add: xMBMasterRegistDev_def new_dev_def)

lemma regist_loop:
  fixes s :: "bms_name master"
  assumes "\<And>n t. body n t = xMBMasterRegistDev (new_dev (a + of_nat n) (d n)) (t :: bms_name master)"
  shows "map sd_ucDevAddr (psMBSlaveDevsList (for_loop N body s)) =
      map sd_ucDevAddr (psMBSlaveDevsList s) @ map (\<lambda>n. a + of_nat n) [0..<N] \<and>
    master_ready cur addr (for_loop N body s) = master_ready cur addr s"
  by (induction N) (simp_all add: for_loop_Suc assms regist_dev_keeps regist_dev_simps)

lemma devices_registered:
  "map sd_ucDevAddr (psMBSlaveDevsList (regist_devices s)) = map sd_ucDevAddr (psMBSlaveDevsList s) @ map of_nat [1..<19] \<and>
   master_ready cur addr (regist_devices s) = master_ready cur addr s"
  unfolding regist_devices_def
  using regist_loop[where body = regist_temp_in and N = 12] regist_loop[where body = regist_temp_out and N = 1]
    regist_loop[where body = regist_co2 and N = 3] regist_loop[where body = regist_roof and N = 2]
  by (simp add: regist_temp_in_def regist_temp_out_def regist_co2_def regist_roof_def upt_rec del: for_loop_numeral)

lemma started_ready:
  assumes "1 \<le> addr" "addr \<le> 18"
  shows "master_ready cur addr (started (master_zero m es))"
proof -
  have "addr \<noteq> 0" using assms(1) by auto
  with assms show ?thesis by (simp add: master_ready_def link_idle_def bus_free_for_def started_def master_zero_def)
qed

text \<open>
  After start and registration the master has eighteen devices, at the addresses 1 to 18, and is ready to send a
  request of any of its tasks to each of them: the hypothesis of the properties of requests holds from the start.
\<close>

theorem started_master_serves_every_device:
  assumes "\<And>t. created t"
  shows "\<exists>v. vModbusMasterInit created poll rd wr (master_info_zero m es, []) = Some (v, [Some ''UART0'']) \<and>
    map sd_ucDevAddr (psMBSlaveDevsList (regist_devices (mi v))) = map of_nat [1..<19] \<and>
    (\<forall>d \<in> set (psMBSlaveDevsList (regist_devices (mi v))). \<forall>cur. master_ready cur (sd_ucDevAddr d) (regist_devices (mi v)))"
proof -
  obtain v where v: "vModbusMasterInit created poll rd wr (master_info_zero m es, []) = Some (v, [Some ''UART0''])"
    "mi v = started (master_zero m es)"
    using master_started[of created poll rd wr m es] assms by blast
  have addrs: "map sd_ucDevAddr (psMBSlaveDevsList (regist_devices (mi v))) = map of_nat [1..<19]"
    using devices_registered[of "mi v"] by (simp add: v(2) started_def master_zero_def)
  have "master_ready cur (sd_ucDevAddr d) (regist_devices (mi v))"
    if "d \<in> set (psMBSlaveDevsList (regist_devices (mi v)))" for d cur
  proof -
    have "sd_ucDevAddr d \<in> set (map of_nat [1..<19])" using that addrs by (metis image_eqI list.set_map)
    then have "1 \<le> sd_ucDevAddr d" "sd_ucDevAddr d \<le> 18" by (auto simp: word_le_nat_alt unsigned_of_nat take_bit_nat_eq_self)
    then show ?thesis using devices_registered[of "mi v" cur "sd_ucDevAddr d"] started_ready by (simp add: v(2))
  qed
  with v addrs show ?thesis by blast
qed

end
