(* ===== verification/Spec2Isabelle.thy ===== *)
theory Spec2Isabelle
  imports FanDemand MbCrc SlaveProps TimerProps UnitProps Inputs DevRead BusOwner MonitorProps EepromProps Board TcpServer Sched MbStart
begin

text \<open>
  Verification of the ventilation controller GreeIntense: a LPC4078 firmware on uC/OS-III that
  runs two rooftop air-conditioning units and four exhaust fans of a livestock house, reads CO2,
  temperature and humidity sensors over Modbus, and is itself a Modbus slave of a supervisor (BMS).

  \<^bold>\<open>How the program is put together.\<close> One object \<open>System\<close> (\<open>system/system.h\<close>) holds pointers to the
  device objects (\<open>Device/fan.c\<close>, \<open>Device/modularRoof.c\<close>, \<open>Device/sensor.c\<close>) and the settings. The
  Modbus tasks write device registers and the register image \<open>BMS\<close>; a monitor task posts the
  address of every changed variable to the event task, which calls a function of \<open>system/*.c\<close> for
  it; these functions switch devices, start software timers (\<open>Module/md_timer.c\<close> over
  \<open>uCOS/uCOS_III/Source/os_tmr.c\<close>) and write outputs (\<open>Module/md_output.c\<close>). The timers call back
  into the same functions, and a poll task does every ten seconds.

  \<^bold>\<open>The theories\<close>, each importing the one before unless said otherwise:

  \<^item> \<open>Prelude\<close>: machine integers, counted loops, list lemmas; locale \<open>dev_switch\<close>, the contract of
    the interface \<open>IDevSwitch\<close> (\<open>Device/device.h\<close>).
  \<^item> \<open>Timers\<close>: \<open>os_tmr.c\<close> and \<open>md_timer.c\<close>; well-formedness of the timer list, effect of
    \<open>xTimerRegist\<close> and \<open>xTmrStop\<close>, expiry of one-shot timers; locale \<open>timer_service\<close>,
    interpreted on the wrapper as \<open>md_timer\<close>.
  \<^item> \<open>IO\<close>: pins, relays, PWM and DAC outputs (\<open>md_output.c\<close>), registration of inputs
    (\<open>md_input.c\<close>); footprints, independence of the relays.
  \<^item> \<open>Fan\<close>: class \<open>ExAirFan\<close>; each operation refines a function on the fan's own fields
    (\<open>fan_step\<close>); relay invariant, detection of control errors; interpretation \<open>fan_switch\<close>.
  \<^item> \<open>Roof\<close>: class \<open>ModularRoof\<close>; interpretation \<open>roof_switch\<close>.
  \<^item> \<open>SampleFilter\<close> (imports \<open>Prelude\<close>): locale \<open>sample_filter\<close>, the five-sample averaging filter.
  \<^item> \<open>Sensor\<close> (imports \<open>Roof\<close> and \<open>SampleFilter\<close>): the two sensor classes, four interpretations of
    the filter.
  \<^item> \<open>SysState\<close>: the state of \<open>System\<close> and \<open>BMS\<close>, default data, alarm (\<open>system/systemctrl.c\<close>).
  \<^item> \<open>Frames\<close>: which parts of the state the operations leave alone.
  \<^item> \<open>FanSort\<close>: the bubble sort of \<open>fanctrl.c\<close> is the library's stable sort.
  \<^item> \<open>FanCtrl\<close>, \<open>UnitCtrl\<close>, \<open>SensorCtrl\<close>, \<open>SystemCtrl\<close>, \<open>SystemMain\<close>: the files of \<open>system/\<close>
    function by function.
  \<^item> \<open>Reach\<close>: the transition system of events, polls, timer callbacks and inputs; the invariant of
    all reachable states.
  \<^item> \<open>FanProps\<close>, \<open>FanDemand\<close>: what exhaust control achieves: which fans are switched, in which order,
    how many, at which frequency.
  \<^item> \<open>TimerProps\<close> (imports \<open>Timers\<close>): the timer list as countdowns, when timers fire.
  \<^item> \<open>UnitProps\<close> (imports \<open>FanProps\<close>): running mode graph and dwell times, alarm, unit failures.
  \<^item> \<open>Inputs\<close> (imports \<open>Sensor\<close>): polling of digital and analogue inputs (\<open>md_input.c\<close>), conversion of
    currents, voltages and resistances.
  \<^item> \<open>MbCrc\<close> (imports \<open>Prelude\<close>): the CRC routines of the Modbus frames.
  \<^item> \<open>MbSlave\<close> (imports \<open>Prelude\<close>): the Modbus/TCP slave of \<open>FreeModbus/slave\<close>: dictionaries, handlers,
    frames, polling loop. \<open>MbRegs\<close>, \<open>MbCoils\<close>: its loops as specifications; locales
    \<open>register_dict\<close> and \<open>coil_dict\<close>, the contract between the stack and a device's dictionary.
  \<^item> \<open>BmsDict\<close>: the supervisor's dictionary (\<open>Device/bms.c\<close>); interpretations \<open>bms_regs\<close> and
    \<open>bms_coils\<close>. \<open>SlaveProps\<close>: what requests of the supervisor achieve, errors included. \<open>TcpServer\<close>:
    the server task that accepts connections, interleaved with the poll task (a run is a list of turns of either); when
    the interface is shut and when a new connection is served.
  \<^item> \<open>MbLink\<close> (imports \<open>MbSlave\<close> and \<open>MbCrc\<close>): the serial line of the Modbus master: mutex of the bus, event
    queue, timers, UART interrupts and RTU frames. \<open>MbDevs\<close>: the dictionaries of the devices and the callbacks
    that move values between them and replies. \<open>MbMaster\<close>: polling, requests and function handlers.
    \<open>MbScan\<close>: the tasks that scan, test and write the devices (\<open>mbscan_m.c\<close>, \<open>mbtest_m.c\<close>).
  \<^item> \<open>DevDicts\<close> (imports \<open>MbDevs\<close>): dictionaries of the rooftop unit, the sensors and the meter; locales
    \<open>hold_dict\<close> and \<open>exact_dict\<close>, the contract between the master and a device's dictionary, and their
    interpretations.
  \<^item> \<open>WireProps\<close>, \<open>MasterProps\<close>, \<open>DevRead\<close>: what a request puts on the line, how it fails, and what a
    successful read stores. \<open>ScanPlan\<close>: the blocks a scan reads. \<open>BusOwner\<close>: who owns the bus. \<open>MbStart\<close>: the
    start of the master and the devices registered with it, after which a request can go to each of them.
  \<^item> \<open>Monitor\<close> (imports \<open>SystemMain\<close>): how a changed variable reaches its handler: registration of variables and
    events, the monitor task (\<open>md_monitor.c\<close>), the event task (\<open>md_event.c\<close>), messages to tasks
    (\<open>os_task.c\<close>, \<open>os_msg.c\<close>). \<open>MonitorProps\<close> (imports \<open>Reach\<close> too): which changes are handled.
  \<^item> \<open>Eeprom\<close> (imports \<open>Prelude\<close>): the parameter memory, \<open>md_eeprom.c\<close> over \<open>lpc_eeprom.c\<close>, with RAM as a function
    of addresses. \<open>EepromProps\<close>: which variables survive a power cycle.
  \<^item> \<open>Board\<close> (imports \<open>Inputs\<close>): lamps, display of the controller's number, clock and watchdog
    (\<open>md_led.c\<close>, \<open>md_segment.c\<close>, \<open>md_rtc.c\<close>, \<open>md_watchdog.c\<close> over \<open>ChipDriver\<close>), start of the outputs and
    inputs (\<open>vOutputInit\<close>, \<open>vInputInit\<close>); the display shows the number the switches give, the clock returns
    the time it was set to, and the relays and lamps start off.
  \<^item> \<open>Sched\<close> (imports \<open>Prelude\<close>): the kernel's priority table, ready lists and scheduler (\<open>os_prio.c\<close>, \<open>os_core.c\<close>) and
    the priorities of the tasks (\<open>App/app_config.h\<close>): which task has the processor, and which can interrupt which.

  \<^bold>\<open>Correspondence.\<close> A structure is a record, extended along \<open>EXTENDS\<close>; the system object is a tower
  of records (\<open>os\<close>, \<open>io\<close>, \<open>fan_sys\<close>, \<open>roof_sys\<close>, \<open>sensor_sys\<close>, \<open>sys\<close>), so that the functions of each
  layer are polymorphic in the layers above. A C function \<open>f(pThis, x)\<close> is \<open>f x s\<close>, the new state;
  a pointer to an object of a list is its index. \<open>uint8_t\<close>, \<open>uint16_t\<close>, \<open>uint32_t\<close> are words; the
  sums C computes in \<open>int\<close> are written in \<open>int\<close>. Names that clash carry a prefix (\<open>mr_\<close> unit, \<open>sen_\<close>
  sensor, \<open>dev_\<close> device, \<open>bms_\<close> register image, \<open>g_\<close> file variable). Uninitialised locals are
  arguments (\<open>stack_values\<close>). Debug output is left out.

  In the master an access outside a buffer gives \<open>None\<close>, and a request whose task has to wait for the bus
  returns no code. What interrupts, timers and the poll task do while a request waits for its reply is the
  schedule \<open>bus\<close> of the state: one list of events for each delay of 200 ms, of which a request
  makes at most ten. The properties hold for every schedule.

  In \<open>Eeprom\<close>, programming a page is done by the chip: the parameter \<open>prog\<close>, of which \<open>programs_written\<close>
  states what the manual of the chip says, that bytes written are programmed. Where the linker puts the buffers is the
  record \<open>layout\<close>; \<open>layout_ok\<close> says that they do not overlap.

  \<^bold>\<open>Fuel.\<close> Only the traversal of the timer list needs it (\<open>tmr_loop\<close>): the length of the list, which
  \<open>OS_TmrTask_pass_quiet\<close> shows to be enough when the callbacks leave the timers alone.

  \<^bold>\<open>Not modelled.\<close> Preemption inside a function (\<open>Sched\<close> shows between which tasks it can happen); of the
  kernel, the lists of waiting tasks, timeouts and changes of priority; creation of tasks other than those
  of the Modbus stacks; the modes of the Modbus stacks that are configured
  out; functions and directions of pins, set-up of the serial ports and the converter of the inputs; the network
  stack.
\<close>

end
